(* ===== verification/Prelude.thy ===== *)
theory Prelude
  imports Main "HOL-Library.State_Monad" "HOL-Library.Word"
begin

text \<open>
  Shared vocabulary of the liteboxd verification: Go values that every component uses
  (errors, times, durations, byte strings), the state monad in which the components are
  written, and the three small calculi their proofs rest on: \<open>wp\<close> (what a program
  returns and leaves behind), \<open>state_io_rel\<close> over a preorder (what no program of a
  component may change), and keyed tables (rows of a SQL table).
\<close>

named_theorems wp_simps \<open>weakest preconditions of the program constructors\<close>
named_theorems io_rules \<open>structural rules for relations every step of a program respects\<close>

section \<open>Errors\<close>

text \<open>
  A Go error value. \<open>SqlErr\<close> is what the database driver returns, \<open>NotFound\<close> and
  \<open>ApiErr\<close> what the Kubernetes API returns (\<open>NotFound\<close> is the reason
  \<open>apierrors.IsNotFound\<close> looks for), \<open>Msg\<close> a plain \<open>errors.New\<close> or
  \<open>fmt.Errorf\<close>, \<open>Wrap\<close> a \<open>fmt.Errorf\<close> with the verb for wrapping.
  \<open>GoPanic\<close> is not an error value but a panic: it leaves every function on the way up.
\<close>

datatype go_err =
    SqlErr string
  | NotFound string
  | ApiErr string
  | Msg string
  | Wrap string go_err
  | GoPanic string

primrec err_text :: "go_err \<Rightarrow> string" where
  "err_text (SqlErr s) = s"
| "err_text (NotFound s) = s"
| "err_text (ApiErr s) = s"
| "err_text (Msg s) = s"
| "err_text (Wrap s e) = s @ '': '' @ err_text e"
| "err_text (GoPanic s) = s"

text \<open>\<open>apierrors.IsNotFound\<close> unwraps.\<close>

fun is_not_found :: "go_err \<Rightarrow> bool" where
  "is_not_found (NotFound s) = True"
| "is_not_found (Wrap s e) = is_not_found e"
| "is_not_found _ = False"

type_synonym 'a res = "go_err + 'a"

section \<open>Time and 64-bit integers\<close>

text \<open>
  A \<open>time.Time\<close> is a number of nanoseconds; a \<open>time.Duration\<close> is an \<open>int64\<close> of
  nanoseconds, so products of durations wrap and \<open>Time.Sub\<close> saturates.
\<close>

type_synonym time = int
type_synonym duration = int

definition wrap64 :: "int \<Rightarrow> int" where
  "wrap64 x = (x + 2 ^ 63) mod 2 ^ 64 - 2 ^ 63"

definition maxDuration :: duration where "maxDuration = 2 ^ 63 - 1"
definition minDuration :: duration where "minDuration = - (2 ^ 63)"

definition time_sub :: "time \<Rightarrow> time \<Rightarrow> duration" where
  "time_sub a b = max minDuration (min maxDuration (a - b))"

abbreviation second :: duration where "second \<equiv> 1000000000"
abbreviation minute :: duration where "minute \<equiv> 60000000000"

lemma wrap64_id: "- (2 ^ 63) \<le> x \<Longrightarrow> x < 2 ^ 63 \<Longrightarrow> wrap64 x = x"
  by (simp add: wrap64_def)

lemma wrap64_nonneg: "0 \<le> x \<Longrightarrow> x < 2 ^ 63 \<Longrightarrow> wrap64 x = x"
  by (simp add: wrap64_def)

lemma wrap64_range: "- (2 ^ 63) \<le> wrap64 x \<and> wrap64 x < 2 ^ 63"
  by (simp add: wrap64_def)

lemma wrap64_dvd: "2 ^ 64 dvd wrap64 x - x"
proof -
  have "2 ^ 64 dvd (x + 2 ^ 63) mod 2 ^ 64 - (x + 2 ^ 63)"
    by (rule iffD1 [OF mod_eq_dvd_iff]) (rule mod_mod_trivial)
  then show ?thesis
    by (simp add: wrap64_def algebra_simps)
qed

lemma wrap64_mult: "wrap64 (a * wrap64 x) = wrap64 (a * x)"
proof -
  have "2 ^ 64 dvd (a * wrap64 x + 2 ^ 63) - (a * x + 2 ^ 63)"
    using dvd_mult [OF wrap64_dvd, of a x] by (simp only: right_diff_distrib add_diff_cancel_right)
  then have "(a * wrap64 x + 2 ^ 63) mod 2 ^ 64 = (a * x + 2 ^ 63) mod 2 ^ 64"
    by (simp only: mod_eq_dvd_iff)
  then show ?thesis
    by (simp only: wrap64_def)
qed

lemma wrap64_multiple: "wrap64 (k * 2 ^ 64) = 0"
  unfolding wrap64_def by (simp only: mod_mult_self3) simp

lemma wrap64_word: "wrap64 x = sint (word_of_int x :: 64 word)"
  by (simp add: wrap64_def sint_uint signed_take_bit_eq_take_bit_shift take_bit_eq_mod
      uint_word_of_int word_size mod_add_left_eq)

lemma time_sub_eq:
  "minDuration \<le> a - b \<Longrightarrow> a - b \<le> maxDuration \<Longrightarrow> time_sub a b = a - b"
  by (simp add: time_sub_def)

lemma time_sub_ge_iff:
  "minDuration < d \<Longrightarrow> d \<le> maxDuration \<Longrightarrow> d \<le> time_sub a b \<longleftrightarrow> d \<le> a - b"
  by (auto simp: time_sub_def minDuration_def maxDuration_def)

section \<open>Programs\<close>

text \<open>
  A function of the code that reads or changes state is a program \<open>('w, 'a) state\<close> of
  HOL-Library. \<open>ret\<close> returns; \<open>seqE\<close> runs a fallible program and continues only
  with its value, as \<open>if err != nil { return ..., err }\<close> does.
\<close>

abbreviation ret :: "'a \<Rightarrow> ('w, 'a) state" where
  "ret \<equiv> State_Monad.return"

abbreviation retE :: "'a \<Rightarrow> ('w, 'a res) state" where
  "retE x \<equiv> State_Monad.return (Inr x)"

abbreviation throw :: "go_err \<Rightarrow> ('w, 'a res) state" where
  "throw e \<equiv> State_Monad.return (Inl e)"

definition seqE :: "('w, 'a res) state \<Rightarrow> ('a \<Rightarrow> ('w, 'b res) state) \<Rightarrow> ('w, 'b res) state" where
  "seqE m f = State_Monad.bind m (\<lambda>r. case r of Inl e \<Rightarrow> throw e | Inr x \<Rightarrow> f x)"

definition mapE :: "(go_err \<Rightarrow> go_err) \<Rightarrow> ('w, 'a res) state \<Rightarrow> ('w, 'a res) state" where
  "mapE g m = State_Monad.bind m (\<lambda>r. ret (case r of Inl e \<Rightarrow> Inl (g e) | Inr x \<Rightarrow> Inr x))"

text \<open>A program that performs one step of the state, and a loop over a list.\<close>

definition step_with :: "('w \<Rightarrow> 'a \<times> 'w) \<Rightarrow> ('w, 'a) state" where
  "step_with f = State f"

fun for_each :: "('x \<Rightarrow> ('w, unit) state) \<Rightarrow> 'x list \<Rightarrow> ('w, unit) state" where
  "for_each f [] = ret ()"
| "for_each f (x # xs) = do { f x; for_each f xs }"

text \<open>The loop that returns at the first error of its body.\<close>

fun for_eachE :: "('x \<Rightarrow> ('w, unit res) state) \<Rightarrow> 'x list \<Rightarrow> ('w, unit res) state" where
  "for_eachE f [] = retE ()"
| "for_eachE f (x # xs) = seqE (f x) (\<lambda>_. for_eachE f xs)"

section \<open>Weakest preconditions\<close>

definition wp :: "('w, 'a) state \<Rightarrow> ('a \<Rightarrow> 'w \<Rightarrow> bool) \<Rightarrow> 'w \<Rightarrow> bool" where
  "wp m Q w = (case run_state m w of (a, w') \<Rightarrow> Q a w')"

lemma wp_run: "run_state m w = (a, w') \<Longrightarrow> wp m Q w \<longleftrightarrow> Q a w'"
  by (simp add: wp_def)

lemma wp_alt: "wp m Q w \<longleftrightarrow> Q (fst (run_state m w)) (snd (run_state m w))"
  by (simp add: wp_def case_prod_beta)

lemma wp_ret [wp_simps]: "wp (ret x) Q = Q x"
  by (simp add: wp_def fun_eq_iff)

lemma wp_bind [wp_simps]: "wp (State_Monad.bind m f) Q = wp m (\<lambda>a. wp (f a) Q)"
  by (simp add: wp_def fun_eq_iff split: prod.split)

lemma wp_step_with [wp_simps]: "wp (step_with f) Q w \<longleftrightarrow> (case f w of (a, w') \<Rightarrow> Q a w')"
  by (simp add: wp_def step_with_def)

lemma wp_if [wp_simps]: "wp (if b then m else n) Q w \<longleftrightarrow> (if b then wp m Q w else wp n Q w)"
  by simp

lemma wp_seqE [wp_simps]:
  "wp (seqE m f) Q w \<longleftrightarrow> wp m (\<lambda>r w'. case r of Inl e \<Rightarrow> Q (Inl e) w' | Inr x \<Rightarrow> wp (f x) Q w') w"
  by (simp add: seqE_def wp_def split: prod.split sum.split)

lemma wp_mapE [wp_simps]:
  "wp (mapE g m) Q w \<longleftrightarrow> wp m (\<lambda>r. Q (case r of Inl e \<Rightarrow> Inl (g e) | Inr x \<Rightarrow> Inr x)) w"
  by (simp add: mapE_def wp_def split: prod.split)

lemma wp_mono: "wp m Q w \<Longrightarrow> (\<And>a w'. Q a w' \<Longrightarrow> R a w') \<Longrightarrow> wp m R w"
  by (simp add: wp_alt)

lemma wp_conj: "wp m Q w \<Longrightarrow> wp m R w \<Longrightarrow> wp m (\<lambda>a w'. Q a w' \<and> R a w') w"
  by (simp add: wp_alt)

lemma run_seqE:
  "run_state (seqE m f) w =
     (case run_state m w of (Inl e, w') \<Rightarrow> (Inl e, w') | (Inr x, w') \<Rightarrow> run_state (f x) w')"
  by (simp add: seqE_def split: prod.split sum.split)

lemma run_mapE:
  "run_state (mapE g m) w =
     (case run_state m w of (Inl e, w') \<Rightarrow> (Inl (g e), w') | (Inr x, w') \<Rightarrow> (Inr x, w'))"
  by (simp add: mapE_def split: prod.split sum.split)

lemma run_step_with: "run_state (step_with f) w = f w"
  by (simp add: step_with_def)

section \<open>Relations that every step of a program respects\<close>

text \<open>
  Invariants (\<open>\<lambda>w w'. I w \<longrightarrow> I w'\<close>) and frame conditions (some part of the world
  is unchanged) are both preorders on worlds. For a preorder, \<open>state_io_rel\<close> of
  HOL-Library is closed under the constructors of programs; a client proves that its
  operations respect the relation by composing the rules below.
\<close>

locale world_preorder =
  fixes R :: "'w \<Rightarrow> 'w \<Rightarrow> bool"
  assumes rel_refl: "R w w"
    and rel_trans: "R u v \<Longrightarrow> R v w \<Longrightarrow> R u w"
begin

lemma io_ret: "state_io_rel R (ret x)"
  by (auto simp: rel_refl)

lemma io_bind:
  "state_io_rel R m \<Longrightarrow> (\<And>a. state_io_rel R (f a)) \<Longrightarrow> state_io_rel R (State_Monad.bind m f)"
  unfolding state_io_rel_def by (auto split: prod.split intro: rel_trans)

lemma io_seqE:
  "state_io_rel R m \<Longrightarrow> (\<And>x. state_io_rel R (f x)) \<Longrightarrow> state_io_rel R (seqE m f)"
  unfolding seqE_def by (rule io_bind) (auto split: sum.split intro: io_ret)

lemma io_mapE: "state_io_rel R m \<Longrightarrow> state_io_rel R (mapE g m)"
  unfolding mapE_def by (rule io_bind) (auto intro: io_ret)

lemma io_if:
  "(b \<Longrightarrow> state_io_rel R m) \<Longrightarrow> (\<not> b \<Longrightarrow> state_io_rel R n) \<Longrightarrow> state_io_rel R (if b then m else n)"
  by simp

lemma io_option:
  "(x = None \<Longrightarrow> state_io_rel R m) \<Longrightarrow> (\<And>y. x = Some y \<Longrightarrow> state_io_rel R (f y)) \<Longrightarrow>
   state_io_rel R (case x of None \<Rightarrow> m | Some y \<Rightarrow> f y)"
  by (cases x) simp_all

lemma io_sum:
  "(\<And>e. x = Inl e \<Longrightarrow> state_io_rel R (g e)) \<Longrightarrow> (\<And>y. x = Inr y \<Longrightarrow> state_io_rel R (f y)) \<Longrightarrow>
   state_io_rel R (case x of Inl e \<Rightarrow> g e | Inr y \<Rightarrow> f y)"
  by (cases x) simp_all

lemma io_prod:
  "(\<And>a b. x = (a, b) \<Longrightarrow> state_io_rel R (f a b)) \<Longrightarrow> state_io_rel R (case x of (a, b) \<Rightarrow> f a b)"
  by (cases x) simp

lemma io_let: "state_io_rel R (f x) \<Longrightarrow> state_io_rel R (Let x f)"
  by (simp add: Let_def)

lemma io_for_each:
  "(\<And>x. x \<in> set xs \<Longrightarrow> state_io_rel R (f x)) \<Longrightarrow> state_io_rel R (for_each f xs)"
  by (induction xs) (auto intro!: io_ret io_bind)

lemma io_for_eachE:
  "(\<And>x. x \<in> set xs \<Longrightarrow> state_io_rel R (f x)) \<Longrightarrow> state_io_rel R (for_eachE f xs)"
  by (induction xs) (auto intro!: io_ret io_seqE)

lemmas io_structure =
  io_ret io_bind io_seqE io_mapE io_if io_option io_sum io_prod io_let io_for_each io_for_eachE

end

lemma io_relD: "state_io_rel R m \<Longrightarrow> R w (snd (run_state m w))"
  by (simp add: state_io_rel_def)

lemma io_step_with: "state_io_rel R (step_with f) \<longleftrightarrow> (\<forall>w. R w (snd (f w)))"
  by (simp add: state_io_rel_def run_step_with)

lemma io_rel_wp: "state_io_rel R m \<Longrightarrow> wp m (\<lambda>_. R w) w"
  by (simp add: wp_alt state_io_rel_def)

end
