(* ===== verification/Go_Strings.thy ===== *)
theory Go_Strings
  imports Prelude
begin

text \<open>
  The functions of Go's \<open>strings\<close>, \<open>strconv\<close> and \<open>fmt\<close> packages that the
  components call, on byte strings, and the laws about them the components use.
  \<open>strings.ToLower\<close> is written out on ASCII strings; on other strings it is an argument
  (\<open>ulow\<close>), so that what is proved holds for every Unicode table.
\<close>

definition has_prefix :: "string \<Rightarrow> string \<Rightarrow> bool" where
  "has_prefix p s \<longleftrightarrow> take (length p) s = p"

definition has_suffix :: "string \<Rightarrow> string \<Rightarrow> bool" where
  "has_suffix p s \<longleftrightarrow> length p \<le> length s \<and> drop (length s - length p) s = p"

definition trim_prefix :: "string \<Rightarrow> string \<Rightarrow> string" where
  "trim_prefix p s = (if has_prefix p s then drop (length p) s else s)"

definition trim_suffix :: "string \<Rightarrow> string \<Rightarrow> string" where
  "trim_suffix p s = (if has_suffix p s then take (length s - length p) s else s)"

fun contains_str :: "string \<Rightarrow> string \<Rightarrow> bool" where
  "contains_str [] p \<longleftrightarrow> p = []"
| "contains_str (x # xs) p \<longleftrightarrow> has_prefix p (x # xs) \<or> contains_str xs p"

text \<open>The UTF-8 encodings of the runes for which \<open>unicode.IsSpace\<close> holds.\<close>

definition space_runes :: "string list" where
  "space_runes =
     [[CHR 0x09], [CHR 0x0A], [CHR 0x0B], [CHR 0x0C], [CHR 0x0D], [CHR 0x20],
      [CHR 0xC2, CHR 0x85], [CHR 0xC2, CHR 0xA0], [CHR 0xE1, CHR 0x9A, CHR 0x80],
      [CHR 0xE2, CHR 0x80, CHR 0x80], [CHR 0xE2, CHR 0x80, CHR 0x81],
      [CHR 0xE2, CHR 0x80, CHR 0x82], [CHR 0xE2, CHR 0x80, CHR 0x83],
      [CHR 0xE2, CHR 0x80, CHR 0x84], [CHR 0xE2, CHR 0x80, CHR 0x85],
      [CHR 0xE2, CHR 0x80, CHR 0x86], [CHR 0xE2, CHR 0x80, CHR 0x87],
      [CHR 0xE2, CHR 0x80, CHR 0x88], [CHR 0xE2, CHR 0x80, CHR 0x89],
      [CHR 0xE2, CHR 0x80, CHR 0x8A], [CHR 0xE2, CHR 0x80, CHR 0xA8],
      [CHR 0xE2, CHR 0x80, CHR 0xA9], [CHR 0xE2, CHR 0x80, CHR 0xAF],
      [CHR 0xE2, CHR 0x81, CHR 0x9F], [CHR 0xE3, CHR 0x80, CHR 0x80]]"

function trim_with :: "string list \<Rightarrow> string \<Rightarrow> string" where
  "trim_with runes s =
     (case find (\<lambda>p. p \<noteq> [] \<and> has_prefix p s) runes of
        None \<Rightarrow> s
      | Some p \<Rightarrow> trim_with runes (drop (length p) s))"
  by pat_completeness auto
termination
  by (relation "measure (\<lambda>(runes, s). length s)")
     (auto simp: find_Some_iff has_prefix_def, metis diff_less length_greater_0_conv take_Nil)

declare trim_with.simps [simp del]

definition trim_space :: "string \<Rightarrow> string" where
  "trim_space s = (let t = trim_with space_runes s
                   in rev (trim_with (map rev space_runes) (rev t)))"

definition ascii_lower :: "char \<Rightarrow> char" where
  "ascii_lower c = (if 65 \<le> (of_char c :: nat) \<and> (of_char c :: nat) \<le> 90
                    then char_of ((of_char c :: nat) + 32) else c)"

definition is_ascii :: "string \<Rightarrow> bool" where
  "is_ascii s \<longleftrightarrow> list_all (\<lambda>c. (of_char c :: nat) < 128) s"

definition to_lower :: "(string \<Rightarrow> string) \<Rightarrow> string \<Rightarrow> string" where
  "to_lower ulow s = (if is_ascii s then map ascii_lower s else ulow s)"

text \<open>\<open>strings.EqualFold\<close> against an ASCII constant.\<close>

definition equal_fold :: "string \<Rightarrow> string \<Rightarrow> bool" where
  "equal_fold s t \<longleftrightarrow> map ascii_lower s = map ascii_lower t"

text \<open>\<open>strings.Split\<close> at a one-byte separator and \<open>strings.Join\<close>.\<close>

fun split_char :: "char \<Rightarrow> string \<Rightarrow> string list" where
  "split_char c [] = [[]]"
| "split_char c (x # xs) =
     (if x = c then [] # split_char c xs
      else case split_char c xs of [] \<Rightarrow> [[x]] | y # ys \<Rightarrow> (x # y) # ys)"

fun join :: "string \<Rightarrow> string list \<Rightarrow> string" where
  "join sep [] = []"
| "join sep [x] = x"
| "join sep (x # y # zs) = x @ sep @ join sep (y # zs)"

text \<open>Decimal output of \<open>strconv.Itoa\<close> and of the verb \<open>d\<close>.\<close>

definition digit_char :: "nat \<Rightarrow> char" where
  "digit_char n = char_of (48 + n)"

fun show_nat :: "nat \<Rightarrow> string" where
  "show_nat n = (if n < 10 then [digit_char n] else show_nat (n div 10) @ [digit_char (n mod 10)])"

declare show_nat.simps [simp del]

definition show_int :: "int \<Rightarrow> string" where
  "show_int i = (if i < 0 then ''-'' @ show_nat (nat (- i)) else show_nat (nat i))"

text \<open>The verb \<open>q\<close> on strings that need no escape.\<close>

definition quote_str :: "string \<Rightarrow> string" where
  "quote_str s = [CHR 0x22] @ s @ [CHR 0x22]"

text \<open>
  \<open>t.UTC().Format(time.RFC3339)\<close> for a time given in nanoseconds since 1970: the civil date
  is computed from the number of days in the proleptic Gregorian calendar.
\<close>

definition pad_num :: "nat \<Rightarrow> int \<Rightarrow> string" where
  "pad_num n i = (let s = show_int i in replicate (n - length s) (CHR ''0'') @ s)"

definition civil_of_days :: "int \<Rightarrow> int \<times> int \<times> int" where
  "civil_of_days days =
     (let z = days + 719468;
          era = z div 146097;
          doe = z - era * 146097;
          yoe = (doe - doe div 1460 + doe div 36524 - doe div 146096) div 365;
          doy = doe - (365 * yoe + yoe div 4 - yoe div 100);
          mp = (5 * doy + 2) div 153;
          d = doy - (153 * mp + 2) div 5 + 1;
          m = (if mp < 10 then mp + 3 else mp - 9);
          y = yoe + era * 400 + (if m \<le> 2 then 1 else 0)
      in (y, m, d))"

definition format_rfc3339 :: "time \<Rightarrow> string" where
  "format_rfc3339 t =
     (let secs = t div second; (y, m, d) = civil_of_days (secs div 86400); s = secs mod 86400
      in pad_num 4 y @ ''-'' @ pad_num 2 m @ ''-'' @ pad_num 2 d @ ''T'' @
         pad_num 2 (s div 3600) @ '':'' @ pad_num 2 (s mod 3600 div 60) @ '':'' @ pad_num 2 (s mod 60) @ ''Z'')"

section \<open>Laws\<close>

lemma format_rfc3339_example: "format_rfc3339 (1709210096 * second) = ''2024-02-29T12:34:56Z''"
  by code_simp

lemma has_prefix_append [simp]: "has_prefix p (p @ s)"
  by (simp add: has_prefix_def)

lemma has_prefix_iff: "has_prefix p s \<longleftrightarrow> (\<exists>t. s = p @ t)"
  by (metis append_take_drop_id has_prefix_append has_prefix_def)

lemma trim_prefix_append [simp]: "trim_prefix p (p @ s) = s"
  by (simp add: trim_prefix_def)

lemma has_suffix_iff: "has_suffix p s \<longleftrightarrow> (\<exists>t. s = t @ p)"
  unfolding has_suffix_def by (metis append_eq_conv_conj append_take_drop_id diff_diff_cancel
      length_append length_drop le_add2 diff_add_inverse2)

lemma split_char_not_Nil [simp]: "split_char c s \<noteq> []"
  by (cases s) (auto split: list.split)

lemma join_split: "join [c] (split_char c s) = s"
proof (induction s)
  case (Cons x xs)
  then show ?case
    by (cases "split_char c xs") (auto split: list.split, (cases "tl (split_char c xs)"; simp)+)
qed simp

lemma split_char_absent: "c \<notin> set s \<Longrightarrow> split_char c s = [s]"
  by (induction s) auto

lemma split_char_append:
  "c \<notin> set s \<Longrightarrow> split_char c (s @ c # t) = s # split_char c t"
  by (induction s) auto

lemma split_join:
  "xs \<noteq> [] \<Longrightarrow> (\<forall>x \<in> set xs. c \<notin> set x) \<Longrightarrow> split_char c (join [c] xs) = xs"
proof (induction "[c]" xs rule: join.induct)
  case (2 x)
  then show ?case by (simp add: split_char_absent)
next
  case (3 x y zs)
  then show ?case by (simp add: split_char_append)
qed simp

lemma split_char_no_sep: "x \<in> set (split_char c s) \<Longrightarrow> c \<notin> set x"
  by (induction s arbitrary: x) (auto split: list.splits if_splits)

lemma show_nat_not_Nil [simp]: "show_nat n \<noteq> []"
  by (subst show_nat.simps) simp

section \<open>Trimming\<close>

lemma has_prefix_drop_take: "has_prefix p (take n s) \<Longrightarrow> has_prefix p s"
  unfolding has_prefix_iff by (metis append_assoc append_take_drop_id)

lemma trim_with_stops: "p \<in> set runes \<Longrightarrow> p \<noteq> [] \<Longrightarrow> \<not> has_prefix p (trim_with runes s)"
proof (induction runes s rule: trim_with.induct)
  case (1 runes s)
  show ?case
  proof (cases "find (\<lambda>p. p \<noteq> [] \<and> has_prefix p s) runes")
    case None
    then have "trim_with runes s = s" "\<not> has_prefix p s"
      using 1(2,3) by (simp add: trim_with.simps [of runes s], auto simp: find_None_iff)
    then show ?thesis by simp
  next
    case (Some q)
    then show ?thesis
      using 1 by (simp add: trim_with.simps [of runes s])
  qed
qed

lemma trim_with_id: "(\<And>p. p \<in> set runes \<Longrightarrow> p \<noteq> [] \<Longrightarrow> \<not> has_prefix p s) \<Longrightarrow> trim_with runes s = s"
proof -
  assume "\<And>p. p \<in> set runes \<Longrightarrow> p \<noteq> [] \<Longrightarrow> \<not> has_prefix p s"
  then have "find (\<lambda>p. p \<noteq> [] \<and> has_prefix p s) runes = None"
    by (auto simp: find_None_iff)
  then show ?thesis
    by (simp add: trim_with.simps [of runes s])
qed

lemma trim_with_drop: "\<exists>n. trim_with runes s = drop n s"
proof (induction runes s rule: trim_with.induct)
  case (1 runes s)
  show ?case
  proof (cases "find (\<lambda>p. p \<noteq> [] \<and> has_prefix p s) runes")
    case None
    then have "trim_with runes s = drop 0 s"
      by (simp add: trim_with.simps [of runes s])
    then show ?thesis ..
  next
    case (Some q)
    then obtain n where "trim_with runes (drop (length q) s) = drop n (drop (length q) s)"
      using 1 by blast
    then show ?thesis
      using Some by (auto simp: trim_with.simps [of runes s])
  qed
qed

lemma trim_space_idem: "trim_space (trim_space s) = trim_space s"
proof -
  define t where "t = trim_with space_runes s"
  define u where "u = trim_with (map rev space_runes) (rev t)"
  obtain n where n: "u = drop n (rev t)"
    unfolding u_def using trim_with_drop by blast
  then have "rev u = take (length t - n) t"
    by (simp add: rev_drop)
  then have "trim_with space_runes (rev u) = rev u"
    using trim_with_stops [of _ space_runes s] has_prefix_drop_take
    by (intro trim_with_id) (metis t_def)
  moreover have "trim_with (map rev space_runes) u = u"
    by (rule trim_with_id) (metis trim_with_stops u_def)
  ultimately show ?thesis
    by (simp add: trim_space_def Let_def t_def [symmetric] u_def [symmetric])
qed

text \<open>A string whose first and last bytes begin or end no space is its own trim.\<close>

definition plain_byte :: "char \<Rightarrow> bool" where
  "plain_byte c \<longleftrightarrow> 33 \<le> (of_char c :: nat) \<and> (of_char c :: nat) < 128"

lemma space_rune_ends:
  "p \<in> set space_runes \<Longrightarrow> p \<noteq> [] \<and> \<not> plain_byte (hd p) \<and> \<not> plain_byte (last p)"
  by (auto simp: space_runes_def plain_byte_def)

lemma has_prefix_hd: "has_prefix p s \<Longrightarrow> p \<noteq> [] \<Longrightarrow> s \<noteq> [] \<and> hd s = hd p"
  by (cases p; cases s) (auto simp: has_prefix_def)

lemma trim_space_plain: "s = [] \<or> plain_byte (hd s) \<and> plain_byte (last s) \<Longrightarrow> trim_space s = s"
proof (elim disjE)
  show "s = [] \<Longrightarrow> trim_space s = s"
    by (simp add: trim_space_def Let_def trim_with_id has_prefix_def)
next
  assume p: "plain_byte (hd s) \<and> plain_byte (last s)"
  have l: "trim_with space_runes s = s"
    using p space_rune_ends has_prefix_hd by (intro trim_with_id) metis
  have "\<not> has_prefix q (rev s)" if q: "q \<in> set (map rev space_runes)" "q \<noteq> []" for q
  proof
    assume h: "has_prefix q (rev s)"
    obtain p' where p': "p' \<in> set space_runes" "q = rev p'"
      using q(1) by auto
    have "hd (rev s) = hd (rev p')" "rev s \<noteq> []"
      using has_prefix_hd [OF h q(2)] p'(2) by simp_all
    then have "last s = last p'"
      using p' q(2) by (simp add: hd_rev)
    then show False
      using p space_rune_ends [OF p'(1)] by simp
  qed
  then have "trim_with (map rev space_runes) (rev s) = rev s"
    by (intro trim_with_id) auto
  then show ?thesis
    by (simp add: trim_space_def l)
qed

end
