(* ===== verification/Model.thy ===== *)
theory Model
  imports Go_Strings
begin

text \<open>
  The data of the control plane: the request and response types of
  \<open>backend/internal/model\<close>, the rows of the SQLite tables that
  \<open>backend/internal/store\<close> creates, and the world the programs of the development
  run in.
\<close>

section \<open>Templates (model/template.go, model/network.go)\<close>

record ResourceSpec =
  rs_CPU :: string
  rs_Memory :: string

record FileSpec =
  fs_Source :: string
  fs_Destination :: string
  fs_Content :: string

record ProbeSpec =
  pr_Exec :: "string list"
  pr_InitialDelaySeconds :: int
  pr_PeriodSeconds :: int
  pr_FailureThreshold :: int

record NetworkSpec =
  net_AllowInternetAccess :: bool
  net_AllowedDomains :: "string list"

record PersistenceSpec =
  ps_Enabled :: bool
  ps_Mode :: string
  ps_Size :: string
  ps_StorageClassName :: string
  ps_ReclaimPolicy :: string

record TemplateSpec =
  ts_Image :: string
  ts_Command :: "string list"
  ts_Args :: "string list"
  ts_Resources :: ResourceSpec
  ts_TTL :: int
  ts_Env :: "(string \<times> string) list"
  ts_StartupScript :: string
  ts_StartupTimeout :: int
  ts_Files :: "FileSpec list"
  ts_ReadinessProbe :: "ProbeSpec option"
  ts_Network :: "NetworkSpec option"
  ts_Persistence :: "PersistenceSpec option"

abbreviation "PersistenceModeRootFSOverlay \<equiv> ''rootfs-overlay''"
abbreviation "PersistenceReclaimDelete \<equiv> ''Delete''"
abbreviation "PersistenceReclaimRetain \<equiv> ''Retain''"
abbreviation "PersistenceDefaultSize \<equiv> ''1Gi''"

text \<open>
  A template and one of its versions. The \<open>tags\<close> and \<open>spec\<close> columns hold JSON text
  in the database; the model keeps the values the text encodes.
\<close>

record Template =
  tpl_ID :: string
  tpl_Name :: string
  tpl_DisplayName :: string
  tpl_Description :: string
  tpl_Tags :: "string list"
  tpl_Author :: string
  tpl_IsPublic :: bool
  tpl_LatestVersion :: int
  tpl_CreatedAt :: time
  tpl_UpdatedAt :: time

record TemplateVersion =
  tv_ID :: string
  tv_TemplateID :: string
  tv_Version :: int
  tv_Spec :: TemplateSpec
  tv_Changelog :: string
  tv_CreatedBy :: string
  tv_CreatedAt :: time

record CreateTemplateRequest =
  ctr_Name :: string
  ctr_DisplayName :: string
  ctr_Description :: string
  ctr_Tags :: "string list"
  ctr_IsPublic :: "bool option"
  ctr_Spec :: TemplateSpec
  ctr_AutoPrepull :: bool

record UpdateTemplateRequest =
  utr_DisplayName :: string
  utr_Description :: string
  utr_Tags :: "string list option"
  utr_IsPublic :: "bool option"
  utr_Spec :: TemplateSpec
  utr_Changelog :: string

record RollbackResponse =
  rb_ID :: string
  rb_Name :: string
  rb_LatestVersion :: int
  rb_RolledBackFrom :: int
  rb_RolledBackTo :: int
  rb_UpdatedAt :: time

section \<open>Sandbox rows (store/sandbox.go)\<close>

abbreviation "DesiredStateActive \<equiv> ''active''"
abbreviation "DesiredStateDeleted \<equiv> ''deleted''"

abbreviation "DeletionPhaseRequested \<equiv> ''requested''"
abbreviation "DeletionPhaseQuiescingRuntime \<equiv> ''quiescing_runtime''"
abbreviation "DeletionPhaseDeletingStorage \<equiv> ''deleting_storage''"
abbreviation "DeletionPhaseForceCleanup \<equiv> ''force_cleanup''"
abbreviation "DeletionPhaseVerifying \<equiv> ''verifying''"
abbreviation "DeletionPhaseCompleted \<equiv> ''completed''"

record SandboxRecord =
  rec_ID :: string
  rec_TemplateName :: string
  rec_TemplateVersion :: int
  rec_Image :: string
  rec_CPU :: string
  rec_Memory :: string
  rec_TTL :: int
  rec_EnvJSON :: string
  rec_DesiredState :: string
  rec_LifecycleStatus :: string
  rec_StatusReason :: string
  rec_ClusterNamespace :: string
  rec_PodName :: string
  rec_PodUID :: string
  rec_PodPhase :: string
  rec_PodIP :: string
  rec_LastSeenAt :: "time option"
  rec_AccessTokenCiphertext :: string
  rec_AccessTokenNonce :: string
  rec_AccessTokenKeyID :: string
  rec_AccessTokenSHA256 :: string
  rec_AccessURL :: string
  rec_PersistenceEnabled :: bool
  rec_PersistenceMode :: string
  rec_PersistenceSize :: string
  rec_StorageClassName :: string
  rec_VolumeClaimName :: string
  rec_VolumeReclaimPolicy :: string
  rec_RuntimeKind :: string
  rec_RuntimeName :: string
  rec_DeletionPhase :: string
  rec_DeletionStartedAt :: "time option"
  rec_DeletionLastAttemptAt :: "time option"
  rec_DeletionNextRetryAt :: "time option"
  rec_DeletionAttempts :: int
  rec_DeletionForceLevel :: int
  rec_DeletionLastError :: string
  rec_CreatedAt :: time
  rec_ExpiresAt :: time
  rec_UpdatedAt :: time
  rec_DeletedAt :: "time option"
  rec_StoppedAt :: "time option"

record ReconcileRunRecord =
  run_ID :: string
  run_TriggerType :: string
  run_StartedAt :: time
  run_FinishedAt :: "time option"
  run_TotalDB :: int
  run_TotalK8s :: int
  run_DriftCount :: int
  run_FixedCount :: int
  run_Status :: string
  run_Error :: string

record ReconcileItemRecord =
  item_ID :: int
  item_RunID :: string
  item_SandboxID :: string
  item_DriftType :: string
  item_Action :: string
  item_Detail :: string
  item_CreatedAt :: time

record SandboxStatusHistoryRecord =
  hist_ID :: int
  hist_SandboxID :: string
  hist_Source :: string
  hist_FromStatus :: string
  hist_ToStatus :: string
  hist_Reason :: string
  hist_PayloadRaw :: string
  hist_CreatedAt :: time

section \<open>Sandboxes (model/sandbox.go)\<close>

abbreviation "SandboxStatusPending \<equiv> ''pending''"
abbreviation "SandboxStatusRunning \<equiv> ''running''"
abbreviation "SandboxStatusSucceeded \<equiv> ''succeeded''"
abbreviation "SandboxStatusFailed \<equiv> ''failed''"
abbreviation "SandboxStatusStopped \<equiv> ''stopped''"
abbreviation "SandboxStatusTerminating \<equiv> ''terminating''"
abbreviation "SandboxStatusUnknown \<equiv> ''unknown''"

record SandboxDeletion =
  sd_Phase :: string
  sd_StartedAt :: "time option"
  sd_LastAttemptAt :: "time option"
  sd_NextRetryAt :: "time option"
  sd_Attempts :: int
  sd_ForceLevel :: int
  sd_LastError :: string

record SandboxPersistence =
  sp_Enabled :: bool
  sp_Mode :: string
  sp_Size :: string
  sp_StorageClassName :: string
  sp_ReclaimPolicy :: string
  sp_VolumeClaimName :: string

record Sandbox =
  sb_ID :: string
  sb_Image :: string
  sb_CPU :: string
  sb_Memory :: string
  sb_TTL :: int
  sb_Env :: "(string \<times> string) list"
  sb_Status :: string
  sb_Template :: string
  sb_TemplateVersion :: int
  sb_DesiredState :: string
  sb_LifecycleStatus :: string
  sb_StatusReason :: string
  sb_PodPhase :: string
  sb_PodIP :: string
  sb_LastSeenAt :: "time option"
  sb_CreatedAt :: time
  sb_ExpiresAt :: time
  sb_UpdatedAt :: time
  sb_DeletedAt :: "time option"
  sb_Persistence :: "SandboxPersistence option"
  sb_Deletion :: "SandboxDeletion option"
  sb_RuntimeKind :: string
  sb_RuntimeName :: string
  sb_AccessToken :: string
  sb_AccessURL :: string

record SandboxOverrides =
  ov_CPU :: string
  ov_Memory :: string
  ov_TTL :: "int option"
  ov_Env :: "(string \<times> string) list option"
  ov_PersistenceSize :: "string option"

record CreateSandboxRequest =
  csr_Template :: string
  csr_TemplateVersion :: int
  csr_Overrides :: "SandboxOverrides option"

section \<open>Tables and the world\<close>

text \<open>The rows of \<open>store/auth.go\<close> and of \<open>model/prepull.go\<close>.\<close>

record AdminUserRecord =
  adm_ID :: string
  adm_Username :: string
  adm_PasswordHash :: string
  adm_CreatedAt :: time
  adm_UpdatedAt :: time

record SessionRecord =
  ses_ID :: string
  ses_UserID :: string
  ses_ExpiresAt :: time
  ses_CreatedAt :: time

record APIKeyRecord =
  key_ID :: string
  key_Name :: string
  key_Prefix :: string
  key_KeyHash :: string
  key_ExpiresAt :: "time option"
  key_LastUsedAt :: "time option"
  key_CreatedAt :: time

abbreviation "PrepullStatusPending \<equiv> ''pending''"
abbreviation "PrepullStatusPulling \<equiv> ''pulling''"
abbreviation "PrepullStatusCompleted \<equiv> ''completed''"
abbreviation "PrepullStatusFailed \<equiv> ''failed''"

record ImagePrepull =
  pp_ID :: string
  pp_Image :: string
  pp_ImageHash :: string
  pp_Status :: string
  pp_ReadyNodes :: int
  pp_TotalNodes :: int
  pp_Error :: string
  pp_Template :: string
  pp_StartedAt :: time
  pp_CompletedAt :: "time option"

text \<open>
  The tables of \<open>store/sqlite.go\<close> that the modelled components use, each the list of its
  rows in insertion order, with the counters of the \<open>AUTOINCREMENT\<close> columns.
\<close>

record tables =
  sandboxes :: "SandboxRecord list"
  status_history :: "SandboxStatusHistoryRecord list"
  reconcile_runs :: "ReconcileRunRecord list"
  reconcile_items :: "ReconcileItemRecord list"
  templates :: "Template list"
  template_versions :: "TemplateVersion list"
  admin_users :: "AdminUserRecord list"
  auth_sessions :: "SessionRecord list"
  api_keys :: "APIKeyRecord list"
  image_prepulls :: "ImagePrepull list"
  next_history_id :: int
  next_item_id :: int

text \<open>
  The world of a program: the database; the schedule of database faults (the head says
  whether the next statement fails; no element left means no more faults); the clock, whose
  n-th reading is \<open>clock w n\<close>; the supplies of \<open>uuid.New\<close> and of the system's random
  source (\<open>None\<close> where reading it fails); and the cluster, an opaque state \<open>'k\<close> that
  only the Kubernetes API functions read and change.
\<close>

record 'k world =
  db :: tables
  db_faults :: "bool list"
  clock :: "nat \<Rightarrow> time"
  ticks :: nat
  uuids :: "nat \<Rightarrow> string"
  uuids_used :: nat
  tokens :: "nat \<Rightarrow> string option"
  tokens_used :: nat
  kube :: 'k

type_synonym ('k, 'a) prog = "('k world, 'a) state"

definition time_now :: "('k, time) prog" where
  "time_now = step_with (\<lambda>w. (clock w (ticks w), w\<lparr>ticks := Suc (ticks w)\<rparr>))"

definition new_uuid :: "('k, string) prog" where
  "new_uuid = step_with (\<lambda>w. (uuids w (uuids_used w), w\<lparr>uuids_used := Suc (uuids_used w)\<rparr>))"

definition rand_token :: "('k, string option) prog" where
  "rand_token = step_with (\<lambda>w. (tokens w (tokens_used w), w\<lparr>tokens_used := Suc (tokens_used w)\<rparr>))"

definition kube_call :: "('k \<Rightarrow> 'a \<times> 'k) \<Rightarrow> ('k, 'a) prog" where
  "kube_call f = step_with (\<lambda>w. case f (kube w) of (a, k) \<Rightarrow> (a, w\<lparr>kube := k\<rparr>))"

text \<open>
  One SQL statement. A scheduled fault fails it with the driver's error; otherwise it reads
  and changes the tables, or fails with \<open>None\<close> where a constraint (primary key, foreign
  key, \<open>UNIQUE\<close>) is violated. The first argument is the message the code wraps the
  error with.
\<close>

definition next_fault :: "bool list \<Rightarrow> bool \<times> bool list" where
  "next_fault fs = (case fs of [] \<Rightarrow> (False, []) | f # fs' \<Rightarrow> (f, fs'))"

definition sql_stmt :: "string \<Rightarrow> (tables \<Rightarrow> ('a \<times> tables) option) \<Rightarrow> ('k, 'a res) prog" where
  "sql_stmt msg f = step_with (\<lambda>w.
     case next_fault (db_faults w) of (bad, rest) \<Rightarrow>
       (let w' = w\<lparr>db_faults := rest\<rparr> in
        if bad then (Inl (Wrap msg (SqlErr ''database error'')), w')
        else case f (db w) of
               None \<Rightarrow> (Inl (Wrap msg (SqlErr ''constraint failed'')), w')
             | Some (a, t) \<Rightarrow> (Inr a, w'\<lparr>db := t\<rparr>)))"

abbreviation sql_query :: "string \<Rightarrow> (tables \<Rightarrow> 'a) \<Rightarrow> ('k, 'a res) prog" where
  "sql_query msg q \<equiv> sql_stmt msg (\<lambda>t. Some (q t, t))"

abbreviation sql_exec :: "string \<Rightarrow> (tables \<Rightarrow> tables) \<Rightarrow> ('k, unit res) prog" where
  "sql_exec msg f \<equiv> sql_stmt msg (\<lambda>t. Some ((), f t))"

text \<open>
  \<open>BeginTx\<close> ... \<open>Commit\<close> with a deferred \<open>Rollback\<close>. The body returns an error, or a
  value and whether it reaches the commit; where it does not, or where the commit fails, the tables
  are what they were.
\<close>

definition restore :: "tables \<Rightarrow> ('k, unit) prog" where
  "restore t = step_with (\<lambda>w. ((), w\<lparr>db := t\<rparr>))"

definition transaction :: "string \<Rightarrow> string \<Rightarrow> ('k, (bool \<times> 'a) res) prog \<Rightarrow> ('k, 'a res) prog" where
  "transaction mb mc body =
     seqE (sql_query mb (\<lambda>t. t)) (\<lambda>saved. do {
       r \<leftarrow> body;
       case r of
         Inl e \<Rightarrow> do { restore saved; throw e }
       | Inr (commit, a) \<Rightarrow>
           if \<not> commit then do { restore saved; retE a }
           else do {
             c \<leftarrow> sql_exec mc (\<lambda>t. t);
             case c of Inl e \<Rightarrow> do { restore saved; throw e } | Inr _ \<Rightarrow> retE a } })"

lemma next_fault_Nil [simp]: "next_fault [] = (False, [])"
  by (simp add: next_fault_def)

lemma wp_time_now [wp_simps]:
  "wp time_now Q w \<longleftrightarrow> Q (clock w (ticks w)) (w\<lparr>ticks := Suc (ticks w)\<rparr>)"
  by (simp add: time_now_def wp_simps)

lemma wp_new_uuid [wp_simps]:
  "wp new_uuid Q w \<longleftrightarrow> Q (uuids w (uuids_used w)) (w\<lparr>uuids_used := Suc (uuids_used w)\<rparr>)"
  by (simp add: new_uuid_def wp_simps)

lemma wp_rand_token [wp_simps]:
  "wp rand_token Q w \<longleftrightarrow> Q (tokens w (tokens_used w)) (w\<lparr>tokens_used := Suc (tokens_used w)\<rparr>)"
  by (simp add: rand_token_def wp_simps)

lemma wp_kube_call [wp_simps]:
  "wp (kube_call f) Q w \<longleftrightarrow> (case f (kube w) of (a, k) \<Rightarrow> Q a (w\<lparr>kube := k\<rparr>))"
  by (simp add: kube_call_def wp_simps split: prod.split)

lemma wp_restore [wp_simps]: "wp (restore t) Q w \<longleftrightarrow> Q () (w\<lparr>db := t\<rparr>)"
  by (simp add: restore_def wp_simps)

lemma wp_sql_stmt:
  "wp (sql_stmt msg f) Q w \<longleftrightarrow>
     (case next_fault (db_faults w) of (bad, rest) \<Rightarrow>
        if bad then Q (Inl (Wrap msg (SqlErr ''database error''))) (w\<lparr>db_faults := rest\<rparr>)
        else case f (db w) of
               None \<Rightarrow> Q (Inl (Wrap msg (SqlErr ''constraint failed''))) (w\<lparr>db_faults := rest\<rparr>)
             | Some (a, t) \<Rightarrow> Q (Inr a) (w\<lparr>db_faults := rest, db := t\<rparr>))"
  by (simp add: sql_stmt_def wp_simps Let_def split: prod.split option.split)

lemma wp_sql_ok:
  "db_faults w = [] \<Longrightarrow> f (db w) = Some (a, t) \<Longrightarrow>
   wp (sql_stmt msg f) Q w \<longleftrightarrow> Q (Inr a) (w\<lparr>db := t\<rparr>)"
  by (cases w) (simp add: wp_sql_stmt)

text \<open>Relations that only look at the database are respected by everything else.\<close>

definition db_rel :: "(tables \<Rightarrow> tables \<Rightarrow> bool) \<Rightarrow> 'k world \<Rightarrow> 'k world \<Rightarrow> bool" where
  "db_rel r w w' \<longleftrightarrow> r (db w) (db w')"

lemma io_time_now: "(\<And>t. r t t) \<Longrightarrow> state_io_rel (db_rel r) time_now"
  by (simp add: time_now_def io_step_with db_rel_def)

lemma io_new_uuid: "(\<And>t. r t t) \<Longrightarrow> state_io_rel (db_rel r) new_uuid"
  by (simp add: new_uuid_def io_step_with db_rel_def)

lemma io_rand_token: "(\<And>t. r t t) \<Longrightarrow> state_io_rel (db_rel r) rand_token"
  by (simp add: rand_token_def io_step_with db_rel_def)

lemma io_kube_call: "(\<And>t. r t t) \<Longrightarrow> state_io_rel (db_rel r) (kube_call f)"
  by (simp add: kube_call_def io_step_with db_rel_def split: prod.split)

lemma io_sql_stmt:
  "(\<And>t. r t t) \<Longrightarrow> (\<And>t a t'. f t = Some (a, t') \<Longrightarrow> r t t') \<Longrightarrow> state_io_rel (db_rel r) (sql_stmt msg f)"
  by (auto simp: sql_stmt_def io_step_with db_rel_def Let_def split: prod.split option.split)

text \<open>A transaction leaves the tables alone or makes the changes of a body that reached its commit.\<close>

lemma wp_transaction:
  fixes w :: "'k world"
  assumes "\<And>fs. wp body (\<lambda>r v. case r of
      Inl e \<Rightarrow> (\<forall>fs. Q (Inl e) (v\<lparr>db_faults := fs, db := db w\<rparr>))
    | Inr (commit, a) \<Rightarrow>
        if commit then (\<forall>fs. Q (Inr a) (v\<lparr>db_faults := fs\<rparr>)) \<and> (\<forall>fs e. Q (Inl e) (v\<lparr>db_faults := fs, db := db w\<rparr>))
        else (\<forall>fs. Q (Inr a) (v\<lparr>db_faults := fs, db := db w\<rparr>))) (w\<lparr>db_faults := fs\<rparr>)"
    and "\<And>fs e. Q (Inl e) (w\<lparr>db_faults := fs\<rparr>)"
  shows "wp (transaction mb mc body) Q w"
proof -
  let ?post = "\<lambda>r v. case r of
      Inl e \<Rightarrow> (\<forall>fs. Q (Inl e) (v\<lparr>db_faults := fs, db := db w\<rparr>))
    | Inr (commit, a) \<Rightarrow>
        if commit then (\<forall>fs. Q (Inr a) (v\<lparr>db_faults := fs\<rparr>)) \<and> (\<forall>fs e. Q (Inl e) (v\<lparr>db_faults := fs, db := db w\<rparr>))
        else (\<forall>fs. Q (Inr a) (v\<lparr>db_faults := fs, db := db w\<rparr>))"
  let ?rest = "\<lambda>r. case r of
         Inl e \<Rightarrow> do { restore (db w); throw e }
       | Inr (commit, a) \<Rightarrow>
           if \<not> commit then do { restore (db w); retE a }
           else do {
             c \<leftarrow> sql_exec mc (\<lambda>t. t);
             case c of Inl e \<Rightarrow> do { restore (db w); throw e } | Inr _ \<Rightarrow> retE a }"
  have same: "v\<lparr>db_faults := db_faults v, db := t\<rparr> = v\<lparr>db := t\<rparr>" "v\<lparr>db_faults := fs, db := db v\<rparr> = v\<lparr>db_faults := fs\<rparr>"
    for v :: "'k world" and t fs
    by (cases v, simp)+
  have rest: "wp (?rest r) Q v" if "?post r v" for r and v :: "'k world"
  proof (cases r)
    case (Inl e)
    then have "\<forall>fs. Q (Inl e) (v\<lparr>db_faults := fs, db := db w\<rparr>)"
      using that by simp
    from spec [OF this, of "db_faults v"] show ?thesis
      using Inl by (simp add: wp_ret wp_bind wp_restore same)
  next
    case (Inr p)
    obtain commit a where p: "p = (commit, a)"
      by (cases p)
    obtain bad fs where nf: "next_fault (db_faults v) = (bad, fs)"
      by (cases "next_fault (db_faults v)")
    show ?thesis
    proof (cases commit)
      case True
      then show ?thesis
        using that Inr p by (simp add: wp_ret wp_bind wp_restore wp_sql_stmt nf same split: if_split)
    next
      case False
      then have "\<forall>fs. Q (Inr a) (v\<lparr>db_faults := fs, db := db w\<rparr>)"
        using that Inr p by simp
      from spec [OF this, of "db_faults v"] show ?thesis
        using False Inr p by (simp add: wp_ret wp_bind wp_restore same)
    qed
  qed
  obtain bad fs where nf: "next_fault (db_faults w) = (bad, fs)"
    by (cases "next_fault (db_faults w)")
  have "wp (State_Monad.bind body ?rest) Q (w\<lparr>db_faults := fs\<rparr>)"
    unfolding wp_bind by (rule wp_mono [OF assms(1)]) (rule rest)
  then show ?thesis
    unfolding transaction_def wp_seqE
    using assms(2) by (simp add: wp_sql_stmt nf same)
qed

lemma io_transaction:
  fixes body :: "('k, (bool \<times> 'a) res) prog"
  assumes "\<And>t. r t t"
    and "\<And>w. wp body (\<lambda>res v. \<forall>a. res = Inr (True, a) \<longrightarrow> r (db w) (db v)) w"
  shows "state_io_rel (db_rel r) (transaction mb mc body)"
proof -
  have "wp (transaction mb mc body) (\<lambda>_ w'. r (db w) (db w')) w" for w :: "'k world"
  proof (rule wp_transaction)
    fix fs
    show "wp body (\<lambda>res v. case res of
        Inl e \<Rightarrow> \<forall>fs. r (db w) (db (v\<lparr>db_faults := fs, db := db w\<rparr>))
      | Inr (commit, a) \<Rightarrow>
          if commit then (\<forall>fs. r (db w) (db (v\<lparr>db_faults := fs\<rparr>))) \<and>
                         (\<forall>fs e. r (db w) (db (v\<lparr>db_faults := fs, db := db w\<rparr>)))
          else (\<forall>fs. r (db w) (db (v\<lparr>db_faults := fs, db := db w\<rparr>)))) (w\<lparr>db_faults := fs\<rparr>)"
      using assms(2) [of "w\<lparr>db_faults := fs\<rparr>"]
      by (rule wp_mono) (auto simp: assms(1) split: sum.split prod.split)
  qed (simp add: assms(1))
  then show ?thesis
    by (simp add: state_io_rel_def db_rel_def wp_alt)
qed

text \<open>
  A preorder on tables: what no statement of a component may do to the database. Clients
  interpret it on an invariant or on a frame condition.
\<close>

locale table_preorder =
  fixes r :: "tables \<Rightarrow> tables \<Rightarrow> bool"
  assumes table_refl: "r t t"
    and table_trans: "r t u \<Longrightarrow> r u v \<Longrightarrow> r t v"

sublocale table_preorder \<subseteq> world_preorder "db_rel r"
  by unfold_locales (auto simp: db_rel_def table_refl intro: table_trans)

context table_preorder
begin

lemmas io_effects =
  io_time_now [of r, OF table_refl] io_new_uuid [of r, OF table_refl] io_rand_token [of r, OF table_refl]
  io_kube_call [of r, OF table_refl]

lemma io_query: "state_io_rel (db_rel r) (sql_query msg q)"
  by (rule io_sql_stmt) (auto simp: table_refl)

lemma io_tx:
  assumes "state_io_rel (db_rel r) body"
  shows "state_io_rel (db_rel r) (transaction mb mc body)"
proof (rule io_transaction)
  fix w
  show "wp body (\<lambda>res v. \<forall>a. res = Inr (True, a) \<longrightarrow> r (db w) (db v)) w"
    using io_rel_wp [OF assms, of w] by (rule wp_mono) (simp add: db_rel_def)
qed (rule table_refl)

lemmas io_program = io_structure io_effects io_query io_tx

end

text \<open>An invariant of the tables, as such a preorder.\<close>

definition keeps :: "(tables \<Rightarrow> bool) \<Rightarrow> tables \<Rightarrow> tables \<Rightarrow> bool" where
  "keeps I t t' \<longleftrightarrow> (I t \<longrightarrow> I t')"

end
