(* ===== verification/Sql_Tables.thy ===== *)
theory Sql_Tables
  imports Model
begin

text \<open>
  The SQL the stores use, over tables that are lists of rows in insertion order:
  \<open>UPDATE\<close>, \<open>DELETE\<close>, \<open>ORDER BY\<close>, \<open>LIMIT/OFFSET\<close> and \<open>LIKE\<close>. The locale
  \<open>row_update\<close> is the contract of an \<open>UPDATE ... WHERE key = ? AND guard\<close> that leaves
  the key column alone; every such statement of a store is an instance. The locale
  \<open>pager\<close> is the contract of a paginated listing.
\<close>

section \<open>Statements\<close>

definition update_where :: "('r \<Rightarrow> bool) \<Rightarrow> ('r \<Rightarrow> 'r) \<Rightarrow> 'r list \<Rightarrow> 'r list" where
  "update_where P f rows = map (\<lambda>r. if P r then f r else r) rows"

definition delete_where :: "('r \<Rightarrow> bool) \<Rightarrow> 'r list \<Rightarrow> 'r list" where
  "delete_where P rows = filter (\<lambda>r. \<not> P r) rows"

definition order_by :: "('r \<Rightarrow> int) \<Rightarrow> 'r list \<Rightarrow> 'r list" where
  "order_by k rows = sort_key k rows"

definition order_by_desc :: "('r \<Rightarrow> int) \<Rightarrow> 'r list \<Rightarrow> 'r list" where
  "order_by_desc k rows = sort_key (\<lambda>r. - k r) rows"

text \<open>SQLite reads a negative \<open>LIMIT\<close> as none and a negative \<open>OFFSET\<close> as zero.\<close>

definition limit_offset :: "int \<Rightarrow> int \<Rightarrow> 'r list \<Rightarrow> 'r list" where
  "limit_offset l off rows =
     (let rest = drop (nat off) rows in if l < 0 then rest else take (nat l) rest)"

text \<open>\<open>LIKE\<close> with the wildcards \<open>%\<close> and \<open>_\<close>, case-insensitive on ASCII.\<close>

fun sql_like :: "string \<Rightarrow> string \<Rightarrow> bool" where
  "sql_like [] s \<longleftrightarrow> s = []"
| "sql_like (p # ps) [] \<longleftrightarrow> p = CHR ''%'' \<and> sql_like ps []"
| "sql_like (p # ps) (c # cs) \<longleftrightarrow>
     (if p = CHR ''%'' then sql_like ps (c # cs) \<or> sql_like (p # ps) cs
      else (p = CHR ''_'' \<or> ascii_lower p = ascii_lower c) \<and> sql_like ps cs)"

lemma set_order_by [simp]: "set (order_by k rows) = set rows"
  by (simp add: order_by_def)

lemma set_order_by_desc [simp]: "set (order_by_desc k rows) = set rows"
  by (simp add: order_by_desc_def)

lemma length_order_by_desc [simp]: "length (order_by_desc k rows) = length rows"
  by (simp add: order_by_desc_def)

lemma distinct_order_by [simp]: "distinct (map g (order_by k rows)) \<longleftrightarrow> distinct (map g rows)"
  by (simp add: order_by_def distinct_map)

lemma distinct_order_by_desc [simp]: "distinct (map g (order_by_desc k rows)) \<longleftrightarrow> distinct (map g rows)"
  by (simp add: order_by_desc_def distinct_map)

lemma sorted_order_by_desc: "sorted_wrt (\<lambda>a b. k b \<le> k a) (order_by_desc k rows)"
proof -
  have "sorted (map (\<lambda>r. - k r) (order_by_desc k rows))"
    by (simp add: order_by_desc_def)
  then show ?thesis
    by (simp add: sorted_map)
qed

lemma set_update_where: "set (update_where P f rows) = (\<lambda>r. if P r then f r else r) ` set rows"
  by (simp add: update_where_def)

lemma set_delete_where: "set (delete_where P rows) = {r \<in> set rows. \<not> P r}"
  by (auto simp: delete_where_def)

lemma distinct_delete_where: "distinct (map g rows) \<Longrightarrow> distinct (map g (delete_where P rows))"
  by (auto simp: delete_where_def distinct_map inj_on_def)

lemma limit_offset_subset: "set (limit_offset l off rows) \<subseteq> set rows"
  by (auto simp: limit_offset_def Let_def dest: in_set_takeD in_set_dropD)

lemma sql_like_percent: "sql_like ''%'' s"
  by (induction s) auto

text \<open>A pattern without wildcards followed by \<open>%\<close> is a case-insensitive prefix test.\<close>

lemma sql_like_prefix:
  "CHR ''%'' \<notin> set p \<Longrightarrow> CHR ''_'' \<notin> set p \<Longrightarrow>
   sql_like (p @ ''%'') s \<longleftrightarrow> equal_fold p (take (length p) s)"
proof (induction p arbitrary: s)
  case Nil
  then show ?case by (simp add: equal_fold_def sql_like_percent)
next
  case (Cons a p)
  then show ?case by (cases s) (auto simp: equal_fold_def)
qed

section \<open>Keyed updates\<close>

text \<open>Rows selected by key: \<open>WHERE key = ?\<close>.\<close>

definition lookup :: "('r \<Rightarrow> string) \<Rightarrow> string \<Rightarrow> 'r list \<Rightarrow> 'r option" where
  "lookup key k rows = find (\<lambda>r. key r = k) rows"

lemma find_snoc: "\<forall>x \<in> set xs. \<not> P x \<Longrightarrow> P v \<Longrightarrow> find P (xs @ [v]) = Some v"
  by (induction xs) auto

lemma lookup_SomeD: "lookup key k rows = Some r \<Longrightarrow> r \<in> set rows \<and> key r = k"
  by (auto simp: lookup_def find_Some_iff)

lemma lookup_None_iff: "lookup key k rows = None \<longleftrightarrow> k \<notin> key ` set rows"
  by (auto simp: lookup_def find_None_iff)

lemma lookup_unique:
  "distinct (map key rows) \<Longrightarrow> r \<in> set rows \<Longrightarrow> lookup key (key r) rows = Some r"
  by (induction rows) (auto simp: lookup_def)

lemma lookup_append_new:
  "k \<notin> key ` set rows \<Longrightarrow> key r = k \<Longrightarrow> lookup key k (rows @ [r]) = Some r"
  by (induction rows) (auto simp: lookup_def)

lemma lookup_append_other:
  "key r \<noteq> k \<Longrightarrow> lookup key k (rows @ [r]) = lookup key k rows"
  by (induction rows) (auto simp: lookup_def)

locale row_update =
  fixes key :: "'r \<Rightarrow> string"
    and guard :: "'r \<Rightarrow> bool"
    and upd :: "'r \<Rightarrow> 'r"
  assumes key_upd: "key (upd r) = key r"
begin

lemma keys_kept:
  "map key (update_where (\<lambda>r. key r = k \<and> guard r) upd rows) = map key rows"
  by (simp add: update_where_def key_upd)

lemma key_set_kept:
  "key ` set (update_where (\<lambda>r. key r = k \<and> guard r) upd rows) = key ` set rows"
  unfolding set_map [symmetric] keys_kept ..

lemma distinct_kept:
  "distinct (map key rows) \<Longrightarrow> distinct (map key (update_where (\<lambda>r. key r = k \<and> guard r) upd rows))"
  by (simp add: keys_kept)

lemma lookup_same:
  "lookup key k (update_where (\<lambda>r. key r = k \<and> guard r) upd rows) =
     map_option (\<lambda>r. if guard r then upd r else r) (lookup key k rows)"
  by (induction rows) (auto simp: lookup_def update_where_def key_upd)

lemma lookup_other:
  "j \<noteq> k \<Longrightarrow> lookup key j (update_where (\<lambda>r. key r = k \<and> guard r) upd rows) = lookup key j rows"
  by (induction rows) (auto simp: lookup_def update_where_def key_upd)

lemma others_kept:
  "filter (\<lambda>r. key r \<noteq> k) (update_where (\<lambda>r. key r = k \<and> guard r) upd rows) =
   filter (\<lambda>r. key r \<noteq> k) rows"
  by (induction rows) (auto simp: update_where_def key_upd)

end

section \<open>Pages\<close>

text \<open>
  A listing that shows page \<open>p\<close> of size \<open>s\<close> of the rows, for page numbers and sizes
  in the range \<open>ok\<close> the caller normalises them to.
\<close>

locale pager =
  fixes page :: "int \<Rightarrow> int \<Rightarrow> 'r list \<Rightarrow> 'r list"
    and ok :: "int \<Rightarrow> int \<Rightarrow> bool"
  assumes page_eq: "ok p s \<Longrightarrow> 1 \<le> p \<Longrightarrow> 1 \<le> s \<Longrightarrow> page p s rows = take (nat s) (drop (nat ((p - 1) * s)) rows)"
begin

lemma page_length: "ok p s \<Longrightarrow> 1 \<le> p \<Longrightarrow> 1 \<le> s \<Longrightarrow> length (page p s rows) \<le> nat s"
  by (simp add: page_eq)

lemma page_prefix:
  assumes "1 \<le> s" "\<And>p. 1 \<le> p \<Longrightarrow> p \<le> int n \<Longrightarrow> ok p s"
  shows "concat (map (\<lambda>i. page (int i) s rows) [1..<Suc n]) = take (n * nat s) rows"
  using assms(2)
proof (induction n)
  case (Suc n)
  have pg: "page (int (Suc n)) s rows = take (nat s) (drop (n * nat s) rows)"
    using Suc.prems [of "int (Suc n)"] assms(1) by (simp add: page_eq nat_mult_distrib)
  have "take (Suc n * nat s) rows = take (n * nat s) rows @ take (nat s) (drop (n * nat s) rows)"
    by (simp add: take_add [symmetric] add.commute)
  then show ?case
    using Suc pg by simp
qed simp

text \<open>Enough pages show every row once and in order.\<close>

lemma pages_partition:
  assumes "1 \<le> s" "\<And>p. 1 \<le> p \<Longrightarrow> p \<le> int n \<Longrightarrow> ok p s" "length rows \<le> n * nat s"
  shows "concat (map (\<lambda>i. page (int i) s rows) [1..<Suc n]) = rows"
  using page_prefix [OF assms(1,2)] assms(3) by simp

end

text \<open>The window of a statement \<open>LIMIT size OFFSET (page - 1) * size\<close>, at the width of Go's \<open>int\<close>.\<close>

definition sql_page :: "int \<Rightarrow> int \<Rightarrow> 'r list \<Rightarrow> 'r list" where
  "sql_page p s rows = limit_offset s (wrap64 (wrap64 (p - 1) * s)) rows"

interpretation sql_pager: pager sql_page "\<lambda>p s. (p - 1) * s < 2 ^ 63 \<and> p < 2 ^ 63"
proof
  fix p s :: int and rows :: "'r list"
  assume a: "(p - 1) * s < 2 ^ 63 \<and> p < 2 ^ 63" "1 \<le> p" "1 \<le> s"
  then have "wrap64 (p - 1) = p - 1"
    by (intro wrap64_nonneg) simp_all
  moreover have "wrap64 ((p - 1) * s) = (p - 1) * s"
    using a by (intro wrap64_nonneg) simp_all
  ultimately show "sql_page p s rows = take (nat s) (drop (nat ((p - 1) * s)) rows)"
    using a by (simp add: sql_page_def limit_offset_def)
qed

end
