(* ===== verification/Sandbox_Store.thy ===== *)
theory Sandbox_Store
  imports Sql_Tables
begin

text \<open>
  The sandbox store, \<open>backend/internal/store/sandbox.go\<close>: one definition per method, in
  the order of the file. An \<open>UPDATE\<close> statement is split into the columns it sets (a
  function on rows, named after the method with the suffix \<open>_row\<close>) and its
  \<open>WHERE\<close> clause; the rows it does not select are unchanged. Below the operations: the
  contract of each \<open>UPDATE\<close> as an instance of \<open>row_update\<close>, the rule by which a fact
  about the row of one sandbox is carried over a statement, and what the operations promise.
\<close>

section \<open>Operations\<close>

text \<open>\<open>INSERT\<close> fails where the primary key is taken.\<close>

definition SandboxStore_Create :: "SandboxRecord \<Rightarrow> ('k, unit res) prog" where
  "SandboxStore_Create r = sql_stmt ''failed to create sandbox record'' (\<lambda>t.
     if rec_ID r \<in> rec_ID ` set (sandboxes t) then None
     else Some ((), t\<lparr>sandboxes := sandboxes t @ [r]\<rparr>))"

definition GetByID :: "string \<Rightarrow> ('k, SandboxRecord option res) prog" where
  "GetByID sid = sql_query ''failed to get sandbox by id'' (\<lambda>t. lookup rec_ID sid (sandboxes t))"

definition active_cond :: "SandboxRecord \<Rightarrow> bool" where
  "active_cond r \<longleftrightarrow> rec_DesiredState r = DesiredStateActive \<and> rec_LifecycleStatus r \<noteq> ''deleted''"

definition ListActive :: "('k, SandboxRecord list res) prog" where
  "ListActive = sql_query ''failed to list active sandboxes'' (\<lambda>t.
     order_by_desc rec_CreatedAt (filter active_cond (sandboxes t)))"

definition ListForUser_store :: "bool \<Rightarrow> ('k, SandboxRecord list res) prog" where
  "ListForUser_store includeTerminating = sql_query ''failed to list user sandboxes'' (\<lambda>t.
     order_by_desc rec_CreatedAt
       (filter (\<lambda>r. active_cond r \<or>
                    (includeTerminating \<and> rec_DesiredState r = DesiredStateDeleted
                     \<and> rec_LifecycleStatus r = ''terminating'')) (sandboxes t)))"

definition ListForReconcile :: "('k, SandboxRecord list res) prog" where
  "ListForReconcile = sql_query ''failed to list sandboxes for reconcile'' (\<lambda>t.
     order_by_desc rec_UpdatedAt (sandboxes t))"

record SandboxMetadataQuery =
  q_ID :: string
  q_Template :: string
  q_DesiredState :: string
  q_LifecycleStatus :: string
  q_CreatedFrom :: "time option"
  q_CreatedTo :: "time option"
  q_DeletedFrom :: "time option"
  q_DeletedTo :: "time option"
  q_DeletionPhase :: string
  q_Page :: int
  q_PageSize :: int

text \<open>The \<open>WHERE\<close> clause: one conjunct per filter that is set.\<close>

definition metadata_cond :: "SandboxMetadataQuery \<Rightarrow> SandboxRecord \<Rightarrow> bool" where
  "metadata_cond q r \<longleftrightarrow>
     (q_ID q \<noteq> [] \<longrightarrow> sql_like (q_ID q @ ''%'') (rec_ID r)) \<and>
     (q_Template q \<noteq> [] \<longrightarrow> rec_TemplateName r = q_Template q) \<and>
     (q_DesiredState q \<noteq> [] \<longrightarrow> rec_DesiredState r = q_DesiredState q) \<and>
     (q_LifecycleStatus q \<noteq> [] \<longrightarrow> rec_LifecycleStatus r = q_LifecycleStatus q) \<and>
     (case q_CreatedFrom q of None \<Rightarrow> True | Some a \<Rightarrow> a \<le> rec_CreatedAt r) \<and>
     (case q_CreatedTo q of None \<Rightarrow> True | Some b \<Rightarrow> rec_CreatedAt r \<le> b) \<and>
     (case q_DeletedFrom q of None \<Rightarrow> True
      | Some a \<Rightarrow> (case rec_DeletedAt r of None \<Rightarrow> False | Some d \<Rightarrow> a \<le> d)) \<and>
     (case q_DeletedTo q of None \<Rightarrow> True
      | Some b \<Rightarrow> (case rec_DeletedAt r of None \<Rightarrow> False | Some d \<Rightarrow> d \<le> b)) \<and>
     (q_DeletionPhase q \<noteq> [] \<longrightarrow> rec_DeletionPhase r = q_DeletionPhase q)"

definition normalize_query :: "SandboxMetadataQuery \<Rightarrow> SandboxMetadataQuery" where
  "normalize_query q =
     (let q1 = (if q_Page q \<le> 0 then q\<lparr>q_Page := 1\<rparr> else q);
          q2 = (if q_PageSize q1 \<le> 0 then q1\<lparr>q_PageSize := 20\<rparr> else q1)
      in if q_PageSize q2 > 100 then q2\<lparr>q_PageSize := 100\<rparr> else q2)"

definition ListMetadata_store :: "SandboxMetadataQuery \<Rightarrow> ('k, (SandboxRecord list \<times> int) res) prog" where
  "ListMetadata_store query =
     (let q = normalize_query query in
      seqE (sql_query ''failed to count metadata sandboxes''
             (\<lambda>t. int (length (filter (metadata_cond q) (sandboxes t))))) (\<lambda>total.
      seqE (sql_query ''failed to list metadata sandboxes'' (\<lambda>t.
             sql_page (q_Page q) (q_PageSize q)
               (order_by_desc rec_CreatedAt (filter (metadata_cond q) (sandboxes t))))) (\<lambda>items.
      retE (items, total))))"

definition expired_cond :: "time \<Rightarrow> SandboxRecord \<Rightarrow> bool" where
  "expired_cond now r \<longleftrightarrow>
     rec_DesiredState r = DesiredStateActive \<and> rec_TTL r > 0 \<and> rec_ExpiresAt r \<le> now \<and>
     rec_LifecycleStatus r \<notin> {''deleted'', ''terminating'', ''stopped''}"

definition ListExpiredActive :: "time \<Rightarrow> ('k, SandboxRecord list res) prog" where
  "ListExpiredActive now = sql_query ''failed to list expired sandboxes'' (\<lambda>t.
     order_by rec_ExpiresAt (filter (expired_cond now) (sandboxes t)))"

text \<open>\<open>UPDATE sandboxes SET ... WHERE id = ? AND guard\<close>.\<close>

definition update_sandbox ::
  "string \<Rightarrow> (SandboxRecord \<Rightarrow> bool) \<Rightarrow> (SandboxRecord \<Rightarrow> SandboxRecord) \<Rightarrow> tables \<Rightarrow> tables" where
  "update_sandbox sid guard f t =
     t\<lparr>sandboxes := update_where (\<lambda>r. rec_ID r = sid \<and> guard r) f (sandboxes t)\<rparr>"

definition SetDesiredDeleted_row :: "time \<Rightarrow> SandboxRecord \<Rightarrow> SandboxRecord" where
  "SetDesiredDeleted_row now r =
     r\<lparr>rec_DesiredState := DesiredStateDeleted, rec_LifecycleStatus := ''terminating'', rec_UpdatedAt := now\<rparr>"

definition SetDesiredDeleted :: "string \<Rightarrow> time \<Rightarrow> ('k, unit res) prog" where
  "SetDesiredDeleted sid now = sql_exec ''failed to set desired deleted''
     (update_sandbox sid (\<lambda>_. True) (SetDesiredDeleted_row now))"

definition MarkDeletionRequested_row :: "time \<Rightarrow> SandboxRecord \<Rightarrow> SandboxRecord" where
  "MarkDeletionRequested_row now r =
     r\<lparr>rec_DesiredState := DesiredStateDeleted, rec_LifecycleStatus := ''terminating'',
       rec_StatusReason := ''delete requested'', rec_DeletedAt := None,
       rec_DeletionPhase := DeletionPhaseRequested,
       rec_DeletionStartedAt := (case rec_DeletionStartedAt r of None \<Rightarrow> Some now | Some s \<Rightarrow> Some s),
       rec_DeletionLastAttemptAt := None, rec_DeletionNextRetryAt := Some now,
       rec_DeletionAttempts := 0, rec_DeletionForceLevel := 0, rec_DeletionLastError := [],
       rec_UpdatedAt := now\<rparr>"

definition MarkDeletionRequested :: "string \<Rightarrow> time \<Rightarrow> ('k, unit res) prog" where
  "MarkDeletionRequested sid now = sql_exec ''failed to mark deletion requested''
     (update_sandbox sid (\<lambda>r. rec_LifecycleStatus r \<noteq> ''deleted'') (MarkDeletionRequested_row now))"

definition AdvanceDeletionPhase_row :: "string \<Rightarrow> time \<Rightarrow> SandboxRecord \<Rightarrow> SandboxRecord" where
  "AdvanceDeletionPhase_row phase now r = r\<lparr>rec_DeletionPhase := phase, rec_UpdatedAt := now\<rparr>"

definition AdvanceDeletionPhase :: "string \<Rightarrow> string \<Rightarrow> time \<Rightarrow> ('k, unit res) prog" where
  "AdvanceDeletionPhase sid phase now = sql_exec ''failed to advance deletion phase''
     (update_sandbox sid (\<lambda>_. True) (AdvanceDeletionPhase_row phase now))"

definition RecordDeletionAttempt_row ::
  "int \<Rightarrow> int \<Rightarrow> time option \<Rightarrow> time option \<Rightarrow> string \<Rightarrow> time \<Rightarrow> SandboxRecord \<Rightarrow> SandboxRecord" where
  "RecordDeletionAttempt_row attempts forceLevel lastAttempt nextRetry lastError now r =
     r\<lparr>rec_DeletionLastAttemptAt := lastAttempt, rec_DeletionNextRetryAt := nextRetry,
       rec_DeletionAttempts := attempts, rec_DeletionForceLevel := forceLevel,
       rec_DeletionLastError := lastError, rec_UpdatedAt := now\<rparr>"

definition RecordDeletionAttempt ::
  "string \<Rightarrow> int \<Rightarrow> int \<Rightarrow> time option \<Rightarrow> time option \<Rightarrow> string \<Rightarrow> time \<Rightarrow> ('k, unit res) prog" where
  "RecordDeletionAttempt sid attempts forceLevel lastAttempt nextRetry lastError now =
     sql_exec ''failed to record deletion attempt''
       (update_sandbox sid (\<lambda>_. True)
          (RecordDeletionAttempt_row attempts forceLevel lastAttempt nextRetry lastError now))"

definition MarkDeletionCompleted_row :: "string \<Rightarrow> time \<Rightarrow> SandboxRecord \<Rightarrow> SandboxRecord" where
  "MarkDeletionCompleted_row reason now r =
     r\<lparr>rec_DesiredState := DesiredStateDeleted, rec_LifecycleStatus := ''deleted'',
       rec_StatusReason := reason, rec_DeletedAt := Some now, rec_UpdatedAt := now,
       rec_DeletionPhase := DeletionPhaseCompleted, rec_DeletionNextRetryAt := None,
       rec_DeletionLastError := []\<rparr>"

definition MarkDeletionCompleted :: "string \<Rightarrow> string \<Rightarrow> time \<Rightarrow> ('k, unit res) prog" where
  "MarkDeletionCompleted sid reason now = sql_exec ''failed to mark deletion completed''
     (update_sandbox sid (\<lambda>_. True) (MarkDeletionCompleted_row reason now))"

definition pending_deletion_cond :: "time \<Rightarrow> SandboxRecord \<Rightarrow> bool" where
  "pending_deletion_cond now r \<longleftrightarrow>
     rec_DesiredState r = DesiredStateDeleted \<and> rec_LifecycleStatus r \<noteq> ''deleted'' \<and>
     rec_DeletionPhase r \<noteq> DeletionPhaseCompleted \<and>
     (case rec_DeletionNextRetryAt r of None \<Rightarrow> True | Some n \<Rightarrow> n \<le> now)"

definition ListPendingDeletion :: "time \<Rightarrow> ('k, SandboxRecord list res) prog" where
  "ListPendingDeletion now = sql_query ''failed to list pending deletion sandboxes'' (\<lambda>t.
     order_by rec_UpdatedAt (filter (pending_deletion_cond now) (sandboxes t)))"

definition MarkDeleted :: "string \<Rightarrow> string \<Rightarrow> time \<Rightarrow> ('k, unit res) prog" where
  "MarkDeleted sid reason now = MarkDeletionCompleted sid reason now"

definition UpdateStatus_row :: "string \<Rightarrow> string \<Rightarrow> time \<Rightarrow> SandboxRecord \<Rightarrow> SandboxRecord" where
  "UpdateStatus_row status reason now r =
     r\<lparr>rec_LifecycleStatus := status, rec_StatusReason := reason, rec_UpdatedAt := now\<rparr>"

definition UpdateStatus :: "string \<Rightarrow> string \<Rightarrow> string \<Rightarrow> time \<Rightarrow> ('k, unit res) prog" where
  "UpdateStatus sid status reason now = sql_exec ''failed to update status''
     (update_sandbox sid (\<lambda>_. True) (UpdateStatus_row status reason now))"

text \<open>A guarded \<open>UPDATE\<close> that reports whether it found a row.\<close>

definition update_sandbox_if ::
  "string \<Rightarrow> string \<Rightarrow> (SandboxRecord \<Rightarrow> bool) \<Rightarrow> (SandboxRecord \<Rightarrow> SandboxRecord) \<Rightarrow> ('k, bool res) prog" where
  "update_sandbox_if msg sid guard f = sql_stmt msg (\<lambda>t.
     Some (\<exists>r \<in> set (sandboxes t). rec_ID r = sid \<and> guard r, update_sandbox sid guard f t))"

definition UpdateStatusIfActive :: "string \<Rightarrow> string \<Rightarrow> string \<Rightarrow> time \<Rightarrow> ('k, bool res) prog" where
  "UpdateStatusIfActive sid status reason now =
     update_sandbox_if ''failed to update active status'' sid active_cond (UpdateStatus_row status reason now)"

definition SetStopped_row :: "time \<Rightarrow> SandboxRecord \<Rightarrow> SandboxRecord" where
  "SetStopped_row now r =
     r\<lparr>rec_LifecycleStatus := ''stopped'', rec_StatusReason := ''stopped by request'',
       rec_StoppedAt := Some now, rec_PodPhase := [], rec_PodIP := [], rec_PodUID := [],
       rec_UpdatedAt := now\<rparr>"

definition SetStopped :: "string \<Rightarrow> time \<Rightarrow> ('k, unit res) prog" where
  "SetStopped sid now = sql_exec ''failed to set stopped''
     (update_sandbox sid (\<lambda>_. True) (SetStopped_row now))"

definition SetStarted_row :: "time \<Rightarrow> time \<Rightarrow> SandboxRecord \<Rightarrow> SandboxRecord" where
  "SetStarted_row newExpiresAt now r =
     r\<lparr>rec_LifecycleStatus := ''pending'', rec_StatusReason := ''start requested'',
       rec_StoppedAt := None, rec_ExpiresAt := newExpiresAt, rec_UpdatedAt := now\<rparr>"

definition SetStarted :: "string \<Rightarrow> time \<Rightarrow> time \<Rightarrow> ('k, unit res) prog" where
  "SetStarted sid newExpiresAt now = sql_exec ''failed to set started''
     (update_sandbox sid (\<lambda>_. True) (SetStarted_row newExpiresAt now))"

definition EnsureStoppedAt_row :: "time \<Rightarrow> SandboxRecord \<Rightarrow> SandboxRecord" where
  "EnsureStoppedAt_row now r =
     r\<lparr>rec_StoppedAt := (case rec_StoppedAt r of None \<Rightarrow> Some now | Some s \<Rightarrow> Some s), rec_UpdatedAt := now\<rparr>"

definition EnsureStoppedAt :: "string \<Rightarrow> time \<Rightarrow> ('k, unit res) prog" where
  "EnsureStoppedAt sid now = sql_exec ''failed to ensure stopped_at''
     (update_sandbox sid (\<lambda>_. True) (EnsureStoppedAt_row now))"

definition UpdateObservedState_row ::
  "string \<Rightarrow> string \<Rightarrow> string \<Rightarrow> string \<Rightarrow> string \<Rightarrow> time \<Rightarrow> time \<Rightarrow> SandboxRecord \<Rightarrow> SandboxRecord" where
  "UpdateObservedState_row podUID podPhase podIP lifecycleStatus reason lastSeen now r =
     r\<lparr>rec_PodUID := podUID, rec_PodPhase := podPhase, rec_PodIP := podIP,
       rec_LifecycleStatus := lifecycleStatus, rec_StatusReason := reason,
       rec_LastSeenAt := Some lastSeen, rec_UpdatedAt := now\<rparr>"

definition UpdateObservedState ::
  "string \<Rightarrow> string \<Rightarrow> string \<Rightarrow> string \<Rightarrow> string \<Rightarrow> string \<Rightarrow> time \<Rightarrow> time \<Rightarrow> ('k, unit res) prog" where
  "UpdateObservedState sid podUID podPhase podIP lifecycleStatus reason lastSeen now =
     sql_exec ''failed to update observed state''
       (update_sandbox sid (\<lambda>_. True)
          (UpdateObservedState_row podUID podPhase podIP lifecycleStatus reason lastSeen now))"

definition UpdateObservedStateIfActive ::
  "string \<Rightarrow> string \<Rightarrow> string \<Rightarrow> string \<Rightarrow> string \<Rightarrow> string \<Rightarrow> time \<Rightarrow> time \<Rightarrow> ('k, bool res) prog" where
  "UpdateObservedStateIfActive sid podUID podPhase podIP lifecycleStatus reason lastSeen now =
     update_sandbox_if ''failed to update active observed state'' sid active_cond
       (UpdateObservedState_row podUID podPhase podIP lifecycleStatus reason lastSeen now)"

text \<open>
  \<open>payload\<close> is what \<open>json.Marshal\<close> makes of the payload, \<open>None\<close> for a nil payload.
  The insert fails where the sandbox row is gone (the foreign key).
\<close>

definition AppendStatusHistory ::
  "string \<Rightarrow> string \<Rightarrow> string \<Rightarrow> string \<Rightarrow> string \<Rightarrow> string res option \<Rightarrow> time \<Rightarrow> ('k, unit res) prog" where
  "AppendStatusHistory sandboxID source fromStatus toStatus reason payload now =
     (case payload of
        Some (Inl e) \<Rightarrow> throw (Wrap ''failed to marshal status history payload'' e)
      | _ \<Rightarrow>
        (let payloadJSON = (case payload of Some (Inr b) \<Rightarrow> b | _ \<Rightarrow> ''{}'') in
         sql_stmt ''failed to append status history'' (\<lambda>t.
           if sandboxID \<notin> rec_ID ` set (sandboxes t) then None
           else Some ((), t\<lparr>status_history := status_history t @
                  [\<lparr>hist_ID = next_history_id t, hist_SandboxID = sandboxID, hist_Source = source,
                    hist_FromStatus = fromStatus, hist_ToStatus = toStatus, hist_Reason = reason,
                    hist_PayloadRaw = payloadJSON, hist_CreatedAt = now\<rparr>],
                  next_history_id := next_history_id t + 1\<rparr>))))"

definition CreateReconcileRun :: "ReconcileRunRecord \<Rightarrow> ('k, unit res) prog" where
  "CreateReconcileRun run = sql_stmt ''failed to create reconcile run'' (\<lambda>t.
     if run_ID run \<in> run_ID ` set (reconcile_runs t) then None
     else Some ((), t\<lparr>reconcile_runs := reconcile_runs t @ [run]\<rparr>))"

definition FinishReconcileRun_row ::
  "string \<Rightarrow> string \<Rightarrow> int \<Rightarrow> int \<Rightarrow> int \<Rightarrow> int \<Rightarrow> time \<Rightarrow> ReconcileRunRecord \<Rightarrow> ReconcileRunRecord" where
  "FinishReconcileRun_row status errMsg totalDB totalK8s drift fixed finishedAt r =
     r\<lparr>run_FinishedAt := Some finishedAt, run_TotalDB := totalDB, run_TotalK8s := totalK8s,
       run_DriftCount := drift, run_FixedCount := fixed, run_Status := status, run_Error := errMsg\<rparr>"

definition FinishReconcileRun ::
  "string \<Rightarrow> string \<Rightarrow> string \<Rightarrow> int \<Rightarrow> int \<Rightarrow> int \<Rightarrow> int \<Rightarrow> time \<Rightarrow> ('k, unit res) prog" where
  "FinishReconcileRun sid status errMsg totalDB totalK8s drift fixed finishedAt =
     sql_exec ''failed to finish reconcile run'' (\<lambda>t. t\<lparr>reconcile_runs :=
       update_where (\<lambda>r. run_ID r = sid)
         (FinishReconcileRun_row status errMsg totalDB totalK8s drift fixed finishedAt) (reconcile_runs t)\<rparr>)"

definition AddReconcileItem :: "ReconcileItemRecord \<Rightarrow> ('k, unit res) prog" where
  "AddReconcileItem item = sql_stmt ''failed to add reconcile item'' (\<lambda>t.
     if item_RunID item \<notin> run_ID ` set (reconcile_runs t) then None
     else Some ((), t\<lparr>reconcile_items := reconcile_items t @ [item\<lparr>item_ID := next_item_id t\<rparr>],
                      next_item_id := next_item_id t + 1\<rparr>))"

definition ListReconcileRuns :: "int \<Rightarrow> ('k, ReconcileRunRecord list res) prog" where
  "ListReconcileRuns limit =
     (let limit = (if limit \<le> 0 then 20 else limit) in
      sql_query ''failed to list reconcile runs''
        (\<lambda>t. limit_offset limit 0 (order_by_desc run_StartedAt (reconcile_runs t))))"

definition GetReconcileRun :: "string \<Rightarrow> ('k, ReconcileRunRecord option res) prog" where
  "GetReconcileRun sid = sql_query ''failed to get reconcile run'' (\<lambda>t. lookup run_ID sid (reconcile_runs t))"

definition ListReconcileItems :: "string \<Rightarrow> ('k, ReconcileItemRecord list res) prog" where
  "ListReconcileItems runID = sql_query ''failed to list reconcile items''
     (\<lambda>t. order_by item_ID (filter (\<lambda>i. item_RunID i = runID) (reconcile_items t)))"

definition ListStatusHistory ::
  "string \<Rightarrow> int \<Rightarrow> int \<Rightarrow> ('k, SandboxStatusHistoryRecord list res) prog" where
  "ListStatusHistory sandboxID limit beforeID =
     (let limit = (if limit \<le> 0 then 50 else limit);
          limit = (if limit > 200 then 200 else limit) in
      sql_query ''failed to list sandbox status history'' (\<lambda>t.
        limit_offset limit 0 (order_by_desc hist_ID
          (filter (\<lambda>h. hist_SandboxID h = sandboxID \<and> (beforeID > 0 \<longrightarrow> hist_ID h < beforeID))
             (status_history t)))))"

record PurgeHistoryResult =
  DeletedSandboxes :: int
  DeletedStatusHistory :: int
  DeletedReconcileRuns :: int
  DeletedReconcileItems :: int

text \<open>\<open>DELETE\<close> with its row count; deleting a parent row deletes its children.\<close>

definition purge_items :: "time \<Rightarrow> tables \<Rightarrow> int \<times> tables" where
  "purge_items cutoff t =
     (int (length (filter (\<lambda>i. item_CreatedAt i < cutoff) (reconcile_items t))),
      t\<lparr>reconcile_items := delete_where (\<lambda>i. item_CreatedAt i < cutoff) (reconcile_items t)\<rparr>)"

definition purge_runs :: "time \<Rightarrow> tables \<Rightarrow> int \<times> tables" where
  "purge_runs cutoff t =
     (let gone = filter (\<lambda>r. run_StartedAt r < cutoff) (reconcile_runs t) in
      (int (length gone),
       t\<lparr>reconcile_runs := delete_where (\<lambda>r. run_StartedAt r < cutoff) (reconcile_runs t),
         reconcile_items := delete_where (\<lambda>i. item_RunID i \<in> run_ID ` set gone) (reconcile_items t)\<rparr>))"

definition purge_history :: "time \<Rightarrow> tables \<Rightarrow> int \<times> tables" where
  "purge_history cutoff t =
     (int (length (filter (\<lambda>h. hist_CreatedAt h < cutoff) (status_history t))),
      t\<lparr>status_history := delete_where (\<lambda>h. hist_CreatedAt h < cutoff) (status_history t)\<rparr>)"

definition purge_cond :: "time \<Rightarrow> SandboxRecord \<Rightarrow> bool" where
  "purge_cond cutoff r \<longleftrightarrow>
     rec_LifecycleStatus r = ''deleted'' \<and>
     (rec_DeletionPhase r = DeletionPhaseCompleted \<or> rec_DeletionPhase r = []) \<and>
     (case rec_DeletedAt r of None \<Rightarrow> False | Some d \<Rightarrow> d < cutoff)"

definition purge_sandboxes :: "time \<Rightarrow> tables \<Rightarrow> int \<times> tables" where
  "purge_sandboxes cutoff t =
     (let gone = filter (purge_cond cutoff) (sandboxes t) in
      (int (length gone),
       t\<lparr>sandboxes := delete_where (purge_cond cutoff) (sandboxes t),
         status_history := delete_where (\<lambda>h. hist_SandboxID h \<in> rec_ID ` set gone) (status_history t)\<rparr>))"

definition PurgeHistoricalData :: "time \<Rightarrow> ('k, PurgeHistoryResult res) prog" where
  "PurgeHistoricalData cutoff =
     transaction ''failed to begin purge transaction'' ''failed to commit purge transaction''
       (seqE (sql_stmt ''failed to purge reconcile items'' (\<lambda>t. Some (purge_items cutoff t))) (\<lambda>items.
        seqE (sql_stmt ''failed to purge reconcile runs'' (\<lambda>t. Some (purge_runs cutoff t))) (\<lambda>runs.
        seqE (sql_stmt ''failed to purge status history'' (\<lambda>t. Some (purge_history cutoff t))) (\<lambda>hist.
        seqE (sql_stmt ''failed to purge deleted sandboxes'' (\<lambda>t. Some (purge_sandboxes cutoff t))) (\<lambda>sbs.
        retE (True, \<lparr>DeletedSandboxes = sbs, DeletedStatusHistory = hist,
                     DeletedReconcileRuns = runs, DeletedReconcileItems = items\<rparr>))))))"

section \<open>Contracts of the UPDATE statements\<close>

text \<open>
  Keys and references of the tables: identifiers are unique, history rows belong to sandboxes,
  items belong to runs, and the counters are ahead of every identifier they gave out.
\<close>

definition sandbox_tables_ok :: "tables \<Rightarrow> bool" where
  "sandbox_tables_ok t \<longleftrightarrow>
     distinct (map rec_ID (sandboxes t)) \<and>
     hist_SandboxID ` set (status_history t) \<subseteq> rec_ID ` set (sandboxes t) \<and>
     distinct (map hist_ID (status_history t)) \<and>
     (\<forall>h \<in> set (status_history t). hist_ID h < next_history_id t)"

definition run_tables_ok :: "tables \<Rightarrow> bool" where
  "run_tables_ok t \<longleftrightarrow>
     distinct (map run_ID (reconcile_runs t)) \<and>
     item_RunID ` set (reconcile_items t) \<subseteq> run_ID ` set (reconcile_runs t) \<and>
     distinct (map item_ID (reconcile_items t)) \<and>
     (\<forall>i \<in> set (reconcile_items t). item_ID i < next_item_id t)"

definition tables_ok :: "tables \<Rightarrow> bool" where
  "tables_ok t \<longleftrightarrow> sandbox_tables_ok t \<and> run_tables_ok t"

text \<open>A property of the rows of one sandbox, and the rows of all others.\<close>

definition rows_sat :: "string \<Rightarrow> (SandboxRecord \<Rightarrow> bool) \<Rightarrow> tables \<Rightarrow> bool" where
  "rows_sat sid P t \<longleftrightarrow> (\<forall>r \<in> set (sandboxes t). rec_ID r = sid \<longrightarrow> P r)"

definition other_rows :: "string \<Rightarrow> tables \<Rightarrow> SandboxRecord list" where
  "other_rows sid t = filter (\<lambda>r. rec_ID r \<noteq> sid) (sandboxes t)"

lemma rows_sat_mono: "rows_sat sid P t \<Longrightarrow> (\<And>r. rec_ID r = sid \<Longrightarrow> P r \<Longrightarrow> Q r) \<Longrightarrow> rows_sat sid Q t"
  by (auto simp: rows_sat_def)

lemma rows_sat_True [simp]: "rows_sat sid (\<lambda>_. True) t"
  by (simp add: rows_sat_def)

lemma rows_sat_conj: "rows_sat sid (\<lambda>r. P r \<and> Q r) t \<longleftrightarrow> rows_sat sid P t \<and> rows_sat sid Q t"
  by (auto simp: rows_sat_def)

lemma rows_sat_lookup: "rows_sat sid P t \<Longrightarrow> lookup rec_ID sid (sandboxes t) = Some r \<Longrightarrow> P r"
  by (auto simp: rows_sat_def dest: lookup_SomeD)

locale sandbox_update = row_update rec_ID guard upd
  for guard :: "SandboxRecord \<Rightarrow> bool" and upd :: "SandboxRecord \<Rightarrow> SandboxRecord"
begin

lemma ids_kept: "rec_ID ` set (sandboxes (update_sandbox sid guard upd t)) = rec_ID ` set (sandboxes t)"
  by (simp add: update_sandbox_def key_set_kept)

lemma ok_kept: "tables_ok t \<Longrightarrow> tables_ok (update_sandbox sid guard upd t)"
  using ids_kept [of sid t]
  by (simp add: tables_ok_def sandbox_tables_ok_def run_tables_ok_def update_sandbox_def keys_kept)

lemma others: "other_rows sid (update_sandbox sid guard upd t) = other_rows sid t"
  by (simp add: other_rows_def update_sandbox_def others_kept)

lemma rows_sat_upd:
  "rows_sat sid P (update_sandbox sid guard upd t) \<longleftrightarrow>
   rows_sat sid (\<lambda>r. P (if guard r then upd r else r)) t"
  by (auto simp: rows_sat_def update_sandbox_def set_update_where key_upd)

lemma lookup_upd:
  "lookup rec_ID sid (sandboxes (update_sandbox sid guard upd t)) =
     map_option (\<lambda>r. if guard r then upd r else r) (lookup rec_ID sid (sandboxes t))"
  by (simp add: update_sandbox_def lookup_same)

lemma lookup_upd_other:
  "j \<noteq> sid \<Longrightarrow> lookup rec_ID j (sandboxes (update_sandbox sid guard upd t)) = lookup rec_ID j (sandboxes t)"
  by (simp add: update_sandbox_def lookup_other)

end

lemmas row_defs =
  SetDesiredDeleted_row_def MarkDeletionRequested_row_def AdvanceDeletionPhase_row_def
  RecordDeletionAttempt_row_def MarkDeletionCompleted_row_def UpdateStatus_row_def SetStopped_row_def
  SetStarted_row_def EnsureStoppedAt_row_def UpdateObservedState_row_def

interpretation set_desired_deleted: sandbox_update "\<lambda>_. True" "SetDesiredDeleted_row now" for now
  by unfold_locales (simp add: row_defs)

interpretation deletion_requested:
  sandbox_update "\<lambda>r. rec_LifecycleStatus r \<noteq> ''deleted''" "MarkDeletionRequested_row now" for now
  by unfold_locales (simp add: row_defs)

interpretation advance_phase: sandbox_update "\<lambda>_. True" "AdvanceDeletionPhase_row phase now" for phase now
  by unfold_locales (simp add: row_defs)

interpretation record_attempt:
  sandbox_update "\<lambda>_. True" "RecordDeletionAttempt_row n l a b e now" for n l a b e now
  by unfold_locales (simp add: row_defs)

interpretation deletion_completed: sandbox_update "\<lambda>_. True" "MarkDeletionCompleted_row reason now" for reason now
  by unfold_locales (simp add: row_defs)

interpretation update_status: sandbox_update "\<lambda>_. True" "UpdateStatus_row status reason now" for status reason now
  by unfold_locales (simp add: row_defs)

interpretation update_status_active:
  sandbox_update active_cond "UpdateStatus_row status reason now" for status reason now
  by unfold_locales (simp add: row_defs)

interpretation set_stopped: sandbox_update "\<lambda>_. True" "SetStopped_row now" for now
  by unfold_locales (simp add: row_defs)

interpretation set_started: sandbox_update "\<lambda>_. True" "SetStarted_row e now" for e now
  by unfold_locales (simp add: row_defs)

interpretation ensure_stopped: sandbox_update "\<lambda>_. True" "EnsureStoppedAt_row now" for now
  by unfold_locales (simp add: row_defs)

interpretation observed:
  sandbox_update "\<lambda>_. True" "UpdateObservedState_row u p i l s a now" for u p i l s a now
  by unfold_locales (simp add: row_defs)

interpretation observed_active:
  sandbox_update active_cond "UpdateObservedState_row u p i l s a now" for u p i l s a now
  by unfold_locales (simp add: row_defs)

lemmas update_ok_kept =
  set_desired_deleted.ok_kept deletion_requested.ok_kept advance_phase.ok_kept record_attempt.ok_kept
  deletion_completed.ok_kept update_status.ok_kept update_status_active.ok_kept set_stopped.ok_kept
  set_started.ok_kept ensure_stopped.ok_kept observed.ok_kept observed_active.ok_kept

lemmas update_others =
  set_desired_deleted.others deletion_requested.others advance_phase.others record_attempt.others
  deletion_completed.others update_status.others update_status_active.others set_stopped.others
  set_started.others ensure_stopped.others observed.others observed_active.others

lemmas update_rows_sat =
  set_desired_deleted.rows_sat_upd deletion_requested.rows_sat_upd advance_phase.rows_sat_upd
  record_attempt.rows_sat_upd deletion_completed.rows_sat_upd update_status.rows_sat_upd
  update_status_active.rows_sat_upd set_stopped.rows_sat_upd set_started.rows_sat_upd
  ensure_stopped.rows_sat_upd observed.rows_sat_upd observed_active.rows_sat_upd

lemmas update_lookup =
  set_desired_deleted.lookup_upd deletion_requested.lookup_upd advance_phase.lookup_upd
  record_attempt.lookup_upd deletion_completed.lookup_upd update_status.lookup_upd
  update_status_active.lookup_upd set_stopped.lookup_upd set_started.lookup_upd
  ensure_stopped.lookup_upd observed.lookup_upd observed_active.lookup_upd

lemmas store_ops =
  SandboxStore_Create_def GetByID_def ListActive_def ListForUser_store_def ListForReconcile_def
  ListMetadata_store_def ListExpiredActive_def SetDesiredDeleted_def MarkDeletionRequested_def
  AdvanceDeletionPhase_def RecordDeletionAttempt_def MarkDeletionCompleted_def ListPendingDeletion_def
  MarkDeleted_def UpdateStatus_def update_sandbox_if_def UpdateStatusIfActive_def SetStopped_def
  SetStarted_def EnsureStoppedAt_def UpdateObservedState_def UpdateObservedStateIfActive_def
  CreateReconcileRun_def FinishReconcileRun_def AddReconcileItem_def ListReconcileRuns_def
  GetReconcileRun_def ListReconcileItems_def ListStatusHistory_def

section \<open>What the clients of the store may do to the tables\<close>

text \<open>The guard and the columns of every \<open>UPDATE\<close> of a sandbox row.\<close>

inductive row_write :: "(SandboxRecord \<Rightarrow> bool) \<Rightarrow> (SandboxRecord \<Rightarrow> SandboxRecord) \<Rightarrow> bool" where
  desired_deleted: "row_write (\<lambda>_. True) (SetDesiredDeleted_row now)"
| requested: "row_write (\<lambda>r. rec_LifecycleStatus r \<noteq> ''deleted'') (MarkDeletionRequested_row now)"
| advance: "row_write (\<lambda>_. True) (AdvanceDeletionPhase_row phase now)"
| attempt: "row_write (\<lambda>_. True) (RecordDeletionAttempt_row n l a b e now)"
| completed: "row_write (\<lambda>_. True) (MarkDeletionCompleted_row reason now)"
| status: "row_write (\<lambda>_. True) (UpdateStatus_row st reason now)"
| status_active: "row_write active_cond (UpdateStatus_row st reason now)"
| stopped: "row_write (\<lambda>_. True) (SetStopped_row now)"
| started: "row_write (\<lambda>_. True) (SetStarted_row e' now)"
| stopped_at: "row_write (\<lambda>_. True) (EnsureStoppedAt_row now)"
| observed: "row_write (\<lambda>_. True) (UpdateObservedState_row u p i st reason seen now)"
| observed_active: "row_write active_cond (UpdateObservedState_row u p i st reason seen now)"

lemma row_write_id: "row_write g u \<Longrightarrow> rec_ID (u r) = rec_ID r"
  by (cases rule: row_write.cases) (auto simp: row_defs)

text \<open>
  A preorder on the tables that every kind of write respects. The programs of the components only change the
  tables through the store, so each of them respects it too: the theories of the components add that to
  this locale, once for all such preorders.
\<close>

locale store_client = table_preorder r for r +
  assumes upd: "row_write g u \<Longrightarrow> r t (update_sandbox sid g u t)"
    and insert: "rec_ID x \<notin> rec_ID ` set (sandboxes t) \<Longrightarrow> r t (t\<lparr>sandboxes := sandboxes t @ [x]\<rparr>)"
    and history: "hist_SandboxID h \<in> rec_ID ` set (sandboxes t) \<Longrightarrow> hist_ID h = next_history_id t \<Longrightarrow>
      r t (t\<lparr>status_history := status_history t @ [h], next_history_id := next_history_id t + 1\<rparr>)"
    and run: "run_ID x' \<notin> run_ID ` set (reconcile_runs t) \<Longrightarrow> r t (t\<lparr>reconcile_runs := reconcile_runs t @ [x']\<rparr>)"
    and finish: "r t (t\<lparr>reconcile_runs :=
      update_where (\<lambda>x. run_ID x = sid) (FinishReconcileRun_row st em n1 n2 n3 n4 now) (reconcile_runs t)\<rparr>)"
    and item: "item_RunID y \<in> run_ID ` set (reconcile_runs t) \<Longrightarrow>
      r t (t\<lparr>reconcile_items := reconcile_items t @ [y\<lparr>item_ID := next_item_id t\<rparr>], next_item_id := next_item_id t + 1\<rparr>)"
begin

lemma exec_rel: "(\<And>t. r t (f t)) \<Longrightarrow> state_io_rel (db_rel r) (sql_exec msg f)"
  by (rule io_sql_stmt) (auto simp: table_refl)

lemma write_if_rel: "row_write g u \<Longrightarrow> state_io_rel (db_rel r) (update_sandbox_if msg sid g u)"
  unfolding update_sandbox_if_def by (rule io_sql_stmt) (auto simp: table_refl upd)

lemma reads_rel:
  "state_io_rel (db_rel r) (GetByID i)"
  "state_io_rel (db_rel r) ListActive"
  "state_io_rel (db_rel r) (ListForUser_store b)"
  "state_io_rel (db_rel r) ListForReconcile"
  "state_io_rel (db_rel r) (ListMetadata_store q)"
  "state_io_rel (db_rel r) (ListExpiredActive n)"
  "state_io_rel (db_rel r) (ListPendingDeletion n)"
  "state_io_rel (db_rel r) (ListReconcileRuns l)"
  "state_io_rel (db_rel r) (GetReconcileRun i)"
  "state_io_rel (db_rel r) (ListReconcileItems i)"
  "state_io_rel (db_rel r) (ListStatusHistory i l m)"
  unfolding store_ops Let_def by (intro io_program)+

lemma writes_rel:
  "state_io_rel (db_rel r) (SetDesiredDeleted i n)"
  "state_io_rel (db_rel r) (MarkDeletionRequested i n)"
  "state_io_rel (db_rel r) (AdvanceDeletionPhase i p n)"
  "state_io_rel (db_rel r) (RecordDeletionAttempt i m l a b e n)"
  "state_io_rel (db_rel r) (MarkDeletionCompleted i s n)"
  "state_io_rel (db_rel r) (MarkDeleted i s n)"
  "state_io_rel (db_rel r) (UpdateStatus i s x n)"
  "state_io_rel (db_rel r) (UpdateStatusIfActive i s x n)"
  "state_io_rel (db_rel r) (SetStopped i n)"
  "state_io_rel (db_rel r) (SetStarted i e' n)"
  "state_io_rel (db_rel r) (EnsureStoppedAt i n)"
  "state_io_rel (db_rel r) (UpdateObservedState i u p q s x a' n)"
  "state_io_rel (db_rel r) (UpdateObservedStateIfActive i u p q s x a' n)"
  "state_io_rel (db_rel r) (FinishReconcileRun i s e'' c d f g n)"
  unfolding SetDesiredDeleted_def MarkDeletionRequested_def AdvanceDeletionPhase_def
    RecordDeletionAttempt_def MarkDeleted_def MarkDeletionCompleted_def UpdateStatus_def
    UpdateStatusIfActive_def SetStopped_def SetStarted_def EnsureStoppedAt_def UpdateObservedState_def
    UpdateObservedStateIfActive_def FinishReconcileRun_def
  by (intro exec_rel write_if_rel upd finish row_write.intros)+

lemma inserts_rel:
  "state_io_rel (db_rel r) (SandboxStore_Create x)"
  "state_io_rel (db_rel r) (CreateReconcileRun x')"
  "state_io_rel (db_rel r) (AddReconcileItem y)"
  unfolding SandboxStore_Create_def CreateReconcileRun_def AddReconcileItem_def
  by (rule io_sql_stmt; auto simp: table_refl insert run item split: if_splits)+

lemma history_rel: "state_io_rel (db_rel r) (AppendStatusHistory a b c d e p n)"
  unfolding AppendStatusHistory_def Let_def
  by (auto split: option.split sum.split simp: table_refl history intro!: io_ret io_sql_stmt split: if_splits)

lemmas store_rel = reads_rel writes_rel inserts_rel history_rel

end

section \<open>Every operation keeps the tables well formed\<close>

lemma tables_ok_history:
  "tables_ok t \<Longrightarrow> hist_SandboxID h \<in> rec_ID ` set (sandboxes t) \<Longrightarrow> hist_ID h = next_history_id t \<Longrightarrow>
   tables_ok (t\<lparr>status_history := status_history t @ [h], next_history_id := next_history_id t + 1\<rparr>)"
  by (fastforce simp: tables_ok_def sandbox_tables_ok_def run_tables_ok_def)

lemma tables_ok_item:
  "tables_ok t \<Longrightarrow> item_RunID i \<in> run_ID ` set (reconcile_runs t) \<Longrightarrow>
   tables_ok (t\<lparr>reconcile_items := reconcile_items t @ [i\<lparr>item_ID := next_item_id t\<rparr>],
                next_item_id := next_item_id t + 1\<rparr>)"
  by (fastforce simp: tables_ok_def sandbox_tables_ok_def run_tables_ok_def)

lemma tables_ok_insert:
  "tables_ok t \<Longrightarrow> rec_ID r \<notin> rec_ID ` set (sandboxes t) \<Longrightarrow>
   tables_ok (t\<lparr>sandboxes := sandboxes t @ [r]\<rparr>)"
  by (auto simp: tables_ok_def sandbox_tables_ok_def run_tables_ok_def)

lemma tables_ok_run:
  "tables_ok t \<Longrightarrow> run_ID r \<notin> run_ID ` set (reconcile_runs t) \<Longrightarrow>
   tables_ok (t\<lparr>reconcile_runs := reconcile_runs t @ [r]\<rparr>)"
  by (auto simp: tables_ok_def sandbox_tables_ok_def run_tables_ok_def)

interpretation finish_run: row_update run_ID "\<lambda>_. True" "FinishReconcileRun_row s e a b c d f" for s e a b c d f
  by unfold_locales (simp add: FinishReconcileRun_row_def)

lemma tables_ok_finish:
  "tables_ok t \<Longrightarrow>
   tables_ok (t\<lparr>reconcile_runs := update_where (\<lambda>r. run_ID r = sid) (FinishReconcileRun_row s e a b c d f) (reconcile_runs t)\<rparr>)"
  by (simp add: tables_ok_def sandbox_tables_ok_def run_tables_ok_def finish_run.keys_kept [simplified]
      finish_run.key_set_kept [simplified])

lemma tables_ok_write: "row_write g u \<Longrightarrow> tables_ok t \<Longrightarrow> tables_ok (update_sandbox sid g u t)"
  by (erule row_write.cases) (simp_all add: update_ok_kept)

interpretation wf: store_client "keeps tables_ok"
  by unfold_locales
     (auto simp: keeps_def tables_ok_write tables_ok_insert tables_ok_history tables_ok_run tables_ok_finish tables_ok_item)

text \<open>Deleting parents with their children leaves no child without a parent.\<close>

lemma cascade_ok:
  assumes "child ` set cs \<subseteq> key ` set ps"
  shows "child ` set (delete_where (\<lambda>c. child c \<in> key ` set (filter P ps)) cs) \<subseteq> key ` set (delete_where P ps)"
  using assms by (fastforce simp: set_delete_where)

lemma purge_ok:
  assumes "tables_ok t"
  shows "tables_ok (snd (purge_items c t))" "tables_ok (snd (purge_runs c t))"
    "tables_ok (snd (purge_history c t))" "tables_ok (snd (purge_sandboxes c t))"
  using assms cascade_ok [of item_RunID "reconcile_items t" run_ID "reconcile_runs t" "\<lambda>r. run_StartedAt r < c"]
    cascade_ok [of hist_SandboxID "status_history t" rec_ID "sandboxes t" "purge_cond c"]
  by (auto simp: tables_ok_def sandbox_tables_ok_def run_tables_ok_def purge_items_def purge_runs_def
      purge_history_def purge_sandboxes_def Let_def set_delete_where distinct_delete_where)

lemma io_PurgeHistoricalData: "state_io_rel (db_rel (keeps tables_ok)) (PurgeHistoricalData c)"
  unfolding PurgeHistoricalData_def
  by (intro wf.io_structure wf.io_tx io_sql_stmt; auto simp: keeps_def dest: purge_ok [of _ c])

lemmas store_wf = wf.store_rel io_PurgeHistoricalData

section \<open>Operations on one sandbox touch its row only\<close>

definition touches :: "string \<Rightarrow> tables \<Rightarrow> tables \<Rightarrow> bool" where
  "touches sid t t' \<longleftrightarrow>
     map rec_ID (sandboxes t') = map rec_ID (sandboxes t) \<and> other_rows sid t' = other_rows sid t"

interpretation frame: table_preorder "touches sid" for sid
  by unfold_locales (auto simp: touches_def)

lemma touches_rows_sat:
  "touches sid t t' \<Longrightarrow> j \<noteq> sid \<Longrightarrow> rows_sat j P t' \<longleftrightarrow> rows_sat j P t"
proof -
  assume "touches sid t t'" "j \<noteq> sid"
  then have "set (other_rows sid t') = set (other_rows sid t)"
    by (simp add: touches_def)
  then show ?thesis
    using \<open>j \<noteq> sid\<close> unfolding rows_sat_def other_rows_def set_filter by (metis (lifting) mem_Collect_eq)
qed

lemma lookup_in: "lookup rec_ID i (sandboxes t) \<noteq> None \<longleftrightarrow> i \<in> set (map rec_ID (sandboxes t))"
  by (auto simp: lookup_None_iff)

lemma touches_lookup:
  "touches sid t t' \<Longrightarrow> lookup rec_ID j (sandboxes t) = Some r \<Longrightarrow> \<exists>r'. lookup rec_ID j (sandboxes t') = Some r'"
  using lookup_in [of j t] lookup_in [of j t'] by (auto simp: touches_def)

lemma touches_lookup_other:
  "touches sid t t' \<Longrightarrow> j \<noteq> sid \<Longrightarrow> lookup rec_ID j (sandboxes t') = lookup rec_ID j (sandboxes t)"
proof -
  assume a: "touches sid t t'" "j \<noteq> sid"
  have "lookup rec_ID j xs = find (\<lambda>r. rec_ID r = j) (filter (\<lambda>r. rec_ID r \<noteq> sid) xs)" for xs
    using a(2) by (induction xs) (auto simp: lookup_def)
  from this [of "sandboxes t"] this [of "sandboxes t'"] show ?thesis
    using a(1) by (simp add: touches_def other_rows_def)
qed

context sandbox_update
begin

lemma touches_upd: "touches sid t (update_sandbox sid guard upd t)"
  using others [of sid t] by (simp add: touches_def update_sandbox_def keys_kept)

end

lemma fr_exec: "(\<And>t. touches sid t (f t)) \<Longrightarrow> state_io_rel (db_rel (touches sid)) (sql_exec msg f)"
  by (rule io_sql_stmt) (auto simp: touches_def)

lemma fr_update_if:
  "(\<And>t. touches sid t (update_sandbox sid g f t)) \<Longrightarrow>
   state_io_rel (db_rel (touches sid)) (update_sandbox_if msg sid g f)"
  unfolding update_sandbox_if_def by (rule io_sql_stmt) (auto simp: touches_def)

lemma fr_updates:
  "state_io_rel (db_rel (touches i)) (SetDesiredDeleted i n)"
  "state_io_rel (db_rel (touches i)) (MarkDeletionRequested i n)"
  "state_io_rel (db_rel (touches i)) (AdvanceDeletionPhase i p n)"
  "state_io_rel (db_rel (touches i)) (RecordDeletionAttempt i m l a b e n)"
  "state_io_rel (db_rel (touches i)) (MarkDeletionCompleted i s n)"
  "state_io_rel (db_rel (touches i)) (MarkDeleted i s n)"
  "state_io_rel (db_rel (touches i)) (UpdateStatus i s x n)"
  "state_io_rel (db_rel (touches i)) (UpdateStatusIfActive i s x n)"
  "state_io_rel (db_rel (touches i)) (SetStopped i n)"
  "state_io_rel (db_rel (touches i)) (SetStarted i e' n)"
  "state_io_rel (db_rel (touches i)) (EnsureStoppedAt i n)"
  "state_io_rel (db_rel (touches i)) (UpdateObservedState i u p q s x a' n)"
  "state_io_rel (db_rel (touches i)) (UpdateObservedStateIfActive i u p q s x a' n)"
  unfolding SetDesiredDeleted_def MarkDeletionRequested_def AdvanceDeletionPhase_def
    RecordDeletionAttempt_def MarkDeleted_def MarkDeletionCompleted_def UpdateStatus_def
    UpdateStatusIfActive_def SetStopped_def SetStarted_def EnsureStoppedAt_def UpdateObservedState_def
    UpdateObservedStateIfActive_def
  by (intro fr_exec fr_update_if set_desired_deleted.touches_upd deletion_requested.touches_upd
      advance_phase.touches_upd record_attempt.touches_upd deletion_completed.touches_upd
      update_status.touches_upd update_status_active.touches_upd set_stopped.touches_upd
      set_started.touches_upd ensure_stopped.touches_upd observed.touches_upd observed_active.touches_upd)+

lemma fr_reads:
  "state_io_rel (db_rel (touches i)) (GetByID j)"
  "state_io_rel (db_rel (touches i)) (ListPendingDeletion n)"
  unfolding GetByID_def ListPendingDeletion_def by (intro frame.io_query)+

lemma fr_AppendStatusHistory: "state_io_rel (db_rel (touches i)) (AppendStatusHistory a b c d e p n)"
  unfolding AppendStatusHistory_def Let_def
  by (auto split: option.split sum.split simp: touches_def other_rows_def
      intro!: frame.io_ret io_sql_stmt split: if_splits)

lemma fr_AddReconcileItem: "state_io_rel (db_rel (touches i)) (AddReconcileItem item)"
  unfolding AddReconcileItem_def
  by (rule io_sql_stmt) (auto simp: touches_def other_rows_def split: if_splits)

lemmas store_frame = fr_updates fr_reads fr_AppendStatusHistory fr_AddReconcileItem

end
