(* ===== verification/Kube_Client.thy ===== *)
theory Kube_Client
  imports Sql_Tables "HOL-Library.AList"
begin

text \<open>
  The Kubernetes client, \<open>backend/internal/k8s\<close> (\<open>client.go\<close>,
  \<open>persistent_runtime.go\<close>, \<open>persistent_observer.go\<close>). The API server is not part of the
  repository: a \<open>Client\<close> record holds the client's configuration and, as functions on the
  opaque cluster state \<open>'k\<close>, the API calls the code makes. Nothing is assumed of them here,
  so what is proved without a hypothesis on the record holds for every cluster. The objects are
  the fields of the API types the code reads or writes.
\<close>

section \<open>API objects\<close>

type_synonym str_map = "(string \<times> string) list"

record ObjectMeta =
  om_Name :: string
  om_Namespace :: string
  om_Labels :: "str_map option"
  om_Annotations :: str_map
  om_Finalizers :: "string list"
  om_DeletionTimestamp :: "time option"
  om_CreationTimestamp :: time
  om_UID :: string

record Condition =
  cond_Type :: string
  cond_Status :: string
  cond_Reason :: string
  cond_Message :: string

record ContainerStatus =
  cs_Name :: string
  cs_Terminated :: "(int \<times> string \<times> string) option"
  cs_Waiting :: "(string \<times> string) option"

text \<open>The terminated state is (exit code, reason, message), the waiting state (reason, message).\<close>

record Container =
  c_Name :: string
  c_Image :: string
  c_ImagePullPolicy :: string
  c_Command :: "string list"
  c_Args :: "string list"
  c_Env :: str_map
  c_Limits :: str_map
  c_Requests :: str_map
  c_Privileged :: "bool option"
  c_AllowPrivilegeEscalation :: "bool option"
  c_VolumeMounts :: str_map

text \<open>A volume is the claim it mounts, or an empty directory.\<close>

datatype VolumeSource = ClaimVolume string | EmptyDir | OtherVolume

record PodSpec =
  spec_AutomountServiceAccountToken :: "bool option"
  spec_RestartPolicy :: string
  spec_TerminationGracePeriodSeconds :: "int option"
  spec_ShareProcessNamespace :: "bool option"
  spec_Tolerations :: str_map
  spec_SeccompProfile :: string
  spec_InitContainers :: "Container list"
  spec_Containers :: "Container list"
  spec_Volumes :: "(string \<times> VolumeSource) list"

record Pod =
  pod_Meta :: ObjectMeta
  pod_Spec :: PodSpec
  pod_Phase :: string
  pod_Conditions :: "Condition list"
  pod_PodIP :: string
  pod_Message :: string
  pod_Reason :: string
  pod_InitContainerStatuses :: "ContainerStatus list"
  pod_ContainerStatuses :: "ContainerStatus list"

record Deployment =
  dep_Meta :: ObjectMeta
  dep_Replicas :: "int option"
  dep_MatchLabels :: str_map
  dep_Strategy :: string
  dep_TemplateLabels :: str_map
  dep_TemplateAnnotations :: str_map
  dep_TemplateSpec :: PodSpec
  dep_Conditions :: "Condition list"

record PVC =
  pvc_Meta :: ObjectMeta
  pvc_AccessModes :: "string list"
  pvc_StorageRequest :: string
  pvc_StorageClassName :: "string option"
  pvc_VolumeName :: string
  pvc_Phase :: string

record PV =
  pv_Meta :: ObjectMeta
  pv_ClaimRef :: "(string \<times> string) option"
  pv_Phase :: string

record VolumeAttachment =
  va_Name :: string
  va_PersistentVolumeName :: "string option"

record Event =
  ev_InvolvedKind :: string
  ev_InvolvedName :: string
  ev_Type :: string
  ev_Reason :: string
  ev_Message :: string
  ev_LastTimestamp :: "time option"
  ev_EventTime :: "time option"
  ev_FirstTimestamp :: "time option"
  ev_CreationTimestamp :: time

datatype exec_end = ExecDone | ExitStatus int | StreamErr go_err

text \<open>
  The client and the API. A get, list, create, update or delete takes the namespace (where the
  kind has one), its argument and the cluster state. \<open>pods_Delete\<close> also takes whether the
  grace period is forced to zero. \<open>quantity_err\<close> is the error of \<open>resource.ParseQuantity\<close>;
  a parsed quantity is kept as its text. \<open>image_config\<close> is the registry lookup of
  \<open>resolveImageEntrypointAndCmd\<close>, \<open>pod_exec\<close> the exec stream (what it wrote to standard
  output and error, and how it ended). The
  scripts are the opaque texts the \<open>buildRootfsOverlay...\<close> functions return.
\<close>

record 'k Client =
  sandboxNS :: string
  controlNS :: string
  persistentRootFSHelperImage :: string
  prepScript :: string
  mainWrapperScript :: string
  helperScript :: string
  pods_Get :: "string \<Rightarrow> string \<Rightarrow> 'k \<Rightarrow> Pod res \<times> 'k"
  pods_List :: "string \<Rightarrow> str_map \<Rightarrow> 'k \<Rightarrow> Pod list res \<times> 'k"
  pods_Create :: "string \<Rightarrow> Pod \<Rightarrow> 'k \<Rightarrow> Pod res \<times> 'k"
  pods_Delete :: "string \<Rightarrow> string \<Rightarrow> bool \<Rightarrow> 'k \<Rightarrow> unit res \<times> 'k"
  deployments_Get :: "string \<Rightarrow> string \<Rightarrow> 'k \<Rightarrow> Deployment res \<times> 'k"
  deployments_Create :: "string \<Rightarrow> Deployment \<Rightarrow> 'k \<Rightarrow> Deployment res \<times> 'k"
  deployments_Update :: "string \<Rightarrow> Deployment \<Rightarrow> 'k \<Rightarrow> Deployment res \<times> 'k"
  deployments_Delete :: "string \<Rightarrow> string \<Rightarrow> 'k \<Rightarrow> unit res \<times> 'k"
  pvcs_Get :: "string \<Rightarrow> string \<Rightarrow> 'k \<Rightarrow> PVC res \<times> 'k"
  pvcs_List :: "string \<Rightarrow> str_map \<Rightarrow> 'k \<Rightarrow> PVC list res \<times> 'k"
  pvcs_Create :: "string \<Rightarrow> PVC \<Rightarrow> 'k \<Rightarrow> PVC res \<times> 'k"
  pvcs_Update :: "string \<Rightarrow> PVC \<Rightarrow> 'k \<Rightarrow> PVC res \<times> 'k"
  pvcs_Delete :: "string \<Rightarrow> string \<Rightarrow> 'k \<Rightarrow> unit res \<times> 'k"
  pvs_Get :: "string \<Rightarrow> 'k \<Rightarrow> PV res \<times> 'k"
  pvs_Update :: "PV \<Rightarrow> 'k \<Rightarrow> PV res \<times> 'k"
  pvs_Delete :: "string \<Rightarrow> 'k \<Rightarrow> unit res \<times> 'k"
  attachments_List :: "'k \<Rightarrow> VolumeAttachment list res \<times> 'k"
  attachments_Delete :: "string \<Rightarrow> 'k \<Rightarrow> unit res \<times> 'k"
  events_List :: "string \<Rightarrow> 'k \<Rightarrow> Event list res \<times> 'k"
  quantity_err :: "string \<Rightarrow> go_err option"
  image_config :: "string \<Rightarrow> 'k \<Rightarrow> (string list \<times> string list) res \<times> 'k"
  pod_exec :: "string \<Rightarrow> string \<Rightarrow> string list \<Rightarrow> 'k \<Rightarrow> (string \<times> string \<times> exec_end) res \<times> 'k"

abbreviation "LabelApp \<equiv> ''liteboxd''"
abbreviation "LabelSandboxID \<equiv> ''sandbox-id''"
abbreviation "LabelManagedBy \<equiv> ''liteboxd.io/managed-by''"
abbreviation "ManagedByServer \<equiv> ''liteboxd-server''"
abbreviation "LabelInternetAccess \<equiv> ''liteboxd.io/internet-access''"
abbreviation "AnnotationTTL \<equiv> ''liteboxd/ttl''"
abbreviation "AnnotationCreatedAt \<equiv> ''liteboxd/created-at''"
abbreviation "AnnotationAccessToken \<equiv> ''liteboxd.io/access-token''"
abbreviation "PodPending \<equiv> ''Pending''"
abbreviation "PodRunning \<equiv> ''Running''"
abbreviation "PodSucceeded \<equiv> ''Succeeded''"
abbreviation "PodFailed \<equiv> ''Failed''"

definition meta :: "string \<Rightarrow> string \<Rightarrow> str_map option \<Rightarrow> str_map \<Rightarrow> ObjectMeta" where
  "meta name ns ls annos =
     \<lparr>om_Name = name, om_Namespace = ns, om_Labels = ls, om_Annotations = annos, om_Finalizers = [],
      om_DeletionTimestamp = None, om_CreationTimestamp = 0, om_UID = []\<rparr>"

text \<open>A call whose \<open>NotFound\<close> error counts as success.\<close>

definition ignore_not_found :: "('k, 'a res) prog \<Rightarrow> ('k, unit res) prog" where
  "ignore_not_found m = do {
     r \<leftarrow> m;
     ret (case r of Inr _ \<Rightarrow> Inr () | Inl e \<Rightarrow> if is_not_found e then Inr () else Inl e) }"

section \<open>Finding the pod of a sandbox (persistent\_runtime.go)\<close>

definition sandbox_selector :: "string \<Rightarrow> str_map" where
  "sandbox_selector sandboxID = [(''app'', LabelApp), (LabelSandboxID, sandboxID)]"

definition cond_true :: "string \<Rightarrow> Condition list \<Rightarrow> bool" where
  "cond_true ty cs \<longleftrightarrow> list_ex (\<lambda>c. cond_Type c = ty \<and> cond_Status c = ''True'') cs"

definition podPriority :: "Pod \<Rightarrow> int" where
  "podPriority p =
     (if om_DeletionTimestamp (pod_Meta p) \<noteq> None then 0
      else if pod_Phase p = PodRunning then
        (if cond_true ''Ready'' (pod_Conditions p) then 3 else 2)
      else if pod_Phase p = PodPending then 1 else 0)"

text \<open>
  \<open>sort.Slice\<close> with the comparison of \<open>getSandboxPod\<close>: by priority, then by age, the
  youngest first.
\<close>

definition sort_pods :: "Pod list \<Rightarrow> Pod list" where
  "sort_pods items =
     sort_key (\<lambda>p. - podPriority p) (sort_key (\<lambda>p. - om_CreationTimestamp (pod_Meta p)) items)"

definition getSandboxPod :: "'k Client \<Rightarrow> string \<Rightarrow> ('k, Pod res) prog" where
  "getSandboxPod c sandboxID = (let legacyName = ''sandbox-'' @ sandboxID in do {
     r \<leftarrow> kube_call (pods_Get c (sandboxNS c) legacyName);
     case r of
       Inr pod \<Rightarrow> retE pod
     | Inl e \<Rightarrow>
         if \<not> is_not_found e then throw (Wrap ''failed to get sandbox pod'' e)
         else do {
           l \<leftarrow> kube_call (pods_List c (sandboxNS c) (sandbox_selector sandboxID));
           case l of
             Inl e \<Rightarrow> throw (Wrap ''failed to list sandbox pods'' e)
           | Inr items \<Rightarrow>
               (case sort_pods items of
                  [] \<Rightarrow> throw (NotFound (''pods '' @ legacyName))
                | p # _ \<Rightarrow> retE p) } })"

section \<open>Creating sandboxes (client.go, persistent\_runtime.go)\<close>

record CreatePodOptions =
  opt_ID :: string
  opt_Image :: string
  opt_Command :: "string list"
  opt_Args :: "string list"
  opt_CPU :: string
  opt_Memory :: string
  opt_TTL :: int
  opt_Env :: str_map
  opt_Annotations :: str_map
  opt_StartupScript :: string
  opt_StartupFiles :: "FileSpec list"
  opt_ReadinessProbe :: "ProbeSpec option"
  opt_Network :: "NetworkSpec option"
  opt_AccessToken :: string

record CreatePersistentSandboxOptions = CreatePodOptions +
  opt_StorageClassName :: string
  opt_VolumeSize :: string
  opt_VolumeClaimName :: string

text \<open>\<open>resource.MustParse\<close> panics where \<open>ParseQuantity\<close> fails.\<close>

definition must_parse :: "'k Client \<Rightarrow> string \<Rightarrow> string res" where
  "must_parse c q =
     (case quantity_err c q of
        None \<Rightarrow> Inr q
      | Some e \<Rightarrow> Inl (GoPanic (''cannot parse '' @ quote_str q @ '': '' @ err_text e)))"

definition containerWithCommandAndArgs :: "'k Client \<Rightarrow> 'z CreatePodOptions_scheme \<Rightarrow> Container res" where
  "containerWithCommandAndArgs c opts =
     (let cpuLimit = (if opt_CPU opts = [] then ''500m'' else opt_CPU opts);
          memLimit = (if opt_Memory opts = [] then ''512Mi'' else opt_Memory opts) in
      case must_parse c cpuLimit of Inl e \<Rightarrow> Inl e | Inr cpu \<Rightarrow>
      (case must_parse c memLimit of Inl e \<Rightarrow> Inl e | Inr mem \<Rightarrow>
       Inr \<lparr>c_Name = ''main'', c_Image = opt_Image opts, c_ImagePullPolicy = ''IfNotPresent'',
            c_Command = opt_Command opts, c_Args = opt_Args opts, c_Env = opt_Env opts,
            c_Limits = [(''cpu'', cpu), (''memory'', mem)],
            c_Requests = [(''cpu'', ''100m''), (''memory'', ''128Mi'')],
            c_Privileged = None, c_AllowPrivilegeEscalation = Some False,
            c_VolumeMounts = [(''workspace'', ''/workspace'')]\<rparr>))"

definition randomString :: "nat \<Rightarrow> ('k, string) prog" where
  "randomString n = do {
     r \<leftarrow> rand_token;
     ret (case r of Some s \<Rightarrow> take n s | None \<Rightarrow> replicate n (CHR ''0'')) }"

definition generateAccessToken :: "('k, string) prog" where
  "generateAccessToken = do {
     r \<leftarrow> rand_token;
     case r of
       Some s \<Rightarrow> ret s
     | None \<Rightarrow> do { t \<leftarrow> time_now; s \<leftarrow> randomString 16; ret (show_int t @ ''-'' @ s) } }"

definition create_annotations :: "'z CreatePodOptions_scheme \<Rightarrow> string \<Rightarrow> time \<Rightarrow> str_map" where
  "create_annotations opts accessToken now =
     fold (\<lambda>(k, v) m. AList.update k v m) (opt_Annotations opts)
       [(AnnotationTTL, show_int (opt_TTL opts)), (AnnotationCreatedAt, format_rfc3339 now),
        (AnnotationAccessToken, accessToken)]"

definition open_internet :: "NetworkSpec option \<Rightarrow> bool" where
  "open_internet n = (case n of None \<Rightarrow> False
     | Some s \<Rightarrow> net_AllowInternetAccess s \<and> net_AllowedDomains s = [])"

definition create_labels :: "'z CreatePodOptions_scheme \<Rightarrow> str_map" where
  "create_labels opts =
     [(''app'', LabelApp), (LabelSandboxID, opt_ID opts), (LabelManagedBy, ManagedByServer)] @
     (if open_internet (opt_Network opts) then [(LabelInternetAccess, ''true'')] else [])"

definition pressure_tolerations :: str_map where
  "pressure_tolerations =
     [(''node.kubernetes.io/disk-pressure'', ''Exists''), (''node.kubernetes.io/memory-pressure'', ''Exists''),
      (''node.kubernetes.io/pid-pressure'', ''Exists'')]"

definition CreatePod :: "'k Client \<Rightarrow> CreatePodOptions \<Rightarrow> ('k, Pod res) prog" where
  "CreatePod c opts = do {
     accessToken \<leftarrow> (if opt_AccessToken opts = [] then generateAccessToken else ret (opt_AccessToken opts));
     now \<leftarrow> time_now;
     case containerWithCommandAndArgs c opts of
       Inl e \<Rightarrow> throw e
     | Inr container \<Rightarrow>
         kube_call (pods_Create c (sandboxNS c)
           \<lparr>pod_Meta = meta (''sandbox-'' @ opt_ID opts) (sandboxNS c) (Some (create_labels opts))
                         (create_annotations opts accessToken now),
            pod_Spec = \<lparr>spec_AutomountServiceAccountToken = Some False, spec_RestartPolicy = ''Never'',
                        spec_TerminationGracePeriodSeconds = None, spec_ShareProcessNamespace = None,
                        spec_Tolerations = pressure_tolerations, spec_SeccompProfile = ''RuntimeDefault'',
                        spec_InitContainers = [], spec_Containers = [container],
                        spec_Volumes = [(''workspace'', EmptyDir)]\<rparr>,
            pod_Phase = [], pod_Conditions = [], pod_PodIP = [], pod_Message = [], pod_Reason = [],
            pod_InitContainerStatuses = [], pod_ContainerStatuses = []\<rparr>) }"

abbreviation "rootfsOverlayPrepInitName \<equiv> ''rootfs-prepare''"
abbreviation "rootfsOverlayMountTarget \<equiv> ''/.liteboxd-rootfs''"
abbreviation "rootfsOverlayControlDir \<equiv> ''/.liteboxd-control''"
abbreviation "rootfsOverlayMergedPath \<equiv> ''/.liteboxd-rootfs/.liteboxd-overlay/merged''"

definition rootfs_mounts :: str_map where
  "rootfs_mounts = [(''rootfs'', rootfsOverlayMountTarget), (''rootfs-control'', rootfsOverlayControlDir)]"

definition prep_container :: "'k Client \<Rightarrow> Container" where
  "prep_container c =
     \<lparr>c_Name = rootfsOverlayPrepInitName, c_Image = persistentRootFSHelperImage c,
      c_ImagePullPolicy = ''IfNotPresent'', c_Command = [''sh'', ''-ec'', prepScript c], c_Args = [], c_Env = [],
      c_Limits = [(''cpu'', ''100m''), (''memory'', ''128Mi'')],
      c_Requests = [(''cpu'', ''10m''), (''memory'', ''32Mi'')],
      c_Privileged = None, c_AllowPrivilegeEscalation = Some False, c_VolumeMounts = rootfs_mounts\<rparr>"

definition helper_container :: "'k Client \<Rightarrow> Container" where
  "helper_container c =
     \<lparr>c_Name = ''rootfs-helper'', c_Image = persistentRootFSHelperImage c,
      c_ImagePullPolicy = ''IfNotPresent'', c_Command = [''sh'', ''-ec'', helperScript c], c_Args = [], c_Env = [],
      c_Limits = [(''cpu'', ''300m''), (''memory'', ''256Mi'')],
      c_Requests = [(''cpu'', ''25m''), (''memory'', ''64Mi'')],
      c_Privileged = Some True, c_AllowPrivilegeEscalation = Some True, c_VolumeMounts = rootfs_mounts\<rparr>"

definition main_container :: "'k Client \<Rightarrow> string list \<Rightarrow> string list \<Rightarrow> Container \<Rightarrow> Container" where
  "main_container c command args container =
     container\<lparr>c_VolumeMounts := rootfs_mounts,
       c_Env := c_Env container @ [(''LITEBOXD_ROOTFS_CONTROL_DIR'', rootfsOverlayControlDir),
                                   (''LITEBOXD_ROOTFS_MOUNT_TARGET'', rootfsOverlayMountTarget)],
       c_Command := [''sh'', ''-ec'', mainWrapperScript c, ''rootfs-main''],
       c_Args := command @ args\<rparr>"

definition persistent_pod_spec :: "'k Client \<Rightarrow> string \<Rightarrow> Container \<Rightarrow> PodSpec" where
  "persistent_pod_spec c claimName mainContainer =
     \<lparr>spec_AutomountServiceAccountToken = Some False, spec_RestartPolicy = [],
      spec_TerminationGracePeriodSeconds = Some 30, spec_ShareProcessNamespace = Some True,
      spec_Tolerations = pressure_tolerations, spec_SeccompProfile = ''RuntimeDefault'',
      spec_InitContainers = [prep_container c], spec_Containers = [mainContainer, helper_container c],
      spec_Volumes = [(''rootfs'', ClaimVolume claimName), (''rootfs-control'', EmptyDir)]\<rparr>"

definition resolvePersistentStartCommand ::
  "'k Client \<Rightarrow> 'z CreatePodOptions_scheme \<Rightarrow> ('k, (string list \<times> string list) res) prog" where
  "resolvePersistentStartCommand c opts =
     (if opt_Command opts \<noteq> [] then retE (opt_Command opts, opt_Args opts)
      else seqE (mapE (Wrap ''failed to resolve image entrypoint/cmd for persistent sandbox'')
                   (kube_call (image_config c (opt_Image opts))))
        (\<lambda>(entrypoint, imageCmd).
           if opt_Args opts \<noteq> [] then
             (if entrypoint \<noteq> [] then retE (entrypoint, opt_Args opts) else retE (opt_Args opts, []))
           else if entrypoint \<noteq> [] then retE (entrypoint, imageCmd)
           else if imageCmd \<noteq> [] then retE (imageCmd, [])
           else throw (Msg (''unable to determine start command: template command is empty and image '' @
                  quote_str (opt_Image opts) @ '' has no entrypoint/cmd''))))"

definition ensurePersistentVolumeClaim ::
  "'k Client \<Rightarrow> string \<Rightarrow> string \<Rightarrow> string \<Rightarrow> ('k, unit res) prog" where
  "ensurePersistentVolumeClaim c claimName storageClass vsize = do {
     r \<leftarrow> kube_call (pvcs_Get c (sandboxNS c) claimName);
     case r of
       Inr _ \<Rightarrow> retE ()
     | Inl e \<Rightarrow>
         if \<not> is_not_found e then throw (Wrap ''failed to get pvc'' e)
         else (case must_parse c vsize of
                 Inl p \<Rightarrow> throw p
               | Inr q \<Rightarrow>
                   seqE (mapE (Wrap (''failed to create pvc '' @ claimName))
                     (kube_call (pvcs_Create c (sandboxNS c)
                        \<lparr>pvc_Meta = meta claimName (sandboxNS c)
                            (Some [(''app'', LabelApp), (LabelSandboxID, trim_prefix ''sandbox-data-'' claimName),
                                   (LabelManagedBy, ManagedByServer)]) [],
                         pvc_AccessModes = [''ReadWriteOnce''], pvc_StorageRequest = q,
                         pvc_StorageClassName = (if storageClass \<noteq> [] then Some storageClass else None),
                         pvc_VolumeName = [], pvc_Phase = []\<rparr>)))
                     (\<lambda>_. retE ())) }"

definition CreatePersistentSandbox ::
  "'k Client \<Rightarrow> CreatePersistentSandboxOptions \<Rightarrow> ('k, Deployment res) prog" where
  "CreatePersistentSandbox c opts =
     (if opt_VolumeSize opts = [] then throw (Msg ''volume size is required for persistent sandbox'')
      else case quantity_err c (opt_VolumeSize opts) of
        Some e \<Rightarrow> throw (Wrap ''invalid volume size'' e)
      | None \<Rightarrow>
        seqE (resolvePersistentStartCommand c opts) (\<lambda>(command, args).
        let claimName = (if opt_VolumeClaimName opts = [] then ''sandbox-data-'' @ opt_ID opts
                         else opt_VolumeClaimName opts) in
        seqE (ensurePersistentVolumeClaim c claimName (opt_StorageClassName opts) (opt_VolumeSize opts)) (\<lambda>_. do {
          accessToken \<leftarrow> (if opt_AccessToken opts = [] then generateAccessToken else ret (opt_AccessToken opts));
          now \<leftarrow> time_now;
          case containerWithCommandAndArgs c opts of
            Inl e \<Rightarrow> throw e
          | Inr container \<Rightarrow> do {
              created \<leftarrow> kube_call (deployments_Create c (sandboxNS c)
                \<lparr>dep_Meta = meta (''sandbox-'' @ opt_ID opts) (sandboxNS c) (Some (create_labels opts))
                              (create_annotations opts accessToken now),
                 dep_Replicas = Some 1, dep_MatchLabels = create_labels opts, dep_Strategy = ''Recreate'',
                 dep_TemplateLabels = create_labels opts,
                 dep_TemplateAnnotations = create_annotations opts accessToken now,
                 dep_TemplateSpec = persistent_pod_spec c claimName (main_container c command args container),
                 dep_Conditions = []\<rparr>);
              case created of
                Inr d \<Rightarrow> retE d
              | Inl e \<Rightarrow> do {
                  kube_call (pvcs_Delete c (sandboxNS c) claimName);
                  throw (Wrap ''failed to create persistent sandbox deployment'' e) } } })))"

section \<open>Deleting sandboxes (client.go, persistent\_runtime.go)\<close>

definition ListPods :: "'k Client \<Rightarrow> ('k, Pod list res) prog" where
  "ListPods c = kube_call (pods_List c (sandboxNS c) [(''app'', LabelApp)])"

definition DeletePod :: "'k Client \<Rightarrow> string \<Rightarrow> ('k, unit res) prog" where
  "DeletePod c sandboxID = kube_call (pods_Delete c (sandboxNS c) (''sandbox-'' @ sandboxID) False)"

definition DeletePodByName :: "'k Client \<Rightarrow> string \<Rightarrow> ('k, unit res) prog" where
  "DeletePodByName c name = kube_call (pods_Delete c (sandboxNS c) name False)"

definition ListSandboxPods :: "'k Client \<Rightarrow> string \<Rightarrow> ('k, Pod list res) prog" where
  "ListSandboxPods c sandboxID = mapE (Wrap ''failed to list sandbox pods'')
     (kube_call (pods_List c (sandboxNS c) (sandbox_selector sandboxID)))"

definition ForceDeletePodByName :: "'k Client \<Rightarrow> string \<Rightarrow> ('k, unit res) prog" where
  "ForceDeletePodByName c name = mapE (Wrap (''failed to force delete pod '' @ name))
     (ignore_not_found (kube_call (pods_Delete c (sandboxNS c) name True)))"

definition DeletePersistentSandbox :: "'k Client \<Rightarrow> string \<Rightarrow> string \<Rightarrow> string \<Rightarrow> ('k, unit res) prog" where
  "DeletePersistentSandbox c sandboxID claimName reclaimPolicy =
     (let deployName = ''sandbox-'' @ sandboxID in
      seqE (mapE (Wrap (''failed to delete deployment '' @ deployName))
              (ignore_not_found (kube_call (deployments_Delete c (sandboxNS c) deployName)))) (\<lambda>_.
      if reclaimPolicy = ''Retain'' then retE ()
      else let claimName = (if claimName = [] then ''sandbox-data-'' @ sandboxID else claimName) in
        mapE (Wrap (''failed to delete pvc '' @ claimName))
          (ignore_not_found (kube_call (pvcs_Delete c (sandboxNS c) claimName)))))"

text \<open>The provenance checks: \<open>None\<close> is a passed check.\<close>

definition label_is :: "string \<Rightarrow> string \<Rightarrow> str_map \<Rightarrow> bool" where
  "label_is k v ls \<longleftrightarrow> map_of ls k = Some v"

definition validatePVCProvenance :: "'k Client \<Rightarrow> PVC \<Rightarrow> string \<Rightarrow> go_err option" where
  "validatePVCProvenance c pvc expectedSandboxID =
     (let m = pvc_Meta pvc in
      if om_Namespace m \<noteq> sandboxNS c then
        Some (Msg (''pvc '' @ om_Namespace m @ ''/'' @ om_Name m @ '' not in sandbox namespace '' @ sandboxNS c))
      else case om_Labels m of
        None \<Rightarrow> Some (Msg (''pvc '' @ om_Name m @ '' missing labels for provenance check''))
      | Some ls \<Rightarrow>
          if \<not> label_is LabelManagedBy ManagedByServer ls then
            Some (Msg (''pvc '' @ om_Name m @ '' not managed by liteboxd-server''))
          else if \<not> label_is LabelSandboxID expectedSandboxID ls then
            Some (Msg (''pvc '' @ om_Name m @ '' sandbox-id mismatch''))
          else if \<not> label_is ''app'' LabelApp ls then
            Some (Msg (''pvc '' @ om_Name m @ '' app label mismatch''))
          else None)"

definition validatePVProvenance :: "'k Client \<Rightarrow> PV \<Rightarrow> string \<Rightarrow> go_err option" where
  "validatePVProvenance c pv expectedPVCName =
     (let name = om_Name (pv_Meta pv) in
      case pv_ClaimRef pv of
        None \<Rightarrow> Some (Msg (''pv '' @ name @ '' has no claimRef''))
      | Some (ns, claim) \<Rightarrow>
          if ns \<noteq> sandboxNS c then
            Some (Msg (''pv '' @ name @ '' claimRef namespace '' @ ns @ '' != '' @ sandboxNS c))
          else if claim \<noteq> expectedPVCName then
            Some (Msg (''pv '' @ name @ '' claimRef name '' @ claim @ '' != expected pvc '' @ expectedPVCName))
          else case om_Labels (pv_Meta pv) of
            None \<Rightarrow> None
          | Some ls \<Rightarrow>
              (case map_of ls LabelManagedBy of
                 None \<Rightarrow> None
               | Some v \<Rightarrow> if v \<noteq> ManagedByServer then Some (Msg (''pv '' @ name @ '' managed-by label mismatch''))
                           else None))"

definition validateDeploymentProvenance :: "'k Client \<Rightarrow> Deployment \<Rightarrow> string \<Rightarrow> go_err option" where
  "validateDeploymentProvenance c deploy expectedSandboxID =
     (let m = dep_Meta deploy in
      if om_Namespace m \<noteq> sandboxNS c then
        Some (Msg (''deployment '' @ om_Namespace m @ ''/'' @ om_Name m @ '' not in sandbox namespace '' @ sandboxNS c))
      else case om_Labels m of
        None \<Rightarrow> Some (Msg (''deployment '' @ om_Name m @ '' missing labels for provenance check''))
      | Some ls \<Rightarrow>
          if \<not> label_is LabelManagedBy ManagedByServer ls then
            Some (Msg (''deployment '' @ om_Name m @ '' not managed by liteboxd-server''))
          else if \<not> label_is LabelSandboxID expectedSandboxID ls then
            Some (Msg (''deployment '' @ om_Name m @ '' sandbox-id mismatch''))
          else if \<not> label_is ''app'' LabelApp ls then
            Some (Msg (''deployment '' @ om_Name m @ '' app label mismatch''))
          else None)"

definition PatchDeploymentFinalizers ::
  "'k Client \<Rightarrow> string \<Rightarrow> string \<Rightarrow> string list \<Rightarrow> ('k, unit res) prog" where
  "PatchDeploymentFinalizers c name expectedSandboxID finalizers = do {
     r \<leftarrow> kube_call (deployments_Get c (sandboxNS c) name);
     case r of
       Inl e \<Rightarrow> if is_not_found e then retE () else throw (Wrap (''failed to get deployment '' @ name) e)
     | Inr deploy \<Rightarrow>
         (case validateDeploymentProvenance c deploy expectedSandboxID of
            Some e \<Rightarrow> throw e
          | None \<Rightarrow> mapE (Wrap (''failed to update deployment '' @ name @ '' finalizers''))
              (ignore_not_found (kube_call (deployments_Update c (sandboxNS c)
                (deploy\<lparr>dep_Meta := (dep_Meta deploy)\<lparr>om_Finalizers := finalizers\<rparr>\<rparr>))))) }"

definition PatchPVCFinalizers :: "'k Client \<Rightarrow> string \<Rightarrow> string \<Rightarrow> string list \<Rightarrow> ('k, unit res) prog" where
  "PatchPVCFinalizers c name expectedSandboxID finalizers = do {
     r \<leftarrow> kube_call (pvcs_Get c (sandboxNS c) name);
     case r of
       Inl e \<Rightarrow> if is_not_found e then retE () else throw (Wrap (''failed to get pvc '' @ name) e)
     | Inr pvc \<Rightarrow>
         (case validatePVCProvenance c pvc expectedSandboxID of
            Some e \<Rightarrow> throw e
          | None \<Rightarrow> mapE (Wrap (''failed to update pvc '' @ name @ '' finalizers''))
              (ignore_not_found (kube_call (pvcs_Update c (sandboxNS c)
                (pvc\<lparr>pvc_Meta := (pvc_Meta pvc)\<lparr>om_Finalizers := finalizers\<rparr>\<rparr>))))) }"

definition GetPersistentVolume :: "'k Client \<Rightarrow> string \<Rightarrow> ('k, PV res) prog" where
  "GetPersistentVolume c name = kube_call (pvs_Get c name)"

definition DeletePersistentVolume :: "'k Client \<Rightarrow> string \<Rightarrow> string \<Rightarrow> ('k, unit res) prog" where
  "DeletePersistentVolume c name expectedPVCName = do {
     r \<leftarrow> kube_call (pvs_Get c name);
     case r of
       Inl e \<Rightarrow> if is_not_found e then retE () else throw (Wrap (''failed to get pv '' @ name) e)
     | Inr pv \<Rightarrow>
         (case validatePVProvenance c pv expectedPVCName of
            Some e \<Rightarrow> throw e
          | None \<Rightarrow> mapE (Wrap (''failed to delete pv '' @ name))
                      (ignore_not_found (kube_call (pvs_Delete c name)))) }"

definition PatchPVFinalizers :: "'k Client \<Rightarrow> string \<Rightarrow> string \<Rightarrow> string list \<Rightarrow> ('k, unit res) prog" where
  "PatchPVFinalizers c name expectedPVCName finalizers = do {
     r \<leftarrow> kube_call (pvs_Get c name);
     case r of
       Inl e \<Rightarrow> if is_not_found e then retE () else throw (Wrap (''failed to get pv '' @ name) e)
     | Inr pv \<Rightarrow>
         (case validatePVProvenance c pv expectedPVCName of
            Some e \<Rightarrow> throw e
          | None \<Rightarrow> mapE (Wrap (''failed to update pv '' @ name @ '' finalizers''))
              (ignore_not_found (kube_call (pvs_Update c
                (pv\<lparr>pv_Meta := (pv_Meta pv)\<lparr>om_Finalizers := finalizers\<rparr>\<rparr>))))) }"

definition ListVolumeAttachmentsByPV :: "'k Client \<Rightarrow> string \<Rightarrow> ('k, VolumeAttachment list res) prog" where
  "ListVolumeAttachmentsByPV c pvName =
     seqE (mapE (Wrap ''failed to list volumeattachments'') (kube_call (attachments_List c))) (\<lambda>items.
       retE (filter (\<lambda>i. va_PersistentVolumeName i = Some pvName) items))"

definition DeleteVolumeAttachment :: "'k Client \<Rightarrow> string \<Rightarrow> ('k, unit res) prog" where
  "DeleteVolumeAttachment c name = mapE (Wrap (''failed to delete volumeattachment '' @ name))
     (ignore_not_found (kube_call (attachments_Delete c name)))"

record SandboxDeletionSnapshot =
  snap_Deployment :: "Deployment option"
  snap_Pods :: "Pod list"
  snap_PVC :: "PVC option"
  snap_PV :: "PV option"
  snap_VolumeAttachments :: "VolumeAttachment list"

text \<open>A get whose \<open>NotFound\<close> is the absent object.\<close>

definition get_optional :: "string \<Rightarrow> ('k, 'a res) prog \<Rightarrow> ('k, 'a option res) prog" where
  "get_optional msg m = do {
     r \<leftarrow> m;
     ret (case r of Inr x \<Rightarrow> Inr (Some x)
          | Inl e \<Rightarrow> if is_not_found e then Inr None else Inl (Wrap msg e)) }"

definition GetDeployment :: "'k Client \<Rightarrow> string \<Rightarrow> ('k, Deployment res) prog" where
  "GetDeployment c name = kube_call (deployments_Get c (sandboxNS c) name)"

definition GetPersistentVolumeClaim :: "'k Client \<Rightarrow> string \<Rightarrow> ('k, PVC res) prog" where
  "GetPersistentVolumeClaim c name = kube_call (pvcs_Get c (sandboxNS c) name)"

definition GetSandboxDeletionSnapshot ::
  "'k Client \<Rightarrow> string \<Rightarrow> string \<Rightarrow> string \<Rightarrow> ('k, SandboxDeletionSnapshot res) prog" where
  "GetSandboxDeletionSnapshot c sandboxID deploymentName0 pvcName0 =
     (let deploymentName = (if deploymentName0 = [] then ''sandbox-'' @ sandboxID else deploymentName0);
          pvcName = (if pvcName0 = [] then ''sandbox-data-'' @ sandboxID else pvcName0) in
      seqE (get_optional (''failed to get deployment '' @ deploymentName) (GetDeployment c deploymentName)) (\<lambda>deploy.
      seqE (ListSandboxPods c sandboxID) (\<lambda>pods.
      seqE (get_optional (''failed to get pvc '' @ pvcName) (GetPersistentVolumeClaim c pvcName)) (\<lambda>pvc.
      case pvc of
        None \<Rightarrow> retE \<lparr>snap_Deployment = deploy, snap_Pods = pods, snap_PVC = None, snap_PV = None,
                      snap_VolumeAttachments = []\<rparr>
      | Some claim \<Rightarrow>
          if pvc_VolumeName claim = [] then
            retE \<lparr>snap_Deployment = deploy, snap_Pods = pods, snap_PVC = pvc, snap_PV = None,
                  snap_VolumeAttachments = []\<rparr>
          else
            seqE (get_optional (''failed to get pv '' @ pvc_VolumeName claim)
                    (GetPersistentVolume c (pvc_VolumeName claim))) (\<lambda>pv.
            case pv of
              None \<Rightarrow> retE \<lparr>snap_Deployment = deploy, snap_Pods = pods, snap_PVC = pvc, snap_PV = None,
                            snap_VolumeAttachments = []\<rparr>
            | Some vol \<Rightarrow>
                seqE (ListVolumeAttachmentsByPV c (om_Name (pv_Meta vol))) (\<lambda>attachments.
                retE \<lparr>snap_Deployment = deploy, snap_Pods = pods, snap_PVC = pvc, snap_PV = pv,
                      snap_VolumeAttachments = attachments\<rparr>))))))"

section \<open>Stopping, starting and restarting (persistent\_runtime.go)\<close>

definition get_named_deployment :: "'k Client \<Rightarrow> string \<Rightarrow> ('k, Deployment res) prog" where
  "get_named_deployment c deployName = mapE (\<lambda>e.
     if is_not_found e then NotFound (''deployments '' @ deployName)
     else Wrap (''failed to get deployment '' @ deployName) e)
     (kube_call (deployments_Get c (sandboxNS c) deployName))"

definition StopPersistentSandbox :: "'k Client \<Rightarrow> string \<Rightarrow> ('k, unit res) prog" where
  "StopPersistentSandbox c sandboxID = (let deployName = ''sandbox-'' @ sandboxID in
     seqE (get_named_deployment c deployName) (\<lambda>deploy.
     seqE (mapE (Wrap (''failed to scale deployment '' @ deployName @ '' to 0''))
             (kube_call (deployments_Update c (sandboxNS c) (deploy\<lparr>dep_Replicas := Some 0\<rparr>)))) (\<lambda>_.
     retE ())))"

definition StartPersistentSandbox :: "'k Client \<Rightarrow> string \<Rightarrow> ('k, unit res) prog" where
  "StartPersistentSandbox c sandboxID = (let deployName = ''sandbox-'' @ sandboxID in
     seqE (get_named_deployment c deployName) (\<lambda>deploy.
     seqE (mapE (Wrap (''failed to scale deployment '' @ deployName @ '' to 1''))
             (kube_call (deployments_Update c (sandboxNS c) (deploy\<lparr>dep_Replicas := Some 1\<rparr>)))) (\<lambda>_.
     retE ())))"

definition RestartPersistentSandbox :: "'k Client \<Rightarrow> string \<Rightarrow> ('k, unit res) prog" where
  "RestartPersistentSandbox c sandboxID =
     seqE (get_named_deployment c (''sandbox-'' @ sandboxID)) (\<lambda>_. do {
       r \<leftarrow> getSandboxPod c sandboxID;
       case r of
         Inl e \<Rightarrow> if is_not_found e then retE () else throw (Wrap ''failed to resolve sandbox pod'' e)
       | Inr pod \<Rightarrow>
           mapE (Wrap (''failed to delete pod '' @ om_Name (pod_Meta pod) @ '' for restart''))
             (ignore_not_found (kube_call (pods_Delete c (sandboxNS c) (om_Name (pod_Meta pod)) False))) })"

definition ListSandboxPVCs :: "'k Client \<Rightarrow> ('k, PVC list res) prog" where
  "ListSandboxPVCs c = mapE (Wrap ''failed to list sandbox pvcs'')
     (kube_call (pvcs_List c (sandboxNS c) [(''app'', LabelApp)]))"

section \<open>Observing sandboxes (persistent\_observer.go, client.go)\<close>

definition eventTimestamp :: "Event \<Rightarrow> time" where
  "eventTimestamp e =
     (case ev_LastTimestamp e of Some t \<Rightarrow> t
      | None \<Rightarrow> (case ev_EventTime e of Some t \<Rightarrow> t
      | None \<Rightarrow> (case ev_FirstTimestamp e of Some t \<Rightarrow> t | None \<Rightarrow> ev_CreationTimestamp e)))"

definition GetObjectEvents :: "'k Client \<Rightarrow> string \<Rightarrow> string \<Rightarrow> string \<Rightarrow> ('k, Event list res) prog" where
  "GetObjectEvents c namespace kind name =
     seqE (mapE (Wrap ''failed to get events'') (kube_call (events_List c namespace))) (\<lambda>items.
       retE (order_by_desc eventTimestamp
         (filter (\<lambda>e. equal_fold (ev_InvolvedKind e) kind \<and> ev_InvolvedName e = name) items)))"

record PersistentSandboxSnapshot =
  pss_SandboxID :: string
  pss_DeploymentName :: string
  pss_PVCName :: string
  pss_Deployment :: "Deployment option"
  pss_PVC :: "PVC option"
  pss_Pod :: "Pod option"
  pss_DeploymentEvents :: "Event list"
  pss_PVCEvents :: "Event list"
  pss_PodEvents :: "Event list"

text \<open>Get one object and, where it exists, its events.\<close>

definition get_with_events ::
  "'k Client \<Rightarrow> string \<Rightarrow> string \<Rightarrow> string \<Rightarrow> ('a \<Rightarrow> string) \<Rightarrow> ('k, 'a res) prog \<Rightarrow> ('k, ('a option \<times> Event list) res) prog" where
  "get_with_events c errGet errEvents kind nameOf m =
     seqE (get_optional errGet m) (\<lambda>x.
       case x of
         None \<Rightarrow> retE (None, [])
       | Some obj \<Rightarrow> seqE (mapE (Wrap (errEvents @ nameOf obj)) (GetObjectEvents c (sandboxNS c) kind (nameOf obj)))
                       (\<lambda>events. retE (Some obj, events)))"

definition GetPersistentSandboxSnapshot ::
  "'k Client \<Rightarrow> string \<Rightarrow> string \<Rightarrow> string \<Rightarrow> ('k, PersistentSandboxSnapshot res) prog" where
  "GetPersistentSandboxSnapshot c sandboxID deploymentName pvcName =
     seqE (if deploymentName = [] then retE (None, [])
           else get_with_events c (''failed to get deployment '' @ deploymentName) ''failed to get deployment events ''
                  ''Deployment'' (\<lambda>_. deploymentName) (GetDeployment c deploymentName)) (\<lambda>(deploy, devs).
     seqE (if pvcName = [] then retE (None, [])
           else get_with_events c (''failed to get pvc '' @ pvcName) ''failed to get pvc events ''
                  ''PersistentVolumeClaim'' (\<lambda>_. pvcName) (GetPersistentVolumeClaim c pvcName)) (\<lambda>(pvc, pevs).
     seqE (get_with_events c ''failed to get sandbox pod'' ''failed to get pod events ''
             ''Pod'' (\<lambda>p. om_Name (pod_Meta p)) (getSandboxPod c sandboxID)) (\<lambda>(pod, podevs).
     retE \<lparr>pss_SandboxID = sandboxID, pss_DeploymentName = deploymentName, pss_PVCName = pvcName,
           pss_Deployment = deploy, pss_PVC = pvc, pss_Pod = pod,
           pss_DeploymentEvents = devs, pss_PVCEvents = pevs, pss_PodEvents = podevs\<rparr>)))"

definition formatObjectEvent :: "string \<Rightarrow> Event \<Rightarrow> string" where
  "formatObjectEvent kind e =
     ''['' @ kind @ ''][''  @ ev_Type e @ ''] '' @ ev_Reason e @ '': '' @ ev_Message e"

definition GetSandboxEvents ::
  "'k Client \<Rightarrow> string \<Rightarrow> string \<Rightarrow> string \<Rightarrow> ('k, string list res) prog" where
  "GetSandboxEvents c sandboxID deploymentName pvcName =
     seqE (GetPersistentSandboxSnapshot c sandboxID deploymentName pvcName) (\<lambda>s.
       retE (map (formatObjectEvent ''PVC'') (pss_PVCEvents s) @
             map (formatObjectEvent ''Deployment'') (pss_DeploymentEvents s) @
             map (formatObjectEvent ''Pod'') (pss_PodEvents s)))"

definition isPersistentRootFSPod :: "Pod \<Rightarrow> bool" where
  "isPersistentRootFSPod pod \<longleftrightarrow>
     list_ex (\<lambda>c. c_Name c = rootfsOverlayPrepInitName) (spec_InitContainers (pod_Spec pod))"

definition wrapCommandForRootFS :: "Pod \<Rightarrow> string list \<Rightarrow> string list" where
  "wrapCommandForRootFS pod command =
     (if command = [] \<or> \<not> isPersistentRootFSPod pod then command
      else [''chroot'', rootfsOverlayMergedPath] @ command)"

text \<open>The result of an exec: standard output, standard error, exit code.\<close>

definition Exec :: "'k Client \<Rightarrow> string \<Rightarrow> string list \<Rightarrow> ('k, (string \<times> string \<times> int) res) prog" where
  "Exec c sandboxID command =
     seqE (mapE (Wrap ''failed to resolve sandbox pod'') (getSandboxPod c sandboxID)) (\<lambda>pod.
       seqE (mapE (Wrap ''failed to create executor'')
         (kube_call (pod_exec c (sandboxNS c) (om_Name (pod_Meta pod)) (wrapCommandForRootFS pod command))))
         (\<lambda>(out, err, fin). retE (case fin of
             ExecDone \<Rightarrow> (out, err, 0)
           | ExitStatus code \<Rightarrow> (out, err, code)
           | StreamErr e \<Rightarrow> (out, err @ [CHR 0x0A] @ err_text e, 1))))"

text \<open>
  \<open>WaitForReady\<close> polls until the pod is ready or the deadline passes; \<open>n\<close> is the number of
  ticks the ticker delivers before the deadline.
\<close>

fun WaitForReady :: "'k Client \<Rightarrow> string \<Rightarrow> ProbeSpec option \<Rightarrow> nat \<Rightarrow> ('k, unit res) prog" where
  "WaitForReady c sandboxID probe 0 = throw (Msg ''timeout waiting for pod to be ready'')"
| "WaitForReady c sandboxID probe (Suc n) = do {
     r \<leftarrow> getSandboxPod c sandboxID;
     case r of
       Inl e \<Rightarrow> if is_not_found e then WaitForReady c sandboxID probe n
                else throw (Wrap ''failed to get pod'' e)
     | Inr pod \<Rightarrow>
         if pod_Phase pod = PodFailed then throw (Msg ''pod failed'')
         else (case probe of
             Some p \<Rightarrow>
               if pr_Exec p \<noteq> [] then do {
                 x \<leftarrow> Exec c sandboxID (pr_Exec p);
                 case x of
                   Inl _ \<Rightarrow> WaitForReady c sandboxID probe n
                 | Inr (out, err, code) \<Rightarrow> if code = 0 then retE () else WaitForReady c sandboxID probe n }
               else if pod_Phase pod = PodRunning \<and> cond_true ''Ready'' (pod_Conditions pod) then retE ()
               else WaitForReady c sandboxID probe n
           | None \<Rightarrow>
               if pod_Phase pod = PodRunning \<and> cond_true ''Ready'' (pod_Conditions pod) then retE ()
               else WaitForReady c sandboxID probe n) }"

definition GetPodIP :: "'k Client \<Rightarrow> string \<Rightarrow> ('k, string res) prog" where
  "GetPodIP c sandboxID =
     seqE (mapE (Wrap ''failed to resolve sandbox pod'') (getSandboxPod c sandboxID)) (\<lambda>pod.
       if pod_PodIP pod = [] then throw (Msg ''pod IP not available'') else retE (pod_PodIP pod))"

definition GetPodAccessToken :: "'k Client \<Rightarrow> string \<Rightarrow> ('k, string res) prog" where
  "GetPodAccessToken c sandboxID =
     seqE (mapE (Wrap ''failed to resolve sandbox pod'') (getSandboxPod c sandboxID)) (\<lambda>pod.
       case map_of (om_Annotations (pod_Meta pod)) AnnotationAccessToken of
         None \<Rightarrow> throw (Msg ''access token not found'')
       | Some token \<Rightarrow> retE token)"

section \<open>The client changes nothing but the cluster\<close>

text \<open>
  Programs of this theory call the API, read the clock and draw random tokens. The database, and
  the faults still scheduled for it, are as before; every relation on tables therefore carries
  over them.
\<close>

definition db_same :: "'k world \<Rightarrow> 'k world \<Rightarrow> bool" where
  "db_same w w' \<longleftrightarrow> db w' = db w \<and> db_faults w' = db_faults w"

interpretation ko: world_preorder "db_same"
  by unfold_locales (auto simp: db_same_def)

lemma ko_call: "state_io_rel db_same (kube_call f)"
  by (simp add: kube_call_def io_step_with db_same_def split: prod.split)

lemma ko_time: "state_io_rel db_same time_now"
  by (simp add: time_now_def io_step_with db_same_def)

lemma ko_token: "state_io_rel db_same rand_token"
  by (simp add: rand_token_def io_step_with db_same_def)

lemma ko_ignore: "state_io_rel db_same m \<Longrightarrow> state_io_rel db_same (ignore_not_found m)"
  unfolding ignore_not_found_def by (intro ko.io_bind ko.io_ret)

lemma ko_optional: "state_io_rel db_same m \<Longrightarrow> state_io_rel db_same (get_optional msg m)"
  unfolding get_optional_def by (intro ko.io_bind ko.io_ret)

lemmas ko_basic = ko.io_structure ko_call ko_time ko_token ko_ignore ko_optional

lemma ko_getSandboxPod: "state_io_rel db_same (getSandboxPod c i)"
  unfolding getSandboxPod_def Let_def by (intro ko_basic | split list.split | safe)+

lemma ko_events: "state_io_rel db_same (GetObjectEvents c n k x)"
  unfolding GetObjectEvents_def by (intro ko_basic)

lemma ko_with_events:
  "state_io_rel db_same m \<Longrightarrow> state_io_rel db_same (get_with_events c a b k f m)"
  unfolding get_with_events_def by (intro ko_basic ko_events)

lemma ko_snapshot: "state_io_rel db_same (GetPersistentSandboxSnapshot c i d p)"
  unfolding GetPersistentSandboxSnapshot_def GetDeployment_def GetPersistentVolumeClaim_def
  by (intro ko_basic ko_with_events ko_getSandboxPod)

lemma ko_token_gen: "state_io_rel db_same generateAccessToken"
  unfolding generateAccessToken_def randomString_def by (intro ko_basic)

lemma ko_CreatePod: "state_io_rel db_same (CreatePod c opts)"
  unfolding CreatePod_def by (intro ko_basic ko_token_gen)

lemma ko_resolve: "state_io_rel db_same (resolvePersistentStartCommand c opts)"
  unfolding resolvePersistentStartCommand_def by (intro ko_basic)

lemma ko_ensure: "state_io_rel db_same (ensurePersistentVolumeClaim c a b d)"
  unfolding ensurePersistentVolumeClaim_def by (intro ko_basic)

lemma ko_CreatePersistent: "state_io_rel db_same (CreatePersistentSandbox c opts)"
  unfolding CreatePersistentSandbox_def by (intro ko_basic ko_resolve ko_ensure ko_token_gen)

lemma ko_deletes:
  "state_io_rel db_same (ListPods c)"
  "state_io_rel db_same (DeletePod c i)"
  "state_io_rel db_same (DeletePodByName c i)"
  "state_io_rel db_same (ListSandboxPods c i)"
  "state_io_rel db_same (ForceDeletePodByName c i)"
  "state_io_rel db_same (DeletePersistentSandbox c i n p)"
  "state_io_rel db_same (PatchDeploymentFinalizers c i n fs)"
  "state_io_rel db_same (PatchPVCFinalizers c i n fs)"
  "state_io_rel db_same (PatchPVFinalizers c i n fs)"
  "state_io_rel db_same (DeletePersistentVolume c i n)"
  "state_io_rel db_same (ListVolumeAttachmentsByPV c i)"
  "state_io_rel db_same (DeleteVolumeAttachment c i)"
  unfolding ListPods_def DeletePod_def DeletePodByName_def ListSandboxPods_def ForceDeletePodByName_def
    DeletePersistentSandbox_def PatchDeploymentFinalizers_def PatchPVCFinalizers_def PatchPVFinalizers_def
    DeletePersistentVolume_def ListVolumeAttachmentsByPV_def DeleteVolumeAttachment_def
  by (intro ko_basic)+

lemma ko_deletion_snapshot: "state_io_rel db_same (GetSandboxDeletionSnapshot c i d p)"
  unfolding GetSandboxDeletionSnapshot_def GetDeployment_def GetPersistentVolumeClaim_def GetPersistentVolume_def
  by (intro ko_basic ko_deletes)

lemma ko_lifecycle:
  "state_io_rel db_same (StopPersistentSandbox c i)"
  "state_io_rel db_same (StartPersistentSandbox c i)"
  "state_io_rel db_same (RestartPersistentSandbox c i)"
  "state_io_rel db_same (ListSandboxPVCs c)"
  unfolding StopPersistentSandbox_def StartPersistentSandbox_def RestartPersistentSandbox_def
    ListSandboxPVCs_def get_named_deployment_def
  by (intro ko_basic ko_getSandboxPod)+

lemma ko_Exec: "state_io_rel db_same (Exec c i cmd)"
  unfolding Exec_def by (intro ko_basic ko_getSandboxPod)

lemma ko_WaitForReady: "state_io_rel db_same (WaitForReady c i p n)"
  by (induction n) (simp_all, (intro ko_basic ko_getSandboxPod ko_Exec; assumption?)+)

lemmas ko_client =
  ko_getSandboxPod ko_events ko_snapshot ko_CreatePod ko_CreatePersistent ko_deletes ko_deletion_snapshot
  ko_lifecycle ko_Exec ko_WaitForReady

lemma ko_db_rel: "state_io_rel db_same m \<Longrightarrow> (\<And>t. r t t) \<Longrightarrow> state_io_rel (db_rel r) m"
  by (simp add: state_io_rel_def db_same_def db_rel_def)

context table_preorder
begin

lemma client_rel: "state_io_rel db_same m \<Longrightarrow> state_io_rel (db_rel r) m"
  by (erule ko_db_rel) (rule table_refl)

lemmas client_ops_rel = ko_client [THEN client_rel]

end

text \<open>Symbolic execution skips over a client program.\<close>

lemma wp_client:
  assumes "state_io_rel db_same m"
    and "\<And>a w'. run_state m w = (a, w') \<Longrightarrow> db w' = db w \<Longrightarrow> db_faults w' = db_faults w \<Longrightarrow> Q a w'"
  shows "wp m Q w"
  using assms by (auto simp: wp_alt state_io_rel_def db_same_def)

end
