(* ===== verification/Sample_Cluster.thy ===== *)
theory Sample_Cluster
  imports Sandbox_Store Kube_Client
begin

text \<open>
  A small cluster that executes: pods, deployments, claims, volumes and attachments are lists,
  a get finds by name, a create appends, a delete removes at once (deleting a deployment also
  removes the pods that carry its sandbox label). It shows that the hypotheses the theorems make
  about the API can hold and gives their witnesses something to run on.
\<close>

record cluster =
  k_pods :: "Pod list"
  k_deployments :: "Deployment list"
  k_pvcs :: "PVC list"
  k_pvs :: "PV list"
  k_attachments :: "VolumeAttachment list"
  k_events :: "Event list"

definition find_named :: "('a \<Rightarrow> string) \<Rightarrow> string \<Rightarrow> 'a list \<Rightarrow> 'a res" where
  "find_named nm n xs = (case find (\<lambda>x. nm x = n) xs of None \<Rightarrow> Inl (NotFound n) | Some x \<Rightarrow> Inr x)"

definition labels_match :: "str_map \<Rightarrow> str_map option \<Rightarrow> bool" where
  "labels_match sel ls = (case ls of None \<Rightarrow> sel = [] | Some m \<Rightarrow> list_all (\<lambda>(k, v). map_of m k = Some v) sel)"

definition sample_client :: "cluster Client" where
  "sample_client =
     \<lparr>sandboxNS = ''liteboxd-sandbox'', controlNS = ''liteboxd-system'',
      persistentRootFSHelperImage = ''ubuntu:24.04'', prepScript = [], mainWrapperScript = [], helperScript = [],
      pods_Get = (\<lambda>ns n k. (find_named (\<lambda>p. om_Name (pod_Meta p)) n (k_pods k), k)),
      pods_List = (\<lambda>ns sel k. (Inr (filter (\<lambda>p. labels_match sel (om_Labels (pod_Meta p))) (k_pods k)), k)),
      pods_Create = (\<lambda>ns p k. (Inr p, k\<lparr>k_pods := k_pods k @ [p]\<rparr>)),
      pods_Delete = (\<lambda>ns n f k. (Inr (), k\<lparr>k_pods := filter (\<lambda>p. om_Name (pod_Meta p) \<noteq> n) (k_pods k)\<rparr>)),
      deployments_Get = (\<lambda>ns n k. (find_named (\<lambda>p. om_Name (dep_Meta p)) n (k_deployments k), k)),
      deployments_Create = (\<lambda>ns d k. (Inr d, k\<lparr>k_deployments := k_deployments k @ [d]\<rparr>)),
      deployments_Update = (\<lambda>ns d k. (Inr d, k\<lparr>k_deployments :=
        map (\<lambda>x. if om_Name (dep_Meta x) = om_Name (dep_Meta d) then d else x) (k_deployments k)\<rparr>)),
      deployments_Delete = (\<lambda>ns n k. (Inr (), k\<lparr>k_deployments := filter (\<lambda>d. om_Name (dep_Meta d) \<noteq> n) (k_deployments k),
        k_pods := filter (\<lambda>p. \<not> list_ex (\<lambda>d. om_Name (dep_Meta d) = n \<and>
          labels_match (dep_MatchLabels d) (om_Labels (pod_Meta p))) (k_deployments k)) (k_pods k)\<rparr>)),
      pvcs_Get = (\<lambda>ns n k. (find_named (\<lambda>p. om_Name (pvc_Meta p)) n (k_pvcs k), k)),
      pvcs_List = (\<lambda>ns sel k. (Inr (filter (\<lambda>p. labels_match sel (om_Labels (pvc_Meta p))) (k_pvcs k)), k)),
      pvcs_Create = (\<lambda>ns p k. (Inr p, k\<lparr>k_pvcs := k_pvcs k @ [p]\<rparr>)),
      pvcs_Update = (\<lambda>ns d k. (Inr d, k\<lparr>k_pvcs :=
        map (\<lambda>x. if om_Name (pvc_Meta x) = om_Name (pvc_Meta d) then d else x) (k_pvcs k)\<rparr>)),
      pvcs_Delete = (\<lambda>ns n k. (Inr (), k\<lparr>k_pvcs := filter (\<lambda>p. om_Name (pvc_Meta p) \<noteq> n) (k_pvcs k)\<rparr>)),
      pvs_Get = (\<lambda>n k. (find_named (\<lambda>p. om_Name (pv_Meta p)) n (k_pvs k), k)),
      pvs_Update = (\<lambda>d k. (Inr d, k\<lparr>k_pvs :=
        map (\<lambda>x. if om_Name (pv_Meta x) = om_Name (pv_Meta d) then d else x) (k_pvs k)\<rparr>)),
      pvs_Delete = (\<lambda>n k. (Inr (), k\<lparr>k_pvs := filter (\<lambda>p. om_Name (pv_Meta p) \<noteq> n) (k_pvs k)\<rparr>)),
      attachments_List = (\<lambda>k. (Inr (k_attachments k), k)),
      attachments_Delete = (\<lambda>n k. (Inr (), k\<lparr>k_attachments := filter (\<lambda>a. va_Name a \<noteq> n) (k_attachments k)\<rparr>)),
      events_List = (\<lambda>ns k. (Inr (k_events k), k)),
      quantity_err = (\<lambda>q. if q = [] then Some (Msg ''quantities must match the regular expression'') else None),
      image_config = (\<lambda>i k. (Inr ([''/entrypoint''], []), k)),
      pod_exec = (\<lambda>ns n cmd k. (Inr ([], [], ExecDone), k))\<rparr>"

definition sample_pod :: "string \<Rightarrow> Pod" where
  "sample_pod sid =
     \<lparr>pod_Meta = meta (''sandbox-'' @ sid) ''liteboxd-sandbox''
        (Some [(''app'', LabelApp), (LabelSandboxID, sid), (LabelManagedBy, ManagedByServer)]) [],
      pod_Spec = \<lparr>spec_AutomountServiceAccountToken = Some False, spec_RestartPolicy = ''Never'',
        spec_TerminationGracePeriodSeconds = None, spec_ShareProcessNamespace = None, spec_Tolerations = [],
        spec_SeccompProfile = ''RuntimeDefault'', spec_InitContainers = [], spec_Containers = [], spec_Volumes = []\<rparr>,
      pod_Phase = PodRunning,
      pod_Conditions = [\<lparr>cond_Type = ''Ready'', cond_Status = ''True'', cond_Reason = [], cond_Message = []\<rparr>],
      pod_PodIP = ''10.0.0.7'', pod_Message = [], pod_Reason = [],
      pod_InitContainerStatuses = [], pod_ContainerStatuses = []\<rparr>"

definition sample_row :: "string \<Rightarrow> SandboxRecord" where
  "sample_row sid =
     \<lparr>rec_ID = sid, rec_TemplateName = ''python'', rec_TemplateVersion = 1, rec_Image = ''python:3'',
      rec_CPU = ''500m'', rec_Memory = ''512Mi'', rec_TTL = 3600, rec_EnvJSON = ''{}'',
      rec_DesiredState = DesiredStateActive, rec_LifecycleStatus = ''running'', rec_StatusReason = [],
      rec_ClusterNamespace = ''liteboxd-sandbox'', rec_PodName = ''sandbox-'' @ sid, rec_PodUID = ''u'',
      rec_PodPhase = PodRunning, rec_PodIP = ''10.0.0.7'', rec_LastSeenAt = None,
      rec_AccessTokenCiphertext = ''c'', rec_AccessTokenNonce = ''n'', rec_AccessTokenKeyID = ''k'',
      rec_AccessTokenSHA256 = ''h'', rec_AccessURL = ''u'',
      rec_PersistenceEnabled = False, rec_PersistenceMode = [], rec_PersistenceSize = [],
      rec_StorageClassName = [], rec_VolumeClaimName = [], rec_VolumeReclaimPolicy = [],
      rec_RuntimeKind = ''pod'', rec_RuntimeName = ''sandbox-'' @ sid,
      rec_DeletionPhase = [], rec_DeletionStartedAt = None, rec_DeletionLastAttemptAt = None,
      rec_DeletionNextRetryAt = None, rec_DeletionAttempts = 0, rec_DeletionForceLevel = 0,
      rec_DeletionLastError = [], rec_CreatedAt = 0, rec_ExpiresAt = 3600 * second, rec_UpdatedAt = 0,
      rec_DeletedAt = None, rec_StoppedAt = None\<rparr>"

definition empty_tables :: tables where
  "empty_tables =
     \<lparr>sandboxes = [], status_history = [], reconcile_runs = [], reconcile_items = [], templates = [],
      template_versions = [], admin_users = [], auth_sessions = [], api_keys = [], image_prepulls = [],
      next_history_id = 1, next_item_id = 1\<rparr>"

definition sample_world :: "SandboxRecord list \<Rightarrow> Pod list \<Rightarrow> cluster world" where
  "sample_world rows pods =
     \<lparr>db = empty_tables\<lparr>sandboxes := rows\<rparr>, db_faults = [], clock = (\<lambda>n. int n * second), ticks = 0,
      uuids = (\<lambda>n. show_nat n), uuids_used = 0, tokens = (\<lambda>n. Some (''tok'' @ show_nat n)), tokens_used = 0,
      kube = \<lparr>k_pods = pods, k_deployments = [], k_pvcs = [], k_pvs = [], k_attachments = [], k_events = []\<rparr>\<rparr>"

lemma tables_ok_sample: "distinct (map rec_ID rows) \<Longrightarrow> tables_ok (db (sample_world rows pods))"
  by (simp add: tables_ok_def sandbox_tables_ok_def run_tables_ok_def sample_world_def empty_tables_def)

lemma sample_world_simps [simp]:
  "sandboxes (db (sample_world rows pods)) = rows" "db_faults (sample_world rows pods) = []"
  "clock (sample_world rows pods) n = int n * second" "ticks (sample_world rows pods) = 0"
  by (simp_all add: sample_world_def empty_tables_def)

end
