(* ===== verification/Persistent_Status.thy ===== *)
theory Persistent_Status
  imports Sandbox_Store Kube_Client Sample_Cluster
begin

text \<open>
  The startup of persistent sandboxes, \<open>backend/internal/service/persistent_status.go\<close>, with the durable
  writes of \<open>backend/internal/service/sandbox.go\<close> it uses: classification of a snapshot of the cluster, and
  the monitor that polls until the sandbox is ready, has failed, or the deadline has passed. Below
  the definitions: what a classification means, and what the monitor leaves in the row of the sandbox.
  \<open>ulow\<close> is \<open>strings.ToLower\<close> on non-ASCII strings.
\<close>

section \<open>Classification (persistent\_status.go)\<close>

datatype persistentStartupState = persistentStartupPending | persistentStartupReady | persistentStartupFailed

definition storageFailureEventReasons :: str_map where
  "storageFailureEventReasons =
     [(''ProvisioningFailed'', ''storage provisioning failed''), (''FailedBinding'', ''storage provisioning failed''),
      (''FailedAttachVolume'', ''storage attach/mount failed''), (''FailedMount'', ''storage attach/mount failed'')]"

definition storageTerminalFailureMessageFragments :: "string list" where
  "storageTerminalFailureMessageFragments =
     [''no available disk candidates'', ''unable to create new replica'', ''all replicas are failed'',
      ''failed to auto salvage volume'', ''failed to provision volume'']"

definition explicitPodWaitingReasons :: "string list" where
  "explicitPodWaitingReasons =
     [''CrashLoopBackOff'', ''CreateContainerConfigError'', ''CreateContainerError'', ''ErrImagePull'',
      ''ImageInspectError'', ''ImagePullBackOff'', ''InvalidImageName'', ''RunContainerError'']"

definition hasTerminalStorageFailureMessage :: "(string \<Rightarrow> string) \<Rightarrow> string \<Rightarrow> bool" where
  "hasTerminalStorageFailureMessage ulow msg \<longleftrightarrow>
     (let value = to_lower ulow (trim_space msg) in
      list_ex (contains_str value) storageTerminalFailureMessageFragments)"

definition classifyStorageEvent :: "(string \<Rightarrow> string) \<Rightarrow> Event \<Rightarrow> string option" where
  "classifyStorageEvent ulow event =
     (if ev_Type event \<noteq> ''Warning'' then None
      else if \<not> hasTerminalStorageFailureMessage ulow (ev_Message event) then None
      else let prefix = (case map_of storageFailureEventReasons (ev_Reason event) of
                           Some mapped \<Rightarrow> mapped | None \<Rightarrow> ''storage provisioning failed'')
           in Some (prefix @ '': '' @ ev_Message event))"

text \<open>The first result of a loop that returns at the first element it can classify.\<close>

fun first_some :: "('a \<Rightarrow> 'b option) \<Rightarrow> 'a list \<Rightarrow> 'b option" where
  "first_some f [] = None"
| "first_some f (x # xs) = (case f x of Some y \<Rightarrow> Some y | None \<Rightarrow> first_some f xs)"

definition cond_message :: "string \<Rightarrow> Condition \<Rightarrow> string" where
  "cond_message dflt cond =
     (let message = trim_space (cond_Message cond);
          message = (if message = [] then trim_space (cond_Reason cond) else message)
      in if message = [] then dflt else message)"

definition deployment_storage_failure :: "(string \<Rightarrow> string) \<Rightarrow> Condition \<Rightarrow> string option" where
  "deployment_storage_failure ulow cond =
     (if cond_Type cond = ''ReplicaFailure'' \<and> cond_Status cond = ''True'' then
        let message = cond_message ''persistent volume provisioning failed'' cond in
        if hasTerminalStorageFailureMessage ulow message then Some (''storage provisioning failed: '' @ message)
        else Some (''persistent sandbox deployment failed: '' @ message)
      else None)"

definition detectStorageFailureReason :: "(string \<Rightarrow> string) \<Rightarrow> PersistentSandboxSnapshot option \<Rightarrow> string" where
  "detectStorageFailureReason ulow snapshot =
     (case snapshot of
        None \<Rightarrow> []
      | Some s \<Rightarrow>
          (case first_some (classifyStorageEvent ulow) (pss_PVCEvents s @ pss_PodEvents s) of
             Some msg \<Rightarrow> msg
           | None \<Rightarrow>
               (case find (\<lambda>e. ev_Type e = ''Warning'' \<and> hasTerminalStorageFailureMessage ulow (ev_Message e))
                       (pss_DeploymentEvents s) of
                  Some e \<Rightarrow> ''storage provisioning failed: '' @ ev_Message e
                | None \<Rightarrow>
                    (case pss_Deployment s of
                       None \<Rightarrow> []
                     | Some d \<Rightarrow>
                         (case first_some (deployment_storage_failure ulow) (dep_Conditions d) of
                            Some msg \<Rightarrow> msg | None \<Rightarrow> [])))))"

definition container_failure :: "ContainerStatus \<Rightarrow> string option" where
  "container_failure status =
     (let waiting =
        (case cs_Waiting status of
           None \<Rightarrow> None
         | Some (reason, message) \<Rightarrow>
             if reason \<in> set explicitPodWaitingReasons then
               Some (''container '' @ cs_Name status @ '' waiting: '' @ (if message \<noteq> [] then message else reason))
             else None) in
      case cs_Terminated status of
        None \<Rightarrow> waiting
      | Some (exitCode, reason, message) \<Rightarrow>
          if exitCode \<noteq> 0 then
            (if message \<noteq> [] then Some (''container '' @ cs_Name status @ '' terminated: '' @ message)
             else if reason \<noteq> [] then Some (''container '' @ cs_Name status @ '' terminated: '' @ reason)
             else Some (''container '' @ cs_Name status @ '' terminated with exit code '' @ show_int exitCode))
          else waiting)"

definition containerFailureReason :: "ContainerStatus list \<Rightarrow> string" where
  "containerFailureReason statuses = (case first_some container_failure statuses of Some m \<Rightarrow> m | None \<Rightarrow> [])"

definition pod_failure :: "Pod \<Rightarrow> string" where
  "pod_failure pod =
     (let prefix = ''persistent sandbox pod failed to start'' in
      if pod_Phase pod = PodFailed then
        (if pod_Message pod \<noteq> [] then prefix @ '': '' @ pod_Message pod
         else if pod_Reason pod \<noteq> [] then prefix @ '': '' @ pod_Reason pod
         else prefix)
      else if containerFailureReason (pod_InitContainerStatuses pod) \<noteq> [] then
        prefix @ '': '' @ containerFailureReason (pod_InitContainerStatuses pod)
      else if containerFailureReason (pod_ContainerStatuses pod) \<noteq> [] then
        prefix @ '': '' @ containerFailureReason (pod_ContainerStatuses pod)
      else [])"

definition deployment_start_failure :: "Condition \<Rightarrow> string option" where
  "deployment_start_failure cond =
     (if cond_Type cond = ''Progressing'' \<and> cond_Status cond = ''False'' then
        Some (''persistent sandbox pod failed to start: '' @ cond_message ''persistent sandbox pod failed to start'' cond)
      else None)"

definition detectPodStartupFailureReason :: "PersistentSandboxSnapshot option \<Rightarrow> string" where
  "detectPodStartupFailureReason snapshot =
     (case snapshot of
        None \<Rightarrow> []
      | Some s \<Rightarrow>
          let fromPod = (case pss_Pod s of None \<Rightarrow> [] | Some pod \<Rightarrow> pod_failure pod) in
          if fromPod \<noteq> [] then fromPod
          else (case pss_Deployment s of
                  None \<Rightarrow> []
                | Some d \<Rightarrow> (case first_some deployment_start_failure (dep_Conditions d) of Some m \<Rightarrow> m | None \<Rightarrow> [])))"

definition podReady :: "Pod option \<Rightarrow> bool" where
  "podReady pod \<longleftrightarrow>
     (case pod of
        None \<Rightarrow> False
      | Some p \<Rightarrow> pod_Phase p = PodRunning \<and> cond_true ''Ready'' (pod_Conditions p))"

definition pendingPersistentStartupReason :: "PersistentSandboxSnapshot option \<Rightarrow> string" where
  "pendingPersistentStartupReason snapshot =
     (case snapshot of
        None \<Rightarrow> []
      | Some s \<Rightarrow>
          if pss_PVC s = None \<and> pss_PVCName s \<noteq> [] then ''waiting for pvc '' @ pss_PVCName s @ '' to be created''
          else if pss_PVC s \<noteq> None \<and> pvc_Phase (the (pss_PVC s)) \<noteq> ''Bound'' then
            ''waiting for pvc '' @ om_Name (pvc_Meta (the (pss_PVC s))) @ '' to bind''
          else if pss_Deployment s = None \<and> pss_DeploymentName s \<noteq> [] then
            ''waiting for deployment '' @ pss_DeploymentName s @ '' to be created''
          else (case pss_Pod s of
                  None \<Rightarrow> ''waiting for deployment to create pod''
                | Some p \<Rightarrow>
                    if pod_Phase p = PodPending then
                      (if pod_Message p \<noteq> [] then pod_Message p
                       else if pod_Reason p \<noteq> [] then pod_Reason p
                       else ''waiting for pod scheduling'')
                    else if pod_Phase p = PodRunning \<and> \<not> podReady (Some p) then ''waiting for pod readiness''
                    else []))"

definition classifyPersistentStartup ::
  "(string \<Rightarrow> string) \<Rightarrow> PersistentSandboxSnapshot option \<Rightarrow> persistentStartupState \<times> string" where
  "classifyPersistentStartup ulow snapshot =
     (if snapshot \<noteq> None \<and> podReady (pss_Pod (the snapshot)) then (persistentStartupReady, [])
      else if detectStorageFailureReason ulow snapshot \<noteq> [] then
        (persistentStartupFailed, detectStorageFailureReason ulow snapshot)
      else if detectPodStartupFailureReason snapshot \<noteq> [] then
        (persistentStartupFailed, detectPodStartupFailureReason snapshot)
      else if pendingPersistentStartupReason snapshot \<noteq> [] then
        (persistentStartupPending, pendingPersistentStartupReason snapshot)
      else (persistentStartupPending, []))"

section \<open>Writes of the observed state (persistent\_status.go, sandbox.go)\<close>

text \<open>A write whose error is dropped, and one whose error counts as \<open>false\<close>.\<close>

definition ignore_err :: "('k, 'a res) prog \<Rightarrow> ('k, unit) prog" where
  "ignore_err m = do { _ \<leftarrow> m; ret () }"

definition ok_true :: "('k, bool res) prog \<Rightarrow> ('k, bool) prog" where
  "ok_true m = do { r \<leftarrow> m; ret (case r of Inr b \<Rightarrow> b | Inl _ \<Rightarrow> False) }"

definition updateStatusDurable :: "string \<Rightarrow> string \<Rightarrow> string \<Rightarrow> ('k, unit) prog" where
  "updateStatusDurable sid status reason = do { now \<leftarrow> time_now; ignore_err (UpdateStatus sid status reason now) }"

definition updateStatusDurableIfActive :: "string \<Rightarrow> string \<Rightarrow> string \<Rightarrow> ('k, bool) prog" where
  "updateStatusDurableIfActive sid status reason = do { now \<leftarrow> time_now; ok_true (UpdateStatusIfActive sid status reason now) }"

definition appendStatusHistoryDurable :: "string \<Rightarrow> string \<Rightarrow> string \<Rightarrow> string \<Rightarrow> string \<Rightarrow> ('k, unit) prog" where
  "appendStatusHistoryDurable sid source fromStatus toStatus reason =
     do { now \<leftarrow> time_now; ignore_err (AppendStatusHistory sid source fromStatus toStatus reason None now) }"

definition updateObservedStateDurable ::
  "string \<Rightarrow> string \<Rightarrow> string \<Rightarrow> string \<Rightarrow> string \<Rightarrow> string \<Rightarrow> ('k, unit res) prog" where
  "updateObservedStateDurable sid podUID podPhase podIP lifecycleStatus reason = do {
     now \<leftarrow> time_now;
     UpdateObservedState sid podUID podPhase podIP lifecycleStatus reason now now }"

definition updateObservedStateDurableIfActive ::
  "string \<Rightarrow> string \<Rightarrow> string \<Rightarrow> string \<Rightarrow> string \<Rightarrow> string \<Rightarrow> ('k, bool) prog" where
  "updateObservedStateDurableIfActive sid podUID podPhase podIP lifecycleStatus reason = do {
     now \<leftarrow> time_now;
     ok_true (UpdateObservedStateIfActive sid podUID podPhase podIP lifecycleStatus reason now now) }"

definition updatePersistentRuntimeState ::
  "string \<Rightarrow> PersistentSandboxSnapshot option \<Rightarrow> string \<Rightarrow> string \<Rightarrow> ('k, unit) prog" where
  "updatePersistentRuntimeState sid snapshot lifecycleStatus reason = do {
     now \<leftarrow> time_now;
     case Option.bind snapshot pss_Pod of
       Some pod \<Rightarrow> ignore_err (UpdateObservedState sid (om_UID (pod_Meta pod)) (pod_Phase pod) (pod_PodIP pod)
                     lifecycleStatus reason now now)
     | None \<Rightarrow> ignore_err (UpdateStatus sid lifecycleStatus reason now) }"

definition updatePersistentRuntimeStateIfActive ::
  "string \<Rightarrow> PersistentSandboxSnapshot option \<Rightarrow> string \<Rightarrow> string \<Rightarrow> time \<Rightarrow> ('k, bool) prog" where
  "updatePersistentRuntimeStateIfActive sid snapshot lifecycleStatus reason now =
     (case Option.bind snapshot pss_Pod of
        Some pod \<Rightarrow> ok_true (UpdateObservedStateIfActive sid (om_UID (pod_Meta pod)) (pod_Phase pod) (pod_PodIP pod)
                      lifecycleStatus reason now now)
      | None \<Rightarrow> ok_true (UpdateStatusIfActive sid lifecycleStatus reason now))"

section \<open>The monitor (persistent\_status.go)\<close>

text \<open>The branches of the loop that leave it, and the one taken at the deadline.\<close>

definition startup_settled ::
  "string \<Rightarrow> PersistentSandboxSnapshot \<Rightarrow> string \<Rightarrow> string \<Rightarrow> string \<Rightarrow> ('k, unit) prog" where
  "startup_settled sid snapshot status reason historyReason = do {
     now \<leftarrow> time_now;
     updated \<leftarrow> updatePersistentRuntimeStateIfActive sid (Some snapshot) status reason now;
     (if updated then ignore_err (AppendStatusHistory sid ''system'' ''pending'' status historyReason None now)
      else ret ()) }"

definition timeout_reason :: "(string \<Rightarrow> string) \<Rightarrow> PersistentSandboxSnapshot \<Rightarrow> string" where
  "timeout_reason ulow snapshot =
     (let base = ''persistent sandbox startup timed out''; (state, classified) = classifyPersistentStartup ulow (Some snapshot) in
      if state = persistentStartupFailed then classified
      else if classified \<noteq> [] then base @ '': '' @ classified
      else if pendingPersistentStartupReason (Some snapshot) \<noteq> [] then
        base @ '': '' @ pendingPersistentStartupReason (Some snapshot)
      else base)"

definition startup_timed_out ::
  "'k Client \<Rightarrow> (string \<Rightarrow> string) \<Rightarrow> string \<Rightarrow> string \<Rightarrow> string \<Rightarrow> string \<Rightarrow> ('k, unit) prog" where
  "startup_timed_out c ulow sid deploymentName pvcName lastPendingReason = do {
     r \<leftarrow> GetPersistentSandboxSnapshot c sid deploymentName pvcName;
     (reason, updated) \<leftarrow>
       (case r of
          Inr snapshot \<Rightarrow> do {
            now \<leftarrow> time_now;
            updated \<leftarrow> updatePersistentRuntimeStateIfActive sid (Some snapshot) SandboxStatusFailed (timeout_reason ulow snapshot) now;
            ret (timeout_reason ulow snapshot, updated) }
        | Inl _ \<Rightarrow> do {
            let reason = (if lastPendingReason \<noteq> [] then ''persistent sandbox startup timed out: '' @ lastPendingReason
                          else ''persistent sandbox startup timed out'');
            updated \<leftarrow> updateStatusDurableIfActive sid SandboxStatusFailed reason;
            ret (reason, updated) });
     if updated then do {
       now \<leftarrow> time_now;
       ignore_err (AppendStatusHistory sid ''system'' ''pending'' SandboxStatusFailed reason None now) }
     else ret () }"

text \<open>
  \<open>n\<close> is the number of ticks the ticker delivers before the deadline: every schedule of ticks and
  deadline is some \<open>n\<close>.
\<close>

fun startup_loop ::
  "'k Client \<Rightarrow> (string \<Rightarrow> string) \<Rightarrow> string \<Rightarrow> string \<Rightarrow> string \<Rightarrow> string \<Rightarrow> nat \<Rightarrow> ('k, bool) prog" where
  "startup_loop c ulow sid deploymentName pvcName lastPendingReason n = do {
     r \<leftarrow> GetPersistentSandboxSnapshot c sid deploymentName pvcName;
     let next = (\<lambda>pending. case n of
         0 \<Rightarrow> do { startup_timed_out c ulow sid deploymentName pvcName pending; ret False }
       | Suc m \<Rightarrow> startup_loop c ulow sid deploymentName pvcName pending m);
     case r of
       Inl _ \<Rightarrow> next lastPendingReason
     | Inr snapshot \<Rightarrow>
         (case classifyPersistentStartup ulow (Some snapshot) of
            (persistentStartupReady, _) \<Rightarrow>
              do { startup_settled sid snapshot SandboxStatusRunning [] ''persistent sandbox is ready''; ret True }
          | (persistentStartupFailed, reason) \<Rightarrow>
              do { startup_settled sid snapshot SandboxStatusFailed reason reason; ret False }
          | (persistentStartupPending, reason) \<Rightarrow> next reason) }"

definition runPersistentStartupMonitor ::
  "'k Client \<Rightarrow> (string \<Rightarrow> string) \<Rightarrow> string \<Rightarrow> string \<Rightarrow> string \<Rightarrow> nat \<Rightarrow> ('k, bool) prog" where
  "runPersistentStartupMonitor c ulow sid deploymentName pvcName n =
     startup_loop c ulow sid deploymentName pvcName [] n"

section \<open>Guarded writes\<close>

text \<open>
  What the background tasks may do to the tables: the row of the sandbox keeps its desired state, and
  a row that is not active (a deletion was requested, or it is deleted) is not changed at all; no
  other row is touched.
\<close>

definition guarded :: "string \<Rightarrow> tables \<Rightarrow> tables \<Rightarrow> bool" where
  "guarded sid t t' \<longleftrightarrow> touches sid t t' \<and>
     (\<forall>r. lookup rec_ID sid (sandboxes t) = Some r \<longrightarrow>
       (\<exists>r'. lookup rec_ID sid (sandboxes t') = Some r' \<and> rec_DesiredState r' = rec_DesiredState r \<and>
             (\<not> active_cond r \<longrightarrow> r' = r)))"

interpretation gw: table_preorder "guarded sid" for sid
proof unfold_locales
  fix t u v
  assume "guarded sid t u" "guarded sid u v"
  then show "guarded sid t v"
    unfolding guarded_def using frame.table_trans by metis
qed (simp add: guarded_def frame.table_refl)

lemma guarded_same: "sandboxes t' = sandboxes t \<Longrightarrow> guarded sid t t'"
  by (simp add: guarded_def touches_def other_rows_def)

lemma guarded_UpdateStatus: "state_io_rel (db_rel (guarded sid)) (UpdateStatusIfActive sid status reason now)"
  unfolding UpdateStatusIfActive_def update_sandbox_if_def
  by (rule io_sql_stmt)
     (auto simp: gw.table_refl guarded_def update_status_active.lookup_upd update_status_active.touches_upd row_defs)

lemma guarded_UpdateObserved:
  "state_io_rel (db_rel (guarded sid)) (UpdateObservedStateIfActive sid u p i status reason seen now)"
  unfolding UpdateObservedStateIfActive_def update_sandbox_if_def
  by (rule io_sql_stmt)
     (auto simp: gw.table_refl guarded_def observed_active.lookup_upd observed_active.touches_upd row_defs)

lemma guarded_history: "state_io_rel (db_rel (guarded sid)) (AppendStatusHistory a b c d e p n)"
  unfolding AppendStatusHistory_def Let_def
  by (auto split: option.split sum.split simp: guarded_same intro!: gw.io_ret io_sql_stmt split: if_splits)

lemma guarded_client: "state_io_rel db_same m \<Longrightarrow> state_io_rel (db_rel (guarded sid)) m"
  by (erule ko_db_rel) (rule gw.table_refl)

lemmas guarded_snapshot = guarded_client [OF ko_snapshot]

lemmas guarded_writes =
  gw.io_program guarded_UpdateStatus guarded_UpdateObserved guarded_history guarded_snapshot

lemma guarded_runtime: "state_io_rel (db_rel (guarded sid)) (updatePersistentRuntimeStateIfActive sid s l x n)"
  unfolding updatePersistentRuntimeStateIfActive_def ok_true_def by (intro guarded_writes)

lemma guarded_settled: "state_io_rel (db_rel (guarded sid)) (startup_settled sid s l x h)"
  unfolding startup_settled_def ignore_err_def by (intro guarded_writes guarded_runtime)

lemma guarded_timed_out: "state_io_rel (db_rel (guarded sid)) (startup_timed_out c ulow sid d p l)"
  unfolding startup_timed_out_def ignore_err_def updateStatusDurableIfActive_def ok_true_def Let_def
  by (intro guarded_writes guarded_runtime)

lemma guarded_loop: "state_io_rel (db_rel (guarded sid)) (startup_loop c ulow sid d p l n)"
proof (induction n arbitrary: l)
  case 0
  show ?case
    by (subst startup_loop.simps)
       (auto simp: Let_def split: sum.split prod.split persistentStartupState.split
         intro!: gw.io_bind gw.io_ret guarded_snapshot guarded_settled guarded_timed_out)
next
  case (Suc n)
  show ?case
    by (subst startup_loop.simps)
       (auto simp: Let_def split: sum.split prod.split persistentStartupState.split simp del: startup_loop.simps
         intro!: gw.io_bind gw.io_ret guarded_snapshot guarded_settled Suc.IH)
qed

section \<open>Verdicts\<close>

lemma cond_message_nonempty: "d \<noteq> [] \<Longrightarrow> cond_message d c \<noteq> []"
  by (simp add: cond_message_def Let_def)

lemma classify_ready: "classifyPersistentStartup ulow (Some s) = (persistentStartupReady, x) \<longleftrightarrow> podReady (pss_Pod s) \<and> x = []"
  by (auto simp: classifyPersistentStartup_def)

lemma classify_failed: "classifyPersistentStartup ulow s = (persistentStartupFailed, x) \<Longrightarrow> x \<noteq> []"
  by (auto simp: classifyPersistentStartup_def split: if_splits)

lemma timeout_reason_nonempty: "timeout_reason ulow s \<noteq> []"
  using classify_failed [of ulow "Some s"]
  by (cases "classifyPersistentStartup ulow (Some s)") (auto simp: timeout_reason_def Let_def split: if_splits)

text \<open>The row of the sandbox after the monitor has settled it.\<close>

definition row_has :: "string \<Rightarrow> (SandboxRecord \<Rightarrow> bool) \<Rightarrow> tables \<Rightarrow> bool" where
  "row_has sid P t \<longleftrightarrow> (case lookup rec_ID sid (sandboxes t) of None \<Rightarrow> False | Some r \<Rightarrow> P r)"

definition verdict :: "bool \<Rightarrow> SandboxRecord \<Rightarrow> bool" where
  "verdict b r \<longleftrightarrow>
     (if b then rec_LifecycleStatus r = SandboxStatusRunning \<and> rec_PodPhase r = PodRunning \<and> rec_StatusReason r = []
      else rec_LifecycleStatus r = SandboxStatusFailed \<and> rec_StatusReason r \<noteq> [])"

lemma row_has_same: "sandboxes t' = sandboxes t \<Longrightarrow> row_has sid P t \<Longrightarrow> row_has sid P t'"
  by (simp add: row_has_def)

lemma wp_history_row:
  "row_has sid P (db w) \<Longrightarrow> wp (ignore_err (AppendStatusHistory i a b c d None now)) (\<lambda>_ v. row_has sid P (db v)) w"
  by (auto simp: ignore_err_def wp_simps AppendStatusHistory_def wp_sql_stmt row_has_def split: prod.split)

lemma wp_runtime_ok:
  assumes "db_faults w = []" "row_has sid active_cond (db w)"
    and "\<And>w'. db_faults w' = [] \<Longrightarrow> row_has sid (\<lambda>r. rec_LifecycleStatus r = l \<and> rec_StatusReason r = x \<and>
           (\<forall>p. pss_Pod s = Some p \<longrightarrow> rec_PodPhase r = pod_Phase p)) (db w') \<Longrightarrow> Q True w'"
  shows "wp (updatePersistentRuntimeStateIfActive sid (Some s) l x now) Q w"
proof -
  obtain r where r: "lookup rec_ID sid (sandboxes (db w)) = Some r" "active_cond r"
    using assms(2) by (auto simp: row_has_def split: option.splits)
  then have found: "\<exists>r \<in> set (sandboxes (db w)). rec_ID r = sid \<and> active_cond r"
    using lookup_SomeD by fastforce
  show ?thesis
    using found r assms(1,3)
    by (auto simp: updatePersistentRuntimeStateIfActive_def ok_true_def wp_simps UpdateObservedStateIfActive_def
        UpdateStatusIfActive_def update_sandbox_if_def wp_sql_stmt row_has_def observed_active.lookup_upd
        update_status_active.lookup_upd row_defs split: option.split)
qed

lemma wp_status_ok:
  assumes "db_faults w = []" "row_has sid active_cond (db w)"
    and "\<And>w'. db_faults w' = [] \<Longrightarrow> row_has sid (\<lambda>r. rec_LifecycleStatus r = l \<and> rec_StatusReason r = x) (db w') \<Longrightarrow> Q True w'"
  shows "wp (updateStatusDurableIfActive sid l x) Q w"
proof -
  obtain r where r: "lookup rec_ID sid (sandboxes (db w)) = Some r" "active_cond r"
    using assms(2) by (auto simp: row_has_def split: option.splits)
  then have found: "\<exists>r \<in> set (sandboxes (db w)). rec_ID r = sid \<and> active_cond r"
    using lookup_SomeD by fastforce
  show ?thesis
    using found r assms(1,3)
    by (auto simp: updateStatusDurableIfActive_def ok_true_def wp_simps UpdateStatusIfActive_def update_sandbox_if_def
        wp_sql_stmt row_has_def update_status_active.lookup_upd row_defs split: option.split)
qed

lemma row_has_mono: "row_has sid P t \<Longrightarrow> (\<And>r. P r \<Longrightarrow> Q r) \<Longrightarrow> row_has sid Q t"
  by (auto simp: row_has_def split: option.splits)

lemma settled_verdict:
  assumes "db_faults w = []" "row_has sid active_cond (db w)"
    and "b \<Longrightarrow> l = SandboxStatusRunning \<and> x = [] \<and> podReady (pss_Pod s)"
    and "\<not> b \<Longrightarrow> l = SandboxStatusFailed \<and> x \<noteq> []"
  shows "wp (startup_settled sid s l x h) (\<lambda>_ v. row_has sid (verdict b) (db v)) w"
proof -
  have v: "row_has sid (verdict b) t"
    if "row_has sid (\<lambda>r. rec_LifecycleStatus r = l \<and> rec_StatusReason r = x \<and>
           (\<forall>p. pss_Pod s = Some p \<longrightarrow> rec_PodPhase r = pod_Phase p)) t" for t
    using assms(3,4) by (cases b; intro row_has_mono [OF that]) (auto simp: verdict_def podReady_def split: option.splits)
  show ?thesis
    unfolding startup_settled_def wp_bind wp_time_now
    by (rule wp_runtime_ok [where s = s]) (auto simp: assms(1,2) wp_ret intro!: wp_history_row v)
qed

lemma timed_out_verdict:
  assumes "db_faults w = []" "row_has sid active_cond (db w)"
  shows "wp (startup_timed_out c ulow sid d p l) (\<lambda>_ v. row_has sid (verdict False) (db v)) w"
  unfolding startup_timed_out_def wp_bind
proof (rule wp_client [OF ko_snapshot])
  fix r and w1 :: "'a world"
  assume w1: "db w1 = db w" "db_faults w1 = db_faults w"
  have after: "wp (case (reason, True) of (reason, updated) \<Rightarrow> if updated then do {
       now \<leftarrow> time_now;
       ignore_err (AppendStatusHistory sid ''system'' ''pending'' SandboxStatusFailed reason None now) }
     else ret ()) (\<lambda>_ v. row_has sid (verdict False) (db v)) v"
    if "db_faults v = []" "row_has sid (verdict False) (db v)" for reason and v :: "'a world"
    using that by (auto simp: wp_bind wp_time_now intro!: wp_history_row)
  show "wp (case r of
          Inr snapshot \<Rightarrow> do {
            now \<leftarrow> time_now;
            updated \<leftarrow> updatePersistentRuntimeStateIfActive sid (Some snapshot) SandboxStatusFailed (timeout_reason ulow snapshot) now;
            ret (timeout_reason ulow snapshot, updated) }
        | Inl _ \<Rightarrow> do {
            let reason = (if l \<noteq> [] then ''persistent sandbox startup timed out: '' @ l
                          else ''persistent sandbox startup timed out'');
            updated \<leftarrow> updateStatusDurableIfActive sid SandboxStatusFailed reason;
            ret (reason, updated) })
     (\<lambda>a. wp (case a of (reason, updated) \<Rightarrow> if updated then do {
       now \<leftarrow> time_now;
       ignore_err (AppendStatusHistory sid ''system'' ''pending'' SandboxStatusFailed reason None now) }
     else ret ()) (\<lambda>_ v. row_has sid (verdict False) (db v))) w1"
  proof (cases r)
    case (Inr s)
    have "row_has sid (verdict False) t"
      if "row_has sid (\<lambda>r. rec_LifecycleStatus r = SandboxStatusFailed \<and> rec_StatusReason r = timeout_reason ulow s \<and>
           (\<forall>p. pss_Pod s = Some p \<longrightarrow> rec_PodPhase r = pod_Phase p)) t" for t
      by (rule row_has_mono [OF that]) (simp add: verdict_def timeout_reason_nonempty)
    then show ?thesis
      unfolding Inr sum.case wp_bind wp_ret wp_time_now
      by (intro wp_runtime_ok [where s = s]) (auto simp: w1 assms intro!: after [simplified])
  next
    case (Inl e)
    have "row_has sid (verdict False) t"
      if "row_has sid (\<lambda>r. rec_LifecycleStatus r = SandboxStatusFailed \<and> rec_StatusReason r = x) t" "x \<noteq> []" for t x
      by (rule row_has_mono [OF that(1)]) (simp add: verdict_def that(2))
    then show ?thesis
      unfolding Inl sum.case wp_bind wp_ret Let_def
      by (intro wp_status_ok) (auto simp: w1 assms intro!: after [simplified])
  qed
qed

lemma loop_verdict:
  assumes "db_faults w = []" "row_has sid active_cond (db w)"
  shows "wp (startup_loop c ulow sid d p l n) (\<lambda>b v. row_has sid (verdict b) (db v)) w"
  using assms
proof (induction n arbitrary: l w)
  case 0
  show ?case
    unfolding startup_loop.simps [of _ _ _ _ _ _ 0] wp_bind Let_def nat.case
    by (rule wp_client [OF ko_snapshot])
       (use 0 in \<open>auto simp: wp_bind wp_ret classify_ready dest!: classify_failed
          intro!: timed_out_verdict settled_verdict split: sum.split prod.split persistentStartupState.split\<close>)
next
  case (Suc n)
  show ?case
    unfolding startup_loop.simps [of _ _ _ _ _ _ "Suc n"] wp_bind Let_def nat.case
    by (rule wp_client [OF ko_snapshot])
       (use Suc.prems in \<open>auto simp: wp_bind wp_ret classify_ready dest!: classify_failed simp del: startup_loop.simps
          intro!: Suc.IH settled_verdict split: sum.split prod.split persistentStartupState.split\<close>)
qed

section \<open>Properties\<close>

text \<open>
  C21: with a working database, for every cluster and every number of ticks before the deadline, the monitor settles an active
  sandbox: it returns true with the row running, the pod phase \<open>Running\<close> and no reason, or it returns false
  with the row failed and a reason that is not empty. No active sandbox is left pending. (The
  code drops the error of the update and returns: after a failed statement the row is as it was.)
\<close>

theorem monitor_settles_active_rows:
  assumes "db_faults w = []" "lookup rec_ID sid (sandboxes (db w)) = Some r" "active_cond r"
  shows "\<exists>b w' r'. run_state (runPersistentStartupMonitor c ulow sid d p n) w = (b, w') \<and>
           lookup rec_ID sid (sandboxes (db w')) = Some r' \<and> verdict b r'"
proof -
  have "row_has sid active_cond (db w)"
    using assms(2,3) by (simp add: row_has_def)
  then have "wp (runPersistentStartupMonitor c ulow sid d p n) (\<lambda>b v. row_has sid (verdict b) (db v)) w"
    unfolding runPersistentStartupMonitor_def using assms(1) by (intro loop_verdict)
  then show ?thesis
    by (auto simp: wp_def row_has_def split: option.splits prod.splits)
qed

theorem monitor_settles_active_rows_witness:
  "\<exists>b w' r'. run_state (runPersistentStartupMonitor sample_client (\<lambda>s. s) ''abc'' ''sandbox-abc'' ''sandbox-data-abc'' 3)
        (sample_world [sample_row ''abc''] [sample_pod ''abc'']) = (b, w') \<and>
      lookup rec_ID ''abc'' (sandboxes (db w')) = Some r' \<and> verdict b r'"
  by (rule monitor_settles_active_rows [where r = "sample_row ''abc''"])
     (simp_all add: lookup_def sample_row_def active_cond_def)

text \<open>
  The monitor never brings a sandbox back: if a deletion was requested or the row is deleted,
  then, whatever the cluster answers and whichever statements fail, the row stays exactly as it is;
  in every case the desired state and the rows of all other sandboxes are unchanged.
\<close>

theorem monitor_never_resurrects:
  assumes "run_state (runPersistentStartupMonitor c ulow sid d p n) w = (b, w')"
  shows "guarded sid (db w) (db w')"
  using io_relD [OF guarded_loop [of sid c ulow d p "[]" n], of w] assms
  by (simp add: runPersistentStartupMonitor_def db_rel_def)

theorem monitor_never_resurrects_witness:
  "\<exists>b w'. run_state (runPersistentStartupMonitor sample_client (\<lambda>s. s) ''abc'' ''sandbox-abc'' ''sandbox-data-abc'' 3)
        (sample_world [MarkDeletionRequested_row 7 (sample_row ''abc'')] [sample_pod ''abc'']) = (b, w') \<and>
      lookup rec_ID ''abc'' (sandboxes (db w')) = Some (MarkDeletionRequested_row 7 (sample_row ''abc''))"
proof -
  let ?r = "MarkDeletionRequested_row 7 (sample_row ''abc'')"
  obtain b w' where run: "run_state (runPersistentStartupMonitor sample_client (\<lambda>s. s) ''abc'' ''sandbox-abc'' ''sandbox-data-abc'' 3)
        (sample_world [?r] [sample_pod ''abc'']) = (b, w')"
    by fastforce
  have "lookup rec_ID ''abc'' [?r] = Some ?r" "\<not> active_cond ?r"
    by (simp_all add: lookup_def row_defs sample_row_def active_cond_def)
  then show ?thesis
    using monitor_never_resurrects [OF run] run by (auto simp: guarded_def)
qed

end
