(* ===== verification/Token_Cipher.thy ===== *)
theory Token_Cipher
  imports Model
begin

text \<open>
  Access tokens, \<open>backend/internal/security/token.go\<close>: generation, hashing, and encryption with AES-GCM.
  Base64 and hexadecimal coding are modelled; the cipher (\<open>crypto/aes\<close>, \<open>cipher.AEAD\<close>) and SHA-256
  are arguments. A string of bytes is a \<open>string\<close>.
\<close>

section \<open>Base64 and hexadecimal\<close>

definition b64_alphabet :: string where
  "b64_alphabet = ''ABCDEFGHIJKLMNOPQRSTUVWXYZabcdefghijklmnopqrstuvwxyz0123456789+/''"

definition b64_char :: "nat \<Rightarrow> char" where
  "b64_char n = b64_alphabet ! (n mod 64)"

fun index_of :: "char \<Rightarrow> string \<Rightarrow> nat option" where
  "index_of c [] = None"
| "index_of c (x # xs) = (if x = c then Some 0 else map_option Suc (index_of c xs))"

definition b64_val :: "char \<Rightarrow> nat option" where
  "b64_val c = index_of c b64_alphabet"

definition b64_quad :: "nat \<Rightarrow> string" where
  "b64_quad n = [b64_char (n div 262144), b64_char (n div 4096), b64_char (n div 64), b64_char n]"

abbreviation byte :: "char \<Rightarrow> nat" where
  "byte c \<equiv> of_char c"

fun base64_encode :: "string \<Rightarrow> string" where
  "base64_encode [] = []"
| "base64_encode [a] = take 2 (b64_quad (byte a * 65536)) @ ''==''"
| "base64_encode [a, b] = take 3 (b64_quad (byte a * 65536 + byte b * 256)) @ ''=''"
| "base64_encode (a # b # c # rest) = b64_quad (byte a * 65536 + byte b * 256 + byte c) @ base64_encode rest"

definition b64_bytes :: "nat \<Rightarrow> string" where
  "b64_bytes n = [char_of (n div 65536), char_of (n div 256), char_of n]"

text \<open>
  \<open>DecodeString\<close> of the standard encoding: line breaks are skipped, the last quantum is padded. The
  position in the text of the error is left out.
\<close>

abbreviation corrupt_input :: go_err where
  "corrupt_input \<equiv> Msg ''illegal base64 data''"

fun decode_quanta :: "string \<Rightarrow> string res" where
  "decode_quanta [] = Inr []"
| "decode_quanta (w # x # y # z # rest) =
     (case (b64_val w, b64_val x) of
        (Some a, Some b) \<Rightarrow>
          (case b64_val y of
             None \<Rightarrow> if y = CHR ''='' \<and> z = CHR ''='' \<and> rest = []
                     then Inr (take 1 (b64_bytes (a * 262144 + b * 4096))) else Inl corrupt_input
           | Some c \<Rightarrow>
               (case b64_val z of
                  None \<Rightarrow> if z = CHR ''='' \<and> rest = []
                          then Inr (take 2 (b64_bytes (a * 262144 + b * 4096 + c * 64))) else Inl corrupt_input
                | Some d \<Rightarrow>
                    (case decode_quanta rest of
                       Inl e \<Rightarrow> Inl e
                     | Inr tail \<Rightarrow> Inr (b64_bytes (a * 262144 + b * 4096 + c * 64 + d) @ tail))))
      | _ \<Rightarrow> Inl corrupt_input)"
| "decode_quanta _ = Inl corrupt_input"

definition base64_decode :: "string \<Rightarrow> string res" where
  "base64_decode s = decode_quanta (filter (\<lambda>c. c \<noteq> CHR 0x0A \<and> c \<noteq> CHR 0x0D) s)"

definition hex_alphabet :: string where
  "hex_alphabet = ''0123456789abcdef''"

definition hex_encode :: "string \<Rightarrow> string" where
  "hex_encode s = concat (map (\<lambda>c. [hex_alphabet ! (byte c div 16), hex_alphabet ! (byte c mod 16)]) s)"

definition hex_val :: "char \<Rightarrow> nat option" where
  "hex_val c = index_of (ascii_lower c) hex_alphabet"

fun hex_decode :: "string \<Rightarrow> string res" where
  "hex_decode [] = Inr []"
| "hex_decode (a # b # rest) =
     (case (hex_val a, hex_val b) of
        (Some x, Some y) \<Rightarrow> (case hex_decode rest of Inl e \<Rightarrow> Inl e | Inr tail \<Rightarrow> Inr (char_of (x * 16 + y) # tail))
      | _ \<Rightarrow> Inl (Msg ''encoding/hex: invalid byte''))"
| "hex_decode _ = Inl (Msg ''encoding/hex: odd length hex string'')"

section \<open>Keys and tokens (token.go)\<close>

record AEAD =
  aead_NonceSize :: nat
  aead_Seal :: "string \<Rightarrow> string \<Rightarrow> string"
  aead_Open :: "string \<Rightarrow> string \<Rightarrow> string res"

record TokenCipher =
  tc_aead :: AEAD
  tc_keyID :: string

definition validAESKeyLen :: "nat \<Rightarrow> bool" where
  "validAESKeyLen n \<longleftrightarrow> n = 16 \<or> n = 24 \<or> n = 32"

definition parseAESKey :: "string \<Rightarrow> string res" where
  "parseAESKey raw =
     (let viaRaw = (if validAESKeyLen (length raw) then Inr raw
            else Inl (Msg ''invalid SANDBOX_TOKEN_ENCRYPTION_KEY length: must be 16/24/32 bytes (raw/hex/base64)''));
          viaHex = (case hex_decode raw of
            Inr decoded \<Rightarrow> if validAESKeyLen (length decoded) then Inr decoded else viaRaw
          | Inl _ \<Rightarrow> viaRaw)
      in case base64_decode raw of
           Inr decoded \<Rightarrow> if validAESKeyLen (length decoded) then Inr decoded else viaHex
         | Inl _ \<Rightarrow> viaHex)"

text \<open>\<open>getenv\<close> is the environment, \<open>newCipher\<close> is \<open>aes.NewCipher\<close> and \<open>newGCM\<close> is \<open>cipher.NewGCM\<close>.\<close>

definition NewTokenCipherFromEnv ::
  "(string \<Rightarrow> string) \<Rightarrow> (string \<Rightarrow> 'b res) \<Rightarrow> ('b \<Rightarrow> AEAD res) \<Rightarrow> TokenCipher res" where
  "NewTokenCipherFromEnv getenv newCipher newGCM =
     (let rawKey = getenv ''SANDBOX_TOKEN_ENCRYPTION_KEY'' in
      if rawKey = [] then Inl (Msg ''SANDBOX_TOKEN_ENCRYPTION_KEY is required'')
      else case parseAESKey rawKey of
        Inl e \<Rightarrow> Inl e
      | Inr key \<Rightarrow>
          (case newCipher key of
             Inl e \<Rightarrow> Inl (Wrap ''failed to create cipher'' e)
           | Inr block \<Rightarrow>
               (case newGCM block of
                  Inl e \<Rightarrow> Inl (Wrap ''failed to create gcm'' e)
                | Inr aead \<Rightarrow>
                    let keyID = getenv ''SANDBOX_TOKEN_ENCRYPTION_KEY_ID'' in
                    Inr \<lparr>tc_aead = aead, tc_keyID = (if keyID = [] then ''v1'' else keyID)\<rparr>)))"

text \<open>\<open>io.ReadFull\<close> of \<open>n\<close> random bytes.\<close>

definition read_random :: "nat \<Rightarrow> ('k, string res) prog" where
  "read_random n = do {
     r \<leftarrow> rand_token;
     ret (case r of
            Some s \<Rightarrow> if length s < n then Inl (Msg ''unexpected EOF'') else Inr (take n s)
          | None \<Rightarrow> Inl (Msg ''random source failed'')) }"

definition Encrypt :: "TokenCipher \<Rightarrow> string \<Rightarrow> ('k, (string \<times> string \<times> string) res) prog" where
  "Encrypt c token =
     seqE (mapE (Wrap ''failed to generate nonce'') (read_random (aead_NonceSize (tc_aead c)))) (\<lambda>nonceBytes.
       retE (base64_encode (aead_Seal (tc_aead c) nonceBytes token), base64_encode nonceBytes, tc_keyID c))"

definition Decrypt :: "TokenCipher \<Rightarrow> string \<Rightarrow> string \<Rightarrow> string res" where
  "Decrypt c ciphertext nonce =
     (case base64_decode ciphertext of
        Inl e \<Rightarrow> Inl (Wrap ''failed to decode ciphertext'' e)
      | Inr ciphertextBytes \<Rightarrow>
          (case base64_decode nonce of
             Inl e \<Rightarrow> Inl (Wrap ''failed to decode nonce'' e)
           | Inr nonceBytes \<Rightarrow>
               (case aead_Open (tc_aead c) nonceBytes ciphertextBytes of
                  Inl e \<Rightarrow> Inl (Wrap ''failed to decrypt token'' e)
                | Inr plain \<Rightarrow> Inr plain)))"

text \<open>\<open>sha256\<close> is \<open>sha256.Sum256\<close>.\<close>

definition HashToken :: "(string \<Rightarrow> string) \<Rightarrow> string \<Rightarrow> string" where
  "HashToken sha256 token = hex_encode (sha256 token)"

definition GenerateToken :: "int \<Rightarrow> ('k, string res) prog" where
  "GenerateToken sz =
     (let sz' = (if sz \<le> 0 then 32 else sz) in
      seqE (mapE (Wrap ''failed to generate random token'') (read_random (nat sz'))) (\<lambda>buf. retE (hex_encode buf)))"

section \<open>Decoding undoes encoding\<close>

lemma b64_alphabet_length: "length b64_alphabet = 64"
  by (simp add: b64_alphabet_def)

lemma index_of_nth: "distinct xs \<Longrightarrow> i < length xs \<Longrightarrow> index_of (xs ! i) xs = Some i"
proof (induction xs arbitrary: i)
  case (Cons x xs)
  then show ?case
    by (cases i) auto
qed simp

lemma distinct_b64: "distinct b64_alphabet"
  by (simp add: b64_alphabet_def)

lemma b64_val_char [simp]: "b64_val (b64_char n) = Some (n mod 64)"
  unfolding b64_val_def b64_char_def using distinct_b64
  by (rule index_of_nth) (simp add: b64_alphabet_length)

lemma b64_no_break: "b64_char n \<noteq> CHR 0x0A" "b64_char n \<noteq> CHR 0x0D"
proof -
  have "b64_char n \<in> set b64_alphabet"
    unfolding b64_char_def by (rule nth_mem) (simp add: b64_alphabet_length)
  moreover have "CHR 0x0A \<notin> set b64_alphabet" "CHR 0x0D \<notin> set b64_alphabet"
    by (simp_all add: b64_alphabet_def)
  ultimately show "b64_char n \<noteq> CHR 0x0A" "b64_char n \<noteq> CHR 0x0D"
    by metis+
qed

lemma b64_val_pad [simp]: "b64_val (CHR ''='') = None"
  by (simp add: b64_val_def b64_alphabet_def)

lemma sextets:
  assumes "(n::nat) < 16777216"
  shows "(n div 262144) mod 64 * 262144 + (n div 4096) mod 64 * 4096 + (n div 64) mod 64 * 64 + n mod 64 = n"
proof -
  have "n div 4096 = (n div 262144) * 64 + (n div 4096) mod 64"
    using div_mult_mod_eq [of "n div 4096" 64] by (simp add: div_mult2_eq [symmetric])
  moreover have "n div 64 = (n div 4096) * 64 + (n div 64) mod 64"
    using div_mult_mod_eq [of "n div 64" 64] by (simp add: div_mult2_eq [symmetric])
  moreover have "n = (n div 64) * 64 + n mod 64"
    by simp
  moreover have "(n div 262144) mod 64 = n div 262144"
    using assms by (simp add: div_less_iff_less_mult)
  ultimately show ?thesis
    by linarith
qed

lemma b64_bytes_3:
  assumes "a < 256" "b < 256" "c < 256"
  shows "b64_bytes (a * 65536 + b * 256 + c) = [char_of a, char_of b, char_of c]"
proof -
  have "(a * 65536 + b * 256 + c) div 65536 = a" "(a * 65536 + b * 256 + c) div 256 = a * 256 + b"
    using assms by linarith+
  moreover have "char_of (a * 256 + b) = char_of b" "char_of (a * 65536 + b * 256 + c) = char_of c"
    by (simp_all add: mod_add_eq [symmetric])
  ultimately show ?thesis
    by (simp add: b64_bytes_def)
qed

lemma byte_bound: "byte c < 256"
proof -
  have "of_char (char_of (byte c)) = byte c mod 256"
    by (rule of_char_of)
  then show ?thesis
    by (metis char_of_char mod_less_divisor zero_less_numeral)
qed

lemma decode_quad:
  assumes "n < 16777216"
  shows "decode_quanta (b64_quad n @ rest) =
     (case decode_quanta rest of Inl e \<Rightarrow> Inl e | Inr tail \<Rightarrow> Inr (b64_bytes n @ tail))"
  by (simp only: b64_quad_def append_Cons append_Nil decode_quanta.simps b64_val_char prod.case option.case
      sextets [OF assms])

lemma decode_quad_3:
  assumes "n < 16777216" "n mod 64 = 0"
  shows "decode_quanta (take 3 (b64_quad n) @ ''='') = Inr (take 2 (b64_bytes n))"
proof -
  have t: "take 3 (b64_quad n) @ ''='' = [b64_char (n div 262144), b64_char (n div 4096), b64_char (n div 64), CHR ''='']"
    by (simp add: b64_quad_def)
  have "(n div 262144) mod 64 * 262144 + (n div 4096) mod 64 * 4096 + (n div 64) mod 64 * 64 = n"
    using sextets [OF assms(1)] assms(2) by linarith
  then show ?thesis
    unfolding t by (simp only: decode_quanta.simps b64_val_char b64_val_pad prod.case option.case simp_thms if_True)
qed

lemma decode_quad_2:
  assumes "n < 16777216" "n mod 64 = 0" "(n div 64) mod 64 = 0"
  shows "decode_quanta (take 2 (b64_quad n) @ ''=='') = Inr (take 1 (b64_bytes n))"
proof -
  have t: "take 2 (b64_quad n) @ ''=='' = [b64_char (n div 262144), b64_char (n div 4096), CHR ''='', CHR ''='']"
    by (simp add: b64_quad_def)
  have "(n div 262144) mod 64 * 262144 + (n div 4096) mod 64 * 4096 = n"
    using sextets [OF assms(1)] assms(2,3) by linarith
  then show ?thesis
    unfolding t by (simp only: decode_quanta.simps b64_val_char b64_val_pad prod.case option.case simp_thms if_True)
qed

lemma decode_encode_quanta: "decode_quanta (base64_encode s) = Inr s"
proof (induction s rule: base64_encode.induct)
  case (2 a)
  have "decode_quanta (take 2 (b64_quad (byte a * 65536)) @ ''=='') = Inr (take 1 (b64_bytes (byte a * 65536)))"
    using byte_bound [of a] by (intro decode_quad_2) simp_all
  moreover have "b64_bytes (byte a * 65536) = [a, char_of (0::nat), char_of (0::nat)]"
    using b64_bytes_3 [of "byte a" 0 0] byte_bound [of a] by simp
  ultimately show ?case
    by (simp only: base64_encode.simps) simp
next
  case (3 a b)
  have "decode_quanta (take 3 (b64_quad (byte a * 65536 + byte b * 256)) @ ''='')
      = Inr (take 2 (b64_bytes (byte a * 65536 + byte b * 256)))"
    using byte_bound [of a] byte_bound [of b]
    by (intro decode_quad_3) (linarith, simp add: mod_add_eq [symmetric])
  moreover have "b64_bytes (byte a * 65536 + byte b * 256) = [a, b, char_of (0::nat)]"
    using b64_bytes_3 [of "byte a" "byte b" 0] byte_bound [of a] byte_bound [of b] by simp
  ultimately show ?case
    by (simp only: base64_encode.simps) simp
next
  case (4 a b c rest)
  have "byte a * 65536 + byte b * 256 + byte c < 16777216"
    using byte_bound [of a] byte_bound [of b] byte_bound [of c] by linarith
  then show ?case
    using 4 b64_bytes_3 [of "byte a" "byte b" "byte c"] byte_bound
    by (simp add: decode_quad)
qed simp

lemma encode_no_breaks: "filter (\<lambda>c. c \<noteq> CHR 0x0A \<and> c \<noteq> CHR 0x0D) (base64_encode s) = base64_encode s"
  by (induction s rule: base64_encode.induct) (simp_all add: b64_quad_def b64_no_break)

lemma base64_roundtrip: "base64_decode (base64_encode s) = Inr s"
  by (simp add: base64_decode_def encode_no_breaks decode_encode_quanta)

lemma hex_val_digit:
  assumes "n < 16"
  shows "hex_val (hex_alphabet ! n) = Some n"
proof -
  have len: "length hex_alphabet = 16" and dist: "distinct hex_alphabet"
    by (simp_all add: hex_alphabet_def)
  have "\<forall>c \<in> set hex_alphabet. ascii_lower c = c"
    by (simp add: hex_alphabet_def ascii_lower_def)
  then have "ascii_lower (hex_alphabet ! n) = hex_alphabet ! n"
    by (rule bspec) (rule nth_mem, simp add: assms len)
  then show ?thesis
    using index_of_nth [OF dist, of n] assms len by (simp add: hex_val_def)
qed

lemma hex_roundtrip: "hex_decode (hex_encode s) = Inr s"
proof (induction s)
  case (Cons c s)
  have "byte c div 16 < 16" "byte c mod 16 < 16" "byte c div 16 * 16 + byte c mod 16 = byte c"
    using byte_bound [of c] by (simp_all add: div_less_iff_less_mult)
  moreover from this have "char_of (byte c div 16 * 16 + byte c mod 16) = c"
    by simp
  ultimately show ?case
    using Cons.IH by (simp add: hex_encode_def hex_val_digit)
qed (simp add: hex_encode_def)

section \<open>Properties\<close>

text \<open>
  C22: what \<open>Encrypt\<close> returns, \<open>Decrypt\<close> turns back into the token, for every cipher whose \<open>Open\<close> inverts
  \<open>Seal\<close> on nonces of its size, and whatever the random source delivers: base64 coding of the
  ciphertext and of the nonce loses nothing.
\<close>

theorem token_roundtrip:
  assumes aead: "\<forall>nonce plain. length nonce = aead_NonceSize (tc_aead c) \<longrightarrow>
      aead_Open (tc_aead c) nonce (aead_Seal (tc_aead c) nonce plain) = Inr plain"
    and run: "run_state (Encrypt c token) w = (Inr (ciphertext, nonce, keyID), w')"
  shows "Decrypt c ciphertext nonce = Inr token \<and> keyID = tc_keyID c"
proof -
  obtain s where "\<not> length s < aead_NonceSize (tc_aead c)" "keyID = tc_keyID c"
      "nonce = base64_encode (take (aead_NonceSize (tc_aead c)) s)"
      "ciphertext = base64_encode (aead_Seal (tc_aead c) (take (aead_NonceSize (tc_aead c)) s) token)"
    using run by (auto simp: Encrypt_def run_seqE run_mapE read_random_def rand_token_def run_step_with
        split: prod.splits sum.splits option.splits if_splits)
  then show ?thesis
    using aead by (simp add: Decrypt_def base64_roundtrip)
qed

definition sample_cipher :: TokenCipher where
  "sample_cipher = \<lparr>tc_aead = \<lparr>aead_NonceSize = 2, aead_Seal = (\<lambda>n p. n @ rev p),
     aead_Open = (\<lambda>n ct. if take (length n) ct = n then Inr (rev (drop (length n) ct)) else Inl (Msg ''cipher: message authentication failed''))\<rparr>,
     tc_keyID = ''v1''\<rparr>"

definition random_world :: "string \<Rightarrow> unit world" where
  "random_world bytes = \<lparr>db = \<lparr>sandboxes = [], status_history = [], reconcile_runs = [], reconcile_items = [], templates = [],
      template_versions = [], admin_users = [], auth_sessions = [], api_keys = [], image_prepulls = [], next_history_id = 1, next_item_id = 1\<rparr>, db_faults = [], clock = (\<lambda>_. 0), ticks = 0,
     uuids = (\<lambda>_. []), uuids_used = 0, tokens = (\<lambda>_. Some bytes), tokens_used = 0, kube = ()\<rparr>"

theorem token_roundtrip_witness:
  "\<exists>ciphertext nonce keyID w'. run_state (Encrypt sample_cipher ''secret'') (random_world ''xyz'') = (Inr (ciphertext, nonce, keyID), w') \<and>
     Decrypt sample_cipher ciphertext nonce = Inr ''secret'' \<and> keyID = tc_keyID sample_cipher"
proof -
  have "\<exists>x w'. run_state (Encrypt sample_cipher ''secret'') (random_world ''xyz'') = (Inr x, w')"
    by (simp add: Encrypt_def run_seqE run_mapE read_random_def rand_token_def run_step_with random_world_def sample_cipher_def)
  then obtain ct n k w' where run: "run_state (Encrypt sample_cipher ''secret'') (random_world ''xyz'') = (Inr (ct, n, k), w')"
    by (metis prod_cases3)
  then show ?thesis
    using token_roundtrip [OF _ run] by (simp add: sample_cipher_def)
qed

lemma decode_alphabet:
  "length s = 4 * n \<Longrightarrow> set s \<subseteq> set b64_alphabet \<Longrightarrow> \<exists>d. decode_quanta s = Inr d \<and> length d = 3 * n"
proof (induction n arbitrary: s)
  case (Suc n)
  obtain w x y z rest where s: "s = w # x # y # z # rest"
    using Suc.prems(1) by (auto simp: length_Suc_conv numeral_eq_Suc)
  have val: "\<exists>v. b64_val c = Some v" if "c \<in> set b64_alphabet" for c
    unfolding b64_val_def using that by (metis index_of_nth in_set_conv_nth distinct_b64)
  obtain d where "decode_quanta rest = Inr d" "length d = 3 * n"
    using Suc.IH [of rest] Suc.prems s by auto
  moreover obtain a b c e where "b64_val w = Some a" "b64_val x = Some b" "b64_val y = Some c" "b64_val z = Some e"
    using val Suc.prems(2) s by (metis insert_subset list.simps(15))
  ultimately show ?case
    by (simp add: s b64_bytes_def)
qed simp

text \<open>
  \<open>parseAESKey\<close> only returns keys of a valid length, but it tries base64 first: a key of 32 characters
  of the base64 alphabet, such as a raw 32-byte key of letters and digits or a 16-byte key in
  hexadecimal, is always read as base64 and gives a 24-byte key, never the 32 or 16 bytes that were meant.
\<close>

theorem parseAESKey_lengths:
  "(\<forall>key. parseAESKey raw = Inr key \<longrightarrow> length key \<in> {16, 24, 32}) \<and>
   (length raw = 32 \<longrightarrow> set raw \<subseteq> set b64_alphabet \<longrightarrow>
      (\<exists>key. parseAESKey raw = Inr key \<and> base64_decode raw = Inr key \<and> length key = 24))"
proof (intro conjI impI)
  show "\<forall>key. parseAESKey raw = Inr key \<longrightarrow> length key \<in> {16, 24, 32}"
    by (auto simp: parseAESKey_def validAESKeyLen_def Let_def split: sum.splits if_splits)
  assume raw: "length raw = 32" "set raw \<subseteq> set b64_alphabet"
  have "CHR 0x0A \<notin> set b64_alphabet" "CHR 0x0D \<notin> set b64_alphabet"
    by (simp_all add: b64_alphabet_def)
  then have "filter (\<lambda>c. c \<noteq> CHR 0x0A \<and> c \<noteq> CHR 0x0D) raw = raw"
    using raw(2) by (auto intro!: filter_True)
  then obtain key where "base64_decode raw = Inr key" "length key = 24"
    using decode_alphabet [of raw 8] raw by (auto simp: base64_decode_def)
  then show "\<exists>key. parseAESKey raw = Inr key \<and> base64_decode raw = Inr key \<and> length key = 24"
    by (simp add: parseAESKey_def validAESKeyLen_def)
qed

theorem parseAESKey_lengths_witness:
  "\<exists>key. parseAESKey ''0123456789abcdef0123456789abcdef'' = Inr key \<and> length key = 24 \<and>
     hex_decode ''0123456789abcdef0123456789abcdef'' \<noteq> Inr key"
proof -
  let ?raw = "''0123456789abcdef0123456789abcdef''"
  have "length ?raw = 32" "set ?raw \<subseteq> set b64_alphabet"
    by (simp_all add: b64_alphabet_def)
  then obtain key where key: "parseAESKey ?raw = Inr key" "length key = 24"
    using parseAESKey_lengths [of ?raw] by blast
  have "hex_decode ?raw \<noteq> Inr key"
  proof
    assume h: "hex_decode ?raw = Inr key"
    have "case hex_decode ?raw of Inr k \<Rightarrow> length k = 16 | Inl _ \<Rightarrow> False"
      by code_simp
    then show False
      using h key(2) by simp
  qed
  then show ?thesis
    using key by blast
qed

end
