(* ===== verification/Pod_Files.thy ===== *)
theory Pod_Files
  imports Kube_Client
begin

text \<open>
  Files, logs and events of a sandbox pod, the rest of \<open>backend/internal/k8s/client.go\<close> that the sandbox
  service calls. The exec stream with standard input, the log stream and the tar format are arguments
  (\<open>PodStreams\<close>); \<open>filepath.Dir\<close> and \<open>filepath.Base\<close> are modelled.
\<close>

section \<open>Paths\<close>

fun clean_parts :: "bool \<Rightarrow> string list \<Rightarrow> string list \<Rightarrow> string list" where
  "clean_parts rooted stack [] = rev stack"
| "clean_parts rooted stack (p # ps) =
     (if p = [] \<or> p = ''.'' then clean_parts rooted stack ps
      else if p = ''..'' then
        (case stack of
           [] \<Rightarrow> if rooted then clean_parts rooted [] ps else clean_parts rooted [''..''] ps
         | s # st \<Rightarrow> if s = ''..'' then clean_parts rooted (''..'' # stack) ps else clean_parts rooted st ps)
      else clean_parts rooted (p # stack) ps)"

definition filepath_Clean :: "string \<Rightarrow> string" where
  "filepath_Clean path =
     (let rooted = has_prefix ''/'' path;
          parts = clean_parts rooted [] (split_char (CHR ''/'') path);
          body = join ''/'' parts
      in if rooted then ''/'' @ body else if body = [] then ''.'' else body)"

definition filepath_Dir :: "string \<Rightarrow> string" where
  "filepath_Dir path = filepath_Clean (rev (dropWhile (\<lambda>c. c \<noteq> CHR ''/'') (rev path)))"

definition filepath_Base :: "string \<Rightarrow> string" where
  "filepath_Base path =
     (if path = [] then ''.''
      else let trimmed = rev (dropWhile (\<lambda>c. c = CHR ''/'') (rev path));
               name = rev (takeWhile (\<lambda>c. c \<noteq> CHR ''/'') (rev trimmed))
           in if name = [] then ''/'' else name)"

section \<open>Streams\<close>

text \<open>
  \<open>st_exec\<close> runs a command in a pod with the given standard input: its standard output and error, and the
  error of the stream, if any. \<open>st_logs\<close> is the log stream of a pod with the limit on lines. \<open>tar_write\<close>
  is the archive with one file; \<open>tar_read\<close> lists the entries up to the first error, which follows them.
\<close>

record 'k PodStreams =
  st_exec :: "string \<Rightarrow> string \<Rightarrow> string list \<Rightarrow> string \<Rightarrow> 'k \<Rightarrow> (string \<times> string \<times> go_err option) res \<times> 'k"
  st_logs :: "string \<Rightarrow> string \<Rightarrow> int option \<Rightarrow> 'k \<Rightarrow> string res \<times> 'k"
  tar_write :: "string \<Rightarrow> string \<Rightarrow> string res"
  tar_read :: "string \<Rightarrow> (string \<times> string res) list \<times> go_err option"

definition UploadFile :: "'k Client \<Rightarrow> 'k PodStreams \<Rightarrow> string \<Rightarrow> string \<Rightarrow> string \<Rightarrow> ('k, unit res) prog" where
  "UploadFile c st sandboxID destPath content =
     seqE (mapE (Wrap ''failed to resolve sandbox pod'') (getSandboxPod c sandboxID)) (\<lambda>pod.
       let command = wrapCommandForRootFS pod [''tar'', ''-xf'', ''-'', ''-C'', filepath_Dir destPath] in
       case tar_write st (filepath_Base destPath) content of
         Inl e \<Rightarrow> throw e
       | Inr archive \<Rightarrow>
           seqE (mapE (Wrap ''failed to create executor'')
                  (kube_call (st_exec st (sandboxNS c) (om_Name (pod_Meta pod)) command archive))) (\<lambda>(out, err, fin).
           case fin of
             Some e \<Rightarrow> throw (Msg (''failed to upload file: '' @ err_text e @ '', stderr: '' @ err))
           | None \<Rightarrow> retE ()))"

text \<open>The loop over the archive: the first entry with the name, or the error met before it.\<close>

fun find_entry :: "string \<Rightarrow> (string \<times> string res) list \<Rightarrow> go_err option \<Rightarrow> string res" where
  "find_entry filename [] e =
     (case e of None \<Rightarrow> Inl (Msg ''file not found in tar archive'') | Some e \<Rightarrow> Inl (Wrap ''failed to read tar'' e))"
| "find_entry filename ((name, body) # rest) e =
     (if trim_prefix ''./'' name = filename then
        (case body of Inl e \<Rightarrow> Inl (Wrap ''failed to read file content'' e) | Inr content \<Rightarrow> Inr content)
      else find_entry filename rest e)"

definition DownloadFile :: "'k Client \<Rightarrow> 'k PodStreams \<Rightarrow> string \<Rightarrow> string \<Rightarrow> ('k, string res) prog" where
  "DownloadFile c st sandboxID srcPath =
     seqE (mapE (Wrap ''failed to resolve sandbox pod'') (getSandboxPod c sandboxID)) (\<lambda>pod.
       let command = wrapCommandForRootFS pod
             [''tar'', ''-cf'', ''-'', ''-C'', filepath_Dir srcPath, filepath_Base srcPath] in
       seqE (mapE (Wrap ''failed to create executor'')
              (kube_call (st_exec st (sandboxNS c) (om_Name (pod_Meta pod)) command []))) (\<lambda>(out, err, fin).
       case fin of
         Some e \<Rightarrow> throw (Msg (''failed to download file: '' @ err_text e @ '', stderr: '' @ err))
       | None \<Rightarrow> (case tar_read st out of (entries, e) \<Rightarrow> ret (find_entry (filepath_Base srcPath) entries e))))"

definition UploadFiles :: "'k Client \<Rightarrow> 'k PodStreams \<Rightarrow> string \<Rightarrow> FileSpec list \<Rightarrow> ('k, unit res) prog" where
  "UploadFiles c st sandboxID files = for_eachE (\<lambda>file.
     if fs_Source file \<noteq> [] then throw (Msg ''source URL not yet supported'')
     else mapE (Wrap (''failed to upload file '' @ fs_Destination file))
            (UploadFile c st sandboxID (fs_Destination file) (fs_Content file))) files"

definition GetLogs :: "'k Client \<Rightarrow> 'k PodStreams \<Rightarrow> string \<Rightarrow> int \<Rightarrow> ('k, string res) prog" where
  "GetLogs c st sandboxID tailLines =
     seqE (mapE (Wrap ''failed to resolve sandbox pod'') (getSandboxPod c sandboxID)) (\<lambda>pod.
       mapE (Wrap ''failed to get logs'') (kube_call (st_logs st (sandboxNS c) (om_Name (pod_Meta pod))
         (if tailLines > 0 then Some tailLines else None))))"

definition GetPodEvents :: "'k Client \<Rightarrow> string \<Rightarrow> ('k, string list res) prog" where
  "GetPodEvents c sandboxID =
     seqE (mapE (Wrap ''failed to resolve sandbox pod'') (getSandboxPod c sandboxID)) (\<lambda>pod.
     seqE (mapE (Wrap ''failed to get events'') (kube_call (events_List c (sandboxNS c)))) (\<lambda>items.
       retE (map (\<lambda>e. ''['' @ ev_Type e @ ''] '' @ ev_Reason e @ '': '' @ ev_Message e)
         (filter (\<lambda>e. ev_InvolvedName e = om_Name (pod_Meta pod)) items))))"

section \<open>No file operation touches the database\<close>

lemma ko_UploadFile: "state_io_rel db_same (UploadFile c st i d x)"
  unfolding UploadFile_def Let_def by (intro ko_basic ko_getSandboxPod)

lemma ko_files:
  "state_io_rel db_same (UploadFiles c st i fs)"
  "state_io_rel db_same (DownloadFile c st i d)"
  "state_io_rel db_same (GetLogs c st i n)"
  "state_io_rel db_same (GetPodEvents c i)"
  unfolding UploadFiles_def DownloadFile_def GetLogs_def GetPodEvents_def Let_def
  by (intro ko_basic ko_getSandboxPod ko_UploadFile)+

end
