(* ===== verification/Template_Store.thy ===== *)
theory Template_Store
  imports Sql_Tables
begin

text \<open>
  The template store, \<open>backend/internal/store/template.go\<close>, with the defaults of
  \<open>backend/internal/model/template.go\<close>: templates, their numbered versions, update and
  rollback by appending a version. The invariant says that the versions of every template are
  numbered one to its latest version; it is broken inside a transaction and holds again wherever
  one ends.
\<close>

section \<open>Defaults (model/template.go)\<close>

definition ApplyDefaults :: "TemplateSpec \<Rightarrow> TemplateSpec" where
  "ApplyDefaults s =
     (let s = (if rs_CPU (ts_Resources s) = [] then s\<lparr>ts_Resources := (ts_Resources s)\<lparr>rs_CPU := ''500m''\<rparr>\<rparr> else s);
          s = (if rs_Memory (ts_Resources s) = [] then s\<lparr>ts_Resources := (ts_Resources s)\<lparr>rs_Memory := ''512Mi''\<rparr>\<rparr> else s);
          s = (if ts_StartupTimeout s = 0 then s\<lparr>ts_StartupTimeout := 300\<rparr> else s)
      in case ts_Persistence s of
           None \<Rightarrow> s
         | Some p \<Rightarrow>
             (let p = (if ps_Enabled p \<and> ps_Mode p = [] then p\<lparr>ps_Mode := PersistenceModeRootFSOverlay\<rparr> else p);
                  p = (if ps_Enabled p \<and> ps_Size p = [] then p\<lparr>ps_Size := PersistenceDefaultSize\<rparr> else p);
                  p = (if ps_ReclaimPolicy p = [] then p\<lparr>ps_ReclaimPolicy := PersistenceReclaimDelete\<rparr> else p)
              in s\<lparr>ts_Persistence := Some p\<rparr>))"

section \<open>Operations\<close>

text \<open>A template with the spec of its latest version, as the store returns it.\<close>

type_synonym template_view = "Template \<times> TemplateSpec option"

definition generateID_prefix :: "string \<Rightarrow> ('k, string) prog" where
  "generateID_prefix prefix = do { u \<leftarrow> new_uuid; ret (prefix @ ''-'' @ take 8 u) }"

text \<open>
  The inserts with their constraints: the primary keys, the unique name of a template, the unique
  number of a version within its template, and the foreign key of a version.
\<close>

definition insert_template :: "Template \<Rightarrow> tables \<Rightarrow> (unit \<times> tables) option" where
  "insert_template tpl t =
     (if tpl_ID tpl \<in> tpl_ID ` set (templates t) \<or> tpl_Name tpl \<in> tpl_Name ` set (templates t) then None
      else Some ((), t\<lparr>templates := templates t @ [tpl]\<rparr>))"

definition insert_version :: "TemplateVersion \<Rightarrow> tables \<Rightarrow> (unit \<times> tables) option" where
  "insert_version v t =
     (if tv_ID v \<in> tv_ID ` set (template_versions t)
         \<or> (tv_TemplateID v, tv_Version v) \<in> (\<lambda>x. (tv_TemplateID x, tv_Version x)) ` set (template_versions t)
         \<or> tv_TemplateID v \<notin> tpl_ID ` set (templates t) then None
      else Some ((), t\<lparr>template_versions := template_versions t @ [v]\<rparr>))"

text \<open>The error a failed insert of a template is turned into.\<close>

definition insert_template_error :: "string \<Rightarrow> go_err \<Rightarrow> go_err" where
  "insert_template_error name e =
     (if e = Wrap ''failed to insert template'' (SqlErr ''constraint failed'')
      then Msg (''template with name '' @ [CHR 0x27] @ name @ [CHR 0x27] @ '' already exists'') else e)"

definition TemplateStore_Create :: "CreateTemplateRequest \<Rightarrow> ('k, template_view res) prog" where
  "TemplateStore_Create req =
     transaction ''failed to begin transaction'' ''failed to commit transaction'' (do {
       now \<leftarrow> time_now;
       templateID \<leftarrow> generateID_prefix ''tpl'';
       versionID \<leftarrow> generateID_prefix ''ver'';
       let spec = ApplyDefaults (ctr_Spec req);
       let isPublic = (case ctr_IsPublic req of None \<Rightarrow> True | Some b \<Rightarrow> b);
       let template = \<lparr>tpl_ID = templateID, tpl_Name = ctr_Name req, tpl_DisplayName = ctr_DisplayName req,
             tpl_Description = ctr_Description req, tpl_Tags = ctr_Tags req, tpl_Author = [],
             tpl_IsPublic = isPublic, tpl_LatestVersion = 1, tpl_CreatedAt = now, tpl_UpdatedAt = now\<rparr>;
       seqE (mapE (insert_template_error (ctr_Name req))
               (sql_stmt ''failed to insert template'' (insert_template template))) (\<lambda>_.
       seqE (sql_stmt ''failed to insert template version'' (insert_version
               \<lparr>tv_ID = versionID, tv_TemplateID = templateID, tv_Version = 1, tv_Spec = spec,
                tv_Changelog = ''Initial version'', tv_CreatedBy = [], tv_CreatedAt = now\<rparr>)) (\<lambda>_.
       retE (True, (template, Some spec)))) })"

definition find_version :: "string \<Rightarrow> int \<Rightarrow> tables \<Rightarrow> TemplateVersion option" where
  "find_version templateID version t =
     find (\<lambda>v. tv_TemplateID v = templateID \<and> tv_Version v = version) (template_versions t)"

definition TemplateStore_GetVersion :: "string \<Rightarrow> int \<Rightarrow> ('k, TemplateVersion option res) prog" where
  "TemplateStore_GetVersion templateID version =
     sql_query ''failed to query version'' (find_version templateID version)"

definition TemplateStore_Get :: "string \<Rightarrow> ('k, template_view option res) prog" where
  "TemplateStore_Get name =
     seqE (sql_query ''failed to query template'' (\<lambda>t. lookup tpl_Name name (templates t))) (\<lambda>r.
       case r of
         None \<Rightarrow> retE None
       | Some template \<Rightarrow>
           seqE (TemplateStore_GetVersion (tpl_ID template) (tpl_LatestVersion template)) (\<lambda>version.
             retE (Some (template, map_option tv_Spec version))))"

definition TemplateStore_GetByID :: "string \<Rightarrow> ('k, Template option res) prog" where
  "TemplateStore_GetByID tid = sql_query ''failed to query template'' (\<lambda>t. lookup tpl_ID tid (templates t))"

record TemplateListOptions =
  tlo_Tag :: string
  tlo_Search :: string
  tlo_Page :: int
  tlo_PageSize :: int

record TemplateListResponse =
  tlr_Items :: "template_view list"
  tlr_Total :: int
  tlr_Page :: int
  tlr_PageSize :: int

text \<open>\<open>MarshalTags\<close>: the JSON array the column \<open>tags\<close> holds, with the escapes of \<open>encoding/json\<close>.\<close>

definition hex_digit :: "nat \<Rightarrow> char" where
  "hex_digit n = (if n < 10 then char_of (48 + n) else char_of (87 + n))"

definition json_char :: "char \<Rightarrow> string" where
  "json_char ch =
     (let n = (of_char ch :: nat) in
      if n = 0x22 \<or> n = 0x5C then [CHR 0x5C, ch]
      else if n = 0x08 then [CHR 0x5C, CHR ''b''] else if n = 0x0C then [CHR 0x5C, CHR ''f'']
      else if n = 0x0A then [CHR 0x5C, CHR ''n''] else if n = 0x0D then [CHR 0x5C, CHR ''r'']
      else if n = 0x09 then [CHR 0x5C, CHR ''t'']
      else if n < 0x20 \<or> n = 0x3C \<or> n = 0x3E \<or> n = 0x26
      then [CHR 0x5C] @ ''u00'' @ [hex_digit (n div 16), hex_digit (n mod 16)]
      else [ch])"

definition MarshalTags :: "string list \<Rightarrow> string" where
  "MarshalTags tags = ''['' @ join '','' (map (\<lambda>s. quote_str (concat (map json_char s))) tags) @ '']''"

definition template_list_cond :: "TemplateListOptions \<Rightarrow> Template \<Rightarrow> bool" where
  "template_list_cond opts tpl \<longleftrightarrow>
     (tlo_Tag opts \<noteq> [] \<longrightarrow> sql_like (''%'' @ quote_str (tlo_Tag opts) @ ''%'') (MarshalTags (tpl_Tags tpl))) \<and>
     (tlo_Search opts \<noteq> [] \<longrightarrow>
        (let pat = ''%'' @ tlo_Search opts @ ''%'' in
         sql_like pat (tpl_Name tpl) \<or> sql_like pat (tpl_DisplayName tpl) \<or> sql_like pat (tpl_Description tpl)))"

text \<open>The loop that loads the spec of each row; an error there leaves the spec out.\<close>

fun load_specs :: "Template list \<Rightarrow> ('k, template_view list) prog" where
  "load_specs [] = ret []"
| "load_specs (tpl # rest) = do {
     v \<leftarrow> TemplateStore_GetVersion (tpl_ID tpl) (tpl_LatestVersion tpl);
     items \<leftarrow> load_specs rest;
     ret ((tpl, case v of Inr (Some ver) \<Rightarrow> Some (tv_Spec ver) | _ \<Rightarrow> None) # items) }"

definition normalize_list_options :: "TemplateListOptions \<Rightarrow> TemplateListOptions" where
  "normalize_list_options o1 =
     (let o2 = (if tlo_Page o1 < 1 then o1\<lparr>tlo_Page := 1\<rparr> else o1)
      in if tlo_PageSize o2 < 1 \<or> tlo_PageSize o2 > 100 then o2\<lparr>tlo_PageSize := 20\<rparr> else o2)"

definition TemplateStore_List :: "TemplateListOptions \<Rightarrow> ('k, TemplateListResponse res) prog" where
  "TemplateStore_List opts0 =
     (let opts = normalize_list_options opts0 in
      seqE (sql_query ''failed to count templates''
              (\<lambda>t. int (length (filter (template_list_cond opts) (templates t))))) (\<lambda>total.
      seqE (sql_query ''failed to query templates'' (\<lambda>t. sql_page (tlo_Page opts) (tlo_PageSize opts)
              (order_by_desc tpl_CreatedAt (filter (template_list_cond opts) (templates t))))) (\<lambda>rows. do {
      items \<leftarrow> load_specs rows;
      retE \<lparr>tlr_Items = items, tlr_Total = total, tlr_Page = tlo_Page opts, tlr_PageSize = tlo_PageSize opts\<rparr> })))"

definition update_template_row :: "UpdateTemplateRequest \<Rightarrow> int \<Rightarrow> time \<Rightarrow> Template \<Rightarrow> Template" where
  "update_template_row req newVersion now tpl =
     (let a = (if utr_DisplayName req \<noteq> [] then tpl\<lparr>tpl_DisplayName := utr_DisplayName req\<rparr> else tpl);
          b = (if utr_Description req \<noteq> [] then a\<lparr>tpl_Description := utr_Description req\<rparr> else a);
          c = (case utr_Tags req of None \<Rightarrow> b | Some tags \<Rightarrow> b\<lparr>tpl_Tags := tags\<rparr>);
          d = (case utr_IsPublic req of None \<Rightarrow> c | Some p \<Rightarrow> c\<lparr>tpl_IsPublic := p\<rparr>)
      in d\<lparr>tpl_LatestVersion := newVersion, tpl_UpdatedAt := now\<rparr>)"

text \<open>\<open>UPDATE templates SET ... WHERE id = ?\<close>, with the columns of \<open>Update\<close> and of \<open>Rollback\<close>.\<close>

definition update_template :: "string \<Rightarrow> (Template \<Rightarrow> Template) \<Rightarrow> tables \<Rightarrow> tables" where
  "update_template tid f t = t\<lparr>templates := update_where (\<lambda>r. tpl_ID r = tid) f (templates t)\<rparr>"

definition set_columns :: "Template \<Rightarrow> Template \<Rightarrow> Template" where
  "set_columns new r =
     r\<lparr>tpl_DisplayName := tpl_DisplayName new, tpl_Description := tpl_Description new,
       tpl_Tags := tpl_Tags new, tpl_IsPublic := tpl_IsPublic new,
       tpl_LatestVersion := tpl_LatestVersion new, tpl_UpdatedAt := tpl_UpdatedAt new\<rparr>"

definition set_latest :: "int \<Rightarrow> time \<Rightarrow> Template \<Rightarrow> Template" where
  "set_latest n now r = r\<lparr>tpl_LatestVersion := n, tpl_UpdatedAt := now\<rparr>"

definition TemplateStore_Update :: "string \<Rightarrow> UpdateTemplateRequest \<Rightarrow> ('k, template_view option res) prog" where
  "TemplateStore_Update name req =
     transaction ''failed to begin transaction'' ''failed to commit transaction''
       (seqE (TemplateStore_Get name) (\<lambda>r.
          case r of
            None \<Rightarrow> retE (False, None)
          | Some (template, _) \<Rightarrow> do {
              now \<leftarrow> time_now;
              let newVersion = tpl_LatestVersion template + 1;
              versionID \<leftarrow> generateID_prefix ''ver'';
              let spec = ApplyDefaults (utr_Spec req);
              let updated = update_template_row req newVersion now template;
              seqE (sql_exec ''failed to update template'' (update_template (tpl_ID updated) (set_columns updated))) (\<lambda>_.
              seqE (sql_stmt ''failed to insert template version'' (insert_version
                      \<lparr>tv_ID = versionID, tv_TemplateID = tpl_ID template, tv_Version = newVersion, tv_Spec = spec,
                       tv_Changelog = utr_Changelog req, tv_CreatedBy = [], tv_CreatedAt = now\<rparr>)) (\<lambda>_.
              retE (True, Some (updated, Some spec)))) }))"

definition delete_template :: "string \<Rightarrow> tables \<Rightarrow> bool \<times> tables" where
  "delete_template name t =
     (let gone = filter (\<lambda>r. tpl_Name r = name) (templates t) in
      (gone \<noteq> [], t\<lparr>templates := delete_where (\<lambda>r. tpl_Name r = name) (templates t),
        template_versions := delete_where (\<lambda>v. tv_TemplateID v \<in> tpl_ID ` set gone) (template_versions t)\<rparr>))"

definition TemplateStore_Delete :: "string \<Rightarrow> ('k, unit res) prog" where
  "TemplateStore_Delete name =
     seqE (sql_stmt ''failed to delete template'' (\<lambda>t. Some (delete_template name t))) (\<lambda>found.
       if found then retE () else throw (Msg ''template not found''))"

definition TemplateStore_GetVersionByName :: "string \<Rightarrow> int \<Rightarrow> ('k, TemplateVersion option res) prog" where
  "TemplateStore_GetVersionByName name version =
     seqE (TemplateStore_Get name) (\<lambda>r.
       case r of
         None \<Rightarrow> retE None
       | Some (template, _) \<Rightarrow> TemplateStore_GetVersion (tpl_ID template) version)"

definition TemplateStore_ListVersions :: "string \<Rightarrow> ('k, TemplateVersion list option res) prog" where
  "TemplateStore_ListVersions name =
     seqE (TemplateStore_Get name) (\<lambda>r.
       case r of
         None \<Rightarrow> retE None
       | Some (template, _) \<Rightarrow>
           seqE (sql_query ''failed to query versions'' (\<lambda>t.
                   order_by_desc tv_Version (filter (\<lambda>v. tv_TemplateID v = tpl_ID template) (template_versions t))))
             (\<lambda>items. retE (Some items)))"

definition TemplateStore_Rollback :: "string \<Rightarrow> int \<Rightarrow> string \<Rightarrow> ('k, RollbackResponse res) prog" where
  "TemplateStore_Rollback name targetVersion changelog =
     transaction ''failed to begin transaction'' ''failed to commit transaction''
       (seqE (TemplateStore_Get name) (\<lambda>r.
          case r of
            None \<Rightarrow> throw (Msg ''template not found'')
          | Some (template, _) \<Rightarrow>
              seqE (TemplateStore_GetVersion (tpl_ID template) targetVersion) (\<lambda>tv.
                case tv of
                  None \<Rightarrow> throw (Msg (''version '' @ show_int targetVersion @ '' not found''))
                | Some targetVer \<Rightarrow> do {
                    now \<leftarrow> time_now;
                    let previousVersion = tpl_LatestVersion template;
                    let newVersion = previousVersion + 1;
                    versionID \<leftarrow> generateID_prefix ''ver'';
                    seqE (sql_exec ''failed to update template''
                            (update_template (tpl_ID template) (set_latest newVersion now))) (\<lambda>_.
                    seqE (sql_stmt ''failed to insert rollback version'' (insert_version
                            \<lparr>tv_ID = versionID, tv_TemplateID = tpl_ID template, tv_Version = newVersion,
                             tv_Spec = tv_Spec targetVer,
                             tv_Changelog = (if changelog = [] then ''Rolled back to version '' @ show_int targetVersion
                                             else changelog),
                             tv_CreatedBy = [], tv_CreatedAt = now\<rparr>)) (\<lambda>_.
                    retE (True, \<lparr>rb_ID = tpl_ID template, rb_Name = tpl_Name template, rb_LatestVersion = newVersion,
                                 rb_RolledBackFrom = previousVersion, rb_RolledBackTo = targetVersion,
                                 rb_UpdatedAt = now\<rparr>))) })))"

definition TemplateStore_Exists :: "string \<Rightarrow> ('k, bool res) prog" where
  "TemplateStore_Exists name = sql_query ''failed to check template existence''
     (\<lambda>t. name \<in> tpl_Name ` set (templates t))"

section \<open>The invariant\<close>

definition versions_of :: "string \<Rightarrow> tables \<Rightarrow> TemplateVersion set" where
  "versions_of tid t = {v \<in> set (template_versions t). tv_TemplateID v = tid}"

definition version_key :: "TemplateVersion \<Rightarrow> string \<times> int" where
  "version_key v = (tv_TemplateID v, tv_Version v)"

definition templates_ok :: "tables \<Rightarrow> bool" where
  "templates_ok t \<longleftrightarrow>
     distinct (map tpl_ID (templates t)) \<and> distinct (map tpl_Name (templates t)) \<and>
     distinct (map version_key (template_versions t)) \<and>
     tv_TemplateID ` set (template_versions t) \<subseteq> tpl_ID ` set (templates t) \<and>
     (\<forall>tpl \<in> set (templates t). 1 \<le> tpl_LatestVersion tpl \<and>
        tv_Version ` versions_of (tpl_ID tpl) t = {1 .. tpl_LatestVersion tpl})"

lemma distinct_snoc_map: "distinct (map f (xs @ [x])) \<longleftrightarrow> distinct (map f xs) \<and> f x \<notin> f ` set xs"
  by auto

lemma versions_of_snoc:
  "versions_of tid (t\<lparr>template_versions := vs @ [v]\<rparr>) =
     (if tv_TemplateID v = tid then insert v (versions_of tid (t\<lparr>template_versions := vs\<rparr>))
      else versions_of tid (t\<lparr>template_versions := vs\<rparr>))"
  by (auto simp: versions_of_def)

text \<open>An update of the template row that raises the latest version, followed by the insert of that version.\<close>

locale version_bump = row_update tpl_ID "\<lambda>_. True" upd
  for upd :: "Template \<Rightarrow> Template" +
  fixes newVersion :: int
  assumes name_kept: "tpl_Name (upd r) = tpl_Name r"
    and latest_set: "tpl_LatestVersion (upd r) = newVersion"
begin

lemma bump_ok:
  assumes ok: "templates_ok t" and tpl: "tpl \<in> set (templates t)" "tpl_ID tpl = tid"
    and new: "newVersion = tpl_LatestVersion tpl + 1"
    and ins: "insert_version v (update_template tid upd t) = Some (u, t')" "tv_TemplateID v = tid" "tv_Version v = newVersion"
  shows "templates_ok t'"
proof -
  have t': "t' = (update_template tid upd t)\<lparr>template_versions := template_versions t @ [v]\<rparr>"
    and key: "version_key v \<notin> version_key ` set (template_versions t)"
    using ins(1) by (auto simp: insert_version_def update_template_def version_key_def [abs_def] split: if_splits)
  have ids: "map tpl_ID (templates t') = map tpl_ID (templates t)"
    by (simp add: t' update_template_def keys_kept [simplified])
  have names: "map tpl_Name (templates t') = map tpl_Name (templates t)"
    by (simp add: t' update_template_def update_where_def name_kept)
  have one: "x = tpl" if "x \<in> set (templates t)" "tpl_ID x = tid" for x
    using ok that tpl by (auto simp: templates_ok_def distinct_map dest: inj_onD)
  have vers: "versions_of i t' = (if i = tid then insert v (versions_of i t) else versions_of i t)" for i
    using ins(2) by (auto simp: t' update_template_def versions_of_def)
  have "1 \<le> tpl_LatestVersion y \<and> tv_Version ` versions_of (tpl_ID y) t' = {1 .. tpl_LatestVersion y}"
    if "y \<in> set (templates t')" for y
  proof -
    have "y \<in> (\<lambda>r. if tpl_ID r = tid then upd r else r) ` set (templates t)"
      using that by (simp add: t' update_template_def set_update_where)
    then obtain x where x: "x \<in> set (templates t)" "y = (if tpl_ID x = tid then upd x else x)"
      by blast
    have old: "1 \<le> tpl_LatestVersion x" "tv_Version ` versions_of (tpl_ID x) t = {1 .. tpl_LatestVersion x}"
      using ok x(1) by (auto simp: templates_ok_def)
    show ?thesis
    proof (cases "tpl_ID x = tid")
      case True
      then have "x = tpl"
        using one x(1) by blast
      moreover have "{1 .. newVersion} = insert newVersion {1 .. tpl_LatestVersion tpl}"
        using old(1) new \<open>x = tpl\<close> by (auto simp: atLeastAtMost_def)
      ultimately show ?thesis
        using x(2) True old vers [of tid] ins(3) new by (simp add: key_upd latest_set)
    next
      case False
      then show ?thesis
        using x(2) old vers [of "tpl_ID x"] by simp
    qed
  qed
  moreover have "tv_TemplateID ` set (template_versions t') \<subseteq> tpl_ID ` set (templates t')"
  proof -
    have "tpl_ID ` set (templates t') = tpl_ID ` set (templates t)"
      using arg_cong [OF ids, of set] by simp
    then show ?thesis
      using ok tpl ins(2) by (auto simp: t' templates_ok_def)
  qed
  moreover have "distinct (map version_key (template_versions t'))"
    using ok key by (simp add: t' templates_ok_def)
  ultimately show ?thesis
    using ok ids names by (auto simp: templates_ok_def)
qed

end

text \<open>The two updates of the store are such bumps.\<close>

interpretation set_template: version_bump "set_columns new" "tpl_LatestVersion new" for new
  by unfold_locales (simp_all add: set_columns_def)

interpretation rollback: version_bump "set_latest n now" n for n now
  by unfold_locales (simp_all add: set_latest_def)

lemma update_row_simps [simp]:
  "tpl_ID (update_template_row req n now tpl) = tpl_ID tpl"
  "tpl_Name (update_template_row req n now tpl) = tpl_Name tpl"
  "tpl_LatestVersion (update_template_row req n now tpl) = n"
  by (auto simp: update_template_row_def Let_def split: option.split)

lemma create_ok:
  assumes "templates_ok t" "insert_template tpl t = Some (u, t1)" "insert_version v t1 = Some (u', t2)"
    and "tpl_LatestVersion tpl = 1" "tv_TemplateID v = tpl_ID tpl" "tv_Version v = 1"
  shows "templates_ok t2"
proof -
  have t1: "t1 = t\<lparr>templates := templates t @ [tpl]\<rparr>" "tpl_ID tpl \<notin> tpl_ID ` set (templates t)"
    "tpl_Name tpl \<notin> tpl_Name ` set (templates t)"
    using assms(2) by (auto simp: insert_template_def split: if_splits)
  have t2: "t2 = t1\<lparr>template_versions := template_versions t @ [v]\<rparr>"
    "version_key v \<notin> version_key ` set (template_versions t)"
    using assms(3) t1(1) by (auto simp: insert_version_def version_key_def [abs_def] split: if_splits)
  have none: "versions_of (tpl_ID tpl) t = {}"
  proof -
    have "tv_TemplateID ` set (template_versions t) \<subseteq> tpl_ID ` set (templates t)"
      using assms(1) by (simp add: templates_ok_def)
    from subsetD [OF this imageI] have "tv_TemplateID v \<noteq> tpl_ID tpl" if "v \<in> set (template_versions t)" for v
      using that t1(2) by metis
    then show ?thesis
      by (simp add: versions_of_def)
  qed
  have vers: "versions_of i t2 = (if i = tpl_ID tpl then insert v (versions_of i t) else versions_of i t)" for i
    using assms(5) by (auto simp: t2 t1 versions_of_def)
  have "1 \<le> tpl_LatestVersion y \<and> tv_Version ` versions_of (tpl_ID y) t2 = {1 .. tpl_LatestVersion y}"
    if "y \<in> set (templates t2)" for y
  proof (cases "y = tpl")
    case True
    then show ?thesis
      using vers none assms(4,6) by simp
  next
    case False
    then have "y \<in> set (templates t)"
      using that by (simp add: t2 t1)
    moreover from this have "tpl_ID y \<noteq> tpl_ID tpl"
      using t1(2) by (metis imageI)
    ultimately show ?thesis
      using assms(1) vers by (simp add: templates_ok_def)
  qed
  then show ?thesis
    using assms(1,5) t1(2,3) t2(2) by (auto simp: templates_ok_def t2(1) t1(1))
qed

lemma delete_ok: "templates_ok t \<Longrightarrow> templates_ok (snd (delete_template name t))"
proof -
  assume ok: "templates_ok t"
  let ?t = "snd (delete_template name t)"
  have tpl: "set (templates ?t) = {x \<in> set (templates t). tpl_Name x \<noteq> name}"
    by (auto simp: delete_template_def Let_def set_delete_where)
  define G where "G = tpl_ID ` set (filter (\<lambda>r. tpl_Name r = name) (templates t))"
  have vs: "set (template_versions ?t) = {v \<in> set (template_versions t). tv_TemplateID v \<notin> G}"
    by (simp add: G_def delete_template_def Let_def set_delete_where)
  have inj: "inj_on tpl_ID (set (templates t))"
    using ok by (simp add: templates_ok_def distinct_map)
  have notin: "tpl_ID x \<notin> G" if "x \<in> set (templates ?t)" for x
    using that inj_onD [OF inj] unfolding tpl G_def by auto
  have keep: "versions_of (tpl_ID x) ?t = versions_of (tpl_ID x) t" if "x \<in> set (templates ?t)" for x
    using notin [OF that] by (auto simp: versions_of_def vs)
  have sub: "tv_TemplateID ` set (template_versions ?t) \<subseteq> tpl_ID ` set (templates ?t)"
  proof -
    have "tv_TemplateID ` set (template_versions t) \<subseteq> tpl_ID ` set (templates t)"
      using ok by (simp add: templates_ok_def)
    then show ?thesis
      unfolding vs tpl G_def by auto
  qed
  have "distinct (map tpl_ID (templates ?t))" "distinct (map tpl_Name (templates ?t))"
    "distinct (map version_key (template_versions ?t))"
    using ok by (simp_all add: delete_template_def Let_def templates_ok_def distinct_delete_where)
  then show ?thesis
    using ok sub keep tpl by (simp add: templates_ok_def)
qed

section \<open>Every operation keeps the invariant\<close>

interpretation tok: table_preorder "keeps templates_ok"
  by unfold_locales (auto simp: keeps_def)

lemma wp_fresh: "wp (generateID_prefix p) Q w \<longleftrightarrow>
    Q (p @ ''-'' @ take 8 (uuids w (uuids_used w))) (w\<lparr>uuids_used := Suc (uuids_used w)\<rparr>)"
  by (simp add: generateID_prefix_def wp_simps)

text \<open>What a query and a write do to a postcondition that only looks at the tables.\<close>

lemma wp_query_db:
  "(\<And>e fs. Q (Inl e) (w\<lparr>db_faults := fs\<rparr>)) \<Longrightarrow> (\<And>fs. Q (Inr (q (db w))) (w\<lparr>db_faults := fs\<rparr>)) \<Longrightarrow> wp (sql_query msg q) Q w"
  by (auto simp: wp_sql_stmt split: prod.split)

lemma wp_stmt_db:
  "(\<And>e fs. Q (Inl e) (w\<lparr>db_faults := fs\<rparr>)) \<Longrightarrow>
   (\<And>a t fs. f (db w) = Some (a, t) \<Longrightarrow> Q (Inr a) (w\<lparr>db_faults := fs, db := t\<rparr>)) \<Longrightarrow> wp (sql_stmt msg f) Q w"
  by (auto simp: wp_sql_stmt split: prod.split option.split)

lemma wp_Get:
  assumes "\<And>e fs. Q (Inl e) (w\<lparr>db_faults := fs\<rparr>)"
    and "\<And>fs. lookup tpl_Name name (templates (db w)) = None \<Longrightarrow> Q (Inr None) (w\<lparr>db_faults := fs\<rparr>)"
    and "\<And>fs tpl. lookup tpl_Name name (templates (db w)) = Some tpl \<Longrightarrow>
      Q (Inr (Some (tpl, map_option tv_Spec (find_version (tpl_ID tpl) (tpl_LatestVersion tpl) (db w))))) (w\<lparr>db_faults := fs\<rparr>)"
  shows "wp (TemplateStore_Get name) Q w"
  unfolding TemplateStore_Get_def TemplateStore_GetVersion_def wp_seqE
proof (rule wp_query_db)
  fix fs
  show "case Inr (lookup tpl_Name name (templates (db w))) of
      Inl e \<Rightarrow> Q (Inl e) (w\<lparr>db_faults := fs\<rparr>)
    | Inr r \<Rightarrow> wp (case r of None \<Rightarrow> retE None
        | Some template \<Rightarrow> seqE (sql_query ''failed to query version'' (find_version (tpl_ID template) (tpl_LatestVersion template)))
            (\<lambda>version. retE (Some (template, map_option tv_Spec version)))) Q (w\<lparr>db_faults := fs\<rparr>)"
  proof (cases "lookup tpl_Name name (templates (db w))")
    case None
    then show ?thesis by (simp add: wp_simps assms(2))
  next
    case (Some tpl)
    have "wp (seqE (sql_query ''failed to query version'' (find_version (tpl_ID tpl) (tpl_LatestVersion tpl)))
            (\<lambda>version. retE (Some (tpl, map_option tv_Spec version)))) Q (w\<lparr>db_faults := fs\<rparr>)"
      unfolding wp_seqE by (rule wp_query_db) (simp_all add: wp_simps assms(1) assms(3) [OF Some])
    then show ?thesis
      using Some by simp
  qed
qed (simp add: assms(1))

lemma update_ok:
  "insert_version v (update_template (tpl_ID tpl) (set_columns new) t) = Some (u, t') \<Longrightarrow>
   lookup tpl_Name name (templates t) = Some tpl \<Longrightarrow> templates_ok t \<Longrightarrow>
   tpl_LatestVersion new = tpl_LatestVersion tpl + 1 \<Longrightarrow> tv_TemplateID v = tpl_ID tpl \<Longrightarrow>
   tv_Version v = tpl_LatestVersion tpl + 1 \<Longrightarrow> templates_ok t'"
  by (rule set_template.bump_ok [where tid = "tpl_ID tpl" and new = new and tpl = tpl]) (auto dest: lookup_SomeD)

lemma rollback_ok:
  "insert_version v (update_template (tpl_ID tpl) (set_latest n now) t) = Some (u, t') \<Longrightarrow>
   lookup tpl_Name name (templates t) = Some tpl \<Longrightarrow> templates_ok t \<Longrightarrow>
   n = tpl_LatestVersion tpl + 1 \<Longrightarrow> tv_TemplateID v = tpl_ID tpl \<Longrightarrow>
   tv_Version v = tpl_LatestVersion tpl + 1 \<Longrightarrow> templates_ok t'"
  by (rule rollback.bump_ok [where tid = "tpl_ID tpl" and n = n and now = now and tpl = tpl]) (auto dest: lookup_SomeD)

lemma tok_Create: "state_io_rel (db_rel (keeps templates_ok)) (TemplateStore_Create req)"
  unfolding TemplateStore_Create_def
  by (rule io_transaction)
     (auto simp: wp_simps wp_fresh Let_def keeps_def intro!: wp_stmt_db, erule (2) create_ok, simp_all)

lemma tok_Update: "state_io_rel (db_rel (keeps templates_ok)) (TemplateStore_Update name req)"
  unfolding TemplateStore_Update_def
  by (rule io_transaction)
     (auto simp: wp_seqE keeps_def intro!: wp_Get,
      auto simp: wp_simps wp_fresh Let_def intro!: wp_stmt_db, erule (2) update_ok, simp_all)

lemma tok_Rollback: "state_io_rel (db_rel (keeps templates_ok)) (TemplateStore_Rollback name target changelog)"
  unfolding TemplateStore_Rollback_def TemplateStore_GetVersion_def
  by (rule io_transaction)
     (auto simp: wp_seqE keeps_def wp_simps intro!: wp_Get wp_query_db split: option.split,
      auto simp: wp_simps wp_fresh Let_def intro!: wp_stmt_db, (erule (2) rollback_ok, simp_all)+)

lemma tok_Delete: "state_io_rel (db_rel (keeps templates_ok)) (TemplateStore_Delete name)"
  unfolding TemplateStore_Delete_def
  by (intro tok.io_structure io_sql_stmt) (auto simp: keeps_def dest: delete_ok [of _ name])

lemma tok_load: "state_io_rel (db_rel (keeps templates_ok)) (load_specs ts)"
  by (induction ts) (auto simp: TemplateStore_GetVersion_def intro!: tok.io_program)

lemma tok_Get: "state_io_rel (db_rel (keeps templates_ok)) (TemplateStore_Get n)"
  unfolding TemplateStore_Get_def TemplateStore_GetVersion_def by (intro tok.io_program)

lemma tok_reads:
  "state_io_rel (db_rel (keeps templates_ok)) (TemplateStore_GetByID i)"
  "state_io_rel (db_rel (keeps templates_ok)) (TemplateStore_GetVersion i v)"
  "state_io_rel (db_rel (keeps templates_ok)) (TemplateStore_List opts)"
  "state_io_rel (db_rel (keeps templates_ok)) (TemplateStore_GetVersionByName n v)"
  "state_io_rel (db_rel (keeps templates_ok)) (TemplateStore_ListVersions n)"
  "state_io_rel (db_rel (keeps templates_ok)) (TemplateStore_Exists n)"
  unfolding TemplateStore_GetByID_def TemplateStore_GetVersion_def TemplateStore_List_def
    TemplateStore_GetVersionByName_def TemplateStore_ListVersions_def TemplateStore_Exists_def
  by (intro tok.io_program tok_load tok_Get)+

lemmas tok_store = tok_Create tok_Update tok_Rollback tok_Delete tok_Get tok_reads

section \<open>Versions are never rewritten\<close>

definition history_grows :: "tables \<Rightarrow> tables \<Rightarrow> bool" where
  "history_grows t t' \<longleftrightarrow> set (template_versions t) \<subseteq> set (template_versions t')"

interpretation grows: table_preorder history_grows
  by unfold_locales (auto simp: history_grows_def)

lemma insert_version_grows: "insert_version v t = Some (u, t') \<Longrightarrow> history_grows t t'"
  by (auto simp: insert_version_def history_grows_def split: if_splits)

lemma insert_template_grows: "insert_template v t = Some (u, t') \<Longrightarrow> history_grows t t'"
  by (auto simp: insert_template_def history_grows_def split: if_splits)

lemma grows_update: "history_grows t (update_template tid f t)"
  by (simp add: history_grows_def update_template_def)

lemma grows_store:
  "state_io_rel (db_rel history_grows) (TemplateStore_Create req)"
  "state_io_rel (db_rel history_grows) (TemplateStore_Update name ureq)"
  "state_io_rel (db_rel history_grows) (TemplateStore_Rollback name target changelog)"
  unfolding TemplateStore_Create_def TemplateStore_Update_def TemplateStore_Rollback_def TemplateStore_Get_def
    TemplateStore_GetVersion_def generateID_prefix_def Let_def
  by (intro grows.io_program io_sql_stmt; auto simp: grows.table_refl grows_update
      dest: insert_version_grows insert_template_grows)+

section \<open>Reading back\<close>

lemma find_version_new:
  assumes "insert_version v t = Some (u, t')"
  shows "find_version (tv_TemplateID v) (tv_Version v) t' = Some v"
proof -
  have t': "t' = t\<lparr>template_versions := template_versions t @ [v]\<rparr>"
    and "(tv_TemplateID v, tv_Version v) \<notin> (\<lambda>x. (tv_TemplateID x, tv_Version x)) ` set (template_versions t)"
    using assms by (auto simp: insert_version_def split: if_splits)
  then have "\<forall>x \<in> set (template_versions t). \<not> (tv_TemplateID x = tv_TemplateID v \<and> tv_Version x = tv_Version v)"
    by (auto simp: image_iff)
  then have "find (\<lambda>x. tv_TemplateID x = tv_TemplateID v \<and> tv_Version x = tv_Version v) (template_versions t @ [v]) = Some v"
    by (intro find_snoc) auto
  then show ?thesis
    by (simp add: find_version_def t')
qed

end
