(* ===== verification/Template_Service.thy ===== *)
theory Template_Service
  imports Template_Store Sample_Cluster
begin

text \<open>
  The template service, \<open>backend/internal/service/template.go\<close>, and import and export,
  \<open>backend/internal/service/import_export.go\<close>. \<open>qerr\<close> is the error of
  \<open>resource.ParseQuantity\<close> and \<open>ulow\<close> is \<open>strings.ToLower\<close> on non-ASCII strings;
  what is proved holds for all of them. Validation normalises the spec it is given: the model
  returns the normalised spec, or the error. The prepull of images is a goroutine of another service
  and is left out; YAML is an argument.
\<close>

section \<open>Validation (template.go)\<close>

definition lower_alnum :: "char \<Rightarrow> bool" where
  "lower_alnum c \<longleftrightarrow> (let n = (of_char c :: nat) in (97 \<le> n \<and> n \<le> 122) \<or> (48 \<le> n \<and> n \<le> 57))"

text \<open>The two alternatives of \<open>namePattern\<close>.\<close>

definition namePattern :: "string \<Rightarrow> bool" where
  "namePattern s \<longleftrightarrow>
     (length s \<ge> 2 \<and> lower_alnum (hd s) \<and> lower_alnum (last s) \<and>
      list_all (\<lambda>c. lower_alnum c \<or> c = CHR ''-'') (butlast (tl s))) \<or>
     (length s = 1 \<and> lower_alnum (hd s))"

definition validateName :: "string \<Rightarrow> go_err option" where
  "validateName name =
     (if length name < 1 \<or> length name > 63 then Some (Msg ''name must be between 1 and 63 characters'')
      else if \<not> namePattern name then
        Some (Msg ''name must consist of lowercase letters, numbers, and hyphens, and must start and end with a letter or number'')
      else None)"

definition isValidDomainLabel :: "string \<Rightarrow> bool" where
  "isValidDomainLabel label \<longleftrightarrow>
     (if length label = 0 \<or> length label > 63 then False
      else if hd label = CHR ''-'' \<or> last label = CHR ''-'' then False
      else list_all (\<lambda>c. lower_alnum c \<or> c = CHR ''-'') label)"

definition isValidDomain :: "string \<Rightarrow> bool" where
  "isValidDomain domain \<longleftrightarrow>
     (if length domain = 0 \<or> length domain > 253 then False
      else list_all isValidDomainLabel (split_char (CHR ''.'') domain))"

text \<open>One round of the loop: the value to add for one domain, or the error.\<close>

definition normalizeDomain :: "(string \<Rightarrow> string) \<Rightarrow> string \<Rightarrow> string res" where
  "normalizeDomain ulow domain =
     (let invalid = Inl (Msg (''allowedDomains contains invalid value: '' @ domain));
          value = trim_suffix ''.'' (trim_space (to_lower ulow domain)) in
      if value = [] then Inl (Msg ''allowedDomains contains empty value'')
      else if contains_str value ''://'' \<or> contains_str value ''/'' \<or> contains_str value '':'' then invalid
      else if has_prefix ''*.'' value then
        (if \<not> isValidDomain (trim_prefix ''*.'' value) then invalid else Inr value)
      else if contains_str value ''*'' then invalid
      else if \<not> isValidDomain value then invalid
      else Inr value)"

fun normalize_loop :: "(string \<Rightarrow> string) \<Rightarrow> string list \<Rightarrow> string list \<Rightarrow> string list res" where
  "normalize_loop ulow normalized [] = Inr normalized"
| "normalize_loop ulow normalized (d # ds) =
     (case normalizeDomain ulow d of
        Inl e \<Rightarrow> Inl e
      | Inr value \<Rightarrow> if value \<in> set normalized then normalize_loop ulow normalized ds
                     else normalize_loop ulow (normalized @ [value]) ds)"

definition normalizeAllowedDomains :: "(string \<Rightarrow> string) \<Rightarrow> string list \<Rightarrow> string list res" where
  "normalizeAllowedDomains ulow domains = normalize_loop ulow [] domains"

definition validateNetworkSpec :: "(string \<Rightarrow> string) \<Rightarrow> NetworkSpec option \<Rightarrow> NetworkSpec option res" where
  "validateNetworkSpec ulow spec =
     (case spec of
        None \<Rightarrow> Inr None
      | Some n \<Rightarrow> (case normalizeAllowedDomains ulow (net_AllowedDomains n) of
                      Inl e \<Rightarrow> Inl e
                    | Inr normalized \<Rightarrow> Inr (Some (n\<lparr>net_AllowedDomains := normalized\<rparr>))))"

definition validatePersistenceSpec ::
  "(string \<Rightarrow> go_err option) \<Rightarrow> PersistenceSpec option \<Rightarrow> PersistenceSpec option res" where
  "validatePersistenceSpec qerr spec =
     (case spec of
        None \<Rightarrow> Inr None
      | Some p \<Rightarrow>
          if \<not> ps_Enabled p then Inr (Some p)
          else let p1 = (if ps_Mode p = [] then p\<lparr>ps_Mode := PersistenceModeRootFSOverlay\<rparr> else p) in
          if ps_Mode p1 \<noteq> PersistenceModeRootFSOverlay then
            Inl (Msg (''persistence.mode must be '' @ quote_str PersistenceModeRootFSOverlay))
          else let p2 = p1\<lparr>ps_Size := trim_space (ps_Size p1)\<rparr>;
                   p3 = (if ps_Size p2 = [] then p2\<lparr>ps_Size := PersistenceDefaultSize\<rparr> else p2) in
          case qerr (ps_Size p3) of
            Some e \<Rightarrow> Inl (Wrap ''persistence.size is invalid'' e)
          | None \<Rightarrow>
              let p4 = p3\<lparr>ps_StorageClassName := trim_space (ps_StorageClassName p3)\<rparr> in
              if ps_StorageClassName p4 = [] then
                Inl (Msg ''persistence.storageClassName is required when persistence.enabled=true'')
              else if equal_fold (ps_StorageClassName p4) ''local-path'' then
                Inl (Msg ''persistence.storageClassName local-path is not supported for persistent-rootfs; use Longhorn or another CSI with hard quota'')
              else let p5 = (if ps_ReclaimPolicy p4 = [] then p4\<lparr>ps_ReclaimPolicy := PersistenceReclaimDelete\<rparr> else p4) in
              if ps_ReclaimPolicy p5 = PersistenceReclaimDelete \<or> ps_ReclaimPolicy p5 = PersistenceReclaimRetain
              then Inr (Some p5)
              else Inl (Msg (''persistence.reclaimPolicy must be one of '' @ quote_str PersistenceReclaimDelete
                     @ '' or '' @ quote_str PersistenceReclaimRetain)))"

definition validateSpec ::
  "(string \<Rightarrow> go_err option) \<Rightarrow> (string \<Rightarrow> string) \<Rightarrow> TemplateSpec \<Rightarrow> TemplateSpec res" where
  "validateSpec qerr ulow spec =
     (if ts_Image spec = [] then Inl (Msg ''image is required'')
      else case validatePersistenceSpec qerr (ts_Persistence spec) of
        Inl e \<Rightarrow> Inl e
      | Inr p \<Rightarrow> (case validateNetworkSpec ulow (ts_Network spec) of
                     Inl e \<Rightarrow> Inl e
                   | Inr n \<Rightarrow> Inr (spec\<lparr>ts_Persistence := p, ts_Network := n\<rparr>)))"

section \<open>Operations (template.go)\<close>

definition TemplateService_Create ::
  "(string \<Rightarrow> go_err option) \<Rightarrow> (string \<Rightarrow> string) \<Rightarrow> CreateTemplateRequest \<Rightarrow> ('k, template_view res) prog" where
  "TemplateService_Create qerr ulow req =
     (case validateName (ctr_Name req) of
        Some e \<Rightarrow> throw (Wrap ''invalid name'' e)
      | None \<Rightarrow>
          (case validateSpec qerr ulow (ctr_Spec req) of
             Inl e \<Rightarrow> throw (Wrap ''invalid spec'' e)
           | Inr spec \<Rightarrow>
               seqE (TemplateStore_Exists (ctr_Name req)) (\<lambda>exists.
                 if exists then throw (Msg (''template with name '' @ [CHR 0x27] @ ctr_Name req @ [CHR 0x27] @ '' already exists''))
                 else TemplateStore_Create (req\<lparr>ctr_Spec := spec\<rparr>))))"

definition TemplateService_Get :: "string \<Rightarrow> ('k, template_view option res) prog" where
  "TemplateService_Get name = TemplateStore_Get name"

definition TemplateService_List :: "TemplateListOptions \<Rightarrow> ('k, TemplateListResponse res) prog" where
  "TemplateService_List opts = TemplateStore_List opts"

definition TemplateService_Update ::
  "(string \<Rightarrow> go_err option) \<Rightarrow> (string \<Rightarrow> string) \<Rightarrow> string \<Rightarrow> UpdateTemplateRequest \<Rightarrow> ('k, template_view option res) prog" where
  "TemplateService_Update qerr ulow name req =
     (case validateSpec qerr ulow (utr_Spec req) of
        Inl e \<Rightarrow> throw (Wrap ''invalid spec'' e)
      | Inr spec \<Rightarrow> TemplateStore_Update name (req\<lparr>utr_Spec := spec\<rparr>))"

definition TemplateService_Delete :: "string \<Rightarrow> ('k, unit res) prog" where
  "TemplateService_Delete name = TemplateStore_Delete name"

definition TemplateService_GetVersion :: "string \<Rightarrow> int \<Rightarrow> ('k, TemplateVersion option res) prog" where
  "TemplateService_GetVersion name version = TemplateStore_GetVersionByName name version"

definition TemplateService_ListVersions :: "string \<Rightarrow> ('k, TemplateVersion list option res) prog" where
  "TemplateService_ListVersions name = TemplateStore_ListVersions name"

definition TemplateService_Rollback :: "string \<Rightarrow> int \<Rightarrow> string \<Rightarrow> ('k, RollbackResponse res) prog" where
  "TemplateService_Rollback name targetVersion changelog =
     (if targetVersion < 1 then throw (Msg ''target version must be at least 1'')
      else TemplateStore_Rollback name targetVersion changelog)"

definition GetSpecForSandbox :: "string \<Rightarrow> int \<Rightarrow> ('k, TemplateSpec res) prog" where
  "GetSpecForSandbox name version0 =
     seqE (TemplateStore_Get name) (\<lambda>r.
       case r of
         None \<Rightarrow> throw (Msg (''template '' @ [CHR 0x27] @ name @ [CHR 0x27] @ '' not found''))
       | Some (template, _) \<Rightarrow>
           let version = (if version0 = 0 then tpl_LatestVersion template else version0) in
           seqE (TemplateStore_GetVersion (tpl_ID template) version) (\<lambda>ver.
             case ver of
               None \<Rightarrow> throw (Msg (''version '' @ show_int version @ '' not found for template '' @ [CHR 0x27] @ name @ [CHR 0x27]))
             | Some v \<Rightarrow> retE (tv_Spec v)))"

section \<open>Import and export (import\_export.go)\<close>

record TemplateYAML =
  y_APIVersion :: string
  y_Kind :: string
  y_Name :: string
  y_DisplayName :: string
  y_Description :: string
  y_Tags :: "string list option"
  y_Spec :: TemplateSpec

record TemplateListYAML =
  yl_APIVersion :: string
  yl_Kind :: string
  yl_ExportedAt :: string
  yl_Items :: "TemplateYAML list"

text \<open>The YAML library: marshalling and unmarshalling of the two document types.\<close>

record YamlCodec =
  yaml_Marshal :: "TemplateYAML \<Rightarrow> string res"
  yaml_MarshalList :: "TemplateListYAML \<Rightarrow> string res"
  yaml_Unmarshal :: "string \<Rightarrow> TemplateYAML res"
  yaml_UnmarshalList :: "string \<Rightarrow> TemplateListYAML res"

record ImportResult =
  ir_Name :: string
  ir_Action :: string
  ir_Version :: int
  ir_Error :: string

record ImportTemplatesResponse =
  itr_Total :: int
  itr_Created :: int
  itr_Updated :: int
  itr_Skipped :: int
  itr_Failed :: int
  itr_Results :: "ImportResult list"
  itr_PrepullStarted :: "string list"

definition createOrUpdateTemplate ::
  "(string \<Rightarrow> go_err option) \<Rightarrow> (string \<Rightarrow> string) \<Rightarrow> TemplateYAML \<Rightarrow> bool \<Rightarrow> ('k, string \<times> string) prog" where
  "createOrUpdateTemplate qerr ulow tpl isUpdate =
     (if isUpdate then do {
        r \<leftarrow> TemplateService_Update qerr ulow (y_Name tpl)
               \<lparr>utr_DisplayName = y_DisplayName tpl, utr_Description = y_Description tpl, utr_Tags = y_Tags tpl,
                utr_IsPublic = None, utr_Spec = y_Spec tpl, utr_Changelog = ''Imported from YAML''\<rparr>;
        ret (case r of Inl e \<Rightarrow> (''failed'', err_text e) | Inr _ \<Rightarrow> (''updated'', [])) }
      else do {
        r \<leftarrow> TemplateService_Create qerr ulow
               \<lparr>ctr_Name = y_Name tpl, ctr_DisplayName = y_DisplayName tpl, ctr_Description = y_Description tpl,
                ctr_Tags = (case y_Tags tpl of None \<Rightarrow> [] | Some ts \<Rightarrow> ts), ctr_IsPublic = None,
                ctr_Spec = y_Spec tpl, ctr_AutoPrepull = False\<rparr>;
        ret (case r of Inl e \<Rightarrow> (''failed'', err_text e) | Inr _ \<Rightarrow> (''created'', [])) })"

text \<open>
  The end of \<open>processTemplate\<close>: the version of what was written, a text for a failure without one. The
  code reads \<open>updated.LatestVersion\<close> without a nil check, which would panic if the template were gone.
\<close>

definition import_result :: "string \<Rightarrow> string \<times> string \<Rightarrow> ('k, ImportResult res) prog" where
  "import_result name ae =
     (let action = fst ae; error = snd ae in
      if action = ''created'' \<or> action = ''updated'' then do {
        r \<leftarrow> TemplateService_Get name;
        case r of
          Inl _ \<Rightarrow> retE \<lparr>ir_Name = name, ir_Action = action, ir_Version = 0, ir_Error = error\<rparr>
        | Inr None \<Rightarrow> throw (GoPanic ''invalid memory address or nil pointer dereference'')
        | Inr (Some (t, _)) \<Rightarrow> retE \<lparr>ir_Name = name, ir_Action = action, ir_Version = tpl_LatestVersion t, ir_Error = error\<rparr> }
      else retE \<lparr>ir_Name = name, ir_Action = action, ir_Version = 0,
                 ir_Error = (if action = ''failed'' \<and> error = [] then ''unknown import failure'' else error)\<rparr>)"

definition processTemplate ::
  "(string \<Rightarrow> go_err option) \<Rightarrow> (string \<Rightarrow> string) \<Rightarrow> TemplateYAML \<Rightarrow> string \<Rightarrow> ('k, ImportResult res) prog" where
  "processTemplate qerr ulow tpl strategy =
     (let name = y_Name tpl;
          result = (\<lambda>action error. retE \<lparr>ir_Name = name, ir_Action = action, ir_Version = 0, ir_Error = error\<rparr>) in
      if name = [] then result ''failed'' ''template name is required''
      else do {
        r \<leftarrow> TemplateService_Get name;
        case r of
          Inl e \<Rightarrow> result ''failed'' (''failed to query existing template: '' @ err_text e)
        | Inr existing \<Rightarrow>
            let exists = (existing \<noteq> None) in
            if strategy = ''create-only'' then
              (if exists then result ''skipped'' ''template already exists (strategy=create-only)''
               else do { ae \<leftarrow> createOrUpdateTemplate qerr ulow tpl False; import_result name ae })
            else if strategy = ''update-only'' then
              (if \<not> exists then result ''skipped'' ''template not found (strategy=update-only)''
               else do { ae \<leftarrow> createOrUpdateTemplate qerr ulow tpl True; import_result name ae })
            else if strategy = ''create-or-update'' then
              do { ae \<leftarrow> createOrUpdateTemplate qerr ulow tpl exists; import_result name ae }
            else import_result name (''failed'', ''invalid strategy: '' @ strategy) })"

fun import_loop ::
  "(string \<Rightarrow> go_err option) \<Rightarrow> (string \<Rightarrow> string) \<Rightarrow> string \<Rightarrow> TemplateYAML list \<Rightarrow> ('k, ImportResult list res) prog" where
  "import_loop qerr ulow strategy [] = retE []"
| "import_loop qerr ulow strategy (tpl # rest) =
     seqE (processTemplate qerr ulow tpl strategy) (\<lambda>r.
     seqE (import_loop qerr ulow strategy rest) (\<lambda>rs. retE (r # rs)))"

definition count_action :: "string \<Rightarrow> ImportResult list \<Rightarrow> int" where
  "count_action a rs = int (length (filter (\<lambda>r. ir_Action r = a) rs))"

definition parse_import :: "YamlCodec \<Rightarrow> string \<Rightarrow> TemplateYAML list res" where
  "parse_import yc yamlContent =
     (let single = (case yaml_Unmarshal yc yamlContent of
                      Inl e \<Rightarrow> Inl (Wrap ''invalid YAML format'' e)
                    | Inr s \<Rightarrow> if y_Kind s \<noteq> ''SandboxTemplate''
                               then Inl (Msg (''invalid kind: expected SandboxTemplate, got '' @ y_Kind s))
                               else Inr [s]) in
      case yaml_UnmarshalList yc yamlContent of
        Inr l \<Rightarrow> if yl_Kind l = ''SandboxTemplateList'' then Inr (yl_Items l) else single
      | Inl _ \<Rightarrow> single)"

text \<open>\<open>hasPrepull\<close> says whether the service has a prepull service to start.\<close>

definition ImportFromYAML ::
  "(string \<Rightarrow> go_err option) \<Rightarrow> (string \<Rightarrow> string) \<Rightarrow> YamlCodec \<Rightarrow> bool \<Rightarrow> string \<Rightarrow> string \<Rightarrow> bool
    \<Rightarrow> ('k, ImportTemplatesResponse res) prog" where
  "ImportFromYAML qerr ulow yc hasPrepull yamlContent strategy autoPrepull =
     (case parse_import yc yamlContent of
        Inl e \<Rightarrow> throw e
      | Inr templateList \<Rightarrow>
          seqE (import_loop qerr ulow strategy templateList) (\<lambda>rs.
          let images = (if autoPrepull then
                map (\<lambda>(t, r). ts_Image (y_Spec t))
                  (filter (\<lambda>(t, r). ir_Action r = ''created'' \<or> ir_Action r = ''updated'') (zip templateList rs))
                else []) in
          retE \<lparr>itr_Total = int (length templateList), itr_Created = count_action ''created'' rs,
                itr_Updated = count_action ''updated'' rs, itr_Skipped = count_action ''skipped'' rs,
                itr_Failed = count_action ''failed'' rs, itr_Results = rs,
                itr_PrepullStarted = (if hasPrepull then images else [])\<rparr>))"

definition template_yaml :: "Template \<Rightarrow> TemplateSpec \<Rightarrow> TemplateYAML" where
  "template_yaml t spec =
     \<lparr>y_APIVersion = ''liteboxd/v1'', y_Kind = ''SandboxTemplate'', y_Name = tpl_Name t,
      y_DisplayName = tpl_DisplayName t, y_Description = tpl_Description t, y_Tags = Some (tpl_Tags t), y_Spec = spec\<rparr>"

definition ExportToYAML :: "YamlCodec \<Rightarrow> string \<Rightarrow> int \<Rightarrow> ('k, string res) prog" where
  "ExportToYAML yc name version =
     seqE (TemplateService_Get name) (\<lambda>r.
       case r of
         None \<Rightarrow> throw (Msg (''template '' @ [CHR 0x27] @ name @ [CHR 0x27] @ '' not found''))
       | Some (template, tspec) \<Rightarrow>
           seqE (if version > 0 then
                   seqE (TemplateService_GetVersion name version) (\<lambda>ver.
                     case ver of
                       None \<Rightarrow> throw (Msg (''version '' @ show_int version @ '' not found''))
                     | Some v \<Rightarrow> retE (tv_Spec v))
                 else (case tspec of
                         None \<Rightarrow> throw (GoPanic ''invalid memory address or nil pointer dereference'')
                       | Some sp \<Rightarrow> retE sp)) (\<lambda>spec.
           ret (case yaml_Marshal yc (template_yaml template spec) of
                  Inl e \<Rightarrow> Inl (Wrap ''failed to marshal YAML'' e) | Inr b \<Rightarrow> Inr b)))"

fun export_items :: "string \<Rightarrow> string list \<Rightarrow> template_view list \<Rightarrow> ('k, TemplateYAML list) prog" where
  "export_items tag names [] = ret []"
| "export_items tag names ((tpl, sp) # rest) =
     (if tag \<noteq> [] \<and> tag \<notin> set (tpl_Tags tpl) then export_items tag names rest
      else if names \<noteq> [] \<and> tpl_Name tpl \<notin> set names then export_items tag names rest
      else do {
        v \<leftarrow> TemplateService_GetVersion (tpl_Name tpl) (tpl_LatestVersion tpl);
        items \<leftarrow> export_items tag names rest;
        ret (case v of Inr (Some ver) \<Rightarrow> template_yaml tpl (tv_Spec ver) # items | _ \<Rightarrow> items) })"

definition ExportAllToYAML :: "YamlCodec \<Rightarrow> string \<Rightarrow> string list \<Rightarrow> ('k, string res) prog" where
  "ExportAllToYAML yc tag names =
     seqE (TemplateService_List \<lparr>tlo_Tag = [], tlo_Search = [], tlo_Page = 1, tlo_PageSize = 1000\<rparr>) (\<lambda>l. do {
       items \<leftarrow> export_items tag names (tlr_Items l);
       now \<leftarrow> time_now;
       ret (case yaml_MarshalList yc
                   \<lparr>yl_APIVersion = ''liteboxd/v1'', yl_Kind = ''SandboxTemplateList'',
                    yl_ExportedAt = format_rfc3339 now, yl_Items = items\<rparr> of
              Inl e \<Rightarrow> Inl (Wrap ''failed to marshal YAML'' e) | Inr b \<Rightarrow> Inr b) })"

section \<open>Domains\<close>

definition domain_char :: "char \<Rightarrow> bool" where
  "domain_char c \<longleftrightarrow> lower_alnum c \<or> c = CHR ''-'' \<or> c = CHR ''.''"

lemma lower_alnum_plain: "lower_alnum c \<Longrightarrow> plain_byte c \<and> ascii_lower c = c \<and> (of_char c :: nat) < 128"
  by (auto simp: lower_alnum_def plain_byte_def ascii_lower_def Let_def)

lemma domain_char_plain: "domain_char c \<Longrightarrow> plain_byte c \<and> ascii_lower c = c \<and> (of_char c :: nat) < 128"
  by (auto simp: domain_char_def dest: lower_alnum_plain) (auto simp: plain_byte_def ascii_lower_def)

lemma set_split_char: "set s \<subseteq> insert c (\<Union> (set ` set (split_char c s)))"
proof (induction s)
  case (Cons x xs)
  then show ?case
    by (cases "split_char c xs") auto
qed simp

lemma valid_domain_chars:
  assumes "isValidDomain d"
  shows "d \<noteq> []" "\<forall>c \<in> set d. domain_char c"
proof -
  show "d \<noteq> []"
    using assms by (auto simp: isValidDomain_def)
  have "domain_char c" if "l \<in> set (split_char (CHR ''.'') d)" "c \<in> set l" for l c
    using assms that by (auto simp: isValidDomain_def isValidDomainLabel_def list_all_iff domain_char_def split: if_splits)
  then show "\<forall>c \<in> set d. domain_char c"
    using set_split_char [of d "CHR ''.''"] by (fastforce simp: domain_char_def)
qed

lemma split_char_last: "s = [] \<or> last s = c \<Longrightarrow> last (split_char c s) = []"
proof (induction s)
  case (Cons x xs)
  show ?case
  proof (cases "x = c \<or> xs = []")
    case True
    then show ?thesis
      using Cons by (cases "xs = []") auto
  next
    case False
    then have "last (split_char c xs) = []" "last xs = c"
      using Cons by auto
    moreover have "length (split_char c xs) > 1"
      using False \<open>last xs = c\<close> join_split [of c xs] calculation(1)
      by (cases "split_char c xs"; cases "tl (split_char c xs)") auto
    ultimately show ?thesis
      using False by (cases "split_char c xs") auto
  qed
qed simp

lemma valid_domain_no_dot:
  assumes "isValidDomain d"
  shows "last d \<noteq> CHR ''.''"
proof
  assume "last d = CHR ''.''"
  then have "[] \<in> set (split_char (CHR ''.'') d)"
    using split_char_last [of d "CHR ''.''"] by (metis last_in_set split_char_not_Nil)
  then show False
    using assms by (auto simp: isValidDomain_def isValidDomainLabel_def list_all_iff split: if_splits)
qed

text \<open>A value the loop accepts is a fixed point of its normalisation.\<close>

lemma normalizeDomain_result:
  assumes "normalizeDomain ulow d = Inr v"
  shows "isValidDomain (trim_prefix ''*.'' v)"
    and "has_prefix ''*.'' v \<or> v = trim_prefix ''*.'' v"
  using assms by (auto simp: normalizeDomain_def Let_def trim_prefix_def split: if_splits)

lemma not_contains: "c \<notin> set s \<Longrightarrow> \<not> contains_str s (c # p)"
  by (induction s) (auto simp: has_prefix_def)

lemma normalizeDomain_fix:
  assumes "normalizeDomain ulow d = Inr v"
  shows "normalizeDomain ulow' v = Inr v"
proof -
  define b where "b = trim_prefix ''*.'' v"
  have b: "isValidDomain b"
    using normalizeDomain_result(1) [OF assms] by (simp add: b_def)
  have v: "v = b \<or> v = ''*.'' @ b"
    using normalizeDomain_result(2) [OF assms] unfolding b_def
    by (metis has_prefix_iff trim_prefix_append)
  have chars: "\<forall>c \<in> set v. domain_char c \<or> c = CHR ''*''"
    using v valid_domain_chars(2) [OF b] by (auto simp: domain_char_def)
  have low: "to_lower ulow' v = v"
  proof -
    have "(of_char c :: nat) < 128 \<and> ascii_lower c = c" if "c \<in> set v" for c
      using chars that domain_char_plain [of c] by (cases "c = CHR ''*''") (auto simp: ascii_lower_def)
    then show ?thesis
      by (simp add: to_lower_def is_ascii_def list_all_iff map_idI)
  qed
  have ne: "v \<noteq> []" and ends: "plain_byte (hd v)" "plain_byte (last v)" "last v \<noteq> CHR ''.''"
    using v valid_domain_chars [OF b] valid_domain_no_dot [OF b] domain_char_plain
    by (auto simp: plain_byte_def)
  have trim: "trim_space v = v"
    using ends by (intro trim_space_plain) simp
  have suf: "trim_suffix ''.'' v = v"
    using ends(3) ne by (auto simp: trim_suffix_def has_suffix_iff)
  have "CHR '':'' \<notin> set v" "CHR ''/'' \<notin> set v"
    using chars by (auto simp: domain_char_def lower_alnum_def Let_def)
  then have inv: "\<not> contains_str v ''://''" "\<not> contains_str v ''/''" "\<not> contains_str v '':''"
    using not_contains by auto
  have "CHR ''*'' \<notin> set b"
    using valid_domain_chars(2) [OF b] by (auto simp: domain_char_def lower_alnum_def Let_def)
  then have star: "\<not> contains_str b ''*''" "\<not> has_prefix ''*.'' b"
    using not_contains by (auto simp: has_prefix_iff)
  show ?thesis
    using v
  proof
    assume "v = b"
    then show ?thesis
      using low trim suf inv star b ne by (simp add: normalizeDomain_def Let_def)
  next
    assume vb: "v = ''*.'' @ b"
    have "has_prefix ''*.'' v" "trim_prefix ''*.'' v = b"
      by (simp_all only: vb has_prefix_append trim_prefix_append)
    then show ?thesis
      using low trim suf inv b ne by (simp add: normalizeDomain_def Let_def)
  qed
qed

lemma normalize_loop_acc:
  assumes "normalize_loop ulow acc ds = Inr out" "distinct acc" "\<forall>v \<in> set acc. normalizeDomain ulow v = Inr v"
  shows "distinct out \<and> (\<forall>v \<in> set out. normalizeDomain ulow v = Inr v) \<and> set acc \<subseteq> set out \<and>
         (\<forall>d \<in> set ds. \<exists>v \<in> set out. normalizeDomain ulow d = Inr v) \<and>
         set out \<subseteq> set acc \<union> {v. \<exists>d \<in> set ds. normalizeDomain ulow d = Inr v}"
  using assms
proof (induction ds arbitrary: acc)
  case (Cons d ds)
  show ?case
  proof (cases "normalizeDomain ulow d")
    case (Inr v)
    then have fix_v: "normalizeDomain ulow v = Inr v"
      by (rule normalizeDomain_fix)
    show ?thesis
      using Cons.IH [of acc] Cons.IH [of "acc @ [v]"] Cons.prems Inr fix_v
      by (auto split: if_splits)
  qed (use Cons.prems in simp)
qed simp

lemma normalize_loop_fix:
  assumes "distinct (acc @ ds)" "\<forall>v \<in> set ds. normalizeDomain ulow v = Inr v"
  shows "normalize_loop ulow acc ds = Inr (acc @ ds)"
  using assms by (induction ds arbitrary: acc) auto

section \<open>Validated specs\<close>

text \<open>What an accepted persistence spec satisfies, which is all the validation looks at.\<close>

definition persistence_normal :: "(string \<Rightarrow> go_err option) \<Rightarrow> PersistenceSpec \<Rightarrow> bool" where
  "persistence_normal qerr p \<longleftrightarrow>
     ps_Enabled p \<longrightarrow>
       ps_Mode p = PersistenceModeRootFSOverlay \<and> ps_Size p \<noteq> [] \<and> trim_space (ps_Size p) = ps_Size p \<and>
       qerr (ps_Size p) = None \<and> ps_StorageClassName p \<noteq> [] \<and>
       trim_space (ps_StorageClassName p) = ps_StorageClassName p \<and>
       \<not> equal_fold (ps_StorageClassName p) ''local-path'' \<and>
       ps_ReclaimPolicy p \<in> {PersistenceReclaimDelete, PersistenceReclaimRetain}"

lemma persistence_consts [simp]:
  "PersistenceModeRootFSOverlay \<noteq> []" "PersistenceDefaultSize \<noteq> []" "PersistenceReclaimDelete \<noteq> []"
  "PersistenceReclaimRetain \<noteq> []" "trim_space PersistenceDefaultSize = PersistenceDefaultSize"
  by (simp_all add: trim_space_plain plain_byte_def)

lemma persistence_validated:
  assumes "validatePersistenceSpec qerr (Some p) = Inr q"
  shows "\<exists>p'. q = Some p' \<and> persistence_normal qerr p'"
  using assms unfolding validatePersistenceSpec_def Let_def persistence_normal_def
  by (simp split: if_splits option.splits; hypsubst; simp add: trim_space_idem)

lemma persistence_accepts:
  assumes "persistence_normal qerr p"
  shows "validatePersistenceSpec qerr (Some p) = Inr (Some p)"
  using assms by (cases "ps_Enabled p") (auto simp: validatePersistenceSpec_def Let_def persistence_normal_def)

lemma persistence_fix:
  assumes "validatePersistenceSpec qerr p = Inr q"
  shows "validatePersistenceSpec qerr q = Inr q"
proof (cases p)
  case None
  then show ?thesis
    using assms by (auto simp: validatePersistenceSpec_def)
next
  case (Some x)
  then show ?thesis
    using persistence_validated assms persistence_accepts by blast
qed

lemma network_fix:
  assumes "validateNetworkSpec ulow n = Inr m"
  shows "validateNetworkSpec ulow m = Inr m"
proof (cases n)
  case (Some x)
  then obtain out where out: "normalize_loop ulow [] (net_AllowedDomains x) = Inr out"
    "m = Some (x\<lparr>net_AllowedDomains := out\<rparr>)"
    using assms by (auto simp: validateNetworkSpec_def normalizeAllowedDomains_def split: sum.splits)
  then have "normalize_loop ulow [] out = Inr out"
    using normalize_loop_acc [OF out(1)] normalize_loop_fix [of "[]" out ulow] by simp
  then show ?thesis
    by (simp add: out(2) validateNetworkSpec_def normalizeAllowedDomains_def)
qed (use assms in \<open>auto simp: validateNetworkSpec_def\<close>)

definition spec_valid :: "(string \<Rightarrow> go_err option) \<Rightarrow> (string \<Rightarrow> string) \<Rightarrow> TemplateSpec \<Rightarrow> bool" where
  "spec_valid qerr ulow spec \<longleftrightarrow> validateSpec qerr ulow spec = Inr spec"

lemma validateSpec_fix: "validateSpec qerr ulow s = Inr s' \<Longrightarrow> spec_valid qerr ulow s'"
  by (auto simp: validateSpec_def spec_valid_def persistence_fix network_fix split: if_splits sum.splits)

text \<open>The defaults the store applies do not undo the validation, and applying them twice changes nothing.\<close>

lemma ApplyDefaults_fields [simp]:
  "ts_Image (ApplyDefaults s) = ts_Image s" "ts_Network (ApplyDefaults s) = ts_Network s"
  by (auto simp: ApplyDefaults_def Let_def split: option.split)

lemma ApplyDefaults_no_persistence: "ts_Persistence s = None \<Longrightarrow> ts_Persistence (ApplyDefaults s) = None"
  by (simp add: ApplyDefaults_def Let_def)

lemma ApplyDefaults_persistence:
  assumes "ts_Persistence s = Some p" "persistence_normal qerr p"
  shows "\<exists>p'. ts_Persistence (ApplyDefaults s) = Some p' \<and> persistence_normal qerr p'"
  using assms by (cases "ps_Enabled p") (auto simp: ApplyDefaults_def Let_def persistence_normal_def)

lemma spec_valid_iff:
  "spec_valid qerr ulow s \<longleftrightarrow>
     ts_Image s \<noteq> [] \<and> validatePersistenceSpec qerr (ts_Persistence s) = Inr (ts_Persistence s) \<and>
     validateNetworkSpec ulow (ts_Network s) = Inr (ts_Network s)"
proof
  assume "spec_valid qerr ulow s"
  then obtain p n where pn: "ts_Image s \<noteq> []" "validatePersistenceSpec qerr (ts_Persistence s) = Inr p"
    "validateNetworkSpec ulow (ts_Network s) = Inr n" "s\<lparr>ts_Persistence := p, ts_Network := n\<rparr> = s"
    by (auto simp: spec_valid_def validateSpec_def split: if_splits sum.splits)
  have "ts_Persistence s = p" "ts_Network s = n"
    using arg_cong [OF pn(4), of ts_Persistence] arg_cong [OF pn(4), of ts_Network] by simp_all
  then show "ts_Image s \<noteq> [] \<and> validatePersistenceSpec qerr (ts_Persistence s) = Inr (ts_Persistence s) \<and>
     validateNetworkSpec ulow (ts_Network s) = Inr (ts_Network s)"
    using pn by simp
qed (simp add: spec_valid_def validateSpec_def)

lemma spec_valid_defaults:
  assumes "spec_valid qerr ulow s"
  shows "spec_valid qerr ulow (ApplyDefaults s)"
proof (cases "ts_Persistence s")
  case None
  then show ?thesis
    using assms ApplyDefaults_no_persistence [OF None] by (simp add: spec_valid_iff)
next
  case (Some p)
  then have "persistence_normal qerr p"
    using assms persistence_validated [of qerr p] by (auto simp: spec_valid_iff)
  with ApplyDefaults_persistence [OF Some] obtain p'
    where "ts_Persistence (ApplyDefaults s) = Some p'" "persistence_normal qerr p'"
    by blast
  then show ?thesis
    using assms persistence_accepts by (simp add: spec_valid_iff)
qed

definition spec_full :: "TemplateSpec \<Rightarrow> bool" where
  "spec_full s \<longleftrightarrow>
     rs_CPU (ts_Resources s) \<noteq> [] \<and> rs_Memory (ts_Resources s) \<noteq> [] \<and> ts_StartupTimeout s \<noteq> 0 \<and>
     (case ts_Persistence s of
        None \<Rightarrow> True
      | Some p \<Rightarrow> ps_ReclaimPolicy p \<noteq> [] \<and> (ps_Enabled p \<longrightarrow> ps_Mode p \<noteq> [] \<and> ps_Size p \<noteq> []))"

lemma spec_full_defaults: "spec_full (ApplyDefaults s)"
proof (cases "ts_Persistence s")
  case None
  then show ?thesis
    by (simp add: ApplyDefaults_def Let_def spec_full_def)
next
  case (Some p)
  then show ?thesis
    by (simp add: ApplyDefaults_def Let_def spec_full_def)
qed

lemma defaults_of_full: "spec_full s \<Longrightarrow> ApplyDefaults s = s"
proof -
  assume "spec_full s"
  moreover have "ts_Persistence s = Some p \<Longrightarrow> s\<lparr>ts_Persistence := Some p\<rparr> = s" for p
    by (cases s) simp
  ultimately show ?thesis
    by (cases "ts_Persistence s") (simp_all add: ApplyDefaults_def Let_def spec_full_def)
qed

section \<open>Properties of the validation\<close>

lemma namePattern_label: "namePattern s \<longleftrightarrow> s \<noteq> [] \<and> hd s \<noteq> CHR ''-'' \<and> last s \<noteq> CHR ''-'' \<and>
    list_all (\<lambda>c. lower_alnum c \<or> c = CHR ''-'') s"
proof -
  have dash: "\<not> lower_alnum (CHR ''-'')"
    by (simp add: lower_alnum_def)
  consider "s = []" | a where "s = [a]" | a m b where "s = a # m @ [b]"
    by (metis append_butlast_last_id list.exhaust)
  then show ?thesis
  proof cases
    case (3 a m b)
    then show ?thesis
      using dash by (auto simp: namePattern_def)
  qed (use dash in \<open>auto simp: namePattern_def\<close>)
qed

text \<open>
  The names that \<open>validateName\<close> accepts are exactly the labels that
  \<open>isValidDomainLabel\<close> accepts, so a template name can be used as a label of a host name. The regular
  expression with its two alternatives and the loop over the bytes of a label agree.
\<close>

theorem validateName_label: "validateName name = None \<longleftrightarrow> isValidDomainLabel name"
  by (auto simp: validateName_def isValidDomainLabel_def namePattern_label)

text \<open>
  A successful \<open>normalizeAllowedDomains\<close> returns a list without duplicates whose members are all
  valid domains, possibly behind \<open>*.\<close>; every input domain is represented by its normal form and
  nothing else is added; and normalising the result again returns it unchanged.
\<close>

theorem normalizeAllowedDomains_normal_form:
  assumes "normalizeAllowedDomains ulow domains = Inr out"
  shows "distinct out \<and> (\<forall>v \<in> set out. isValidDomain (trim_prefix ''*.'' v)) \<and>
         set out = {v. \<exists>d \<in> set domains. normalizeDomain ulow d = Inr v} \<and>
         normalizeAllowedDomains ulow' out = Inr out"
proof -
  note acc = normalize_loop_acc [OF assms [unfolded normalizeAllowedDomains_def], simplified]
  have "normalizeAllowedDomains ulow' out = Inr out"
    unfolding normalizeAllowedDomains_def
    using acc normalizeDomain_fix [of ulow _ _ ulow'] by (intro normalize_loop_fix [of "[]", simplified]) blast+
  moreover have "\<forall>v \<in> set out. isValidDomain (trim_prefix ''*.'' v)"
    using acc normalizeDomain_result(1) by blast
  ultimately show ?thesis
    using acc by fastforce
qed

theorem normalizeAllowedDomains_normal_form_witness:
  "normalizeAllowedDomains (\<lambda>s. s) ['' Example.COM. '', ''*.cdn.io'', ''example.com''] = Inr [''example.com'', ''*.cdn.io''] \<and>
   normalizeAllowedDomains (\<lambda>s. s) [''example.com'', ''*.cdn.io''] = Inr [''example.com'', ''*.cdn.io'']"
proof -
  have a: "normalizeAllowedDomains (\<lambda>s. s) ['' Example.COM. '', ''*.cdn.io'', ''example.com''] = Inr [''example.com'', ''*.cdn.io'']"
    by code_simp
  show ?thesis
    using a normalizeAllowedDomains_normal_form [OF a, of "\<lambda>s. s"] by blast
qed

end
