(* ===== verification/Sandbox_Service.thy ===== *)
theory Sandbox_Service
  imports Persistent_Status Token_Cipher Pod_Files Template_Service
begin

text \<open>
  The sandbox service, \<open>backend/internal/service/sandbox.go\<close>: creation with its background tasks, reading,
  deletion, restart, stop and start, and the two cleaners. A goroutine that \<open>Create\<close> starts is returned
  as the task it will run; \<open>runPostCreationTasks\<close> runs it. Interactive exec and the tickers are not
  modelled.
\<close>

section \<open>The service\<close>

text \<open>
  The collaborators and the environment: the Kubernetes client and its streams, the token cipher, SHA-256,
  the value of \<open>GATEWAY_URL\<close>, \<open>strings.ToLower\<close> on non-ASCII strings, and the JSON coding of an
  environment (\<open>None\<close> is the nil map).
\<close>

record 'k SandboxService =
  k8sClient :: "'k Client"
  streams :: "'k PodStreams"
  hasTemplateSvc :: bool
  tokenCipher :: TokenCipher
  sha256 :: "string \<Rightarrow> string"
  gatewayEnv :: string
  ulower :: "string \<Rightarrow> string"
  marshalEnv :: "str_map option \<Rightarrow> string res"
  unmarshalEnv :: "string \<Rightarrow> str_map option res"

definition EnvMap :: "'k SandboxService \<Rightarrow> SandboxRecord \<Rightarrow> str_map" where
  "EnvMap s r =
     (if rec_EnvJSON r = [] then []
      else case unmarshalEnv s (rec_EnvJSON r) of Inr (Some env) \<Rightarrow> env | _ \<Rightarrow> [])"

definition parseLifecycleStatus :: "string \<Rightarrow> string" where
  "parseLifecycleStatus v =
     (if v = SandboxStatusPending \<or> v = ''creating'' then SandboxStatusPending
      else if v = SandboxStatusRunning then SandboxStatusRunning
      else if v = SandboxStatusSucceeded then SandboxStatusSucceeded
      else if v = SandboxStatusFailed then SandboxStatusFailed
      else if v = SandboxStatusStopped then SandboxStatusStopped
      else if v = SandboxStatusTerminating then SandboxStatusTerminating
      else SandboxStatusUnknown)"

definition convertPodStatus :: "Pod \<Rightarrow> string" where
  "convertPodStatus pod =
     (if om_DeletionTimestamp (pod_Meta pod) \<noteq> None then SandboxStatusTerminating
      else if pod_Phase pod = PodPending then SandboxStatusPending
      else if pod_Phase pod = PodRunning then SandboxStatusRunning
      else if pod_Phase pod = PodSucceeded then SandboxStatusSucceeded
      else if pod_Phase pod = PodFailed then SandboxStatusFailed
      else SandboxStatusUnknown)"

definition generateID :: "('k, string) prog" where
  "generateID = do { u \<leftarrow> new_uuid; ret (take 8 u) }"

text \<open>\<open>time.Date(9999, 12, 31, 23, 59, 59)\<close> in nanoseconds since 1970.\<close>

definition neverExpires :: time where
  "neverExpires = 253402300799 * second"

definition computeExpiresAt :: "time \<Rightarrow> int \<Rightarrow> time" where
  "computeExpiresAt now ttl = (if ttl = 0 then neverExpires else now + wrap64 (ttl * second))"

definition record_persistence :: "SandboxRecord \<Rightarrow> SandboxPersistence option" where
  "record_persistence r =
     (if rec_PersistenceEnabled r \<or> rec_PersistenceMode r \<noteq> [] \<or> rec_PersistenceSize r \<noteq> [] \<or>
         rec_StorageClassName r \<noteq> [] \<or> rec_VolumeClaimName r \<noteq> [] \<or> rec_VolumeReclaimPolicy r \<noteq> []
      then Some \<lparr>sp_Enabled = rec_PersistenceEnabled r, sp_Mode = rec_PersistenceMode r, sp_Size = rec_PersistenceSize r,
                 sp_StorageClassName = rec_StorageClassName r, sp_ReclaimPolicy = rec_VolumeReclaimPolicy r,
                 sp_VolumeClaimName = rec_VolumeClaimName r\<rparr>
      else None)"

definition record_deletion :: "SandboxRecord \<Rightarrow> SandboxDeletion option" where
  "record_deletion r =
     (if rec_DeletionPhase r \<noteq> [] \<or> rec_DeletionStartedAt r \<noteq> None \<or> rec_DeletionAttempts r > 0 \<or>
         rec_DeletionForceLevel r > 0 \<or> rec_DeletionLastError r \<noteq> []
      then Some \<lparr>sd_Phase = rec_DeletionPhase r, sd_StartedAt = rec_DeletionStartedAt r,
                 sd_LastAttemptAt = rec_DeletionLastAttemptAt r, sd_NextRetryAt = rec_DeletionNextRetryAt r,
                 sd_Attempts = rec_DeletionAttempts r, sd_ForceLevel = rec_DeletionForceLevel r,
                 sd_LastError = rec_DeletionLastError r\<rparr>
      else None)"

definition recordToSandboxMetadata :: "'k SandboxService \<Rightarrow> SandboxRecord \<Rightarrow> Sandbox" where
  "recordToSandboxMetadata s r =
     \<lparr>sb_ID = rec_ID r, sb_Image = rec_Image r, sb_CPU = rec_CPU r, sb_Memory = rec_Memory r, sb_TTL = rec_TTL r,
      sb_Env = EnvMap s r, sb_Status = parseLifecycleStatus (rec_LifecycleStatus r), sb_Template = rec_TemplateName r,
      sb_TemplateVersion = rec_TemplateVersion r, sb_DesiredState = rec_DesiredState r,
      sb_LifecycleStatus = rec_LifecycleStatus r, sb_StatusReason = rec_StatusReason r, sb_PodPhase = rec_PodPhase r,
      sb_PodIP = rec_PodIP r, sb_LastSeenAt = rec_LastSeenAt r, sb_CreatedAt = rec_CreatedAt r,
      sb_ExpiresAt = rec_ExpiresAt r, sb_UpdatedAt = rec_UpdatedAt r, sb_DeletedAt = rec_DeletedAt r,
      sb_Persistence = record_persistence r, sb_Deletion = record_deletion r, sb_RuntimeKind = rec_RuntimeKind r,
      sb_RuntimeName = rec_RuntimeName r, sb_AccessToken = [], sb_AccessURL = rec_AccessURL r\<rparr>"

definition recordToSandbox :: "'k SandboxService \<Rightarrow> SandboxRecord \<Rightarrow> Sandbox res" where
  "recordToSandbox s r =
     (case Decrypt (tokenCipher s) (rec_AccessTokenCiphertext r) (rec_AccessTokenNonce r) of
        Inl e \<Rightarrow> Inl (Wrap ''failed to decrypt access token'' e)
      | Inr accessToken \<Rightarrow> Inr ((recordToSandboxMetadata s r)\<lparr>sb_AccessToken := accessToken\<rparr>))"

section \<open>Create\<close>

text \<open>What the template and the overrides of the request give.\<close>

record SandboxConfig =
  cf_cpu :: string
  cf_memory :: string
  cf_ttl :: int
  cf_env :: "str_map option"
  cf_persistence :: "PersistenceSpec option"

definition template_config :: "TemplateSpec \<Rightarrow> SandboxConfig" where
  "template_config spec =
     \<lparr>cf_cpu = rs_CPU (ts_Resources spec), cf_memory = rs_Memory (ts_Resources spec), cf_ttl = ts_TTL spec,
      cf_env = (if ts_Env spec = [] then None else Some (ts_Env spec)), cf_persistence = ts_Persistence spec\<rparr>"

definition set_env :: "str_map \<Rightarrow> str_map \<Rightarrow> str_map" where
  "set_env new env = fold (\<lambda>(k, v) m. AList.update k v m) new env"

definition apply_overrides :: "'k Client \<Rightarrow> SandboxOverrides option \<Rightarrow> SandboxConfig \<Rightarrow> SandboxConfig res" where
  "apply_overrides c overrides cf =
     (case overrides of
        None \<Rightarrow> Inr cf
      | Some ov \<Rightarrow>
          let cf1 = (if ov_CPU ov \<noteq> [] then cf\<lparr>cf_cpu := ov_CPU ov\<rparr> else cf);
              cf2 = (if ov_Memory ov \<noteq> [] then cf1\<lparr>cf_memory := ov_Memory ov\<rparr> else cf1);
              cf3 = (case ov_TTL ov of Some ttl \<Rightarrow> cf2\<lparr>cf_ttl := ttl\<rparr> | None \<Rightarrow> cf2);
              cf4 = (case ov_Env ov of
                       Some env \<Rightarrow> cf3\<lparr>cf_env := Some (set_env env (case cf_env cf3 of None \<Rightarrow> [] | Some e \<Rightarrow> e))\<rparr>
                     | None \<Rightarrow> cf3)
          in case ov_PersistenceSize ov of
               None \<Rightarrow> Inr cf4
             | Some vsize \<Rightarrow>
                 (case cf_persistence cf4 of
                    None \<Rightarrow> Inl (Msg ''persistence overrides are not allowed when template persistence is disabled'')
                  | Some p \<Rightarrow>
                      if \<not> ps_Enabled p then
                        Inl (Msg ''persistence overrides are not allowed when template persistence is disabled'')
                      else if vsize = [] then Inr cf4
                      else (case quantity_err c vsize of
                              Some e \<Rightarrow> Inl (Wrap ''invalid overrides.persistence.size'' e)
                            | None \<Rightarrow> Inr (cf4\<lparr>cf_persistence := Some (p\<lparr>ps_Size := vsize\<rparr>)\<rparr>))))"

text \<open>The row that \<open>Create\<close> inserts.\<close>

definition persistence_enabled :: "SandboxConfig \<Rightarrow> bool" where
  "persistence_enabled cf \<longleftrightarrow> (case cf_persistence cf of None \<Rightarrow> False | Some p \<Rightarrow> ps_Enabled p)"

definition access_url :: "'k SandboxService \<Rightarrow> string \<Rightarrow> string" where
  "access_url s sid =
     (if gatewayEnv s = [] then ''http://localhost:8080'' else gatewayEnv s) @ ''/api/v1/sandbox/'' @ sid"

definition new_record ::
  "'k SandboxService \<Rightarrow> CreateSandboxRequest \<Rightarrow> TemplateSpec \<Rightarrow> int \<Rightarrow> SandboxConfig \<Rightarrow> string \<Rightarrow> string \<times> string \<times> string
    \<Rightarrow> string \<Rightarrow> string \<Rightarrow> time \<Rightarrow> SandboxRecord" where
  "new_record s req spec templateVersion cf sid sealed accessToken envJSON now =
     (let on = persistence_enabled cf; p = the (cf_persistence cf) in
      \<lparr>rec_ID = sid, rec_TemplateName = csr_Template req, rec_TemplateVersion = templateVersion,
       rec_Image = ts_Image spec, rec_CPU = cf_cpu cf, rec_Memory = cf_memory cf, rec_TTL = cf_ttl cf,
       rec_EnvJSON = envJSON, rec_DesiredState = DesiredStateActive, rec_LifecycleStatus = ''creating'',
       rec_StatusReason = [], rec_ClusterNamespace = sandboxNS (k8sClient s), rec_PodName = ''sandbox-'' @ sid,
       rec_PodUID = [], rec_PodPhase = [], rec_PodIP = [], rec_LastSeenAt = None,
       rec_AccessTokenCiphertext = fst sealed, rec_AccessTokenNonce = fst (snd sealed),
       rec_AccessTokenKeyID = snd (snd sealed), rec_AccessTokenSHA256 = HashToken (sha256 s) accessToken,
       rec_AccessURL = access_url s sid,
       rec_PersistenceEnabled = on, rec_PersistenceMode = (if on then ps_Mode p else []),
       rec_PersistenceSize = (if on then ps_Size p else []), rec_StorageClassName = (if on then ps_StorageClassName p else []),
       rec_VolumeClaimName = (if on then ''sandbox-data-'' @ sid else []),
       rec_VolumeReclaimPolicy = (if on then ps_ReclaimPolicy p else []),
       rec_RuntimeKind = (if on then ''deployment'' else ''pod''), rec_RuntimeName = ''sandbox-'' @ sid,
       rec_DeletionPhase = [], rec_DeletionStartedAt = None, rec_DeletionLastAttemptAt = None,
       rec_DeletionNextRetryAt = None, rec_DeletionAttempts = 0, rec_DeletionForceLevel = 0, rec_DeletionLastError = [],
       rec_CreatedAt = now, rec_ExpiresAt = computeExpiresAt now (cf_ttl cf), rec_UpdatedAt = now,
       rec_DeletedAt = None, rec_StoppedAt = None\<rparr>)"

definition pod_options ::
  "CreateSandboxRequest \<Rightarrow> TemplateSpec \<Rightarrow> int \<Rightarrow> SandboxConfig \<Rightarrow> string \<Rightarrow> string \<Rightarrow> CreatePodOptions" where
  "pod_options req spec templateVersion cf sid accessToken =
     \<lparr>opt_ID = sid, opt_Image = ts_Image spec, opt_Command = ts_Command spec, opt_Args = ts_Args spec,
      opt_CPU = cf_cpu cf, opt_Memory = cf_memory cf, opt_TTL = cf_ttl cf,
      opt_Env = (case cf_env cf of None \<Rightarrow> [] | Some e \<Rightarrow> e),
      opt_Annotations = [(''liteboxd.io/template'', csr_Template req), (''liteboxd.io/template-version'', show_int templateVersion)],
      opt_StartupScript = ts_StartupScript spec, opt_StartupFiles = ts_Files spec,
      opt_ReadinessProbe = ts_ReadinessProbe spec, opt_Network = ts_Network spec, opt_AccessToken = accessToken\<rparr>"

text \<open>The arguments of the goroutine that \<open>Create\<close> starts.\<close>

record PostCreationTask =
  pt_ID :: string
  pt_Probe :: "ProbeSpec option"
  pt_Files :: "FileSpec list"
  pt_StartupScript :: string
  pt_StartupTimeout :: int
  pt_Persistent :: bool
  pt_DeploymentName :: string
  pt_PVCName :: string

text \<open>
  An error of the client is written into the row and returned; a panic unwinds past both.
\<close>

definition create_failed :: "string \<Rightarrow> string \<Rightarrow> go_err \<Rightarrow> ('k, 'a res) prog" where
  "create_failed sid msg e =
     (case e of
        GoPanic m \<Rightarrow> throw (GoPanic m)
      | _ \<Rightarrow> do {
          updateStatusDurable sid SandboxStatusFailed (err_text e);
          appendStatusHistoryDurable sid ''api'' ''creating'' SandboxStatusFailed (err_text e);
          throw (Wrap msg e) })"

text \<open>The runtime of the sandbox: a deployment with a claim, or a pod. The result is the row as \<open>Create\<close> returns it.\<close>

definition create_runtime :: "'k SandboxService \<Rightarrow> SandboxRecord \<Rightarrow> CreatePodOptions \<Rightarrow> ('k, SandboxRecord res) prog" where
  "create_runtime s r opts =
     (let sid = rec_ID r in
      if rec_PersistenceEnabled r then do {
        d \<leftarrow> CreatePersistentSandbox (k8sClient s) (CreatePodOptions.extend opts
               (CreatePersistentSandboxOptions.fields (rec_StorageClassName r) (rec_PersistenceSize r) (rec_VolumeClaimName r)));
        case d of
          Inl e \<Rightarrow> create_failed sid ''failed to create persistent sandbox'' e
        | Inr _ \<Rightarrow> do {
            updateStatusDurable sid SandboxStatusPending [];
            appendStatusHistoryDurable sid ''api'' ''creating'' SandboxStatusPending ''deployment created'';
            retE (r\<lparr>rec_LifecycleStatus := SandboxStatusPending, rec_StatusReason := []\<rparr>) } }
      else do {
        p \<leftarrow> CreatePod (k8sClient s) opts;
        case p of
          Inl e \<Rightarrow> create_failed sid ''failed to create pod'' e
        | Inr pod \<Rightarrow>
            seqE (updateObservedStateDurable sid (om_UID (pod_Meta pod)) (pod_Phase pod) (pod_PodIP pod)
                    (convertPodStatus pod) []) (\<lambda>_. do {
            appendStatusHistoryDurable sid ''api'' ''creating'' (convertPodStatus pod) ''pod created'';
            retE r }) })"

definition template_version :: "CreateSandboxRequest \<Rightarrow> template_view option \<Rightarrow> int res" where
  "template_version req tv =
     (if csr_TemplateVersion req \<le> 0 then
        (case tv of
           None \<Rightarrow> Inl (GoPanic ''invalid memory address or nil pointer dereference'')
         | Some (t, _) \<Rightarrow> Inr (tpl_LatestVersion t))
      else Inr (csr_TemplateVersion req))"

definition create_from ::
  "'k SandboxService \<Rightarrow> CreateSandboxRequest \<Rightarrow> TemplateSpec \<Rightarrow> int \<Rightarrow> SandboxConfig \<Rightarrow> ('k, (Sandbox \<times> PostCreationTask) res) prog" where
  "create_from s req spec templateVersion cf = do {
     sid \<leftarrow> generateID;
     if cf_ttl cf < 0 then throw (Msg ''ttl must be >= 0'')
     else
       seqE (mapE (Wrap ''failed to generate access token'') (GenerateToken 32)) (\<lambda>accessToken.
       seqE (mapE (Wrap ''failed to encrypt access token'') (Encrypt (tokenCipher s) accessToken)) (\<lambda>sealed. do {
       now \<leftarrow> time_now;
       case marshalEnv s (cf_env cf) of
         Inl e \<Rightarrow> throw (Wrap ''failed to marshal env'' e)
       | Inr envJSON \<Rightarrow>
           let r = new_record s req spec templateVersion cf sid sealed accessToken envJSON now in
           seqE (SandboxStore_Create r) (\<lambda>_. do {
             appendStatusHistoryDurable sid ''api'' [] ''creating'' ''create requested'';
             seqE (create_runtime s r (pod_options req spec templateVersion cf sid accessToken)) (\<lambda>r'.
             case recordToSandbox s r' of
               Inl e \<Rightarrow> throw e
             | Inr sandbox \<Rightarrow>
                 retE (sandbox\<lparr>sb_AccessToken := accessToken\<rparr>,
                   \<lparr>pt_ID = sid, pt_Probe = ts_ReadinessProbe spec, pt_Files = ts_Files spec,
                    pt_StartupScript = ts_StartupScript spec,
                    pt_StartupTimeout = (if ts_StartupTimeout spec \<le> 0 then 300 else ts_StartupTimeout spec),
                    pt_Persistent = rec_PersistenceEnabled r, pt_DeploymentName = rec_RuntimeName r,
                    pt_PVCName = rec_VolumeClaimName r\<rparr>)) }) })) }"

definition SandboxService_Create ::
  "'k SandboxService \<Rightarrow> CreateSandboxRequest \<Rightarrow> ('k, (Sandbox \<times> PostCreationTask) res) prog" where
  "SandboxService_Create s req =
     (if csr_Template req = [] then throw (Msg ''template is required'')
      else if \<not> hasTemplateSvc s then throw (Msg ''template service not configured'')
      else
        seqE (mapE (Wrap ''failed to get template'') (GetSpecForSandbox (csr_Template req) (csr_TemplateVersion req))) (\<lambda>spec.
        seqE (mapE (Wrap ''failed to get template info'') (TemplateService_Get (csr_Template req))) (\<lambda>tv.
        case template_version req tv of
          Inl e \<Rightarrow> throw e
        | Inr templateVersion \<Rightarrow>
            (case apply_overrides (k8sClient s) (csr_Overrides req) (template_config spec) of
               Inl e \<Rightarrow> throw e
             | Inr cf \<Rightarrow>
                 if ts_Image spec = [] then throw (Msg ''template spec is invalid: image is required'')
                 else create_from s req spec templateVersion cf))))"

text \<open>\<open>n\<close> is the number of ticks before the deadline of the wait for readiness.\<close>

definition runPostCreationTasks :: "'k SandboxService \<Rightarrow> PostCreationTask \<Rightarrow> nat \<Rightarrow> ('k, unit) prog" where
  "runPostCreationTasks s t n = (let sid = pt_ID t; c = k8sClient s in do {
     (if pt_StartupScript t \<noteq> [] then ignore_err (Exec c sid [''sh'', ''-c'', pt_StartupScript t]) else ret ());
     go \<leftarrow> (if pt_Persistent t then
              runPersistentStartupMonitor c (ulower s) sid (pt_DeploymentName t) (pt_PVCName t) n
            else do {
              r \<leftarrow> WaitForReady c sid (pt_Probe t) n;
              now \<leftarrow> time_now;
              let (status, reason, history) = (case r of
                    Inl _ \<Rightarrow> (SandboxStatusFailed, ''startup/readiness failed'', ''startup/readiness failed'')
                  | Inr _ \<Rightarrow> (SandboxStatusRunning, [], ''sandbox is ready''));
              updated \<leftarrow> ok_true (UpdateStatusIfActive sid status reason now);
              (if updated then ignore_err (AppendStatusHistory sid ''system'' ''pending'' status history None now)
               else ret ());
              ret (\<not> isl r) });
     if go \<and> pt_Files t \<noteq> [] then ignore_err (UploadFiles c (streams s) sid (pt_Files t)) else ret () })"

section \<open>Reading\<close>

definition SandboxService_Get :: "'k SandboxService \<Rightarrow> string \<Rightarrow> ('k, Sandbox res) prog" where
  "SandboxService_Get s sid =
     seqE (GetByID sid) (\<lambda>r.
       case r of
         None \<Rightarrow> throw (Msg ''sandbox not found'')
       | Some rec \<Rightarrow>
           if rec_LifecycleStatus rec = ''deleted'' then throw (Msg ''sandbox not found'')
           else ret (recordToSandbox s rec))"

definition SandboxService_List :: "'k SandboxService \<Rightarrow> ('k, Sandbox list res) prog" where
  "SandboxService_List s = seqE ListActive (\<lambda>rs. retE (map (recordToSandboxMetadata s) rs))"

definition SandboxService_ListForUser :: "'k SandboxService \<Rightarrow> bool \<Rightarrow> ('k, Sandbox list res) prog" where
  "SandboxService_ListForUser s includeTerminating =
     seqE (ListForUser_store includeTerminating) (\<lambda>rs. retE (map (recordToSandboxMetadata s) rs))"

record SandboxMetadataListResponse =
  mlr_Items :: "Sandbox list"
  mlr_Total :: int
  mlr_Page :: int
  mlr_PageSize :: int

text \<open>The options of the request have the fields of the store's query.\<close>

definition SandboxService_ListMetadata ::
  "'k SandboxService \<Rightarrow> SandboxMetadataQuery \<Rightarrow> ('k, SandboxMetadataListResponse res) prog" where
  "SandboxService_ListMetadata s opts =
     seqE (ListMetadata_store opts) (\<lambda>(records, total).
       let page = (if q_Page opts \<le> 0 then 1 else q_Page opts);
           sz = (if q_PageSize opts \<le> 0 then 20 else q_PageSize opts);
           sz = (if sz > 100 then 100 else sz)
       in retE \<lparr>mlr_Items = map (recordToSandboxMetadata s) records, mlr_Total = total, mlr_Page = page, mlr_PageSize = sz\<rparr>)"

definition GetStatusHistory :: "string \<Rightarrow> int \<Rightarrow> int \<Rightarrow> ('k, SandboxStatusHistoryRecord list res) prog" where
  "GetStatusHistory sid limit beforeID = ListStatusHistory sid limit beforeID"

record LogsResponse =
  lr_Logs :: string
  lr_Events :: "string list"

definition SandboxService_GetLogs :: "'k SandboxService \<Rightarrow> string \<Rightarrow> int \<Rightarrow> ('k, LogsResponse res) prog" where
  "SandboxService_GetLogs s sid tailLines = do {
     l \<leftarrow> GetLogs (k8sClient s) (streams s) sid tailLines;
     r \<leftarrow> GetByID sid;
     ev \<leftarrow> (case r of
              Inr (Some rec) \<Rightarrow>
                if rec_PersistenceEnabled rec
                then GetSandboxEvents (k8sClient s) sid (rec_RuntimeName rec) (rec_VolumeClaimName rec)
                else GetPodEvents (k8sClient s) sid
            | _ \<Rightarrow> GetPodEvents (k8sClient s) sid);
     retE \<lparr>lr_Logs = (case l of Inr x \<Rightarrow> x | Inl _ \<Rightarrow> []), lr_Events = (case ev of Inr x \<Rightarrow> x | Inl _ \<Rightarrow> [])\<rparr> }"

definition SandboxService_Exec :: "'k SandboxService \<Rightarrow> string \<Rightarrow> string list \<Rightarrow> ('k, (string \<times> string \<times> int) res) prog" where
  "SandboxService_Exec s sid command = mapE (Wrap ''failed to exec'') (Exec (k8sClient s) sid command)"

definition SandboxService_UploadFile :: "'k SandboxService \<Rightarrow> string \<Rightarrow> string \<Rightarrow> string \<Rightarrow> ('k, unit res) prog" where
  "SandboxService_UploadFile s sid path content = UploadFile (k8sClient s) (streams s) sid path content"

definition SandboxService_DownloadFile :: "'k SandboxService \<Rightarrow> string \<Rightarrow> string \<Rightarrow> ('k, string res) prog" where
  "SandboxService_DownloadFile s sid path = DownloadFile (k8sClient s) (streams s) sid path"

section \<open>Delete, restart, stop, start\<close>

definition SandboxService_Delete :: "'k SandboxService \<Rightarrow> string \<Rightarrow> ('k, Sandbox res) prog" where
  "SandboxService_Delete s sid =
     seqE (GetByID sid) (\<lambda>found.
       case found of
         None \<Rightarrow> throw (Msg ''sandbox not found'')
       | Some r \<Rightarrow>
           if rec_LifecycleStatus r = ''deleted'' \<and> rec_DeletionPhase r = DeletionPhaseCompleted then
             retE (recordToSandboxMetadata s r)
           else if rec_DesiredState r = DesiredStateDeleted \<or> rec_LifecycleStatus r = ''terminating'' then
             retE (recordToSandboxMetadata s r)
           else do {
             now \<leftarrow> time_now;
             seqE (MarkDeletionRequested sid now) (\<lambda>_. do {
               ignore_err (AppendStatusHistory sid ''api'' (rec_LifecycleStatus r) SandboxStatusTerminating ''delete requested'' None now);
               retE (recordToSandboxMetadata s
                 (r\<lparr>rec_DesiredState := DesiredStateDeleted, rec_LifecycleStatus := ''terminating'',
                    rec_StatusReason := ''delete requested'', rec_DeletionPhase := DeletionPhaseRequested,
                    rec_DeletionStartedAt := Some now, rec_DeletionLastAttemptAt := None, rec_DeletionNextRetryAt := Some now,
                    rec_DeletionAttempts := 0, rec_DeletionForceLevel := 0, rec_DeletionLastError := [],
                    rec_DeletedAt := None\<rparr>)) }) })"

abbreviation "ErrSandboxNotFound \<equiv> Msg ''sandbox not found''"
abbreviation "ErrSandboxRestartNotSupported \<equiv> Msg ''sandbox restart is only supported for persistence-enabled sandboxes''"
abbreviation "ErrSandboxRestartInvalidState \<equiv> Msg ''sandbox is terminating or deleted''"
abbreviation "ErrSandboxStopNotSupported \<equiv> Msg ''sandbox stop is only supported for persistence-enabled sandboxes''"
abbreviation "ErrSandboxStopInvalidState \<equiv> Msg ''sandbox cannot be stopped in its current state''"
abbreviation "ErrSandboxStartNotSupported \<equiv> Msg ''sandbox start is only supported for persistence-enabled sandboxes''"
abbreviation "ErrSandboxNotStopped \<equiv> Msg ''sandbox is not stopped''"
abbreviation "ErrSandboxAlreadyStopped \<equiv> Msg ''sandbox is already stopped''"

definition present :: "SandboxRecord option \<Rightarrow> bool" where
  "present found \<longleftrightarrow>
     (case found of
        None \<Rightarrow> False
      | Some r \<Rightarrow> rec_LifecycleStatus r \<noteq> ''deleted'' \<and> rec_DesiredState r \<noteq> DesiredStateDeleted)"

text \<open>A call of the client whose \<open>NotFound\<close> is reported as \<open>ErrSandboxNotFound\<close>.\<close>

definition not_found_as :: "('k, unit res) prog \<Rightarrow> ('k, unit res) prog" where
  "not_found_as m = mapE (\<lambda>e. if is_not_found e then ErrSandboxNotFound else e) m"

definition SandboxService_Restart :: "'k SandboxService \<Rightarrow> string \<Rightarrow> ('k, unit res) prog" where
  "SandboxService_Restart s sid =
     seqE (GetByID sid) (\<lambda>found.
       if \<not> present found then throw ErrSandboxNotFound
       else let r = the found in
       if \<not> rec_PersistenceEnabled r then throw ErrSandboxRestartNotSupported
       else if rec_LifecycleStatus r = ''terminating'' then throw ErrSandboxRestartInvalidState
       else if rec_LifecycleStatus r = ''stopped'' then throw ErrSandboxRestartInvalidState
       else
         seqE (not_found_as (RestartPersistentSandbox (k8sClient s) sid)) (\<lambda>_. do {
         now \<leftarrow> time_now;
         seqE (UpdateStatus sid SandboxStatusPending ''restart requested'' now) (\<lambda>_. do {
         ignore_err (AppendStatusHistory sid ''api'' (rec_LifecycleStatus r) SandboxStatusPending ''restart requested'' None now);
         retE () }) }))"

definition SandboxService_Stop :: "'k SandboxService \<Rightarrow> string \<Rightarrow> ('k, unit res) prog" where
  "SandboxService_Stop s sid =
     seqE (GetByID sid) (\<lambda>found.
       if \<not> present found then throw ErrSandboxNotFound
       else let r = the found in
       if \<not> rec_PersistenceEnabled r then throw ErrSandboxStopNotSupported
       else if rec_LifecycleStatus r = ''stopped'' then throw ErrSandboxAlreadyStopped
       else if rec_LifecycleStatus r = ''terminating'' then throw ErrSandboxStopInvalidState
       else
         seqE (not_found_as (StopPersistentSandbox (k8sClient s) sid)) (\<lambda>_. do {
         now \<leftarrow> time_now;
         seqE (SetStopped sid now) (\<lambda>_. do {
         ignore_err (AppendStatusHistory sid ''api'' (rec_LifecycleStatus r) SandboxStatusStopped ''stopped by request'' None now);
         retE () }) }))"

definition SandboxService_Start :: "'k SandboxService \<Rightarrow> string \<Rightarrow> ('k, unit res) prog" where
  "SandboxService_Start s sid =
     seqE (GetByID sid) (\<lambda>found.
       if \<not> present found then throw ErrSandboxNotFound
       else let r = the found in
       if \<not> rec_PersistenceEnabled r then throw ErrSandboxStartNotSupported
       else if rec_LifecycleStatus r \<noteq> ''stopped'' then throw ErrSandboxNotStopped
       else
         seqE (not_found_as (StartPersistentSandbox (k8sClient s) sid)) (\<lambda>_. do {
         now \<leftarrow> time_now;
         let newExpiresAt = (case rec_StoppedAt r of
               None \<Rightarrow> rec_ExpiresAt r
             | Some stoppedAt \<Rightarrow> rec_ExpiresAt r + time_sub now stoppedAt);
         seqE (SetStarted sid newExpiresAt now) (\<lambda>_. do {
         ignore_err (AppendStatusHistory sid ''api'' SandboxStatusStopped SandboxStatusPending ''start requested'' None now);
         retE () }) }))"

section \<open>The cleaners\<close>

definition cleanHistoricalData :: "duration \<Rightarrow> ('k, unit) prog" where
  "cleanHistoricalData retention =
     (if retention \<le> 0 then ret ()
      else do { now \<leftarrow> time_now; ignore_err (PurgeHistoricalData (now - retention)) })"

definition expire_one :: "SandboxRecord \<Rightarrow> ('k, unit) prog" where
  "expire_one r = do {
     now \<leftarrow> time_now;
     e \<leftarrow> MarkDeletionRequested (rec_ID r) now;
     case e of
       Inl _ \<Rightarrow> ret ()
     | Inr _ \<Rightarrow> do {
         now2 \<leftarrow> time_now;
         ignore_err (AppendStatusHistory (rec_ID r) ''ttl_cleaner'' (rec_LifecycleStatus r) ''terminating'' ''ttl expired'' None now2) } }"

definition cleanExpiredSandboxes :: "('k, unit) prog" where
  "cleanExpiredSandboxes = do {
     now \<leftarrow> time_now;
     expired \<leftarrow> ListExpiredActive now;
     case expired of
       Inl _ \<Rightarrow> ret ()
     | Inr rs \<Rightarrow> for_each expire_one rs }"

section \<open>What the operations may do to the tables\<close>

text \<open>
  Every operation but the retention cleaner respects the preorders of \<open>store_client\<close>; the cleaner also
  deletes rows.
\<close>

locale store_purger = store_client +
  assumes purge: "r t (snd (purge_items c t))" "r t (snd (purge_runs c t))" "r t (snd (purge_history c t))"
    "r t (snd (purge_sandboxes c t))"
begin

lemma purge_rel: "state_io_rel (db_rel r) (PurgeHistoricalData c)"
  unfolding PurgeHistoricalData_def
proof (intro io_structure io_tx io_sql_stmt; (rule table_refl)?)
  fix t a t'
  show "Some (purge_items c t) = Some (a, t') \<Longrightarrow> r t t'" "Some (purge_runs c t) = Some (a, t') \<Longrightarrow> r t t'"
    "Some (purge_history c t) = Some (a, t') \<Longrightarrow> r t t'" "Some (purge_sandboxes c t) = Some (a, t') \<Longrightarrow> r t t'"
    using purge [of t c] by auto
qed

lemma cleaner_rel: "state_io_rel (db_rel r) (cleanHistoricalData d)"
  unfolding cleanHistoricalData_def ignore_err_def by (intro io_program purge_rel)

end

context store_client
begin

lemma ignore_rel: "state_io_rel (db_rel r) m \<Longrightarrow> state_io_rel (db_rel r) (ignore_err m)"
  unfolding ignore_err_def by (intro io_program)

lemma ok_true_rel: "state_io_rel (db_rel r) m \<Longrightarrow> state_io_rel (db_rel r) (ok_true m)"
  unfolding ok_true_def by (intro io_program)

lemmas service_client_rel = client_ops_rel ko_files [THEN client_rel]

lemma durable_rel:
  "state_io_rel (db_rel r) (updateStatusDurable i a b)"
  "state_io_rel (db_rel r) (updateStatusDurableIfActive i a b)"
  "state_io_rel (db_rel r) (appendStatusHistoryDurable i a b c d)"
  "state_io_rel (db_rel r) (updateObservedStateDurable i a b c d e)"
  "state_io_rel (db_rel r) (updatePersistentRuntimeStateIfActive i sn a b n)"
  unfolding updateStatusDurable_def updateStatusDurableIfActive_def appendStatusHistoryDurable_def
    updateObservedStateDurable_def updatePersistentRuntimeStateIfActive_def
  by (intro io_program ignore_rel ok_true_rel store_rel)+

lemmas base_rel = io_program ignore_rel ok_true_rel store_rel durable_rel service_client_rel

lemma settled_rel: "state_io_rel (db_rel r) (startup_settled i sn a b c)"
  unfolding startup_settled_def by (intro base_rel)

lemma timed_out_rel: "state_io_rel (db_rel r) (startup_timed_out c u i d p l)"
  unfolding startup_timed_out_def Let_def by (intro base_rel)

lemma loop_rel: "state_io_rel (db_rel r) (startup_loop c u i d p l n)"
proof (induction n arbitrary: l)
  case 0
  show ?case
    by (subst startup_loop.simps)
       (auto simp: Let_def split: sum.split prod.split persistentStartupState.split
         intro!: io_bind io_ret service_client_rel settled_rel timed_out_rel)
next
  case (Suc n)
  show ?case
    by (subst startup_loop.simps)
       (auto simp: Let_def split: sum.split prod.split persistentStartupState.split simp del: startup_loop.simps
         intro!: io_bind io_ret service_client_rel settled_rel Suc.IH)
qed

lemma tokens_rel:
  "state_io_rel (db_rel r) (GenerateToken n)"
  "state_io_rel (db_rel r) (Encrypt ci t)"
  "state_io_rel (db_rel r) generateID"
  unfolding GenerateToken_def Encrypt_def read_random_def generateID_def Let_def by (intro io_program)+

lemma create_runtime_rel: "state_io_rel (db_rel r) (create_runtime s x opts)"
  unfolding create_runtime_def create_failed_def Let_def
  by (intro base_rel) (auto split: go_err.split intro!: base_rel)

lemma create_from_rel: "state_io_rel (db_rel r) (create_from s req spec v cf)"
  unfolding create_from_def Let_def by (intro base_rel tokens_rel create_runtime_rel)

lemma template_reads_rel:
  "state_io_rel (db_rel r) (GetSpecForSandbox n v)"
  "state_io_rel (db_rel r) (TemplateService_Get n)"
  unfolding GetSpecForSandbox_def TemplateService_Get_def TemplateStore_Get_def TemplateStore_GetVersion_def Let_def
  by (intro io_program)+

lemma service_rel:
  "state_io_rel (db_rel r) (SandboxService_Create s req)"
  "state_io_rel (db_rel r) (SandboxService_Delete s sid)"
  "state_io_rel (db_rel r) (SandboxService_Restart s sid)"
  "state_io_rel (db_rel r) (SandboxService_Stop s sid)"
  "state_io_rel (db_rel r) (SandboxService_Start s sid)"
  "state_io_rel (db_rel r) cleanExpiredSandboxes"
  unfolding SandboxService_Create_def SandboxService_Delete_def SandboxService_Restart_def SandboxService_Stop_def
    SandboxService_Start_def cleanExpiredSandboxes_def expire_one_def not_found_as_def Let_def
  by (intro base_rel create_from_rel template_reads_rel)+

lemma tasks_rel: "state_io_rel (db_rel r) (runPostCreationTasks s t n)"
  unfolding runPostCreationTasks_def runPersistentStartupMonitor_def Let_def
  by (intro base_rel loop_rel)

end

interpretation wf_purger: store_purger "keeps tables_ok"
  by unfold_locales (auto simp: keeps_def purge_ok)

end
