(* ===== verification/Reconcile.thy ===== *)
theory Reconcile
  imports Sandbox_Service "HOL-Library.AList"
begin

text \<open>
  The reconciler, \<open>backend/internal/service/sandbox_reconcile.go\<close>: one pass compares the rows of the database
  with the pods of the cluster, repairs rows, and records every drift it sees. Its podMap is an association
  list from sandbox ids to indices of the pod list; the order in which Go ranges over the entries left in
  it is a parameter. The responses have the fields of the stored rows. The ticker of \<open>Start\<close> is not modelled.
\<close>

section \<open>The service\<close>

abbreviation "reconcileStatusRunning \<equiv> ''running''"
abbreviation "reconcileStatusCompleted \<equiv> ''completed''"
abbreviation "reconcileStatusFailed \<equiv> ''failed''"

record 'k SandboxReconcileService =
  rk_k8sClient :: "'k Client"
  lostGracePeriod :: duration
  rk_ulower :: "string \<Rightarrow> string"
  rangeOrder :: "string list \<Rightarrow> string list"

definition NewSandboxReconcileService ::
  "'k Client \<Rightarrow> (string \<Rightarrow> string) \<Rightarrow> (string list \<Rightarrow> string list) \<Rightarrow> 'k SandboxReconcileService" where
  "NewSandboxReconcileService c ulow ord =
     \<lparr>rk_k8sClient = c, lostGracePeriod = 10 * minute, rk_ulower = ulow, rangeOrder = ord\<rparr>"

type_synonym pod_map = "(string \<times> nat) list"

record reconcileResult =
  drifted :: bool
  fixed :: bool

definition add_item :: "string \<Rightarrow> string \<Rightarrow> string \<Rightarrow> string \<Rightarrow> string \<Rightarrow> time \<Rightarrow> ('k, unit) prog" where
  "add_item runID sid driftType action detail now =
     ignore_err (AddReconcileItem \<lparr>item_ID = 0, item_RunID = runID, item_SandboxID = sid, item_DriftType = driftType,
       item_Action = action, item_Detail = detail, item_CreatedAt = now\<rparr>)"

definition add_item_now :: "string \<Rightarrow> string \<Rightarrow> string \<Rightarrow> string \<Rightarrow> string \<Rightarrow> ('k, unit) prog" where
  "add_item_now runID sid driftType action detail = do {
     now \<leftarrow> time_now;
     add_item runID sid driftType action detail now }"

definition history_now :: "string \<Rightarrow> string \<Rightarrow> string \<Rightarrow> string \<Rightarrow> ('k, unit) prog" where
  "history_now sid fromStatus toStatus reason = do {
     now \<leftarrow> time_now;
     ignore_err (AppendStatusHistory sid ''reconcile'' fromStatus toStatus reason None now) }"

definition missing_since :: "SandboxRecord \<Rightarrow> time" where
  "missing_since r = (case rec_LastSeenAt r of None \<Rightarrow> rec_CreatedAt r | Some s \<Rightarrow> s)"

section \<open>Stopped and deleted sandboxes\<close>

definition shouldTreatPersistentSandboxAsStopped :: "SandboxRecord \<Rightarrow> PersistentSandboxSnapshot \<Rightarrow> bool" where
  "shouldTreatPersistentSandboxAsStopped r snapshot \<longleftrightarrow>
     (case pss_Deployment snapshot of
        None \<Rightarrow> False
      | Some d \<Rightarrow>
          if trim_space (rec_LifecycleStatus r) \<noteq> SandboxStatusStopped \<and> rec_StoppedAt r = None then False
          else (case dep_Replicas d of None \<Rightarrow> False | Some n \<Rightarrow> n = 0))"

definition isTerminalOrDeletingPod :: "Pod option \<Rightarrow> bool" where
  "isTerminalOrDeletingPod p \<longleftrightarrow>
     (case p of
        None \<Rightarrow> False
      | Some pod \<Rightarrow>
          om_DeletionTimestamp (pod_Meta pod) \<noteq> None \<or> pod_Phase pod = PodSucceeded \<or> pod_Phase pod = PodFailed)"

text \<open>The three parts of \<open>reconcileStoppedPersistentSandbox\<close>; each may add to the result.\<close>

definition backfill_stopped_at :: "string \<Rightarrow> SandboxRecord \<Rightarrow> time \<Rightarrow> reconcileResult \<Rightarrow> ('k, reconcileResult res) prog" where
  "backfill_stopped_at runID r now result =
     (if rec_StoppedAt r = None then
        seqE (EnsureStoppedAt (rec_ID r) now) (\<lambda>_. do {
          add_item runID (rec_ID r) ''status_mismatch'' ''backfill_stopped_at''
            ''persistent sandbox backfilled missing stopped_at because deployment replicas is 0'' now;
          retE (result\<lparr>drifted := True, fixed := True\<rparr>) })
      else retE result)"

definition cleanup_residual_pod ::
  "'k SandboxReconcileService \<Rightarrow> string \<Rightarrow> SandboxRecord \<Rightarrow> Pod option \<Rightarrow> time \<Rightarrow> reconcileResult \<Rightarrow> ('k, reconcileResult res) prog" where
  "cleanup_residual_pod s runID r p now result =
     (case p of
        None \<Rightarrow> retE result
      | Some pod \<Rightarrow>
          let action = (if isTerminalOrDeletingPod p then ''cleanup_residual_pod'' else ''cleanup_unexpected_pod'');
              name = om_Name (pod_Meta pod)
          in do {
            d \<leftarrow> DeletePodByName (rk_k8sClient s) name;
            let failed = (case d of Inl e \<Rightarrow> if is_not_found e then None else Some e | Inr _ \<Rightarrow> None);
            case failed of
              Some e \<Rightarrow> do {
                add_item runID (rec_ID r) ''status_mismatch'' ''cleanup_failed''
                  (''stopped sandbox keeps residual pod '' @ name @ '' in phase '' @ pod_Phase pod @ '': '' @ err_text e) now;
                throw e }
            | None \<Rightarrow> do {
                add_item runID (rec_ID r) ''status_mismatch'' action
                  (''stopped sandbox cleaned residual pod '' @ name @ '' in phase '' @ pod_Phase pod @
                   '' while deployment replicas is 0'') now;
                retE (result\<lparr>drifted := True, fixed := True\<rparr>) } })"

definition preserve_stopped :: "string \<Rightarrow> SandboxRecord \<Rightarrow> time \<Rightarrow> reconcileResult \<Rightarrow> ('k, reconcileResult res) prog" where
  "preserve_stopped runID r now result =
     (let trimmed = trim_space (rec_StatusReason r);
          statusReason = (if trimmed = [] then ''stopped by request'' else trimmed)
      in if rec_LifecycleStatus r \<noteq> SandboxStatusStopped \<or> rec_StatusReason r \<noteq> statusReason \<or>
            rec_PodUID r \<noteq> [] \<or> rec_PodPhase r \<noteq> [] \<or> rec_PodIP r \<noteq> [] then
           seqE (UpdateObservedStateIfActive (rec_ID r) [] [] [] SandboxStatusStopped statusReason now now) (\<lambda>updated. do {
             (if updated \<and> rec_LifecycleStatus r \<noteq> SandboxStatusStopped
              then ignore_err (AppendStatusHistory (rec_ID r) ''reconcile'' (rec_LifecycleStatus r) SandboxStatusStopped
                     ''reconcile: deployment scaled to zero'' None now)
              else ret ());
             add_item runID (rec_ID r) ''status_mismatch'' ''preserve_stopped''
               ''persistent sandbox remains stopped because deployment replicas is 0'' now;
             retE (result\<lparr>drifted := True, fixed := fixed result \<or> updated\<rparr>) })
         else retE result)"

definition reconcileStoppedPersistentSandbox ::
  "'k SandboxReconcileService \<Rightarrow> string \<Rightarrow> SandboxRecord \<Rightarrow> PersistentSandboxSnapshot \<Rightarrow> ('k, reconcileResult res) prog" where
  "reconcileStoppedPersistentSandbox s runID r snapshot = do {
     now \<leftarrow> time_now;
     seqE (backfill_stopped_at runID r now \<lparr>drifted = False, fixed = False\<rparr>) (\<lambda>result.
     seqE (cleanup_residual_pod s runID r (pss_Pod snapshot) now result) (\<lambda>result.
     preserve_stopped runID r now result)) }"

definition reconcileDeletedSandbox :: "string \<Rightarrow> SandboxRecord \<Rightarrow> pod_map \<Rightarrow> ('k, (pod_map \<times> reconcileResult) res) prog" where
  "reconcileDeletedSandbox runID r podMap =
     (if map_of podMap (rec_ID r) \<noteq> None then do {
        add_item_now runID (rec_ID r) ''status_mismatch'' ''deletion_pending''
          ''delete convergence in progress: residual pod found'';
        retE (AList.delete (rec_ID r) podMap, \<lparr>drifted = True, fixed = False\<rparr>) }
      else if rec_LifecycleStatus r \<noteq> ''deleted'' then do {
        add_item_now runID (rec_ID r) ''status_mismatch'' ''deletion_pending''
          ''delete requested with no residual pod; deletion service should complete'';
        retE (podMap, \<lparr>drifted = True, fixed = False\<rparr>) }
      else retE (podMap, \<lparr>drifted = False, fixed = False\<rparr>))"

definition reconcileDeletedPersistentSandbox ::
  "string \<Rightarrow> SandboxRecord \<Rightarrow> PersistentSandboxSnapshot \<Rightarrow> ('k, reconcileResult res) prog" where
  "reconcileDeletedPersistentSandbox runID r snapshot = do {
     now \<leftarrow> time_now;
     let hasResidualDeployment = (pss_Deployment snapshot \<noteq> None);
     let hasResidualPod = (pss_Pod snapshot \<noteq> None);
     let hasResidualPVC = (pss_PVC snapshot \<noteq> None \<and> rec_VolumeReclaimPolicy r \<noteq> ''Retain'');
     if hasResidualDeployment \<or> hasResidualPod \<or> hasResidualPVC then do {
       add_item runID (rec_ID r) ''status_mismatch'' ''deletion_pending''
         (if hasResidualPVC then ''delete convergence in progress: residual pvc found''
          else if hasResidualPod then ''delete convergence in progress: residual pod found''
          else ''delete convergence in progress: residual deployment found'') now;
       retE \<lparr>drifted = True, fixed = False\<rparr> }
     else if rec_LifecycleStatus r \<noteq> ''deleted'' then do {
       add_item runID (rec_ID r) ''status_mismatch'' ''deletion_pending''
         ''delete requested with no residual runtime; deletion service should complete'' now;
       retE \<lparr>drifted = True, fixed = False\<rparr> }
     else retE \<lparr>drifted = False, fixed = False\<rparr> }"

section \<open>Persistent sandboxes\<close>

definition persistent_missing ::
  "'k SandboxReconcileService \<Rightarrow> string \<Rightarrow> SandboxRecord \<Rightarrow> ('k, reconcileResult res) prog" where
  "persistent_missing s runID r =
     (if rec_LifecycleStatus r = ''stopped'' then retE \<lparr>drifted = False, fixed = False\<rparr>
      else do {
        (action, isfixed) \<leftarrow>
          (if rec_LifecycleStatus r = ''terminating'' then do {
             now \<leftarrow> time_now;
             e \<leftarrow> MarkDeleted (rec_ID r) ''reconcile: persistent runtime not found'' now;
             case e of
               Inl _ \<Rightarrow> ret (''none'', False)
             | Inr _ \<Rightarrow> do {
                 history_now (rec_ID r) (rec_LifecycleStatus r) ''deleted'' ''reconcile: persistent runtime not found'';
                 ret (''mark_deleted'', True) } }
           else if rec_LifecycleStatus r = ''deleted'' then ret (''none'', False)
           else do {
             now \<leftarrow> time_now;
             if time_sub now (missing_since r) \<ge> lostGracePeriod s then do {
               now2 \<leftarrow> time_now;
               updated \<leftarrow> ok_true (UpdateStatusIfActive (rec_ID r) ''lost'' ''reconcile: persistent runtime missing beyond grace period'' now2);
               if updated then do {
                 history_now (rec_ID r) (rec_LifecycleStatus r) ''lost'' ''reconcile: persistent runtime missing beyond grace period'';
                 ret (''mark_lost'', True) }
               else ret (''none'', False) }
             else ret (''none'', False) });
        add_item_now runID (rec_ID r) ''missing_in_k8s'' action
          ''persistent sandbox exists in DB but deployment, pvc and pod not found in cluster'';
        retE \<lparr>drifted = True, fixed = isfixed\<rparr> })"

definition pod_differs :: "SandboxRecord \<Rightarrow> Pod \<Rightarrow> bool" where
  "pod_differs r pod \<longleftrightarrow>
     rec_PodUID r \<noteq> om_UID (pod_Meta pod) \<or> rec_PodPhase r \<noteq> pod_Phase pod \<or> rec_PodIP r \<noteq> pod_PodIP pod"

definition persistent_ready :: "string \<Rightarrow> SandboxRecord \<Rightarrow> Pod \<Rightarrow> ('k, reconcileResult res) prog" where
  "persistent_ready runID r pod =
     (if rec_LifecycleStatus r \<noteq> SandboxStatusRunning \<or> rec_StatusReason r \<noteq> [] \<or> pod_differs r pod then do {
        now1 \<leftarrow> time_now;
        now2 \<leftarrow> time_now;
        updated \<leftarrow> ok_true (UpdateObservedStateIfActive (rec_ID r) (om_UID (pod_Meta pod)) (pod_Phase pod) (pod_PodIP pod)
          SandboxStatusRunning [] now1 now2);
        (if updated then history_now (rec_ID r) (rec_LifecycleStatus r) SandboxStatusRunning ''reconcile: persistent sandbox is ready''
         else ret ());
        add_item_now runID (rec_ID r) ''status_mismatch'' ''none''
          (''db_status='' @ rec_LifecycleStatus r @ '', persistent_state=running'');
        retE \<lparr>drifted = True, fixed = updated\<rparr> }
      else retE \<lparr>drifted = False, fixed = False\<rparr>)"

text \<open>The row of a sandbox whose pod may be missing.\<close>

definition write_observed :: "SandboxRecord \<Rightarrow> Pod option \<Rightarrow> string \<Rightarrow> string \<Rightarrow> time \<Rightarrow> ('k, bool) prog" where
  "write_observed r p status reason now =
     ok_true (case p of
       Some pod \<Rightarrow> UpdateObservedStateIfActive (rec_ID r) (om_UID (pod_Meta pod)) (pod_Phase pod) (pod_PodIP pod) status reason now now
     | None \<Rightarrow> UpdateStatusIfActive (rec_ID r) status reason now)"

definition persistent_failed :: "string \<Rightarrow> SandboxRecord \<Rightarrow> Pod option \<Rightarrow> string \<Rightarrow> ('k, reconcileResult res) prog" where
  "persistent_failed runID r p reason =
     (if rec_LifecycleStatus r \<noteq> SandboxStatusFailed \<or> rec_StatusReason r \<noteq> reason \<or>
         (case p of None \<Rightarrow> False | Some pod \<Rightarrow> pod_differs r pod) then do {
        now \<leftarrow> time_now;
        updated \<leftarrow> write_observed r p SandboxStatusFailed reason now;
        (if updated then ignore_err (AppendStatusHistory (rec_ID r) ''reconcile'' (rec_LifecycleStatus r) SandboxStatusFailed reason None now)
         else ret ());
        add_item runID (rec_ID r) ''status_mismatch'' ''none''
          (''db_status='' @ rec_LifecycleStatus r @ '', persistent_state=failed'') now;
        retE \<lparr>drifted = True, fixed = updated\<rparr> }
      else retE \<lparr>drifted = False, fixed = False\<rparr>)"

definition persistent_pending :: "string \<Rightarrow> SandboxRecord \<Rightarrow> Pod option \<Rightarrow> ('k, reconcileResult res) prog" where
  "persistent_pending runID r p =
     (if rec_LifecycleStatus r = SandboxStatusFailed then retE \<lparr>drifted = False, fixed = False\<rparr>
      else if rec_LifecycleStatus r \<noteq> SandboxStatusPending \<or> rec_StatusReason r \<noteq> [] \<or>
         (case p of None \<Rightarrow> rec_PodUID r \<noteq> [] \<or> rec_PodPhase r \<noteq> [] \<or> rec_PodIP r \<noteq> [] | Some pod \<Rightarrow> pod_differs r pod) then do {
        now \<leftarrow> time_now;
        updated \<leftarrow> write_observed r p SandboxStatusPending [] now;
        (if updated \<and> rec_LifecycleStatus r \<noteq> SandboxStatusPending
         then ignore_err (AppendStatusHistory (rec_ID r) ''reconcile'' (rec_LifecycleStatus r) SandboxStatusPending
                ''reconcile: persistent sandbox is pending'' None now)
         else ret ());
        add_item runID (rec_ID r) ''status_mismatch'' ''none''
          (''db_status='' @ rec_LifecycleStatus r @ '', persistent_state=pending'') now;
        retE \<lparr>drifted = True, fixed = updated\<rparr> }
      else retE \<lparr>drifted = False, fixed = False\<rparr>)"

definition persistent_live ::
  "'k SandboxReconcileService \<Rightarrow> string \<Rightarrow> SandboxRecord \<Rightarrow> PersistentSandboxSnapshot \<Rightarrow> ('k, reconcileResult res) prog" where
  "persistent_live s runID r snapshot =
     (if pss_Pod snapshot = None \<and> pss_PVC snapshot = None \<and> pss_Deployment snapshot = None then
        persistent_missing s runID r
      else if shouldTreatPersistentSandboxAsStopped r snapshot then
        reconcileStoppedPersistentSandbox s runID r snapshot
      else case classifyPersistentStartup (rk_ulower s) (Some snapshot) of
        (persistentStartupReady, reason) \<Rightarrow> persistent_ready runID r (the (pss_Pod snapshot))
      | (persistentStartupFailed, reason) \<Rightarrow> persistent_failed runID r (pss_Pod snapshot) reason
      | (persistentStartupPending, reason) \<Rightarrow> persistent_pending runID r (pss_Pod snapshot))"

definition reconcilePersistentSandbox ::
  "'k SandboxReconcileService \<Rightarrow> string \<Rightarrow> SandboxRecord \<Rightarrow> pod_map \<Rightarrow> ('k, (pod_map \<times> reconcileResult) res) prog" where
  "reconcilePersistentSandbox s runID r podMap =
     seqE (GetPersistentSandboxSnapshot (rk_k8sClient s) (rec_ID r) (rec_RuntimeName r) (rec_VolumeClaimName r)) (\<lambda>snapshot.
     seqE (if rec_DesiredState r = DesiredStateDeleted then reconcileDeletedPersistentSandbox runID r snapshot
           else persistent_live s runID r snapshot) (\<lambda>result.
     retE (if pss_Pod snapshot \<noteq> None then AList.delete (rec_ID r) podMap else podMap, result)))"

section \<open>A pass\<close>

text \<open>An active row of a sandbox without a volume: its pod is missing, or is compared with the row.\<close>

definition ephemeral_missing :: "'k SandboxReconcileService \<Rightarrow> string \<Rightarrow> SandboxRecord \<Rightarrow> ('k, reconcileResult) prog" where
  "ephemeral_missing s runID r =
     (if rec_LifecycleStatus r = ''stopped'' then ret \<lparr>drifted = True, fixed = False\<rparr>
      else do {
        (action, isfixed) \<leftarrow>
          (if rec_LifecycleStatus r = ''terminating'' then do {
             now \<leftarrow> time_now;
             e \<leftarrow> MarkDeleted (rec_ID r) ''reconcile: pod not found'' now;
             ret (case e of Inl _ \<Rightarrow> (''none'', False) | Inr _ \<Rightarrow> (''mark_deleted'', True)) }
           else if rec_LifecycleStatus r = ''deleted'' then ret (''none'', False)
           else do {
             now \<leftarrow> time_now;
             if time_sub now (missing_since r) \<ge> lostGracePeriod s then do {
               now2 \<leftarrow> time_now;
               updated \<leftarrow> ok_true (UpdateStatusIfActive (rec_ID r) ''lost'' ''reconcile: pod missing beyond grace period'' now2);
               ret (if updated then (''mark_lost'', True) else (''none'', False)) }
             else ret (''none'', False) });
        add_item_now runID (rec_ID r) ''missing_in_k8s'' action ''sandbox exists in DB but pod not found in cluster'';
        ret \<lparr>drifted = True, fixed = isfixed\<rparr> })"

definition ephemeral_present :: "string \<Rightarrow> SandboxRecord \<Rightarrow> Pod \<Rightarrow> ('k, reconcileResult) prog" where
  "ephemeral_present runID r pod =
     (if pod_differs r pod \<or> rec_LifecycleStatus r \<noteq> convertPodStatus pod then do {
        now1 \<leftarrow> time_now;
        now2 \<leftarrow> time_now;
        updated \<leftarrow> ok_true (UpdateObservedStateIfActive (rec_ID r) (om_UID (pod_Meta pod)) (pod_Phase pod) (pod_PodIP pod)
          (convertPodStatus pod) [] now1 now2);
        add_item_now runID (rec_ID r) ''status_mismatch'' ''none''
          (''db_status='' @ rec_LifecycleStatus r @ '', pod_phase='' @ pod_Phase pod);
        ret \<lparr>drifted = True, fixed = updated\<rparr> }
      else ret \<lparr>drifted = False, fixed = False\<rparr>)"

text \<open>The body of the loop over the rows.\<close>

definition reconcile_row ::
  "'k SandboxReconcileService \<Rightarrow> string \<Rightarrow> Pod list \<Rightarrow> SandboxRecord \<Rightarrow> pod_map \<Rightarrow> ('k, (pod_map \<times> reconcileResult) res) prog" where
  "reconcile_row s runID pods r podMap =
     (if rec_PersistenceEnabled r then reconcilePersistentSandbox s runID r podMap
      else if rec_DesiredState r = DesiredStateDeleted then reconcileDeletedSandbox runID r podMap
      else case map_of podMap (rec_ID r) of
        None \<Rightarrow> do { result \<leftarrow> ephemeral_missing s runID r; retE (podMap, result) }
      | Some idx \<Rightarrow> do {
          result \<leftarrow> ephemeral_present runID r (pods ! idx);
          retE (AList.delete (rec_ID r) podMap, result) })"

definition count_if :: "bool \<Rightarrow> int \<Rightarrow> int" where
  "count_if b n = (if b then n + 1 else n)"

text \<open>The loop; an error ends the run as failed with the counts so far.\<close>

fun reconcile_rows ::
  "'k SandboxReconcileService \<Rightarrow> string \<Rightarrow> int \<Rightarrow> Pod list \<Rightarrow> SandboxRecord list \<Rightarrow> pod_map \<Rightarrow> int \<Rightarrow> int \<Rightarrow>
    ('k, (pod_map \<times> int \<times> int) res) prog" where
  "reconcile_rows s runID totalDB pods [] podMap driftCount fixedCount = retE (podMap, driftCount, fixedCount)"
| "reconcile_rows s runID totalDB pods (r # rest) podMap driftCount fixedCount = do {
     x \<leftarrow> reconcile_row s runID pods r podMap;
     case x of
       Inl e \<Rightarrow> do {
         now \<leftarrow> time_now;
         ignore_err (FinishReconcileRun runID reconcileStatusFailed (err_text e) totalDB (int (length pods)) driftCount fixedCount now);
         throw e }
     | Inr (podMap', result) \<Rightarrow>
         reconcile_rows s runID totalDB pods rest podMap'
           (count_if (drifted result) driftCount) (count_if (fixed result) fixedCount) }"

definition pod_sandbox_id :: "Pod \<Rightarrow> string" where
  "pod_sandbox_id pod =
     (case om_Labels (pod_Meta pod) of
        None \<Rightarrow> []
      | Some ls \<Rightarrow> (case map_of ls LabelSandboxID of None \<Rightarrow> [] | Some v \<Rightarrow> v))"

definition build_pod_map :: "Pod list \<Rightarrow> pod_map" where
  "build_pod_map pods =
     fold (\<lambda>(i, pod) m. if pod_sandbox_id pod = [] then m else AList.update (pod_sandbox_id pod) i m)
       (enumerate 0 pods) []"

definition report_unknown :: "string \<Rightarrow> string \<Rightarrow> ('k, unit) prog" where
  "report_unknown runID sandboxID =
     add_item_now runID sandboxID ''missing_in_db'' ''alert_only'' ''sandbox pod exists in cluster but missing in DB''"

definition GetRun :: "string \<Rightarrow> ('k, (ReconcileRunRecord \<times> ReconcileItemRecord list) option res) prog" where
  "GetRun runID =
     seqE (GetReconcileRun runID) (\<lambda>run.
     case run of
       None \<Rightarrow> retE None
     | Some rr \<Rightarrow> seqE (ListReconcileItems runID) (\<lambda>items. retE (Some (rr, items))))"

definition ListRuns :: "int \<Rightarrow> ('k, ReconcileRunRecord list res) prog" where
  "ListRuns limit = ListReconcileRuns limit"

definition finish_failed :: "string \<Rightarrow> go_err \<Rightarrow> int \<Rightarrow> ('k, 'a res) prog" where
  "finish_failed runID e totalDB = do {
     now \<leftarrow> time_now;
     ignore_err (FinishReconcileRun runID reconcileStatusFailed (err_text e) totalDB 0 0 0 now);
     throw e }"

text \<open>The pass over the rows that were read, and the whole run.\<close>

definition reconcile_pods :: "'k SandboxReconcileService \<Rightarrow> string \<Rightarrow> SandboxRecord list \<Rightarrow>
    ('k, (ReconcileRunRecord \<times> ReconcileItemRecord list) option res) prog" where
  "reconcile_pods s runID dbRecords = do {
     podList \<leftarrow> ListPods (rk_k8sClient s);
     case podList of
       Inl e \<Rightarrow> finish_failed runID e (int (length dbRecords))
     | Inr pods \<Rightarrow>
         seqE (reconcile_rows s runID (int (length dbRecords)) pods dbRecords (build_pod_map pods) 0 0)
           (\<lambda>(podMap, driftCount, fixedCount). do {
         let unknown = rangeOrder s (map fst podMap);
         for_each (report_unknown runID) unknown;
         finishedAt \<leftarrow> time_now;
         seqE (FinishReconcileRun runID reconcileStatusCompleted [] (int (length dbRecords)) (int (length pods))
                 (driftCount + int (length unknown)) fixedCount finishedAt) (\<lambda>_.
         GetRun runID) }) }"

definition Run :: "'k SandboxReconcileService \<Rightarrow> string \<Rightarrow>
    ('k, (ReconcileRunRecord \<times> ReconcileItemRecord list) option res) prog" where
  "Run s trigger = do {
     u \<leftarrow> new_uuid;
     let runID = ''rec-'' @ take 8 u;
     now \<leftarrow> time_now;
     seqE (CreateReconcileRun \<lparr>run_ID = runID, run_TriggerType = trigger, run_StartedAt = now, run_FinishedAt = None,
             run_TotalDB = 0, run_TotalK8s = 0, run_DriftCount = 0, run_FixedCount = 0,
             run_Status = reconcileStatusRunning, run_Error = []\<rparr>) (\<lambda>_. do {
     dbRecords \<leftarrow> ListForReconcile;
     case dbRecords of
       Inl e \<Rightarrow> finish_failed runID e 0
     | Inr recs \<Rightarrow> reconcile_pods s runID recs }) }"

section \<open>What a pass may do to the tables\<close>

lemmas reconcile_helpers =
  add_item_def add_item_now_def history_now_def write_observed_def ignore_err_def ok_true_def finish_failed_def
  report_unknown_def

lemmas reconcile_parts =
  backfill_stopped_at_def cleanup_residual_pod_def preserve_stopped_def reconcileStoppedPersistentSandbox_def
  reconcileDeletedSandbox_def reconcileDeletedPersistentSandbox_def persistent_missing_def persistent_ready_def
  persistent_failed_def persistent_pending_def persistent_live_def reconcilePersistentSandbox_def
  ephemeral_missing_def ephemeral_present_def reconcile_row_def

text \<open>
  A preorder on worlds that the statements a pass issues for one sandbox respect; \<open>md\<close> and \<open>es\<close> say
  whether it may complete the deletion of that sandbox and whether it may fill in its stop time.
\<close>

locale pass_preorder = world_preorder R for R :: "'k world \<Rightarrow> 'k world \<Rightarrow> bool" +
  fixes sid :: string and md es :: bool
  assumes outside: "db_same w w' \<Longrightarrow> R w w'"
    and status: "state_io_rel R (UpdateStatusIfActive sid a b n)"
    and observed: "state_io_rel R (UpdateObservedStateIfActive sid u p i a b m n)"
    and history: "state_io_rel R (AppendStatusHistory sid c a d b pl n)"
    and item: "state_io_rel R (AddReconcileItem it)"
    and mark: "md \<Longrightarrow> state_io_rel R (MarkDeleted sid b n)"
    and ensure: "es \<Longrightarrow> state_io_rel R (EnsureStoppedAt sid n)"
begin

lemma client: "state_io_rel db_same m \<Longrightarrow> state_io_rel R m"
  using outside by (auto simp: state_io_rel_def)

lemmas steps =
  io_structure status observed history item client [OF ko_time] client [OF ko_snapshot]
  client [OF ko_deletes(3)]

lemma helpers_ok:
  "state_io_rel R (add_item runID i a b c n)"
  "state_io_rel R (add_item_now runID i a b c)"
  "state_io_rel R (history_now sid a b c)"
  unfolding reconcile_helpers by (intro steps)+

lemma write_ok:
  assumes "rec_ID r = sid"
  shows "state_io_rel R (write_observed r p a b n)"
  unfolding reconcile_helpers assms by (intro steps)

lemma stopped_ok:
  assumes "rec_ID r = sid" "rec_StoppedAt r = None \<Longrightarrow> es"
  shows "state_io_rel R (reconcileStoppedPersistentSandbox s runID r snapshot)"
  unfolding reconcileStoppedPersistentSandbox_def backfill_stopped_at_def cleanup_residual_pod_def preserve_stopped_def
    Let_def ignore_err_def assms(1)
  using assms(2) by (intro steps helpers_ok ensure) auto

lemma missing_ok:
  assumes "rec_ID r = sid" "rec_LifecycleStatus r = ''terminating'' \<Longrightarrow> md"
  shows "state_io_rel R (persistent_missing s runID r)" "state_io_rel R (ephemeral_missing s runID r)"
  unfolding persistent_missing_def ephemeral_missing_def ok_true_def assms(1)
  using assms(2) by (intro steps helpers_ok mark; simp)+

lemma present_ok:
  assumes "rec_ID r = sid"
  shows "state_io_rel R (ephemeral_present runID r pod)"
    "state_io_rel R (persistent_ready runID r pod)"
    "state_io_rel R (persistent_failed runID r q x)"
    "state_io_rel R (persistent_pending runID r q)"
  unfolding ephemeral_present_def persistent_ready_def persistent_failed_def persistent_pending_def
    ok_true_def ignore_err_def assms
  by (intro steps helpers_ok write_ok assms)+

lemma deleted_ok:
  "state_io_rel R (reconcileDeletedSandbox runID r pm)"
  "state_io_rel R (reconcileDeletedPersistentSandbox runID r snapshot)"
  unfolding reconcileDeletedSandbox_def reconcileDeletedPersistentSandbox_def Let_def
  by (intro steps helpers_ok)+

lemma row_ok:
  assumes "rec_ID r = sid"
    and "rec_DesiredState r \<noteq> DesiredStateDeleted \<Longrightarrow> rec_LifecycleStatus r = ''terminating'' \<Longrightarrow> md"
    and "rec_DesiredState r \<noteq> DesiredStateDeleted \<Longrightarrow> trim_space (rec_LifecycleStatus r) = SandboxStatusStopped \<Longrightarrow> es"
  shows "state_io_rel R (reconcile_row s runID pods r pm)"
proof -
  have live: "state_io_rel R (persistent_live s runID r snapshot)" if "rec_DesiredState r \<noteq> DesiredStateDeleted" for snapshot
    unfolding persistent_live_def using that assms
    by (auto simp: shouldTreatPersistentSandboxAsStopped_def split: option.splits prod.split persistentStartupState.split
        intro!: stopped_ok missing_ok present_ok)
  show ?thesis
    unfolding reconcile_row_def reconcilePersistentSandbox_def
    using assms by (intro steps deleted_ok live missing_ok present_ok; simp)
qed

end

text \<open>A pass respects every preorder that the writes of the store respect.\<close>

sublocale store_client \<subseteq> pass: pass_preorder "db_rel r" sid True True for sid
  by unfold_locales (auto simp: db_same_def db_rel_def table_refl intro: store_rel)

context store_client
begin

lemma rows_rel: "state_io_rel (db_rel r) (reconcile_rows s runID n pods rs pm d f)"
proof (induction rs arbitrary: pm d f)
  case (Cons x rs)
  show ?case
    unfolding reconcile_rows.simps ignore_err_def
    by (intro io_program store_rel pass.row_ok [where sid = "rec_ID x"] Cons.IH) simp_all
qed (simp add: io_ret)

lemma Run_rel: "state_io_rel (db_rel r) (Run s trigger)"
  unfolding Run_def reconcile_pods_def GetRun_def Let_def reconcile_helpers
  by (intro io_program store_rel rows_rel client_ops_rel)

end

text \<open>Rows that are not active are left alone.\<close>

lemma guarded_item: "state_io_rel (db_rel (guarded sid)) (AddReconcileItem it)"
  unfolding AddReconcileItem_def by (rule io_sql_stmt) (auto simp: gw.table_refl guarded_same split: if_splits)

interpretation guarded_pass: pass_preorder "db_rel (guarded sid)" sid False False for sid
  by unfold_locales
     (auto simp: db_same_def db_rel_def gw.table_refl intro: guarded_UpdateStatus guarded_UpdateObserved guarded_history guarded_item)

text \<open>The columns of a row that a pass never writes.\<close>

definition identity :: "SandboxRecord \<Rightarrow> string \<times> int \<times> time \<times> time \<times> string \<times> bool \<times> string \<times> string" where
  "identity r = (rec_Image r, rec_TTL r, rec_CreatedAt r, rec_ExpiresAt r, rec_AccessTokenSHA256 r,
     rec_PersistenceEnabled r, rec_VolumeClaimName r, rec_RuntimeName r)"

definition row_moves :: "bool \<Rightarrow> SandboxRecord \<Rightarrow> SandboxRecord \<Rightarrow> bool" where
  "row_moves md r r' \<longleftrightarrow>
     identity r' = identity r \<and> (rec_DesiredState r' = rec_DesiredState r \<or> md \<and> rec_DesiredState r' = DesiredStateDeleted)"

definition moves :: "bool \<Rightarrow> string \<Rightarrow> tables \<Rightarrow> tables \<Rightarrow> bool" where
  "moves md sid t t' \<longleftrightarrow>
     touches sid t t' \<and>
     (\<forall>r. lookup rec_ID sid (sandboxes t) = Some r \<longrightarrow>
        (\<exists>r'. lookup rec_ID sid (sandboxes t') = Some r' \<and> row_moves md r r'))"

lemma row_moves_trans: "row_moves md r x \<Longrightarrow> row_moves md x y \<Longrightarrow> row_moves md r y"
  by (auto simp: row_moves_def)

interpretation mv: table_preorder "moves md sid" for md sid
proof unfold_locales
  fix t u v
  assume "moves md sid t u" "moves md sid u v"
  then show "moves md sid t v"
    unfolding moves_def by (blast intro: frame.table_trans row_moves_trans)
qed (simp add: moves_def frame.table_refl row_moves_def)

lemma moves_same: "sandboxes t' = sandboxes t \<Longrightarrow> moves md sid t t'"
  by (simp add: moves_def touches_def other_rows_def row_moves_def)

lemmas moves_row_defs = moves_def row_moves_def identity_def row_defs

interpretation moving_pass: pass_preorder "db_rel (moves md sid)" sid md True for md sid
proof unfold_locales
  show "db_rel (moves md sid) w w'" if "db_same w w'" for w w' :: "'a world"
    using that by (simp add: db_same_def db_rel_def mv.table_refl)
  show "state_io_rel (db_rel (moves md sid)) (UpdateStatusIfActive sid a b n)" for a b n
    unfolding UpdateStatusIfActive_def update_sandbox_if_def
    by (rule io_sql_stmt)
       (auto simp: mv.table_refl moves_row_defs update_status_active.lookup_upd update_status_active.touches_upd)
  show "state_io_rel (db_rel (moves md sid)) (UpdateObservedStateIfActive sid u p i a b m n)" for u p i a b m n
    unfolding UpdateObservedStateIfActive_def update_sandbox_if_def
    by (rule io_sql_stmt)
       (auto simp: mv.table_refl moves_row_defs observed_active.lookup_upd observed_active.touches_upd)
  show "state_io_rel (db_rel (moves md sid)) (AppendStatusHistory sid c a d b pl n)" for c a d b pl n
    unfolding AppendStatusHistory_def Let_def
    by (auto split: option.split sum.split simp: moves_same intro!: mv.io_ret io_sql_stmt split: if_splits)
  show "state_io_rel (db_rel (moves md sid)) (AddReconcileItem it)" for it
    unfolding AddReconcileItem_def by (rule io_sql_stmt) (auto simp: moves_same split: if_splits)
  show "state_io_rel (db_rel (moves md sid)) (MarkDeleted sid b n)" if md for b n
    unfolding MarkDeleted_def MarkDeletionCompleted_def
    by (rule io_sql_stmt)
       (use that in \<open>auto simp: mv.table_refl moves_row_defs deletion_completed.lookup_upd deletion_completed.touches_upd\<close>)
  show "state_io_rel (db_rel (moves md sid)) (EnsureStoppedAt sid n)" for n
    unfolding EnsureStoppedAt_def
    by (rule io_sql_stmt)
       (auto simp: mv.table_refl moves_row_defs ensure_stopped.lookup_upd ensure_stopped.touches_upd)
qed


lemma guarded_row:
  assumes "rec_DesiredState r = DesiredStateDeleted \<or> rec_LifecycleStatus r = ''deleted''"
  shows "state_io_rel (db_rel (guarded (rec_ID r))) (reconcile_row s runID pods r pm)"
proof -
  have "trim_space ''deleted'' = ''deleted''"
    by (rule trim_space_plain) (simp add: plain_byte_def)
  then show ?thesis
    using assms by (intro guarded_pass.row_ok) auto
qed

lemma moving_row:
  "state_io_rel (db_rel (moves (rec_LifecycleStatus r = ''terminating'') (rec_ID r))) (reconcile_row s runID pods r pm)"
  by (intro moving_pass.row_ok) auto

text \<open>What a pass may do to the row of a sandbox.\<close>

definition pass_safe :: "SandboxRecord \<Rightarrow> SandboxRecord \<Rightarrow> bool" where
  "pass_safe r r' \<longleftrightarrow>
     (rec_DesiredState r = DesiredStateDeleted \<or> rec_LifecycleStatus r = ''deleted'' \<longrightarrow> r' = r) \<and>
     row_moves (rec_LifecycleStatus r = ''terminating'') r r'"

lemma row_pass_safe:
  assumes "run_state (reconcile_row s runID pods x pm) w = (y, w')" "lookup rec_ID (rec_ID x) (sandboxes (db w)) = Some x"
  shows "\<exists>r'. lookup rec_ID (rec_ID x) (sandboxes (db w')) = Some r' \<and> pass_safe x r'"
proof -
  have mv: "moves (rec_LifecycleStatus x = ''terminating'') (rec_ID x) (db w) (db w')"
    using io_relD [OF moving_row [of x s runID pods pm], of w] assms(1) by (simp add: db_rel_def)
  then obtain r' where r': "lookup rec_ID (rec_ID x) (sandboxes (db w')) = Some r'"
      "row_moves (rec_LifecycleStatus x = ''terminating'') x r'"
    using assms(2) by (auto simp: moves_def)
  have "r' = x" if d: "rec_DesiredState x = DesiredStateDeleted \<or> rec_LifecycleStatus x = ''deleted''"
  proof -
    have "guarded (rec_ID x) (db w) (db w')"
      using io_relD [OF guarded_row [OF d, of s runID pods pm], of w] assms(1) by (simp add: db_rel_def)
    moreover have "\<not> active_cond x"
      using d by (auto simp: active_cond_def)
    ultimately show ?thesis
      using assms(2) r'(1) by (auto simp: guarded_def)
  qed
  then show ?thesis
    using r' by (auto simp: pass_safe_def)
qed

lemma row_other_kept:
  assumes "run_state (reconcile_row s runID pods x pm) w = (y, w')" "j \<noteq> rec_ID x"
  shows "lookup rec_ID j (sandboxes (db w')) = lookup rec_ID j (sandboxes (db w))"
proof -
  have "touches (rec_ID x) (db w) (db w')"
    using io_relD [OF moving_row [of x s runID pods pm], of w] assms(1) by (simp add: db_rel_def moves_def)
  then show ?thesis
    using touches_lookup_other assms(2) by simp
qed

text \<open>Programs that leave the sandbox rows alone.\<close>

definition same_rows :: "tables \<Rightarrow> tables \<Rightarrow> bool" where
  "same_rows t t' \<longleftrightarrow> sandboxes t' = sandboxes t"

interpretation sr: table_preorder same_rows
  by unfold_locales (auto simp: same_rows_def)

lemma sr_store:
  "state_io_rel (db_rel same_rows) (CreateReconcileRun run)"
  "state_io_rel (db_rel same_rows) (FinishReconcileRun i a b c d e f n)"
  "state_io_rel (db_rel same_rows) (AddReconcileItem it)"
  "state_io_rel (db_rel same_rows) ListForReconcile"
  "state_io_rel (db_rel same_rows) (GetReconcileRun i)"
  "state_io_rel (db_rel same_rows) (ListReconcileItems i)"
  unfolding CreateReconcileRun_def FinishReconcileRun_def AddReconcileItem_def ListForReconcile_def
    GetReconcileRun_def ListReconcileItems_def
  by (rule io_sql_stmt; auto simp: same_rows_def split: if_splits)+

lemma sr_client: "state_io_rel db_same m \<Longrightarrow> state_io_rel (db_rel same_rows) m"
  by (erule ko_db_rel) (rule sr.table_refl)

lemmas sr_steps = sr.io_program sr_store sr_client [OF ko_deletes(1)]

lemma sr_parts:
  "state_io_rel (db_rel same_rows) (finish_failed i e n)"
  "state_io_rel (db_rel same_rows) (report_unknown i j)"
  "state_io_rel (db_rel same_rows) (GetRun i)"
  unfolding finish_failed_def report_unknown_def add_item_now_def add_item_def ignore_err_def GetRun_def
  by (intro sr_steps)+

lemma wp_same_rows:
  "state_io_rel (db_rel same_rows) m \<Longrightarrow> (\<And>a w'. sandboxes (db w') = sandboxes (db w) \<Longrightarrow> Q a w') \<Longrightarrow> wp m Q w"
  by (simp add: wp_alt state_io_rel_def db_rel_def same_rows_def)

lemma rows_pass_safe:
  assumes "lookup rec_ID sid (sandboxes (db w)) = Some r" "distinct (map rec_ID rs)"
    and "\<And>x. x \<in> set rs \<Longrightarrow> rec_ID x = sid \<Longrightarrow> x = r"
  shows "wp (reconcile_rows s runID n pods rs pm d f)
    (\<lambda>_ w'. \<exists>r'. lookup rec_ID sid (sandboxes (db w')) = Some r' \<and> (if sid \<in> rec_ID ` set rs then pass_safe r r' else r' = r)) w"
  using assms
proof (induction rs arbitrary: pm d f w r)
  case Nil
  then show ?case
    by (simp add: wp_ret)
next
  case (Cons x rs)
  obtain y w1 where run: "run_state (reconcile_row s runID pods x pm) w = (y, w1)"
    by fastforce
  obtain r1 where r1: "lookup rec_ID sid (sandboxes (db w1)) = Some r1" "if rec_ID x = sid then pass_safe r r1 else r1 = r"
    using row_pass_safe [OF run] row_other_kept [OF run, of sid] Cons.prems(1,3) by (cases "rec_ID x = sid") auto
  have rest: "wp (reconcile_rows s runID n pods rs pm' d' f')
      (\<lambda>_ w'. \<exists>r'. lookup rec_ID sid (sandboxes (db w')) = Some r' \<and> (if sid \<in> rec_ID ` set rs then pass_safe r1 r' else r' = r1)) w1"
    for pm' d' f'
    by (rule Cons.IH) (use r1 Cons.prems in \<open>auto split: if_splits\<close>)
  have fin: "wp (do { now \<leftarrow> time_now; ignore_err (FinishReconcileRun runID st m a b d f now); throw e })
      (\<lambda>_ w'. \<exists>r'. lookup rec_ID sid (sandboxes (db w')) = Some r' \<and>
         (if sid \<in> rec_ID ` set (x # rs) then pass_safe r r' else r' = r)) w1"
    if "sid \<in> rec_ID ` set rs \<Longrightarrow> pass_safe r r" for st m a b e
    by (rule wp_same_rows) (use r1 that Cons.prems(2) in \<open>auto simp: ignore_err_def intro!: sr_steps split: if_splits\<close>)
  show ?case
  proof (cases y)
    case (Inl e)
    show ?thesis
      unfolding reconcile_rows.simps wp_bind [of "reconcile_row s runID pods x pm"] wp_run [OF run] Inl sum.case
      by (rule fin) (simp add: pass_safe_def row_moves_def)
  next
    case (Inr p)
    show ?thesis
      unfolding reconcile_rows.simps wp_bind [of "reconcile_row s runID pods x pm"] wp_run [OF run] Inr sum.case
      by (cases p, simp only: prod.case, rule wp_mono [OF rest]) (use r1 Cons.prems(2,3) in \<open>auto split: if_splits\<close>)
  qed
qed

section \<open>Properties\<close>

lemma pass_safe_refl: "pass_safe r r"
  by (simp add: pass_safe_def row_moves_def)

lemma pods_pass_safe:
  assumes "lookup rec_ID sid (sandboxes (db w)) = Some r" "distinct (map rec_ID rs)"
    and "\<And>x. x \<in> set rs \<Longrightarrow> rec_ID x = sid \<Longrightarrow> x = r"
  shows "wp (reconcile_pods s runID rs) (\<lambda>_ w'. \<exists>r'. lookup rec_ID sid (sandboxes (db w')) = Some r' \<and> pass_safe r r') w"
  unfolding reconcile_pods_def wp_bind
proof (rule wp_same_rows [OF sr_client [OF ko_deletes(1)]], goal_cases)
  case (1 y v)
  let ?Q = "\<lambda>_ w'. \<exists>r'. lookup rec_ID sid (sandboxes (db w')) = Some r' \<and> pass_safe r r'"
  have same: "wp m ?Q u" if "state_io_rel (db_rel same_rows) m" "?Q () u" for m :: "('a, 'b) prog" and u
    using that by (auto intro: wp_same_rows)
  have rows: "wp (reconcile_rows s runID n pods rs pm 0 0) ?Q v" for n pods pm
    by (rule wp_mono [OF rows_pass_safe [of sid v r]]) (use assms 1 in \<open>auto simp: pass_safe_refl split: if_splits\<close>)
  show ?case
    using 1 assms(1)
    by (auto simp: pass_safe_refl wp_seqE Let_def split: sum.split prod.split intro!: same sr_parts sr_steps wp_mono [OF rows])
qed

lemma Run_pass_safe:
  assumes "tables_ok (db w)" "lookup rec_ID sid (sandboxes (db w)) = Some r"
  shows "wp (Run s trigger) (\<lambda>_ w'. \<exists>r'. lookup rec_ID sid (sandboxes (db w')) = Some r' \<and> pass_safe r r') w"
proof -
  let ?rs = "order_by_desc rec_UpdatedAt (sandboxes (db w))"
  have distinct: "distinct (map rec_ID ?rs)"
    using assms(1) by (simp add: tables_ok_def sandbox_tables_ok_def)
  have uniq: "x = r" if "x \<in> set ?rs" "rec_ID x = sid" for x
    using that assms lookup_unique [of rec_ID "sandboxes (db w)" x] by (simp add: tables_ok_def sandbox_tables_ok_def)
  have failed: "wp (finish_failed i e n) (\<lambda>_ w'. \<exists>r'. lookup rec_ID sid (sandboxes (db w')) = Some r' \<and> pass_safe r r') v"
    if "sandboxes (db v) = sandboxes (db w)" for i e n and v :: "'a world"
    by (rule wp_same_rows [OF sr_parts(1)]) (use that assms(2) in \<open>auto simp: pass_safe_refl\<close>)
  show ?thesis
    unfolding Run_def Let_def wp_bind wp_new_uuid wp_time_now wp_seqE
    by (rule wp_same_rows [OF sr_store(1)])
       (auto simp: ListForReconcile_def wp_bind wp_sql_stmt assms(2) pass_safe_refl split: sum.split prod.split
         intro!: failed pods_pass_safe [OF _ distinct uniq])
qed

text \<open>
  C16: whatever the cluster answers and whichever statements fail, a pass leaves the row of every sandbox in
  place. A row whose deletion was requested or that is deleted is left exactly as it is; of every other row the
  image, the expiry, the access token, the volume and the runtime are unchanged, and so is the desired state,
  except that a row that was terminating may become deleted.
\<close>

theorem reconcile_pass_safe:
  assumes "tables_ok (db w)" "lookup rec_ID sid (sandboxes (db w)) = Some r" "run_state (Run s trigger) w = (y, w')"
  shows "\<exists>r'. lookup rec_ID sid (sandboxes (db w')) = Some r' \<and> pass_safe r r'"
  using Run_pass_safe [OF assms(1,2), of s trigger] assms(3) by (simp add: wp_def)

theorem reconcile_pass_safe_witness:
  "\<exists>y w' r'. run_state (Run (NewSandboxReconcileService sample_client (\<lambda>x. x) (\<lambda>xs. xs)) ''manual'')
      (sample_world [sample_row ''abc''] []) = (y, w') \<and>
    lookup rec_ID ''abc'' (sandboxes (db w')) = Some r' \<and> pass_safe (sample_row ''abc'') r'"
proof -
  obtain y w' where run: "run_state (Run (NewSandboxReconcileService sample_client (\<lambda>x. x) (\<lambda>xs. xs)) ''manual'')
      (sample_world [sample_row ''abc''] []) = (y, w')"
    by fastforce
  have "lookup rec_ID ''abc'' (sandboxes (db (sample_world [sample_row ''abc''] []))) = Some (sample_row ''abc'')"
    by (simp add: lookup_def sample_row_def)
  with reconcile_pass_safe [OF tables_ok_sample _ run, of "''abc''"] run show ?thesis
    by simp
qed

end
