(* ===== verification/Reconcile_Pass.thy ===== *)
theory Reconcile_Pass
  imports Reconcile
begin

text \<open>
  What one pass of the reconciler does, exactly, when every sandbox is backed by a plain pod, no statement
  fails and the clock does not move during the pass: the row of each sandbox, the counts of the run and the
  items it records are functions of the rows and of the pods that were listed.
\<close>

section \<open>The specification of a pass\<close>

definition pod_of :: "Pod list \<Rightarrow> string \<Rightarrow> Pod option" where
  "pod_of pods sid = (if sid = [] then None else find (\<lambda>p. pod_sandbox_id p = sid) (rev pods))"

definition mismatch :: "SandboxRecord \<Rightarrow> Pod \<Rightarrow> bool" where
  "mismatch r pod \<longleftrightarrow> pod_differs r pod \<or> rec_LifecycleStatus r \<noteq> convertPodStatus pod"

definition lost :: "duration \<Rightarrow> time \<Rightarrow> SandboxRecord \<Rightarrow> bool" where
  "lost grace now r \<longleftrightarrow>
     rec_LifecycleStatus r \<notin> {''terminating'', ''deleted'', ''stopped''} \<and> active_cond r \<and> grace \<le> time_sub now (missing_since r)"

definition reconciled_row :: "Pod list \<Rightarrow> duration \<Rightarrow> time \<Rightarrow> SandboxRecord \<Rightarrow> SandboxRecord" where
  "reconciled_row pods grace now r =
     (if rec_DesiredState r = DesiredStateDeleted then r
      else case pod_of pods (rec_ID r) of
        Some pod \<Rightarrow>
          if mismatch r pod \<and> active_cond r
          then UpdateObservedState_row (om_UID (pod_Meta pod)) (pod_Phase pod) (pod_PodIP pod) (convertPodStatus pod) [] now now r
          else r
      | None \<Rightarrow>
          if rec_LifecycleStatus r = ''terminating'' then MarkDeletionCompleted_row ''reconcile: pod not found'' now r
          else if lost grace now r then UpdateStatus_row ''lost'' ''reconcile: pod missing beyond grace period'' now r
          else r)"

definition drifts :: "Pod list \<Rightarrow> SandboxRecord \<Rightarrow> bool" where
  "drifts pods r \<longleftrightarrow>
     (case pod_of pods (rec_ID r) of
        Some pod \<Rightarrow> rec_DesiredState r = DesiredStateDeleted \<or> mismatch r pod
      | None \<Rightarrow> rec_DesiredState r = DesiredStateDeleted \<longrightarrow> rec_LifecycleStatus r \<noteq> ''deleted'')"

definition fixes_row :: "Pod list \<Rightarrow> duration \<Rightarrow> time \<Rightarrow> SandboxRecord \<Rightarrow> bool" where
  "fixes_row pods grace now r \<longleftrightarrow>
     rec_DesiredState r \<noteq> DesiredStateDeleted \<and>
     (case pod_of pods (rec_ID r) of
        Some pod \<Rightarrow> mismatch r pod \<and> active_cond r
      | None \<Rightarrow> rec_LifecycleStatus r = ''terminating'' \<or> lost grace now r)"

text \<open>
  Stopped sandboxes whose pod is absent. This is their expected state: they are not drift and have no item. (The
  drift counter of the run goes up for them all the same, see \<open>stopped_counted_as_drift\<close>.)
\<close>

definition silent :: "Pod list \<Rightarrow> SandboxRecord \<Rightarrow> bool" where
  "silent pods r \<longleftrightarrow>
     rec_DesiredState r \<noteq> DesiredStateDeleted \<and> pod_of pods (rec_ID r) = None \<and> rec_LifecycleStatus r = ''stopped''"

definition unknown_ids :: "Pod list \<Rightarrow> SandboxRecord list \<Rightarrow> string list" where
  "unknown_ids pods rows = filter (\<lambda>i. i \<notin> rec_ID ` set rows) (map fst (build_pod_map pods))"

section \<open>The map of pods\<close>

lemma build_snoc:
  "build_pod_map (pods @ [p]) =
     (if pod_sandbox_id p = [] then build_pod_map pods
      else AList.update (pod_sandbox_id p) (length pods) (build_pod_map pods))"
  by (simp add: build_pod_map_def enumerate_append_eq)

lemma build_lookup:
  "map_option (\<lambda>i. (pods @ rest) ! i) (map_of (build_pod_map pods) sid) = pod_of pods sid"
proof (induction pods arbitrary: rest rule: rev_induct)
  case Nil
  then show ?case
    by (simp add: build_pod_map_def pod_of_def)
next
  case (snoc p pods)
  show ?case
    using snoc [of "p # rest"] by (auto simp: build_snoc pod_of_def AList.update_conv' nth_append)
qed

lemma build_distinct: "distinct (map fst (build_pod_map pods))"
  by (induction pods rule: rev_induct) (simp_all add: build_snoc build_pod_map_def [of "[]"] AList.distinct_update)

lemma delete_absent: "map_of m k = None \<Longrightarrow> AList.delete k m = m"
  by (simp add: AList.delete_eq map_of_eq_None_iff filter_id_conv) force

section \<open>One row\<close>

text \<open>No fault is scheduled, the clock stands still and the run exists.\<close>

definition quiet :: "time \<Rightarrow> string \<Rightarrow> 'k world \<Rightarrow> bool" where
  "quiet now runID w \<longleftrightarrow>
     db_faults w = [] \<and> clock w = (\<lambda>_. now) \<and> runID \<in> run_ID ` set (reconcile_runs (db w))"

text \<open>The world after a row was handled: its row, and the items added for it.\<close>

definition handled :: "string \<Rightarrow> bool \<Rightarrow> SandboxRecord \<Rightarrow> SandboxRecord \<Rightarrow> 'k world \<Rightarrow> 'k world \<Rightarrow> bool" where
  "handled runID reported r r' w w' \<longleftrightarrow>
     db_faults w' = [] \<and> clock w' = clock w \<and> reconcile_runs (db w') = reconcile_runs (db w) \<and>
     sandboxes (db w') = update_where (\<lambda>x. rec_ID x = rec_ID r) (\<lambda>_. r') (sandboxes (db w)) \<and>
     (\<exists>new. reconcile_items (db w') = reconcile_items (db w) @ new \<and> map item_RunID new = (if reported then [runID] else []))"

text \<open>The row is in the table and no other row has its id.\<close>

definition only_row :: "SandboxRecord \<Rightarrow> SandboxRecord list \<Rightarrow> bool" where
  "only_row r rows \<longleftrightarrow> r \<in> set rows \<and> (\<forall>x \<in> set rows. rec_ID x = rec_ID r \<longrightarrow> x = r)"

lemma update_unique:
  "only_row r rows \<Longrightarrow>
   update_where (\<lambda>x. rec_ID x = rec_ID r \<and> g x) f rows = update_where (\<lambda>x. rec_ID x = rec_ID r) (\<lambda>_. if g r then f r else r) rows"
  by (auto simp: only_row_def update_where_def)

lemma update_to_itself: "only_row r rows \<Longrightarrow> update_where (\<lambda>x. rec_ID x = rec_ID r) (\<lambda>_. r) rows = rows"
  by (auto simp: only_row_def update_where_def intro!: map_idI)

lemma wp_item:
  assumes "quiet now runID w"
    and "\<And>w' new. quiet now runID w' \<Longrightarrow> sandboxes (db w') = sandboxes (db w) \<Longrightarrow> reconcile_runs (db w') = reconcile_runs (db w) \<Longrightarrow>
      clock w' = clock w \<Longrightarrow> reconcile_items (db w') = reconcile_items (db w) @ [new] \<Longrightarrow> item_RunID new = runID \<Longrightarrow> Q () w'"
  shows "wp (add_item_now runID i a b c) Q w"
  using assms
  by (auto simp: add_item_now_def add_item_def ignore_err_def AddReconcileItem_def wp_simps wp_sql_stmt quiet_def)

lemma quiet_simps:
  "quiet now runID (w\<lparr>ticks := n\<rparr>) \<longleftrightarrow> quiet now runID w"
  "quiet now runID w \<Longrightarrow> clock w n = now"
  "quiet now runID w \<Longrightarrow> next_fault (db_faults w) = (False, [])"
  "quiet now runID w \<Longrightarrow> quiet now runID (w\<lparr>db_faults := [], db := update_sandbox i g f (db w)\<rparr>)"
  by (auto simp: quiet_def update_sandbox_def)

lemma wp_write:
  assumes "quiet now runID w" "only_row r (sandboxes (db w))"
    and "\<And>w'. quiet now runID w' \<Longrightarrow> handled runID False r (if g r then f r else r) w w' \<Longrightarrow> Q (Inr (g r)) w'"
  shows "wp (update_sandbox_if msg (rec_ID r) g f) Q w"
proof -
  have flag: "(\<exists>x \<in> set (sandboxes (db w)). rec_ID x = rec_ID r \<and> g x) = g r"
    using assms(2) by (auto simp: only_row_def)
  have "handled runID False r (if g r then f r else r) w (w\<lparr>db_faults := [], db := update_sandbox (rec_ID r) g f (db w)\<rparr>)"
    using assms(1) by (simp add: handled_def quiet_def update_sandbox_def update_unique [OF assms(2), of g f])
  then show ?thesis
    using assms(1,3) by (simp add: update_sandbox_if_def wp_simps wp_sql_stmt quiet_simps flag)
qed

lemma handled_item:
  assumes "handled runID False r r' w w'" "reconcile_items (db v) = reconcile_items (db w') @ [new]" "item_RunID new = runID"
    "sandboxes (db v) = sandboxes (db w')" "reconcile_runs (db v) = reconcile_runs (db w')" "clock v = clock w'" "quiet now runID v"
  shows "handled runID True r r' w v"
  using assms by (auto simp: handled_def quiet_def)

lemma handled_refl: "only_row r (sandboxes (db w)) \<Longrightarrow> quiet now runID w \<Longrightarrow> handled runID False r r w w"
  by (simp add: handled_def quiet_def update_to_itself)

lemma handled_ticks:
  "handled b c r r' (w\<lparr>ticks := n\<rparr>) w' \<longleftrightarrow> handled b c r r' w w'"
  "handled b c r r' w (w'\<lparr>ticks := n\<rparr>) \<longleftrightarrow> handled b c r r' w w'"
  by (simp_all add: handled_def)

text \<open>After a write, the item that reports it.\<close>

lemma wp_report:
  assumes "quiet now runID v" "handled runID False r r' w v" "\<And>v'. handled runID True r r' w v' \<Longrightarrow> Q () v'"
  shows "wp (add_item_now runID i a b c) Q v"
  by (rule wp_item [OF assms(1)]) (rule assms(3), rule handled_item [OF assms(2)], assumption+)

lemma present_exact:
  assumes "quiet now runID w" "only_row r (sandboxes (db w))"
    "rec_DesiredState r \<noteq> DesiredStateDeleted" "pod_of pods (rec_ID r) = Some pod"
  shows "wp (ephemeral_present runID r pod) (\<lambda>y v. y = \<lparr>drifted = drifts pods r, fixed = fixes_row pods grace now r\<rparr> \<and>
     handled runID (drifts pods r \<and> \<not> silent pods r) r (reconciled_row pods grace now r) w v) w"
proof (cases "mismatch r pod")
  case True
  then show ?thesis
    using assms
    by (auto simp: ephemeral_present_def mismatch_def [symmetric] wp_simps ok_true_def UpdateObservedStateIfActive_def
        quiet_simps handled_ticks drifts_def fixes_row_def reconciled_row_def silent_def
        intro!: wp_write [where now = now and runID = runID] elim!: wp_report)
next
  case False
  then show ?thesis
    using assms handled_refl [of r w now runID]
    by (simp add: ephemeral_present_def mismatch_def wp_simps drifts_def fixes_row_def reconciled_row_def silent_def)
qed

lemma wp_MarkDeleted:
  assumes "quiet now runID w" "only_row r (sandboxes (db w))"
    and "\<And>w'. quiet now runID w' \<Longrightarrow> handled runID False r (MarkDeletionCompleted_row x n r) w w' \<Longrightarrow> Q (Inr ()) w'"
  shows "wp (MarkDeleted (rec_ID r) x n) Q w"
proof -
  have "handled runID False r (MarkDeletionCompleted_row x n r) w
     (w\<lparr>db_faults := [], db := update_sandbox (rec_ID r) (\<lambda>_. True) (MarkDeletionCompleted_row x n) (db w)\<rparr>)"
    using assms(1) update_unique [OF assms(2), of "\<lambda>_. True" "MarkDeletionCompleted_row x n"]
    by (simp add: handled_def quiet_def update_sandbox_def)
  then show ?thesis
    using assms(1,3) by (simp add: MarkDeleted_def MarkDeletionCompleted_def wp_sql_stmt quiet_simps)
qed

lemma missing_exact:
  assumes "quiet now runID w" "only_row r (sandboxes (db w))"
    "rec_DesiredState r \<noteq> DesiredStateDeleted" "pod_of pods (rec_ID r) = None"
  shows "wp (ephemeral_missing s runID r) (\<lambda>y v. y = \<lparr>drifted = drifts pods r, fixed = fixes_row pods (lostGracePeriod s) now r\<rparr> \<and>
     handled runID (drifts pods r \<and> \<not> silent pods r) r (reconciled_row pods (lostGracePeriod s) now r) w v) w"
proof -
  note spec = drifts_def fixes_row_def reconciled_row_def silent_def lost_def
  consider "rec_LifecycleStatus r = ''stopped''" | "rec_LifecycleStatus r = ''terminating''" | "rec_LifecycleStatus r = ''deleted''"
    | "rec_LifecycleStatus r \<notin> {''stopped'', ''terminating'', ''deleted''}" by blast
  then show ?thesis
  proof cases
    case 1
    then show ?thesis
      using assms handled_refl [OF assms(2,1)] by (simp add: ephemeral_missing_def wp_simps spec)
  next
    case 2
    then show ?thesis
      using assms by (auto simp: ephemeral_missing_def wp_simps quiet_simps handled_ticks spec
          intro!: wp_MarkDeleted [where now = now and runID = runID] elim!: wp_report)
  next
    case 3
    then show ?thesis
      using assms handled_refl [OF assms(2,1)]
      by (auto simp: ephemeral_missing_def wp_simps quiet_simps handled_ticks spec elim!: wp_report)
  next
    case 4
    have "quiet now runID (w\<lparr>ticks := n\<rparr>)" "handled runID False r r w (w\<lparr>ticks := n\<rparr>)" for n
      using assms handled_refl [OF assms(2,1)] by (simp_all add: quiet_simps handled_ticks)
    with 4 show ?thesis
      using assms
      by (auto simp: ephemeral_missing_def wp_simps quiet_simps handled_ticks spec ok_true_def UpdateStatusIfActive_def
          intro!: wp_write [where now = now and runID = runID] intro: wp_report)
  qed
qed

lemma deleted_exact:
  assumes "quiet now runID w" "only_row r (sandboxes (db w))"
    "rec_DesiredState r = DesiredStateDeleted" "map_of pm (rec_ID r) \<noteq> None \<longleftrightarrow> pod_of pods (rec_ID r) \<noteq> None"
  shows "wp (reconcileDeletedSandbox runID r pm) (\<lambda>y v.
     y = Inr (AList.delete (rec_ID r) pm, \<lparr>drifted = drifts pods r, fixed = fixes_row pods grace now r\<rparr>) \<and>
     handled runID (drifts pods r \<and> \<not> silent pods r) r (reconciled_row pods grace now r) w v) w"
  using assms handled_refl [OF assms(2,1)] delete_absent [of pm "rec_ID r"]
  by (cases "pod_of pods (rec_ID r)")
     (auto simp: reconcileDeletedSandbox_def wp_simps drifts_def fixes_row_def reconciled_row_def silent_def elim!: wp_report)

lemma row_exact:
  assumes "quiet now runID w" "only_row r (sandboxes (db w))" "\<not> rec_PersistenceEnabled r"
    "map_of pm (rec_ID r) = map_of (build_pod_map pods) (rec_ID r)"
  shows "wp (reconcile_row s runID pods r pm) (\<lambda>y v.
     y = Inr (AList.delete (rec_ID r) pm, \<lparr>drifted = drifts pods r, fixed = fixes_row pods (lostGracePeriod s) now r\<rparr>) \<and>
     handled runID (drifts pods r \<and> \<not> silent pods r) r (reconciled_row pods (lostGracePeriod s) now r) w v) w"
proof -
  have lk: "pod_of pods (rec_ID r) = map_option ((!) pods) (map_of pm (rec_ID r))"
    using build_lookup [of pods "[]" "rec_ID r"] assms(4) by simp
  show ?thesis
  proof (cases "rec_DesiredState r = DesiredStateDeleted")
    case True
    then show ?thesis
      using assms lk by (simp add: reconcile_row_def) (rule deleted_exact, simp_all)
  next
    case False
    show ?thesis
    proof (cases "map_of pm (rec_ID r)")
      case None
      then show ?thesis
        using assms(1-3) lk False delete_absent [OF None]
        by (simp add: reconcile_row_def wp_bind wp_ret) (rule wp_mono [OF missing_exact], simp_all)
    next
      case (Some i)
      then show ?thesis
        using assms(1-3) lk False
        by (simp add: reconcile_row_def wp_bind wp_ret) (rule wp_mono [OF present_exact], simp_all)
    qed
  qed
qed

section \<open>The whole pass\<close>

lemma rec_ID_reconciled [simp]: "rec_ID (reconciled_row pods grace now r) = rec_ID r"
  by (simp add: reconciled_row_def row_defs split: option.split)

text \<open>The world after a list of rows was handled, with \<open>k\<close> items added.\<close>

definition passed :: "string \<Rightarrow> nat \<Rightarrow> (SandboxRecord \<Rightarrow> SandboxRecord) \<Rightarrow> SandboxRecord list \<Rightarrow> 'k world \<Rightarrow> 'k world \<Rightarrow> bool" where
  "passed runID k f rs w w' \<longleftrightarrow>
     db_faults w' = [] \<and> clock w' = clock w \<and> reconcile_runs (db w') = reconcile_runs (db w) \<and>
     sandboxes (db w') = update_where (\<lambda>x. rec_ID x \<in> rec_ID ` set rs) f (sandboxes (db w)) \<and>
     (\<exists>new. reconcile_items (db w') = reconcile_items (db w) @ new \<and> map item_RunID new = replicate k runID)"

lemma only_row_other:
  assumes "only_row x rows" "rec_ID x \<noteq> rec_ID r" "rec_ID r' = rec_ID r"
  shows "only_row x (update_where (\<lambda>y. rec_ID y = rec_ID r) (\<lambda>_. r') rows)"
  using assms by (auto simp: only_row_def set_update_where)

lemma update_step:
  assumes "only_row r rows" "rec_ID r \<notin> rec_ID ` set rs" "rec_ID (f r) = rec_ID r"
  shows "update_where (\<lambda>x. rec_ID x \<in> rec_ID ` set rs) f (update_where (\<lambda>x. rec_ID x = rec_ID r) (\<lambda>_. f r) rows) =
     update_where (\<lambda>x. rec_ID x \<in> rec_ID ` set (r # rs)) f rows"
  unfolding update_where_def map_map o_def
proof (rule map_cong [OF refl])
  fix x
  assume "x \<in> set rows"
  then have "rec_ID x = rec_ID r \<Longrightarrow> x = r"
    using assms(1) by (auto simp: only_row_def)
  then show "(if rec_ID (if rec_ID x = rec_ID r then f r else x) \<in> rec_ID ` set rs
      then f (if rec_ID x = rec_ID r then f r else x) else if rec_ID x = rec_ID r then f r else x) =
      (if rec_ID x \<in> rec_ID ` set (r # rs) then f x else x)"
    using assms(2,3) by (cases "rec_ID x = rec_ID r") auto
qed

lemma passed_step:
  assumes "handled runID b r (f r) w v" "passed runID k f rs v u" "only_row r (sandboxes (db w))"
    "rec_ID r \<notin> rec_ID ` set rs" "rec_ID (f r) = rec_ID r"
  shows "passed runID (if b then Suc k else k) f (r # rs) w u"
proof -
  obtain n1 n2 where "reconcile_items (db v) = reconcile_items (db w) @ n1" "map item_RunID n1 = (if b then [runID] else [])"
      "reconcile_items (db u) = reconcile_items (db v) @ n2" "map item_RunID n2 = replicate k runID"
    using assms(1,2) by (auto simp: handled_def passed_def)
  then have "\<exists>new. reconcile_items (db u) = reconcile_items (db w) @ new \<and>
      map item_RunID new = replicate (if b then Suc k else k) runID"
    by (intro exI [of _ "n1 @ n2"]) simp
  then show ?thesis
    using assms(1,2) update_step [of r _ rs f, OF assms(3-5)] by (simp add: handled_def passed_def)
qed

lemma count_if_filter: "count_if (P r) d + int (length (filter P rs)) = d + int (length (filter P (r # rs)))"
  by (simp add: count_if_def)

lemma rows_exact:
  assumes "quiet now runID w" "distinct (map rec_ID rs)"
    and "\<And>r. r \<in> set rs \<Longrightarrow> only_row r (sandboxes (db w)) \<and> \<not> rec_PersistenceEnabled r"
    and "\<And>r. r \<in> set rs \<Longrightarrow> map_of pm (rec_ID r) = map_of (build_pod_map pods) (rec_ID r)"
  shows "wp (reconcile_rows s runID n pods rs pm d f) (\<lambda>y v.
     y = Inr (filter (\<lambda>(k, _). k \<notin> rec_ID ` set rs) pm, d + int (length (filter (drifts pods) rs)),
              f + int (length (filter (fixes_row pods (lostGracePeriod s) now) rs))) \<and>
     passed runID (length (filter (\<lambda>r. drifts pods r \<and> \<not> silent pods r) rs)) (reconciled_row pods (lostGracePeriod s) now) rs w v) w"
  using assms
proof (induction rs arbitrary: w pm d f)
  case Nil
  then show ?case
    by (auto simp: wp_ret passed_def quiet_def update_where_def split_def)
next
  case (Cons r rs)
  let ?f = "reconciled_row pods (lostGracePeriod s) now"
  let ?rep = "\<lambda>r. drifts pods r \<and> \<not> silent pods r"
  show ?case
    unfolding reconcile_rows.simps wp_bind
  proof (rule wp_mono [OF row_exact [of now runID w r pm pods s]], goal_cases)
    case (5 y v)
    have only: "only_row r (sandboxes (db w))"
      using Cons.prems(3) by simp
    have ne: "rec_ID x \<noteq> rec_ID r" if "x \<in> set rs" for x
      using Cons.prems(2) that by (metis distinct.simps(2) list.simps(9) set_map image_eqI)
    have v: "quiet now runID v" "\<And>x. x \<in> set rs \<Longrightarrow> only_row x (sandboxes (db v)) \<and> \<not> rec_PersistenceEnabled x"
      using 5 Cons.prems(1-3) by (auto simp: handled_def quiet_def intro!: only_row_other dest: ne)
    have pm: "map_of (AList.delete (rec_ID r) pm) (rec_ID x) = map_of (build_pod_map pods) (rec_ID x)" if "x \<in> set rs" for x
      using that ne Cons.prems(4) by (simp add: AList.delete_conv')
    have fl: "filter (\<lambda>(k, _). k \<notin> rec_ID ` set rs) (AList.delete (rec_ID r) pm) =
        filter (\<lambda>(k, _). k \<notin> rec_ID ` set (r # rs)) pm"
      by (auto simp: AList.delete_eq filter_filter split_def intro!: filter_cong)
    have "wp (reconcile_rows s runID n pods rs (AList.delete (rec_ID r) pm) d' f') (\<lambda>y u.
       y = Inr (filter (\<lambda>(k, _). k \<notin> rec_ID ` set (r # rs)) pm, d' + int (length (filter (drifts pods) rs)),
                f' + int (length (filter (fixes_row pods (lostGracePeriod s) now) rs))) \<and>
       passed runID (length (filter ?rep (r # rs))) ?f (r # rs) w u) v" for d' f'
      using passed_step [of runID "?rep r" r ?f w v _ rs, OF _ _ only] 5 Cons.prems(2)
      by (intro wp_mono [OF Cons.IH [of v "AList.delete (rec_ID r) pm" d' f', OF v(1) _ v(2) pm]]) (auto simp: fl simp del: set_simps)
    from this [of "count_if (drifts pods r) d" "count_if (fixes_row pods (lostGracePeriod s) now r) f"] conjunct1 [OF 5] show ?case
      by (simp only: count_if_filter sum.case prod.case reconcileResult.select_convs)
  qed (use Cons.prems in auto)
qed

lemma wp_reports:
  assumes "quiet now runID w"
  shows "wp (for_each (report_unknown runID) ids) (\<lambda>_ v. passed runID (length ids) (\<lambda>x. x) [] w v) w"
  using assms
proof (induction ids arbitrary: w)
  case Nil
  then show ?case
    by (simp add: wp_ret passed_def quiet_def update_where_def)
next
  case (Cons i ids)
  show ?case
    unfolding for_each.simps wp_bind report_unknown_def
  proof (rule wp_item [OF Cons.prems], goal_cases)
    case (1 v new)
    have "passed runID (length (i # ids)) (\<lambda>x. x) [] w u" if "passed runID (length ids) (\<lambda>x. x) [] v u" for u
      using that 1 by (auto simp: passed_def)
    then show ?case
      by (rule wp_mono [OF Cons.IH [OF 1(1)], unfolded report_unknown_def])
  qed
qed

lemma wp_finish:
  assumes "quiet now runID w" "distinct (map run_ID (reconcile_runs (db w)))"
    and "\<And>run v. run_ID run = runID \<Longrightarrow> run_DriftCount run = d \<Longrightarrow> run_FixedCount run = f \<Longrightarrow> run_Status run = st \<Longrightarrow>
      run_TotalDB run = m \<Longrightarrow> run_TotalK8s run = n \<Longrightarrow> run_Error run = e \<Longrightarrow> run_FinishedAt run = Some t \<Longrightarrow>
      sandboxes (db v) = sandboxes (db w) \<Longrightarrow>
      Q (Inr (Some (run, order_by item_ID (filter (\<lambda>i. item_RunID i = runID) (reconcile_items (db w)))))) v"
  shows "wp (seqE (FinishReconcileRun runID st e m n d f t) (\<lambda>_. GetRun runID)) Q w"
proof -
  let ?upd = "FinishReconcileRun_row st e m n d f t"
  obtain run where run: "lookup run_ID runID (reconcile_runs (db w)) = Some run"
    using assms(1) by (cases "lookup run_ID runID (reconcile_runs (db w))") (auto simp: quiet_def lookup_None_iff)
  have "lookup run_ID runID (update_where (\<lambda>r. run_ID r = runID) ?upd (reconcile_runs (db w))) = Some (?upd run)"
    using finish_run.lookup_same [of runID st e m n d f t "reconcile_runs (db w)"] run by simp
  moreover have "run_ID run = runID"
    using lookup_SomeD [OF run] by simp
  ultimately show ?thesis
    using assms(1) assms(3) [of "?upd run"]
    by (simp add: FinishReconcileRun_def GetRun_def GetReconcileRun_def ListReconcileItems_def wp_simps wp_sql_stmt quiet_simps
        FinishReconcileRun_row_def)
qed

text \<open>The totals of a completed run, as the code computes them.\<close>

definition run_totals :: "Pod list \<Rightarrow> duration \<Rightarrow> time \<Rightarrow> SandboxRecord list \<Rightarrow> ReconcileRunRecord \<Rightarrow> ReconcileItemRecord list \<Rightarrow> bool" where
  "run_totals pods grace now rows run items \<longleftrightarrow>
     run_Status run = reconcileStatusCompleted \<and> run_Error run = [] \<and>
     run_TotalDB run = int (length rows) \<and> run_TotalK8s run = int (length pods) \<and>
     run_DriftCount run = int (length (filter (drifts pods) rows) + length (unknown_ids pods rows)) \<and>
     run_FixedCount run = int (length (filter (fixes_row pods grace now) rows)) \<and>
     run_DriftCount run = int (length items + length (filter (silent pods) rows))"

lemma silent_drifts: "silent pods r \<Longrightarrow> drifts pods r"
  by (auto simp: silent_def drifts_def split: option.splits)

lemma split_silent:
  "length (filter (drifts pods) rs) = length (filter (\<lambda>r. drifts pods r \<and> \<not> silent pods r) rs) + length (filter (silent pods) rs)"
  by (induction rs) (auto dest: silent_drifts)

lemma count_order: "length (filter P (order_by_desc k rows)) = length (filter P rows)"
  by (simp add: order_by_desc_def filter_sort)

lemma passed_trans:
  assumes "passed runID k f rs w v" "passed runID l (\<lambda>x. x) [] v u"
  shows "passed runID (k + l) f rs w u"
proof -
  obtain n1 n2 where "reconcile_items (db v) = reconcile_items (db w) @ n1" "map item_RunID n1 = replicate k runID"
      "reconcile_items (db u) = reconcile_items (db v) @ n2" "map item_RunID n2 = replicate l runID"
    using assms by (auto simp: passed_def)
  then have "\<exists>new. reconcile_items (db u) = reconcile_items (db w) @ new \<and> map item_RunID new = replicate (k + l) runID"
    by (intro exI [of _ "n1 @ n2"]) (simp add: replicate_add)
  then show ?thesis
    using assms by (simp add: passed_def update_where_def)
qed

lemma own_items:
  assumes "map item_RunID new = replicate k runID" "\<And>i. i \<in> set old \<Longrightarrow> item_RunID i \<noteq> runID"
  shows "length (filter (\<lambda>i. item_RunID i = runID) (old @ new)) = k"
proof -
  have "filter (\<lambda>i. item_RunID i = runID) new = new"
    using arg_cong [OF assms(1), of set] by (auto simp: filter_id_conv split: if_splits)
  moreover have "filter (\<lambda>i. item_RunID i = runID) old = []"
    using assms(2) by (simp add: filter_empty_conv)
  ultimately show ?thesis
    using arg_cong [OF assms(1), of length] by simp
qed

lemma pods_exact:
  assumes q: "quiet now runID w" and ok: "tables_ok (db w)"
    and rs: "rs = order_by_desc rec_UpdatedAt (sandboxes (db w))"
    and eph: "\<And>r. r \<in> set rs \<Longrightarrow> \<not> rec_PersistenceEnabled r"
    and list: "pods_List (rk_k8sClient s) (sandboxNS (rk_k8sClient s)) [(''app'', LabelApp)] (kube w) = (Inr pods, k)"
    and ord: "\<And>ids. length (rangeOrder s ids) = length ids"
    and fresh: "\<And>i. i \<in> set (reconcile_items (db w)) \<Longrightarrow> item_RunID i \<noteq> runID"
  shows "wp (reconcile_pods s runID rs) (\<lambda>y v. \<exists>run items. y = Inr (Some (run, items)) \<and>
      run_totals pods (lostGracePeriod s) now (sandboxes (db w)) run items \<and>
      sandboxes (db v) = map (reconciled_row pods (lostGracePeriod s) now) (sandboxes (db w))) w"
proof -
  let ?f = "reconciled_row pods (lostGracePeriod s) now"
  let ?w = "w\<lparr>kube := k\<rparr>"
  have mem: "set rs = set (sandboxes (db w))"
    by (simp add: rs)
  have dist: "distinct (map rec_ID rs)"
    using ok by (simp add: rs tables_ok_def sandbox_tables_ok_def)
  have only: "only_row r (sandboxes (db w))" if "r \<in> set rs" for r
    using that ok mem by (auto simp: only_row_def tables_ok_def sandbox_tables_ok_def distinct_map inj_on_def)
  have all: "update_where (\<lambda>x. rec_ID x \<in> rec_ID ` set (sandboxes (db w))) ?f (sandboxes (db w)) = map ?f (sandboxes (db w))"
    by (simp add: update_where_def)
  show ?thesis
    unfolding reconcile_pods_def wp_bind ListPods_def wp_kube_call list prod.case sum.case wp_seqE
  proof (rule wp_mono [OF rows_exact [of now runID ?w rs]], goal_cases)
    case (5 y v)
    let ?left = "filter (\<lambda>(i, _). i \<notin> rec_ID ` set rs) (build_pod_map pods)"
    have y: "y = Inr (?left, int (length (filter (drifts pods) rs)), int (length (filter (fixes_row pods (lostGracePeriod s) now) rs)))"
      and v: "passed runID (length (filter (\<lambda>r. drifts pods r \<and> \<not> silent pods r) rs)) ?f rs ?w v"
      using 5 by simp_all
    have qv: "quiet now runID v"
      using v q by (simp add: passed_def quiet_def)
    have left: "map fst ?left = unknown_ids pods (sandboxes (db w))"
      by (simp add: unknown_ids_def mem filter_map o_def split_def)
    show ?case
      unfolding y sum.case prod.case Let_def wp_bind wp_time_now left
    proof (rule wp_mono [OF wp_reports [OF qv]], goal_cases)
      case (1 _ u)
      then have u: "passed runID (length (filter (\<lambda>r. drifts pods r \<and> \<not> silent pods r) rs) +
          length (unknown_ids pods (sandboxes (db w)))) ?f rs ?w u"
        using passed_trans [OF v] by (simp add: ord)
      then obtain new where new: "reconcile_items (db u) = reconcile_items (db w) @ new"
          "map item_RunID new = replicate (length (filter (\<lambda>r. drifts pods r \<and> \<not> silent pods r) rs) +
             length (unknown_ids pods (sandboxes (db w)))) runID"
        by (auto simp: passed_def)
      have "quiet now runID (u\<lparr>ticks := Suc (ticks u)\<rparr>)" "distinct (map run_ID (reconcile_runs (db (u\<lparr>ticks := Suc (ticks u)\<rparr>))))"
        using u q ok by (simp_all add: passed_def quiet_def tables_ok_def run_tables_ok_def)
      then show ?case
        using u own_items [OF new(2) fresh] split_silent [of pods rs]
        by (intro wp_finish [where now = now])
           (auto simp: run_totals_def passed_def all new(1) ord count_order rs order_by_def simp del: filter_append)
    qed
  qed (use q only eph dist in \<open>auto simp: quiet_def\<close>)
qed

section \<open>What a run reports\<close>

text \<open>
  The rows that drifted are those that \<open>drifts\<close> and are not merely stopped. The report has an item for each of
  them and for each unknown identifier; when no sandbox is merely stopped the drift counter is their number.
\<close>

definition run_reports :: "Pod list \<Rightarrow> duration \<Rightarrow> time \<Rightarrow> SandboxRecord list \<Rightarrow> ReconcileRunRecord \<Rightarrow> ReconcileItemRecord list \<Rightarrow> bool" where
  "run_reports pods grace now rows run items \<longleftrightarrow>
     run_Status run = reconcileStatusCompleted \<and> run_Error run = [] \<and>
     run_TotalDB run = int (length rows) \<and> run_TotalK8s run = int (length pods) \<and>
     length items = length (filter (\<lambda>r. drifts pods r \<and> \<not> silent pods r) rows) + length (unknown_ids pods rows) \<and>
     run_FixedCount run = int (length (filter (fixes_row pods grace now) rows)) \<and>
     (run_DriftCount run = int (length items) \<or> (\<exists>r \<in> set rows. silent pods r))"

lemma run_reports_totals: "run_totals pods grace now rows run items \<Longrightarrow> run_reports pods grace now rows run items"
  using split_silent [of pods rows] by (auto simp: run_totals_def run_reports_def filter_empty_conv)

lemma wp_Run_exact:
  assumes "tables_ok (db w)" "db_faults w = []" "clock w = (\<lambda>_. now)"
    and "\<And>r. r \<in> set (sandboxes (db w)) \<Longrightarrow> \<not> rec_PersistenceEnabled r"
    and "''rec-'' @ take 8 (uuids w (uuids_used w)) \<notin> run_ID ` set (reconcile_runs (db w))"
    and "pods_List (rk_k8sClient s) (sandboxNS (rk_k8sClient s)) [(''app'', LabelApp)] (kube w) = (Inr pods, k)"
    and "\<And>ids. length (rangeOrder s ids) = length ids"
  shows "\<exists>run items w'. run_state (Run s trigger) w = (Inr (Some (run, items)), w') \<and>
     run_totals pods (lostGracePeriod s) now (sandboxes (db w)) run items \<and>
     sandboxes (db w') = map (reconciled_row pods (lostGracePeriod s) now) (sandboxes (db w))"
proof -
  let ?id = "''rec-'' @ take 8 (uuids w (uuids_used w))"
  have fresh: "item_RunID i \<noteq> ?id" if "i \<in> set (reconcile_items (db w))" for i
  proof -
    have "item_RunID i \<in> run_ID ` set (reconcile_runs (db w))"
      using assms(1) that by (auto simp: tables_ok_def run_tables_ok_def)
    then show ?thesis
      using assms(5) by metis
  qed
  have "wp (Run s trigger) (\<lambda>y v. \<exists>run items. y = Inr (Some (run, items)) \<and>
      run_totals pods (lostGracePeriod s) now (sandboxes (db w)) run items \<and>
      sandboxes (db v) = map (reconciled_row pods (lostGracePeriod s) now) (sandboxes (db w))) w"
    unfolding Run_def CreateReconcileRun_def ListForReconcile_def Let_def
    using assms fresh tables_ok_run [OF assms(1)]
    by (simp add: wp_simps wp_sql_stmt)
       (rule wp_mono [OF pods_exact [where now = now and pods = pods and k = k]], auto simp: quiet_def)
  then show ?thesis
    by (auto simp: wp_def split: prod.splits)
qed

text \<open>
  A pass over a running sandbox that lost its pod and a stopped one, beside the pod of nobody: the run counts three
  drifts and reports two, although the code says of the stopped sandbox that it is no drift.
\<close>

abbreviation pass_rows :: "SandboxRecord list" where
  "pass_rows \<equiv> [sample_row ''abc'', (sample_row ''s'')\<lparr>rec_LifecycleStatus := ''stopped''\<rparr>]"

lemma pass_sample:
  shows "tables_ok (db (sample_world pass_rows [sample_pod ''xyz'']))" "pod_sandbox_id (sample_pod ''xyz'') = ''xyz''"
    and "pods_List sample_client (sandboxNS sample_client) [(''app'', LabelApp)]
      (kube (sample_world rows [sample_pod ''xyz''])) = (Inr [sample_pod ''xyz''], kube (sample_world rows [sample_pod ''xyz'']))"
  using tables_ok_sample [of pass_rows "[sample_pod ''xyz'']"]
  by (simp_all add: sample_row_def sample_client_def sample_world_def labels_match_def sample_pod_def meta_def pod_sandbox_id_def)

lemmas pass_specs = drifts_def fixes_row_def silent_def unknown_ids_def build_pod_map_def pod_of_def reconciled_row_def
  lost_def active_cond_def missing_since_def time_sub_def maxDuration_def minDuration_def sample_row_def
  NewSandboxReconcileService_def UpdateStatus_row_def pass_sample(2)

lemma stopped_counted_as_drift:
  "\<exists>run items w'. run_state (Run (NewSandboxReconcileService sample_client (\<lambda>x. x) (\<lambda>xs. xs)) ''manual'')
       ((sample_world pass_rows [sample_pod ''xyz''])\<lparr>clock := (\<lambda>_. 700 * second)\<rparr>) = (Inr (Some (run, items)), w') \<and>
     run_DriftCount run = 3 \<and> length items = 2"
proof -
  let ?w = "(sample_world pass_rows [sample_pod ''xyz''])\<lparr>clock := (\<lambda>_. 700 * second)\<rparr>"
  let ?s = "NewSandboxReconcileService sample_client (\<lambda>x. x) (\<lambda>xs. xs)"
  have "\<exists>run items w'. run_state (Run ?s ''manual'') ?w = (Inr (Some (run, items)), w') \<and>
      run_totals [sample_pod ''xyz''] (lostGracePeriod ?s) (700 * second) (sandboxes (db ?w)) run items \<and>
      sandboxes (db w') = map (reconciled_row [sample_pod ''xyz''] (lostGracePeriod ?s) (700 * second)) (sandboxes (db ?w))"
    by (rule wp_Run_exact [where k = "kube ?w"])
       (use pass_sample in \<open>auto simp: sample_row_def NewSandboxReconcileService_def sample_world_def empty_tables_def\<close>)
  then obtain run items w' where r: "run_state (Run ?s ''manual'') ?w = (Inr (Some (run, items)), w')"
      "run_totals [sample_pod ''xyz''] (lostGracePeriod ?s) (700 * second) pass_rows run items"
    by fastforce
  have "run_DriftCount run = 3 \<and> length items = 2"
    using r(2) by (simp add: run_totals_def pass_specs)
  with r(1) show ?thesis
    by blast
qed

section \<open>Properties\<close>



end
