(* ===== verification/Ws_Relay.thy ===== *)
theory Ws_Relay
  imports Prelude
begin

text \<open>
  The websocket relay of the gateway, second half of \<open>backend/internal/gateway/proxy.go\<close>: two loops copy messages
  between the client and the backend; the first that ends decides which side is told with which close code.
  A connection is what its reads return and which of its writes fail.
\<close>

section \<open>Definitions\<close>

text \<open>\<open>CloseError\<close> is \<open>*websocket.CloseError\<close>, the error that \<open>errors.As\<close> looks for.\<close>

datatype ws_err = CloseError int string | WsError string

record wsRelayResult =
  rr_Direction :: string
  rr_Source :: string
  rr_Target :: string
  rr_Stage :: string
  rr_Err :: ws_err
  rr_CloseErr :: "(int \<times> string) option"

abbreviation "CloseNormalClosure \<equiv> (1000 :: int)"
abbreviation "CloseGoingAway \<equiv> (1001 :: int)"
abbreviation "CloseNoStatusReceived \<equiv> (1005 :: int)"
abbreviation "CloseAbnormalClosure \<equiv> (1006 :: int)"
abbreviation "CloseInternalServerErr \<equiv> (1011 :: int)"
abbreviation "CloseTLSHandshake \<equiv> (1015 :: int)"

definition newWSRelayResult :: "string \<Rightarrow> string \<Rightarrow> string \<Rightarrow> string \<Rightarrow> ws_err \<Rightarrow> wsRelayResult" where
  "newWSRelayResult direction source target stage err =
     \<lparr>rr_Direction = direction, rr_Source = source, rr_Target = target, rr_Stage = stage, rr_Err = err,
      rr_CloseErr = (case err of CloseError code text \<Rightarrow> Some (code, text) | WsError _ \<Rightarrow> None)\<rparr>"

definition notifyPeer :: "wsRelayResult \<Rightarrow> string" where
  "notifyPeer r = (if rr_Stage r = ''read'' then rr_Target r else if rr_Stage r = ''write'' then rr_Source r else [])"

definition failureSide :: "wsRelayResult \<Rightarrow> string" where
  "failureSide r = (if rr_Stage r = ''read'' then rr_Source r else if rr_Stage r = ''write'' then rr_Target r else [])"

definition sanitizeCloseCode :: "int \<Rightarrow> int \<Rightarrow> int" where
  "sanitizeCloseCode code fallback =
     (if code \<in> {0, CloseNoStatusReceived, CloseAbnormalClosure, CloseTLSHandshake} then fallback else code)"

definition proxyCloseForUnexpected :: "wsRelayResult \<Rightarrow> int \<times> string" where
  "proxyCloseForUnexpected r =
     (if failureSide r = ''backend'' then
        (CloseInternalServerErr, if rr_Stage r = ''read'' then ''upstream_read_failed'' else ''upstream_write_failed'')
      else if failureSide r = ''client'' then
        (CloseGoingAway, if rr_Stage r = ''read'' then ''client_read_failed'' else ''client_write_failed'')
      else (CloseInternalServerErr, ''proxy_relay_failed''))"

text \<open>The close frames that are written: to which connection, with which code and text.\<close>

type_synonym close_frame = "string \<times> int \<times> string"

definition peerConn :: "string \<Rightarrow> string option" where
  "peerConn name = (if name = ''client'' then Some ''client'' else if name = ''backend'' then Some ''backend'' else None)"

definition handleRelayTermination :: "wsRelayResult \<Rightarrow> close_frame list" where
  "handleRelayTermination r =
     (if rr_Stage r = ''context'' then
        [(''client'', CloseGoingAway, ''proxy_context_canceled''), (''backend'', CloseGoingAway, ''proxy_context_canceled'')]
      else case peerConn (notifyPeer r) of
        None \<Rightarrow> []
      | Some peer \<Rightarrow>
          (case rr_CloseErr r of
             Some (code, text) \<Rightarrow> [(peer, sanitizeCloseCode code CloseNormalClosure, text)]
           | None \<Rightarrow> [(peer, proxyCloseForUnexpected r)]))"

text \<open>What a read returns. A loop whose reads are used up is still waiting: it has not returned.\<close>

datatype ws_read = Message int string | ReadFailed ws_err

definition srcName :: "string \<Rightarrow> string" where
  "srcName direction = (if direction = ''client_to_backend'' then ''client'' else ''backend'')"

fun relayWebSocketMessages ::
  "string \<Rightarrow> string \<Rightarrow> ws_read list \<Rightarrow> ws_err option list \<Rightarrow> (int \<times> string) list \<times> wsRelayResult option" where
  "relayWebSocketMessages dst direction [] writes = ([], None)"
| "relayWebSocketMessages dst direction (ReadFailed e # reads) writes =
     ([], Some (newWSRelayResult direction (srcName direction) dst ''read'' e))"
| "relayWebSocketMessages dst direction (Message ty x # reads) (Some e # writes) =
     ([], Some (newWSRelayResult direction (srcName direction) dst ''write'' e))"
| "relayWebSocketMessages dst direction (Message ty x # reads) (None # writes) =
     (case relayWebSocketMessages dst direction reads writes of (out, r) \<Rightarrow> ((ty, x) # out, r))"
| "relayWebSocketMessages dst direction (Message ty x # reads) [] =
     (case relayWebSocketMessages dst direction reads [] of (out, r) \<Rightarrow> ((ty, x) # out, r))"

text \<open>
  A session: the two loops run concurrently, and the session takes the result that arrives first, or the end
  of the request's context. Afterwards both connections are closed.
\<close>

datatype first_result = ContextDone | ClientToBackend | BackendToClient

definition context_result :: wsRelayResult where
  "context_result = \<lparr>rr_Direction = ''proxy_context'', rr_Source = ''context'', rr_Target = ''both'', rr_Stage = ''context'',
     rr_Err = WsError ''context canceled'', rr_CloseErr = None\<rparr>"

record ws_session =
  to_backend :: "(int \<times> string) list"
  to_client :: "(int \<times> string) list"
  closes :: "close_frame list"

definition runWebSocketProxySession ::
  "first_result \<Rightarrow> ws_read list \<Rightarrow> ws_err option list \<Rightarrow> ws_read list \<Rightarrow> ws_err option list \<Rightarrow> ws_session option" where
  "runWebSocketProxySession first client_reads backend_writes backend_reads client_writes =
     (let (cb, rcb) = relayWebSocketMessages ''backend'' ''client_to_backend'' client_reads backend_writes;
          (bc, rbc) = relayWebSocketMessages ''client'' ''backend_to_client'' backend_reads client_writes
      in map_option (\<lambda>r. \<lparr>to_backend = cb, to_client = bc, closes = handleRelayTermination r\<rparr>)
           (case first of ContextDone \<Rightarrow> Some context_result | ClientToBackend \<Rightarrow> rcb | BackendToClient \<Rightarrow> rbc))"

section \<open>Lemmas\<close>

fun messages :: "ws_read list \<Rightarrow> (int \<times> string) list" where
  "messages [] = []"
| "messages (Message ty x # reads) = (ty, x) # messages reads"
| "messages (ReadFailed e # reads) = []"

definition unsendable_codes :: "int set" where
  "unsendable_codes = {0, CloseNoStatusReceived, CloseAbnormalClosure, CloseTLSHandshake}"

lemma relay_prefix:
  "relayWebSocketMessages dst d reads writes = (out, r) \<Longrightarrow> \<exists>k. out = take k (messages reads)"
proof (induction dst d reads writes arbitrary: out rule: relayWebSocketMessages.induct)
  case (4 dst d ty x reads writes)
  then show ?case
    by (auto split: prod.splits) (metis take_Suc_Cons)
next
  case (5 dst d ty x reads)
  then show ?case
    by (auto split: prod.splits) (metis take_Suc_Cons)
qed (auto intro: exI [of _ 0])

lemma relay_result:
  "relayWebSocketMessages dst d reads writes = (out, Some r) \<Longrightarrow>
   \<exists>stage e. r = newWSRelayResult d (srcName d) dst stage e \<and> (stage = ''read'' \<and> out = messages reads \<or> stage = ''write'')"
  by (induction dst d reads writes arbitrary: out rule: relayWebSocketMessages.induct) (auto split: prod.splits)

lemma relay_no_write_error:
  "relayWebSocketMessages dst d (map (\<lambda>(ty, x). Message ty x) ms @ [ReadFailed e]) [] =
     (ms, Some (newWSRelayResult d (srcName d) dst ''read'' e))"
  by (induction ms) (auto split: prod.splits)

lemma result_sides:
  assumes "r = newWSRelayResult d src dst stage e"
  shows "stage = ''read'' \<Longrightarrow> notifyPeer r = dst \<and> failureSide r = src"
    and "stage = ''write'' \<Longrightarrow> notifyPeer r = src \<and> failureSide r = dst"
  using assms by (auto simp: newWSRelayResult_def notifyPeer_def failureSide_def)

lemma termination_frame:
  assumes "r = newWSRelayResult d src dst stage e" "stage = ''read'' \<or> stage = ''write''"
    and "notifyPeer r = ''client'' \<or> notifyPeer r = ''backend''"
  shows "\<exists>code text. handleRelayTermination r = [(notifyPeer r, code, text)] \<and> code \<notin> unsendable_codes \<and>
    (\<forall>c t. rr_CloseErr r = Some (c, t) \<longrightarrow> text = t \<and> (c \<notin> unsendable_codes \<longrightarrow> code = c))"
proof -
  have "rr_Stage r \<noteq> ''context''"
    using assms(1,2) by (auto simp: newWSRelayResult_def)
  moreover have "peerConn (notifyPeer r) = Some (notifyPeer r)"
    using assms(3) by (auto simp: peerConn_def)
  ultimately have frame: "handleRelayTermination r =
      (case rr_CloseErr r of Some (code, text) \<Rightarrow> [(notifyPeer r, sanitizeCloseCode code CloseNormalClosure, text)]
       | None \<Rightarrow> [(notifyPeer r, proxyCloseForUnexpected r)])"
    by (simp add: handleRelayTermination_def)
  show ?thesis
  proof (cases "rr_CloseErr r")
    case None
    obtain code tx where p: "proxyCloseForUnexpected r = (code, tx)"
      by fastforce
    then have "code \<notin> unsendable_codes"
      by (auto simp: proxyCloseForUnexpected_def unsendable_codes_def split: if_splits)
    with None p frame show ?thesis by simp
  next
    case (Some ct)
    then show ?thesis
      using frame by (cases ct) (auto simp: sanitizeCloseCode_def unsendable_codes_def)
  qed
qed

section \<open>Properties\<close>

text \<open>
  C26: when a relay loop ends, the messages it passed on are those it read, in order and without gaps, and all of
  them when it was the read that failed; the session then sends exactly one close frame, to the side that did
  not fail, with a code that may be sent; a close handshake is passed on with its text and, where it may be sent,
  its code.
\<close>

theorem relay_end_notifies_survivor:
  assumes "relayWebSocketMessages dst d reads writes = (out, Some r)"
    and "dst = ''backend'' \<and> d = ''client_to_backend'' \<or> dst = ''client'' \<and> d = ''backend_to_client''"
  shows "(\<exists>k. out = take k (messages reads)) \<and> (failureSide r = srcName d \<longrightarrow> out = messages reads) \<and>
    {notifyPeer r, failureSide r} = {''client'', ''backend''} \<and>
    (\<exists>code text. handleRelayTermination r = [(notifyPeer r, code, text)] \<and> code \<notin> unsendable_codes \<and>
       (\<forall>c t. rr_CloseErr r = Some (c, t) \<longrightarrow> text = t \<and> (c \<notin> unsendable_codes \<longrightarrow> code = c)))"
proof -
  obtain stage e where r: "r = newWSRelayResult d (srcName d) dst stage e"
    and stage: "stage = ''read'' \<and> out = messages reads \<or> stage = ''write''"
    using relay_result [OF assms(1)] by blast
  have sides: "srcName d \<noteq> dst \<and> {srcName d, dst} = {''client'', ''backend''}"
    using assms(2) by (auto simp: srcName_def)
  have "notifyPeer r = dst \<and> failureSide r = srcName d \<or> notifyPeer r = srcName d \<and> failureSide r = dst"
    using stage result_sides [OF r] by blast
  with sides have peers: "{notifyPeer r, failureSide r} = {''client'', ''backend''}"
    by (metis insert_commute)
  then have "notifyPeer r = ''client'' \<or> notifyPeer r = ''backend''"
    by blast
  then have "\<exists>code tx. handleRelayTermination r = [(notifyPeer r, code, tx)] \<and> code \<notin> unsendable_codes \<and>
      (\<forall>c t. rr_CloseErr r = Some (c, t) \<longrightarrow> tx = t \<and> (c \<notin> unsendable_codes \<longrightarrow> code = c))"
    using stage by (intro termination_frame [OF r]) blast
  moreover have "failureSide r = srcName d \<longrightarrow> out = messages reads"
    using stage sides result_sides(2) [OF r] by metis
  ultimately show ?thesis
    using peers relay_prefix [OF assms(1)] by blast
qed

theorem relay_end_notifies_survivor_witness:
  "\<exists>r. relayWebSocketMessages ''backend'' ''client_to_backend'' [Message 1 ''hi'', ReadFailed (CloseError 1001 ''bye'')] [] = ([(1, ''hi'')], Some r) \<and>
     handleRelayTermination r = [(''backend'', 1001, ''bye'')]"
proof -
  let ?r = "newWSRelayResult ''client_to_backend'' ''client'' ''backend'' ''read'' (CloseError 1001 ''bye'')"
  have run: "relayWebSocketMessages ''backend'' ''client_to_backend'' [Message 1 ''hi'', ReadFailed (CloseError 1001 ''bye'')] [] = ([(1, ''hi'')], Some ?r)"
    by (simp add: srcName_def)
  have "rr_CloseErr ?r = Some (1001, ''bye'')" "notifyPeer ?r = ''backend''"
    by (simp_all add: newWSRelayResult_def notifyPeer_def)
  then have "handleRelayTermination ?r = [(''backend'', 1001, ''bye'')]"
    using relay_end_notifies_survivor [OF run] by (auto simp: unsendable_codes_def)
  with run show ?thesis by blast
qed

text \<open>
  A backend whose connection breaks down (the library reports it as close code 1006) is announced to the client
  as a normal closure, and not as a failed upstream, which is what any other read error of the backend gives.
\<close>

theorem dropped_backend_looks_normal:
  "runWebSocketProxySession BackendToClient [] [] (map (\<lambda>(ty, x). Message ty x) ms @ [ReadFailed e]) [] =
     Some \<lparr>to_backend = [], to_client = ms,
       closes = [case e of CloseError code text \<Rightarrow> (''client'', sanitizeCloseCode code CloseNormalClosure, text)
                 | WsError _ \<Rightarrow> (''client'', CloseInternalServerErr, ''upstream_read_failed'')]\<rparr> \<and>
   sanitizeCloseCode CloseAbnormalClosure CloseNormalClosure = CloseNormalClosure"
  by (simp add: runWebSocketProxySession_def relay_no_write_error newWSRelayResult_def srcName_def handleRelayTermination_def
      notifyPeer_def failureSide_def peerConn_def sanitizeCloseCode_def proxyCloseForUnexpected_def split: ws_err.split)

end
