(* ===== verification/Deletion.thy ===== *)
theory Deletion
  imports Sample_Cluster
begin

text \<open>
  The deletion controller, \<open>backend/internal/service/sandbox_deletion.go\<close>: a row whose
  desired state is \<open>deleted\<close> is driven through the phases \<open>requested\<close>,
  \<open>quiescing_runtime\<close>, \<open>deleting_storage\<close>, \<open>force_cleanup\<close>, \<open>verifying\<close> to
  \<open>completed\<close>, one step per pass of \<open>RunPending\<close>. The controller is proved to refine a small
  phase machine for every behaviour of the cluster and every database fault, to complete a
  deletion only on a snapshot without remains, and to terminate on a cluster that obeys.
\<close>

section \<open>The controller\<close>

abbreviation "defaultDeletionRetryInterval \<equiv> 10 * second"
abbreviation "maxDeletionRetryInterval \<equiv> 60 * second"
abbreviation "podDeleteTimeout \<equiv> 45 * second"
abbreviation "pvcDeleteTimeout \<equiv> 2 * minute"
abbreviation "pvcForceCleanupThreshold \<equiv> 5 * minute"
abbreviation "storageAttachmentCleanupAfter \<equiv> 15 * minute"

text \<open>\<open>1<<n\<close> and the product are at the width of \<open>int64\<close>.\<close>

definition computeDeletionRetry :: "int \<Rightarrow> duration" where
  "computeDeletionRetry attempts =
     (let delay = wrap64 (defaultDeletionRetryInterval * wrap64 (2 ^ nat (max 0 attempts))) in
      if delay > maxDeletionRetryInterval then maxDeletionRetryInterval else delay)"

definition exceededDeletionTimeout :: "time option \<Rightarrow> duration \<Rightarrow> time \<Rightarrow> bool" where
  "exceededDeletionTimeout start timeout now =
     (case start of None \<Rightarrow> False | Some s \<Rightarrow> time_sub now s \<ge> timeout)"

definition podUsesPVC :: "Pod \<Rightarrow> string \<Rightarrow> bool" where
  "podUsesPVC pod claimName \<longleftrightarrow>
     list_ex (\<lambda>(n, v). v = ClaimVolume claimName) (spec_Volumes (pod_Spec pod))"

definition markReadyForImmediateRetry :: "SandboxRecord \<Rightarrow> ('k, unit res) prog" where
  "markReadyForImmediateRetry r = do {
     now \<leftarrow> time_now;
     RecordDeletionAttempt (rec_ID r) (rec_DeletionAttempts r) (rec_DeletionForceLevel r)
       (rec_DeletionLastAttemptAt r) (Some now) [] now }"

definition bumpForceLevel :: "SandboxRecord \<Rightarrow> int \<Rightarrow> time \<Rightarrow> ('k, unit res) prog" where
  "bumpForceLevel r level now =
     RecordDeletionAttempt (rec_ID r) (rec_DeletionAttempts r) level (Some now) (Some now) [] now"

definition transitionPhase :: "SandboxRecord \<Rightarrow> string \<Rightarrow> ('k, unit res) prog" where
  "transitionPhase r phase = do {
     now \<leftarrow> time_now;
     seqE (AdvanceDeletionPhase (rec_ID r) phase now) (\<lambda>_.
       markReadyForImmediateRetry (r\<lparr>rec_DeletionPhase := phase\<rparr>)) }"

definition snapshot :: "'k Client \<Rightarrow> SandboxRecord \<Rightarrow> ('k, SandboxDeletionSnapshot res) prog" where
  "snapshot c r =
     (if rec_PersistenceEnabled r
      then GetSandboxDeletionSnapshot c (rec_ID r) (rec_RuntimeName r) (rec_VolumeClaimName r)
      else seqE (ListSandboxPods c (rec_ID r)) (\<lambda>pods.
             retE \<lparr>snap_Deployment = None, snap_Pods = pods, snap_PVC = None, snap_PV = None,
                   snap_VolumeAttachments = []\<rparr>))"

definition canForceDeletePVC :: "SandboxRecord \<Rightarrow> SandboxDeletionSnapshot \<Rightarrow> bool" where
  "canForceDeletePVC r s =
     (if rec_VolumeReclaimPolicy r = ''Retain'' \<or> snap_PVC s = None \<or> snap_Pods s \<noteq> [] \<or> snap_Deployment s \<noteq> None
      then False
      else case snap_PVC s of
             None \<Rightarrow> False
           | Some pvc \<Rightarrow>
               if om_Name (pvc_Meta pvc) \<noteq> rec_VolumeClaimName r then False
               else \<not> list_ex (\<lambda>p. podUsesPVC p (om_Name (pvc_Meta pvc))) (snap_Pods s))"

definition cleanupStorageAttachments ::
  "'k Client \<Rightarrow> SandboxRecord \<Rightarrow> SandboxDeletionSnapshot \<Rightarrow> ('k, unit res) prog" where
  "cleanupStorageAttachments c r s =
     seqE (for_eachE (\<lambda>va. DeleteVolumeAttachment c (va_Name va)) (snap_VolumeAttachments s)) (\<lambda>_.
       case snap_PV s of
         None \<Rightarrow> retE ()
       | Some pv \<Rightarrow>
           seqE (PatchPVFinalizers c (om_Name (pv_Meta pv)) (rec_VolumeClaimName r) []) (\<lambda>_.
             DeletePersistentVolume c (om_Name (pv_Meta pv)) (rec_VolumeClaimName r)))"

definition handleQuiescingRuntime ::
  "'k Client \<Rightarrow> SandboxRecord \<Rightarrow> SandboxDeletionSnapshot \<Rightarrow> time \<Rightarrow> ('k, unit res) prog" where
  "handleQuiescingRuntime c r s now =
     (if rec_PersistenceEnabled r \<and> snap_Deployment s \<noteq> None then
        seqE (DeletePersistentSandbox c (rec_ID r) [] ''Retain'') (\<lambda>_. markReadyForImmediateRetry r)
      else if \<not> rec_PersistenceEnabled r \<and> snap_Pods s \<noteq> [] then
        seqE (ignore_not_found (DeletePod c (rec_ID r))) (\<lambda>_. markReadyForImmediateRetry r)
      else if snap_Pods s \<noteq> [] then
        (if exceededDeletionTimeout (rec_DeletionStartedAt r) podDeleteTimeout now
         then transitionPhase r DeletionPhaseForceCleanup else retE ())
      else if rec_PersistenceEnabled r \<and> rec_VolumeReclaimPolicy r \<noteq> ''Retain'' \<and> rec_VolumeClaimName r \<noteq> []
              \<and> snap_PVC s \<noteq> None then transitionPhase r DeletionPhaseDeletingStorage
      else transitionPhase r DeletionPhaseVerifying)"

definition handleDeletingStorage ::
  "'k Client \<Rightarrow> SandboxRecord \<Rightarrow> SandboxDeletionSnapshot \<Rightarrow> time \<Rightarrow> ('k, unit res) prog" where
  "handleDeletingStorage c r s now =
     (case snap_PVC s of
        None \<Rightarrow> transitionPhase r DeletionPhaseVerifying
      | Some pvc \<Rightarrow>
          if snap_Pods s \<noteq> [] then transitionPhase r DeletionPhaseForceCleanup
          else if om_DeletionTimestamp (pvc_Meta pvc) = None then
            seqE (DeletePersistentSandbox c (rec_ID r) (rec_VolumeClaimName r) (rec_VolumeReclaimPolicy r))
              (\<lambda>_. markReadyForImmediateRetry r)
          else if exceededDeletionTimeout (rec_DeletionStartedAt r) pvcDeleteTimeout now
            then transitionPhase r DeletionPhaseForceCleanup
          else retE ())"

definition handleForceCleanup ::
  "'k Client \<Rightarrow> SandboxRecord \<Rightarrow> SandboxDeletionSnapshot \<Rightarrow> time \<Rightarrow> ('k, unit res) prog" where
  "handleForceCleanup c r s now =
     (if rec_DeletionForceLevel r = 0 then
        seqE (for_eachE (\<lambda>p. ForceDeletePodByName c (om_Name (pod_Meta p))) (snap_Pods s)) (\<lambda>_.
        seqE (case snap_Deployment s of
                Some d \<Rightarrow> if om_DeletionTimestamp (dep_Meta d) \<noteq> None
                           then PatchDeploymentFinalizers c (om_Name (dep_Meta d)) (rec_ID r) [] else retE ()
              | None \<Rightarrow> retE ()) (\<lambda>_.
        bumpForceLevel r 1 now))
      else if rec_DeletionForceLevel r = 1 then
        seqE (case snap_PVC s of
                Some pvc \<Rightarrow>
                  if canForceDeletePVC r s
                     \<and> exceededDeletionTimeout (rec_DeletionStartedAt r) pvcForceCleanupThreshold now then
                    seqE (PatchPVCFinalizers c (om_Name (pvc_Meta pvc)) (rec_ID r) []) (\<lambda>_.
                      DeletePersistentSandbox c (rec_ID r) (rec_VolumeClaimName r) (rec_VolumeReclaimPolicy r))
                  else retE ()
              | None \<Rightarrow> retE ()) (\<lambda>_.
        bumpForceLevel r 2 now)
      else if rec_DeletionForceLevel r = 2 then
        seqE (if snap_PV s \<noteq> None
                 \<and> exceededDeletionTimeout (rec_DeletionStartedAt r) storageAttachmentCleanupAfter now
              then cleanupStorageAttachments c r s else retE ()) (\<lambda>_.
        bumpForceLevel r 3 now)
      else transitionPhase r DeletionPhaseVerifying)"

text \<open>What is left of a sandbox in a snapshot that the last phase does not accept.\<close>

definition verify_remains :: "SandboxRecord \<Rightarrow> SandboxDeletionSnapshot \<Rightarrow> bool" where
  "verify_remains r s =
     (if rec_PersistenceEnabled r then
        (snap_Deployment s \<noteq> None \<or> snap_Pods s \<noteq> []) \<or>
        (rec_VolumeReclaimPolicy r \<noteq> ''Retain'' \<and> snap_PVC s \<noteq> None) \<or>
        (rec_DeletionForceLevel r \<ge> 3 \<and> (snap_PV s \<noteq> None \<or> snap_VolumeAttachments s \<noteq> []))
      else snap_Pods s \<noteq> [])"

definition handleVerifying ::
  "'k Client \<Rightarrow> SandboxRecord \<Rightarrow> SandboxDeletionSnapshot \<Rightarrow> time \<Rightarrow> ('k, unit res) prog" where
  "handleVerifying c r s now =
     (if verify_remains r s then transitionPhase r DeletionPhaseForceCleanup
      else seqE (MarkDeletionCompleted (rec_ID r) ''delete completed'' now) (\<lambda>_. do {
        AppendStatusHistory (rec_ID r) ''system'' ''terminating'' ''deleted'' ''delete completed'' None now;
        retE () }))"

definition deletion_dispatch ::
  "'k Client \<Rightarrow> SandboxRecord \<Rightarrow> SandboxDeletionSnapshot \<Rightarrow> time \<Rightarrow> ('k, unit res) prog" where
  "deletion_dispatch c r s now =
     (let phase = (if rec_DeletionPhase r = [] then DeletionPhaseRequested else rec_DeletionPhase r) in
      if phase = DeletionPhaseRequested then transitionPhase r DeletionPhaseQuiescingRuntime
      else if phase = DeletionPhaseQuiescingRuntime then handleQuiescingRuntime c r s now
      else if phase = DeletionPhaseDeletingStorage then handleDeletingStorage c r s now
      else if phase = DeletionPhaseForceCleanup then handleForceCleanup c r s now
      else if phase = DeletionPhaseVerifying then handleVerifying c r s now
      else if phase = DeletionPhaseCompleted then retE ()
      else transitionPhase r DeletionPhaseRequested)"

definition processSandbox :: "'k Client \<Rightarrow> SandboxRecord \<Rightarrow> ('k, unit res) prog" where
  "processSandbox c r0 = do {
     now \<leftarrow> time_now;
     let retryAt = now + computeDeletionRetry (rec_DeletionAttempts r0);
     let nextAttempts = rec_DeletionAttempts r0 + 1;
     seqE (RecordDeletionAttempt (rec_ID r0) nextAttempts (rec_DeletionForceLevel r0)
             (Some now) (Some retryAt) [] now) (\<lambda>_. do {
       let r = r0\<lparr>rec_DeletionAttempts := nextAttempts, rec_DeletionLastAttemptAt := Some now,
                  rec_DeletionNextRetryAt := Some retryAt\<rparr>;
       res \<leftarrow> snapshot c r;
       case res of
         Inl e \<Rightarrow> do {
           RecordDeletionAttempt (rec_ID r) (rec_DeletionAttempts r) (rec_DeletionForceLevel r)
             (Some now) (Some retryAt) (err_text e) now;
           throw e }
       | Inr s \<Rightarrow> deletion_dispatch c r s now }) }"

definition RunPending :: "'k Client \<Rightarrow> ('k, unit res) prog" where
  "RunPending c = do {
     now \<leftarrow> time_now;
     seqE (ListPendingDeletion now) (\<lambda>records. do {
       for_each (\<lambda>r. do { processSandbox c r; ret () }) records;
       retE () }) }"

section \<open>The phase machine\<close>

text \<open>
  The bookkeeping columns of an attempt are erased; what is left of a row is what the machine
  moves. An empty phase counts as \<open>requested\<close>.
\<close>

definition strip :: "SandboxRecord \<Rightarrow> SandboxRecord" where
  "strip r = r\<lparr>rec_DeletionLastAttemptAt := None, rec_DeletionNextRetryAt := None, rec_DeletionAttempts := 0,
               rec_DeletionLastError := [], rec_UpdatedAt := 0\<rparr>"

definition phase_of :: "SandboxRecord \<Rightarrow> string" where
  "phase_of r = (if rec_DeletionPhase r = [] then DeletionPhaseRequested else rec_DeletionPhase r)"

definition known_phases :: "string list" where
  "known_phases = [DeletionPhaseRequested, DeletionPhaseQuiescingRuntime, DeletionPhaseDeletingStorage,
     DeletionPhaseForceCleanup, DeletionPhaseVerifying, DeletionPhaseCompleted]"

definition completed_row :: "time \<Rightarrow> SandboxRecord \<Rightarrow> SandboxRecord" where
  "completed_row now s =
     s\<lparr>rec_DesiredState := DesiredStateDeleted, rec_LifecycleStatus := ''deleted'',
       rec_StatusReason := ''delete completed'', rec_DeletedAt := Some now,
       rec_DeletionPhase := DeletionPhaseCompleted\<rparr>"

inductive phase_step :: "SandboxRecord \<Rightarrow> SandboxRecord \<Rightarrow> bool" where
  stay: "phase_step s s"
| accept: "phase_of s = DeletionPhaseRequested \<Longrightarrow>
     phase_step s (s\<lparr>rec_DeletionPhase := DeletionPhaseQuiescingRuntime\<rparr>)"
| reset: "phase_of s \<notin> set known_phases \<Longrightarrow>
     phase_step s (s\<lparr>rec_DeletionPhase := DeletionPhaseRequested\<rparr>)"
| pods_stuck: "phase_of s = DeletionPhaseQuiescingRuntime \<Longrightarrow>
     phase_step s (s\<lparr>rec_DeletionPhase := DeletionPhaseForceCleanup\<rparr>)"
| storage: "phase_of s = DeletionPhaseQuiescingRuntime \<Longrightarrow> rec_PersistenceEnabled s \<Longrightarrow>
     rec_VolumeReclaimPolicy s \<noteq> ''Retain'' \<Longrightarrow>
     phase_step s (s\<lparr>rec_DeletionPhase := DeletionPhaseDeletingStorage\<rparr>)"
| quiet: "phase_of s = DeletionPhaseQuiescingRuntime \<Longrightarrow>
     phase_step s (s\<lparr>rec_DeletionPhase := DeletionPhaseVerifying\<rparr>)"
| storage_gone: "phase_of s = DeletionPhaseDeletingStorage \<Longrightarrow>
     phase_step s (s\<lparr>rec_DeletionPhase := DeletionPhaseVerifying\<rparr>)"
| storage_stuck: "phase_of s = DeletionPhaseDeletingStorage \<Longrightarrow>
     phase_step s (s\<lparr>rec_DeletionPhase := DeletionPhaseForceCleanup\<rparr>)"
| escalate: "phase_of s = DeletionPhaseForceCleanup \<Longrightarrow> 0 \<le> rec_DeletionForceLevel s \<Longrightarrow>
     rec_DeletionForceLevel s < 3 \<Longrightarrow>
     phase_step s (s\<lparr>rec_DeletionForceLevel := rec_DeletionForceLevel s + 1\<rparr>)"
| forced: "phase_of s = DeletionPhaseForceCleanup \<Longrightarrow>
     rec_DeletionForceLevel s < 0 \<or> 3 \<le> rec_DeletionForceLevel s \<Longrightarrow>
     phase_step s (s\<lparr>rec_DeletionPhase := DeletionPhaseVerifying\<rparr>)"
| remains: "phase_of s = DeletionPhaseVerifying \<Longrightarrow>
     phase_step s (s\<lparr>rec_DeletionPhase := DeletionPhaseForceCleanup\<rparr>)"
| complete: "phase_of s = DeletionPhaseVerifying \<Longrightarrow> phase_step s (completed_row now s)"

inductive_cases phase_stepE: "phase_step s s'"

text \<open>What every run of the machine keeps: the level only grows and stays in its range, completion is final.\<close>

lemma phase_steps_level:
  assumes "phase_step\<^sup>*\<^sup>* s s'" "0 \<le> rec_DeletionForceLevel s" "rec_DeletionForceLevel s \<le> 3"
  shows "rec_DeletionForceLevel s \<le> rec_DeletionForceLevel s' \<and> rec_DeletionForceLevel s' \<le> 3"
  using assms
  by (induction rule: rtranclp_induct) (auto elim!: phase_stepE simp: completed_row_def)

lemma phase_of_upd [simp]:
  "phase_of (s\<lparr>rec_DeletionPhase := p\<rparr>) = (if p = [] then DeletionPhaseRequested else p)"
  "phase_of (s\<lparr>rec_DeletionForceLevel := l\<rparr>) = phase_of s"
  "phase_of (completed_row now s) = DeletionPhaseCompleted"
  by (simp_all add: phase_of_def completed_row_def)

lemma phase_steps_completed:
  "phase_step\<^sup>*\<^sup>* s s' \<Longrightarrow> phase_of s = DeletionPhaseCompleted \<Longrightarrow> s' = s"
  by (induction rule: rtranclp_induct) (auto elim!: phase_stepE simp: known_phases_def)

text \<open>A row whose completion is recorded and its phase agree along every run.\<close>

definition done_agrees :: "SandboxRecord \<Rightarrow> bool" where
  "done_agrees s \<longleftrightarrow> (rec_LifecycleStatus s = ''deleted'' \<longleftrightarrow> phase_of s = DeletionPhaseCompleted)"

lemma phase_step_done_agrees: "phase_step s s' \<Longrightarrow> done_agrees s \<Longrightarrow> done_agrees s'"
  by (auto elim!: phase_stepE simp: done_agrees_def completed_row_def phase_of_def known_phases_def)

lemma strip_strip [simp]: "strip (strip r) = strip r"
  by (simp add: strip_def)

lemma strip_fields [simp]:
  "rec_ID (strip r) = rec_ID r" "phase_of (strip r) = phase_of r"
  "rec_DeletionForceLevel (strip r) = rec_DeletionForceLevel r"
  "rec_LifecycleStatus (strip r) = rec_LifecycleStatus r"
  "rec_PersistenceEnabled (strip r) = rec_PersistenceEnabled r"
  "rec_VolumeReclaimPolicy (strip r) = rec_VolumeReclaimPolicy r"
  by (simp_all add: strip_def phase_of_def)

lemma strip_rows [simp]:
  "strip (RecordDeletionAttempt_row n l a b e now x) = (strip x)\<lparr>rec_DeletionForceLevel := l\<rparr>"
  "strip (AdvanceDeletionPhase_row p now x) = (strip x)\<lparr>rec_DeletionPhase := p\<rparr>"
  "strip (MarkDeletionCompleted_row ''delete completed'' now x) = completed_row now (strip x)"
  by (simp_all add: strip_def row_defs completed_row_def)

lemma strip_same_level [simp]:
  "rec_DeletionForceLevel s = l \<Longrightarrow> s\<lparr>rec_DeletionForceLevel := l\<rparr> = s"
  by (cases s) simp

section \<open>Row rules\<close>

text \<open>
  After a program, whatever it returned, the rows of one sandbox satisfy \<open>P\<close>. The rules carry
  this over the statements of the controller with every database fault accounted for.
\<close>

definition row_post :: "string \<Rightarrow> ('k, 'a) prog \<Rightarrow> (SandboxRecord \<Rightarrow> bool) \<Rightarrow> 'k world \<Rightarrow> bool" where
  "row_post sid m P w = wp m (\<lambda>_ w'. rows_sat sid P (db w')) w"

lemma row_post_exec:
  "rows_sat sid P (db w) \<Longrightarrow> rows_sat sid P (f (db w)) \<Longrightarrow> row_post sid (sql_exec msg f) P w"
  by (auto simp: row_post_def wp_sql_stmt split: prod.split)

lemma row_post_bind:
  "wp m (\<lambda>a. row_post sid (f a) P) w \<Longrightarrow> row_post sid (State_Monad.bind m f) P w"
  unfolding row_post_def [abs_def] wp_bind .

lemma row_post_now: "row_post sid (f (clock w (ticks w))) P (w\<lparr>ticks := Suc (ticks w)\<rparr>) \<Longrightarrow>
  row_post sid (State_Monad.bind time_now f) P w"
  by (simp add: row_post_def wp_simps)

lemma row_post_ret: "rows_sat sid P (db w) \<Longrightarrow> row_post sid (ret x) P w"
  by (simp add: row_post_def wp_simps)

lemma row_post_client:
  "state_io_rel db_same m \<Longrightarrow> rows_sat sid P (db w) \<Longrightarrow> (\<And>a w'. db w' = db w \<Longrightarrow> row_post sid (f a) P w') \<Longrightarrow>
   row_post sid (seqE m f) P w"
  unfolding row_post_def wp_seqE by (rule wp_client) (auto split: sum.split)

lemma row_post_seq_exec:
  assumes "rows_sat sid P (db w)"
    and "\<And>w'. db w' = f (db w) \<Longrightarrow> row_post sid (g ()) P w'"
  shows "row_post sid (seqE (sql_exec msg f) g) P w"
  using assms by (auto simp: row_post_def wp_seqE wp_sql_stmt split: prod.split)

lemma row_post_record:
  "rows_sat sid P (db w) \<Longrightarrow> rows_sat sid (\<lambda>x. P (RecordDeletionAttempt_row n l a b e now x)) (db w) \<Longrightarrow>
   row_post sid (RecordDeletionAttempt sid n l a b e now) P w"
  unfolding RecordDeletionAttempt_def by (rule row_post_exec) (simp_all add: update_rows_sat)

lemma row_post_history:
  "rows_sat sid P (db w) \<Longrightarrow> row_post sid (AppendStatusHistory i a b c d None now) P w"
  by (auto simp: row_post_def AppendStatusHistory_def wp_sql_stmt rows_sat_def split: prod.split)

lemma row_post_ready:
  assumes "rows_sat (rec_ID r) P (db w)"
    and "\<And>now. rows_sat (rec_ID r) (\<lambda>x. P (RecordDeletionAttempt_row (rec_DeletionAttempts r)
             (rec_DeletionForceLevel r) (rec_DeletionLastAttemptAt r) (Some now) [] now x)) (db w)"
  shows "row_post (rec_ID r) (markReadyForImmediateRetry r) P w"
  unfolding markReadyForImmediateRetry_def
  by (rule row_post_now, rule row_post_record) (use assms in auto)

lemma row_post_transition:
  fixes w :: "'k world"
  assumes "rows_sat (rec_ID r) P (db w)"
    and "\<And>now. rows_sat (rec_ID r) (\<lambda>x. P (AdvanceDeletionPhase_row p now x)) (db w)"
    and "\<And>now now'. rows_sat (rec_ID r) (\<lambda>x. P (RecordDeletionAttempt_row (rec_DeletionAttempts r)
             (rec_DeletionForceLevel r) (rec_DeletionLastAttemptAt r) (Some now') [] now'
             (AdvanceDeletionPhase_row p now x))) (db w)"
  shows "row_post (rec_ID r) (transitionPhase r p) P w"
  unfolding transitionPhase_def AdvanceDeletionPhase_def
proof (rule row_post_now, rule row_post_seq_exec)
  fix w' :: "'k world"
  let ?now = "clock w (ticks w)"
  assume "db w' = update_sandbox (rec_ID r) (\<lambda>_. True) (AdvanceDeletionPhase_row p ?now)
                     (db (w\<lparr>ticks := Suc (ticks w)\<rparr>))"
  then show "row_post (rec_ID r) (markReadyForImmediateRetry (r\<lparr>rec_DeletionPhase := p\<rparr>)) P w'"
    using assms(2,3) row_post_ready [of "r\<lparr>rec_DeletionPhase := p\<rparr>" P w']
    by (simp add: update_rows_sat)
qed (use assms in simp)

section \<open>The controller refines the machine\<close>

text \<open>The current row of a sandbox, up to bookkeeping, and the rows one machine step away.\<close>

abbreviation at_row :: "SandboxRecord \<Rightarrow> tables \<Rightarrow> bool" where
  "at_row r \<equiv> rows_sat (rec_ID r) (\<lambda>x. strip x = strip r)"

abbreviation one_step :: "SandboxRecord \<Rightarrow> SandboxRecord \<Rightarrow> bool" where
  "one_step r x \<equiv> phase_step (strip r) (strip x)"

lemma at_row_stay: "at_row r t \<Longrightarrow> rows_sat (rec_ID r) (one_step r) t"
  by (erule rows_sat_mono) (simp add: phase_step.stay)

lemma ready_step: "at_row r (db w) \<Longrightarrow> row_post (rec_ID r) (markReadyForImmediateRetry r) (one_step r) w"
  by (rule row_post_ready) (auto intro: at_row_stay elim!: rows_sat_mono simp: phase_step.stay)

lemma transition_step:
  "at_row r (db w) \<Longrightarrow> phase_step (strip r) ((strip r)\<lparr>rec_DeletionPhase := p\<rparr>) \<Longrightarrow>
   row_post (rec_ID r) (transitionPhase r p) (one_step r) w"
  by (rule row_post_transition) (auto intro: at_row_stay elim!: rows_sat_mono simp: phase_step.stay)

lemma bump_step:
  "at_row r (db w) \<Longrightarrow> phase_step (strip r) ((strip r)\<lparr>rec_DeletionForceLevel := l\<rparr>) \<Longrightarrow>
   row_post (rec_ID r) (bumpForceLevel r l now) (one_step r) w"
  unfolding bumpForceLevel_def
  by (rule row_post_record) (auto intro: at_row_stay elim!: rows_sat_mono simp: phase_step.stay)

lemma quiescing_step:
  "at_row r (db w) \<Longrightarrow> phase_of r = DeletionPhaseQuiescingRuntime \<Longrightarrow>
   row_post (rec_ID r) (handleQuiescingRuntime c r s now) (one_step r) w"
  unfolding handleQuiescingRuntime_def
  by (auto intro!: row_post_client ko_client ko_ignore transition_step ready_step row_post_ret at_row_stay
      phase_step.pods_stuck phase_step.storage phase_step.quiet)

lemma storage_step:
  "at_row r (db w) \<Longrightarrow> phase_of r = DeletionPhaseDeletingStorage \<Longrightarrow>
   row_post (rec_ID r) (handleDeletingStorage c r s now) (one_step r) w"
  unfolding handleDeletingStorage_def
  by (auto intro!: row_post_client ko_client transition_step ready_step row_post_ret at_row_stay
      phase_step.storage_gone phase_step.storage_stuck split: option.split)

lemma ko_cleanup: "state_io_rel db_same (cleanupStorageAttachments c r s)"
  unfolding cleanupStorageAttachments_def by (intro ko_basic ko_client)

lemma force_step:
  assumes "at_row r (db w)" "phase_of r = DeletionPhaseForceCleanup"
  shows "row_post (rec_ID r) (handleForceCleanup c r s now) (one_step r) w"
proof -
  have esc: "phase_step (strip r) ((strip r)\<lparr>rec_DeletionForceLevel := l + 1\<rparr>)"
    if "rec_DeletionForceLevel r = l" "0 \<le> l" "l < 3" for l
    using phase_step.escalate [of "strip r"] assms(2) that by simp
  note level = esc [of 0, simplified] esc [of 1, simplified] esc [of 2, simplified]
  show ?thesis
    unfolding handleForceCleanup_def using assms
    by (auto intro!: row_post_client ko_basic ko_client ko_cleanup transition_step bump_step at_row_stay level
        phase_step.forced split: option.split)
qed

lemma verifying_step:
  assumes "at_row r (db w)" "phase_of r = DeletionPhaseVerifying"
  shows "row_post (rec_ID r) (handleVerifying c r s now) (one_step r) w"
proof (cases "verify_remains r s")
  case True
  then show ?thesis
    using assms by (auto simp: handleVerifying_def intro!: transition_step phase_step.remains)
next
  case False
  have "row_post (rec_ID r) (do { AppendStatusHistory (rec_ID r) a b d e None now; retE () }) (one_step r) w'"
    if "rows_sat (rec_ID r) (one_step r) (db w')" for w' :: "'a world" and a b d e
    using row_post_history [OF that] by (simp add: row_post_def wp_simps)
  moreover have "rows_sat (rec_ID r) (\<lambda>x. one_step r (MarkDeletionCompleted_row ''delete completed'' now x)) (db w)"
    using assms(1) by (rule rows_sat_mono) (simp add: phase_step.complete assms(2))
  ultimately show ?thesis
    using False assms
    by (auto simp: handleVerifying_def MarkDeletionCompleted_def update_rows_sat
        intro!: row_post_seq_exec at_row_stay)
qed

lemma dispatch_step:
  assumes "at_row r (db w)"
  shows "row_post (rec_ID r) (deletion_dispatch c r s now) (one_step r) w"
proof -
  have "phase_step (strip r) ((strip r)\<lparr>rec_DeletionPhase := DeletionPhaseRequested\<rparr>)"
    if "phase_of r \<notin> set known_phases"
    using that by (intro phase_step.reset) simp
  then show ?thesis
    unfolding deletion_dispatch_def Let_def phase_of_def [symmetric]
    using assms
    by (auto intro!: quiescing_step storage_step force_step verifying_step transition_step row_post_ret
        at_row_stay phase_step.accept simp: known_phases_def)
qed

lemma ko_deletion_snap: "state_io_rel db_same (snapshot c r)"
  unfolding snapshot_def by (intro ko_basic ko_client)

lemma process_step:
  fixes w :: "'k world"
  assumes "at_row r (db w)"
  shows "row_post (rec_ID r) (processSandbox c r) (one_step r) w"
proof -
  define now where "now = clock w (ticks w)"
  define retryAt where "retryAt = now + computeDeletionRetry (rec_DeletionAttempts r)"
  define r1 where "r1 = r\<lparr>rec_DeletionAttempts := rec_DeletionAttempts r + 1,
    rec_DeletionLastAttemptAt := Some now, rec_DeletionNextRetryAt := Some retryAt\<rparr>"
  have r1: "rec_ID r1 = rec_ID r" "strip r1 = strip r"
    "rec_DeletionForceLevel r1 = rec_DeletionForceLevel r"
    by (simp_all add: r1_def strip_def)
  have rec_row: "at_row r (update_sandbox (rec_ID r) (\<lambda>_. True)
      (RecordDeletionAttempt_row n (rec_DeletionForceLevel r) a b e t) (db v))"
    if "at_row r (db v)" for n a b e t and v :: "'k world"
    using that by (auto simp: update_rows_sat elim!: rows_sat_mono)
  have snap: "row_post (rec_ID r) (do { res \<leftarrow> snapshot c r1;
       case res of
         Inl e \<Rightarrow> do {
           RecordDeletionAttempt (rec_ID r1) (rec_DeletionAttempts r1) (rec_DeletionForceLevel r1)
             (Some now) (Some retryAt) (err_text e) now;
           throw e }
       | Inr s \<Rightarrow> deletion_dispatch c r1 s now }) (one_step r) v"
    if v: "at_row r (db v)" for v :: "'k world"
  proof (rule row_post_bind, rule wp_client [OF ko_deletion_snap])
    fix res and v' :: "'k world"
    assume "db v' = db v"
    then have v': "at_row r (db v')" "at_row r1 (db v')"
      using v by (simp_all add: r1)
    have "row_post (rec_ID r) (RecordDeletionAttempt (rec_ID r) n (rec_DeletionForceLevel r) a b e now) (one_step r) v'"
      for n a b e
      by (rule row_post_record) (use v' in \<open>auto intro: at_row_stay elim!: rows_sat_mono simp: phase_step.stay\<close>)
    then show "row_post (rec_ID r) (case res of
         Inl e \<Rightarrow> do {
           RecordDeletionAttempt (rec_ID r1) (rec_DeletionAttempts r1) (rec_DeletionForceLevel r1)
             (Some now) (Some retryAt) (err_text e) now;
           throw e }
       | Inr s \<Rightarrow> deletion_dispatch c r1 s now) (one_step r) v'"
      using dispatch_step [OF v'(2)] by (auto simp: r1 row_post_def wp_simps split: sum.split)
  qed
  show ?thesis
    unfolding processSandbox_def RecordDeletionAttempt_def [of "rec_ID r"] Let_def
    apply (rule row_post_now, rule row_post_seq_exec)
    subgoal using assms by (simp add: at_row_stay)
    subgoal for w' using snap [of w'] rec_row [OF assms] by (simp add: r1_def now_def retryAt_def)
    done
qed

section \<open>Passes of the controller\<close>

lemma ko_frame: "state_io_rel db_same m \<Longrightarrow> state_io_rel (db_rel (touches sid)) m"
  by (rule ko_db_rel) (simp_all add: touches_def)

lemma fr_ready: "state_io_rel (db_rel (touches (rec_ID r))) (markReadyForImmediateRetry r)"
  unfolding markReadyForImmediateRetry_def by (intro frame.io_program store_frame)

lemma fr_bump: "state_io_rel (db_rel (touches (rec_ID r))) (bumpForceLevel r l now)"
  unfolding bumpForceLevel_def by (intro store_frame)

lemma fr_transition: "state_io_rel (db_rel (touches (rec_ID r))) (transitionPhase r p)"
  unfolding transitionPhase_def
  by (intro frame.io_program store_frame) (use fr_ready [of "r\<lparr>rec_DeletionPhase := p\<rparr>"] in simp)

lemma fr_dispatch: "state_io_rel (db_rel (touches (rec_ID r))) (deletion_dispatch c r s now)"
  unfolding deletion_dispatch_def handleQuiescingRuntime_def handleDeletingStorage_def handleForceCleanup_def
    handleVerifying_def
  by (intro frame.io_program fr_ready fr_bump fr_transition store_frame ko_frame [OF ko_ignore] ko_frame ko_client
      ko_cleanup)

lemma fr_process: "state_io_rel (db_rel (touches (rec_ID r))) (processSandbox c r)"
proof -
  have "state_io_rel (db_rel (touches (rec_ID r))) (deletion_dispatch c (r\<lparr>rec_DeletionAttempts := a,
      rec_DeletionLastAttemptAt := b, rec_DeletionNextRetryAt := d\<rparr>) s now)" for a b d s now
    using fr_dispatch [of "r\<lparr>rec_DeletionAttempts := a, rec_DeletionLastAttemptAt := b, rec_DeletionNextRetryAt := d\<rparr>"]
    by simp
  then show ?thesis
    unfolding processSandbox_def Let_def
    by (intro frame.io_program store_frame ko_frame [OF ko_deletion_snap]) (auto intro: store_frame)
qed

text \<open>One pass over a list of distinct rows takes each of them at most one machine step.\<close>

lemma passes_step:
  fixes w :: "'k world"
  assumes "distinct (map rec_ID rs)" "\<forall>r \<in> set rs. at_row r (db w)"
  shows "wp (for_each (\<lambda>r. do { processSandbox c r; ret () }) rs) (\<lambda>_ w'.
           (\<forall>r \<in> set rs. rows_sat (rec_ID r) (one_step r) (db w')) \<and>
           map rec_ID (sandboxes (db w')) = map rec_ID (sandboxes (db w)) \<and>
           (\<forall>j P. j \<notin> rec_ID ` set rs \<longrightarrow> rows_sat j P (db w') = rows_sat j P (db w))) w"
  using assms
proof (induction rs arbitrary: w)
  case Nil
  then show ?case by (simp add: wp_simps)
next
  case (Cons r rs)
  obtain a w1 where run: "run_state (processSandbox c r) w = (a, w1)"
    by (cases "run_state (processSandbox c r) w")
  have t: "touches (rec_ID r) (db w) (db w1)"
    using io_relD [OF fr_process [of r c], of w] run by (simp add: db_rel_def)
  have step: "rows_sat (rec_ID r) (one_step r) (db w1)"
    using process_step [of r w c] Cons.prems(2) run by (simp add: row_post_def wp_run)
  have rest: "\<forall>x \<in> set rs. at_row x (db w1)"
    using Cons.prems touches_rows_sat [OF t] by (auto simp: image_iff)
  have keep: "rows_sat j P (db w1) = rows_sat j P (db w)" if "j \<noteq> rec_ID r" for j P
    using touches_rows_sat [OF t that] .
  show ?case
    using run Cons.IH [OF _ rest] Cons.prems(1) step keep t
    by (auto simp: wp_simps wp_run touches_def elim!: wp_mono)
qed

lemma pending_distinct:
  "tables_ok t \<Longrightarrow> distinct (map rec_ID (order_by rec_UpdatedAt (filter P (sandboxes t))))"
  by (simp add: tables_ok_def sandbox_tables_ok_def distinct_map_filter)

lemma own_row: "tables_ok t \<Longrightarrow> r \<in> set (sandboxes t) \<Longrightarrow> rows_sat (rec_ID r) (\<lambda>x. x = r) t"
  by (auto simp: rows_sat_def tables_ok_def sandbox_tables_ok_def distinct_map dest: inj_onD)

section \<open>Completion needs a clean snapshot\<close>

text \<open>Predicates on rows that the bookkeeping and phase columns do not decide.\<close>

definition phase_free :: "(SandboxRecord \<Rightarrow> bool) \<Rightarrow> bool" where
  "phase_free P \<longleftrightarrow>
     (\<forall>x n l a b e now. P x \<longrightarrow> P (RecordDeletionAttempt_row n l a b e now x)) \<and>
     (\<forall>x p now. P x \<longrightarrow> P (AdvanceDeletionPhase_row p now x))"

lemma phase_free_alive: "phase_free (\<lambda>x. rec_LifecycleStatus x \<noteq> ''deleted'')"
  by (simp add: phase_free_def row_defs)

lemma free_ready:
  "phase_free P \<Longrightarrow> rows_sat (rec_ID r) P (db w) \<Longrightarrow> row_post (rec_ID r) (markReadyForImmediateRetry r) P w"
  by (rule row_post_ready) (auto simp: phase_free_def elim!: rows_sat_mono)

lemma free_transition:
  "phase_free P \<Longrightarrow> rows_sat (rec_ID r) P (db w) \<Longrightarrow> row_post (rec_ID r) (transitionPhase r p) P w"
  by (rule row_post_transition) (auto simp: phase_free_def elim!: rows_sat_mono)

lemma free_bump:
  "phase_free P \<Longrightarrow> rows_sat (rec_ID r) P (db w) \<Longrightarrow> row_post (rec_ID r) (bumpForceLevel r l now) P w"
  unfolding bumpForceLevel_def by (rule row_post_record) (auto simp: phase_free_def elim!: rows_sat_mono)

lemma free_dispatch:
  assumes "phase_free P" "rows_sat (rec_ID r) P (db w)"
    and "phase_of r = DeletionPhaseVerifying \<Longrightarrow> verify_remains r s"
  shows "row_post (rec_ID r) (deletion_dispatch c r s now) P w"
proof -
  have "row_post (rec_ID r) (handleQuiescingRuntime c r s now) P w"
    unfolding handleQuiescingRuntime_def using assms(1,2)
    by (auto intro!: row_post_client ko_client ko_ignore free_transition free_ready row_post_ret)
  moreover have "row_post (rec_ID r) (handleDeletingStorage c r s now) P w"
    unfolding handleDeletingStorage_def using assms(1,2)
    by (auto intro!: row_post_client ko_client free_transition free_ready row_post_ret split: option.split)
  moreover have "row_post (rec_ID r) (handleForceCleanup c r s now) P w"
    unfolding handleForceCleanup_def using assms(1,2)
    by (auto intro!: row_post_client ko_basic ko_client ko_cleanup free_transition free_bump split: option.split)
  moreover have "row_post (rec_ID r) (handleVerifying c r s now) P w" if "phase_of r = DeletionPhaseVerifying"
    unfolding handleVerifying_def using assms that by (auto intro!: free_transition)
  ultimately show ?thesis
    unfolding deletion_dispatch_def Let_def phase_of_def [symmetric]
    using assms(1,2) by (auto intro!: free_transition row_post_ret)
qed

lemma snapshot_bookkeeping:
  "snapshot c (r\<lparr>rec_DeletionAttempts := a, rec_DeletionLastAttemptAt := b, rec_DeletionNextRetryAt := d\<rparr>) = snapshot c r"
  "verify_remains (r\<lparr>rec_DeletionAttempts := a, rec_DeletionLastAttemptAt := b, rec_DeletionNextRetryAt := d\<rparr>) s
     = verify_remains r s"
  "phase_of (r\<lparr>rec_DeletionAttempts := a, rec_DeletionLastAttemptAt := b, rec_DeletionNextRetryAt := d\<rparr>) = phase_of r"
  by (simp_all add: snapshot_def verify_remains_def phase_of_def)

lemma free_process:
  fixes w :: "'k world"
  assumes P: "phase_free P" "rows_sat (rec_ID r) P (db w)"
    and rem: "\<And>w1 w2 s. kube w1 = kube w \<Longrightarrow> run_state (snapshot c r) w1 = (Inr s, w2) \<Longrightarrow>
                phase_of r = DeletionPhaseVerifying \<Longrightarrow> verify_remains r s"
  shows "row_post (rec_ID r) (processSandbox c r) P w"
proof -
  have upd: "rows_sat (rec_ID r) P (update_sandbox (rec_ID r) (\<lambda>_. True) (RecordDeletionAttempt_row n l a b e now) t)"
    if "rows_sat (rec_ID r) P t" for n l a b e now t
    using that P(1) by (auto simp: update_rows_sat phase_free_def elim!: rows_sat_mono)
  have disp: "row_post (rec_ID r) (deletion_dispatch c (r\<lparr>rec_DeletionAttempts := a,
      rec_DeletionLastAttemptAt := b, rec_DeletionNextRetryAt := d\<rparr>) s now) P v"
    if "rows_sat (rec_ID r) P (db v)" "phase_of r = DeletionPhaseVerifying \<Longrightarrow> verify_remains r s"
    for a b d s now and v :: "'k world"
    using free_dispatch [of P "r\<lparr>rec_DeletionAttempts := a, rec_DeletionLastAttemptAt := b,
        rec_DeletionNextRetryAt := d\<rparr>" v s c now] P(1) that
    by (simp add: snapshot_bookkeeping)
  have fail: "row_post (rec_ID r) (RecordDeletionAttempt (rec_ID r) n l a b e now) P v"
    if "rows_sat (rec_ID r) P (db v)" for n l a b e now and v :: "'k world"
    using that upd [OF that] unfolding RecordDeletionAttempt_def by (intro row_post_exec)
  have snap: "wp (snapshot c r) (\<lambda>res v'. rows_sat (rec_ID r) P (db v') \<and>
      (\<forall>s. res = Inr s \<longrightarrow> phase_of r = DeletionPhaseVerifying \<longrightarrow> verify_remains r s)) v"
    if "rows_sat (rec_ID r) P (db v)" "kube v = kube w" for v :: "'k world"
    using that rem by (intro wp_client [OF ko_deletion_snap]) auto
  show ?thesis
    using P(2) disp fail
    by (auto simp: upd processSandbox_def row_post_def wp_simps RecordDeletionAttempt_def [of "rec_ID r" "rec_DeletionAttempts r + 1"]
        wp_sql_stmt Let_def snapshot_bookkeeping split: prod.split intro!: wp_mono [OF snap] split: sum.split)
qed

section \<open>Retry delays\<close>

lemma retry_small:
  assumes "0 \<le> n" "n \<le> 29"
  shows "computeDeletionRetry n = min (10 * 2 ^ nat n) 60 * second"
proof -
  have b: "(2::int) ^ nat n \<le> 2 ^ 29"
    using assms by (intro power_increasing) auto
  have "wrap64 (2 ^ nat n) = 2 ^ nat n"
    using b by (intro wrap64_nonneg) auto
  moreover have "wrap64 (defaultDeletionRetryInterval * 2 ^ nat n) = defaultDeletionRetryInterval * 2 ^ nat n"
    using b by (intro wrap64_nonneg) auto
  ultimately show ?thesis
    using assms by (simp add: computeDeletionRetry_def Let_def max_def min_def)
qed

lemma retry_wrapped: "computeDeletionRetry 30 < 0"
  by (simp add: computeDeletionRetry_def wrap64_def Let_def)

lemma retry_zero:
  assumes "54 \<le> n"
  shows "computeDeletionRetry n = 0"
proof -
  have nat: "nat n = (nat n - 54) + 54"
    using assms by simp
  define m where "m = (2::int) ^ (nat n - 54)"
  have "10000000000 * (2::int) ^ nat n = (9765625 * m) * 2 ^ 64"
    unfolding m_def by (subst nat, subst power_add) simp
  then have "wrap64 (10000000000 * wrap64 (2 ^ nat n)) = 0"
    by (simp only: wrap64_mult wrap64_multiple)
  then show ?thesis
    using assms by (simp add: computeDeletionRetry_def Let_def max_def)
qed

section \<open>Runs without faults\<close>

text \<open>Repeated passes of the controller, as its ticker makes them.\<close>

fun passes :: "('k \<Rightarrow> 'k) \<Rightarrow> 'k Client \<Rightarrow> nat \<Rightarrow> ('k, unit) prog" where
  "passes kubelet c 0 = ret ()"
| "passes kubelet c (Suc n) = do { RunPending c; step_with (\<lambda>w. ((), w\<lparr>kube := kubelet (kube w)\<rparr>)); passes kubelet c n }"

definition in_deletion :: "SandboxRecord \<Rightarrow> bool" where
  "in_deletion r \<longleftrightarrow> rec_DesiredState r = DesiredStateDeleted \<and> rec_LifecycleStatus r \<noteq> ''deleted'' \<and>
     rec_DeletionPhase r \<noteq> DeletionPhaseCompleted"

text \<open>
  A world in which the row \<open>r\<close> is due and no other deletion is under way: no database faults,
  a clock that does not run backwards.
\<close>

definition due :: "SandboxRecord \<Rightarrow> 'k world \<Rightarrow> bool" where
  "due r w \<longleftrightarrow>
     db_faults w = [] \<and> mono (clock w) \<and> tables_ok (db w) \<and> r \<in> set (sandboxes (db w)) \<and>
     pending_deletion_cond (clock w (ticks w)) r \<and>
     (\<forall>x \<in> set (sandboxes (db w)). rec_ID x \<noteq> rec_ID r \<longrightarrow> \<not> in_deletion x)"

lemma due_list:
  assumes "due r w" "ticks w \<le> n"
  shows "order_by rec_UpdatedAt (filter (pending_deletion_cond (clock w n)) (sandboxes (db w))) = [r]"
proof -
  let ?P = "pending_deletion_cond (clock w n)"
  have d: "distinct (map rec_ID (sandboxes (db w)))" and r: "r \<in> set (sandboxes (db w))"
    using assms(1) by (auto simp: due_def tables_ok_def sandbox_tables_ok_def)
  have "clock w (ticks w) \<le> clock w n"
    using assms by (auto simp: due_def mono_def)
  then have "?P r"
    using assms(1) by (auto simp: due_def pending_deletion_cond_def split: option.splits)
  then have "set (filter ?P (sandboxes (db w))) = {r}"
    using assms(1) d r by (auto simp: due_def pending_deletion_cond_def in_deletion_def distinct_map dest: inj_onD)
  moreover have "distinct (filter ?P (sandboxes (db w)))"
    using d by (simp add: distinct_map)
  ultimately have "filter ?P (sandboxes (db w)) = [r]"
    by (metis distinct_card distinct_length_2_or_more list.set(1) list.set(2) card_1_singleton_iff
        length_0_conv length_Suc_conv One_nat_def set_ConsD singletonD list.set_intros(1))
  then show ?thesis
    by (simp add: order_by_def)
qed

lemma wp_exec_ok:
  "db_faults w = [] \<Longrightarrow> wp (sql_exec msg f) Q w \<longleftrightarrow> Q (Inr ()) (w\<lparr>db := f (db w)\<rparr>)"
  by (cases w) (simp add: wp_sql_stmt)

lemma wp_RunPending_due:
  fixes w :: "'k world"
  assumes "due r w" "wp (processSandbox c r) (\<lambda>_. Q (Inr ())) (w\<lparr>ticks := Suc (ticks w)\<rparr>)"
  shows "wp (RunPending c) Q w"
proof -
  have nf: "next_fault (db_faults w) = (False, [])"
    using assms(1) by (simp add: due_def)
  have w: "w\<lparr>ticks := Suc (ticks w), db_faults := []\<rparr> = w\<lparr>ticks := Suc (ticks w)\<rparr>"
    using assms(1) by (cases w) (simp add: due_def)
  show ?thesis
    using assms(2) due_list [OF assms(1) order_refl]
    by (simp add: RunPending_def ListPendingDeletion_def wp_simps wp_sql_stmt nf w)
qed

text \<open>What a pass has to establish for the row to be due again.\<close>

lemma due_again:
  assumes "due r w" "db_faults w' = []" "clock w' = clock w" "touches (rec_ID r) (db w) (db w')"
    and "tables_ok (db w')" "lookup rec_ID (rec_ID r) (sandboxes (db w')) = Some r'"
    and "rec_DeletionNextRetryAt r' = Some t" "t \<le> clock w (ticks w')"
    and "rec_DesiredState r' = DesiredStateDeleted" "rec_LifecycleStatus r' \<noteq> ''deleted''"
    and "rec_DeletionPhase r' \<noteq> DeletionPhaseCompleted"
  shows "due r' w'"
proof -
  have "rows_sat (rec_ID x) (\<lambda>y. \<not> in_deletion y) (db w')" if "rec_ID x \<noteq> rec_ID r" for x
    using assms(1) that touches_rows_sat [OF assms(4) that]
    by (auto simp: due_def rows_sat_def)
  then show ?thesis
    using assms lookup_SomeD [OF assms(6)]
    by (auto simp: due_def pending_deletion_cond_def rows_sat_def)
qed

text \<open>
  How Kubernetes ends a pod: a delete that is accepted (or finds no pod) sets off the termination, which takes at most \<open>px_grace\<close> of the
  intervals between two passes; a further delete does not prolong it. \<open>px_kubelet\<close> is what the nodes do between two passes, \<open>px_asked\<close> says
  that the pods of the sandbox are terminating or gone and \<open>px_left\<close> how long they have. A bare pod that is gone does not come back.
\<close>

record 'k PodExit =
  px_kubelet :: "'k \<Rightarrow> 'k"
  px_asked :: "'k \<Rightarrow> bool"
  px_left :: "'k \<Rightarrow> nat"
  px_grace :: nat

definition listed :: "'k Client \<Rightarrow> string \<Rightarrow> 'k \<Rightarrow> Pod list" where
  "listed c sid k = (case fst (pods_List c (sandboxNS c) (sandbox_selector sid) k) of Inr ps \<Rightarrow> ps | Inl _ \<Rightarrow> [])"

definition pods_terminate :: "'k PodExit \<Rightarrow> 'k Client \<Rightarrow> string \<Rightarrow> bool" where
  "pods_terminate x c sid \<longleftrightarrow>
     (\<forall>k. \<exists>ps. pods_List c (sandboxNS c) (sandbox_selector sid) k = (Inr ps, k)) \<and>
     (\<forall>k res k'. pods_Delete c (sandboxNS c) (''sandbox-'' @ sid) False k = (res, k') \<longrightarrow>
        (case res of Inr _ \<Rightarrow> True | Inl e \<Rightarrow> is_not_found e) \<and> px_asked x k' \<and>
        (px_asked x k \<longrightarrow> px_left x k' \<le> px_left x k)) \<and>
     (\<forall>k. px_left x k \<le> px_grace x) \<and>
     (\<forall>k. px_asked x k \<longrightarrow> px_asked x (px_kubelet x k) \<and> px_left x (px_kubelet x k) \<le> px_left x k - 1) \<and>
     (\<forall>k. px_asked x k \<and> px_left x k = 0 \<longrightarrow> listed c sid k = []) \<and>
     (\<forall>k. listed c sid k = [] \<longrightarrow> listed c sid (px_kubelet x k) = [])"

definition pods_listable :: "'k Client \<Rightarrow> string \<Rightarrow> bool" where
  "pods_listable c sid \<longleftrightarrow> (\<forall>k. \<exists>ps. pods_List c (sandboxNS c) (sandbox_selector sid) k = (Inr ps, k))"

lemma list_ok: "pods_listable c sid \<Longrightarrow> pods_List c (sandboxNS c) (sandbox_selector sid) k = (Inr (listed c sid k), k)"
  unfolding pods_listable_def listed_def by (metis fst_conv sum.case(2))

lemma terminateD:
  assumes "pods_terminate x c sid"
  shows "pods_listable c sid"
    and "pods_Delete c (sandboxNS c) (''sandbox-'' @ sid) False k = (res, k') \<Longrightarrow> case res of Inr _ \<Rightarrow> True | Inl e \<Rightarrow> is_not_found e"
    and "pods_Delete c (sandboxNS c) (''sandbox-'' @ sid) False k = (res, k') \<Longrightarrow>
      px_asked x k' \<and> (px_asked x k \<longrightarrow> px_left x k' \<le> px_left x k)"
    and "px_left x k \<le> px_grace x"
    and "px_asked x k \<Longrightarrow> px_asked x (px_kubelet x k) \<and> px_left x (px_kubelet x k) \<le> px_left x k - 1"
    and "px_asked x k \<Longrightarrow> px_left x k = 0 \<Longrightarrow> listed c sid k = []"
    and "listed c sid k = [] \<Longrightarrow> listed c sid (px_kubelet x k) = []"
  using assms unfolding pods_terminate_def pods_listable_def by blast+


context store_client
begin

lemma dispatch_rel: "state_io_rel (db_rel r) (deletion_dispatch c x s now)"
  unfolding deletion_dispatch_def handleQuiescingRuntime_def handleDeletingStorage_def handleForceCleanup_def
    handleVerifying_def transitionPhase_def markReadyForImmediateRetry_def bumpForceLevel_def
  by (intro io_program store_rel client_rel [OF ko_ignore] client_rel [OF ko_cleanup] client_rel ko_client)

lemma process_rel: "state_io_rel (db_rel r) (processSandbox c x)"
  unfolding processSandbox_def Let_def
  by (intro io_program store_rel dispatch_rel client_rel [OF ko_deletion_snap])

lemma RunPending_rel: "state_io_rel (db_rel r) (RunPending c)"
  unfolding RunPending_def by (intro io_program store_rel process_rel)

end

text \<open>The row a pass leaves, once it is due again.\<close>

lemma pass_due:
  fixes w :: "'k world"
  assumes due: "due r w"
    and step: "wp (processSandbox c r) (\<lambda>_ v. \<exists>r' t. lookup rec_ID (rec_ID r) (sandboxes (db v)) = Some r' \<and>
        db_faults v = [] \<and> clock v = clock w \<and> rec_DeletionNextRetryAt r' = Some t \<and> t \<le> clock w (ticks v) \<and>
        rec_DesiredState r' = DesiredStateDeleted \<and> rec_LifecycleStatus r' \<noteq> ''deleted'' \<and>
        rec_DeletionPhase r' \<noteq> DeletionPhaseCompleted \<and> G r' v) (w\<lparr>ticks := Suc (ticks w)\<rparr>)"
  shows "wp (RunPending c) (\<lambda>_ v. \<exists>r'. due r' v \<and> rec_ID r' = rec_ID r \<and> G r' v) w"
proof (rule wp_RunPending_due [OF due])
  let ?w = "w\<lparr>ticks := Suc (ticks w)\<rparr>"
  have t: "wp (processSandbox c r) (\<lambda>_ v. touches (rec_ID r) (db w) (db v)) ?w"
    using io_rel_wp [OF fr_process [of r c], of ?w] by (simp add: db_rel_def [abs_def])
  have k: "wp (processSandbox c r) (\<lambda>_ v. tables_ok (db v)) ?w"
    using io_rel_wp [OF wf.process_rel [of c r], of ?w] due by (simp add: db_rel_def [abs_def] keeps_def due_def)
  show "wp (processSandbox c r) (\<lambda>_ v. \<exists>r'. due r' v \<and> rec_ID r' = rec_ID r \<and> G r' v) ?w"
  proof (rule wp_mono [OF wp_conj [OF step wp_conj [OF t k]]], elim conjE exE)
    fix a v r' t
    assume "lookup rec_ID (rec_ID r) (sandboxes (db v)) = Some r'" "db_faults v = []" "clock v = clock w"
      "touches (rec_ID r) (db w) (db v)" "tables_ok (db v)" "rec_DeletionNextRetryAt r' = Some t"
      "t \<le> clock w (ticks v)" "rec_DesiredState r' = DesiredStateDeleted" "rec_LifecycleStatus r' \<noteq> ''deleted''"
      "rec_DeletionPhase r' \<noteq> DeletionPhaseCompleted" "G r' v"
    then show "\<exists>r'. due r' v \<and> rec_ID r' = rec_ID r \<and> G r' v"
      using due_again [OF due] lookup_SomeD by fastforce
  qed
qed

abbreviation attempt_row :: "SandboxRecord \<Rightarrow> time \<Rightarrow> SandboxRecord" where
  "attempt_row r now \<equiv> r\<lparr>rec_DeletionAttempts := rec_DeletionAttempts r + 1, rec_DeletionLastAttemptAt := Some now,
     rec_DeletionNextRetryAt := Some (now + computeDeletionRetry (rec_DeletionAttempts r))\<rparr>"

lemma wp_process_ephemeral:
  fixes w :: "'k world"
  assumes "db_faults w = []" "\<not> rec_PersistenceEnabled r" "pods_listable c (rec_ID r)"
  shows "wp (processSandbox c r) Q w \<longleftrightarrow>
    (let now = clock w (ticks w); r1 = attempt_row r now in
     wp (deletion_dispatch c r1
           \<lparr>snap_Deployment = None, snap_Pods = listed c (rec_ID r) (kube w), snap_PVC = None, snap_PV = None,
            snap_VolumeAttachments = []\<rparr> now) Q
        (w\<lparr>ticks := Suc (ticks w), db := update_sandbox (rec_ID r) (\<lambda>_. True)
            (RecordDeletionAttempt_row (rec_DeletionAttempts r + 1) (rec_DeletionForceLevel r) (Some now)
               (Some (now + computeDeletionRetry (rec_DeletionAttempts r))) [] now) (db w)\<rparr>))"
  using assms
  by (simp add: processSandbox_def RecordDeletionAttempt_def wp_simps wp_exec_ok Let_def snapshot_def
      ListSandboxPods_def list_ok)

lemma due_lookup: "due r w \<Longrightarrow> lookup rec_ID (rec_ID r) (sandboxes (db w)) = Some r"
  by (auto simp: due_def tables_ok_def sandbox_tables_ok_def intro: lookup_unique)

text \<open>The four kinds of passes on an ephemeral sandbox.\<close>

lemmas no_fault_exec = transitionPhase_def markReadyForImmediateRetry_def AdvanceDeletionPhase_def
  RecordDeletionAttempt_def MarkDeletionCompleted_def wp_simps wp_exec_ok update_lookup row_defs

lemma pass_requested:
  fixes w :: "'k world"
  assumes "due r w" "\<not> rec_PersistenceEnabled r" "pods_listable c (rec_ID r)" "phase_of r = DeletionPhaseRequested"
  shows "wp (RunPending c) (\<lambda>_ v. \<exists>r'. due r' v \<and> rec_ID r' = rec_ID r \<and>
           (\<not> rec_PersistenceEnabled r' \<and> rec_DeletionPhase r' = DeletionPhaseQuiescingRuntime \<and> kube v = kube w)) w"
proof (rule pass_due [OF assms(1)])
  show "wp (processSandbox c r) (\<lambda>_ v. \<exists>r' t. lookup rec_ID (rec_ID r) (sandboxes (db v)) = Some r' \<and>
      db_faults v = [] \<and> clock v = clock w \<and> rec_DeletionNextRetryAt r' = Some t \<and> t \<le> clock w (ticks v) \<and>
      rec_DesiredState r' = DesiredStateDeleted \<and> rec_LifecycleStatus r' \<noteq> ''deleted'' \<and>
      rec_DeletionPhase r' \<noteq> DeletionPhaseCompleted \<and> (\<not> rec_PersistenceEnabled r' \<and>
      rec_DeletionPhase r' = DeletionPhaseQuiescingRuntime \<and> kube v = kube w)) (w\<lparr>ticks := Suc (ticks w)\<rparr>)"
    using assms due_lookup [OF assms(1)]
    by (auto simp: wp_process_ephemeral due_def Let_def deletion_dispatch_def phase_of_def no_fault_exec
        pending_deletion_cond_def mono_def)
qed

lemma pass_quiescing_pods:
  fixes w :: "'k world"
  assumes "due r w" "\<not> rec_PersistenceEnabled r" "pods_terminate x c (rec_ID r)"
    and "rec_DeletionPhase r = DeletionPhaseQuiescingRuntime" "listed c (rec_ID r) (kube w) \<noteq> []"
  shows "wp (RunPending c) (\<lambda>_ v. \<exists>r'. due r' v \<and> rec_ID r' = rec_ID r \<and>
           (\<not> rec_PersistenceEnabled r' \<and> rec_DeletionPhase r' = DeletionPhaseQuiescingRuntime \<and>
            (px_asked x (kube v) \<and> (px_asked x (kube w) \<longrightarrow> px_left x (kube v) \<le> px_left x (kube w))))) w"
proof (rule pass_due [OF assms(1)])
  obtain res k' where del: "pods_Delete c (sandboxNS c) (''sandbox-'' @ rec_ID r) False (kube w) = (res, k')"
    by (metis surj_pair)
  note asked = terminateD(3) [OF assms(3) del] and ok = terminateD(2) [OF assms(3) del]
  have obeyed: "(case res of Inl e \<Rightarrow> if is_not_found e then Inr () else Inl e | Inr _ \<Rightarrow> Inr ()) = Inr ()"
    using ok by (auto split: sum.splits)
  show "wp (processSandbox c r) (\<lambda>_ v. \<exists>r' t. lookup rec_ID (rec_ID r) (sandboxes (db v)) = Some r' \<and>
      db_faults v = [] \<and> clock v = clock w \<and> rec_DeletionNextRetryAt r' = Some t \<and> t \<le> clock w (ticks v) \<and>
      rec_DesiredState r' = DesiredStateDeleted \<and> rec_LifecycleStatus r' \<noteq> ''deleted'' \<and>
      rec_DeletionPhase r' \<noteq> DeletionPhaseCompleted \<and> (\<not> rec_PersistenceEnabled r' \<and>
      rec_DeletionPhase r' = DeletionPhaseQuiescingRuntime \<and>
      (px_asked x (kube v) \<and> (px_asked x (kube w) \<longrightarrow> px_left x (kube v) \<le> px_left x (kube w)))))
      (w\<lparr>ticks := Suc (ticks w)\<rparr>)"
    using assms(1,2,4,5) due_lookup [OF assms(1)] asked terminateD(1) [OF assms(3)]
    by (auto simp: wp_process_ephemeral due_def Let_def deletion_dispatch_def handleQuiescingRuntime_def
        ignore_not_found_def DeletePod_def del [simplified] obeyed no_fault_exec pending_deletion_cond_def mono_def)
qed

lemma pass_quiescing_quiet:
  fixes w :: "'k world"
  assumes "due r w" "\<not> rec_PersistenceEnabled r" "pods_listable c (rec_ID r)"
    and "rec_DeletionPhase r = DeletionPhaseQuiescingRuntime" "listed c (rec_ID r) (kube w) = []"
  shows "wp (RunPending c) (\<lambda>_ v. \<exists>r'. due r' v \<and> rec_ID r' = rec_ID r \<and>
           (\<not> rec_PersistenceEnabled r' \<and> rec_DeletionPhase r' = DeletionPhaseVerifying \<and> kube v = kube w)) w"
proof (rule pass_due [OF assms(1)])
  show "wp (processSandbox c r) (\<lambda>_ v. \<exists>r' t. lookup rec_ID (rec_ID r) (sandboxes (db v)) = Some r' \<and>
      db_faults v = [] \<and> clock v = clock w \<and> rec_DeletionNextRetryAt r' = Some t \<and> t \<le> clock w (ticks v) \<and>
      rec_DesiredState r' = DesiredStateDeleted \<and> rec_LifecycleStatus r' \<noteq> ''deleted'' \<and>
      rec_DeletionPhase r' \<noteq> DeletionPhaseCompleted \<and> (\<not> rec_PersistenceEnabled r' \<and>
      rec_DeletionPhase r' = DeletionPhaseVerifying \<and> kube v = kube w)) (w\<lparr>ticks := Suc (ticks w)\<rparr>)"
    using assms due_lookup [OF assms(1)]
    by (auto simp: wp_process_ephemeral due_def Let_def deletion_dispatch_def handleQuiescingRuntime_def
        no_fault_exec pending_deletion_cond_def mono_def)
qed

lemma history_keeps_rows:
  "db_faults w = [] \<Longrightarrow> wp (AppendStatusHistory i a b d e None now) (\<lambda>_ v. sandboxes (db v) = sandboxes (db w)) w"
  by (simp add: AppendStatusHistory_def wp_sql_stmt)

lemma pass_verifying_clean:
  fixes w :: "'k world"
  assumes "due r w" "\<not> rec_PersistenceEnabled r" "pods_listable c (rec_ID r)"
    and "rec_DeletionPhase r = DeletionPhaseVerifying" "listed c (rec_ID r) (kube w) = []"
  shows "wp (RunPending c) (\<lambda>_ v. \<exists>r'. lookup rec_ID (rec_ID r) (sandboxes (db v)) = Some r' \<and>
           rec_LifecycleStatus r' = ''deleted'' \<and> rec_DeletionPhase r' = DeletionPhaseCompleted) w"
proof (rule wp_RunPending_due [OF assms(1)])
  have f: "db_faults w = []"
    using assms(1) by (simp add: due_def)
  show "wp (processSandbox c r) (\<lambda>_ v. \<exists>r'. lookup rec_ID (rec_ID r) (sandboxes (db v)) = Some r' \<and>
      rec_LifecycleStatus r' = ''deleted'' \<and> rec_DeletionPhase r' = DeletionPhaseCompleted)
      (w\<lparr>ticks := Suc (ticks w)\<rparr>)"
    using assms(2-) due_lookup [OF assms(1)] f
    by (auto simp: wp_process_ephemeral Let_def deletion_dispatch_def handleVerifying_def verify_remains_def
        no_fault_exec intro!: wp_mono [OF history_keeps_rows])
qed

text \<open>What happens on the nodes between two passes leaves the row due.\<close>

definition settled :: "string \<Rightarrow> 'k world \<Rightarrow> bool" where
  "settled sid w \<longleftrightarrow> (\<exists>r. lookup rec_ID sid (sandboxes (db w)) = Some r \<and>
     rec_LifecycleStatus r = ''deleted'' \<and> rec_DeletionPhase r = DeletionPhaseCompleted)"

abbreviation nodes_act :: "'k PodExit \<Rightarrow> 'k world \<Rightarrow> 'k world" where
  "nodes_act x w \<equiv> w\<lparr>kube := px_kubelet x (kube w)\<rparr>"

lemma due_kube [simp]: "due r (w\<lparr>kube := k\<rparr>) \<longleftrightarrow> due r w"
  by (simp add: due_def)

lemma settled_kube [simp]: "settled sid (w\<lparr>kube := k\<rparr>) \<longleftrightarrow> settled sid w"
  by (simp add: settled_def)

text \<open>Within \<open>n\<close> passes the row is settled.\<close>

definition settles_within :: "'k PodExit \<Rightarrow> 'k Client \<Rightarrow> string \<Rightarrow> nat \<Rightarrow> 'k world \<Rightarrow> bool" where
  "settles_within x c sid n w \<longleftrightarrow> (\<exists>m \<le> n. settled sid (snd (run_state (passes (px_kubelet x) c m) w)))"

lemma settles_mono: "settles_within x c sid n w \<Longrightarrow> n \<le> n' \<Longrightarrow> settles_within x c sid n' w"
  unfolding settles_within_def using le_trans by blast

lemma settles_step:
  assumes "wp (RunPending c) (\<lambda>_ v. P v) w" "\<And>v. P v \<Longrightarrow> settles_within x c sid n (nodes_act x v)"
  shows "settles_within x c sid (Suc n) w"
proof -
  obtain a v where run: "run_state (RunPending c) w = (a, v)"
    by fastforce
  then obtain m where "m \<le> n" "settled sid (snd (run_state (passes (px_kubelet x) c m) (nodes_act x v)))"
    using assms by (auto simp: wp_run settles_within_def)
  then show ?thesis
    unfolding settles_within_def by (intro exI [of _ "Suc m"]) (simp add: run run_step_with)
qed

lemma settles_now: "settled sid w \<Longrightarrow> settles_within x c sid n w"
  unfolding settles_within_def by (intro exI [of _ 0]) simp

text \<open>Two passes once no pod is listed.\<close>

lemma settles_quiet:
  fixes w :: "'k world"
  assumes "due r w" "\<not> rec_PersistenceEnabled r" "pods_terminate x c (rec_ID r)"
    and "rec_DeletionPhase r = DeletionPhaseQuiescingRuntime" "listed c (rec_ID r) (kube w) = []"
  shows "settles_within x c (rec_ID r) 2 w"
  unfolding numeral_2_eq_2
proof (rule settles_step [OF pass_quiescing_quiet [OF assms(1,2) terminateD(1) [OF assms(3)] assms(4,5)]], elim exE conjE)
  fix v :: "'k world" and y
  assume y: "due y v" "rec_ID y = rec_ID r" "\<not> rec_PersistenceEnabled y" "rec_DeletionPhase y = DeletionPhaseVerifying" "kube v = kube w"
  have "wp (RunPending c) (\<lambda>_ v. settled (rec_ID y) v) (nodes_act x v)"
    unfolding settled_def
    by (rule pass_verifying_clean) (use y assms(5) terminateD(1,7) [OF assms(3)] in simp_all)
  then show "settles_within x c (rec_ID r) (Suc 0) (nodes_act x v)"
    using y(2) by (intro settles_step [where P = "settled (rec_ID r)"] settles_now) simp_all
qed

text \<open>While pods are listed each pass takes time off what they have left.\<close>

lemma settles_asked:
  fixes w :: "'k world"
  assumes "due r w" "\<not> rec_PersistenceEnabled r" "pods_terminate x c (rec_ID r)"
    and "rec_DeletionPhase r = DeletionPhaseQuiescingRuntime" "px_asked x (kube w)"
  shows "settles_within x c (rec_ID r) (px_left x (kube w) + 2) w"
  using assms
proof (induction "px_left x (kube w)" arbitrary: r w rule: less_induct)
  case less
  show ?case
  proof (cases "listed c (rec_ID r) (kube w) = []")
    case True
    show ?thesis
      by (rule settles_mono [OF settles_quiet [OF less.prems(1-4) True]]) simp
  next
    case False
    then have left: "0 < px_left x (kube w)"
      using terminateD(6) [OF less.prems(3,5)] by blast
    then have "Suc (px_left x (kube w) - 1 + 2) = px_left x (kube w) + 2"
      by simp
    moreover have "settles_within x c (rec_ID r) (Suc (px_left x (kube w) - 1 + 2)) w"
    proof (rule settles_step [OF pass_quiescing_pods [OF less.prems(1-4) False]], elim exE conjE)
      fix v :: "'k world" and y
      assume y: "due y v" "rec_ID y = rec_ID r" "\<not> rec_PersistenceEnabled y" "rec_DeletionPhase y = DeletionPhaseQuiescingRuntime"
        and k: "px_asked x (kube v)" "(px_asked x (kube w) \<longrightarrow> px_left x (kube v) \<le> px_left x (kube w))"
      have next': "px_asked x (kube (nodes_act x v))" "px_left x (kube (nodes_act x v)) \<le> px_left x (kube w) - 1"
        using terminateD(5) [OF less.prems(3) k(1)] k(2) less.prems(5) by auto
      have "settles_within x c (rec_ID y) (px_left x (kube (nodes_act x v)) + 2) (nodes_act x v)"
        by (rule less.hyps) (use y next' left less.prems(3) in auto)
      then show "settles_within x c (rec_ID r) (px_left x (kube w) - 1 + 2) (nodes_act x v)"
        using y(2) next'(2) by (auto elim: settles_mono)
    qed
    ultimately show ?thesis
      by simp
  qed
qed

lemma settles_quiescing:
  fixes w :: "'k world"
  assumes "due r w" "\<not> rec_PersistenceEnabled r" "pods_terminate x c (rec_ID r)"
    and "rec_DeletionPhase r = DeletionPhaseQuiescingRuntime"
  shows "settles_within x c (rec_ID r) (Suc (px_grace x + 2)) w"
proof (cases "listed c (rec_ID r) (kube w) = []")
  case True
  show ?thesis
    by (rule settles_mono [OF settles_quiet [OF assms True]]) simp
next
  case False
  show ?thesis
  proof (rule settles_step [OF pass_quiescing_pods [OF assms False]], elim exE conjE)
    fix v :: "'k world" and y
    assume y: "due y v" "rec_ID y = rec_ID r" "\<not> rec_PersistenceEnabled y" "rec_DeletionPhase y = DeletionPhaseQuiescingRuntime"
      and k: "px_asked x (kube v)"
    have "settles_within x c (rec_ID y) (px_left x (kube (nodes_act x v)) + 2) (nodes_act x v)"
      by (rule settles_asked) (use y terminateD(5) [OF assms(3) k] assms(3) in auto)
    then show "settles_within x c (rec_ID r) (px_grace x + 2) (nodes_act x v)"
      unfolding y(2) by (rule settles_mono) (simp add: terminateD(4) [OF assms(3)])
  qed
qed

lemma settles_requested:
  fixes w :: "'k world"
  assumes "due r w" "\<not> rec_PersistenceEnabled r" "pods_terminate x c (rec_ID r)" "phase_of r = DeletionPhaseRequested"
  shows "settles_within x c (rec_ID r) (Suc (Suc (px_grace x + 2))) w"
proof (rule settles_step [OF pass_requested [OF assms(1,2) terminateD(1) [OF assms(3)] assms(4)]], elim exE conjE)
  fix v :: "'k world" and y
  assume y: "due y v" "rec_ID y = rec_ID r" "\<not> rec_PersistenceEnabled y" "rec_DeletionPhase y = DeletionPhaseQuiescingRuntime"
  have "settles_within x c (rec_ID y) (Suc (px_grace x + 2)) (nodes_act x v)"
    by (rule settles_quiescing) (use y assms(3) in auto)
  then show "settles_within x c (rec_ID r) (Suc (px_grace x + 2)) (nodes_act x v)"
    by (simp add: y(2))
qed

section \<open>The last level\<close>

text \<open>Programs that send nothing to the cluster.\<close>

definition kube_same :: "'k world \<Rightarrow> 'k world \<Rightarrow> bool" where
  "kube_same w w' \<longleftrightarrow> kube w' = kube w"

interpretation quiet: world_preorder kube_same
  by unfold_locales (auto simp: kube_same_def)

lemma quiet_sql: "state_io_rel kube_same (sql_stmt msg f)"
  by (auto simp: sql_stmt_def io_step_with kube_same_def Let_def split: prod.split option.split)

lemma quiet_now: "state_io_rel kube_same time_now"
  by (simp add: time_now_def io_step_with kube_same_def)

lemma quiet_transition: "state_io_rel kube_same (transitionPhase r p)"
  unfolding transitionPhase_def markReadyForImmediateRetry_def AdvanceDeletionPhase_def RecordDeletionAttempt_def
  by (intro quiet.io_structure quiet_sql quiet_now)

lemma last_level_quiet:
  assumes "rec_DeletionForceLevel r \<ge> 3" "phase_of r \<in> {DeletionPhaseVerifying, DeletionPhaseForceCleanup}"
    and "verify_remains r s"
  shows "state_io_rel kube_same (deletion_dispatch c r s now)"
  using assms quiet_transition
  by (auto simp: deletion_dispatch_def phase_of_def [symmetric] Let_def handleVerifying_def handleForceCleanup_def)

lemma last_level_process_quiet:
  fixes w :: "'k world"
  assumes "rec_DeletionForceLevel r \<ge> 3" "phase_of r \<in> {DeletionPhaseVerifying, DeletionPhaseForceCleanup}"
    and rem: "\<And>w1 res w2. run_state (snapshot c r) w1 = (res, w2) \<Longrightarrow>
                kube w2 = kube w1 \<and> (\<forall>s. res = Inr s \<longrightarrow> verify_remains r s)"
  shows "wp (processSandbox c r) (\<lambda>_ w'. kube w' = kube w) w"
proof -
  have disp: "wp (deletion_dispatch c (r\<lparr>rec_DeletionAttempts := a, rec_DeletionLastAttemptAt := b,
      rec_DeletionNextRetryAt := d\<rparr>) s now) (\<lambda>_ w'. kube w' = kube v) v"
    if "verify_remains r s" for a b d s now and v :: "'k world"
    using io_rel_wp [OF last_level_quiet [of "r\<lparr>rec_DeletionAttempts := a, rec_DeletionLastAttemptAt := b,
      rec_DeletionNextRetryAt := d\<rparr>" s c now], of v] assms(1,2) that
    by (simp add: snapshot_bookkeeping kube_same_def [abs_def])
  have snap: "wp (snapshot c r) (\<lambda>res v'. kube v' = kube v \<and> (\<forall>s. res = Inr s \<longrightarrow> verify_remains r s)) v"
    for v :: "'k world"
    using rem by (auto simp: wp_def split: prod.split)
  have disp': "wp (deletion_dispatch c (r\<lparr>rec_DeletionAttempts := a, rec_DeletionLastAttemptAt := b,
      rec_DeletionNextRetryAt := d\<rparr>) s now) (\<lambda>_ w'. kube w' = kube w) v"
    if "verify_remains r s" "kube v = kube w" for a b d s now and v :: "'k world"
    using disp [where v = v and now = now and a = a and b = b and d = d, OF that(1)] that(2) by simp
  show ?thesis
    by (auto simp: processSandbox_def wp_simps RecordDeletionAttempt_def wp_sql_stmt Let_def snapshot_bookkeeping
        split: prod.split intro!: wp_mono [OF snap] disp' split: sum.split)
qed

section \<open>Properties\<close>

abbreviation "refined w r v \<equiv> map rec_ID (sandboxes (db v)) = map rec_ID (sandboxes (db w)) \<and> rows_sat (rec_ID r) (one_step r) (db v)"

lemma refined_same:
  "tables_ok (db w) \<Longrightarrow> r \<in> set (sandboxes (db w)) \<Longrightarrow> db v = db w \<Longrightarrow> refined w r v"
  using at_row_stay [OF rows_sat_mono [OF own_row]] by simp

lemma pending_loop_refines:
  fixes w v :: "'k world"
  assumes "tables_ok (db w)" "r \<in> set (sandboxes (db w))" "db v = db w"
    and "rs = order_by rec_UpdatedAt (filter (pending_deletion_cond now) (sandboxes (db w)))"
  shows "wp (for_each (\<lambda>r. do { processSandbox c r; ret () }) rs) (\<lambda>_. refined w r) v"
proof (rule wp_mono [OF passes_step [where rs = rs and w = v and c = c]])
  have own: "rows_sat (rec_ID x) (\<lambda>y. y = x) (db w)" if "x \<in> set (sandboxes (db w))" for x
    using own_row [OF assms(1) that] .
  then have at: "at_row x (db w)" if "x \<in> set (sandboxes (db w))" for x
    using that by (blast intro: rows_sat_mono)
  show "distinct (map rec_ID rs)" "\<forall>r\<in>set rs. at_row r (db v)"
    using pending_distinct [OF assms(1)] at assms(3,4) by auto
  fix a and v' :: "'k world"
  assume post: "(\<forall>r\<in>set rs. rows_sat (rec_ID r) (one_step r) (db v')) \<and>
      map rec_ID (sandboxes (db v')) = map rec_ID (sandboxes (db v)) \<and>
      (\<forall>j P. j \<notin> rec_ID ` set rs \<longrightarrow> rows_sat j P (db v') = rows_sat j P (db v))"
  show "refined w r v'"
  proof (cases "rec_ID r \<in> rec_ID ` set rs")
    case True
    then obtain x where "x \<in> set rs" "rec_ID x = rec_ID r" by auto
    then have "x = r"
      using assms(2,4) own [of r] by (auto simp: rows_sat_def)
    with \<open>x \<in> set rs\<close> post assms(3) show ?thesis by auto
  next
    case False
    with post assms(3) refined_same [OF assms(1-3)] show ?thesis by simp
  qed
qed

text \<open>
  C6: One pass of the deletion controller, on any cluster and under any database faults, takes every
  sandbox row at most one step of the phase machine (rows it does not process stay), changes nothing
  of a row but what that step changes and the bookkeeping of the attempt, and neither adds nor
  removes rows.
\<close>

theorem RunPending_refines:
  fixes w :: "'k world"
  assumes "tables_ok (db w)" "run_state (RunPending c) w = (res, w')" "r \<in> set (sandboxes (db w))"
  shows "map rec_ID (sandboxes (db w')) = map rec_ID (sandboxes (db w)) \<and>
         (\<exists>r' \<in> set (sandboxes (db w')). rec_ID r' = rec_ID r \<and> phase_step (strip r) (strip r'))"
proof -
  obtain bad rest where nf: "next_fault (db_faults w) = (bad, rest)"
    by (cases "next_fault (db_faults w)")
  let ?w = "w\<lparr>ticks := Suc (ticks w), db_faults := rest\<rparr>"
  have "wp (RunPending c) (\<lambda>_. refined w r) w"
    using refined_same [OF assms(1,3), of ?w] pending_loop_refines [OF assms(1,3), of ?w _ "clock w (ticks w)" c]
    by (cases bad) (simp_all add: RunPending_def ListPendingDeletion_def wp_simps wp_sql_stmt nf del: for_each.simps)
  then have Q: "refined w r w'"
    using assms(2) by (simp add: wp_run)
  then have "rec_ID r \<in> rec_ID ` set (sandboxes (db w'))"
    using assms(3) by (metis image_eqI list.set_map)
  with Q show ?thesis
    by (auto simp: rows_sat_def)
qed

theorem RunPending_refines_witness:
  "\<exists>r' \<in> set (sandboxes (db (snd (run_state (RunPending sample_client) (sample_world [sample_row ''a''] []))))).
     rec_ID r' = ''a'' \<and> phase_step (strip (sample_row ''a'')) (strip r')"
  using RunPending_refines [of "sample_world [sample_row ''a''] []" sample_client _ _ "sample_row ''a''", OF _ surjective_pairing]
  by (simp add: tables_ok_sample) (simp add: sample_row_def)

text \<open>
  C7: whatever the API server answers and whichever statements fail, the deletion controller, when it processes a sandbox, marks its
  row as deleted only when the row was in the phase \<open>verifying\<close> and the snapshot taken of the
  cluster in that very step succeeded and shows no remains: no pods, and for a persistent sandbox no
  deployment, no claim (unless it is retained) and, once every forced level was used, no volume or
  attachment.
\<close>

theorem completed_only_when_clean:
  fixes w :: "'k world"
  assumes "tables_ok (db w)" "r \<in> set (sandboxes (db w))" "rec_LifecycleStatus r \<noteq> ''deleted''"
    and "run_state (processSandbox c r) w = (res, w')"
    and "r' \<in> set (sandboxes (db w'))" "rec_ID r' = rec_ID r" "rec_LifecycleStatus r' = ''deleted''"
  shows "phase_of r = DeletionPhaseVerifying \<and>
         (\<exists>w1 w2 s. kube w1 = kube w \<and> run_state (snapshot c r) w1 = (Inr s, w2) \<and> \<not> verify_remains r s)"
proof (rule ccontr)
  assume no: "\<not> ?thesis"
  have "row_post (rec_ID r) (processSandbox c r) (\<lambda>x. rec_LifecycleStatus x \<noteq> ''deleted'') w"
  proof (rule free_process [OF phase_free_alive])
    show "rows_sat (rec_ID r) (\<lambda>x. rec_LifecycleStatus x \<noteq> ''deleted'') (db w)"
      using own_row [OF assms(1,2)] by (rule rows_sat_mono) (simp add: assms(3))
  qed (use no in blast)
  then show False
    using assms(4-7) by (simp add: row_post_def wp_run rows_sat_def)
qed

definition verifying_row :: SandboxRecord where
  "verifying_row = (sample_row ''a'')\<lparr>rec_DesiredState := DesiredStateDeleted,
     rec_LifecycleStatus := ''terminating'', rec_DeletionPhase := DeletionPhaseVerifying\<rparr>"

lemma verifying_row_deleted:
  "map rec_LifecycleStatus (sandboxes (db (snd (run_state (processSandbox sample_client verifying_row)
     (sample_world [verifying_row] []))))) = [''deleted'']"
  "map rec_ID (sandboxes (db (snd (run_state (processSandbox sample_client verifying_row)
     (sample_world [verifying_row] []))))) = [''a'']"
  by code_simp+

theorem completed_only_when_clean_witness:
  "\<exists>w1 w2 s. kube w1 = kube (sample_world [verifying_row] []) \<and>
     run_state (snapshot sample_client verifying_row) w1 = (Inr s, w2) \<and> \<not> verify_remains verifying_row s"
proof -
  let ?w = "sample_world [verifying_row] []"
  obtain r' where r': "sandboxes (db (snd (run_state (processSandbox sample_client verifying_row) ?w))) = [r']"
    "rec_LifecycleStatus r' = ''deleted''" "rec_ID r' = ''a''"
    using verifying_row_deleted by (auto simp: map_eq_Cons_conv)
  show ?thesis
    using completed_only_when_clean [of ?w verifying_row sample_client _ _ r', OF _ _ _ surjective_pairing] r'
    by (simp add: tables_ok_sample verifying_row_def sample_row_def)
qed

text \<open>
  C9: when the deletion of an ephemeral sandbox has just been requested, is due and is the only one under way, the database works and
  the clock does not run backwards, it terminates on a cluster that answers and ends pods gracefully: within \<open>px_grace\<close>, the number of passes in which
  a pod that was asked to go is gone, and four more passes of the controller the row is marked deleted and its phase is
  \<open>completed\<close>, whatever else the nodes do between two passes.
\<close>

theorem ephemeral_deletion_terminates:
  fixes w :: "'k world"
  assumes "due r w" "\<not> rec_PersistenceEnabled r" "pods_terminate x c (rec_ID r)" "phase_of r = DeletionPhaseRequested"
  shows "\<exists>n \<le> px_grace x + 4. \<exists>r'.
           lookup rec_ID (rec_ID r) (sandboxes (db (snd (run_state (passes (px_kubelet x) c n) w)))) = Some r' \<and>
           rec_LifecycleStatus r' = ''deleted'' \<and> rec_DeletionPhase r' = DeletionPhaseCompleted"
proof -
  have "settles_within x c (rec_ID r) (px_grace x + 4) w"
    using settles_mono [OF settles_requested [OF assms]] by simp
  then show ?thesis
    by (auto simp: settles_within_def settled_def)
qed

definition requested_row :: SandboxRecord where
  "requested_row = MarkDeletionRequested_row 0 (sample_row ''a'')"

lemma requested_due: "due requested_row (sample_world [requested_row, sample_row ''b''] pods)"
  by (auto simp: due_def tables_ok_sample mono_def requested_row_def row_defs sample_row_def in_deletion_def
      pending_deletion_cond_def)

text \<open>
  A cluster on which a deleted pod is listed as terminating until the nodes remove it; every pod that carries the label of a sandbox
  has the sandbox's pod name.
\<close>

definition terminating :: "Pod \<Rightarrow> bool" where
  "terminating p \<longleftrightarrow> om_DeletionTimestamp (pod_Meta p) \<noteq> None"

definition graceful_client :: "cluster Client" where
  "graceful_client = sample_client\<lparr>
     pods_List := (\<lambda>ns sel k. (Inr (filter (\<lambda>p. om_Name (pod_Meta p) = ''sandbox-a'') (k_pods k)), k)),
     pods_Delete := (\<lambda>ns n f k. (Inr (), k\<lparr>k_pods := map (\<lambda>p. if om_Name (pod_Meta p) = n
       then p\<lparr>pod_Meta := (pod_Meta p)\<lparr>om_DeletionTimestamp := Some 0\<rparr>\<rparr> else p) (k_pods k)\<rparr>))\<rparr>"

abbreviation a_pods :: "cluster \<Rightarrow> Pod list" where
  "a_pods k \<equiv> filter (\<lambda>p. om_Name (pod_Meta p) = ''sandbox-a'') (k_pods k)"

definition graceful_exit :: "cluster PodExit" where
  "graceful_exit =
     \<lparr>px_kubelet = (\<lambda>k. k\<lparr>k_pods := filter (\<lambda>p. \<not> terminating p) (k_pods k)\<rparr>),
      px_asked = (\<lambda>k. list_all terminating (a_pods k)), px_left = (\<lambda>k. if a_pods k = [] then 0 else 1), px_grace = 1\<rparr>"

lemma graceful_parts:
  "pods_List graceful_client ns sel k = (Inr (a_pods k), k)" "listed graceful_client sid k = a_pods k"
  "pods_Delete graceful_client ns ''sandbox-a'' f k = (Inr (), k\<lparr>k_pods := map (\<lambda>p. if om_Name (pod_Meta p) = ''sandbox-a''
       then p\<lparr>pod_Meta := (pod_Meta p)\<lparr>om_DeletionTimestamp := Some 0\<rparr>\<rparr> else p) (k_pods k)\<rparr>)"
  "px_asked graceful_exit k \<longleftrightarrow> list_all terminating (a_pods k)" "px_left graceful_exit k = (if a_pods k = [] then 0 else 1)"
  "px_grace graceful_exit = 1" "px_kubelet graceful_exit k = k\<lparr>k_pods := filter (\<lambda>p. \<not> terminating p) (k_pods k)\<rparr>"
  by (simp_all add: graceful_client_def graceful_exit_def listed_def)

lemma marked_pods:
  "filter (\<lambda>p. om_Name (pod_Meta p) = n) (map (\<lambda>p. if om_Name (pod_Meta p) = n
       then p\<lparr>pod_Meta := (pod_Meta p)\<lparr>om_DeletionTimestamp := Some 0\<rparr>\<rparr> else p) ps) =
   map (\<lambda>p. p\<lparr>pod_Meta := (pod_Meta p)\<lparr>om_DeletionTimestamp := Some 0\<rparr>\<rparr>) (filter (\<lambda>p. om_Name (pod_Meta p) = n) ps)"
  by (induction ps) simp_all

lemma removed_pods: "list_all terminating (filter P ps) \<Longrightarrow> filter P (filter (\<lambda>p. \<not> terminating p) ps) = []"
  by (induction ps) (auto split: if_splits)

lemma graceful_terminates: "pods_terminate graceful_exit graceful_client ''a''"
  unfolding pods_terminate_def
  by (intro conjI allI impI; simp add: graceful_parts marked_pods removed_pods list_all_iff terminating_def split: if_splits)
     (auto simp: filter_empty_conv)

theorem ephemeral_deletion_terminates_witness:
  "\<exists>n \<le> 5. \<exists>r'. lookup rec_ID ''a'' (sandboxes (db (snd (run_state (passes (px_kubelet graceful_exit) graceful_client n)
      (sample_world [requested_row, sample_row ''b''] [sample_pod ''a'']))))) = Some r' \<and>
     rec_LifecycleStatus r' = ''deleted'' \<and> rec_DeletionPhase r' = DeletionPhaseCompleted"
proof -
  have i: "rec_ID requested_row = ''a''" "\<not> rec_PersistenceEnabled requested_row"
    "phase_of requested_row = DeletionPhaseRequested"
    by (simp_all add: requested_row_def row_defs sample_row_def phase_of_def)
  have "px_grace graceful_exit + 4 = 5"
    by (simp add: graceful_exit_def)
  then show ?thesis
    using ephemeral_deletion_terminates [OF requested_due, of graceful_exit graceful_client "[sample_pod ''a'']"] i graceful_terminates
    by simp
qed

text \<open>
  Once every forced level was used (level three) and something of the sandbox remains in every
  snapshot, the controller never sends another command to the cluster and never completes: processing
  the row leaves the cluster as it was, keeps the row at level three or above in \<open>verifying\<close> or
  \<open>force_cleanup\<close> and does not mark it deleted. The two phases hand the row to each other for
  as long as the remains persist.
\<close>

theorem last_level_gives_up:
  fixes w :: "'k world"
  assumes "tables_ok (db w)" "r \<in> set (sandboxes (db w))" "rec_LifecycleStatus r \<noteq> ''deleted''"
    and "rec_DeletionForceLevel r \<ge> 3" "phase_of r \<in> {DeletionPhaseVerifying, DeletionPhaseForceCleanup}"
    and rem: "\<And>w1 res w2. run_state (snapshot c r) w1 = (res, w2) \<Longrightarrow>
                kube w2 = kube w1 \<and> (\<forall>s. res = Inr s \<longrightarrow> verify_remains r s)"
    and run: "run_state (processSandbox c r) w = (res, w')"
  shows "kube w' = kube w \<and>
         (\<forall>r' \<in> set (sandboxes (db w')). rec_ID r' = rec_ID r \<longrightarrow>
            rec_LifecycleStatus r' \<noteq> ''deleted'' \<and> rec_DeletionForceLevel r' \<ge> 3 \<and>
            phase_of r' \<in> {DeletionPhaseVerifying, DeletionPhaseForceCleanup})"
proof -
  have own: "rows_sat (rec_ID r) (\<lambda>x. x = r) (db w)"
    using own_row [OF assms(1,2)] .
  have "at_row r (db w)"
    using own by (rule rows_sat_mono) simp
  then have step: "rows_sat (rec_ID r) (one_step r) (db w')"
    using process_step [of r w c] run by (simp add: row_post_def wp_run)
  have "row_post (rec_ID r) (processSandbox c r) (\<lambda>x. rec_LifecycleStatus x \<noteq> ''deleted'') w"
    by (rule free_process [OF phase_free_alive])
       (use own assms(3) rem in \<open>auto elim: rows_sat_mono\<close>)
  then have alive: "rows_sat (rec_ID r) (\<lambda>x. rec_LifecycleStatus x \<noteq> ''deleted'') (db w')"
    using run by (simp add: row_post_def wp_run)
  have last: "rec_DeletionForceLevel x \<ge> 3 \<and> phase_of x \<in> {DeletionPhaseVerifying, DeletionPhaseForceCleanup}"
    if "one_step r x" "rec_LifecycleStatus x \<noteq> ''deleted''" for x
  proof -
    have "rec_DeletionForceLevel (strip x) \<ge> 3 \<and>
        phase_of (strip x) \<in> {DeletionPhaseVerifying, DeletionPhaseForceCleanup} \<or>
        rec_LifecycleStatus (strip x) = ''deleted''"
      using that(1) assms(4,5) by (cases rule: phase_step.cases) (auto simp: completed_row_def known_phases_def)
    then show ?thesis
      using that(2) by simp
  qed
  moreover have "kube w' = kube w"
    using last_level_process_quiet [where w = w and c = c, OF assms(4,5) rem] run by (simp add: wp_run)
  ultimately show ?thesis
    using step alive by (auto simp: rows_sat_def)
qed

definition stuck_row :: SandboxRecord where
  "stuck_row = (sample_row ''a'')\<lparr>rec_DesiredState := DesiredStateDeleted, rec_LifecycleStatus := ''terminating'',
     rec_PersistenceEnabled := True, rec_DeletionPhase := DeletionPhaseVerifying, rec_DeletionForceLevel := 3\<rparr>"

definition stuck_client :: "cluster Client" where
  "stuck_client = sample_client\<lparr>pods_List := (\<lambda>ns sel k. (Inr [sample_pod ''a''], k))\<rparr>"

lemma stuck_snapshot:
  assumes "run_state (snapshot stuck_client stuck_row) w1 = (res, w2)"
  shows "kube w2 = kube w1 \<and> (\<forall>s. res = Inr s \<longrightarrow> verify_remains stuck_row s)"
proof -
  have "wp (snapshot stuck_client stuck_row)
      (\<lambda>res w2. kube w2 = kube w1 \<and> (\<forall>s. res = Inr s \<longrightarrow> verify_remains stuck_row s)) w1"
    by (auto simp: snapshot_def stuck_row_def stuck_client_def sample_client_def GetSandboxDeletionSnapshot_def
        get_optional_def GetDeployment_def ListSandboxPods_def GetPersistentVolumeClaim_def GetPersistentVolume_def
        ListVolumeAttachmentsByPV_def verify_remains_def wp_simps Let_def find_named_def
        split: option.splits sum.splits if_splits)
  then show ?thesis
    using assms by (simp add: wp_run)
qed

theorem last_level_gives_up_witness:
  "kube (snd (run_state (processSandbox stuck_client stuck_row) (sample_world [stuck_row] []))) =
   kube (sample_world [stuck_row] [])"
  using last_level_gives_up [of "sample_world [stuck_row] []" stuck_row stuck_client, OF _ _ _ _ _ stuck_snapshot surjective_pairing]
  by (simp add: tables_ok_sample) (simp add: stuck_row_def sample_row_def phase_of_def)

text \<open>
  The delay before the next attempt is ten seconds doubled per attempt and capped at sixty, for
  the first thirty attempts.
\<close>

theorem computeDeletionRetry_spec:
  "0 \<le> n \<Longrightarrow> n \<le> 29 \<Longrightarrow> computeDeletionRetry n = min (10 * 2 ^ nat n) 60 * second"
  by (rule retry_small)

theorem computeDeletionRetry_spec_witness: "computeDeletionRetry 2 = 40 * second"
  using computeDeletionRetry_spec [of 2] by simp

text \<open>
  C8: The shift and the product overflow an \<open>int64\<close>: the delay after the thirtieth attempt is
  negative and from the fifty-fourth on it is zero, so the cap of sixty seconds no longer slows the
  retries of a deletion that is stuck.
\<close>

theorem computeDeletionRetry_overflow:
  "computeDeletionRetry 30 < 0 \<and> (54 \<le> n \<longrightarrow> computeDeletionRetry n = 0)"
  using retry_wrapped retry_zero by blast

theorem computeDeletionRetry_overflow_witness: "computeDeletionRetry 54 = 0"
  using computeDeletionRetry_overflow [of 54] by simp

end
