(* ===== verification/Sandbox_Lifecycle.thy ===== *)
theory Sandbox_Lifecycle
  imports Reconcile
begin

text \<open>
  What the sandbox service promises: the expiry it computes and the cleaner that enforces it, what stopping and
  starting does to the remaining lifetime, what a delete request leaves behind, and every outcome of a creation.
\<close>

section \<open>Expiry\<close>

text \<open>
  For a positive TTL the expiry is creation plus TTL exactly when the TTL is at most 9223372036 seconds; one
  second more and the product overflows, so that the sandbox expires before it is created. TTL zero never
  expires.
\<close>

theorem computeExpiresAt_range:
  assumes "0 < ttl"
  shows "(computeExpiresAt now ttl = now + ttl * second \<longleftrightarrow> ttl \<le> 9223372036) \<and>
     computeExpiresAt now 9223372037 < now \<and> computeExpiresAt now 0 = neverExpires"
proof -
  have "computeExpiresAt now ttl = now + ttl * second \<longleftrightarrow> ttl \<le> 9223372036"
    using assms wrap64_range [of "ttl * second"] wrap64_nonneg [of "ttl * second"] by (auto simp: computeExpiresAt_def)
  then show ?thesis
    by (simp add: computeExpiresAt_def wrap64_def)
qed

theorem computeExpiresAt_range_witness:
  "computeExpiresAt 5 3600 = 5 + 3600 * second \<longleftrightarrow> (3600::int) \<le> 9223372036"
  using computeExpiresAt_range [of 3600 5] by simp

section \<open>The TTL cleaner\<close>

text \<open>The table with the rows of the given sandboxes marked for deletion at \<open>now\<close>.\<close>

definition mark_rows :: "time \<Rightarrow> string set \<Rightarrow> SandboxRecord list \<Rightarrow> SandboxRecord list" where
  "mark_rows now ids rows = map (\<lambda>r. if rec_ID r \<in> ids then MarkDeletionRequested_row now r else r) rows"

lemma rec_ID_marked [simp]: "rec_ID (MarkDeletionRequested_row now r) = rec_ID r"
  by (simp add: row_defs)

lemma mark_rows_step: "i \<notin> ids \<Longrightarrow> mark_rows now ids (mark_rows now {i} rows) = mark_rows now (insert i ids) rows"
  by (auto simp: mark_rows_def)

lemma ids_marked: "map rec_ID (mark_rows now ids rows) = map rec_ID rows"
  by (simp add: mark_rows_def)

lemma lookup_marked: "j \<notin> ids \<Longrightarrow> lookup rec_ID j (mark_rows now ids rows) = lookup rec_ID j rows"
  by (induction rows) (auto simp: lookup_def mark_rows_def)

lemma wp_expire_one:
  assumes "db_faults w = []" "clock w = (\<lambda>_. now)" "lookup rec_ID (rec_ID r) (sandboxes (db w)) = Some r"
    "rec_LifecycleStatus r \<noteq> ''deleted''" "distinct (map rec_ID (sandboxes (db w)))"
    and "\<And>v. db_faults v = [] \<Longrightarrow> clock v = (\<lambda>_. now) \<Longrightarrow>
       sandboxes (db v) = mark_rows now {rec_ID r} (sandboxes (db w)) \<Longrightarrow>
       length (status_history (db v)) = Suc (length (status_history (db w))) \<Longrightarrow> Q () v"
  shows "wp (expire_one r) Q w"
proof -
  have uniq: "x = r" if "x \<in> set (sandboxes (db w))" "rec_ID x = rec_ID r" for x
    using lookup_unique [OF assms(5) that(1)] that(2) assms(3) by simp
  have upd: "update_where (\<lambda>x. rec_ID x = rec_ID r \<and> rec_LifecycleStatus x \<noteq> ''deleted'') (MarkDeletionRequested_row now) (sandboxes (db w))
      = mark_rows now {rec_ID r} (sandboxes (db w))"
    using uniq assms(4) by (auto simp: update_where_def mark_rows_def)
  have mem: "rec_ID r \<in> rec_ID ` set (mark_rows now {rec_ID r} (sandboxes (db w)))"
    using lookup_SomeD [OF assms(3)] ids_marked [of now "{rec_ID r}" "sandboxes (db w)"] by (metis imageI set_map)
  show ?thesis
    using assms(1,2,6) mem
    by (simp add: expire_one_def ignore_err_def MarkDeletionRequested_def AppendStatusHistory_def update_sandbox_def wp_simps
        wp_sql_stmt upd)
qed

lemma wp_expire_all:
  assumes "db_faults w = []" "clock w = (\<lambda>_. now)" "distinct (map rec_ID (sandboxes (db w)))" "distinct (map rec_ID rs)"
    and "\<And>r. r \<in> set rs \<Longrightarrow> lookup rec_ID (rec_ID r) (sandboxes (db w)) = Some r \<and> rec_LifecycleStatus r \<noteq> ''deleted''"
  shows "wp (for_each expire_one rs) (\<lambda>_ v. sandboxes (db v) = mark_rows now (rec_ID ` set rs) (sandboxes (db w)) \<and>
     length (status_history (db v)) = length (status_history (db w)) + length rs) w"
  using assms
proof (induction rs arbitrary: w)
  case Nil
  then show ?case
    by (simp add: wp_ret mark_rows_def)
next
  case (Cons r rs)
  have ne: "rec_ID x \<noteq> rec_ID r" if "x \<in> set rs" for x
    using Cons.prems(4) that by (metis distinct.simps(2) list.simps(9) set_map image_eqI)
  show ?case
    unfolding for_each.simps wp_bind
  proof (rule wp_expire_one [where now = now], goal_cases)
    case (6 v)
    have "wp (for_each expire_one rs) (\<lambda>_ u. sandboxes (db u) = mark_rows now (rec_ID ` set rs) (sandboxes (db v)) \<and>
       length (status_history (db u)) = length (status_history (db v)) + length rs) v"
      using 6 Cons.prems(3-5) ne by (intro Cons.IH) (auto simp: ids_marked lookup_marked)
    then show ?case
      by (rule wp_mono) (use 6 Cons.prems(4) in \<open>auto simp: mark_rows_step\<close>)
  qed (use Cons.prems in auto)
qed

text \<open>
  C18: with no failing statement and a clock that stands still at \<open>now\<close>, one run of the TTL cleaner requests
  the deletion of exactly the sandboxes that are active, have a positive TTL, have passed their expiry and are
  not terminating or stopped; every other row is unchanged, and each request is recorded in the history.
\<close>

theorem ttl_cleaner_exact:
  assumes "tables_ok (db w)" "db_faults w = []" "clock w = (\<lambda>_. now)"
  shows "\<exists>w'. run_state cleanExpiredSandboxes w = ((), w') \<and>
     sandboxes (db w') = map (\<lambda>r. if expired_cond now r then MarkDeletionRequested_row now r else r) (sandboxes (db w)) \<and>
     length (status_history (db w')) = length (status_history (db w)) + length (filter (expired_cond now) (sandboxes (db w)))"
proof -
  let ?rows = "sandboxes (db w)"
  let ?rs = "order_by rec_ExpiresAt (filter (expired_cond now) ?rows)"
  have dist: "distinct (map rec_ID ?rows)"
    using assms(1) by (simp add: tables_ok_def sandbox_tables_ok_def)
  have inj: "x = y" if "x \<in> set ?rows" "y \<in> set ?rows" "rec_ID x = rec_ID y" for x y
    using dist that by (auto simp: distinct_map inj_on_def)
  have "distinct (map rec_ID ?rs)"
    using distinct_delete_where [OF dist, of "\<lambda>r. \<not> expired_cond now r"] by (simp add: delete_where_def)
  moreover have "lookup rec_ID (rec_ID r) ?rows = Some r \<and> rec_LifecycleStatus r \<noteq> ''deleted''" if "r \<in> set ?rs" for r
    using that lookup_unique [OF dist] by (simp add: expired_cond_def)
  moreover have "mark_rows now (rec_ID ` set ?rs) ?rows = map (\<lambda>r. if expired_cond now r then MarkDeletionRequested_row now r else r) ?rows"
    by (auto simp: mark_rows_def dest: inj)
  moreover have "length ?rs = length (filter (expired_cond now) ?rows)"
    by (simp add: order_by_def)
  ultimately have "wp cleanExpiredSandboxes (\<lambda>_ v. sandboxes (db v) = map (\<lambda>r. if expired_cond now r then MarkDeletionRequested_row now r else r) ?rows \<and>
      length (status_history (db v)) = length (status_history (db w)) + length (filter (expired_cond now) ?rows)) w"
    using assms(2,3) dist
    by (simp add: cleanExpiredSandboxes_def ListExpiredActive_def wp_simps wp_sql_stmt)
       (rule wp_mono [OF wp_expire_all], auto)
  then show ?thesis
    by (auto simp: wp_def split: prod.splits)
qed

theorem ttl_cleaner_exact_witness:
  "\<exists>w'. run_state cleanExpiredSandboxes ((sample_world [sample_row ''abc'', (sample_row ''s'')\<lparr>rec_LifecycleStatus := ''stopped''\<rparr>] [])
       \<lparr>clock := (\<lambda>_. 3600 * second)\<rparr>) = ((), w') \<and>
     map rec_DesiredState (sandboxes (db w')) = [''deleted'', ''active''] \<and> length (status_history (db w')) = 1"
proof -
  let ?rows = "[sample_row ''abc'', (sample_row ''s'')\<lparr>rec_LifecycleStatus := ''stopped''\<rparr>]"
  let ?w = "(sample_world ?rows [])\<lparr>clock := (\<lambda>_. 3600 * second)\<rparr>"
  have ok: "tables_ok (db ?w)"
    using tables_ok_sample [of ?rows "[]"] by (simp add: sample_row_def)
  obtain w' where w': "run_state cleanExpiredSandboxes ?w = ((), w')"
      "sandboxes (db w') = map (\<lambda>r. if expired_cond (3600 * second) r then MarkDeletionRequested_row (3600 * second) r else r) ?rows"
      "length (status_history (db w')) = length (status_history (db ?w)) + length (filter (expired_cond (3600 * second)) ?rows)"
    using ttl_cleaner_exact [OF ok, of "3600 * second"] by auto
  then have "map rec_DesiredState (sandboxes (db w')) = [''deleted'', ''active''] \<and> length (status_history (db w')) = 1"
    by (simp add: expired_cond_def sample_row_def row_defs sample_world_def empty_tables_def)
  with w'(1) show ?thesis
    by metis
qed

section \<open>Stopping and starting\<close>

lemma lookup_SetStopped:
  "lookup rec_ID sid (sandboxes (update_sandbox sid (\<lambda>_. True) (SetStopped_row now) t)) =
     map_option (SetStopped_row now) (lookup rec_ID sid (sandboxes t))"
  "lookup rec_ID sid (sandboxes (update_sandbox sid (\<lambda>_. True) (SetStarted_row e now) t)) =
     map_option (SetStarted_row e now) (lookup rec_ID sid (sandboxes t))"
  using set_stopped.lookup_upd [of sid now t] set_started.lookup_upd [of sid e now t] by simp_all

lemma wp_GetByID:
  "(\<And>v. db v = db w \<Longrightarrow> Q (Inr (lookup rec_ID sid (sandboxes (db w)))) v) \<Longrightarrow> (\<And>e v. db v = db w \<Longrightarrow> Q (Inl e) v) \<Longrightarrow>
   wp (GetByID sid) Q w"
  by (auto simp: GetByID_def wp_sql_stmt split: prod.split)

lemma wp_history_same:
  "(\<And>v. sandboxes (db v) = sandboxes (db w) \<Longrightarrow> Q () v) \<Longrightarrow> wp (ignore_err (AppendStatusHistory i a b c d None now)) Q w"
  by (auto simp: ignore_err_def wp_simps AppendStatusHistory_def wp_sql_stmt split: prod.split)

lemma Stop_ok:
  assumes "lookup rec_ID sid (sandboxes (db w)) = Some r"
  shows "wp (SandboxService_Stop s sid) (\<lambda>y v. y = Inr () \<longrightarrow>
     (\<exists>a. lookup rec_ID sid (sandboxes (db v)) = Some (SetStopped_row a r))) w"
proof -
  have "wp (not_found_as (StopPersistentSandbox (k8sClient s) sid)) (\<lambda>y v. db v = db u) u" for u :: "'a world"
    unfolding not_found_as_def wp_mapE by (rule wp_client [OF ko_lifecycle(1)]) simp
  note client = wp_mono [OF this]
  show ?thesis
    unfolding SandboxService_Stop_def wp_seqE Let_def
    by (rule wp_GetByID)
       (auto simp: wp_simps assms SetStopped_def wp_sql_stmt lookup_SetStopped split: sum.split prod.split
         intro!: client wp_history_same)
qed

lemma Start_ok:
  assumes "lookup rec_ID sid (sandboxes (db w)) = Some r"
  shows "wp (SandboxService_Start s sid) (\<lambda>y v. y = Inr () \<longrightarrow>
     (\<exists>b. lookup rec_ID sid (sandboxes (db v)) = Some (SetStarted_row
        (case rec_StoppedAt r of None \<Rightarrow> rec_ExpiresAt r | Some a \<Rightarrow> rec_ExpiresAt r + time_sub b a) b r))) w"
proof -
  have "wp (not_found_as (StartPersistentSandbox (k8sClient s) sid)) (\<lambda>y v. db v = db u) u" for u :: "'a world"
    unfolding not_found_as_def wp_mapE by (rule wp_client [OF ko_lifecycle(2)]) simp
  note client = wp_mono [OF this]
  show ?thesis
    unfolding SandboxService_Start_def wp_seqE Let_def
    by (cases "rec_StoppedAt r"; rule wp_GetByID)
       (auto simp: wp_simps assms SetStarted_def wp_sql_stmt lookup_SetStopped split: sum.split prod.split
         intro!: client wp_history_same)
qed

text \<open>
  C19: a sandbox that is stopped and started again keeps its remaining lifetime. After a successful stop its row
  is stopped and carries the time of the stop; after a successful start it is pending without a stop time, and
  the time left until its expiry is what it was at the stop, provided the pause is shorter than the longest
  duration (about 292 years).
\<close>

theorem stop_start_keeps_remaining_ttl:
  assumes "lookup rec_ID sid (sandboxes (db w)) = Some r" "run_state (SandboxService_Stop s sid) w = (Inr (), w1)"
    and "lookup rec_ID sid (sandboxes (db w2)) = lookup rec_ID sid (sandboxes (db w1))"
    and "run_state (SandboxService_Start s sid) w2 = (Inr (), w3)"
  shows "\<exists>r1 a r'. lookup rec_ID sid (sandboxes (db w1)) = Some r1 \<and> rec_LifecycleStatus r1 = SandboxStatusStopped \<and>
     rec_StoppedAt r1 = Some a \<and>
     lookup rec_ID sid (sandboxes (db w3)) = Some r' \<and> rec_LifecycleStatus r' = SandboxStatusPending \<and> rec_StoppedAt r' = None \<and>
     (minDuration \<le> rec_UpdatedAt r' - a \<and> rec_UpdatedAt r' - a \<le> maxDuration \<longrightarrow>
        rec_ExpiresAt r' - rec_UpdatedAt r' = rec_ExpiresAt r - a)"
proof -
  obtain a where a: "lookup rec_ID sid (sandboxes (db w1)) = Some (SetStopped_row a r)"
    using Stop_ok [OF assms(1), of s] assms(2) by (auto simp: wp_def)
  then have "lookup rec_ID sid (sandboxes (db w2)) = Some (SetStopped_row a r)"
    using assms(3) by simp
  from Start_ok [OF this, of s] obtain b where "lookup rec_ID sid (sandboxes (db w3)) =
      Some (SetStarted_row (rec_ExpiresAt r + time_sub b a) b (SetStopped_row a r))"
    using assms(4) by (auto simp: wp_def SetStopped_row_def)
  with a show ?thesis
    by (intro exI conjI) (auto simp: row_defs time_sub_eq)
qed

text \<open>A service over the sample cluster, and a world with a deployment in it.\<close>

definition sample_service :: "cluster SandboxService" where
  "sample_service =
     \<lparr>k8sClient = sample_client,
      streams = \<lparr>st_exec = (\<lambda>ns n cmd i k. (Inr ([], [], None), k)), st_logs = (\<lambda>ns n t k. (Inr [], k)),
                 tar_write = (\<lambda>n c. Inr c), tar_read = (\<lambda>x. ([], None))\<rparr>,
      hasTemplateSvc = True, tokenCipher = sample_cipher, sha256 = (\<lambda>x. x), gatewayEnv = [], ulower = (\<lambda>x. x),
      marshalEnv = (\<lambda>e. Inr ''{}''), unmarshalEnv = (\<lambda>j. Inr None)\<rparr>"

definition sample_deployment :: "string \<Rightarrow> Deployment" where
  "sample_deployment sid =
     \<lparr>dep_Meta = meta (''sandbox-'' @ sid) ''liteboxd-sandbox'' None [], dep_Replicas = Some 1, dep_MatchLabels = [],
      dep_Strategy = ''Recreate'', dep_TemplateLabels = [], dep_TemplateAnnotations = [],
      dep_TemplateSpec = pod_Spec (sample_pod sid), dep_Conditions = []\<rparr>"

definition persistent_world :: "string \<Rightarrow> cluster world" where
  "persistent_world sid = (sample_world [(sample_row sid)\<lparr>rec_PersistenceEnabled := True\<rparr>] [])
     \<lparr>kube := \<lparr>k_pods = [], k_deployments = [sample_deployment sid], k_pvcs = [], k_pvs = [], k_attachments = [], k_events = []\<rparr>\<rparr>"

theorem stop_start_keeps_remaining_ttl_witness:
  "\<exists>w1 w3 r'. run_state (SandboxService_Stop sample_service ''abc'') (persistent_world ''abc'') = (Inr (), w1) \<and>
     run_state (SandboxService_Start sample_service ''abc'') (w1\<lparr>clock := \<lambda>_. 5000 * second\<rparr>) = (Inr (), w3) \<and>
     lookup rec_ID ''abc'' (sandboxes (db w3)) = Some r' \<and> rec_ExpiresAt r' - 5000 * second = 3600 * second"
proof -
  let ?w = "persistent_world ''abc''"
  let ?r = "(sample_row ''abc'')\<lparr>rec_PersistenceEnabled := True\<rparr>"
  have "wp (SandboxService_Stop sample_service ''abc'') (\<lambda>y v. y = Inr () \<and> lookup rec_ID ''abc'' (sandboxes (db v)) = Some (SetStopped_row 0 ?r) \<and>
      db_faults v = [] \<and> (\<exists>d. om_Name (dep_Meta d) = ''sandbox-abc'' \<and> k_deployments (kube v) = [d])) ?w"
    by (simp add: SandboxService_Stop_def not_found_as_def StopPersistentSandbox_def get_named_deployment_def GetByID_def SetStopped_def
        ignore_err_def AppendStatusHistory_def wp_simps wp_sql_stmt Let_def persistent_world_def sample_service_def sample_client_def find_named_def sample_deployment_def meta_def
        present_def lookup_def sample_row_def row_defs update_sandbox_def update_where_def sample_world_def empty_tables_def)
  then obtain w1 d where w1: "run_state (SandboxService_Stop sample_service ''abc'') ?w = (Inr (), w1)"
      "lookup rec_ID ''abc'' (sandboxes (db w1)) = Some (SetStopped_row 0 ?r)" "db_faults w1 = []"
      "om_Name (dep_Meta d) = ''sandbox-abc''" "k_deployments (kube w1) = [d]"
    by (auto simp: wp_def split: prod.splits)
  have "wp (SandboxService_Start sample_service ''abc'') (\<lambda>y v. y = Inr () \<and> (\<exists>x. lookup rec_ID ''abc'' (sandboxes (db v)) = Some (SetStarted_row x (5000 * second) (SetStopped_row 0 ?r))))
      (w1\<lparr>clock := \<lambda>_. 5000 * second\<rparr>)"
    using w1 lookup_SomeD [OF w1(2)]
    by (simp add: SandboxService_Start_def not_found_as_def StartPersistentSandbox_def get_named_deployment_def GetByID_def SetStarted_def
        ignore_err_def AppendStatusHistory_def wp_simps wp_sql_stmt Let_def sample_service_def sample_client_def find_named_def
        present_def sample_row_def row_defs lookup_SetStopped)
  then obtain w3 x where w3: "run_state (SandboxService_Start sample_service ''abc'') (w1\<lparr>clock := \<lambda>_. 5000 * second\<rparr>) = (Inr (), w3)"
      "lookup rec_ID ''abc'' (sandboxes (db w3)) = Some (SetStarted_row x (5000 * second) (SetStopped_row 0 ?r))"
    by (auto simp: wp_def split: prod.splits)
  have "lookup rec_ID ''abc'' (sandboxes (db ?w)) = Some ?r"
    by (simp add: persistent_world_def lookup_def sample_row_def)
  from stop_start_keeps_remaining_ttl [OF this w1(1) _ w3(1)] w1(2) w3(2)
  have "rec_ExpiresAt (SetStarted_row x (5000 * second) (SetStopped_row 0 ?r)) - 5000 * second = 3600 * second"
    by (simp add: row_defs minDuration_def maxDuration_def sample_row_def)
  with w1(1) w3 show ?thesis
    by blast
qed

section \<open>Deleting\<close>

lemma Delete_ok:
  assumes "lookup rec_ID sid (sandboxes (db w)) = Some r" "rec_DesiredState r \<noteq> DesiredStateDeleted"
    "rec_LifecycleStatus r \<noteq> ''terminating''" "rec_LifecycleStatus r \<noteq> ''deleted''"
  shows "wp (SandboxService_Delete s sid) (\<lambda>y v. \<forall>sb. y = Inr sb \<longrightarrow>
     sb_DesiredState sb = DesiredStateDeleted \<and>
     (\<exists>now. lookup rec_ID sid (sandboxes (db v)) = Some (MarkDeletionRequested_row now r))) w"
  unfolding SandboxService_Delete_def wp_seqE
  by (rule wp_GetByID)
     (use assms in \<open>auto simp: wp_simps MarkDeletionRequested_def wp_sql_stmt deletion_requested.lookup_upd recordToSandboxMetadata_def
        split: sum.split prod.split intro!: wp_history_same\<close>)

lemma Delete_again:
  assumes "lookup rec_ID sid (sandboxes (db w)) = Some r" "rec_DesiredState r = DesiredStateDeleted"
  shows "wp (SandboxService_Delete s sid) (\<lambda>_ v. db v = db w) w"
  unfolding SandboxService_Delete_def wp_seqE
  by (rule wp_GetByID) (use assms in \<open>auto simp: wp_simps\<close>)

text \<open>
  A successful delete request for a live sandbox is durable and is queued for the deletion controller: the
  row is marked, the controller's query selects it from then on until an attempt reschedules it, the response
  shows the request, and deleting again changes nothing in the database.
\<close>

theorem Delete_queues_deletion:
  assumes "lookup rec_ID sid (sandboxes (db w)) = Some r" "rec_DesiredState r \<noteq> DesiredStateDeleted"
    "rec_LifecycleStatus r \<noteq> ''terminating''" "rec_LifecycleStatus r \<noteq> ''deleted''"
    "run_state (SandboxService_Delete s sid) w = (Inr sb, w1)"
  shows "sb_DesiredState sb = DesiredStateDeleted \<and>
     (\<exists>now r1. lookup rec_ID sid (sandboxes (db w1)) = Some r1 \<and> r1 = MarkDeletionRequested_row now r \<and>
        (\<forall>t \<ge> now. pending_deletion_cond t r1) \<and>
        (\<forall>y w2. run_state (SandboxService_Delete s sid) w1 = (y, w2) \<longrightarrow> db w2 = db w1))"
proof -
  obtain now where now: "sb_DesiredState sb = DesiredStateDeleted" "lookup rec_ID sid (sandboxes (db w1)) = Some (MarkDeletionRequested_row now r)"
    using Delete_ok [OF assms(1-4), of s] assms(5) by (auto simp: wp_def)
  have "pending_deletion_cond t (MarkDeletionRequested_row now r)" if "now \<le> t" for t
    using that by (simp add: pending_deletion_cond_def row_defs)
  moreover have "db w2 = db w1" if "run_state (SandboxService_Delete s sid) w1 = (y, w2)" for y w2
    using Delete_again [OF now(2), of s] that by (simp add: wp_def row_defs)
  ultimately show ?thesis
    using now by blast
qed

theorem Delete_queues_deletion_witness:
  "\<exists>sb w1 now. run_state (SandboxService_Delete sample_service ''abc'') (sample_world [sample_row ''abc''] []) = (Inr sb, w1) \<and>
     sb_DesiredState sb = DesiredStateDeleted \<and>
     lookup rec_ID ''abc'' (sandboxes (db w1)) = Some (MarkDeletionRequested_row now (sample_row ''abc''))"
proof -
  let ?w = "sample_world [sample_row ''abc''] []"
  have "wp (SandboxService_Delete sample_service ''abc'') (\<lambda>y v. \<exists>sb. y = Inr sb) ?w"
    by (simp add: SandboxService_Delete_def GetByID_def MarkDeletionRequested_def ignore_err_def AppendStatusHistory_def wp_simps wp_sql_stmt
        lookup_def sample_row_def row_defs update_sandbox_def update_where_def)
  then obtain sb w1 where run: "run_state (SandboxService_Delete sample_service ''abc'') ?w = (Inr sb, w1)"
    by (auto simp: wp_def split: prod.splits)
  have "lookup rec_ID ''abc'' (sandboxes (db ?w)) = Some (sample_row ''abc'')"
    by (simp add: lookup_def sample_row_def)
  from Delete_queues_deletion [OF this _ _ _ run] run show ?thesis
    by (auto simp: sample_row_def)
qed

text \<open>
  Deleting a sandbox whose row is active but terminating (a pod that is being evicted) succeeds and
  records nothing: the row stays as it is, and neither the deletion controller nor the TTL cleaner ever selects it.
\<close>

theorem Delete_ignores_terminating_rows:
  assumes "db_faults w = []" "lookup rec_ID sid (sandboxes (db w)) = Some r"
    "rec_DesiredState r = DesiredStateActive" "rec_LifecycleStatus r = ''terminating''"
  shows "fst (run_state (SandboxService_Delete s sid) w) = Inr (recordToSandboxMetadata s r) \<and>
     db (snd (run_state (SandboxService_Delete s sid) w)) = db w \<and>
     \<not> pending_deletion_cond t r \<and> \<not> expired_cond t r"
proof -
  have "wp (SandboxService_Delete s sid) (\<lambda>y v. y = Inr (recordToSandboxMetadata s r) \<and> db v = db w) w"
    using assms by (simp add: SandboxService_Delete_def GetByID_def wp_simps wp_sql_stmt)
  then show ?thesis
    using assms(3,4) by (simp add: wp_alt pending_deletion_cond_def expired_cond_def)
qed

theorem Delete_ignores_terminating_rows_witness:
  "let r = (sample_row ''abc'')\<lparr>rec_LifecycleStatus := ''terminating''\<rparr>; w = sample_world [r] [] in
     fst (run_state (SandboxService_Delete sample_service ''abc'') w) = Inr (recordToSandboxMetadata sample_service r) \<and>
     db (snd (run_state (SandboxService_Delete sample_service ''abc'') w)) = db w"
  using Delete_ignores_terminating_rows [of "sample_world [(sample_row ''abc'')\<lparr>rec_LifecycleStatus := ''terminating''\<rparr>] []" "''abc''"
      "(sample_row ''abc'')\<lparr>rec_LifecycleStatus := ''terminating''\<rparr>" sample_service]
  by (simp add: Let_def lookup_def sample_row_def)

section \<open>Background tasks\<close>

lemma guarded_ignore: "state_io_rel (db_rel (guarded sid)) m \<Longrightarrow> state_io_rel (db_rel (guarded sid)) (ignore_err m)"
  unfolding ignore_err_def by (intro gw.io_program)

lemma guarded_ok_true: "state_io_rel (db_rel (guarded sid)) m \<Longrightarrow> state_io_rel (db_rel (guarded sid)) (ok_true m)"
  unfolding ok_true_def by (intro gw.io_program)

lemmas guarded_client_ops = ko_client [THEN guarded_client] ko_files [THEN guarded_client]

text \<open>
  C20: the background tasks of a creation never bring a sandbox back. Whatever the cluster answers, whichever
  statements fail and however late they run: if the deletion of the sandbox was requested meanwhile, its row stays
  exactly as it is; its desired state and the rows of all other sandboxes are never changed.
\<close>

theorem background_tasks_never_resurrect:
  assumes "run_state (runPostCreationTasks s t n) w = (x, w')"
  shows "guarded (pt_ID t) (db w) (db w')"
proof -
  have "state_io_rel (db_rel (guarded (pt_ID t))) (runPostCreationTasks s t n)"
    unfolding runPostCreationTasks_def runPersistentStartupMonitor_def Let_def
    by (intro guarded_writes guarded_ignore guarded_ok_true guarded_client_ops guarded_loop)
  from io_relD [OF this, of w] show ?thesis
    using assms by (simp add: db_rel_def)
qed

definition sample_task :: "string \<Rightarrow> PostCreationTask" where
  "sample_task sid = \<lparr>pt_ID = sid, pt_Probe = None, pt_Files = [], pt_StartupScript = ''true'', pt_StartupTimeout = 300,
     pt_Persistent = False, pt_DeploymentName = [], pt_PVCName = []\<rparr>"

theorem background_tasks_never_resurrect_witness:
  "\<exists>w'. run_state (runPostCreationTasks sample_service (sample_task ''abc'') 3)
        (sample_world [MarkDeletionRequested_row 7 (sample_row ''abc'')] [sample_pod ''abc'']) = ((), w') \<and>
      lookup rec_ID ''abc'' (sandboxes (db w')) = Some (MarkDeletionRequested_row 7 (sample_row ''abc''))"
proof -
  let ?r = "MarkDeletionRequested_row 7 (sample_row ''abc'')"
  obtain w' where run: "run_state (runPostCreationTasks sample_service (sample_task ''abc'') 3) (sample_world [?r] [sample_pod ''abc'']) = ((), w')"
    by (metis old.unit.exhaust surj_pair)
  have "lookup rec_ID ''abc'' [?r] = Some ?r" "\<not> active_cond ?r"
    by (simp_all add: lookup_def row_defs sample_row_def active_cond_def)
  then show ?thesis
    using background_tasks_never_resurrect [OF run] run by (auto simp: guarded_def sample_task_def)
qed

section \<open>The retention cleaner\<close>

text \<open>What the purge leaves, as one step on the tables.\<close>

definition purged :: "time \<Rightarrow> tables \<Rightarrow> tables" where
  "purged cutoff t =
     snd (purge_sandboxes cutoff (snd (purge_history cutoff (snd (purge_runs cutoff (snd (purge_items cutoff t)))))))"

lemma purge_all_or_nothing:
  "wp (PurgeHistoricalData cutoff) (\<lambda>y v. case y of Inl e \<Rightarrow> db v = db w | Inr x \<Rightarrow> db v = purged cutoff (db w)) w"
  unfolding PurgeHistoricalData_def
  by (rule wp_transaction) (auto simp: wp_simps wp_sql_stmt purged_def split: prod.split)

text \<open>
  A run of the retention cleaner is atomic: whichever of its statements fails, the tables are
  unchanged or every table was purged. A row it removes was deleted for good before the cutoff; every other
  sandbox row stays, in the same order, and so does every history row that is newer than the cutoff and
  belongs to one of them.
\<close>

theorem history_cleaner_atomic:
  assumes "run_state (cleanHistoricalData retention) w = ((), w')" "db w' \<noteq> db w"
  shows "\<exists>cutoff. db w' = purged cutoff (db w) \<and>
     sandboxes (db w') = filter (\<lambda>r. \<not> purge_cond cutoff r) (sandboxes (db w)) \<and>
     set (status_history (db w')) = {h \<in> set (status_history (db w)). cutoff \<le> hist_CreatedAt h \<and>
       hist_SandboxID h \<notin> rec_ID ` {r \<in> set (sandboxes (db w)). purge_cond cutoff r}}"
proof -
  have "wp (cleanHistoricalData retention) (\<lambda>_ v. db v = db w \<or> (\<exists>cutoff. db v = purged cutoff (db w))) w"
    unfolding cleanHistoricalData_def ignore_err_def
    by (auto simp: wp_simps intro!: wp_mono [OF purge_all_or_nothing] split: sum.splits)
  then obtain cutoff where c: "db w' = purged cutoff (db w)"
    using assms by (auto simp: wp_def)
  then show ?thesis
    by (intro exI [of _ cutoff])
       (auto simp: purged_def purge_sandboxes_def purge_history_def purge_runs_def purge_items_def Let_def delete_where_def)
qed

theorem history_cleaner_atomic_witness:
  "\<exists>w' cutoff. run_state (cleanHistoricalData second)
        ((sample_world [sample_row ''abc'', MarkDeletionCompleted_row ''gone'' 0 (sample_row ''old'')] [])\<lparr>clock := \<lambda>_. 9 * second\<rparr>) = ((), w') \<and>
      sandboxes (db w') = filter (\<lambda>r. \<not> purge_cond cutoff r) [sample_row ''abc'', MarkDeletionCompleted_row ''gone'' 0 (sample_row ''old'')] \<and>
      length (sandboxes (db w')) = 1"
proof -
  let ?rows = "[sample_row ''abc'', MarkDeletionCompleted_row ''gone'' 0 (sample_row ''old'')]"
  let ?w = "(sample_world ?rows [])\<lparr>clock := \<lambda>_. 9 * second\<rparr>"
  have "wp (cleanHistoricalData second) (\<lambda>_ v. length (sandboxes (db v)) = 1) ?w"
    by (simp add: cleanHistoricalData_def ignore_err_def PurgeHistoricalData_def transaction_def wp_simps wp_sql_stmt purge_items_def
        purge_runs_def purge_history_def purge_sandboxes_def purge_cond_def Let_def delete_where_def sample_row_def row_defs)
  then obtain w' where run: "run_state (cleanHistoricalData second) ?w = ((), w')" and len: "length (sandboxes (db w')) = 1"
    by (auto simp: wp_def split: prod.splits)
  have "db w' \<noteq> db ?w"
    using len by auto
  from history_cleaner_atomic [OF run this] run len show ?thesis
    by auto
qed

section \<open>Listing\<close>

lemma metadata_cond_page: "metadata_cond (q\<lparr>q_Page := p, q_PageSize := sz\<rparr>) = metadata_cond q"
  by (simp add: metadata_cond_def fun_eq_iff)

text \<open>
  C23: with a working database and pages of 1 to 100 rows, the metadata listing shows, page by page, every row that
  matches the filters exactly once, newest first.
\<close>

theorem metadata_pages_partition:
  assumes "db_faults w = []" "1 \<le> sz" "sz \<le> 100" "length (filter (metadata_cond q) (sandboxes (db w))) \<le> n * nat sz"
    "int n * sz < 2 ^ 63"
  shows "concat (map (\<lambda>i. case fst (run_state (SandboxService_ListMetadata s (q\<lparr>q_Page := int i, q_PageSize := sz\<rparr>)) w) of
             Inl _ \<Rightarrow> [] | Inr resp \<Rightarrow> mlr_Items resp) [1..<Suc n]) =
         map (recordToSandboxMetadata s) (order_by_desc rec_CreatedAt (filter (metadata_cond q) (sandboxes (db w))))"
proof -
  let ?rows = "order_by_desc rec_CreatedAt (filter (metadata_cond q) (sandboxes (db w)))"
  have page: "(case fst (run_state (SandboxService_ListMetadata s (q\<lparr>q_Page := int i, q_PageSize := sz\<rparr>)) w) of
             Inl _ \<Rightarrow> [] | Inr resp \<Rightarrow> mlr_Items resp) = map (recordToSandboxMetadata s) (sql_page (int i) sz ?rows)"
    if "1 \<le> i" for i
  proof -
    have "wp (SandboxService_ListMetadata s (q\<lparr>q_Page := int i, q_PageSize := sz\<rparr>)) (\<lambda>y v.
        (case y of Inl _ \<Rightarrow> [] | Inr resp \<Rightarrow> mlr_Items resp) = map (recordToSandboxMetadata s) (sql_page (int i) sz ?rows)) w"
      using assms(1-3) that
      by (simp add: SandboxService_ListMetadata_def ListMetadata_store_def normalize_query_def metadata_cond_page wp_simps wp_sql_stmt Let_def)
    then show ?thesis
      by (simp add: wp_alt)
  qed
  have ok: "(p - 1) * sz < 2 ^ 63 \<and> p < 2 ^ 63" if "1 \<le> p" "p \<le> int n" for p
  proof -
    have "p * 1 \<le> int n * sz"
      using that assms(2) by (intro mult_mono) simp_all
    moreover have "(p - 1) * sz \<le> int n * sz"
      using that assms(2) by (intro mult_right_mono) simp_all
    ultimately show ?thesis
      using assms(5) by simp
  qed
  have "concat (map (\<lambda>i. sql_page (int i) sz ?rows) [1..<Suc n]) = ?rows"
    using assms(2,4) ok by (intro sql_pager.pages_partition) simp_all
  then have "map (recordToSandboxMetadata s) ?rows = concat (map (\<lambda>i. map (recordToSandboxMetadata s) (sql_page (int i) sz ?rows)) [1..<Suc n])"
    by (metis (no_types, lifting) map_concat map_map comp_apply map_cong)
  moreover have "map (\<lambda>i. map (recordToSandboxMetadata s) (sql_page (int i) sz ?rows)) [1..<Suc n] =
      map (\<lambda>i. case fst (run_state (SandboxService_ListMetadata s (q\<lparr>q_Page := int i, q_PageSize := sz\<rparr>)) w) of
             Inl _ \<Rightarrow> [] | Inr resp \<Rightarrow> mlr_Items resp) [1..<Suc n]"
    by (rule map_cong [OF refl], rule page [symmetric]) auto
  ultimately show ?thesis
    by (simp only:)
qed

theorem metadata_pages_partition_witness:
  "concat (map (\<lambda>i. case fst (run_state (SandboxService_ListMetadata sample_service
        \<lparr>q_ID = [], q_Template = [], q_DesiredState = [], q_LifecycleStatus = [], q_CreatedFrom = None, q_CreatedTo = None,
         q_DeletedFrom = None, q_DeletedTo = None, q_DeletionPhase = [], q_Page = int i, q_PageSize = 1\<rparr>)
        (sample_world [sample_row ''abc'', sample_row ''xyz''] [])) of Inl _ \<Rightarrow> [] | Inr resp \<Rightarrow> mlr_Items resp) [1..<3]) =
     map (recordToSandboxMetadata sample_service) [sample_row ''abc'', sample_row ''xyz'']"
proof -
  let ?q = "\<lparr>q_ID = [], q_Template = [], q_DesiredState = [], q_LifecycleStatus = [], q_CreatedFrom = None, q_CreatedTo = None,
         q_DeletedFrom = None, q_DeletedTo = None, q_DeletionPhase = [], q_Page = 1, q_PageSize = 1\<rparr>"
  have "filter (metadata_cond ?q) [sample_row ''abc'', sample_row ''xyz''] = [sample_row ''abc'', sample_row ''xyz'']"
    by (simp add: metadata_cond_def)
  moreover have "order_by_desc rec_CreatedAt [sample_row ''abc'', sample_row ''xyz''] = [sample_row ''abc'', sample_row ''xyz'']"
    by (simp add: order_by_desc_def sample_row_def)
  ultimately show ?thesis
    using metadata_pages_partition [of "sample_world [sample_row ''abc'', sample_row ''xyz''] []" 1 ?q 2 sample_service]
    by (simp add: eval_nat_numeral del: upt_Suc)
qed

section \<open>Creating\<close>

text \<open>
  Programs that leave the sandbox rows alone and schedule no fault; a creation runs one until it inserts the
  row, and from then on writes only that row.
\<close>

definition calm :: "'k world \<Rightarrow> 'k world \<Rightarrow> bool" where
  "calm w w' \<longleftrightarrow> sandboxes (db w') = sandboxes (db w) \<and> (db_faults w = [] \<longrightarrow> db_faults w' = [])"

interpretation calm: world_preorder calm
  by unfold_locales (auto simp: calm_def)

lemma calm_effects:
  "state_io_rel calm time_now" "state_io_rel calm new_uuid" "state_io_rel calm rand_token"
  "state_io_rel db_same m \<Longrightarrow> state_io_rel calm m"
  unfolding time_now_def new_uuid_def rand_token_def io_step_with by (auto simp: calm_def db_same_def state_io_rel_def)

lemma calm_stmt: "(\<And>t a t'. f t = Some (a, t') \<Longrightarrow> sandboxes t' = sandboxes t) \<Longrightarrow> state_io_rel calm (sql_stmt msg f)"
  by (auto simp: sql_stmt_def io_step_with calm_def Let_def next_fault_def split: prod.split option.split list.splits)

lemma calm_query: "state_io_rel calm (sql_query msg q)"
  by (rule calm_stmt) simp

lemma calm_history: "state_io_rel calm (appendStatusHistoryDurable i a b c d)"
  unfolding appendStatusHistoryDurable_def ignore_err_def AppendStatusHistory_def Let_def option.case
  by (intro calm.io_structure calm_effects(1) calm_stmt) (auto split: if_splits)

lemmas calm_steps = calm.io_structure calm_effects calm_query calm_history

lemma calm_reads:
  "state_io_rel calm (GetSpecForSandbox n v)"
  "state_io_rel calm (TemplateService_Get n)"
  "state_io_rel calm (GenerateToken k)"
  "state_io_rel calm (Encrypt ci t)"
  "state_io_rel calm generateID"
  unfolding GetSpecForSandbox_def TemplateService_Get_def TemplateStore_Get_def TemplateStore_GetVersion_def
    GenerateToken_def Encrypt_def read_random_def generateID_def Let_def
  by (intro calm_steps)+

lemma wp_calm: "state_io_rel calm m \<Longrightarrow> (\<And>a w'. calm w w' \<Longrightarrow> Q a w') \<Longrightarrow> wp m Q w"
  by (simp add: wp_alt state_io_rel_def)

text \<open>The columns that are fixed when the row is inserted.\<close>

definition core :: "SandboxRecord \<Rightarrow> string list \<times> int list \<times> bool" where
  "core r = ([rec_ID r, rec_TemplateName r, rec_Image r, rec_DesiredState r, rec_AccessTokenCiphertext r, rec_AccessTokenNonce r,
      rec_AccessTokenSHA256 r, rec_VolumeClaimName r, rec_RuntimeName r],
     [rec_TemplateVersion r, rec_TTL r, rec_CreatedAt r, rec_ExpiresAt r], rec_PersistenceEnabled r)"

definition inserted :: "SandboxRecord list \<Rightarrow> SandboxRecord \<Rightarrow> 'k world \<Rightarrow> bool" where
  "inserted rows r w \<longleftrightarrow> sandboxes (db w) = rows @ [r] \<and> rec_ID r \<notin> rec_ID ` set rows \<and> db_faults w = []"

lemma update_inserted:
  "rec_ID r \<notin> rec_ID ` set rows \<Longrightarrow> update_where (\<lambda>x. rec_ID x = rec_ID r) f (rows @ [r]) = rows @ [f r]"
  by (simp add: update_where_def) (intro map_idI, metis image_eqI)

lemma inserted_calm: "inserted rows r w \<Longrightarrow> calm w w' \<Longrightarrow> inserted rows r w'"
  by (simp add: inserted_def calm_def)

lemma wp_updateStatusDurable:
  assumes "inserted rows r w" "\<And>now v. inserted rows (UpdateStatus_row a b now r) v \<Longrightarrow> Q () v"
  shows "wp (updateStatusDurable (rec_ID r) a b) Q w"
  using assms
  by (auto simp: updateStatusDurable_def ignore_err_def UpdateStatus_def wp_simps wp_sql_stmt inserted_def update_sandbox_def
      update_inserted row_defs)

lemma wp_updateObservedDurable:
  assumes "inserted rows r w" "\<And>now v. inserted rows (UpdateObservedState_row u p i a b now now r) v \<Longrightarrow> Q (Inr ()) v"
  shows "wp (updateObservedStateDurable (rec_ID r) u p i a b) Q w"
  using assms
  by (auto simp: updateObservedStateDurable_def UpdateObservedState_def wp_simps wp_sql_stmt inserted_def update_sandbox_def
      update_inserted row_defs)

text \<open>Where the runtime step leaves the row.\<close>

definition runtime_outcome :: "SandboxRecord list \<Rightarrow> SandboxRecord \<Rightarrow> SandboxRecord res \<Rightarrow> 'k world \<Rightarrow> bool" where
  "runtime_outcome rows r y v \<longleftrightarrow> (\<exists>r1. inserted rows r1 v \<and> core r1 = core r \<and>
     (case y of
        Inr r' \<Rightarrow> core r' = core r \<and> rec_LifecycleStatus r1 \<notin> {''creating'', ''deleted'', ''lost''}
      | Inl e \<Rightarrow> rec_LifecycleStatus r1 = SandboxStatusFailed \<or> (\<exists>m. e = GoPanic m) \<and> r1 = r))"

lemma convert_not_creating: "convertPodStatus pod \<notin> {''creating'', ''deleted'', ''lost''}"
  by (simp add: convertPodStatus_def)

lemma core_rows [simp]:
  "core (r\<lparr>rec_LifecycleStatus := a, rec_StatusReason := b\<rparr>) = core r"
  "core (UpdateStatus_row a b n r) = core r" "core (UpdateObservedState_row u p i a b m n r) = core r"
  "rec_LifecycleStatus (UpdateStatus_row a b n r) = a" "rec_LifecycleStatus (UpdateObservedState_row u p i a b m n r) = a"
  by (simp_all add: core_def row_defs)

lemma outcomeI:
  "inserted rows r1 w \<Longrightarrow> calm w v \<Longrightarrow> core r1 = core r \<Longrightarrow>
   (case y of Inr r' \<Rightarrow> core r' = core r \<and> rec_LifecycleStatus r1 \<notin> {''creating'', ''deleted'', ''lost''}
    | Inl e \<Rightarrow> rec_LifecycleStatus r1 = SandboxStatusFailed \<or> (\<exists>m. e = GoPanic m) \<and> r1 = r) \<Longrightarrow>
   runtime_outcome rows r y v"
  unfolding runtime_outcome_def by (blast intro: inserted_calm)

lemma failed_outcome:
  assumes "inserted rows r w"
  shows "wp (create_failed (rec_ID r) m e) (runtime_outcome rows r) w"
proof -
  have wr: "wp (do { updateStatusDurable (rec_ID r) SandboxStatusFailed x;
       appendStatusHistoryDurable (rec_ID r) ''api'' ''creating'' SandboxStatusFailed x; throw (Wrap m e') }) (runtime_outcome rows r) w" for x e'
    unfolding wp_bind wp_ret
    by (rule wp_updateStatusDurable [OF assms], rule wp_calm [OF calm_history], erule (1) outcomeI) simp_all
  show ?thesis
    using wr assms calm.rel_refl [of w] by (cases e) (auto simp: create_failed_def wp_ret intro: outcomeI)
qed

lemma runtime_ok:
  assumes "inserted rows r w"
  shows "wp (create_runtime s r opts) (runtime_outcome rows r) w"
proof -
  have done1: "wp (do { updateStatusDurable (rec_ID r) SandboxStatusPending [];
       appendStatusHistoryDurable (rec_ID r) ''api'' ''creating'' SandboxStatusPending ''deployment created'';
       retE (r\<lparr>rec_LifecycleStatus := SandboxStatusPending, rec_StatusReason := []\<rparr>) }) (runtime_outcome rows r) v"
    if "inserted rows r v" for v :: "'a world"
    unfolding wp_bind wp_ret
    by (rule wp_updateStatusDurable [OF that], rule wp_calm [OF calm_history], erule (1) outcomeI) simp_all
  have done2: "wp (seqE (updateObservedStateDurable (rec_ID r) (om_UID (pod_Meta pod)) (pod_Phase pod) (pod_PodIP pod) (convertPodStatus pod) [])
       (\<lambda>_. do { appendStatusHistoryDurable (rec_ID r) ''api'' ''creating'' (convertPodStatus pod) ''pod created''; retE r })) (runtime_outcome rows r) v"
    if "inserted rows r v" for v :: "'a world" and pod
    unfolding wp_seqE wp_bind wp_ret
    by (rule wp_updateObservedDurable [OF that], simp only: sum.case, rule wp_calm [OF calm_history], erule (1) outcomeI)
       (simp_all add: convert_not_creating [simplified])
  note client = wp_calm [OF calm_effects(4) [OF ko_CreatePersistent]] wp_calm [OF calm_effects(4) [OF ko_CreatePod]]
  show ?thesis
  proof (cases "rec_PersistenceEnabled r")
    case True
    show ?thesis
      unfolding create_runtime_def Let_def wp_bind if_P [OF True]
      by (rule client(1)) (auto intro: failed_outcome done1 inserted_calm [OF assms] split: sum.split)
  next
    case False
    show ?thesis
      unfolding create_runtime_def Let_def wp_bind if_not_P [OF False]
      by (rule client(2)) (auto intro: failed_outcome done2 inserted_calm [OF assms] split: sum.split)
  qed
qed

text \<open>Every outcome of a creation, for the rows that were there before.\<close>

definition created :: "'k SandboxService \<Rightarrow> CreateSandboxRequest \<Rightarrow> SandboxRecord \<Rightarrow> Sandbox \<Rightarrow> PostCreationTask \<Rightarrow> bool" where
  "created s req r sb task \<longleftrightarrow>
     sb_ID sb = rec_ID r \<and> pt_ID task = rec_ID r \<and> pt_Persistent task = rec_PersistenceEnabled r \<and>
     rec_DesiredState r = DesiredStateActive \<and> rec_LifecycleStatus r \<notin> {''creating'', ''deleted'', ''lost''} \<and>
     rec_TemplateName r = csr_Template req \<and> (csr_TemplateVersion req > 0 \<longrightarrow> rec_TemplateVersion r = csr_TemplateVersion req) \<and>
     rec_AccessTokenSHA256 r = HashToken (sha256 s) (sb_AccessToken sb) \<and>
     0 \<le> rec_TTL r \<and> rec_ExpiresAt r = computeExpiresAt (rec_CreatedAt r) (rec_TTL r) \<and>
     rec_RuntimeName r = ''sandbox-'' @ rec_ID r \<and>
     rec_VolumeClaimName r = (if rec_PersistenceEnabled r then ''sandbox-data-'' @ rec_ID r else [])"

definition create_outcome ::
  "'k SandboxService \<Rightarrow> CreateSandboxRequest \<Rightarrow> SandboxRecord list \<Rightarrow> (Sandbox \<times> PostCreationTask) res \<Rightarrow> SandboxRecord list \<Rightarrow> bool" where
  "create_outcome s req rows y rows' \<longleftrightarrow>
     (case y of
        Inr (sb, task) \<Rightarrow> \<exists>r. rows' = rows @ [r] \<and> rec_ID r \<notin> rec_ID ` set rows \<and> created s req r sb task
      | Inl e \<Rightarrow> rows' = rows \<or>
          (\<exists>r. rows' = rows @ [r] \<and> rec_DesiredState r = DesiredStateActive \<and>
             (rec_LifecycleStatus r = SandboxStatusFailed \<or>
              rec_LifecycleStatus r = ''creating'' \<and> (\<exists>m. e = GoPanic m) \<or>
              (\<exists>e'. e = Wrap ''failed to decrypt access token'' e'))))"

lemma created_new:
  fixes s req spec v cf sid sealed token env now
  defines "r \<equiv> new_record s req spec v cf sid sealed token env now"
  assumes "core r1 = core r" "core r' = core r" "rec_LifecycleStatus r1 \<notin> {''creating'', ''deleted'', ''lost''}" "\<not> cf_ttl cf < 0"
    "recordToSandbox s r' = Inr sb" "csr_TemplateVersion req > 0 \<longrightarrow> v = csr_TemplateVersion req"
    "pt_ID task = sid" "pt_Persistent task = rec_PersistenceEnabled r"
  shows "created s req r1 (sb\<lparr>sb_AccessToken := token\<rparr>) task"
proof -
  have "rec_ID r' = sid"
    using assms(3) by (simp add: core_def r_def new_record_def Let_def)
  then have "sb_ID sb = sid"
    using assms(6) by (auto simp: recordToSandbox_def recordToSandboxMetadata_def split: sum.splits)
  then show ?thesis
    using assms(2,4,5,7-9) by (simp add: created_def core_def r_def new_record_def Let_def)
qed

lemma wp_calm_bind:
  "state_io_rel calm m \<Longrightarrow> calm w u \<Longrightarrow> (\<And>a v. calm w v \<Longrightarrow> wp (k a) Q v) \<Longrightarrow> wp (State_Monad.bind m k) Q u"
  unfolding wp_bind by (erule wp_calm) (blast intro: calm.rel_trans)

lemma wp_calm_seqE:
  "state_io_rel calm m \<Longrightarrow> calm w u \<Longrightarrow> (\<And>e v. calm w v \<Longrightarrow> Q (Inl e) v) \<Longrightarrow> (\<And>a v. calm w v \<Longrightarrow> wp (k a) Q v) \<Longrightarrow>
   wp (seqE m k) Q u"
  unfolding wp_seqE by (erule wp_calm) (drule (1) calm.rel_trans, simp split: sum.split)

lemma after_insert:
  fixes s req spec v cf sid sealed token env now
  defines "r \<equiv> new_record s req spec v cf sid sealed token env now"
  assumes "inserted rows r x" "\<not> cf_ttl cf < 0" "csr_TemplateVersion req > 0 \<longrightarrow> v = csr_TemplateVersion req"
    "pt_ID task = sid" "pt_Persistent task = rec_PersistenceEnabled r"
  shows "wp (do { appendStatusHistoryDurable sid a b c d;
       seqE (create_runtime s r opts) (\<lambda>r'. case recordToSandbox s r' of Inl e \<Rightarrow> throw e
         | Inr sb \<Rightarrow> retE (sb\<lparr>sb_AccessToken := token\<rparr>, task)) })
     (\<lambda>y u. create_outcome s req rows y (sandboxes (db u))) x"
proof (rule wp_calm_bind [OF calm_history calm.rel_refl], unfold wp_seqE)
  fix y and u :: "'a world"
  assume "calm x u"
  then have ins: "inserted rows r u"
    using assms(2) by (rule inserted_calm [rotated])
  have live: "rec_DesiredState r1 = DesiredStateActive" if "core r1 = core r" for r1
    using that by (simp add: core_def r_def new_record_def Let_def)
  have new: "rec_LifecycleStatus r = ''creating''"
    by (simp add: r_def new_record_def Let_def)
  show "wp (create_runtime s r opts) (\<lambda>y w'. case y of
      Inl e \<Rightarrow> create_outcome s req rows (Inl e) (sandboxes (db w'))
    | Inr r' \<Rightarrow> wp (case recordToSandbox s r' of Inl e \<Rightarrow> throw e | Inr sb \<Rightarrow> retE (sb\<lparr>sb_AccessToken := token\<rparr>, task))
        (\<lambda>y u. create_outcome s req rows y (sandboxes (db u))) w') u"
  proof (rule wp_mono [OF runtime_ok [OF ins]])
    fix y and v' :: "'a world"
    assume "runtime_outcome rows r y v'"
    then obtain r1 where r1: "inserted rows r1 v'" "core r1 = core r"
        "case y of Inr r' \<Rightarrow> core r' = core r \<and> rec_LifecycleStatus r1 \<notin> {''creating'', ''deleted'', ''lost''}
         | Inl e \<Rightarrow> rec_LifecycleStatus r1 = SandboxStatusFailed \<or> (\<exists>m. e = GoPanic m) \<and> r1 = r"
      by (auto simp: runtime_outcome_def)
    show "case y of Inl e \<Rightarrow> create_outcome s req rows (Inl e) (sandboxes (db v'))
      | Inr r' \<Rightarrow> wp (case recordToSandbox s r' of Inl e \<Rightarrow> throw e | Inr sb \<Rightarrow> retE (sb\<lparr>sb_AccessToken := token\<rparr>, task))
          (\<lambda>y u. create_outcome s req rows y (sandboxes (db u))) v'"
    proof (cases y)
      case (Inl e)
      then show ?thesis
        using r1 live new by (auto simp: create_outcome_def inserted_def)
    next
      case (Inr r')
      show ?thesis
      proof (cases "recordToSandbox s r'")
        case e: (Inl e)
        then have "\<exists>e'. e = Wrap ''failed to decrypt access token'' e'"
          by (auto simp: recordToSandbox_def split: sum.splits)
        then show ?thesis
          using r1 live [OF r1(2)] e Inr by (auto simp: create_outcome_def inserted_def wp_ret)
      next
        case sb: (Inr sb)
        have "created s req r1 (sb\<lparr>sb_AccessToken := token\<rparr>) task"
          using created_new [OF r1(2) [unfolded r_def] _ _ assms(3) sb assms(4,5)] r1(3) assms(6) Inr by (simp add: r_def)
        then show ?thesis
          using r1(1) sb Inr by (auto simp: create_outcome_def inserted_def wp_ret)
      qed
    qed
  qed
qed

lemma create_from_outcome:
  fixes w :: "'k world"
  assumes "db_faults w = []" "csr_TemplateVersion req > 0 \<longrightarrow> v = csr_TemplateVersion req"
  shows "wp (create_from s req spec v cf) (\<lambda>y u. create_outcome s req (sandboxes (db w)) y (sandboxes (db u))) w"
proof -
  let ?rows = "sandboxes (db w)"
  let ?Q = "\<lambda>y u. create_outcome s req ?rows y (sandboxes (db u))"
  have keep: "?Q (Inl e) u" if "calm w u" for e and u :: "'k world"
    using that by (simp add: create_outcome_def calm_def)
  have insert: "wp (seqE (SandboxStore_Create r) k) ?Q u"
    if "calm w u" "\<And>x. inserted ?rows r x \<Longrightarrow> wp (k ()) ?Q x" for r k and u :: "'k world"
    using that assms(1)
    by (auto simp: SandboxStore_Create_def wp_simps wp_sql_stmt calm_def create_outcome_def inserted_def)
  have store: "wp (case marshalEnv s (cf_env cf) of Inl e \<Rightarrow> throw (Wrap m e) | Inr env \<Rightarrow> k env) ?Q u"
    if "calm w u" "\<And>env. wp (k env) ?Q u" for k m and u :: "'k world"
    using that keep by (cases "marshalEnv s (cf_env cf)") (simp_all add: wp_ret)
  show ?thesis
  proof (cases "cf_ttl cf < 0")
    case True
    show ?thesis
      unfolding create_from_def if_P [OF True]
      by (rule wp_calm_bind [OF calm_reads(5) calm.rel_refl], simp only: wp_ret keep)
  next
    case False
    show ?thesis
      unfolding create_from_def if_not_P [OF False] Let_def
      by (rule wp_calm_bind [OF calm_reads(5) calm.rel_refl],
          rule wp_calm_seqE [OF calm.io_mapE [OF calm_reads(3)]], assumption, erule keep,
          rule wp_calm_seqE [OF calm.io_mapE [OF calm_reads(4)]], assumption, erule keep,
          rule wp_calm_bind [OF calm_effects(1)], assumption,
          rule store, assumption, rule insert, assumption, rule after_insert)
         (simp_all add: assms(2) False)
  qed
qed

lemma wp_Create_outcome:
  fixes w :: "'k world"
  assumes "db_faults w = []"
  shows "wp (SandboxService_Create s req) (\<lambda>y u. create_outcome s req (sandboxes (db w)) y (sandboxes (db u))) w"
proof -
  let ?Q = "\<lambda>y u. create_outcome s req (sandboxes (db w)) y (sandboxes (db u))"
  have keep: "?Q (Inl e) u" if "calm w u" for e and u :: "'k world"
    using that by (simp add: create_outcome_def calm_def)
  have rest: "wp (create_from s req spec v cf) ?Q u" if "calm w u" "template_version req tv = Inr v" for spec v cf tv and u :: "'k world"
  proof -
    have "csr_TemplateVersion req > 0 \<longrightarrow> v = csr_TemplateVersion req"
      using that(2) by (auto simp: template_version_def split: if_splits)
    then show ?thesis
      using create_from_outcome [of u req v s spec cf] that(1) assms(1) by (simp add: calm_def)
  qed
  show ?thesis
  proof (cases "csr_Template req = [] \<or> \<not> hasTemplateSvc s")
    case True
    then show ?thesis
      using keep [OF calm.rel_refl] by (auto simp: SandboxService_Create_def wp_ret)
  next
    case False
    then show ?thesis
      unfolding SandboxService_Create_def
      by (simp, intro wp_calm_seqE [OF calm.io_mapE [OF calm_reads(1)] calm.rel_refl] wp_calm_seqE [OF calm.io_mapE [OF calm_reads(2)]])
         (auto simp: wp_ret keep intro: rest split: sum.split)
  qed
qed

text \<open>
  C17: every outcome of a creation, when no statement fails. Success adds one row, of a new id, that is
  active, belongs to the template of the request, has left the state creating and is neither lost nor deleted,
  expires as its TTL says and stores the hash of the very token that is returned; the background task is for that sandbox. An error leaves
  the table as it was, or adds a row that is marked failed, with two exceptions: a panic of the client, which
  leaves the new row in the state creating, and a token that cannot be decrypted.
\<close>

theorem Create_outcomes:
  assumes "db_faults w = []" "run_state (SandboxService_Create s req) w = (y, w')"
  shows "create_outcome s req (sandboxes (db w)) y (sandboxes (db w'))"
  using wp_Create_outcome [OF assms(1), of s req] assms(2) by (simp add: wp_def)

definition template_world :: "cluster world" where
  "template_world = (sample_world [] [])\<lparr>tokens := \<lambda>_. Some (replicate 40 (CHR ''a'')),
     db := empty_tables\<lparr>
       templates := [\<lparr>tpl_ID = ''t1'', tpl_Name = ''python'', tpl_DisplayName = [], tpl_Description = [], tpl_Tags = [], tpl_Author = [],
                      tpl_IsPublic = True, tpl_LatestVersion = 1, tpl_CreatedAt = 0, tpl_UpdatedAt = 0\<rparr>],
       template_versions := [\<lparr>tv_ID = ''v1'', tv_TemplateID = ''t1'', tv_Version = 1,
          tv_Spec = \<lparr>ts_Image = ''python:3'', ts_Command = [], ts_Args = [], ts_Resources = \<lparr>rs_CPU = ''1'', rs_Memory = ''1Gi''\<rparr>, ts_TTL = 60,
            ts_Env = [], ts_StartupScript = [], ts_StartupTimeout = 0, ts_Files = [], ts_ReadinessProbe = None, ts_Network = None,
            ts_Persistence = None\<rparr>, tv_Changelog = [], tv_CreatedBy = [], tv_CreatedAt = 0\<rparr>]\<rparr>\<rparr>"

definition sample_create :: CreateSandboxRequest where
  "sample_create = \<lparr>csr_Template = ''python'', csr_TemplateVersion = 0, csr_Overrides = None\<rparr>"

lemma sample_decrypt: "Decrypt sample_cipher (base64_encode (CHR ''a'' # CHR ''a'' # rev x)) (base64_encode ''aa'') = Inr x"
  by (simp only: Decrypt_def base64_roundtrip sum.case) (simp add: sample_cipher_def)

lemma sample_token: "hex_encode (replicate 32 (CHR ''a'')) \<noteq> []"
  by (simp add: hex_encode_def concat_eq_Nil_conv)

lemma sample_seal:
  "aead_NonceSize (tc_aead sample_cipher) = 2" "aead_Seal (tc_aead sample_cipher) n p = n @ rev p"
  by (simp_all add: sample_cipher_def)

lemma sample_create_runs:
  "wp (SandboxService_Create sample_service sample_create) (\<lambda>y v. \<exists>sb task. y = Inr (sb, task) \<and> sb_ID sb \<noteq> [] \<and> sb_AccessToken sb \<noteq> []) template_world"
  by (simp add: SandboxService_Create_def sample_create_def sample_service_def wp_simps wp_sql_stmt GetSpecForSandbox_def
        TemplateService_Get_def TemplateStore_Get_def TemplateStore_GetVersion_def find_version_def lookup_def template_version_def
        template_world_def empty_tables_def apply_overrides_def template_config_def Let_def sample_world_def create_from_def generateID_def
        GenerateToken_def Encrypt_def read_random_def sample_seal numeral_2_eq_2 new_record_def persistence_enabled_def
        SandboxStore_Create_def appendStatusHistoryDurable_def
        ignore_err_def AppendStatusHistory_def create_runtime_def pod_options_def CreatePod_def containerWithCommandAndArgs_def must_parse_def
        sample_client_def updateObservedStateDurable_def UpdateObservedState_def update_sandbox_def update_where_def row_defs
        recordToSandbox_def recordToSandboxMetadata_def sample_decrypt sample_token del: base64_encode.simps)

theorem Create_outcomes_witness:
  "\<exists>sb task w' r. run_state (SandboxService_Create sample_service sample_create) template_world = (Inr (sb, task), w') \<and>
     sandboxes (db w') = [r] \<and> created sample_service sample_create r sb task"
proof -
  obtain sb task w' where run: "run_state (SandboxService_Create sample_service sample_create) template_world = (Inr (sb, task), w')"
    using sample_create_runs by (auto simp: wp_def split: prod.splits)
  have "db_faults template_world = []" "sandboxes (db template_world) = []"
    by (simp_all add: template_world_def empty_tables_def)
  from Create_outcomes [OF this(1) run] this(2) run show ?thesis
    by (auto simp: create_outcome_def)
qed

text \<open>
  A CPU or memory quantity that does not parse makes the pod creation panic instead of fail: the
  creation ends with a panic, nothing is written to the database, and the row stays in the state creating.
\<close>

theorem unparsable_quantity_panics:
  assumes "\<not> rec_PersistenceEnabled r" "opt_CPU opts \<noteq> []" "quantity_err (k8sClient s) (opt_CPU opts) = Some e"
  shows "\<exists>m w'. run_state (create_runtime s r opts) w = (Inl (GoPanic m), w') \<and> db w' = db w"
proof -
  obtain m where m: "containerWithCommandAndArgs (k8sClient s) opts = Inl (GoPanic m)"
    using assms(2,3) by (simp add: containerWithCommandAndArgs_def must_parse_def Let_def)
  have "wp (create_runtime s r opts) (\<lambda>y v. (\<exists>m. y = Inl (GoPanic m)) \<and> db v = db w) w"
    using assms(1)
    by (auto simp: create_runtime_def create_failed_def CreatePod_def generateAccessToken_def randomString_def m wp_simps Let_def
        split: option.split)
  then show ?thesis
    by (auto simp: wp_def split: prod.splits)
qed

theorem unparsable_quantity_panics_witness:
  "\<exists>m w'. run_state (create_runtime (sample_service\<lparr>k8sClient := sample_client\<lparr>quantity_err := \<lambda>q. Some (Msg ''bad'')\<rparr>\<rparr>) (sample_row ''abc'')
      (pod_options sample_create (tv_Spec (hd (template_versions (db template_world)))) 1
         (template_config (tv_Spec (hd (template_versions (db template_world))))) ''abc'' ''token''))
      template_world = (Inl (GoPanic m), w') \<and> db w' = db template_world"
  by (rule unparsable_quantity_panics)
     (simp_all add: sample_row_def pod_options_def template_config_def template_world_def sample_service_def)

end
