(* ===== verification/Template_History.thy ===== *)
theory Template_History
  imports Template_Service
begin

text \<open>
  What holds of the templates over any sequence of the service's operations: the invariant of the
  tables and of the stored specs, the immutability of the history, rollback, and the round trip of
  export and import. The operations are those of \<open>Template_Service\<close>; a sequence is a list of
  requests.
\<close>

section \<open>The invariant of the stored specs\<close>

definition spec_good :: "(string \<Rightarrow> go_err option) \<Rightarrow> (string \<Rightarrow> string) \<Rightarrow> TemplateSpec \<Rightarrow> bool" where
  "spec_good qerr ulow s \<longleftrightarrow> spec_valid qerr ulow s \<and> spec_full s"

definition specs_ok :: "(string \<Rightarrow> go_err option) \<Rightarrow> (string \<Rightarrow> string) \<Rightarrow> tables \<Rightarrow> bool" where
  "specs_ok qerr ulow t \<longleftrightarrow> list_all (\<lambda>v. spec_good qerr ulow (tv_Spec v)) (template_versions t)"

definition template_inv :: "(string \<Rightarrow> go_err option) \<Rightarrow> (string \<Rightarrow> string) \<Rightarrow> tables \<Rightarrow> bool" where
  "template_inv qerr ulow t \<longleftrightarrow> templates_ok t \<and> specs_ok qerr ulow t"

interpretation spk: table_preorder "keeps (specs_ok qerr ulow)" for qerr ulow
  by unfold_locales (auto simp: keeps_def)

interpretation inv: table_preorder "keeps (template_inv qerr ulow)" for qerr ulow
  by unfold_locales (auto simp: keeps_def)

lemma io_inv:
  assumes "state_io_rel (db_rel (keeps templates_ok)) m" "state_io_rel (db_rel (keeps (specs_ok qerr ulow))) m"
  shows "state_io_rel (db_rel (keeps (template_inv qerr ulow))) m"
  using assms by (auto simp: state_io_rel_def db_rel_def keeps_def template_inv_def)

lemma spec_good_validated: "validateSpec qerr ulow s = Inr s' \<Longrightarrow> spec_good qerr ulow (ApplyDefaults s')"
  by (simp add: spec_good_def validateSpec_fix spec_valid_defaults spec_full_defaults)

lemma insert_version_specs:
  "insert_version v t = Some (u, t') \<Longrightarrow> spec_good qerr ulow (tv_Spec v) \<Longrightarrow> keeps (specs_ok qerr ulow) t t'"
  by (auto simp: insert_version_def keeps_def specs_ok_def split: if_splits)

lemma insert_template_specs: "insert_template v t = Some (u, t') \<Longrightarrow> keeps (specs_ok qerr ulow) t t'"
  by (auto simp: insert_template_def keeps_def specs_ok_def split: if_splits)

lemma update_template_specs: "keeps (specs_ok qerr ulow) t (update_template tid f t)"
  by (simp add: update_template_def keeps_def specs_ok_def)

lemma delete_template_specs: "keeps (specs_ok qerr ulow) t (snd (delete_template name t))"
  by (auto simp: delete_template_def keeps_def specs_ok_def Let_def list_all_iff set_delete_where)

lemma rollback_specs:
  assumes "insert_version v (update_template tid f t) = Some (u, t')" "find_version tid n t = Some x"
    "specs_ok qerr ulow t" "tv_Spec v = tv_Spec x"
  shows "specs_ok qerr ulow t'"
proof -
  have "x \<in> set (template_versions t)"
    using assms(2) by (auto simp: find_version_def find_Some_iff)
  then have "spec_good qerr ulow (tv_Spec v)"
    using assms(3,4) by (simp add: specs_ok_def list_all_iff)
  then show ?thesis
    using insert_version_specs [OF assms(1)] update_template_specs assms(3) unfolding keeps_def by blast
qed

lemma spk_Create:
  "spec_good qerr ulow (ApplyDefaults (ctr_Spec req)) \<Longrightarrow>
   state_io_rel (db_rel (keeps (specs_ok qerr ulow))) (TemplateStore_Create req)"
  unfolding TemplateStore_Create_def generateID_prefix_def Let_def
  by (intro spk.io_program io_sql_stmt; auto simp: spk.table_refl intro: insert_version_specs insert_template_specs)

lemma spk_Update:
  "spec_good qerr ulow (ApplyDefaults (utr_Spec req)) \<Longrightarrow>
   state_io_rel (db_rel (keeps (specs_ok qerr ulow))) (TemplateStore_Update name req)"
  unfolding TemplateStore_Update_def TemplateStore_Get_def TemplateStore_GetVersion_def generateID_prefix_def Let_def
  by (intro spk.io_program io_sql_stmt; auto simp: spk.table_refl update_template_specs intro: insert_version_specs)

lemma spk_Rollback: "state_io_rel (db_rel (keeps (specs_ok qerr ulow))) (TemplateStore_Rollback name target changelog)"
  unfolding TemplateStore_Rollback_def TemplateStore_GetVersion_def
  by (rule io_transaction)
     (auto simp: wp_seqE keeps_def wp_simps intro!: wp_Get wp_query_db split: option.split,
      auto simp: wp_simps wp_fresh Let_def intro!: wp_stmt_db, (erule (2) rollback_specs, simp)+)

lemma spk_Delete: "state_io_rel (db_rel (keeps (specs_ok qerr ulow))) (TemplateStore_Delete name)"
  unfolding TemplateStore_Delete_def
proof (intro spk.io_structure io_sql_stmt)
  fix t a t'
  assume "Some (delete_template name t) = Some (a, t')"
  then show "keeps (specs_ok qerr ulow) t t'"
    using delete_template_specs [of qerr ulow t name] by simp
qed (simp add: spk.table_refl)

lemma spk_reads:
  "state_io_rel (db_rel (keeps (specs_ok qerr ulow))) (TemplateStore_Get n)"
  "state_io_rel (db_rel (keeps (specs_ok qerr ulow))) (TemplateStore_Exists n)"
  unfolding TemplateStore_Get_def TemplateStore_GetVersion_def TemplateStore_Exists_def
  by (intro spk.io_program)+

section \<open>A sample template\<close>

definition sample_spec :: TemplateSpec where
  "sample_spec = \<lparr>ts_Image = ''python:3'', ts_Command = [], ts_Args = [], ts_Resources = \<lparr>rs_CPU = [], rs_Memory = []\<rparr>, ts_TTL = 0, ts_Env = [], ts_StartupScript = [], ts_StartupTimeout = 0,
     ts_Files = [], ts_ReadinessProbe = None, ts_Network = None, ts_Persistence = None\<rparr>"

definition yaml_none :: YamlCodec where
  "yaml_none = \<lparr>yaml_Marshal = (\<lambda>_. Inl (Msg ''no codec'')), yaml_MarshalList = (\<lambda>_. Inl (Msg ''no codec'')),
     yaml_Unmarshal = (\<lambda>_. Inl (Msg ''no codec'')), yaml_UnmarshalList = (\<lambda>_. Inl (Msg ''no codec''))\<rparr>"

definition sample_doc :: TemplateYAML where
  "sample_doc = \<lparr>y_APIVersion = ''liteboxd/v1'', y_Kind = ''SandboxTemplate'', y_Name = ''python'', y_DisplayName = ''Python'',
     y_Description = [], y_Tags = Some [''lang''], y_Spec = ApplyDefaults sample_spec\<rparr>"

definition sample_codec :: YamlCodec where
  "sample_codec = \<lparr>yaml_Marshal = (\<lambda>_. Inr ''doc''), yaml_MarshalList = (\<lambda>l. Inr (show_nat (length (yl_Items l)))),
     yaml_Unmarshal = (\<lambda>s. if s = ''doc'' then Inr sample_doc else Inl (Msg ''yaml'')),
     yaml_UnmarshalList = (\<lambda>_. Inl (Msg ''yaml''))\<rparr>"

definition sample_request :: CreateTemplateRequest where
  "sample_request = \<lparr>ctr_Name = ''python'', ctr_DisplayName = ''Python'', ctr_Description = [], ctr_Tags = [''lang''],
     ctr_IsPublic = None, ctr_Spec = sample_spec, ctr_AutoPrepull = False\<rparr>"

definition sample_update :: UpdateTemplateRequest where
  "sample_update = \<lparr>utr_DisplayName = [], utr_Description = ''new image'', utr_Tags = None, utr_IsPublic = None,
     utr_Spec = sample_spec\<lparr>ts_Image := ''python:4''\<rparr>, utr_Changelog = ''bump''\<rparr>"

section \<open>Sequences of operations\<close>

datatype template_op =
    OpCreate CreateTemplateRequest
  | OpUpdate string UpdateTemplateRequest
  | OpDelete string
  | OpRollback string int string
  | OpImport string string bool

fun template_step ::
  "(string \<Rightarrow> go_err option) \<Rightarrow> (string \<Rightarrow> string) \<Rightarrow> YamlCodec \<Rightarrow> template_op \<Rightarrow> ('k, unit) prog" where
  "template_step qerr ulow yc (OpCreate req) = do { _ \<leftarrow> TemplateService_Create qerr ulow req; ret () }"
| "template_step qerr ulow yc (OpUpdate name req) = do { _ \<leftarrow> TemplateService_Update qerr ulow name req; ret () }"
| "template_step qerr ulow yc (OpDelete name) = do { _ \<leftarrow> TemplateService_Delete name; ret () }"
| "template_step qerr ulow yc (OpRollback name target changelog) =
     do { _ \<leftarrow> TemplateService_Rollback name target changelog; ret () }"
| "template_step qerr ulow yc (OpImport content strategy autoPrepull) =
     do { _ \<leftarrow> ImportFromYAML qerr ulow yc True content strategy autoPrepull; ret () }"

fun is_delete :: "template_op \<Rightarrow> bool" where
  "is_delete (OpDelete name) = True"
| "is_delete op = False"

text \<open>
  A preorder that the two writes of the import respect is respected by the whole import; it is used
  for the invariant and for the history.
\<close>

locale import_preorder = table_preorder r for r +
  fixes qerr ulow
  assumes create_rel: "state_io_rel (db_rel r) (TemplateService_Create qerr ulow req :: ('k, template_view res) prog)"
    and update_rel: "state_io_rel (db_rel r) (TemplateService_Update qerr ulow name ureq :: ('k, template_view option res) prog)"
    and get_rel: "state_io_rel (db_rel r) (TemplateStore_Get n :: ('k, template_view option res) prog)"
begin

lemma import_result_rel: "state_io_rel (db_rel r) (import_result n ae :: ('k, ImportResult res) prog)"
  unfolding import_result_def TemplateService_Get_def Let_def by (intro io_program get_rel)

lemma process_rel: "state_io_rel (db_rel r) (processTemplate qerr ulow tpl strategy :: ('k, ImportResult res) prog)"
  unfolding processTemplate_def createOrUpdateTemplate_def TemplateService_Get_def Let_def
  by (intro io_program create_rel update_rel get_rel import_result_rel)

lemma import_loop_rel: "state_io_rel (db_rel r) (import_loop qerr ulow strategy ts :: ('k, ImportResult list res) prog)"
  by (induction ts) (auto intro!: io_program process_rel)

lemma import_rel: "state_io_rel (db_rel r) (ImportFromYAML qerr ulow yc hp content strategy ap :: ('k, ImportTemplatesResponse res) prog)"
  unfolding ImportFromYAML_def Let_def by (intro io_program import_loop_rel)

end

lemma inv_Create: "state_io_rel (db_rel (keeps (template_inv qerr ulow))) (TemplateService_Create qerr ulow req)"
  unfolding TemplateService_Create_def
  by (intro inv.io_program io_inv tok_store spk_Create spk_reads) (simp add: spec_good_validated)

lemma inv_Update: "state_io_rel (db_rel (keeps (template_inv qerr ulow))) (TemplateService_Update qerr ulow name req)"
  unfolding TemplateService_Update_def
  by (intro inv.io_program io_inv tok_store spk_Update) (simp add: spec_good_validated)

interpretation inv_import: import_preorder "keeps (template_inv qerr ulow)" qerr ulow for qerr ulow
  by unfold_locales (intro inv_Create inv_Update io_inv tok_store spk_reads)+

lemma inv_Delete: "state_io_rel (db_rel (keeps (template_inv qerr ulow))) (TemplateService_Delete name)"
  unfolding TemplateService_Delete_def by (intro io_inv tok_store spk_Delete)

lemma inv_Rollback:
  "state_io_rel (db_rel (keeps (template_inv qerr ulow))) (TemplateService_Rollback name target changelog)"
  unfolding TemplateService_Rollback_def by (intro inv.io_program io_inv tok_store spk_Rollback)

lemma inv_step: "state_io_rel (db_rel (keeps (template_inv qerr ulow))) (template_step qerr ulow yc op)"
  by (cases op)
     (auto intro!: inv.io_program inv_Create inv_Update inv_import.import_rel inv_Delete inv_Rollback)

interpretation grows_import: import_preorder history_grows qerr ulow for qerr ulow
proof unfold_locales
  show "state_io_rel (db_rel history_grows) (TemplateService_Create qerr ulow req)" for req
    unfolding TemplateService_Create_def TemplateStore_Exists_def by (intro grows.io_program grows_store)
  show "state_io_rel (db_rel history_grows) (TemplateService_Update qerr ulow name req)" for name req
    unfolding TemplateService_Update_def by (intro grows.io_program grows_store)
  show "state_io_rel (db_rel history_grows) (TemplateStore_Get n)" for n
    unfolding TemplateStore_Get_def TemplateStore_GetVersion_def by (intro grows.io_program)
qed

lemma grows_step: "\<not> is_delete op \<Longrightarrow> state_io_rel (db_rel history_grows) (template_step qerr ulow yc op)"
  by (cases op)
     (auto simp: TemplateService_Rollback_def intro!: grows.io_program grows_store(3)
       grows_import.import_rel grows_import.create_rel grows_import.update_rel)

lemma find_version_iff:
  assumes "templates_ok t"
  shows "find_version tid n t = Some v \<longleftrightarrow> v \<in> set (template_versions t) \<and> tv_TemplateID v = tid \<and> tv_Version v = n"
proof
  assume r: "v \<in> set (template_versions t) \<and> tv_TemplateID v = tid \<and> tv_Version v = n"
  then have "find_version tid n t \<noteq> None"
    by (auto simp: find_version_def find_None_iff)
  then obtain x where x: "find_version tid n t = Some x"
    by blast
  then have "x \<in> set (template_versions t)" "version_key x = version_key v"
    using r by (auto simp: find_version_def find_Some_iff version_key_def)
  moreover have "inj_on version_key (set (template_versions t))"
    using assms by (simp add: templates_ok_def distinct_map)
  ultimately show "find_version tid n t = Some v"
    using x r by (auto dest: inj_onD)
qed (auto simp: find_version_def find_Some_iff)

section \<open>Properties: the invariant and the history\<close>

text \<open>
  C10: over any sequence of creates, updates, deletes, rollbacks and imports, and whatever database
  statements fail, ids and names stay unique, the versions of a template are exactly
  \<open>1 .. latest\<close> without duplicates, every version belongs to a template, and every stored spec
  passes the validation unchanged and has its defaults filled in.
\<close>

theorem template_operations_keep_invariant:
  assumes "template_inv qerr ulow (db w)"
  shows "template_inv qerr ulow (db (snd (run_state (for_each (template_step qerr ulow yc) ops) w)))"
proof -
  have "state_io_rel (db_rel (keeps (template_inv qerr ulow))) (for_each (template_step qerr ulow yc) ops)"
    by (intro inv.io_for_each inv_step)
  then show ?thesis
    using assms by (auto dest: io_relD [of _ _ w] simp: db_rel_def keeps_def)
qed

theorem template_operations_keep_invariant_witness:
  "template_inv (\<lambda>_. None) (\<lambda>s. s) (db (snd (run_state
     (for_each (template_step (\<lambda>_. None) (\<lambda>s. s) yaml_none)
       [OpCreate sample_request, OpUpdate ''python'' sample_update, OpRollback ''python'' 1 []]) (sample_world [] []))))"
  by (rule template_operations_keep_invariant)
     (simp add: template_inv_def templates_ok_def specs_ok_def sample_world_def empty_tables_def)

text \<open>
  C11: a version that was once written is never changed and never disappears: after any sequence of
  creates, updates, rollbacks and imports, successful or not, its number still gives the same spec,
  changelog and creation time. Only the deletion of a template removes versions.
\<close>

theorem versions_are_immutable:
  assumes "template_inv qerr ulow (db w)" "find_version tid n (db w) = Some v" "list_all (\<lambda>op. \<not> is_delete op) ops"
  shows "find_version tid n (db (snd (run_state (for_each (template_step qerr ulow yc) ops) w))) = Some v"
proof -
  let ?p = "for_each (template_step qerr ulow yc) ops"
  have "state_io_rel (db_rel history_grows) ?p"
    using assms(3) by (intro grows.io_for_each grows_step) (simp add: list_all_iff)
  then have "history_grows (db w) (db (snd (run_state ?p w)))"
    using io_relD [of _ _ w] by (fastforce simp: db_rel_def)
  moreover have "state_io_rel (db_rel (keeps (template_inv qerr ulow))) ?p"
    by (intro inv.io_for_each inv_step)
  then have "templates_ok (db (snd (run_state ?p w)))"
    using assms(1) by (auto dest: io_relD [of _ _ w] simp: db_rel_def keeps_def template_inv_def)
  ultimately show ?thesis
    using assms(1,2) by (auto simp: find_version_iff template_inv_def history_grows_def)
qed

theorem versions_are_immutable_witness:
  "let w = snd (run_state (template_step (\<lambda>_. None) (\<lambda>s. s) yaml_none (OpCreate sample_request)) (sample_world [] []))
   in find_version ''tpl-0'' 1 (db (snd (run_state (for_each (template_step (\<lambda>_. None) (\<lambda>s. s) yaml_none)
        [OpUpdate ''python'' sample_update, OpRollback ''python'' 1 []]) w))) =
      Some \<lparr>tv_ID = ''ver-1'', tv_TemplateID = ''tpl-0'', tv_Version = 1, tv_Spec = ApplyDefaults sample_spec,
            tv_Changelog = ''Initial version'', tv_CreatedBy = [], tv_CreatedAt = 0\<rparr>"
  unfolding Let_def
proof (rule versions_are_immutable)
  show "template_inv (\<lambda>_. None) (\<lambda>s. s)
      (db (snd (run_state (template_step (\<lambda>_. None) (\<lambda>s. s) yaml_none (OpCreate sample_request)) (sample_world [] []))))"
    using io_relD [OF inv_step [of "\<lambda>_. None" "\<lambda>s. s" yaml_none "OpCreate sample_request"], of "sample_world [] []"]
    by (simp add: db_rel_def keeps_def template_inv_def templates_ok_def specs_ok_def sample_world_def empty_tables_def)
  show "find_version ''tpl-0'' 1
      (db (snd (run_state (template_step (\<lambda>_. None) (\<lambda>s. s) yaml_none (OpCreate sample_request)) (sample_world [] [])))) =
      Some \<lparr>tv_ID = ''ver-1'', tv_TemplateID = ''tpl-0'', tv_Version = 1, tv_Spec = ApplyDefaults sample_spec,
            tv_Changelog = ''Initial version'', tv_CreatedBy = [], tv_CreatedAt = 0\<rparr>"
    by code_simp
qed simp

section \<open>What the latest version is after a write\<close>

text \<open>The spec that \<open>Get\<close> and \<open>GetSpecForSandbox\<close> report for a name.\<close>

definition latest_spec :: "string \<Rightarrow> tables \<Rightarrow> TemplateSpec option" where
  "latest_spec name t = (case lookup tpl_Name name (templates t) of
      None \<Rightarrow> None
    | Some tpl \<Rightarrow> map_option tv_Spec (find_version (tpl_ID tpl) (tpl_LatestVersion tpl) t))"

lemma lookup_update_by_id:
  assumes "lookup tpl_Name name ts = Some tpl" "\<And>r. tpl_Name (f r) = tpl_Name r"
  shows "lookup tpl_Name name (update_where (\<lambda>r. tpl_ID r = tpl_ID tpl) f ts) = Some (f tpl)"
  using assms(1) by (induction ts) (auto simp: lookup_def update_where_def assms(2) split: if_splits)

lemma lookup_snoc_new:
  "name \<notin> tpl_Name ` set ts \<Longrightarrow> tpl_Name tpl = name \<Longrightarrow> lookup tpl_Name name (ts @ [tpl]) = Some tpl"
  unfolding lookup_def by (rule find_snoc) (auto simp: image_iff)

lemma latest_spec_bumped:
  assumes "lookup tpl_Name name (templates t) = Some tpl" "\<And>r. tpl_Name (f r) = tpl_Name r" "\<And>r. tpl_ID (f r) = tpl_ID r"
    and ins: "insert_version v (update_template (tpl_ID tpl) f t) = Some (u, t')"
    and v: "tv_TemplateID v = tpl_ID tpl" "tv_Version v = tpl_LatestVersion (f tpl)"
  shows "lookup tpl_Name name (templates t') = Some (f tpl)" "latest_spec name t' = Some (tv_Spec v)"
proof -
  have t': "templates t' = update_where (\<lambda>r. tpl_ID r = tpl_ID tpl) f (templates t)"
    using ins by (auto simp: insert_version_def update_template_def split: if_splits)
  show l: "lookup tpl_Name name (templates t') = Some (f tpl)"
    unfolding t' by (rule lookup_update_by_id [OF assms(1,2)])
  show "latest_spec name t' = Some (tv_Spec v)"
    using find_version_new [OF ins] by (simp add: latest_spec_def l assms(3) v)
qed

lemma latest_spec_created:
  assumes "insert_template tpl t = Some (u, t1)" "insert_version v t1 = Some (u', t2)"
    and "tv_TemplateID v = tpl_ID tpl" "tv_Version v = tpl_LatestVersion tpl"
  shows "lookup tpl_Name (tpl_Name tpl) (templates t2) = Some tpl" "latest_spec (tpl_Name tpl) t2 = Some (tv_Spec v)"
proof -
  have "templates t2 = templates t @ [tpl]" "tpl_Name tpl \<notin> tpl_Name ` set (templates t)"
    using assms(1,2) by (auto simp: insert_template_def insert_version_def split: if_splits)
  then show l: "lookup tpl_Name (tpl_Name tpl) (templates t2) = Some tpl"
    by (simp add: lookup_snoc_new)
  show "latest_spec (tpl_Name tpl) t2 = Some (tv_Spec v)"
    using find_version_new [OF assms(2)] by (simp add: latest_spec_def l assms(3,4))
qed

text \<open>The outcome of each write, whatever statements fail.\<close>

definition created_as :: "CreateTemplateRequest \<Rightarrow> TemplateSpec \<Rightarrow> tables \<Rightarrow> template_view res \<Rightarrow> tables \<Rightarrow> bool" where
  "created_as req spec t r t' \<longleftrightarrow>
     (case r of
        Inl e \<Rightarrow> t' = t
      | Inr (tpl, sp) \<Rightarrow>
          lookup tpl_Name (ctr_Name req) (templates t) = None \<and>
          lookup tpl_Name (ctr_Name req) (templates t') = Some tpl \<and> tpl_LatestVersion tpl = 1 \<and>
          sp = Some (ApplyDefaults spec) \<and> latest_spec (ctr_Name req) t' = Some (ApplyDefaults spec))"

lemma insert_template_new: "insert_template tpl t = Some (u, t') \<Longrightarrow> lookup tpl_Name (tpl_Name tpl) (templates t) = None"
  by (auto simp: insert_template_def lookup_def find_None_iff image_iff split: if_splits)

lemma created_asI:
  assumes "insert_template tpl t = Some (u, t1)" "insert_version v t1 = Some (u', t2)"
    and "tv_TemplateID v = tpl_ID tpl" "tv_Version v = 1" "tpl_LatestVersion tpl = 1" "tpl_Name tpl = ctr_Name req"
    and "tv_Spec v = ApplyDefaults spec"
  shows "created_as req spec t (Inr (tpl, Some (ApplyDefaults spec))) t2"
  using latest_spec_created [OF assms(1,2)] insert_template_new [OF assms(1)] assms(3-)
  by (simp add: created_as_def)

lemma wp_Create_store:
  "wp (TemplateStore_Create req) (\<lambda>r v. created_as req (ctr_Spec req) (db w) r (db v)) w"
  unfolding TemplateStore_Create_def
  by (rule wp_transaction; simp add: wp_simps wp_fresh Let_def)
     (auto simp: wp_simps created_as_def [of _ _ _ "Inl _"] intro!: wp_stmt_db, erule (1) created_asI, simp_all)

definition updated_as ::
  "string \<Rightarrow> UpdateTemplateRequest \<Rightarrow> TemplateSpec \<Rightarrow> tables \<Rightarrow> template_view option res \<Rightarrow> tables \<Rightarrow> bool" where
  "updated_as name req spec t r t' \<longleftrightarrow>
     (case r of
        Inl e \<Rightarrow> t' = t
      | Inr None \<Rightarrow> t' = t \<and> lookup tpl_Name name (templates t) = None
      | Inr (Some (tpl', sp)) \<Rightarrow>
          (\<exists>tpl. lookup tpl_Name name (templates t) = Some tpl \<and> tpl_LatestVersion tpl' = tpl_LatestVersion tpl + 1) \<and>
          lookup tpl_Name name (templates t') = Some tpl' \<and>
          sp = Some (ApplyDefaults spec) \<and> latest_spec name t' = Some (ApplyDefaults spec))"

lemma updated_asI:
  assumes "insert_version v (update_template (tpl_ID tpl) (set_columns new) t) = Some (u, t')"
    and "lookup tpl_Name name (templates t) = Some tpl" "new = update_template_row req (tpl_LatestVersion tpl + 1) now tpl"
    and "tv_TemplateID v = tpl_ID tpl" "tv_Version v = tpl_LatestVersion tpl + 1" "tv_Spec v = ApplyDefaults spec"
  shows "updated_as name req spec t (Inr (Some (new, Some (ApplyDefaults spec)))) t'"
proof -
  have "set_columns new tpl = new"
    by (simp add: assms(3) set_columns_def update_template_row_def Let_def split: option.split)
  then show ?thesis
    using latest_spec_bumped [OF assms(2) _ _ assms(1)] assms(2-)
    by (simp add: updated_as_def set_columns_def)
qed

lemma wp_Update_store:
  "wp (TemplateStore_Update name req) (\<lambda>r v. updated_as name req (utr_Spec req) (db w) r (db v)) w"
  unfolding TemplateStore_Update_def
  by (rule wp_transaction; simp add: wp_simps wp_fresh Let_def, (rule wp_Get)?)
     (auto simp: wp_simps wp_fresh updated_as_def [of _ _ _ _ "Inl _"] updated_as_def [of _ _ _ _ "Inr None"]
       intro!: wp_stmt_db, erule (1) updated_asI, simp_all)

definition rolled_back_as :: "string \<Rightarrow> int \<Rightarrow> tables \<Rightarrow> RollbackResponse res \<Rightarrow> tables \<Rightarrow> bool" where
  "rolled_back_as name target t r t' \<longleftrightarrow>
     (case r of
        Inl e \<Rightarrow> t' = t
      | Inr resp \<Rightarrow>
          \<exists>tpl v. lookup tpl_Name name (templates t) = Some tpl \<and> find_version (tpl_ID tpl) target t = Some v \<and>
            rb_RolledBackFrom resp = tpl_LatestVersion tpl \<and> rb_RolledBackTo resp = target \<and>
            rb_LatestVersion resp = tpl_LatestVersion tpl + 1 \<and>
            lookup tpl_Name name (templates t') = Some (tpl\<lparr>tpl_LatestVersion := rb_LatestVersion resp, tpl_UpdatedAt := rb_UpdatedAt resp\<rparr>) \<and>
            latest_spec name t' = Some (tv_Spec v))"

lemma rolled_back_asI:
  assumes "insert_version v (update_template (tpl_ID tpl) (set_latest n now) t) = Some (u, t')"
    and "lookup tpl_Name name (templates t) = Some tpl" "find_version (tpl_ID tpl) target t = Some x"
    and "tv_TemplateID v = tpl_ID tpl" "tv_Version v = n" "tv_Spec v = tv_Spec x"
    and "rb_RolledBackFrom resp = tpl_LatestVersion tpl" "rb_RolledBackTo resp = target"
      "n = tpl_LatestVersion tpl + 1" "rb_LatestVersion resp = n" "rb_UpdatedAt resp = now"
  shows "rolled_back_as name target t (Inr resp) t'"
  using latest_spec_bumped [OF assms(2) _ _ assms(1)] assms(2-)
  by (simp add: rolled_back_as_def set_latest_def)

lemma wp_Rollback_store:
  "wp (TemplateStore_Rollback name target changelog) (\<lambda>r v. rolled_back_as name target (db w) r (db v)) w"
  unfolding TemplateStore_Rollback_def TemplateStore_GetVersion_def
  by (rule wp_transaction; (simp only: wp_seqE)?, (rule wp_Get)?)
     (auto simp: wp_simps rolled_back_as_def [of _ _ _ "Inl _"] intro!: wp_query_db split: option.split,
      auto simp: wp_simps wp_fresh Let_def rolled_back_as_def [of _ _ _ "Inl _"] intro!: wp_stmt_db,
      (erule (2) rolled_back_asI; simp)+)

lemma run_wp: "run_state m w = (r, w') \<Longrightarrow> wp m Q w \<Longrightarrow> Q r w'"
  by (simp add: wp_def)

lemma wp_triv: "(\<And>a w'. Q a w') \<Longrightarrow> wp m Q w"
  by (simp add: wp_alt)

lemma wp_Create_service:
  "wp (TemplateService_Create qerr ulow req) (\<lambda>r v. case validateSpec qerr ulow (ctr_Spec req) of
           Inl e \<Rightarrow> (\<exists>e'. r = Inl e') \<and> v = w
         | Inr spec \<Rightarrow> created_as req spec (db w) r (db v)) w"
proof (cases "validateName (ctr_Name req) = None \<and> (\<exists>spec. validateSpec qerr ulow (ctr_Spec req) = Inr spec)")
  case True
  then obtain spec where spec: "validateSpec qerr ulow (ctr_Spec req) = Inr spec"
    by blast
  have store: "wp (TemplateStore_Create (req\<lparr>ctr_Spec := spec\<rparr>)) (\<lambda>r v. created_as req spec (db w) r (db v)) (w\<lparr>db_faults := fs\<rparr>)" for fs
    using wp_Create_store [of "req\<lparr>ctr_Spec := spec\<rparr>" "w\<lparr>db_faults := fs\<rparr>"]
    by (rule wp_mono) (auto simp: created_as_def split: sum.splits)
  show ?thesis
    unfolding TemplateService_Create_def TemplateStore_Exists_def
    using True spec
    by (auto simp: wp_simps created_as_def [of _ _ _ "Inl _"] intro!: wp_query_db store)
next
  case False
  then show ?thesis
    by (auto simp: TemplateService_Create_def wp_simps created_as_def split: option.split sum.split)
qed

section \<open>Properties: create, update and rollback\<close>

text \<open>
  C12: \<open>Create\<close> is all or nothing. On an error the tables are what they were; on success the name
  was free, the new template has version 1, and what \<open>Get\<close> now reports for the name is the
  spec of the request, validated, with the defaults filled in. Whatever statements fail, and whether
  or not the commit does.
\<close>

theorem Create_outcome:
  assumes "run_state (TemplateService_Create qerr ulow req) w = (r, w')"
  shows "case validateSpec qerr ulow (ctr_Spec req) of
           Inl e \<Rightarrow> (\<exists>e'. r = Inl e') \<and> w' = w
         | Inr spec \<Rightarrow> created_as req spec (db w) r (db w')"
  by (rule run_wp [OF assms wp_Create_service])

theorem Create_outcome_witness:
  "\<exists>view w'. run_state (TemplateService_Create (\<lambda>_. None) (\<lambda>s. s) sample_request) (sample_world [] []) = (Inr view, w') \<and>
     created_as sample_request sample_spec (db (sample_world [] [])) (Inr view) (db w')"
proof -
  have "\<not> isl (fst (run_state (TemplateService_Create (\<lambda>_. None) (\<lambda>s. s) sample_request) (sample_world [] [])))"
    by code_simp
  then obtain view w' where run: "run_state (TemplateService_Create (\<lambda>_. None) (\<lambda>s. s) sample_request) (sample_world [] []) = (Inr view, w')"
    by (metis isl_def old.sum.exhaust prod.collapse sum.disc(1))
  have "validateSpec (\<lambda>_. None) (\<lambda>s. s) (ctr_Spec sample_request) = Inr sample_spec"
    by (simp add: sample_request_def sample_spec_def validateSpec_def validatePersistenceSpec_def validateNetworkSpec_def)
  then show ?thesis
    using Create_outcome [OF run] run by auto
qed

text \<open>
  C13: \<open>Rollback\<close> never rewinds: it writes a new version, one above the latest, whose spec is the spec
  of the target version, and the name now reports that spec. When it fails, for a missing template or
  version or at any statement, nothing has changed.
\<close>

theorem Rollback_outcome:
  assumes "run_state (TemplateService_Rollback name target changelog) w = (r, w')"
  shows "rolled_back_as name target (db w) r (db w')"
proof -
  have "wp (TemplateService_Rollback name target changelog) (\<lambda>r v. rolled_back_as name target (db w) r (db v)) w"
    unfolding TemplateService_Rollback_def
    using wp_Rollback_store [of name target changelog w] by (simp add: wp_simps rolled_back_as_def [of _ _ _ "Inl _"])
  then show ?thesis
    by (simp add: wp_def assms)
qed

theorem Rollback_outcome_witness:
  "let w = snd (run_state (for_each (template_step (\<lambda>_. None) (\<lambda>s. s) yaml_none)
                 [OpCreate sample_request, OpUpdate ''python'' sample_update]) (sample_world [] []))
   in \<exists>resp w'. run_state (TemplateService_Rollback ''python'' 1 []) w = (Inr resp, w') \<and>
        rolled_back_as ''python'' 1 (db w) (Inr resp) (db w')"
  unfolding Let_def
proof -
  let ?w = "snd (run_state (for_each (template_step (\<lambda>_. None) (\<lambda>s. s) yaml_none)
                 [OpCreate sample_request, OpUpdate ''python'' sample_update]) (sample_world [] []))"
  have "\<not> isl (fst (run_state (TemplateService_Rollback ''python'' 1 []) ?w))"
    by code_simp
  then obtain resp w' where "run_state (TemplateService_Rollback ''python'' 1 []) ?w = (Inr resp, w')"
    by (metis isl_def old.sum.exhaust prod.collapse sum.disc(1))
  then show "\<exists>resp w'. run_state (TemplateService_Rollback ''python'' 1 []) ?w = (Inr resp, w') \<and>
        rolled_back_as ''python'' 1 (db ?w) (Inr resp) (db w')"
    using Rollback_outcome by blast
qed

section \<open>Properties: import\<close>

abbreviation import_actions :: "string set" where
  "import_actions \<equiv> {''created'', ''updated'', ''skipped'', ''failed''}"

lemma import_result_action:
  "fst ae \<in> import_actions \<Longrightarrow>
   wp (import_result name ae) (\<lambda>r _. \<forall>x. r = Inr x \<longrightarrow> ir_Name x = name \<and> ir_Action x = fst ae) w"
proof (cases "fst ae = ''created'' \<or> fst ae = ''updated''")
  case True
  show ?thesis
    unfolding import_result_def Let_def if_P [OF True] wp_bind
    by (rule wp_triv) (auto simp: wp_ret split: sum.split option.split)
qed (simp add: import_result_def Let_def wp_ret)

lemma createOrUpdate_action:
  "wp (createOrUpdateTemplate qerr ulow tpl upd) (\<lambda>ae _. fst ae \<in> import_actions) w"
  by (auto simp: createOrUpdateTemplate_def wp_simps intro!: wp_triv split: sum.split)

lemma write_and_report:
  "wp (do { ae \<leftarrow> createOrUpdateTemplate qerr ulow tpl upd; import_result name ae })
     (\<lambda>r _. \<forall>x. r = Inr x \<longrightarrow> ir_Name x = name \<and> ir_Action x \<in> import_actions) w"
  unfolding wp_bind using createOrUpdate_action
  by (rule wp_mono) (rule wp_mono, erule import_result_action, simp)

lemma processTemplate_action:
  "wp (processTemplate qerr ulow tpl strategy)
     (\<lambda>r _. \<forall>x. r = Inr x \<longrightarrow> ir_Name x = y_Name tpl \<and> ir_Action x \<in> import_actions) w"
proof -
  have bad: "wp (import_result (y_Name tpl) (''failed'', e))
      (\<lambda>r _. \<forall>x. r = Inr x \<longrightarrow> ir_Name x = y_Name tpl \<and> ir_Action x \<in> import_actions) w" for e w
    by (rule wp_mono [OF import_result_action]) auto
  show ?thesis
  proof (cases "y_Name tpl = []")
    case False
    show ?thesis
      unfolding processTemplate_def Let_def if_not_P [OF False] wp_bind [of "TemplateService_Get _"]
      by (rule wp_triv) (auto simp: wp_ret write_and_report [simplified] bad [simplified] split: sum.split)
  qed (simp add: processTemplate_def wp_ret)
qed

lemma import_loop_actions:
  "wp (import_loop qerr ulow strategy ts)
     (\<lambda>r _. \<forall>rs. r = Inr rs \<longrightarrow> map ir_Name rs = map y_Name ts \<and> ir_Action ` set rs \<subseteq> import_actions) w"
proof (induction ts arbitrary: w)
  case (Cons t ts)
  have "wp (seqE (import_loop qerr ulow strategy ts) (\<lambda>rs. retE (x # rs)))
     (\<lambda>r _. \<forall>rs. r = Inr rs \<longrightarrow> map ir_Name rs = map y_Name (t # ts) \<and> ir_Action ` set rs \<subseteq> import_actions) w"
    if "ir_Name x = y_Name t \<and> ir_Action x \<in> import_actions" for x and w :: "'a world"
    unfolding wp_seqE wp_ret by (rule wp_mono [OF Cons.IH]) (use that in \<open>auto split: sum.split\<close>)
  then show ?case
    unfolding import_loop.simps wp_seqE [of "processTemplate _ _ _ _"]
    by (intro wp_mono [OF processTemplate_action]) (simp split: sum.split)
qed (simp add: wp_simps)

lemma count_actions:
  "ir_Action ` set rs \<subseteq> import_actions \<Longrightarrow>
   count_action ''created'' rs + count_action ''updated'' rs + count_action ''skipped'' rs + count_action ''failed'' rs
     = int (length rs)"
  unfolding count_action_def by (induction rs) auto

text \<open>
  The report of an import accounts for every document: one result per template in the order of the
  file, and the four counters add up to the total.
\<close>

theorem import_report_adds_up:
  assumes "run_state (ImportFromYAML qerr ulow yc hasPrepull content strategy autoPrepull) w = (Inr resp, w')"
  shows "\<exists>ts. parse_import yc content = Inr ts \<and> map ir_Name (itr_Results resp) = map y_Name ts \<and>
           itr_Total resp = int (length ts) \<and>
           itr_Created resp + itr_Updated resp + itr_Skipped resp + itr_Failed resp = itr_Total resp"
proof (cases "parse_import yc content")
  case (Inl e)
  then show ?thesis
    using assms by (simp add: ImportFromYAML_def)
next
  case (Inr ts)
  have total: "count_action ''created'' rs + count_action ''updated'' rs + count_action ''skipped'' rs + count_action ''failed'' rs
      = int (length ts)" if "map ir_Name rs = map y_Name ts" "ir_Action ` set rs \<subseteq> import_actions" for rs
    using count_actions [OF that(2)] arg_cong [OF that(1), of length] by simp
  have "wp (ImportFromYAML qerr ulow yc hasPrepull content strategy autoPrepull) (\<lambda>r _. \<forall>resp. r = Inr resp \<longrightarrow>
           map ir_Name (itr_Results resp) = map y_Name ts \<and> itr_Total resp = int (length ts) \<and>
           itr_Created resp + itr_Updated resp + itr_Skipped resp + itr_Failed resp = itr_Total resp) w"
    unfolding ImportFromYAML_def Inr sum.case wp_seqE Let_def wp_ret
    by (rule wp_mono [OF import_loop_actions]) (auto simp: total simp del: insert_iff split: sum.split)
  from run_wp [OF assms this] show ?thesis
    using Inr by blast
qed

theorem import_report_adds_up_witness:
  "\<exists>resp w'. run_state (ImportFromYAML (\<lambda>_. None) (\<lambda>s. s) sample_codec False ''doc'' ''create-or-update'' False) (sample_world [] []) = (Inr resp, w') \<and>
     itr_Created resp + itr_Updated resp + itr_Skipped resp + itr_Failed resp = itr_Total resp"
proof -
  have "\<not> isl (fst (run_state (ImportFromYAML (\<lambda>_. None) (\<lambda>s. s) sample_codec False ''doc'' ''create-or-update'' False) (sample_world [] [])))"
    by code_simp
  then obtain resp w' where run: "run_state (ImportFromYAML (\<lambda>_. None) (\<lambda>s. s) sample_codec False ''doc'' ''create-or-update'' False)
      (sample_world [] []) = (Inr resp, w')"
    by (metis isl_def old.sum.exhaust prod.collapse sum.disc(1))
  then show ?thesis
    using import_report_adds_up [OF run] by blast
qed

text \<open>What each strategy may do to the templates that exist.\<close>

definition rows_kept :: "tables \<Rightarrow> tables \<Rightarrow> bool" where
  "rows_kept t t' \<longleftrightarrow> set (templates t) \<subseteq> set (templates t') \<and> history_grows t t'"

definition names_kept :: "tables \<Rightarrow> tables \<Rightarrow> bool" where
  "names_kept t t' \<longleftrightarrow> map tpl_Name (templates t') = map tpl_Name (templates t) \<and> history_grows t t'"

interpretation rows: table_preorder rows_kept
  by unfold_locales (auto simp: rows_kept_def history_grows_def)

interpretation names: table_preorder names_kept
  by unfold_locales (auto simp: names_kept_def history_grows_def)

lemma rows_Create: "state_io_rel (db_rel rows_kept) (TemplateService_Create qerr ulow req)"
proof -
  have "rows_kept t t'" if "insert_version v t = Some (u, t')" for v t u t'
    using that by (auto simp: rows_kept_def insert_version_def history_grows_def split: if_splits)
  moreover have "rows_kept t t'" if "insert_template v t = Some (u, t')" for v t u t'
    using that by (auto simp: rows_kept_def insert_template_def history_grows_def split: if_splits)
  ultimately show ?thesis
    unfolding TemplateService_Create_def TemplateStore_Create_def TemplateStore_Exists_def generateID_prefix_def Let_def
    by (intro rows.io_program io_sql_stmt; auto simp: rows.table_refl)
qed

lemma names_Update: "state_io_rel (db_rel names_kept) (TemplateService_Update qerr ulow name req)"
proof -
  have "names_kept t t'" if "insert_version v t = Some (u, t')" for v t u t'
    using that by (auto simp: names_kept_def insert_version_def history_grows_def split: if_splits)
  moreover have "names_kept t (update_template i (set_columns new) t)" for i new t
    by (auto simp: names_kept_def update_template_def update_where_def set_columns_def history_grows_def)
  ultimately show ?thesis
    unfolding TemplateService_Update_def TemplateStore_Update_def TemplateStore_Get_def TemplateStore_GetVersion_def
      generateID_prefix_def Let_def
    by (intro names.io_program io_sql_stmt; auto simp: names.table_refl)
qed

text \<open>An import that only creates, or only updates, is a sequence of those writes.\<close>

lemma create_only_rel: "state_io_rel (db_rel rows_kept) (import_loop qerr ulow ''create-only'' ts)"
  by (induction ts)
     (auto simp: processTemplate_def Let_def createOrUpdateTemplate_def import_result_def TemplateService_Get_def
        TemplateStore_Get_def TemplateStore_GetVersion_def intro!: rows.io_program rows_Create)

lemma update_only_rel: "state_io_rel (db_rel names_kept) (import_loop qerr ulow ''update-only'' ts)"
  by (induction ts)
     (auto simp: processTemplate_def Let_def createOrUpdateTemplate_def import_result_def TemplateService_Get_def
        TemplateStore_Get_def TemplateStore_GetVersion_def intro!: names.io_program names_Update)

text \<open>
  The import strategies keep their promises. \<open>create-only\<close> leaves every existing template row and
  version as it is; \<open>update-only\<close> neither adds nor removes a template and keeps all versions.
\<close>

theorem import_strategies:
  "rows_kept (db w) (db (snd (run_state (ImportFromYAML qerr ulow yc hp content ''create-only'' ap) w))) \<and>
   names_kept (db w) (db (snd (run_state (ImportFromYAML qerr ulow yc hp content ''update-only'' ap) w)))"
proof (rule conjI)
  have "state_io_rel (db_rel rows_kept) (ImportFromYAML qerr ulow yc hp content ''create-only'' ap)"
    unfolding ImportFromYAML_def Let_def by (intro rows.io_program create_only_rel)
  then show "rows_kept (db w) (db (snd (run_state (ImportFromYAML qerr ulow yc hp content ''create-only'' ap) w)))"
    using io_relD [of _ _ w] by (fastforce simp: db_rel_def)
  have "state_io_rel (db_rel names_kept) (ImportFromYAML qerr ulow yc hp content ''update-only'' ap)"
    unfolding ImportFromYAML_def Let_def by (intro names.io_program update_only_rel)
  then show "names_kept (db w) (db (snd (run_state (ImportFromYAML qerr ulow yc hp content ''update-only'' ap) w)))"
    using io_relD [of _ _ w] by (fastforce simp: db_rel_def)
qed

section \<open>Properties: export\<close>

text \<open>The spec that \<open>ExportToYAML\<close> writes for a name and a version, 0 for the latest.\<close>

definition exported_spec :: "string \<Rightarrow> int \<Rightarrow> tables \<Rightarrow> TemplateSpec option" where
  "exported_spec name version t =
     (if version > 0 then Option.bind (lookup tpl_Name name (templates t))
        (\<lambda>tpl. map_option tv_Spec (find_version (tpl_ID tpl) version t))
      else latest_spec name t)"

text \<open>What is relied on of the YAML library for a document: it reads back what it wrote.\<close>

definition yaml_reads_back :: "YamlCodec \<Rightarrow> TemplateYAML \<Rightarrow> bool" where
  "yaml_reads_back yc y \<longleftrightarrow>
     (case yaml_Marshal yc y of
        Inl _ \<Rightarrow> True
      | Inr s \<Rightarrow>
          (case yaml_Unmarshal yc s of
             Inl _ \<Rightarrow> False
           | Inr y' \<Rightarrow> y_Kind y' = y_Kind y \<and> y_Name y' = y_Name y \<and> y_Spec y' = y_Spec y) \<and>
          (case yaml_UnmarshalList yc s of Inl _ \<Rightarrow> True | Inr l \<Rightarrow> yl_Kind l = y_Kind y))"

lemma export_outcome:
  "wp (ExportToYAML yc name version) (\<lambda>r v. db v = db w \<and> (\<forall>doc. r = Inr doc \<longrightarrow>
     (\<exists>tpl spec. lookup tpl_Name name (templates (db w)) = Some tpl \<and> exported_spec name version (db w) = Some spec \<and>
        yaml_Marshal yc (template_yaml tpl spec) = Inr doc))) w"
  unfolding ExportToYAML_def TemplateService_Get_def TemplateService_GetVersion_def TemplateStore_GetVersionByName_def
    TemplateStore_GetVersion_def
  by (simp add: wp_seqE, rule wp_Get)
     (auto simp: wp_simps exported_spec_def latest_spec_def intro!: wp_Get wp_query_db split: option.split sum.split)

lemma parse_single:
  assumes "yaml_reads_back yc y" "yaml_Marshal yc y = Inr doc" "y_Kind y = ''SandboxTemplate''"
  shows "\<exists>y'. parse_import yc doc = Inr [y'] \<and> y_Name y' = y_Name y \<and> y_Spec y' = y_Spec y"
  using assms by (auto simp: yaml_reads_back_def parse_import_def Let_def split: sum.splits)

lemma spec_good_stored:
  assumes "template_inv qerr ulow t" "exported_spec name version t = Some spec"
  shows "spec_good qerr ulow spec"
proof -
  obtain v where "v \<in> set (template_versions t)" "tv_Spec v = spec"
    using assms by (auto simp: exported_spec_def latest_spec_def template_inv_def find_version_iff bind_eq_Some_conv
        split: if_splits option.splits)
  then show ?thesis
    using assms(1) by (auto simp: template_inv_def specs_ok_def list_all_iff)
qed

text \<open>Importing a document whose spec is in normal form stores exactly that spec.\<close>

lemma import_stores_spec:
  assumes good: "spec_good qerr ulow (y_Spec y)"
  shows "wp (createOrUpdateTemplate qerr ulow y (lookup tpl_Name (y_Name y) (templates (db w)) \<noteq> None))
     (\<lambda>ae v. fst ae = ''failed'' \<or> latest_spec (y_Name y) (db v) = Some (y_Spec y)) w"
proof -
  have val: "validateSpec qerr ulow (y_Spec y) = Inr (y_Spec y)" and full: "ApplyDefaults (y_Spec y) = y_Spec y"
    using good by (simp_all add: spec_good_def spec_valid_def defaults_of_full)
  show ?thesis
  proof (cases "lookup tpl_Name (y_Name y) (templates (db w))")
    case None
    then show ?thesis
      unfolding createOrUpdateTemplate_def
      by (simp add: wp_bind wp_ret) (rule wp_mono [OF wp_Create_service], auto simp: val full created_as_def split: sum.splits)
  next
    case (Some tpl)
    have upd: "wp (TemplateService_Update qerr ulow name req) (\<lambda>r v. updated_as name req (y_Spec y) (db w) r (db v)) w"
      if "utr_Spec req = y_Spec y" for name req
    proof -
      have "req\<lparr>utr_Spec := y_Spec y\<rparr> = req"
        using that by (cases req) simp
      then have "TemplateService_Update qerr ulow name req = (TemplateStore_Update name req :: ('a, template_view option res) prog)"
        by (simp only: TemplateService_Update_def that val sum.case)
      then show ?thesis
        using wp_Update_store [of name req w] that by simp
    qed
    show ?thesis
      unfolding createOrUpdateTemplate_def using Some
      by (simp add: wp_bind wp_ret) (rule wp_mono [OF upd], auto simp: full updated_as_def split: sum.splits option.splits)
  qed
qed

lemma import_exported:
  assumes good: "spec_good qerr ulow (y_Spec y)" and name: "y_Name y \<noteq> []"
    and parse: "parse_import yc doc = Inr [y]"
  shows "wp (ImportFromYAML qerr ulow yc hp doc ''create-or-update'' ap)
     (\<lambda>r v. \<forall>resp. r = Inr resp \<longrightarrow> itr_Failed resp = 0 \<longrightarrow> latest_spec (y_Name y) (db v) = Some (y_Spec y)) w"
proof -
  have report: "wp (import_result (y_Name y) ae) (\<lambda>r v. db v = db u \<and> (fst ae = ''failed'' \<longrightarrow> (\<exists>x. r = Inr x \<and> ir_Action x = ''failed''))) u" for ae u
    unfolding import_result_def TemplateService_Get_def Let_def
    by (auto simp: wp_bind wp_ret intro!: wp_Get)
  have process: "wp (processTemplate qerr ulow y ''create-or-update'')
      (\<lambda>r v. (\<exists>x. r = Inr x \<and> ir_Action x = ''failed'') \<or> latest_spec (y_Name y) (db v) = Some (y_Spec y)) w"
    unfolding processTemplate_def Let_def if_not_P [OF name] wp_bind TemplateService_Get_def
  proof (rule wp_Get, simp_all add: wp_ret wp_bind)
    fix fs
    show "wp (createOrUpdateTemplate qerr ulow y False)
       (\<lambda>a. wp (import_result (y_Name y) a) (\<lambda>r v. (\<exists>x. r = Inr x \<and> ir_Action x = ''failed'') \<or> latest_spec (y_Name y) (db v) = Some (y_Spec y))) (w\<lparr>db_faults := fs\<rparr>)"
      if "lookup tpl_Name (y_Name y) (templates (db w)) = None"
      using import_stores_spec [OF good, of "w\<lparr>db_faults := fs\<rparr>"] that
      by simp (erule wp_mono, rule wp_mono [OF report], auto)
    show "wp (createOrUpdateTemplate qerr ulow y True)
       (\<lambda>a. wp (import_result (y_Name y) a) (\<lambda>r v. (\<exists>x. r = Inr x \<and> ir_Action x = ''failed'') \<or> latest_spec (y_Name y) (db v) = Some (y_Spec y))) (w\<lparr>db_faults := fs\<rparr>)"
      if "lookup tpl_Name (y_Name y) (templates (db w)) = Some tpl" for tpl
      using import_stores_spec [OF good, of "w\<lparr>db_faults := fs\<rparr>"] that
      by simp (erule wp_mono, rule wp_mono [OF report], auto)
  qed
  show ?thesis
    unfolding ImportFromYAML_def parse sum.case import_loop.simps wp_seqE wp_ret Let_def
    by (rule wp_mono [OF process]) (auto simp: count_action_def split: sum.split)
qed

text \<open>
  C14: export and import are inverse. What \<open>ExportToYAML\<close> writes for any version of a template, imported with
  \<open>create-or-update\<close> into any database, this one or another, gives a template whose latest spec is the exported
  one, unless the import reports a failure: neither validation nor defaulting changes a stored spec.
\<close>

theorem export_import_roundtrip:
  assumes inv: "template_inv qerr ulow (db w)" and name: "name \<noteq> []"
    and ex: "run_state (ExportToYAML yc name version) w = (Inr doc, w1)"
    and yaml: "\<forall>tpl spec. lookup tpl_Name name (templates (db w)) = Some tpl \<longrightarrow>
        exported_spec name version (db w) = Some spec \<longrightarrow> yaml_reads_back yc (template_yaml tpl spec)"
    and im: "run_state (ImportFromYAML qerr ulow yc hp doc ''create-or-update'' ap) w2 = (Inr resp, w3)"
    and ok: "itr_Failed resp = 0"
  shows "latest_spec name (db w3) = exported_spec name version (db w) \<and> exported_spec name version (db w) \<noteq> None"
proof -
  obtain tpl spec where e: "lookup tpl_Name name (templates (db w)) = Some tpl"
      "exported_spec name version (db w) = Some spec" "yaml_Marshal yc (template_yaml tpl spec) = Inr doc"
    using run_wp [OF ex export_outcome] by blast
  then obtain y where y: "parse_import yc doc = Inr [y]" "y_Name y = name" "y_Spec y = spec"
    using parse_single [of yc "template_yaml tpl spec" doc] yaml lookup_SomeD [OF e(1)] by (auto simp: template_yaml_def)
  have "spec_good qerr ulow (y_Spec y)"
    using spec_good_stored [OF inv e(2)] y(3) by simp
  from run_wp [OF im import_exported [OF this _ y(1)]] show ?thesis
    using name y ok e(2) by simp
qed

theorem export_import_roundtrip_witness:
  "let w = snd (run_state (template_step (\<lambda>_. None) (\<lambda>s. s) yaml_none (OpCreate sample_request)) (sample_world [] []))
   in \<exists>resp w3. run_state (ImportFromYAML (\<lambda>_. None) (\<lambda>s. s) sample_codec False ''doc'' ''create-or-update'' False) (sample_world [] []) = (Inr resp, w3) \<and>
        latest_spec ''python'' (db w3) = exported_spec ''python'' 0 (db w) \<and> exported_spec ''python'' 0 (db w) \<noteq> None"
proof -
  let ?w = "snd (run_state (template_step (\<lambda>_. None) (\<lambda>s. s) yaml_none (OpCreate sample_request)) (sample_world [] []))"
  let ?im = "run_state (ImportFromYAML (\<lambda>_. None) (\<lambda>s. s) sample_codec False ''doc'' ''create-or-update'' False) (sample_world [] [])"
  have inv: "template_inv (\<lambda>_. None) (\<lambda>s. s) (db ?w)"
    using io_relD [OF inv_step [of "\<lambda>_. None" "\<lambda>s. s" yaml_none "OpCreate sample_request"], of "sample_world [] []"]
    by (simp add: db_rel_def keeps_def template_inv_def templates_ok_def specs_ok_def sample_world_def empty_tables_def)
  have "fst (run_state (ExportToYAML sample_codec ''python'' 0) ?w) = Inr ''doc''"
    by code_simp
  then obtain w1 where ex: "run_state (ExportToYAML sample_codec ''python'' 0) ?w = (Inr ''doc'', w1)"
    by (metis prod.collapse)
  have spec: "exported_spec ''python'' 0 (db ?w) = Some (ApplyDefaults sample_spec)"
    by code_simp
  have "case fst ?im of Inl _ \<Rightarrow> False | Inr resp \<Rightarrow> itr_Failed resp = 0"
    by code_simp
  then obtain resp w3 where im: "?im = (Inr resp, w3)" "itr_Failed resp = 0"
    by (cases ?im) (auto split: sum.splits)
  have yaml: "\<forall>tpl spec. lookup tpl_Name ''python'' (templates (db ?w)) = Some tpl \<longrightarrow>
      exported_spec ''python'' 0 (db ?w) = Some spec \<longrightarrow> yaml_reads_back sample_codec (template_yaml tpl spec)"
    unfolding spec by (auto dest!: lookup_SomeD simp: yaml_reads_back_def sample_codec_def sample_doc_def template_yaml_def)
  show ?thesis
    unfolding Let_def using export_import_roundtrip [OF inv _ ex yaml im] im(1) by blast
qed

lemma load_specs_length: "wp (load_specs ts) (\<lambda>r _. length r = length ts) w"
proof (induction ts arbitrary: w)
  case (Cons t ts)
  show ?case
    unfolding load_specs.simps wp_bind wp_ret
    by (rule wp_triv, rule wp_mono [OF Cons.IH]) simp
qed (simp add: wp_ret)

lemma export_items_length: "wp (export_items tag ns ts) (\<lambda>r _. length r \<le> length ts) w"
proof (induction ts arbitrary: w)
  case (Cons t ts)
  have skip: "wp (export_items tag ns ts) (\<lambda>r _. length r \<le> Suc (length ts)) w" for w :: "'a world"
    by (rule wp_mono [OF Cons.IH]) simp
  have take: "wp (do { v \<leftarrow> TemplateService_GetVersion n k;
        items \<leftarrow> export_items tag ns ts;
        ret (case v of Inr (Some ver) \<Rightarrow> template_yaml tpl (tv_Spec ver) # items | _ \<Rightarrow> items) }) (\<lambda>r _. length r \<le> Suc (length ts)) w" for n k tpl and w :: "'a world"
    unfolding wp_bind wp_ret by (rule wp_triv, rule wp_mono [OF Cons.IH]) (auto split: sum.split option.split)
  show ?case
    by (cases t) (simp only: export_items.simps wp_if skip take if_cancel length_Cons)
qed (simp add: wp_ret)

text \<open>
  \<open>ExportAllToYAML\<close> asks for a page of 1000 templates, but the store replaces a page size above
  100 by 20: whatever the database holds, the exported document has at most 20 templates.
\<close>

theorem ExportAll_at_most_20:
  assumes "run_state (ExportAllToYAML yc tag ns) w = (Inr doc, w')"
  shows "\<exists>l. yaml_MarshalList yc l = Inr doc \<and> length (yl_Items l) \<le> 20"
proof -
  let ?opts = "\<lparr>tlo_Tag = [], tlo_Search = [], tlo_Page = 1, tlo_PageSize = 1000\<rparr>"
  have norm: "normalize_list_options ?opts = \<lparr>tlo_Tag = [], tlo_Search = [], tlo_Page = 1, tlo_PageSize = 20\<rparr>"
    by (simp add: normalize_list_options_def)
  have page: "length (sql_page 1 20 rows) \<le> 20" for rows :: "Template list"
    using sql_pager.page_length [of 1 20 rows] by simp
  have list: "wp (TemplateStore_List ?opts) (\<lambda>r _. \<forall>l. r = Inr l \<longrightarrow> length (tlr_Items l) \<le> 20) w"
    unfolding TemplateStore_List_def norm Let_def
    by (auto simp: wp_simps intro!: wp_query_db) (rule wp_mono [OF load_specs_length], use page in auto)
  have "wp (ExportAllToYAML yc tag ns) (\<lambda>r _. \<forall>doc. r = Inr doc \<longrightarrow> (\<exists>l. yaml_MarshalList yc l = Inr doc \<and> length (yl_Items l) \<le> 20)) w"
    unfolding ExportAllToYAML_def TemplateService_List_def wp_seqE
  proof (rule wp_mono [OF list])
    fix r :: "TemplateListResponse res" and v :: "'a world"
    assume small: "\<forall>l. r = Inr l \<longrightarrow> length (tlr_Items l) \<le> 20"
    show "case r of Inl e \<Rightarrow> \<forall>doc. Inl e = Inr doc \<longrightarrow> (\<exists>l. yaml_MarshalList yc l = Inr doc \<and> length (yl_Items l) \<le> 20)
      | Inr l \<Rightarrow> wp (do { items \<leftarrow> export_items tag ns (tlr_Items l);
             now \<leftarrow> time_now;
             ret (case yaml_MarshalList yc \<lparr>yl_APIVersion = ''liteboxd/v1'', yl_Kind = ''SandboxTemplateList'',
                    yl_ExportedAt = format_rfc3339 now, yl_Items = items\<rparr> of
              Inl e \<Rightarrow> Inl (Wrap ''failed to marshal YAML'' e) | Inr b \<Rightarrow> Inr b) })
           (\<lambda>r _. \<forall>doc. r = Inr doc \<longrightarrow> (\<exists>l. yaml_MarshalList yc l = Inr doc \<and> length (yl_Items l) \<le> 20)) v"
    proof (cases r)
      case (Inr l)
      then show ?thesis
        using small unfolding wp_bind wp_ret
        by (simp, intro wp_mono [OF export_items_length])
           (simp add: wp_time_now split: sum.split, intro allI impI, rule exI, rule conjI, assumption, simp)
    qed simp
  qed
  from run_wp [OF assms this] show ?thesis
    by simp
qed

theorem ExportAll_at_most_20_witness:
  "\<exists>w'. run_state (ExportAllToYAML sample_codec [] []) (sample_world [] []) = (Inr ''0'', w') \<and>
     (\<exists>l. yaml_MarshalList sample_codec l = Inr ''0'' \<and> length (yl_Items l) \<le> 20)"
proof -
  have "fst (run_state (ExportAllToYAML sample_codec [] []) (sample_world [] [])) = Inr ''0''"
    by code_simp
  then obtain w' where run: "run_state (ExportAllToYAML sample_codec [] []) (sample_world [] []) = (Inr ''0'', w')"
    by (metis prod.collapse)
  then show ?thesis
    using ExportAll_at_most_20 [OF run] by blast
qed

end
