(* ===== verification/Drain.thy ===== *)
theory Drain
  imports Prelude
begin

text \<open>
  The drain manager, \<open>backend/internal/lifecycle/drain.go\<close>: a flag, an atomic counter of websocket sessions and a
  wait group. Sessions are tracked and released by concurrent handlers, so every atomic operation is a step of
  its own: a handler can be between the two counters of \<open>TrackWebSocket\<close>, between the two of its release, or
  between the two parts of a \<open>Done\<close> that wakes the waiting shutdown.
\<close>

section \<open>The wait group\<close>

text \<open>
  \<open>sync.WaitGroup\<close> of the standard library: one atomic word with a 32-bit counter and the number of waiters.
  \<open>Add\<close> changes the counter and panics when it is negative (which it also is from \<open>2 ^ 31\<close> on), or when it
  was empty, somebody waits and the change is positive: an \<open>Add\<close> concurrent with \<open>Wait\<close>. When the counter reaches
  zero and somebody waits, the caller looks at the word a second time, panics if it changed, and otherwise
  clears it and releases the waiters; that is the second step, \<open>wg_wake\<close>.
\<close>

record WaitGroup =
  wg_v :: int
  wg_w :: nat

datatype add_outcome = AddPanic | AddReturns WaitGroup | AddWakes WaitGroup

definition wg_Add :: "WaitGroup \<Rightarrow> int \<Rightarrow> add_outcome" where
  "wg_Add g d =
     (let v = wg_v g + d in
      if v < 0 \<or> 2 ^ 31 \<le> v then AddPanic
      else if wg_w g \<noteq> 0 \<and> 0 < d \<and> v = d then AddPanic
      else if 0 < v \<or> wg_w g = 0 then AddReturns (g\<lparr>wg_v := v\<rparr>)
      else AddWakes (g\<lparr>wg_v := v\<rparr>))"

definition wg_wake :: "WaitGroup \<Rightarrow> WaitGroup \<Rightarrow> WaitGroup option" where
  "wg_wake seen g = (if g = seen then Some \<lparr>wg_v = 0, wg_w = 0\<rparr> else None)"

text \<open>
  \<open>Wait\<close> returns at once when the counter is zero, and otherwise adds itself to the waiters (the comparison
  and the swap are one atomic operation) and sleeps. Once released it panics unless the word is still clear:
  the group was reused before the wait returned.
\<close>

definition wg_sleep :: "WaitGroup \<Rightarrow> WaitGroup" where
  "wg_sleep g = g\<lparr>wg_w := wg_w g + 1\<rparr>"

definition wg_clear :: "WaitGroup \<Rightarrow> bool" where
  "wg_clear g \<longleftrightarrow> wg_v g = 0 \<and> wg_w g = 0"

section \<open>The drain manager\<close>

record DrainManager =
  draining :: bool
  wsActive :: "64 word"
  wsWG :: WaitGroup

definition NewDrainManager :: DrainManager where
  "NewDrainManager = \<lparr>draining = False, wsActive = 0, wsWG = \<lparr>wg_v = 0, wg_w = 0\<rparr>\<rparr>"

definition StartDraining :: "DrainManager \<Rightarrow> DrainManager" where
  "StartDraining m = m\<lparr>draining := True\<rparr>"

definition IsDraining :: "DrainManager \<Rightarrow> bool" where
  "IsDraining m = draining m"

definition ActiveWebSockets :: "DrainManager \<Rightarrow> int" where
  "ActiveWebSockets m = sint (wsActive m)"

text \<open>
  The two atomic operations of \<open>TrackWebSocket\<close>, and those of the closure it returns. \<open>sync.Once\<close> lets the first
  call of the release run: a session that is being released, or has been, is not released again.
\<close>

definition track_add :: "DrainManager \<Rightarrow> add_outcome" where
  "track_add m = wg_Add (wsWG m) 1"

definition track_count :: "DrainManager \<Rightarrow> DrainManager" where
  "track_count m = m\<lparr>wsActive := wsActive m + 1\<rparr>"

definition release_count :: "DrainManager \<Rightarrow> DrainManager" where
  "release_count m = m\<lparr>wsActive := wsActive m - 1\<rparr>"

definition release_done :: "DrainManager \<Rightarrow> add_outcome" where
  "release_done m = wg_Add (wsWG m) (- 1)"

datatype session = Tracking | Live | Releasing | Waking WaitGroup | Released

text \<open>
  The goroutine of \<open>WaitWebSockets\<close>: not there yet, started, sleeping in the wait, released from it, or gone with
  the channel closed, when \<open>n\<close> sessions had been tracked. The select returns the first of the closed
  channel and the deadline; after a timeout the goroutine goes on.
\<close>

datatype waiter = Idle | Started | Sleeping | Woken | Gone nat

datatype wait_result = Drained nat | DrainTimeout

text \<open>
  \<open>late\<close> is not in the code: it records that a session was tracked from an empty group once the wait had looked
  at it, which the documentation of \<open>WaitGroup\<close> forbids. A run ends at a panic, in the state before the call
  that panicked.
\<close>

record drain_run =
  mgr :: DrainManager
  sessions :: "session list"
  waiter :: waiter
  result :: "wait_result option"
  late :: bool
  panicked :: bool

definition drain_init :: drain_run where
  "drain_init = \<lparr>mgr = NewDrainManager, sessions = [], waiter = Idle, result = None, late = False, panicked = False\<rparr>"

definition tracks_late :: "drain_run \<Rightarrow> bool" where
  "tracks_late s \<longleftrightarrow> late s \<or> waiter s \<notin> {Idle, Started} \<and> wg_v (wsWG (mgr s)) = 0"

inductive drain_step :: "drain_run \<Rightarrow> drain_run \<Rightarrow> bool" where
  start: "\<not> panicked s \<Longrightarrow> drain_step s (s\<lparr>mgr := StartDraining (mgr s)\<rparr>)"
| track: "\<not> panicked s \<Longrightarrow> track_add (mgr s) = AddReturns g \<Longrightarrow>
     drain_step s (s\<lparr>mgr := (mgr s)\<lparr>wsWG := g\<rparr>, sessions := sessions s @ [Tracking], late := tracks_late s\<rparr>)"
| track_panic: "\<not> panicked s \<Longrightarrow> track_add (mgr s) = AddPanic \<Longrightarrow> drain_step s (s\<lparr>panicked := True, late := tracks_late s\<rparr>)"
| counted: "\<not> panicked s \<Longrightarrow> i < length (sessions s) \<Longrightarrow> sessions s ! i = Tracking \<Longrightarrow>
     drain_step s (s\<lparr>mgr := track_count (mgr s), sessions := (sessions s)[i := Live]\<rparr>)"
| release: "\<not> panicked s \<Longrightarrow> i < length (sessions s) \<Longrightarrow> sessions s ! i = Live \<Longrightarrow>
     drain_step s (s\<lparr>mgr := release_count (mgr s), sessions := (sessions s)[i := Releasing]\<rparr>)"
| released: "\<not> panicked s \<Longrightarrow> i < length (sessions s) \<Longrightarrow> sessions s ! i = Releasing \<Longrightarrow> release_done (mgr s) = AddReturns g \<Longrightarrow>
     drain_step s (s\<lparr>mgr := (mgr s)\<lparr>wsWG := g\<rparr>, sessions := (sessions s)[i := Released]\<rparr>)"
| wakes: "\<not> panicked s \<Longrightarrow> i < length (sessions s) \<Longrightarrow> sessions s ! i = Releasing \<Longrightarrow> release_done (mgr s) = AddWakes g \<Longrightarrow>
     drain_step s (s\<lparr>mgr := (mgr s)\<lparr>wsWG := g\<rparr>, sessions := (sessions s)[i := Waking g]\<rparr>)"
| release_panic: "\<not> panicked s \<Longrightarrow> i < length (sessions s) \<Longrightarrow> sessions s ! i = Releasing \<Longrightarrow> release_done (mgr s) = AddPanic \<Longrightarrow>
     drain_step s (s\<lparr>panicked := True\<rparr>)"
| woken: "\<not> panicked s \<Longrightarrow> i < length (sessions s) \<Longrightarrow> sessions s ! i = Waking g \<Longrightarrow> wg_wake g (wsWG (mgr s)) = Some g' \<Longrightarrow>
     drain_step s (s\<lparr>mgr := (mgr s)\<lparr>wsWG := g'\<rparr>, sessions := (sessions s)[i := Released],
       waiter := (if waiter s = Sleeping then Woken else waiter s)\<rparr>)"
| wake_panic: "\<not> panicked s \<Longrightarrow> i < length (sessions s) \<Longrightarrow> sessions s ! i = Waking g \<Longrightarrow> wg_wake g (wsWG (mgr s)) = None \<Longrightarrow>
     drain_step s (s\<lparr>panicked := True\<rparr>)"
| release_again: "\<not> panicked s \<Longrightarrow> i < length (sessions s) \<Longrightarrow> sessions s ! i \<notin> {Tracking, Live} \<Longrightarrow> drain_step s s"
| spawn: "\<not> panicked s \<Longrightarrow> waiter s = Idle \<Longrightarrow> drain_step s (s\<lparr>waiter := Started\<rparr>)"
| wait_empty: "\<not> panicked s \<Longrightarrow> waiter s = Started \<Longrightarrow> wg_v (wsWG (mgr s)) = 0 \<Longrightarrow>
     drain_step s (s\<lparr>waiter := Gone (length (sessions s))\<rparr>)"
| wait_sleep: "\<not> panicked s \<Longrightarrow> waiter s = Started \<Longrightarrow> wg_v (wsWG (mgr s)) \<noteq> 0 \<Longrightarrow>
     drain_step s (s\<lparr>mgr := (mgr s)\<lparr>wsWG := wg_sleep (wsWG (mgr s))\<rparr>, waiter := Sleeping\<rparr>)"
| wait_done: "\<not> panicked s \<Longrightarrow> waiter s = Woken \<Longrightarrow> wg_clear (wsWG (mgr s)) \<Longrightarrow>
     drain_step s (s\<lparr>waiter := Gone (length (sessions s))\<rparr>)"
| wait_panic: "\<not> panicked s \<Longrightarrow> waiter s = Woken \<Longrightarrow> \<not> wg_clear (wsWG (mgr s)) \<Longrightarrow> drain_step s (s\<lparr>panicked := True\<rparr>)"
| drained: "\<not> panicked s \<Longrightarrow> waiter s = Gone n \<Longrightarrow> result s = None \<Longrightarrow> drain_step s (s\<lparr>result := Some (Drained n)\<rparr>)"
| timeout: "\<not> panicked s \<Longrightarrow> waiter s \<noteq> Idle \<Longrightarrow> result s = None \<Longrightarrow> drain_step s (s\<lparr>result := Some DrainTimeout\<rparr>)"

abbreviation drain_reachable :: "drain_run \<Rightarrow> bool" where
  "drain_reachable \<equiv> drain_step\<^sup>*\<^sup>* drain_init"

section \<open>Lemmas\<close>

text \<open>How many sessions hold the group, how many are live, and how many are waking the shutdown.\<close>

definition holds_group :: "session \<Rightarrow> bool" where
  "holds_group x \<longleftrightarrow> x \<in> {Tracking, Live, Releasing}"

definition wakes_waiter :: "session \<Rightarrow> bool" where
  "wakes_waiter x \<longleftrightarrow> x \<notin> {Tracking, Live, Releasing, Released}"

abbreviation count_of :: "('a \<Rightarrow> bool) \<Rightarrow> 'a list \<Rightarrow> nat" where
  "count_of P xs \<equiv> length (filter P xs)"

definition tracked :: "session list \<Rightarrow> nat" where
  "tracked xs = count_of holds_group xs"

definition live :: "session list \<Rightarrow> nat" where
  "live xs = count_of (\<lambda>x. x = Live) xs"

definition waking :: "session list \<Rightarrow> nat" where
  "waking xs = count_of wakes_waiter xs"

text \<open>Replacing one element changes a count by what the old and the new element contribute.\<close>

lemma filter_update_length:
  assumes "i < length xs"
  shows "length (filter P (xs[i := x])) + (if P (xs ! i) then 1 else 0) =
    length (filter P xs) + (if P x then 1 else 0)"
proof -
  have "length (filter P (take i xs @ x # drop (Suc i) xs)) + (if P (xs ! i) then 1 else 0) =
      length (filter P (take i xs @ xs ! i # drop (Suc i) xs)) + (if P x then 1 else 0)"
    by simp
  then show ?thesis
    using assms by (simp only: upd_conv_take_nth_drop id_take_nth_drop [symmetric])
qed

lemmas session_counts = tracked_def live_def waking_def holds_group_def wakes_waiter_def

lemma session_update:
  assumes "i < length xs"
  shows "tracked (xs[i := x]) + (if holds_group (xs ! i) then 1 else 0) = tracked xs + (if holds_group x then 1 else 0)"
    and "live (xs[i := x]) + (if xs ! i = Live then 1 else 0) = live xs + (if x = Live then 1 else 0)"
    and "waking (xs[i := x]) + (if wakes_waiter (xs ! i) then 1 else 0) = waking xs + (if wakes_waiter x then 1 else 0)"
  using filter_update_length [OF assms, of holds_group x] filter_update_length [OF assms, of "\<lambda>x. x = Live" x]
    filter_update_length [OF assms, of wakes_waiter x]
  by (simp_all add: tracked_def live_def waking_def)

lemma session_append:
  "tracked (xs @ [Tracking]) = tracked xs + 1" "live (xs @ [Tracking]) = live xs" "waking (xs @ [Tracking]) = waking xs"
  by (simp_all add: session_counts)

lemma no_session: "tracked xs = 0 \<Longrightarrow> waking xs = 0 \<Longrightarrow> x \<in> set xs \<Longrightarrow> x = Released"
  by (auto simp: session_counts filter_empty_conv)

lemma live_le: "live xs \<le> tracked xs \<and> tracked xs \<le> length xs"
  unfolding tracked_def live_def
  by (rule conjI [OF _ length_filter_le], induction xs) (auto simp: holds_group_def)

lemma released_none: "(\<And>i. i < length xs \<Longrightarrow> xs ! i = Released) \<Longrightarrow> tracked xs = 0"
  by (auto simp: session_counts filter_empty_conv in_set_conv_nth)

lemma session_pos:
  assumes "i < length xs"
  shows "holds_group (xs ! i) \<Longrightarrow> 0 < tracked xs" "wakes_waiter (xs ! i) \<Longrightarrow> 0 < waking xs"
  using nth_mem [OF assms] by (auto simp: tracked_def waking_def filter_empty_conv length_greater_0_conv)

text \<open>
  The word of the group, and the waiter. The session that brings the counter to zero while the shutdown sleeps
  is the only one that wakes it, and it finds the word as it left it: an \<open>Add\<close> in between would have panicked.
\<close>

definition group_inv :: "drain_run \<Rightarrow> bool" where
  "group_inv s \<longleftrightarrow>
     wsWG (mgr s) = \<lparr>wg_v = int (tracked (sessions s)), wg_w = (if waiter s = Sleeping then 1 else 0)\<rparr> \<and>
     wsActive (mgr s) = word_of_nat (live (sessions s)) \<and>
     waking (sessions s) = (if waiter s = Sleeping \<and> tracked (sessions s) = 0 then 1 else 0) \<and>
     (\<forall>g. Waking g \<in> set (sessions s) \<longrightarrow> g = \<lparr>wg_v = 0, wg_w = 1\<rparr>)"

definition wait_inv :: "drain_run \<Rightarrow> bool" where
  "wait_inv s \<longleftrightarrow>
     (\<forall>n. waiter s = Gone n \<longrightarrow> n \<le> length (sessions s) \<and> (\<forall>i < n. sessions s ! i = Released) \<and> (late s \<or> n = length (sessions s))) \<and>
     (\<forall>n. result s = Some (Drained n) \<longrightarrow> waiter s = Gone n) \<and>
     (waiter s = Woken \<longrightarrow> late s \<or> tracked (sessions s) = 0) \<and>
     (panicked s \<longrightarrow> late s \<or> 2 ^ 31 - 1 \<le> length (sessions s))"

lemma drain_inv_init: "group_inv drain_init" "wait_inv drain_init"
  by (simp_all add: group_inv_def wait_inv_def drain_init_def NewDrainManager_def session_counts)

lemma add_outcomes:
  "wg_Add \<lparr>wg_v = int n, wg_w = k\<rparr> 1 =
     (if 2 ^ 31 - 1 \<le> n \<or> k \<noteq> 0 \<and> n = 0 then AddPanic else AddReturns \<lparr>wg_v = int (n + 1), wg_w = k\<rparr>)"
  "0 < n \<Longrightarrow> wg_Add \<lparr>wg_v = int n, wg_w = k\<rparr> (- 1) =
     (if 2 ^ 31 < n then AddPanic
      else if 1 < n \<or> k = 0 then AddReturns \<lparr>wg_v = int (n - 1), wg_w = k\<rparr> else AddWakes \<lparr>wg_v = 0, wg_w = k\<rparr>)"
  by (auto simp: wg_Add_def Let_def of_nat_diff)

lemma group_inv_step: "drain_step s s' \<Longrightarrow> group_inv s \<Longrightarrow> group_inv s'"
proof (induction rule: drain_step.induct)
  case (track s g)
  then show ?case
    by (auto simp: group_inv_def track_add_def add_outcomes session_append split: if_splits)
next
  case (counted s i)
  then show ?case
    using session_update [of i "sessions s" Live] set_update_subset_insert [of "sessions s" i Live]
    by (auto simp: group_inv_def track_count_def holds_group_def wakes_waiter_def)
next
  case (release s i)
  have "live (sessions s) = Suc (live ((sessions s)[i := Releasing]))"
    using release session_update(2) [of i "sessions s" Releasing] by simp
  then show ?case
    using release session_update(1,3) [of i "sessions s" Releasing] set_update_subset_insert [of "sessions s" i Releasing]
    by (auto simp: group_inv_def release_count_def holds_group_def wakes_waiter_def)
next
  case (released s i g)
  then show ?case
    using session_update [of i "sessions s" Released] session_pos(1) [of i "sessions s"]
      set_update_subset_insert [of "sessions s" i Released]
    by (auto simp: group_inv_def release_done_def add_outcomes holds_group_def wakes_waiter_def split: if_splits)
next
  case (wakes s i g)
  then show ?case
    using session_update [of i "sessions s" "Waking g"] session_pos(1) [of i "sessions s"]
      set_update_subset_insert [of "sessions s" i "Waking g"]
    by (auto simp: group_inv_def release_done_def add_outcomes holds_group_def wakes_waiter_def split: if_splits)
next
  case (woken s i g g')
  then show ?case
    using session_update [of i "sessions s" Released] session_pos(2) [of i "sessions s"]
      set_update_subset_insert [of "sessions s" i Released]
    by (auto simp: group_inv_def wg_wake_def holds_group_def wakes_waiter_def split: if_splits)
next
  case (wait_sleep s)
  then show ?case
    by (auto simp: group_inv_def wg_sleep_def split: if_splits)
qed (auto simp: group_inv_def StartDraining_def)

lemma all_released:
  assumes "group_inv s" "wg_v (wsWG (mgr s)) = 0" "waiter s \<noteq> Sleeping" "i < length (sessions s)"
  shows "sessions s ! i = Released"
  using assms no_session [of "sessions s" "sessions s ! i"] by (auto simp: group_inv_def)

lemma released_stays: "xs ! j = Released \<Longrightarrow> xs ! i \<noteq> Released \<Longrightarrow> xs[i := x] ! j = Released"
  by (metis nth_list_update_neq)

lemma wait_inv_step: "drain_step s s' \<Longrightarrow> group_inv s \<Longrightarrow> wait_inv s \<Longrightarrow> wait_inv s'"
proof (induction rule: drain_step.induct)
  case (track s g)
  then show ?case
    using released_none [of "sessions s"]
    by (auto simp: wait_inv_def group_inv_def tracks_late_def nth_append session_append)
next
  case (track_panic s)
  then show ?case
    using live_le [of "sessions s"]
    by (auto simp: wait_inv_def group_inv_def tracks_late_def track_add_def add_outcomes split: if_splits)
next
  case (counted s i)
  then show ?case
    using session_update(1) [of i "sessions s" Live]
    by (auto simp: wait_inv_def holds_group_def released_stays)
next
  case (release s i)
  then show ?case
    using session_update(1) [of i "sessions s" Releasing]
    by (auto simp: wait_inv_def holds_group_def released_stays)
next
  case (released s i g)
  then show ?case
    using session_update(1) [of i "sessions s" Released]
    by (auto simp: wait_inv_def holds_group_def released_stays)
next
  case (wakes s i g)
  then show ?case
    using session_update(1) [of i "sessions s" "Waking g"]
    by (auto simp: wait_inv_def holds_group_def released_stays)
next
  case (release_panic s i)
  then show ?case
    using live_le [of "sessions s"] session_pos(1) [of i "sessions s"]
    by (auto simp: wait_inv_def group_inv_def release_done_def add_outcomes holds_group_def split: if_splits)
next
  case (woken s i g g')
  then show ?case
    using session_update(1) [of i "sessions s" Released] session_pos(2) [of i "sessions s"]
    by (auto simp: wait_inv_def group_inv_def holds_group_def wakes_waiter_def released_stays split: if_splits)
next
  case (wake_panic s i g)
  then have "wsWG (mgr s) = g"
    using session_pos(2) [of i "sessions s"] nth_mem [of i "sessions s"]
    by (auto simp: group_inv_def wakes_waiter_def split: if_splits)
  with wake_panic show ?case
    by (simp add: wg_wake_def)
next
  case (wait_empty s)
  then show ?case
    using all_released [of s] by (auto simp: wait_inv_def)
next
  case (wait_done s)
  then show ?case
    using all_released [of s] by (auto simp: wait_inv_def wg_clear_def)
next
  case (wait_panic s)
  then show ?case
    by (auto simp: wait_inv_def group_inv_def wg_clear_def)
qed (auto simp: wait_inv_def)

lemma drain_inv_reachable: "drain_reachable s \<Longrightarrow> group_inv s \<and> wait_inv s"
  by (induction rule: rtranclp_induct) (auto intro: drain_inv_init group_inv_step wait_inv_step)

lemma drain_flag_stays: "drain_step s s' \<Longrightarrow> draining (mgr s) \<Longrightarrow> draining (mgr s')"
  by (induction rule: drain_step.induct) (auto simp: StartDraining_def track_count_def release_count_def)

section \<open>Sessions that begin during the wait\<close>

text \<open>
  A connection that is being upgraded when the server shuts down is no longer one that the server waits for,
  and tracks its session when it is done. Two runs of such a session: it panics in the wait, and it is left behind.
\<close>

abbreviation drain_at :: "64 word \<Rightarrow> int \<Rightarrow> nat \<Rightarrow> session list \<Rightarrow> waiter \<Rightarrow> wait_result option \<Rightarrow> bool \<Rightarrow> bool \<Rightarrow> drain_run" where
  "drain_at a v k xs wt res l p \<equiv> \<lparr>mgr = \<lparr>draining = False, wsActive = a, wsWG = \<lparr>wg_v = v, wg_w = k\<rparr>\<rparr>, sessions = xs, waiter = wt,
     result = res, late = l, panicked = p\<rparr>"

lemma drain_init_at: "drain_init = drain_at 0 0 0 [] Idle None False False"
  by (simp add: drain_init_def NewDrainManager_def)

lemmas drain_moves = track_add_def track_count_def release_count_def release_done_def wg_Add_def wg_wake_def wg_sleep_def
  wg_clear_def tracks_late_def

lemma session_comes_and_sleeps:
  "drain_reachable (drain_at 1 1 1 [Live] Sleeping None False False)"
proof -
  have "drain_step drain_init (drain_at 0 1 0 [Tracking] Idle None False False)"
    using drain_step.track [of drain_init "\<lparr>wg_v = 1, wg_w = 0\<rparr>"] by (simp add: drain_init_at drain_moves)
  moreover have "drain_step (drain_at 0 1 0 [Tracking] Idle None False False) (drain_at 1 1 0 [Live] Idle None False False)"
    using drain_step.counted [of "drain_at 0 1 0 [Tracking] Idle None False False" 0] by (simp add: drain_moves)
  moreover have "drain_step (drain_at 1 1 0 [Live] Idle None False False) (drain_at 1 1 0 [Live] Started None False False)"
    using drain_step.spawn [of "drain_at 1 1 0 [Live] Idle None False False"] by simp
  moreover have "drain_step (drain_at 1 1 0 [Live] Started None False False) (drain_at 1 1 1 [Live] Sleeping None False False)"
    using drain_step.wait_sleep [of "drain_at 1 1 0 [Live] Started None False False"] by (simp add: drain_moves)
  ultimately show ?thesis
    by (meson rtranclp.rtrancl_into_rtrancl rtranclp.rtrancl_refl)
qed

lemma session_wakes:
  "drain_reachable (drain_at 0 0 1 [Waking \<lparr>wg_v = 0, wg_w = 1\<rparr>] Sleeping None False False)"
proof -
  have "drain_step (drain_at 1 1 1 [Live] Sleeping None False False) (drain_at 0 1 1 [Releasing] Sleeping None False False)"
    using drain_step.release [of "drain_at 1 1 1 [Live] Sleeping None False False" 0] by (simp add: drain_moves)
  moreover have "drain_step (drain_at 0 1 1 [Releasing] Sleeping None False False)
      (drain_at 0 0 1 [Waking \<lparr>wg_v = 0, wg_w = 1\<rparr>] Sleeping None False False)"
    using drain_step.wakes [of "drain_at 0 1 1 [Releasing] Sleeping None False False" 0 "\<lparr>wg_v = 0, wg_w = 1\<rparr>"] by (simp add: drain_moves)
  ultimately show ?thesis
    using session_comes_and_sleeps by (meson rtranclp.rtrancl_into_rtrancl)
qed

lemma late_session_panics: "\<exists>s. drain_reachable s \<and> panicked s \<and> late s"
proof -
  let ?s = "drain_at 0 0 1 [Waking \<lparr>wg_v = 0, wg_w = 1\<rparr>] Sleeping None False False"
  have "drain_step ?s (drain_at 0 0 1 [Waking \<lparr>wg_v = 0, wg_w = 1\<rparr>] Sleeping None True True)"
    using drain_step.track_panic [of ?s] by (simp add: drain_moves Let_def)
  then have "drain_reachable (drain_at 0 0 1 [Waking \<lparr>wg_v = 0, wg_w = 1\<rparr>] Sleeping None True True)"
    using session_wakes by (meson rtranclp.rtrancl_into_rtrancl)
  then show ?thesis
    by (intro exI [of _ "drain_at 0 0 1 [Waking \<lparr>wg_v = 0, wg_w = 1\<rparr>] Sleeping None True True"]) simp
qed

lemma session_drains:
  "drain_reachable (drain_at 0 0 0 [Released] (Gone 1) (Some (Drained 1)) False False)"
proof -
  have "drain_step (drain_at 0 0 1 [Waking \<lparr>wg_v = 0, wg_w = 1\<rparr>] Sleeping None False False) (drain_at 0 0 0 [Released] Woken None False False)"
    using drain_step.woken [of "drain_at 0 0 1 [Waking \<lparr>wg_v = 0, wg_w = 1\<rparr>] Sleeping None False False" 0] by (simp add: drain_moves)
  moreover have "drain_step (drain_at 0 0 0 [Released] Woken None False False) (drain_at 0 0 0 [Released] (Gone 1) None False False)"
    using drain_step.wait_done [of "drain_at 0 0 0 [Released] Woken None False False"] by (simp add: drain_moves)
  moreover have "drain_step (drain_at 0 0 0 [Released] (Gone 1) None False False)
      (drain_at 0 0 0 [Released] (Gone 1) (Some (Drained 1)) False False)"
    using drain_step.drained [of "drain_at 0 0 0 [Released] (Gone 1) None False False"] by simp
  ultimately show ?thesis
    using session_wakes by (meson rtranclp.rtrancl_into_rtrancl)
qed

lemma late_session_left_behind:
  "\<exists>s. drain_reachable s \<and> result s = Some (Drained 1) \<and> length (sessions s) = 2 \<and> sessions s ! 1 \<noteq> Released \<and> \<not> panicked s"
proof -
  let ?s = "drain_at 0 0 0 [Released] (Gone 1) (Some (Drained 1)) False False"
  have "drain_step ?s (drain_at 0 1 0 [Released, Tracking] (Gone 1) (Some (Drained 1)) True False)"
    using drain_step.track [of ?s "\<lparr>wg_v = 1, wg_w = 0\<rparr>"] by (simp add: drain_moves)
  then have "drain_reachable (drain_at 0 1 0 [Released, Tracking] (Gone 1) (Some (Drained 1)) True False)"
    using session_drains by (meson rtranclp.rtrancl_into_rtrancl)
  then show ?thesis
    by (intro exI [of _ "drain_at 0 1 0 [Released, Tracking] (Gone 1) (Some (Drained 1)) True False"]) simp
qed

section \<open>Properties\<close>

text \<open>
  C25: however handlers and the shutdown interleave, up to a panic, the wait group counts exactly the sessions that
  have not given it back and the active counter exactly the live ones; a shutdown that sleeps on an empty group
  is being woken by one of the sessions. A panic of the group needs a session that is tracked from the empty group
  after the wait has begun. When the wait reports that it is drained, the sessions tracked until then are
  released, and without such a late session these are all the sessions there are. Fewer than \<open>2 ^ 31 - 1\<close> sessions
  are assumed, the range of the counter.
\<close>

theorem drain_counts_sessions:
  assumes "drain_reachable s" "length (sessions s) < 2 ^ 31 - 1"
  shows "wg_v (wsWG (mgr s)) = int (tracked (sessions s)) \<and>
    ActiveWebSockets (mgr s) = int (live (sessions s)) \<and>
    (waiter s = Sleeping \<longrightarrow> 0 < wg_v (wsWG (mgr s)) \<or> waking (sessions s) = 1) \<and>
    (panicked s \<longrightarrow> late s) \<and>
    (\<forall>n. result s = Some (Drained n) \<longrightarrow> n \<le> length (sessions s) \<and> (\<forall>i < n. sessions s ! i = Released) \<and>
      (late s \<or> n = length (sessions s)))"
proof -
  have inv: "group_inv s" "wait_inv s"
    using drain_inv_reachable [OF assms(1)] by simp_all
  have "int (live (sessions s)) < 2 ^ 63"
    using live_le [of "sessions s"] assms(2) by simp
  then have "ActiveWebSockets (mgr s) = int (live (sessions s))"
    using inv(1) by (simp add: group_inv_def ActiveWebSockets_def sint_uint signed_take_bit_eq_take_bit_shift take_bit_eq_mod
        uint_word_of_int word_size unsigned_of_nat)
  then show ?thesis
    using inv assms(2) by (auto simp: group_inv_def wait_inv_def not_le)
qed

theorem drain_counts_sessions_witness:
  "\<exists>s. drain_reachable s \<and> result s = Some (Drained 1) \<and> sessions s = [Released] \<and> \<not> panicked s \<and> wg_v (wsWG (mgr s)) = 0"
  using drain_counts_sessions [OF session_drains] session_drains
  by (intro exI [of _ "drain_at 0 0 0 [Released] (Gone 1) (Some (Drained 1)) False False"]) (simp add: tracked_def holds_group_def)

end
