(* ===== verification/Go_Http.thy ===== *)
theory Go_Http
  imports Go_Strings "HOL-Library.AList"
begin

text \<open>
  What the gateway uses of \<open>fmt.Sscanf\<close> and \<open>net/http\<close>: scanning an integer with the verb \<open>d\<close>, and
  headers with their canonical keys. A header is an association list; the order of its keys is the order in
  which Go happens to range over the map.
\<close>

section \<open>Scanning integers\<close>

definition is_digit :: "char \<Rightarrow> bool" where
  "is_digit c \<longleftrightarrow> 48 \<le> (of_char c :: nat) \<and> (of_char c :: nat) \<le> 57"

definition digits_val :: "string \<Rightarrow> nat" where
  "digits_val ds = foldl (\<lambda>n c. 10 * n + (of_char c - 48)) 0 ds"

text \<open>Skipping space before the operand: a newline in it is an error.\<close>

function skip_space :: "string \<Rightarrow> string res" where
  "skip_space s =
     (if has_prefix [CHR 0x0A] s then Inl (Msg ''unexpected newline'')
      else case find (\<lambda>p. p \<noteq> [] \<and> has_prefix p s) space_runes of
        None \<Rightarrow> Inr s
      | Some p \<Rightarrow> skip_space (drop (length p) s))"
  by pat_completeness auto
termination
  by (relation "measure length")
     (auto simp: find_Some_iff has_prefix_def, metis diff_less length_greater_0_conv take_Nil)

declare skip_space.simps [simp del]

text \<open>\<open>fmt.Sscanf(s, "%d", \<dots>)\<close>: an optional sign and the longest run of digits; what follows is not read.\<close>

definition sscanf_d :: "string \<Rightarrow> int res" where
  "sscanf_d s =
     (case skip_space s of
        Inl e \<Rightarrow> Inl e
      | Inr t \<Rightarrow>
          let neg = has_prefix ''-'' t; t = (if neg \<or> has_prefix ''+'' t then tl t else t); ds = takeWhile is_digit t;
              v = (if neg then - int (digits_val ds) else int (digits_val ds))
          in if t = [] then Inl (Msg ''unexpected EOF'')
             else if ds = [] then Inl (Msg ''expected integer'')
             else if v < - (2 ^ 63) \<or> 2 ^ 63 \<le> v then Inl (Msg ''integer overflow'')
             else Inr v)"

lemma is_digit_plain: "is_digit c \<Longrightarrow> plain_byte c"
  by (simp add: is_digit_def plain_byte_def)

lemma skip_space_plain:
  assumes "s \<noteq> []" "plain_byte (hd s)"
  shows "skip_space s = Inr s"
proof -
  have none: "\<not> has_prefix p s" if "p \<in> set space_runes" for p
    using assms(2) space_rune_ends [OF that] has_prefix_hd [of p s] by auto
  then have "find (\<lambda>p. p \<noteq> [] \<and> has_prefix p s) space_runes = None"
    by (auto simp: find_None_iff)
  moreover have "\<not> has_prefix [CHR 0x0A] s"
    using none by (simp add: space_runes_def)
  ultimately show ?thesis
    by (simp add: skip_space.simps [of s])
qed

lemma digit_char_digit: "n < 10 \<Longrightarrow> is_digit (digit_char n) \<and> of_char (digit_char n) = 48 + n"
  by (simp add: is_digit_def digit_char_def)

lemma show_nat_digits: "list_all is_digit (show_nat n) \<and> digits_val (show_nat n) = n"
proof (induction n rule: show_nat.induct)
  case (1 n)
  show ?case
  proof (cases "n < 10")
    case True
    then show ?thesis
      using digit_char_digit [of n] by (simp add: show_nat.simps [of n] digits_val_def)
  next
    case False
    have "is_digit (digit_char (n mod 10))" "of_char (digit_char (n mod 10)) = 48 + n mod 10"
      using digit_char_digit [of "n mod 10"] by simp_all
    then show ?thesis
      using 1 [OF False] False by (simp add: show_nat.simps [of n] digits_val_def)
  qed
qed

lemma sscanf_d_number:
  assumes "rest = [] \<or> \<not> is_digit (hd rest)"
  shows "sscanf_d (show_nat n @ rest) = (if n < 2 ^ 63 then Inr (int n) else Inl (Msg ''integer overflow''))"
proof -
  obtain d ds where s: "show_nat n = d # ds"
    by (cases "show_nat n") simp_all
  have d: "list_all is_digit (d # ds)" "digits_val (d # ds) = n"
    using show_nat_digits [of n] s by simp_all
  have "skip_space (d # ds @ rest) = Inr (d # ds @ rest)"
    using d(1) is_digit_plain [of d] by (intro skip_space_plain) simp_all
  moreover have "\<not> has_prefix ''-'' (d # ds @ rest)" "\<not> has_prefix ''+'' (d # ds @ rest)"
    using d(1) by (auto simp: has_prefix_def is_digit_def)
  moreover have "takeWhile is_digit (d # ds @ rest) = d # ds"
    using d(1) assms by (cases rest) (auto simp: takeWhile_append takeWhile_eq_all_conv list_all_iff)
  ultimately show ?thesis
    using s d(2) by (simp add: sscanf_d_def Let_def)
qed

section \<open>Headers\<close>

type_synonym header = "(string \<times> string list) list"

definition valid_header_byte :: "char \<Rightarrow> bool" where
  "valid_header_byte c \<longleftrightarrow>
     (let n = (of_char c :: nat) in is_digit c \<or> 65 \<le> n \<and> n \<le> 90 \<or> 97 \<le> n \<and> n \<le> 122) \<or>
     c \<in> set ''!#$%&*+-.^_|~'' \<or> c = CHR 0x27 \<or> c = CHR 0x60"

definition ascii_upper :: "char \<Rightarrow> char" where
  "ascii_upper c = (if 97 \<le> (of_char c :: nat) \<and> (of_char c :: nat) \<le> 122
                    then char_of ((of_char c :: nat) - 32) else c)"

fun canon_go :: "bool \<Rightarrow> string \<Rightarrow> string" where
  "canon_go up [] = []"
| "canon_go up (c # cs) = (if up then ascii_upper c else ascii_lower c) # canon_go (c = CHR ''-'') cs"

definition canonical_key :: "string \<Rightarrow> string" where
  "canonical_key k = (if list_all valid_header_byte k then canon_go True k else k)"

definition header_Get :: "header \<Rightarrow> string \<Rightarrow> string" where
  "header_Get h k = (case map_of h (canonical_key k) of Some (v # _) \<Rightarrow> v | _ \<Rightarrow> [])"

definition header_Del :: "header \<Rightarrow> string \<Rightarrow> header" where
  "header_Del h k = AList.delete (canonical_key k) h"

definition header_Set :: "header \<Rightarrow> string \<Rightarrow> string \<Rightarrow> header" where
  "header_Set h k v = AList.update (canonical_key k) [v] h"

definition header_Add :: "header \<Rightarrow> string \<Rightarrow> string \<Rightarrow> header" where
  "header_Add h k v =
     (let key = canonical_key k in
      AList.update key ((case map_of h key of Some vs \<Rightarrow> vs | None \<Rightarrow> []) @ [v]) h)"

text \<open>The headers a server parses: each key once, canonical, with at least one value.\<close>

definition parsed_header :: "header \<Rightarrow> bool" where
  "parsed_header h \<longleftrightarrow> distinct (map fst h) \<and> list_all (\<lambda>(k, vs). canonical_key k = k \<and> vs \<noteq> []) h"

lemma header_Del_Get: "header_Get (header_Del h k) k = []"
  by (simp add: header_Get_def header_Del_def AList.delete_conv')

lemma header_adds:
  assumes "canonical_key k = k" "vs \<noteq> []"
  shows "map_of (foldl (\<lambda>d v. header_Add d k v) h vs) k' =
    (if k' = k then Some ((case map_of h k of Some us \<Rightarrow> us | None \<Rightarrow> []) @ vs) else map_of h k')"
proof -
  have one: "map_of (header_Add h k v) k' =
      (if k' = k then Some ((case map_of h k of Some us \<Rightarrow> us | None \<Rightarrow> []) @ [v]) else map_of h k')" for h v k'
    using assms(1) by (simp add: header_Add_def Let_def AList.update_conv')
  show ?thesis
    using assms(2)
  proof (induction vs rule: rev_nonempty_induct)
    case (single v)
    then show ?case by (simp add: one)
  next
    case (snoc v vs)
    then show ?case by (auto simp: one)
  qed
qed

end
