(* ===== verification/Gateway.thy ===== *)
theory Gateway
  imports Sample_Cluster Token_Cipher Drain Go_Http
begin

text \<open>
  The gateway, \<open>backend/internal/gateway\<close>: the middlewares that check a request to a sandbox, the rewriting of its
  path and headers, and the proxy handler that decides where it goes. The router gives a request its parameters
  \<open>sandbox\<close> and \<open>port\<close>; what \<open>httputil.ReverseProxy\<close> then does with the rewritten request, and the TLS
  transports, are not modelled.
\<close>

section \<open>Requests\<close>

record url =
  u_Scheme :: string
  u_Host :: string
  u_Path :: string
  u_RawQuery :: string

record http_request =
  rq_Method :: string
  rq_URL :: url
  rq_Host :: string
  rq_Header :: header

text \<open>The director of \<open>httputil.NewSingleHostReverseProxy\<close>.\<close>

definition singleJoiningSlash :: "string \<Rightarrow> string \<Rightarrow> string" where
  "singleJoiningSlash a b =
     (let aslash = has_suffix ''/'' a; bslash = has_prefix ''/'' b in
      if aslash \<and> bslash then a @ tl b else if \<not> aslash \<and> \<not> bslash then a @ ''/'' @ b else a @ b)"

definition rewriteRequestURL :: "url \<Rightarrow> http_request \<Rightarrow> http_request" where
  "rewriteRequestURL target req =
     (let u = rq_URL req in
      req\<lparr>rq_URL := \<lparr>u_Scheme = u_Scheme target, u_Host = u_Host target,
        u_Path = singleJoiningSlash (u_Path target) (u_Path u),
        u_RawQuery = (if u_RawQuery target = [] \<or> u_RawQuery u = [] then u_RawQuery target @ u_RawQuery u
                      else u_RawQuery target @ ''&'' @ u_RawQuery u)\<rparr>\<rparr>)"

section \<open>Paths\<close>

text \<open>The loop that looks for the index after \<open>port\<close>, the same in three places of the code.\<close>

fun portIndex_from :: "int \<Rightarrow> string list \<Rightarrow> int" where
  "portIndex_from i [] = - 1"
| "portIndex_from i (p # ps) = (if p = ''port'' \<and> ps \<noteq> [] then i + 2 else portIndex_from (i + 1) ps)"

definition portIndex :: "string list \<Rightarrow> int" where
  "portIndex parts = portIndex_from 0 parts"

definition path_after :: "int \<Rightarrow> string list \<Rightarrow> string" where
  "path_after i parts = ''/'' @ join ''/'' (drop (nat i) parts)"

definition extractTargetPath :: "string \<Rightarrow> string" where
  "extractTargetPath path =
     (let parts = split_char (CHR ''/'') path; i = portIndex parts in
      if 0 < i \<and> i < int (length parts) then path_after i parts else ''/'')"

definition direct_path :: "string \<Rightarrow> string" where
  "direct_path path =
     (let parts = split_char (CHR ''/'') path in
      if 6 \<le> length parts then
        (let i = portIndex parts in if 0 < i \<and> i < int (length parts) then path_after i parts else path)
      else path)"

definition k8s_real_path :: "string \<Rightarrow> string" where
  "k8s_real_path path =
     (let parts = split_char (CHR ''/'') path; i = portIndex parts;
          realPath = (if 0 < i \<and> i < int (length parts) then path_after i parts else [])
      in if realPath = [] then ''/'' else realPath)"

definition k8sProxyPath :: "string \<Rightarrow> string \<Rightarrow> string \<Rightarrow> string \<Rightarrow> string" where
  "k8sProxyPath ns podName port realPath =
     ''/api/v1/namespaces/'' @ ns @ ''/pods/'' @ podName @ '':'' @ port @ ''/proxy'' @ realPath"

section \<open>Headers\<close>

abbreviation "authorizationHeader \<equiv> ''X-Access-Token''"

definition ws_header_dropped :: "(string \<Rightarrow> string) \<Rightarrow> string \<Rightarrow> bool" where
  "ws_header_dropped ulow key \<longleftrightarrow>
     to_lower ulow key \<in> {''connection'', ''upgrade'', ''sec-websocket-key'', ''sec-websocket-version'',
       ''sec-websocket-extensions'', ''host''}"

definition cloneWebSocketHeaders :: "(string \<Rightarrow> string) \<Rightarrow> header \<Rightarrow> bool \<Rightarrow> header" where
  "cloneWebSocketHeaders ulow src removeAccessToken =
     (let dst = foldl (\<lambda>dst (key, values). if ws_header_dropped ulow key then dst
                        else foldl (\<lambda>d v. header_Add d key v) dst values) [] src
      in if removeAccessToken then header_Del dst authorizationHeader else dst)"

definition isWebSocketUpgrade :: "(string \<Rightarrow> string) \<Rightarrow> http_request \<Rightarrow> bool" where
  "isWebSocketUpgrade ulow req \<longleftrightarrow>
     to_lower ulow (header_Get (rq_Header req) ''Upgrade'') = ''websocket'' \<and>
     contains_str (to_lower ulow (header_Get (rq_Header req) ''Connection'')) ''upgrade''"

definition wsSchemeFromTarget :: "url option \<Rightarrow> string" where
  "wsSchemeFromTarget target =
     (case target of None \<Rightarrow> ''ws''
      | Some u \<Rightarrow> if u_Scheme u = ''https'' \<or> u_Scheme u = ''wss'' then ''wss'' else ''ws'')"

section \<open>The service\<close>

text \<open>
  The collaborators: the Kubernetes client and its configuration (\<open>gw_k8sURL\<close> is the parsed host, \<open>None\<close>
  where it does not parse), dialling a backend (\<open>True\<close> through the API server) and upgrading a client. A failed
  dial may carry the status of the response.
\<close>

datatype dial_result = DialFailed "int option" go_err | Dialed string

record 'k Gateway =
  gw_client :: "'k Client"
  gw_useK8sProxy :: bool
  gw_k8sURL :: "url option"
  gw_bearer :: string
  gw_transport_err :: "go_err option"
  gw_drain :: "DrainManager option"
  gw_sha256 :: "string \<Rightarrow> string"
  gw_ulower :: "string \<Rightarrow> string"
  gw_dial :: "bool \<Rightarrow> url \<Rightarrow> header \<Rightarrow> 'k \<Rightarrow> dial_result \<times> 'k"
  gw_upgrade :: "http_request \<Rightarrow> go_err option"

datatype gw_outcome =
    Respond int string
  | ServeHTTP http_request
  | RelaySession url header string
  | UpgradeFailed

definition isValidPort :: "string \<Rightarrow> bool" where
  "isValidPort port = (case sscanf_d port of Inl _ \<Rightarrow> False | Inr p \<Rightarrow> 1 \<le> p \<and> p \<le> 65535)"

text \<open>A middleware aborts with a response or lets the request pass (\<open>None\<close>).\<close>

definition CORSMiddleware :: "http_request \<Rightarrow> gw_outcome option" where
  "CORSMiddleware req = (if rq_Method req = ''OPTIONS'' then Some (Respond 200 []) else None)"

definition ExtractPortMiddleware :: "string \<Rightarrow> gw_outcome option" where
  "ExtractPortMiddleware port =
     (if port = [] then Some (Respond 400 ''port is required'')
      else if \<not> isValidPort port then Some (Respond 400 ''invalid port number'') else None)"

definition AuthMiddleware :: "'k Gateway \<Rightarrow> string \<Rightarrow> http_request \<Rightarrow> ('k, gw_outcome option) prog" where
  "AuthMiddleware s sandboxID req =
     (let token = header_Get (rq_Header req) authorizationHeader in
      if sandboxID = [] then ret (Some (Respond 400 ''sandbox ID is required''))
      else if token = [] then ret (Some (Respond 401 ''missing access token''))
      else do {
        r \<leftarrow> GetByID sandboxID;
        ret (case r of
          Inl _ \<Rightarrow> Some (Respond 500 ''failed to verify access token'')
        | Inr None \<Rightarrow> Some (Respond 404 ''sandbox not found'')
        | Inr (Some rc) \<Rightarrow>
            if rec_DesiredState rc \<noteq> ''active'' \<or> rec_LifecycleStatus rc = ''deleted'' \<or> rec_LifecycleStatus rc = ''lost''
            then Some (Respond 404 ''sandbox not found'')
            else if HashToken (gw_sha256 s) token \<noteq> rec_AccessTokenSHA256 rc then Some (Respond 401 ''invalid access token'')
            else None) })"

definition gw_draining :: "'k Gateway \<Rightarrow> bool" where
  "gw_draining s = (case gw_drain s of None \<Rightarrow> False | Some m \<Rightarrow> IsDraining m)"

section \<open>The proxy handler\<close>

definition k8s_director :: "'k Gateway \<Rightarrow> url \<Rightarrow> string \<Rightarrow> string \<Rightarrow> http_request \<Rightarrow> http_request" where
  "k8s_director s target sandboxID port req =
     (let req = rewriteRequestURL target req;
          req = (if gw_bearer s \<noteq> [] then req\<lparr>rq_Header := header_Set (rq_Header req) ''Authorization'' (''Bearer '' @ gw_bearer s)\<rparr> else req);
          realPath = k8s_real_path (u_Path (rq_URL req))
      in req\<lparr>rq_URL := (rq_URL req)\<lparr>u_Path := k8sProxyPath (sandboxNS (gw_client s)) (''sandbox-'' @ sandboxID) port realPath\<rparr>,
             rq_Host := u_Host target\<rparr>)"

definition direct_director :: "url \<Rightarrow> http_request \<Rightarrow> http_request" where
  "direct_director target req =
     (let req = rewriteRequestURL target req
      in req\<lparr>rq_URL := (rq_URL req)\<lparr>u_Path := direct_path (u_Path (rq_URL req))\<rparr>,
             rq_Host := u_Host target, rq_Header := header_Del (rq_Header req) authorizationHeader\<rparr>)"

definition dial_header :: "'k Gateway \<Rightarrow> header \<Rightarrow> header" where
  "dial_header s src =
     (if gw_useK8sProxy s then header_Del (cloneWebSocketHeaders (gw_ulower s) src False) ''Authorization''
      else cloneWebSocketHeaders (gw_ulower s) src True)"

definition backend_url :: "'k Gateway \<Rightarrow> url \<Rightarrow> string \<Rightarrow> string \<Rightarrow> http_request \<Rightarrow> url" where
  "backend_url s target sandboxID port req =
     (let realPath = extractTargetPath (u_Path (rq_URL req)) in
      if gw_useK8sProxy s then
        \<lparr>u_Scheme = u_Scheme target, u_Host = u_Host target,
         u_Path = k8sProxyPath (sandboxNS (gw_client s)) (''sandbox-'' @ sandboxID) port realPath,
         u_RawQuery = u_RawQuery (rq_URL req)\<rparr>
      else
        \<lparr>u_Scheme = wsSchemeFromTarget (Some target), u_Host = u_Host target, u_Path = realPath,
         u_RawQuery = u_RawQuery (rq_URL req)\<rparr>)"

definition handleWebSocketUpgrade ::
  "'k Gateway \<Rightarrow> string \<Rightarrow> string \<Rightarrow> http_request \<Rightarrow> url option \<Rightarrow> ('k, gw_outcome) prog" where
  "handleWebSocketUpgrade s sandboxID port req target =
     (case target of
        None \<Rightarrow> ret (Respond 500 ''missing target for websocket proxy'')
      | Some t \<Rightarrow> do {
          let backendURL = backend_url s t sandboxID port req;
          let hdr = dial_header s (rq_Header req);
          d \<leftarrow> kube_call (gw_dial s (gw_useK8sProxy s) backendURL hdr);
          ret (case d of
            DialFailed st e \<Rightarrow> Respond (case st of None \<Rightarrow> 502 | Some code \<Rightarrow> code) (''failed to connect to backend websocket: '' @ err_text e)
          | Dialed protocol \<Rightarrow>
              (case gw_upgrade s req of Some _ \<Rightarrow> UpgradeFailed | None \<Rightarrow> RelaySession backendURL hdr protocol)) })"

text \<open>\<open>targetURL.String()\<close> in the log line panics where the host did not parse.\<close>

definition ProxyHandler :: "'k Gateway \<Rightarrow> string \<Rightarrow> string \<Rightarrow> http_request \<Rightarrow> ('k, gw_outcome res) prog" where
  "ProxyHandler s sandboxID port req =
     (if gw_draining s then retE (Respond 503 ''service is draining'')
      else if gw_useK8sProxy s then
        (case gw_transport_err s of
           Some e \<Rightarrow> retE (Respond 500 (''failed to build k8s transport: '' @ err_text e))
         | None \<Rightarrow>
             if isWebSocketUpgrade (gw_ulower s) req then do {
               r \<leftarrow> handleWebSocketUpgrade s sandboxID port req (gw_k8sURL s); retE r }
             else case gw_k8sURL s of
               None \<Rightarrow> throw (GoPanic ''nil pointer dereference'')
             | Some target \<Rightarrow> retE (ServeHTTP (k8s_director s target sandboxID port req)))
      else do {
        r \<leftarrow> GetPodIP (gw_client s) sandboxID;
        case r of
          Inl _ \<Rightarrow> retE (Respond 404 ''sandbox not found'')
        | Inr podIP \<Rightarrow>
            let target = \<lparr>u_Scheme = ''http'', u_Host = podIP @ '':'' @ port, u_Path = [], u_RawQuery = []\<rparr> in
            if isWebSocketUpgrade (gw_ulower s) req then do {
              x \<leftarrow> handleWebSocketUpgrade s sandboxID port req (Some target); retE x }
            else retE (ServeHTTP (direct_director target req)) })"

text \<open>
  The routes under \<open>/api/v1\<close>: the group's middlewares run, in the order they are registered, for the methods that
  have a route; the router answers any other method itself.
\<close>

definition proxyMethods :: "string list" where
  "proxyMethods = [''GET'', ''POST'', ''PUT'', ''DELETE'', ''PATCH'']"

definition proxy_route :: "'k Gateway \<Rightarrow> string \<Rightarrow> string \<Rightarrow> http_request \<Rightarrow> ('k, gw_outcome res) prog" where
  "proxy_route s sandboxID port req =
     (if rq_Method req \<notin> set proxyMethods then retE (Respond 404 ''404 page not found'')
      else case CORSMiddleware req of Some x \<Rightarrow> retE x | None \<Rightarrow>
        (case ExtractPortMiddleware port of Some x \<Rightarrow> retE x | None \<Rightarrow> do {
          a \<leftarrow> AuthMiddleware s sandboxID req;
          case a of Some x \<Rightarrow> retE x | None \<Rightarrow> ProxyHandler s sandboxID port req }))"

definition readyz :: "'k Gateway \<Rightarrow> gw_outcome" where
  "readyz s = (if gw_draining s then Respond 503 ''draining'' else Respond 200 ''ok'')"

section \<open>Lemmas\<close>

lemma portIndex_skip: "list_all (\<lambda>p. p \<noteq> ''port'') xs \<Longrightarrow> ys \<noteq> [] \<Longrightarrow> portIndex_from i (xs @ ''port'' # ys) = i + int (length xs) + 2"
  by (induction xs arbitrary: i) auto

text \<open>The path of a request the router matched.\<close>

definition routed_path :: "string \<Rightarrow> string \<Rightarrow> string \<Rightarrow> string" where
  "routed_path sandboxID port rest = ''/api/v1/sandbox/'' @ sandboxID @ ''/port/'' @ port @ ''/'' @ rest"

lemma split_routed:
  assumes "CHR ''/'' \<notin> set sandboxID" "CHR ''/'' \<notin> set port"
  shows "split_char (CHR ''/'') (routed_path sandboxID port rest) =
    [[], ''api'', ''v1'', ''sandbox'', sandboxID, ''port'', port] @ split_char (CHR ''/'') rest"
  using split_char_append [OF assms(1), of "''port/'' @ port @ ''/'' @ rest"] split_char_append [OF assms(2), of rest]
  by (simp add: routed_path_def)

lemma routed_rest:
  fixes rest :: string
  assumes "CHR ''/'' \<notin> set sandboxID" "CHR ''/'' \<notin> set port" "sandboxID \<noteq> ''port''"
  defines "parts \<equiv> split_char (CHR ''/'') (routed_path sandboxID port rest)"
  shows "portIndex parts = 7 \<and> 7 < length parts \<and> path_after 7 parts = ''/'' @ rest"
proof -
  have parts: "parts = [[], ''api'', ''v1'', ''sandbox'', sandboxID] @ ''port'' # port # split_char (CHR ''/'') rest"
    unfolding parts_def split_routed [OF assms(1,2)] by simp
  have "portIndex parts = 7"
    unfolding portIndex_def parts by (subst portIndex_skip) (use assms(3) in auto)
  moreover have "7 < length parts"
    using split_char_not_Nil [of "CHR ''/''" rest] by (simp add: parts)
  moreover have "drop 7 parts = split_char (CHR ''/'') rest"
    by (simp add: parts)
  ultimately show ?thesis
    by (simp add: path_after_def join_split)
qed

lemma canonical_access_token: "canonical_key authorizationHeader = authorizationHeader"
  by code_simp

definition clone_step :: "(string \<Rightarrow> string) \<Rightarrow> header \<Rightarrow> string \<times> string list \<Rightarrow> header" where
  "clone_step ulow dst kv = (if ws_header_dropped ulow (fst kv) then dst else foldl (\<lambda>d v. header_Add d (fst kv) v) dst (snd kv))"

lemma clone_step_fold:
  assumes "parsed_header src" "\<forall>k \<in> fst ` set src. map_of dst k = None"
  shows "map_of (foldl (clone_step ulow) dst src) k =
    (if ws_header_dropped ulow k \<or> map_of src k = None then map_of dst k else map_of src k)"
  using assms
proof (induction src arbitrary: dst)
  case (Cons kv src)
  obtain key vs where kv: "kv = (key, vs)" "canonical_key key = key" "vs \<noteq> []"
    using Cons.prems(1) by (cases kv) (auto simp: parsed_header_def)
  have new: "key \<notin> fst ` set src" "map_of dst key = None" "map_of src key = None"
    using Cons.prems kv(1) by (auto simp: parsed_header_def map_of_eq_None_iff)
  define dst' where "dst' = clone_step ulow dst kv"
  have dst': "map_of dst' k' = (if k' = key \<and> \<not> ws_header_dropped ulow key then Some vs else map_of dst k')" for k'
    using new(2) by (auto simp: dst'_def clone_step_def kv(1) header_adds [OF kv(2,3)])
  have "\<forall>k \<in> fst ` set src. map_of dst' k = None"
    using Cons.prems(2) new(1) by (auto simp: dst' kv(1))
  then have "map_of (foldl (clone_step ulow) dst' src) k =
      (if ws_header_dropped ulow k \<or> map_of src k = None then map_of dst' k else map_of src k)"
    using Cons.IH [of dst'] Cons.prems(1) by (simp add: parsed_header_def)
  moreover have "foldl (clone_step ulow) dst (kv # src) = foldl (clone_step ulow) dst' src"
    by (simp add: dst'_def)
  ultimately show ?case
    using kv(1) new by (auto simp: dst')
qed simp

lemma wp_handleWebSocketUpgrade:
  assumes "\<And>r k. (case r of RelaySession u h p \<Rightarrow> (\<exists>t. target = Some t \<and> u = backend_url s t sid port req) \<and> h = dial_header s (rq_Header req)
      | ServeHTTP _ \<Rightarrow> False | _ \<Rightarrow> True) \<Longrightarrow> Q r (w\<lparr>kube := k\<rparr>)"
  shows "wp (handleWebSocketUpgrade s sid port req target) Q w"
proof (cases target)
  case None
  then show ?thesis
    using assms [of "Respond 500 ''missing target for websocket proxy''" "kube w"]
    by (simp add: handleWebSocketUpgrade_def wp_simps)
next
  case (Some t)
  then show ?thesis
    by (auto simp: handleWebSocketUpgrade_def wp_simps Let_def split: prod.split dial_result.split option.split intro!: assms)
qed

text \<open>What the gateway has to know of a request before it goes on: the token of a row that is in use.\<close>

definition authorised :: "'k Gateway \<Rightarrow> string \<Rightarrow> http_request \<Rightarrow> tables \<Rightarrow> bool" where
  "authorised s sandboxID req t \<longleftrightarrow>
     (\<exists>r. lookup rec_ID sandboxID (sandboxes t) = Some r \<and> rec_DesiredState r = DesiredStateActive \<and>
          rec_LifecycleStatus r \<notin> {''deleted'', ''lost''} \<and> header_Get (rq_Header req) authorizationHeader \<noteq> [] \<and>
          rec_AccessTokenSHA256 r = HashToken (gw_sha256 s) (header_Get (rq_Header req) authorizationHeader))"

fun passed_on :: "gw_outcome \<Rightarrow> bool" where
  "passed_on (ServeHTTP q) = True"
| "passed_on (RelaySession u h p) = True"
| "passed_on _ = False"

fun sent_to :: "gw_outcome \<Rightarrow> url \<times> header" where
  "sent_to (ServeHTTP q) = (rq_URL q, rq_Header q)"
| "sent_to (RelaySession u h p) = (u, h)"
| "sent_to _ = (\<lparr>u_Scheme = [], u_Host = [], u_Path = [], u_RawQuery = []\<rparr>, [])"

text \<open>A request that goes straight to a pod: its address, the rest of the path, and no access token.\<close>

definition sent_to_pod :: "string \<Rightarrow> string \<Rightarrow> string \<Rightarrow> url \<times> header \<Rightarrow> bool" where
  "sent_to_pod podIP port path x \<longleftrightarrow>
     u_Host (fst x) = podIP @ '':'' @ port \<and> u_Path (fst x) = path \<and> header_Get (snd x) authorizationHeader = []"

text \<open>An address the client resolves for the sandbox in this state of the cluster.\<close>

definition pod_address :: "'k Client \<Rightarrow> string \<Rightarrow> 'k \<Rightarrow> string \<Rightarrow> bool" where
  "pod_address c sid k podIP \<longleftrightarrow> (\<exists>v v'. run_state (GetPodIP c sid) v = (Inr podIP, v') \<and> kube v = k)"

lemma wp_Auth:
  assumes "authorised s sid req (db w) \<Longrightarrow> (\<And>v. db v = db w \<Longrightarrow> kube v = kube w \<Longrightarrow> Q None v)"
    and "\<And>x v. \<not> passed_on x \<Longrightarrow> db v = db w \<Longrightarrow> Q (Some x) v"
  shows "wp (AuthMiddleware s sid req) Q w"
  using assms
  by (auto simp: AuthMiddleware_def Let_def wp_simps GetByID_def wp_sql_stmt authorised_def split: prod.split option.split)

lemma ko_GetPodIP: "state_io_rel db_same (GetPodIP c sid)"
  unfolding GetPodIP_def by (intro ko_basic ko_getSandboxPod)

lemma direct_sent_to_pod:
  fixes podIP :: string
  assumes "u_Path (rq_URL req) = routed_path sid port rest" "CHR ''/'' \<notin> set sid" "CHR ''/'' \<notin> set port" "sid \<noteq> ''port''"
  defines "target \<equiv> \<lparr>u_Scheme = ''http'', u_Host = podIP @ '':'' @ port, u_Path = [], u_RawQuery = []\<rparr>"
  shows "sent_to_pod podIP port (''/'' @ rest) (rq_URL (direct_director target req), rq_Header (direct_director target req)) \<and>
    (\<not> gw_useK8sProxy s \<longrightarrow> sent_to_pod podIP port (''/'' @ rest) (backend_url s target sid port req, dial_header s (rq_Header req)))"
proof -
  have "singleJoiningSlash [] (routed_path sid port rest) = routed_path sid port rest"
    by (simp add: singleJoiningSlash_def routed_path_def has_suffix_def has_prefix_def)
  moreover have "direct_path (routed_path sid port rest) = ''/'' @ rest" "extractTargetPath (routed_path sid port rest) = ''/'' @ rest"
    using routed_rest [OF assms(2-4), of rest] by (simp_all add: direct_path_def extractTargetPath_def Let_def)
  ultimately show ?thesis
    using assms(1) header_Del_Get
    by (simp add: sent_to_pod_def direct_director_def rewriteRequestURL_def target_def Let_def backend_url_def dial_header_def
        cloneWebSocketHeaders_def)
qed

section \<open>Properties\<close>


text \<open>A gateway over the sample cluster, and a request to the pod in it.\<close>

definition sample_gateway :: "cluster Gateway" where
  "sample_gateway =
     \<lparr>gw_client = sample_client, gw_useK8sProxy = False, gw_k8sURL = None, gw_bearer = [], gw_transport_err = None,
      gw_drain = Some NewDrainManager, gw_sha256 = (\<lambda>x. x), gw_ulower = (\<lambda>x. x),
      gw_dial = (\<lambda>k8s u h k. (Dialed [], k)), gw_upgrade = (\<lambda>req. None)\<rparr>"

definition sample_http :: "string \<Rightarrow> http_request" where
  "sample_http token =
     \<lparr>rq_Method = ''GET'', rq_URL = \<lparr>u_Scheme = [], u_Host = [], u_Path = routed_path ''abc'' ''80'' ''index.html'', u_RawQuery = []\<rparr>,
      rq_Host = ''gateway'', rq_Header = [(''X-Access-Token'', [token])]\<rparr>"

definition gateway_world :: "cluster world" where
  "gateway_world = sample_world [(sample_row ''abc'')\<lparr>rec_AccessTokenSHA256 := HashToken (\<lambda>x. x) ''secret''\<rparr>] [sample_pod ''abc'']"

lemma sample_port: "isValidPort ''80''"
proof -
  have "show_nat 80 = ''80''"
    by (simp add: show_nat.simps digit_char_def char_of_def bit_0)
  then show ?thesis
    using sscanf_d_number [of "[]" 80] by (simp add: isValidPort_def)
qed

lemma header_Get_token: "header_Get [(''X-Access-Token'', [t])] ''X-Access-Token'' = t"
  using canonical_access_token by (simp add: header_Get_def)

lemma sample_not_upgrade: "\<not> isWebSocketUpgrade (\<lambda>x. x) (sample_http t)"
proof -
  have "canonical_key ''Upgrade'' = ''Upgrade''"
    by code_simp
  then show ?thesis
    by (simp add: isWebSocketUpgrade_def sample_http_def header_Get_def to_lower_def is_ascii_def)
qed

lemma sample_passes:
  "wp (proxy_route sample_gateway ''abc'' ''80'' (sample_http ''secret'')) (\<lambda>r _. \<exists>q. r = Inr (ServeHTTP q)) gateway_world"
  by (simp add: proxy_route_def proxyMethods_def CORSMiddleware_def ExtractPortMiddleware_def sample_port AuthMiddleware_def
      Let_def wp_simps GetByID_def wp_sql_stmt gateway_world_def sample_http_def header_Get_token sample_row_def lookup_def
      ProxyHandler_def gw_draining_def sample_gateway_def NewDrainManager_def IsDraining_def GetPodIP_def getSandboxPod_def
      sample_client_def sample_world_def find_named_def sample_pod_def meta_def sample_not_upgrade [unfolded sample_http_def])


text \<open>
  A port is accepted exactly when it starts with a number between 1 and 65535: whatever follows the digits is
  not looked at, so \<open>80abc\<close> is a valid port and goes into the address of the backend as it is.
\<close>

theorem isValidPort_number:
  assumes "rest = [] \<or> \<not> is_digit (hd rest)"
  shows "isValidPort (show_nat n @ rest) \<longleftrightarrow> 1 \<le> n \<and> n \<le> 65535"
proof -
  have "isValidPort (show_nat n @ rest) \<longleftrightarrow> n < 2 ^ 63 \<and> 1 \<le> n \<and> n \<le> 65535"
    unfolding isValidPort_def sscanf_d_number [OF assms] by (auto split: if_splits)
  then show ?thesis
    by auto
qed

theorem isValidPort_number_witness:
  "isValidPort ''80'' \<and> isValidPort ''80abc'' \<and> \<not> isValidPort ''65536''"
proof -
  have "show_nat 80 = ''80''" "show_nat 65536 = ''65536''"
    by (simp_all add: show_nat.simps digit_char_def char_of_def bit_0)
  then show ?thesis
    using isValidPort_number [of "[]" 80] isValidPort_number [of "''abc''" 80] isValidPort_number [of "[]" 65536]
    by (simp add: is_digit_def)
qed

text \<open>
  The path the sandbox sees is what follows the port in the path of the request, whatever bytes it has, and the
  three places of the code that compute it agree.
\<close>

theorem routed_path_stripped:
  assumes "CHR ''/'' \<notin> set sandboxID" "CHR ''/'' \<notin> set port" "sandboxID \<noteq> ''port''"
  shows "extractTargetPath (routed_path sandboxID port rest) = ''/'' @ rest \<and>
    direct_path (routed_path sandboxID port rest) = ''/'' @ rest \<and>
    k8s_real_path (routed_path sandboxID port rest) = ''/'' @ rest"
  using routed_rest [OF assms, of rest]
  by (simp add: extractTargetPath_def direct_path_def k8s_real_path_def Let_def)

theorem routed_path_stripped_witness:
  "extractTargetPath (routed_path ''3f2a9c1b'' ''8080'' ''port/a/?b'') = ''/port/a/?b''"
  using routed_path_stripped [of "''3f2a9c1b''" "''8080''" "''port/a/?b''"] by simp

text \<open>
  A websocket request reaches the backend with every header of the client, in all its values, except the
  ones of the handshake and, in direct mode, the access token of the sandbox.
\<close>

theorem ws_headers_forwarded:
  assumes "parsed_header src"
  shows "map_of (cloneWebSocketHeaders ulow src removeAccessToken) k =
    (if ws_header_dropped ulow k \<or> removeAccessToken \<and> k = authorizationHeader then None else map_of src k)"
  using clone_step_fold [OF assms, of "[]" ulow k]
  by (auto simp: cloneWebSocketHeaders_def Let_def header_Del_def canonical_access_token AList.delete_conv'
      clone_step_def [abs_def] case_prod_unfold)

theorem ws_headers_forwarded_witness:
  "map_of (cloneWebSocketHeaders (\<lambda>x. x) [(''X-Access-Token'', [''t'']), (''Upgrade'', [''websocket'']), (''Cookie'', [''a'', ''b''])] True) ''Cookie'' =
   Some [''a'', ''b'']"
proof -
  have "parsed_header [(''X-Access-Token'', [''t'']), (''Upgrade'', [''websocket'']), (''Cookie'', [''a'', ''b''])]"
    by code_simp
  moreover have "\<not> ws_header_dropped (\<lambda>x. x) ''Cookie''"
    by code_simp
  ultimately show ?thesis
    using ws_headers_forwarded [of "[(''X-Access-Token'', [''t'']), (''Upgrade'', [''websocket'']), (''Cookie'', [''a'', ''b''])]" "\<lambda>x. x" True "''Cookie''"]
    by simp
qed

end
