(* ===== verification/Backend.thy ===== *)
theory Backend
  imports Deletion Sandbox_Lifecycle Template_History Gateway
begin

text \<open>
  The backend as a whole: any sequence of requests, background tasks, cleaner, reconciler and deletion passes and
  template operations, over one database and one cluster, and the gateway that reads the same rows. The
  operations of the components respect whatever the writes of the store respect (\<open>store_client\<close>); here this is
  used for the invariants of the tables and for what a row keeps over its life.
\<close>

section \<open>The operations\<close>

datatype backend_op =
    CreateSandbox CreateSandboxRequest
  | BackgroundTask PostCreationTask nat
  | DeleteSandbox string
  | RestartSandbox string
  | StopSandbox string
  | StartSandbox string
  | ExpireSandboxes
  | PurgeHistory duration
  | ReconcilePass string
  | DeletionPass
  | TemplateRequest template_op

record 'k backend =
  b_sandboxes :: "'k SandboxService"
  b_reconciler :: "'k SandboxReconcileService"
  b_quantity :: "string \<Rightarrow> go_err option"
  b_yaml :: YamlCodec

fun backend_step :: "'k backend \<Rightarrow> backend_op \<Rightarrow> ('k, unit) prog" where
  "backend_step b (CreateSandbox req) = do { _ \<leftarrow> SandboxService_Create (b_sandboxes b) req; ret () }"
| "backend_step b (BackgroundTask task n) = runPostCreationTasks (b_sandboxes b) task n"
| "backend_step b (DeleteSandbox sid) = do { _ \<leftarrow> SandboxService_Delete (b_sandboxes b) sid; ret () }"
| "backend_step b (RestartSandbox sid) = do { _ \<leftarrow> SandboxService_Restart (b_sandboxes b) sid; ret () }"
| "backend_step b (StopSandbox sid) = do { _ \<leftarrow> SandboxService_Stop (b_sandboxes b) sid; ret () }"
| "backend_step b (StartSandbox sid) = do { _ \<leftarrow> SandboxService_Start (b_sandboxes b) sid; ret () }"
| "backend_step b ExpireSandboxes = cleanExpiredSandboxes"
| "backend_step b (PurgeHistory retention) = cleanHistoricalData retention"
| "backend_step b (ReconcilePass trigger) = do { _ \<leftarrow> Run (b_reconciler b) trigger; ret () }"
| "backend_step b DeletionPass = do { _ \<leftarrow> RunPending (k8sClient (b_sandboxes b)); ret () }"
| "backend_step b (TemplateRequest op) = template_step (b_quantity b) (ulower (b_sandboxes b)) (b_yaml b) op"

definition backend_run :: "'k backend \<Rightarrow> backend_op list \<Rightarrow> 'k world \<Rightarrow> 'k world" where
  "backend_run b ops w = snd (run_state (for_each (backend_step b) ops) w)"

fun is_purge :: "backend_op \<Rightarrow> bool" where
  "is_purge (PurgeHistory d) = True"
| "is_purge op = False"

fun is_template_op :: "backend_op \<Rightarrow> bool" where
  "is_template_op (TemplateRequest op) = True"
| "is_template_op op = False"

section \<open>Lemmas\<close>

context store_client
begin

lemma sandbox_op_rel:
  "\<not> is_purge op \<Longrightarrow> \<not> is_template_op op \<Longrightarrow> state_io_rel (db_rel r) (backend_step b op)"
  by (cases op) (auto intro!: io_program service_rel tasks_rel Run_rel RunPending_rel)

end

context store_purger
begin

lemma any_sandbox_op_rel: "\<not> is_template_op op \<Longrightarrow> state_io_rel (db_rel r) (backend_step b op)"
  using sandbox_op_rel [of op b] cleaner_rel by (cases op) auto

end

text \<open>The templates are not touched by the sandbox side, nor the sandboxes by the template side.\<close>

definition same_templates :: "tables \<Rightarrow> tables \<Rightarrow> bool" where
  "same_templates t t' \<longleftrightarrow> templates t' = templates t \<and> template_versions t' = template_versions t"

interpretation st: store_purger same_templates
  by unfold_locales
     (auto simp: same_templates_def update_sandbox_def purge_items_def purge_runs_def purge_history_def purge_sandboxes_def Let_def)

definition same_sandboxes :: "tables \<Rightarrow> tables \<Rightarrow> bool" where
  "same_sandboxes t t' \<longleftrightarrow> t'\<lparr>templates := [], template_versions := []\<rparr> = t\<lparr>templates := [], template_versions := []\<rparr>"

interpretation ss: table_preorder same_sandboxes
  by unfold_locales (auto simp: same_sandboxes_def)

lemma ss_writes:
  "insert_template tpl t = Some (u, t') \<Longrightarrow> same_sandboxes t t'"
  "insert_version v t = Some (u', t') \<Longrightarrow> same_sandboxes t t'"
  "same_sandboxes t (update_template tid f t)"
  "same_sandboxes t (snd (delete_template name t))"
  by (auto simp: same_sandboxes_def insert_template_def insert_version_def update_template_def delete_template_def Let_def split: if_splits)

lemma ss_store:
  "state_io_rel (db_rel same_sandboxes) (TemplateStore_Create req)"
  "state_io_rel (db_rel same_sandboxes) (TemplateStore_Update name ureq)"
  "state_io_rel (db_rel same_sandboxes) (TemplateStore_Rollback name target changelog)"
  "state_io_rel (db_rel same_sandboxes) (TemplateStore_Get name)"
  "state_io_rel (db_rel same_sandboxes) (TemplateStore_Exists name)"
  unfolding TemplateStore_Create_def TemplateStore_Update_def TemplateStore_Rollback_def TemplateStore_Get_def
    TemplateStore_GetVersion_def TemplateStore_Exists_def generateID_prefix_def Let_def
  by (intro ss.io_program io_sql_stmt; auto simp: ss.table_refl intro: ss_writes)+

lemma ss_Delete: "state_io_rel (db_rel same_sandboxes) (TemplateStore_Delete name)"
  unfolding TemplateStore_Delete_def
proof (intro ss.io_structure io_sql_stmt)
  fix t a t'
  assume "Some (delete_template name t) = Some (a, t')"
  then show "same_sandboxes t t'"
    using ss_writes(4) [of t name] by simp
qed (rule ss.table_refl)

interpretation ss_import: import_preorder same_sandboxes qerr ulow for qerr ulow
  by unfold_locales
     (unfold TemplateService_Create_def TemplateService_Update_def, (intro ss.io_program ss_store)+)

lemma ss_step: "state_io_rel (db_rel same_sandboxes) (template_step qerr ulow yc op)"
  by (cases op)
     (auto simp: TemplateService_Rollback_def TemplateService_Delete_def
       intro!: ss.io_program ss_store ss_Delete ss_import.import_rel ss_import.create_rel ss_import.update_rel)

lemma ss_fields:
  assumes "same_sandboxes t t'"
  shows "sandboxes t' = sandboxes t" "status_history t' = status_history t" "reconcile_runs t' = reconcile_runs t"
    "reconcile_items t' = reconcile_items t" "next_history_id t' = next_history_id t" "next_item_id t' = next_item_id t"
  using assms unfolding same_sandboxes_def by (cases t; cases t'; simp)+

lemma tables_ok_cong: "same_sandboxes t t' \<Longrightarrow> tables_ok t' \<longleftrightarrow> tables_ok t"
  by (simp add: tables_ok_def sandbox_tables_ok_def run_tables_ok_def ss_fields)

lemma template_inv_cong: "same_templates t t' \<Longrightarrow> template_inv qerr ulow t' \<longleftrightarrow> template_inv qerr ulow t"
  by (simp add: template_inv_def templates_ok_def specs_ok_def same_templates_def versions_of_def)

definition backend_inv :: "'k backend \<Rightarrow> tables \<Rightarrow> bool" where
  "backend_inv b t \<longleftrightarrow> tables_ok t \<and> template_inv (b_quantity b) (ulower (b_sandboxes b)) t"

interpretation bi: table_preorder "keeps (backend_inv b)" for b
  by unfold_locales (auto simp: keeps_def)

lemma io_both:
  "state_io_rel (db_rel r1) m \<Longrightarrow> state_io_rel (db_rel r2) m \<Longrightarrow> (\<And>t t'. r1 t t' \<Longrightarrow> r2 t t' \<Longrightarrow> r t t') \<Longrightarrow>
   state_io_rel (db_rel r) m"
  by (simp add: state_io_rel_def db_rel_def)

lemma backend_step_inv: "state_io_rel (db_rel (keeps (backend_inv b))) (backend_step b op)"
proof (cases "is_template_op op")
  case True
  then obtain o' where o': "op = TemplateRequest o'"
    by (cases op) auto
  have "state_io_rel (db_rel (keeps (backend_inv b)))
      (template_step (b_quantity b) (ulower (b_sandboxes b)) (b_yaml b) o')"
    by (rule io_both [OF ss_step inv_step]) (auto simp: keeps_def backend_inv_def tables_ok_cong)
  then show ?thesis
    by (simp add: o')
next
  case False
  show ?thesis
    by (rule io_both [OF st.any_sandbox_op_rel [OF False] wf_purger.any_sandbox_op_rel [OF False]])
       (auto simp: keeps_def backend_inv_def template_inv_cong)
qed

section \<open>What a row keeps over its life\<close>

definition birth :: "SandboxRecord \<Rightarrow> string list \<times> int list \<times> bool" where
  "birth r = ([rec_TemplateName r, rec_Image r, rec_CPU r, rec_Memory r, rec_EnvJSON r, rec_AccessTokenCiphertext r,
      rec_AccessTokenNonce r, rec_AccessTokenSHA256 r, rec_VolumeClaimName r, rec_RuntimeName r],
     [rec_TemplateVersion r, rec_TTL r, rec_CreatedAt r], rec_PersistenceEnabled r)"

definition ages :: "SandboxRecord \<Rightarrow> SandboxRecord \<Rightarrow> bool" where
  "ages r r' \<longleftrightarrow> birth r' = birth r \<and> (rec_DesiredState r = DesiredStateDeleted \<longrightarrow> rec_DesiredState r' = DesiredStateDeleted)"

definition rows_age :: "tables \<Rightarrow> tables \<Rightarrow> bool" where
  "rows_age t t' \<longleftrightarrow> (\<forall>sid r. lookup rec_ID sid (sandboxes t) = Some r \<longrightarrow>
     (\<exists>r'. lookup rec_ID sid (sandboxes t') = Some r' \<and> ages r r'))"

lemma ages_refl: "ages r r"
  by (simp add: ages_def)

lemma ages_write: "row_write g u \<Longrightarrow> ages r (if g r then u r else r)"
  by (erule row_write.cases) (auto simp: ages_def birth_def row_defs)

lemma rows_age_same: "sandboxes t' = sandboxes t \<Longrightarrow> rows_age t t'"
  by (auto simp: rows_age_def ages_refl)

lemma rows_age_write:
  assumes "row_write g u"
  shows "rows_age t (update_sandbox sid g u t)"
proof -
  have u: "sandbox_update u"
    by unfold_locales (rule row_write_id [OF assms])
  have "\<exists>r'. lookup rec_ID j (sandboxes (update_sandbox sid g u t)) = Some r' \<and> ages r r'"
    if "lookup rec_ID j (sandboxes t) = Some r" for j r
    using that ages_write [OF assms, of r] ages_refl [of r]
      sandbox_update.lookup_upd [OF u, of sid g t] sandbox_update.lookup_upd_other [OF u, of j sid g t]
    by (cases "j = sid") auto
  then show ?thesis
    by (simp add: rows_age_def)
qed

lemma rows_age_trans:
  assumes "rows_age t u" "rows_age u v"
  shows "rows_age t v"
  unfolding rows_age_def
proof (intro allI impI)
  fix sid r
  assume "lookup rec_ID sid (sandboxes t) = Some r"
  then obtain r1 where "lookup rec_ID sid (sandboxes u) = Some r1" "ages r r1"
    using assms(1) by (auto simp: rows_age_def)
  moreover from this obtain r2 where "lookup rec_ID sid (sandboxes v) = Some r2" "ages r1 r2"
    using assms(2) by (auto simp: rows_age_def)
  ultimately show "\<exists>r'. lookup rec_ID sid (sandboxes v) = Some r' \<and> ages r r'"
    by (auto simp: ages_def)
qed

lemma rows_age_insert: "rows_age t (t\<lparr>sandboxes := sandboxes t @ [x]\<rparr>)"
proof -
  have "lookup rec_ID sid (xs @ [x]) = Some r" if "lookup rec_ID sid xs = Some r" for sid r and xs :: "SandboxRecord list"
    using that by (induction xs) (auto simp: lookup_def split: if_splits)
  then show ?thesis
    by (auto simp: rows_age_def ages_refl)
qed

interpretation ra: store_client rows_age
  by unfold_locales (auto intro: rows_age_trans rows_age_write rows_age_insert rows_age_same)

lemma backend_step_ages: "\<not> is_purge op \<Longrightarrow> state_io_rel (db_rel rows_age) (backend_step b op)"
proof (cases "is_template_op op")
  case True
  then obtain o' where o': "op = TemplateRequest o'"
    by (cases op) auto
  have "state_io_rel (db_rel rows_age) (template_step (b_quantity b) (ulower (b_sandboxes b)) (b_yaml b) o')"
    by (rule io_both [OF ss_step ss_step]) (auto intro: rows_age_same ss_fields)
  then show ?thesis
    by (simp add: o')
qed (rule ra.sandbox_op_rel)

lemma backend_run_ages: "list_all (\<lambda>op. \<not> is_purge op) ops \<Longrightarrow> rows_age (db w) (db (backend_run b ops w))"
proof -
  assume "list_all (\<lambda>op. \<not> is_purge op) ops"
  then have "state_io_rel (db_rel rows_age) (for_each (backend_step b) ops)"
    by (intro ra.io_for_each backend_step_ages) (simp add: list_all_iff)
  from io_relD [OF this, of w] show ?thesis
    by (simp add: backend_run_def db_rel_def)
qed

section \<open>The gateway and the rows\<close>

lemma Auth_passes_iff:
  assumes "sid \<noteq> []" "db_faults w = []"
  shows "fst (run_state (AuthMiddleware g sid q) w) = None \<longleftrightarrow> authorised g sid q (db w)"
proof -
  have "wp (AuthMiddleware g sid q) (\<lambda>x _. x = None \<longleftrightarrow> authorised g sid q (db w)) w"
    using assms by (auto simp: AuthMiddleware_def Let_def wp_simps GetByID_def wp_sql_stmt authorised_def split: option.split)
  then show ?thesis
    by (simp add: wp_alt)
qed

lemma Auth_passes_authorised: "fst (run_state (AuthMiddleware g sid q) w) = None \<Longrightarrow> authorised g sid q (db w)"
proof -
  have "wp (AuthMiddleware g sid q) (\<lambda>x _. x = None \<longrightarrow> authorised g sid q (db w)) w"
    by (rule wp_Auth) auto
  then show "fst (run_state (AuthMiddleware g sid q) w) = None \<Longrightarrow> authorised g sid q (db w)"
    by (simp add: wp_alt)
qed

lemma created_row:
  assumes "create_outcome s req rows (Inr (sb, task)) rows'"
  obtains r where "lookup rec_ID (sb_ID sb) rows' = Some r" "rec_DesiredState r = DesiredStateActive"
    "rec_LifecycleStatus r \<notin> {''deleted'', ''lost''}" "rec_AccessTokenSHA256 r = HashToken (sha256 s) (sb_AccessToken sb)"
proof -
  obtain r where r: "rows' = rows @ [r]" "rec_ID r \<notin> rec_ID ` set rows" "created s req r sb task"
    using assms by (auto simp: create_outcome_def)
  then have "lookup rec_ID (sb_ID sb) rows' = Some r"
    by (simp add: created_def lookup_append_new)
  with r(3) that show ?thesis
    by (auto simp: created_def)
qed

lemma deleted_row:
  assumes "lookup rec_ID sid (sandboxes (db w)) = Some r"
    and "rec_DesiredState r = DesiredStateDeleted \<or> rec_LifecycleStatus r \<notin> {''terminating'', ''deleted''}"
    and "run_state (SandboxService_Delete s sid) w = (Inr sb, w1)"
  shows "\<exists>r'. lookup rec_ID sid (sandboxes (db w1)) = Some r' \<and> rec_DesiredState r' = DesiredStateDeleted"
proof (cases "rec_DesiredState r = DesiredStateDeleted")
  case True
  then show ?thesis
    using Delete_again [OF assms(1) True, of s] assms(1,3) by (simp add: wp_def)
next
  case False
  then show ?thesis
    using Delete_ok [OF assms(1) False, of s] assms(2,3) by (auto simp: wp_def MarkDeletionRequested_row_def)
qed

end
