(* ===== verification/Prepull.thy ===== *)
theory Prepull
  imports Sample_Cluster Template_Service Token_Cipher
begin

text \<open>
  Image prepulls: \<open>store/prepull.go\<close>, the jobs of \<open>k8s/client.go\<close>, \<open>service/prepull.go\<close> and \<open>handler/prepull.go\<close>. A
  prepull is a row and a Kubernetes job that pulls the image on as many pods as there are ready nodes; the status
  of the row follows the job until it has finished.
\<close>

section \<open>The store (store/prepull.go)\<close>

definition insert_prepull :: "ImagePrepull \<Rightarrow> tables \<Rightarrow> (unit \<times> tables) option" where
  "insert_prepull p t =
     (if pp_ID p \<in> pp_ID ` set (image_prepulls t) then None
      else Some ((), t\<lparr>image_prepulls := image_prepulls t @ [p]\<rparr>))"

definition PrepullStore_Create :: "string \<Rightarrow> string \<Rightarrow> string \<Rightarrow> ('k, ImagePrepull res) prog" where
  "PrepullStore_Create img imageHash template = do {
     u \<leftarrow> new_uuid;
     now \<leftarrow> time_now;
     let prepull = \<lparr>pp_ID = ''pp-'' @ take 8 u, pp_Image = img, pp_ImageHash = imageHash, pp_Status = PrepullStatusPending,
       pp_ReadyNodes = 0, pp_TotalNodes = 0, pp_Error = [], pp_Template = template, pp_StartedAt = now, pp_CompletedAt = None\<rparr>;
     seqE (sql_stmt ''failed to create prepull record'' (insert_prepull prepull)) (\<lambda>_. retE prepull) }"

definition PrepullStore_Get :: "string \<Rightarrow> ('k, ImagePrepull option res) prog" where
  "PrepullStore_Get pid = sql_query ''failed to get prepull'' (\<lambda>t. lookup pp_ID pid (image_prepulls t))"

text \<open>\<open>LIMIT 1\<close> of the rows that satisfy a condition, latest first.\<close>

definition latest_prepull :: "(ImagePrepull \<Rightarrow> bool) \<Rightarrow> tables \<Rightarrow> ImagePrepull option" where
  "latest_prepull P t = (case order_by_desc pp_StartedAt (filter P (image_prepulls t)) of [] \<Rightarrow> None | p # _ \<Rightarrow> Some p)"

definition PrepullStore_GetByImage :: "string \<Rightarrow> ('k, ImagePrepull option res) prog" where
  "PrepullStore_GetByImage img =
     sql_query ''failed to get prepull by image'' (latest_prepull (\<lambda>p. pp_Image p = img))"

definition prepull_active :: "ImagePrepull \<Rightarrow> bool" where
  "prepull_active p \<longleftrightarrow> pp_Status p = PrepullStatusPending \<or> pp_Status p = PrepullStatusPulling"

definition PrepullStore_GetActiveByImage :: "string \<Rightarrow> ('k, ImagePrepull option res) prog" where
  "PrepullStore_GetActiveByImage img =
     sql_query ''failed to get active prepull'' (latest_prepull (\<lambda>p. pp_Image p = img \<and> prepull_active p))"

definition PrepullStore_List :: "string \<Rightarrow> string \<Rightarrow> ('k, ImagePrepull list res) prog" where
  "PrepullStore_List img status =
     sql_query ''failed to list prepulls'' (\<lambda>t. order_by_desc pp_StartedAt
       (filter (\<lambda>p. (img \<noteq> [] \<longrightarrow> pp_Image p = img) \<and> (status \<noteq> [] \<longrightarrow> pp_Status p = status)) (image_prepulls t)))"

definition prepull_finished :: "string \<Rightarrow> bool" where
  "prepull_finished status \<longleftrightarrow> status = PrepullStatusCompleted \<or> status = PrepullStatusFailed"

definition UpdateStatus_prepull_row :: "string \<Rightarrow> int \<Rightarrow> int \<Rightarrow> string \<Rightarrow> time option \<Rightarrow> ImagePrepull \<Rightarrow> ImagePrepull" where
  "UpdateStatus_prepull_row status readyNodes totalNodes errMsg completedAt p =
     p\<lparr>pp_Status := status, pp_ReadyNodes := readyNodes, pp_TotalNodes := totalNodes, pp_Error := errMsg, pp_CompletedAt := completedAt\<rparr>"

definition PrepullStore_UpdateStatus :: "string \<Rightarrow> string \<Rightarrow> int \<Rightarrow> int \<Rightarrow> string \<Rightarrow> ('k, unit res) prog" where
  "PrepullStore_UpdateStatus pid status readyNodes totalNodes errMsg = do {
     completedAt \<leftarrow> (if prepull_finished status then do { now \<leftarrow> time_now; ret (Some now) } else ret None);
     sql_exec ''failed to update prepull status'' (\<lambda>t. t\<lparr>image_prepulls := update_where (\<lambda>p. pp_ID p = pid)
       (UpdateStatus_prepull_row status readyNodes totalNodes errMsg completedAt) (image_prepulls t)\<rparr>) }"

definition PrepullStore_Delete :: "string \<Rightarrow> ('k, unit res) prog" where
  "PrepullStore_Delete pid = sql_exec ''failed to delete prepull'' (\<lambda>t.
     t\<lparr>image_prepulls := delete_where (\<lambda>p. pp_ID p = pid) (image_prepulls t)\<rparr>)"

section \<open>Jobs (k8s/client.go)\<close>

record Job =
  job_Meta :: ObjectMeta
  job_Parallelism :: int
  job_Completions :: int
  job_BackoffLimit :: int
  job_TTLSecondsAfterFinished :: int
  job_TemplateLabels :: str_map
  job_PodSpec :: PodSpec
  job_Succeeded :: int
  job_Failed :: int

record Node =
  node_Name :: string
  node_Conditions :: "Condition list"

record 'k JobAPI =
  nodes_List :: "'k \<Rightarrow> Node list res \<times> 'k"
  jobs_Create :: "string \<Rightarrow> Job \<Rightarrow> 'k \<Rightarrow> Job res \<times> 'k"
  jobs_Get :: "string \<Rightarrow> string \<Rightarrow> 'k \<Rightarrow> Job res \<times> 'k"
  jobs_List :: "string \<Rightarrow> str_map \<Rightarrow> 'k \<Rightarrow> Job list res \<times> 'k"
  jobs_Delete :: "string \<Rightarrow> string \<Rightarrow> 'k \<Rightarrow> unit res \<times> 'k"

abbreviation "LabelPrepull \<equiv> ''liteboxd-prepull''"
abbreviation "LabelPrepullImage \<equiv> ''prepull-image-hash''"

definition GetNodeCount :: "'k JobAPI \<Rightarrow> ('k, int res) prog" where
  "GetNodeCount j =
     seqE (mapE (Wrap ''failed to list nodes'') (kube_call (nodes_List j))) (\<lambda>nodes. retE (int (length nodes)))"

definition isNodeReady :: "Node \<Rightarrow> bool" where
  "isNodeReady n =
     (case find (\<lambda>c. cond_Type c = ''Ready'') (node_Conditions n) of None \<Rightarrow> False | Some c \<Rightarrow> cond_Status c = ''True'')"

definition to_int32 :: "int \<Rightarrow> int" where
  "to_int32 n = sint (word_of_int n :: 32 word)"

definition prepull_parallelism :: "'k JobAPI \<Rightarrow> ('k, int) prog" where
  "prepull_parallelism j = do {
     nodes \<leftarrow> GetNodeCount j;
     case nodes of
       Inl _ \<Rightarrow> ret 1
     | Inr n \<Rightarrow>
         if n > 0 then do {
           l \<leftarrow> kube_call (nodes_List j);
           let readyNodes = (case l of Inl _ \<Rightarrow> 0 | Inr ns \<Rightarrow> int (length (filter isNodeReady ns)));
           ret (if readyNodes > 0 then to_int32 readyNodes else 1) }
         else ret 1 }"

definition job_name :: "string \<Rightarrow> string" where
  "job_name pid = ''prepull-'' @ pid"

definition prepull_labels :: "string \<Rightarrow> string \<Rightarrow> str_map" where
  "prepull_labels pid imageHash = [(''app'', LabelPrepull), (LabelPrepullImage, imageHash), (''job-name'', job_name pid)]"

definition prepull_container :: "string \<Rightarrow> Container" where
  "prepull_container img =
     \<lparr>c_Name = ''prepull'', c_Image = img, c_ImagePullPolicy = ''IfNotPresent'',
      c_Command = [''sh'', ''-c'', ''echo '' @ [CHR 0x27] @ ''Image pulled successfully'' @ [CHR 0x27] @ '' && sleep 5''], c_Args = [], c_Env = [],
      c_Limits = [(''cpu'', ''100m''), (''memory'', ''64Mi'')], c_Requests = [(''cpu'', ''10m''), (''memory'', ''16Mi'')],
      c_Privileged = None, c_AllowPrivilegeEscalation = None, c_VolumeMounts = []\<rparr>"

definition prepull_job :: "'k Client \<Rightarrow> string \<Rightarrow> string \<Rightarrow> string \<Rightarrow> int \<Rightarrow> Job" where
  "prepull_job c pid img imageHash parallelism =
     \<lparr>job_Meta = meta (job_name pid) (sandboxNS c) (Some (prepull_labels pid imageHash))
        [(''liteboxd.io/prepull-id'', pid), (''liteboxd.io/prepull-image'', img)],
      job_Parallelism = parallelism, job_Completions = parallelism, job_BackoffLimit = 0, job_TTLSecondsAfterFinished = 300,
      job_TemplateLabels = prepull_labels pid imageHash,
      job_PodSpec = \<lparr>spec_AutomountServiceAccountToken = Some False, spec_RestartPolicy = ''Never'',
        spec_TerminationGracePeriodSeconds = None, spec_ShareProcessNamespace = None,
        spec_Tolerations = [(''node.kubernetes.io/not-ready'', ''Exists''), (''node.kubernetes.io/unreachable'', ''Exists''),
          (''node.kubernetes.io/memory-pressure'', ''Exists'')],
        spec_SeccompProfile = [], spec_InitContainers = [], spec_Containers = [prepull_container img], spec_Volumes = []\<rparr>,
      job_Succeeded = 0, job_Failed = 0\<rparr>"

definition CreatePrepullDaemonSet :: "'k Client \<Rightarrow> 'k JobAPI \<Rightarrow> string \<Rightarrow> string \<Rightarrow> string \<Rightarrow> ('k, unit res) prog" where
  "CreatePrepullDaemonSet c j pid img imageHash = do {
     parallelism \<leftarrow> prepull_parallelism j;
     seqE (mapE (Wrap ''failed to create prepull job'')
             (kube_call (jobs_Create j (sandboxNS c) (prepull_job c pid img imageHash parallelism)))) (\<lambda>_. retE ()) }"

definition GetPrepullDaemonSet :: "'k Client \<Rightarrow> 'k JobAPI \<Rightarrow> string \<Rightarrow> ('k, Job res) prog" where
  "GetPrepullDaemonSet c j pid = kube_call (jobs_Get j (sandboxNS c) (job_name pid))"

definition ListPrepullDaemonSets :: "'k Client \<Rightarrow> 'k JobAPI \<Rightarrow> ('k, Job list res) prog" where
  "ListPrepullDaemonSets c j = kube_call (jobs_List j (sandboxNS c) [(''app'', LabelPrepull)])"

definition DeletePrepullDaemonSet :: "'k Client \<Rightarrow> 'k JobAPI \<Rightarrow> string \<Rightarrow> ('k, unit res) prog" where
  "DeletePrepullDaemonSet c j pid = kube_call (jobs_Delete j (sandboxNS c) (job_name pid))"

record PrepullStatus =
  DesiredNodes :: int
  ReadyNodes :: int
  IsComplete :: bool

definition job_complete :: "Job \<Rightarrow> bool" where
  "job_complete job \<longleftrightarrow> job_Succeeded job > 0 \<and> job_Succeeded job \<ge> job_Completions job"

definition job_status :: "Job \<Rightarrow> PrepullStatus" where
  "job_status job = \<lparr>DesiredNodes = job_Parallelism job, ReadyNodes = job_Succeeded job, IsComplete = job_complete job\<rparr>"

definition GetPrepullStatus :: "'k Client \<Rightarrow> 'k JobAPI \<Rightarrow> string \<Rightarrow> ('k, PrepullStatus res) prog" where
  "GetPrepullStatus c j pid = seqE (GetPrepullDaemonSet c j pid) (\<lambda>job. retE (job_status job))"

definition Client_IsImagePrepulled :: "'k Client \<Rightarrow> 'k JobAPI \<Rightarrow> string \<Rightarrow> ('k, bool res) prog" where
  "Client_IsImagePrepulled c j img =
     seqE (ListPrepullDaemonSets c j) (\<lambda>jobs. retE (list_ex (\<lambda>job.
       (case map_of (om_Annotations (job_Meta job)) ''liteboxd.io/prepull-image'' of None \<Rightarrow> [] | Some x \<Rightarrow> x) = img \<and>
       job_complete job) jobs))"

section \<open>The service (service/prepull.go)\<close>

record 'k PrepullService =
  pps_client :: "'k Client"
  pps_jobs :: "'k JobAPI"
  pps_sha256 :: "string \<Rightarrow> string"

definition hashImage :: "(string \<Rightarrow> string) \<Rightarrow> string \<Rightarrow> string" where
  "hashImage sha img = take 12 (hex_encode (sha img))"

definition PrepullService_Create :: "'k PrepullService \<Rightarrow> string \<Rightarrow> string \<Rightarrow> ('k, ImagePrepull res) prog" where
  "PrepullService_Create s reqImage template =
     (let img = trim_space reqImage in
      if img = [] then throw (Msg ''image is required'')
      else seqE (PrepullStore_GetActiveByImage img) (\<lambda>active.
        case active of
          Some p \<Rightarrow> throw (Msg (''prepull already in progress for image '' @ [CHR 0x27] @ img @ [CHR 0x27] @ '' (id: '' @ pp_ID p @ '')''))
        | None \<Rightarrow>
            let imageHash = hashImage (pps_sha256 s) img in
            seqE (PrepullStore_Create img imageHash template) (\<lambda>prepull. do {
              n \<leftarrow> GetNodeCount (pps_jobs s);
              let nodeCount = (case n of Inl _ \<Rightarrow> 0 | Inr x \<Rightarrow> x);
              let prepull = prepull\<lparr>pp_TotalNodes := nodeCount\<rparr>;
              r \<leftarrow> CreatePrepullDaemonSet (pps_client s) (pps_jobs s) (pp_ID prepull) img imageHash;
              case r of
                Inl e \<Rightarrow> do {
                  _ \<leftarrow> PrepullStore_UpdateStatus (pp_ID prepull) PrepullStatusFailed 0 nodeCount (err_text e);
                  retE (prepull\<lparr>pp_Status := PrepullStatusFailed, pp_Error := err_text e\<rparr>) }
              | Inr _ \<Rightarrow> do {
                  _ \<leftarrow> PrepullStore_UpdateStatus (pp_ID prepull) PrepullStatusPulling 0 nodeCount [];
                  retE (prepull\<lparr>pp_Status := PrepullStatusPulling\<rparr>) } })))"

definition updateStatusFromK8s :: "'k PrepullService \<Rightarrow> ImagePrepull \<Rightarrow> ('k, ImagePrepull) prog" where
  "updateStatusFromK8s s prepull = do {
     r \<leftarrow> GetPrepullStatus (pps_client s) (pps_jobs s) (pp_ID prepull);
     case r of
       Inl e \<Rightarrow>
         if contains_str (err_text e) ''not found'' then do {
           _ \<leftarrow> PrepullStore_UpdateStatus (pp_ID prepull) PrepullStatusFailed 0 0 ''DaemonSet not found'';
           ret (prepull\<lparr>pp_Status := PrepullStatusFailed, pp_Error := ''DaemonSet not found''\<rparr>) }
         else ret prepull
     | Inr status \<Rightarrow>
         let prepull = prepull\<lparr>pp_ReadyNodes := ReadyNodes status, pp_TotalNodes := DesiredNodes status\<rparr> in
         if IsComplete status then do {
           now \<leftarrow> time_now;
           _ \<leftarrow> PrepullStore_UpdateStatus (pp_ID prepull) PrepullStatusCompleted (ReadyNodes status) (DesiredNodes status) [];
           ret (prepull\<lparr>pp_Status := PrepullStatusCompleted, pp_CompletedAt := Some now\<rparr>) }
         else do {
           _ \<leftarrow> PrepullStore_UpdateStatus (pp_ID prepull) PrepullStatusPulling (ReadyNodes status) (DesiredNodes status) [];
           ret prepull } }"

definition refresh :: "'k PrepullService \<Rightarrow> ImagePrepull \<Rightarrow> ('k, ImagePrepull) prog" where
  "refresh s p = (if prepull_active p then updateStatusFromK8s s p else ret p)"

definition PrepullService_Get :: "'k PrepullService \<Rightarrow> string \<Rightarrow> ('k, ImagePrepull option res) prog" where
  "PrepullService_Get s pid =
     seqE (PrepullStore_Get pid) (\<lambda>r. case r of None \<Rightarrow> retE None | Some p \<Rightarrow> do { q \<leftarrow> refresh s p; retE (Some q) })"

record PrepullProgress =
  prg_Ready :: int
  prg_Total :: int

record PrepullResponse =
  ppr_ID :: string
  ppr_Image :: string
  ppr_Status :: string
  ppr_Progress :: PrepullProgress
  ppr_Template :: string
  ppr_Error :: string
  ppr_StartedAt :: time
  ppr_CompletedAt :: "time option"

definition ToPrepullResponse :: "ImagePrepull \<Rightarrow> PrepullResponse" where
  "ToPrepullResponse p =
     \<lparr>ppr_ID = pp_ID p, ppr_Image = pp_Image p, ppr_Status = pp_Status p,
      ppr_Progress = \<lparr>prg_Ready = pp_ReadyNodes p, prg_Total = pp_TotalNodes p\<rparr>, ppr_Template = pp_Template p,
      ppr_Error = pp_Error p, ppr_StartedAt = pp_StartedAt p, ppr_CompletedAt = pp_CompletedAt p\<rparr>"

fun refresh_all :: "'k PrepullService \<Rightarrow> ImagePrepull list \<Rightarrow> ('k, ImagePrepull list) prog" where
  "refresh_all s [] = ret []"
| "refresh_all s (p # ps) = do { q \<leftarrow> refresh s p; qs \<leftarrow> refresh_all s ps; ret (q # qs) }"

definition PrepullService_List :: "'k PrepullService \<Rightarrow> string \<Rightarrow> string \<Rightarrow> ('k, PrepullResponse list res) prog" where
  "PrepullService_List s img status =
     seqE (PrepullStore_List img status) (\<lambda>items. do { qs \<leftarrow> refresh_all s items; retE (map ToPrepullResponse qs) })"

definition PrepullService_Delete :: "'k PrepullService \<Rightarrow> string \<Rightarrow> ('k, unit res) prog" where
  "PrepullService_Delete s pid =
     seqE (PrepullStore_Get pid) (\<lambda>r.
       case r of
         None \<Rightarrow> throw (Msg ''prepull not found'')
       | Some _ \<Rightarrow> do {
           d \<leftarrow> DeletePrepullDaemonSet (pps_client s) (pps_jobs s) pid;
           case d of
             Inl e \<Rightarrow> if \<not> contains_str (err_text e) ''not found'' then throw (Wrap ''failed to delete daemonset'' e)
                      else PrepullStore_Delete pid
           | Inr _ \<Rightarrow> PrepullStore_Delete pid })"

definition PrepullTemplateImage :: "'k PrepullService \<Rightarrow> string \<Rightarrow> string \<Rightarrow> ('k, ImagePrepull res) prog" where
  "PrepullTemplateImage s templateName img = PrepullService_Create s img templateName"

definition update_listed :: "'k PrepullService \<Rightarrow> string \<Rightarrow> ('k, unit) prog" where
  "update_listed s status = do {
     r \<leftarrow> PrepullStore_List [] status;
     case r of
       Inl _ \<Rightarrow> ret ()
     | Inr items \<Rightarrow> for_each (\<lambda>p. do { _ \<leftarrow> updateStatusFromK8s s p; ret () }) items }"

definition updateAllActiveStatuses :: "'k PrepullService \<Rightarrow> ('k, unit) prog" where
  "updateAllActiveStatuses s = do { update_listed s PrepullStatusPending; update_listed s PrepullStatusPulling }"

definition CleanupCompletedPrepulls :: "'k PrepullService \<Rightarrow> duration \<Rightarrow> ('k, unit res) prog" where
  "CleanupCompletedPrepulls s olderThan =
     seqE (PrepullStore_List [] PrepullStatusCompleted) (\<lambda>items. do {
       now \<leftarrow> time_now;
       let cutoff = now - olderThan;
       for_each (\<lambda>p.
         case pp_CompletedAt p of
           None \<Rightarrow> ret ()
         | Some c \<Rightarrow> if c < cutoff then do { _ \<leftarrow> DeletePrepullDaemonSet (pps_client s) (pps_jobs s) (pp_ID p); ret () } else ret ()) items;
       retE () })"

definition PrepullService_IsImagePrepulled :: "string \<Rightarrow> ('k, bool) prog" where
  "PrepullService_IsImagePrepulled img = do {
     r \<leftarrow> PrepullStore_List img PrepullStatusCompleted;
     ret (case r of
       Inl _ \<Rightarrow> False
     | Inr items \<Rightarrow> list_ex (\<lambda>p. pp_Image p = img \<and> pp_ReadyNodes p > 0 \<and> pp_ReadyNodes p \<ge> pp_TotalNodes p) items) }"

section \<open>The handlers (handler/prepull.go)\<close>

text \<open>A response: the status, the code of the error, and the body where the request succeeded.\<close>

datatype prepull_reply = PrepullError int string | PrepullAccepted PrepullResponse | PrepullItems "PrepullResponse list" | NoContent

definition create_reply :: "ImagePrepull res \<Rightarrow> prepull_reply" where
  "create_reply r =
     (case r of
        Inl e \<Rightarrow> if contains_str (err_text e) ''already in progress'' then PrepullError 409 ''PREPULL_IN_PROGRESS''
                 else PrepullError 400 ''INVALID_REQUEST''
      | Inr p \<Rightarrow> PrepullAccepted (ToPrepullResponse p))"

text \<open>The binding of the request requires an image.\<close>

definition CreatePrepull :: "'k PrepullService \<Rightarrow> string \<Rightarrow> ('k, prepull_reply) prog" where
  "CreatePrepull s img =
     (if img = [] then ret (PrepullError 400 ''INVALID_REQUEST'')
      else do { r \<leftarrow> PrepullService_Create s img []; ret (create_reply r) })"

definition ListPrepulls :: "'k PrepullService \<Rightarrow> string \<Rightarrow> string \<Rightarrow> ('k, prepull_reply) prog" where
  "ListPrepulls s img status = do {
     r \<leftarrow> PrepullService_List s img status;
     ret (case r of Inl _ \<Rightarrow> PrepullError 500 ''INTERNAL_ERROR'' | Inr xs \<Rightarrow> PrepullItems xs) }"

definition DeletePrepull :: "'k PrepullService \<Rightarrow> string \<Rightarrow> ('k, prepull_reply) prog" where
  "DeletePrepull s pid = do {
     r \<leftarrow> PrepullService_Delete s pid;
     ret (case r of
       Inl e \<Rightarrow> if contains_str (err_text e) ''not found'' then PrepullError 404 ''PREPULL_NOT_FOUND'' else PrepullError 500 ''INTERNAL_ERROR''
     | Inr _ \<Rightarrow> NoContent) }"

definition PrepullTemplate :: "'k PrepullService \<Rightarrow> string \<Rightarrow> ('k, prepull_reply) prog" where
  "PrepullTemplate s name = do {
     t \<leftarrow> TemplateService_Get name;
     case t of
       Inl _ \<Rightarrow> ret (PrepullError 500 ''INTERNAL_ERROR'')
     | Inr None \<Rightarrow> ret (PrepullError 404 ''TEMPLATE_NOT_FOUND'')
     | Inr (Some (_, spec)) \<Rightarrow>
         if (case spec of None \<Rightarrow> True | Some x \<Rightarrow> ts_Image x = []) then ret (PrepullError 400 ''INVALID_REQUEST'')
         else do { r \<leftarrow> PrepullTemplateImage s name (ts_Image (the spec)); ret (create_reply r) } }"

section \<open>The phases of a prepull\<close>

definition set_prepull :: "string \<Rightarrow> string \<Rightarrow> int \<Rightarrow> int \<Rightarrow> string \<Rightarrow> time option \<Rightarrow> tables \<Rightarrow> tables" where
  "set_prepull pid st rn tn em ca t =
     t\<lparr>image_prepulls := update_where (\<lambda>p. pp_ID p = pid) (UpdateStatus_prepull_row st rn tn em ca) (image_prepulls t)\<rparr>"

text \<open>
  What may happen to the rows: a pending row for an image without an active one; progress of an active row, with a
  completion time exactly where it has finished; the deletion of rows.
\<close>

inductive prepull_step :: "tables \<Rightarrow> tables \<Rightarrow> bool" where
  new: "insert_prepull p t = Some ((), t') \<Longrightarrow> pp_Status p = PrepullStatusPending \<Longrightarrow> pp_CompletedAt p = None \<Longrightarrow>
    latest_prepull (\<lambda>q. pp_Image q = pp_Image p \<and> prepull_active q) t = None \<Longrightarrow> prepull_step t t'"
| progress: "lookup pp_ID pid (image_prepulls t) = Some p \<Longrightarrow> prepull_active p \<Longrightarrow>
    st \<in> {PrepullStatusPulling, PrepullStatusCompleted, PrepullStatusFailed} \<Longrightarrow> (ca = None \<longleftrightarrow> \<not> prepull_finished st) \<Longrightarrow>
    prepull_step t (set_prepull pid st rn tn em ca t)"
| remove: "prepull_step t (t\<lparr>image_prepulls := delete_where (\<lambda>p. pp_ID p = pid) (image_prepulls t)\<rparr>)"

inductive_cases prepull_stepE: "prepull_step t t'"

definition prepull_row_ok :: "ImagePrepull \<Rightarrow> bool" where
  "prepull_row_ok p \<longleftrightarrow> (prepull_active p \<or> prepull_finished (pp_Status p)) \<and> (pp_CompletedAt p = None \<longleftrightarrow> prepull_active p)"

definition prepull_ok :: "tables \<Rightarrow> bool" where
  "prepull_ok t \<longleftrightarrow> distinct (map pp_ID (image_prepulls t)) \<and>
     distinct (map pp_Image (filter prepull_active (image_prepulls t))) \<and>
     list_all prepull_row_ok (image_prepulls t)"

interpretation prepull_row: row_update pp_ID "\<lambda>_. True" "UpdateStatus_prepull_row st rn tn em ca" for st rn tn em ca
  by unfold_locales (simp add: UpdateStatus_prepull_row_def)

lemma latest_None: "latest_prepull P t = None \<longleftrightarrow> (\<forall>q \<in> set (image_prepulls t). \<not> P q)"
proof -
  define xs where "xs = order_by_desc pp_StartedAt (filter P (image_prepulls t))"
  have "set xs = {q \<in> set (image_prepulls t). P q}"
    by (simp add: xs_def)
  then have "xs = [] \<longleftrightarrow> (\<forall>q \<in> set (image_prepulls t). \<not> P q)"
    by (metis (mono_tags, lifting) empty_iff mem_Collect_eq set_empty ex_in_conv)
  then show ?thesis
    unfolding latest_prepull_def xs_def [symmetric] by (cases xs) simp_all
qed

lemma finished_active: "prepull_finished (pp_Status p) \<Longrightarrow> \<not> prepull_active p"
  by (auto simp: prepull_finished_def prepull_active_def)

lemma active_after_progress:
  assumes "distinct (map pp_ID xs)" "distinct (map pp_Image (filter prepull_active xs))" "lookup pp_ID pid xs = Some p" "prepull_active p"
  shows "distinct (map pp_Image (filter prepull_active (update_where (\<lambda>p. pp_ID p = pid) (UpdateStatus_prepull_row st rn tn em ca) xs))) \<and>
    set (map pp_Image (filter prepull_active (update_where (\<lambda>p. pp_ID p = pid) (UpdateStatus_prepull_row st rn tn em ca) xs))) \<subseteq>
      set (map pp_Image (filter prepull_active xs))"
  using assms
proof (induction xs)
  case (Cons x xs)
  let ?f = "update_where (\<lambda>p. pp_ID p = pid) (UpdateStatus_prepull_row st rn tn em ca)"
  show ?case
  proof (cases "pp_ID x = pid")
    case True
    then have "pid \<notin> pp_ID ` set xs"
      using Cons.prems(1) by auto
    then have "?f xs = xs"
      unfolding update_where_def by (intro map_idI) auto
    moreover have "x = p"
      using True Cons.prems(3) by (simp add: lookup_def)
    ultimately have "?f (x # xs) = UpdateStatus_prepull_row st rn tn em ca p # xs"
      using True by (simp add: update_where_def)
    moreover have "pp_Image (UpdateStatus_prepull_row st rn tn em ca p) = pp_Image p"
      by (simp add: UpdateStatus_prepull_row_def)
    ultimately show ?thesis
      using \<open>x = p\<close> Cons.prems(2,4) by (cases "prepull_active (UpdateStatus_prepull_row st rn tn em ca p)") auto
  next
    case False
    then have "lookup pp_ID pid xs = Some p"
      using Cons.prems(3) by (simp add: lookup_def)
    moreover have "distinct (map pp_Image (filter prepull_active xs))"
      using Cons.prems(2) by (simp split: if_splits)
    ultimately have ih: "distinct (map pp_Image (filter prepull_active (?f xs)))"
      "set (map pp_Image (filter prepull_active (?f xs))) \<subseteq> set (map pp_Image (filter prepull_active xs))"
      using Cons.IH Cons.prems(1,4) by simp_all
    have "?f (x # xs) = x # ?f xs"
      using False by (simp add: update_where_def)
    then show ?thesis
      using ih Cons.prems(2) by (cases "prepull_active x") auto
  qed
qed (simp add: lookup_def)

lemma prepull_step_ok: "prepull_step t t' \<Longrightarrow> prepull_ok t \<Longrightarrow> prepull_ok t'"
proof (erule prepull_step.cases)
  fix p u u'
  assume a: "prepull_ok t" "t = u" "t' = u'" "insert_prepull p u = Some ((), u')" "pp_Status p = PrepullStatusPending" "pp_CompletedAt p = None"
    "latest_prepull (\<lambda>q. pp_Image q = pp_Image p \<and> prepull_active q) u = None"
  have new: "pp_ID p \<notin> pp_ID ` set (image_prepulls t)"
    using a(2,4) by (simp add: insert_prepull_def split: if_splits)
  then have eq: "image_prepulls t' = image_prepulls t @ [p]"
    using a(2,3,4) by (auto simp: insert_prepull_def)
  have none: "\<forall>q \<in> set (image_prepulls t). \<not> (pp_Image q = pp_Image p \<and> prepull_active q)"
    using a(7) unfolding latest_None a(2) .
  have p: "prepull_active p" "pp_CompletedAt p = None"
    using a(5,6) by (simp_all add: prepull_active_def)
  note ok = a(1)
  have "pp_Image p \<notin> pp_Image ` set (filter prepull_active (image_prepulls t))"
    using none by auto
  then show "prepull_ok t'"
    using ok new p unfolding prepull_ok_def eq by (simp add: prepull_row_ok_def)
next
  fix pid u p st ca rn tn em
  assume a: "prepull_ok t" "t = u" "t' = set_prepull pid st rn tn em ca u" "lookup pp_ID pid (image_prepulls u) = Some p" "prepull_active p"
    "st \<in> {PrepullStatusPulling, PrepullStatusCompleted, PrepullStatusFailed}" "(ca = None) = (\<not> prepull_finished st)"
  have "prepull_row_ok (UpdateStatus_prepull_row st rn tn em ca q)" for q
    using a(6,7) by (auto simp: prepull_row_ok_def UpdateStatus_prepull_row_def prepull_active_def prepull_finished_def)
  then have "list_all prepull_row_ok (update_where (\<lambda>p. pp_ID p = pid) (UpdateStatus_prepull_row st rn tn em ca) (image_prepulls u))"
    using a(1,2) by (auto simp: prepull_ok_def list_all_iff set_update_where)
  then show "prepull_ok t'"
    using a active_after_progress [of "image_prepulls u" pid p st rn tn em ca] prepull_row.keys_kept [of pid st rn tn em ca "image_prepulls u"]
    by (simp add: prepull_ok_def set_prepull_def)
next
  fix u pid
  assume "prepull_ok t" "t = u" "t' = u\<lparr>image_prepulls := delete_where (\<lambda>p. pp_ID p = pid) (image_prepulls u)\<rparr>"
  moreover have "distinct (map pp_Image (filter prepull_active (filter P xs)))" if "distinct (map pp_Image (filter prepull_active xs))" for P xs
    using that by (induction xs) auto
  ultimately show "prepull_ok t'"
    by (auto simp: prepull_ok_def list_all_iff delete_where_def distinct_map_filter)
qed

lemma prepull_steps_ok: "prepull_step\<^sup>*\<^sup>* t t' \<Longrightarrow> prepull_ok t \<Longrightarrow> prepull_ok t'"
  by (induction rule: rtranclp_induct) (auto intro: prepull_step_ok)

section \<open>Every operation follows the phases\<close>

interpretation frozen: table_preorder "(=)"
  by unfold_locales auto

lemma wp_frozen: "state_io_rel (db_rel (=)) m \<Longrightarrow> wp m (\<lambda>_ v. db v = db w) w"
  by (drule io_rel_wp [of _ _ w]) (erule wp_mono, simp add: db_rel_def)

lemma frozen_calls:
  "state_io_rel (db_rel (=)) (GetNodeCount j)"
  "state_io_rel (db_rel (=)) (CreatePrepullDaemonSet c j pid img h)"
  "state_io_rel (db_rel (=)) (GetPrepullStatus c j pid)"
  "state_io_rel (db_rel (=)) (DeletePrepullDaemonSet c j pid)"
  unfolding CreatePrepullDaemonSet_def prepull_parallelism_def GetNodeCount_def GetPrepullStatus_def GetPrepullDaemonSet_def
    DeletePrepullDaemonSet_def
  by (intro frozen.io_program)+

definition row_progresses :: "string \<Rightarrow> tables \<Rightarrow> tables \<Rightarrow> bool" where
  "row_progresses pid t t' \<longleftrightarrow> t' = t \<or>
     (\<exists>st rn tn em ca. st \<in> {PrepullStatusPulling, PrepullStatusCompleted, PrepullStatusFailed} \<and>
        (ca = None \<longleftrightarrow> \<not> prepull_finished st) \<and> t' = set_prepull pid st rn tn em ca t)"

lemma moves_steps:
  "row_progresses pid t t' \<Longrightarrow> lookup pp_ID pid (image_prepulls t) = Some p \<Longrightarrow> prepull_active p \<Longrightarrow> prepull_step\<^sup>*\<^sup>* t t'"
  by (auto simp: row_progresses_def intro: prepull_step.progress)

lemma moves_other: "row_progresses pid t t' \<Longrightarrow> q \<noteq> pid \<Longrightarrow> lookup pp_ID q (image_prepulls t') = lookup pp_ID q (image_prepulls t)"
  by (auto simp: row_progresses_def set_prepull_def prepull_row.lookup_other [simplified])

lemma wp_UpdateStatus:
  assumes "st \<in> {PrepullStatusPulling, PrepullStatusCompleted, PrepullStatusFailed}"
  shows "wp (PrepullStore_UpdateStatus pid st rn tn em) (\<lambda>_ v. row_progresses pid (db w) (db v)) w"
proof -
  have upd: "wp (sql_exec ''failed to update prepull status'' (\<lambda>t. t\<lparr>image_prepulls := update_where (\<lambda>p. pp_ID p = pid)
       (UpdateStatus_prepull_row st rn tn em ca) (image_prepulls t)\<rparr>)) (\<lambda>_ v. row_progresses pid (db w) (db v)) v"
    if "db v = db w" "ca = None \<longleftrightarrow> \<not> prepull_finished st" for v ca
  proof (rule wp_stmt_db)
    show "row_progresses pid (db w) (db (v\<lparr>db_faults := fs\<rparr>))" for fs
      using that(1) by (simp add: row_progresses_def)
    have "row_progresses pid (db w) (set_prepull pid st rn tn em ca (db w))"
      unfolding row_progresses_def using assms that(2) by blast
    then show "row_progresses pid (db w) (db (v\<lparr>db_faults := fs, db := t\<rparr>))"
      if "Some ((), (db v)\<lparr>image_prepulls := update_where (\<lambda>p. pp_ID p = pid) (UpdateStatus_prepull_row st rn tn em ca) (image_prepulls (db v))\<rparr>) =
          Some (a, t)" for a t fs
      using that \<open>db v = db w\<close> by (simp add: set_prepull_def)
  qed
  then show ?thesis
    unfolding PrepullStore_UpdateStatus_def wp_bind wp_if by (auto simp: wp_bind wp_time_now wp_ret intro!: upd)
qed

lemma wp_updateStatus: "wp (updateStatusFromK8s s p) (\<lambda>_ v. row_progresses (pp_ID p) (db w) (db v)) w"
  unfolding updateStatusFromK8s_def wp_bind
proof (rule wp_mono [OF wp_frozen [OF frozen_calls(3)]])
  fix r :: "PrepullStatus res" and v :: "'a world"
  assume v: "db v = db w"
  have step: "wp (PrepullStore_UpdateStatus (pp_ID p) st rn tn em) (\<lambda>_ v. row_progresses (pp_ID p) (db w) (db v)) z"
    if "db z = db w" "st \<in> {PrepullStatusPulling, PrepullStatusCompleted, PrepullStatusFailed}" for st rn tn em and z :: "'a world"
    using wp_UpdateStatus [OF that(2), of "pp_ID p" rn tn em z] that(1) by simp
  have same: "row_progresses (pp_ID p) (db w) (db v)"
    using v by (simp add: row_progresses_def)
  show "wp (case r of
      Inl e \<Rightarrow> if contains_str (err_text e) ''not found'' then do {
           _ \<leftarrow> PrepullStore_UpdateStatus (pp_ID p) PrepullStatusFailed 0 0 ''DaemonSet not found'';
           ret (p\<lparr>pp_Status := PrepullStatusFailed, pp_Error := ''DaemonSet not found''\<rparr>) }
         else ret p
    | Inr status \<Rightarrow>
         let q = p\<lparr>pp_ReadyNodes := ReadyNodes status, pp_TotalNodes := DesiredNodes status\<rparr> in
         if IsComplete status then do {
           now \<leftarrow> time_now;
           _ \<leftarrow> PrepullStore_UpdateStatus (pp_ID q) PrepullStatusCompleted (ReadyNodes status) (DesiredNodes status) [];
           ret (q\<lparr>pp_Status := PrepullStatusCompleted, pp_CompletedAt := Some now\<rparr>) }
         else do {
           _ \<leftarrow> PrepullStore_UpdateStatus (pp_ID q) PrepullStatusPulling (ReadyNodes status) (DesiredNodes status) [];
           ret q }) (\<lambda>_ v. row_progresses (pp_ID p) (db w) (db v)) v"
    using v same by (cases r) (auto simp: Let_def wp_bind wp_ret wp_time_now intro!: step)
qed

text \<open>Rows that were listed and are still stored as they were listed, where they are active.\<close>

definition stored_rows :: "tables \<Rightarrow> ImagePrepull list \<Rightarrow> bool" where
  "stored_rows t ps \<longleftrightarrow> distinct (map pp_ID ps) \<and> (\<forall>p \<in> set ps. prepull_active p \<longrightarrow> lookup pp_ID (pp_ID p) (image_prepulls t) = Some p)"

lemma listed_moves: "stored_rows t (p # ps) \<Longrightarrow> row_progresses (pp_ID p) t t' \<Longrightarrow> stored_rows t' ps"
proof -
  assume l: "stored_rows t (p # ps)" and m: "row_progresses (pp_ID p) t t'"
  have "pp_ID p \<notin> pp_ID ` set ps"
    using l by (simp add: stored_rows_def)
  then have "pp_ID q \<noteq> pp_ID p" if "q \<in> set ps" for q
    using that by (metis image_eqI)
  then have "lookup pp_ID (pp_ID q) (image_prepulls t') = lookup pp_ID (pp_ID q) (image_prepulls t)" if "q \<in> set ps" for q
    using moves_other [OF m] that by blast
  then show "stored_rows t' ps"
    using l by (simp add: stored_rows_def)
qed

lemma listed_rows: "prepull_ok t \<Longrightarrow> stored_rows t (order_by_desc pp_StartedAt (filter P (image_prepulls t)))"
  by (auto simp: stored_rows_def prepull_ok_def distinct_map_filter intro: lookup_unique)

lemma wp_refresh_step:
  assumes "stored_rows (db w) (p # ps)"
  shows "wp (refresh s p) (\<lambda>_ v. prepull_step\<^sup>*\<^sup>* (db w) (db v) \<and> stored_rows (db v) ps) w"
proof (cases "prepull_active p")
  case True
  show ?thesis
    unfolding refresh_def if_P [OF True]
    by (rule wp_mono [OF wp_updateStatus]) (use assms True in \<open>auto simp: stored_rows_def [of _ "p # ps"] intro: moves_steps listed_moves [OF assms]\<close>)
next
  case False
  then show ?thesis
    using assms by (simp add: refresh_def wp_ret stored_rows_def)
qed

lemma wp_refresh_all: "stored_rows (db w) ps \<Longrightarrow> wp (refresh_all s ps) (\<lambda>_ v. prepull_step\<^sup>*\<^sup>* (db w) (db v)) w"
proof (induction ps arbitrary: w)
  case (Cons p ps)
  show ?case
    unfolding refresh_all.simps wp_bind
  proof (rule wp_mono [OF wp_refresh_step [OF Cons.prems]])
    fix q and v :: "'a world"
    assume v: "prepull_step\<^sup>*\<^sup>* (db w) (db v) \<and> stored_rows (db v) ps"
    show "wp (refresh_all s ps) (\<lambda>qs. wp (ret (q # qs)) (\<lambda>_ z. prepull_step\<^sup>*\<^sup>* (db w) (db z))) v"
      by (rule wp_mono [OF Cons.IH]) (use v in \<open>auto simp: wp_ret intro: rtranclp_trans\<close>)
  qed
qed (simp add: wp_ret)

lemma wp_update_items:
  "stored_rows (db w) ps \<Longrightarrow> list_all prepull_active ps \<Longrightarrow>
   wp (for_each (\<lambda>p. do { _ \<leftarrow> updateStatusFromK8s s p; ret () }) ps) (\<lambda>_ v. prepull_step\<^sup>*\<^sup>* (db w) (db v)) w"
proof (induction ps arbitrary: w)
  case (Cons p ps)
  then have r: "refresh s p = updateStatusFromK8s s p"
    by (simp add: refresh_def)
  show ?case
    unfolding for_each.simps wp_bind
  proof (rule wp_mono [OF wp_refresh_step [OF Cons.prems(1), of s, unfolded r]])
    fix q and v :: "'a world"
    assume v: "prepull_step\<^sup>*\<^sup>* (db w) (db v) \<and> stored_rows (db v) ps"
    have "wp (for_each (\<lambda>p. do { _ \<leftarrow> updateStatusFromK8s s p; ret () }) ps) (\<lambda>_ z. prepull_step\<^sup>*\<^sup>* (db w) (db z)) v"
      by (rule wp_mono [OF Cons.IH]) (use v Cons.prems(2) in \<open>auto intro: rtranclp_trans\<close>)
    then show "wp (ret ()) (\<lambda>_. wp (for_each (\<lambda>p. do { _ \<leftarrow> updateStatusFromK8s s p; ret () }) ps) (\<lambda>_ z. prepull_step\<^sup>*\<^sup>* (db w) (db z))) v"
      by (simp add: wp_ret)
  qed
qed (simp add: wp_ret)

lemma wp_store_Create:
  assumes "latest_prepull (\<lambda>q. pp_Image q = img \<and> prepull_active q) (db w) = None"
  shows "wp (PrepullStore_Create img h tpl) (\<lambda>r v. case r of Inl e \<Rightarrow> db v = db w
    | Inr p \<Rightarrow> prepull_step (db w) (db v) \<and> lookup pp_ID (pp_ID p) (image_prepulls (db v)) = Some p \<and> prepull_active p) w"
proof -
  define w1 where "w1 = w\<lparr>uuids_used := Suc (uuids_used w), ticks := Suc (ticks w)\<rparr>"
  define p where "p = \<lparr>pp_ID = ''pp-'' @ take 8 (uuids w (uuids_used w)), pp_Image = img, pp_ImageHash = h, pp_Status = PrepullStatusPending,
       pp_ReadyNodes = 0, pp_TotalNodes = 0, pp_Error = [], pp_Template = tpl, pp_StartedAt = clock w (ticks w), pp_CompletedAt = None\<rparr>"
  have p: "pp_Image p = img" "pp_Status p = PrepullStatusPending" "pp_CompletedAt p = None" "prepull_active p"
    by (simp_all add: p_def prepull_active_def)
  have "wp (sql_stmt ''failed to create prepull record'' (insert_prepull p)) (\<lambda>r v. case r of Inl e \<Rightarrow> db v = db w
    | Inr _ \<Rightarrow> prepull_step (db w) (db v) \<and> lookup pp_ID (pp_ID p) (image_prepulls (db v)) = Some p) w1"
  proof (rule wp_stmt_db)
    fix a t fs
    assume "insert_prepull p (db w1) = Some (a, t)"
    then have i: "insert_prepull p (db w) = Some ((), t)"
      by (simp add: w1_def)
    moreover have "lookup pp_ID (pp_ID p) (image_prepulls t) = Some p"
      using i by (auto simp: insert_prepull_def lookup_append_new split: if_splits)
    ultimately show "case Inr a of Inl e \<Rightarrow> db (w1\<lparr>db_faults := fs, db := t\<rparr>) = db w
      | Inr _ \<Rightarrow> prepull_step (db w) (db (w1\<lparr>db_faults := fs, db := t\<rparr>)) \<and>
          lookup pp_ID (pp_ID p) (image_prepulls (db (w1\<lparr>db_faults := fs, db := t\<rparr>))) = Some p"
      using p assms by (auto intro: prepull_step.new)
  qed (simp add: w1_def)
  then have "wp (seqE (sql_stmt ''failed to create prepull record'' (insert_prepull p)) (\<lambda>_. retE p)) (\<lambda>r v. case r of Inl e \<Rightarrow> db v = db w
    | Inr p \<Rightarrow> prepull_step (db w) (db v) \<and> lookup pp_ID (pp_ID p) (image_prepulls (db v)) = Some p \<and> prepull_active p) w1"
    unfolding wp_seqE by (rule wp_mono) (auto simp: wp_ret p(4) split: sum.splits)
  then show ?thesis
    unfolding PrepullStore_Create_def wp_bind wp_new_uuid wp_time_now Let_def
    by (simp add: w1_def p_def)
qed

lemma wp_Create_prepull:
  "wp (PrepullService_Create s req tpl) (\<lambda>_ v. prepull_step\<^sup>*\<^sup>* (db w) (db v)) w"
proof (cases "trim_space req = []")
  case False
  let ?img = "trim_space req"
  define rest where "rest p = (do {
      n \<leftarrow> GetNodeCount (pps_jobs s);
      let nodeCount = (case n of Inl _ \<Rightarrow> 0 | Inr x \<Rightarrow> x);
      let prepull = p\<lparr>pp_TotalNodes := nodeCount\<rparr>;
      r \<leftarrow> CreatePrepullDaemonSet (pps_client s) (pps_jobs s) (pp_ID prepull) ?img (hashImage (pps_sha256 s) ?img);
      case r of
        Inl e \<Rightarrow> do {
          _ \<leftarrow> PrepullStore_UpdateStatus (pp_ID prepull) PrepullStatusFailed 0 nodeCount (err_text e);
          retE (prepull\<lparr>pp_Status := PrepullStatusFailed, pp_Error := err_text e\<rparr>) }
      | Inr _ \<Rightarrow> do {
          _ \<leftarrow> PrepullStore_UpdateStatus (pp_ID prepull) PrepullStatusPulling 0 nodeCount [];
          retE (prepull\<lparr>pp_Status := PrepullStatusPulling\<rparr>) } })" for p :: ImagePrepull
  have rest: "wp (rest p) (\<lambda>_ v. row_progresses (pp_ID p) (db u) (db v)) u" for p and u :: "'a world"
  proof -
    have step: "wp (PrepullStore_UpdateStatus (pp_ID p) st rn tn em) (\<lambda>_ v. row_progresses (pp_ID p) (db u) (db v)) z"
      if "db z = db u" "st \<in> {PrepullStatusPulling, PrepullStatusCompleted, PrepullStatusFailed}" for st rn tn em and z :: "'a world"
      using wp_UpdateStatus [OF that(2), of "pp_ID p" rn tn em z] that(1) by simp
    have second: "wp (CreatePrepullDaemonSet (pps_client s) (pps_jobs s) (pp_ID p) ?img (hashImage (pps_sha256 s) ?img)) (\<lambda>r.
        wp (case r of Inl e \<Rightarrow> F e | Inr y \<Rightarrow> G y) (\<lambda>_ v. row_progresses (pp_ID p) (db u) (db v))) v"
      if "db v = db u" "\<And>e z. db z = db u \<Longrightarrow> wp (F e) (\<lambda>_ v. row_progresses (pp_ID p) (db u) (db v)) z"
        "\<And>y z. db z = db u \<Longrightarrow> wp (G y) (\<lambda>_ v. row_progresses (pp_ID p) (db u) (db v)) z"
      for F and G :: "unit \<Rightarrow> ('a, ImagePrepull res) prog" and v :: "'a world"
      by (rule wp_mono [OF wp_frozen [OF frozen_calls(2)]]) (use that in \<open>auto split: sum.split\<close>)
    show ?thesis
      unfolding rest_def wp_bind Let_def
      by (rule wp_mono [OF wp_frozen [OF frozen_calls(1)]]) (auto intro!: second step simp: wp_bind wp_ret)
  qed
  have store: "wp (seqE (PrepullStore_Create ?img (hashImage (pps_sha256 s) ?img) tpl) rest) (\<lambda>_ v. prepull_step\<^sup>*\<^sup>* (db w) (db v)) u"
    if "db u = db w" "latest_prepull (\<lambda>q. pp_Image q = ?img \<and> prepull_active q) (db w) = None" for u :: "'a world"
    unfolding wp_seqE
  proof (rule wp_mono [OF wp_store_Create])
    show "latest_prepull (\<lambda>q. pp_Image q = ?img \<and> prepull_active q) (db u) = None"
      using that by simp
  next
    fix r and v :: "'a world"
    assume v: "case r of Inl e \<Rightarrow> db v = db u
      | Inr p \<Rightarrow> prepull_step (db u) (db v) \<and> lookup pp_ID (pp_ID p) (image_prepulls (db v)) = Some p \<and> prepull_active p"
    show "case r of Inl e \<Rightarrow> prepull_step\<^sup>*\<^sup>* (db w) (db v) | Inr x \<Rightarrow> wp (rest x) (\<lambda>_ v. prepull_step\<^sup>*\<^sup>* (db w) (db v)) v"
    proof (cases r)
      case (Inr p)
      have "wp (rest p) (\<lambda>_ v. prepull_step\<^sup>*\<^sup>* (db w) (db v)) v"
        by (rule wp_mono [OF rest]) (use v Inr that(1) in \<open>auto intro: moves_steps converse_rtranclp_into_rtranclp\<close>)
      then show ?thesis
        by (simp add: Inr)
    qed (use v that(1) in simp)
  qed
  have "wp (seqE (PrepullStore_GetActiveByImage ?img) (\<lambda>active.
      case active of
        Some p \<Rightarrow> throw (Msg (''prepull already in progress for image '' @ [CHR 0x27] @ ?img @ [CHR 0x27] @ '' (id: '' @ pp_ID p @ '')''))
      | None \<Rightarrow> seqE (PrepullStore_Create ?img (hashImage (pps_sha256 s) ?img) tpl) rest)) (\<lambda>_ v. prepull_step\<^sup>*\<^sup>* (db w) (db v)) w"
    unfolding wp_seqE PrepullStore_GetActiveByImage_def
    by (rule wp_query_db) (auto simp: wp_ret intro!: store split: option.split)
  then show ?thesis
    unfolding PrepullService_Create_def rest_def Let_def if_not_P [OF False] .
qed (simp add: PrepullService_Create_def wp_ret)

datatype prepull_op =
    CreatePrepullOp string
  | PrepullTemplateOp string
  | GetPrepullOp string
  | ListPrepullsOp string string
  | DeletePrepullOp string
  | StatusTick
  | CleanupTick duration

fun prepull_op_step :: "'k PrepullService \<Rightarrow> prepull_op \<Rightarrow> ('k, unit) prog" where
  "prepull_op_step s (CreatePrepullOp img) = do { _ \<leftarrow> CreatePrepull s img; ret () }"
| "prepull_op_step s (PrepullTemplateOp name) = do { _ \<leftarrow> PrepullTemplate s name; ret () }"
| "prepull_op_step s (GetPrepullOp pid) = do { _ \<leftarrow> PrepullService_Get s pid; ret () }"
| "prepull_op_step s (ListPrepullsOp img st) = do { _ \<leftarrow> ListPrepulls s img st; ret () }"
| "prepull_op_step s (DeletePrepullOp pid) = do { _ \<leftarrow> DeletePrepull s pid; ret () }"
| "prepull_op_step s StatusTick = updateAllActiveStatuses s"
| "prepull_op_step s (CleanupTick d) = do { _ \<leftarrow> CleanupCompletedPrepulls s d; ret () }"

definition prepull_run :: "'k PrepullService \<Rightarrow> prepull_op list \<Rightarrow> 'k world \<Rightarrow> 'k world" where
  "prepull_run s ops w = snd (run_state (for_each (prepull_op_step s) ops) w)"

lemma wp_Delete_prepull: "wp (PrepullService_Delete s pid) (\<lambda>_ v. prepull_step\<^sup>*\<^sup>* (db w) (db v)) w"
proof -
  have del: "wp (PrepullStore_Delete pid) (\<lambda>_ v. prepull_step\<^sup>*\<^sup>* (db w) (db v)) v" if "db v = db w" for v
    unfolding PrepullStore_Delete_def by (rule wp_stmt_db) (use that in \<open>auto intro: prepull_step.remove\<close>)
  show ?thesis
    unfolding PrepullService_Delete_def PrepullStore_Get_def wp_seqE
  proof (rule wp_query_db)
    fix fs
    have "wp (DeletePrepullDaemonSet (pps_client s) (pps_jobs s) pid \<bind> (\<lambda>d. case d of
             Inl e \<Rightarrow> if \<not> contains_str (err_text e) ''not found'' then throw (Wrap ''failed to delete daemonset'' e) else PrepullStore_Delete pid
           | Inr _ \<Rightarrow> PrepullStore_Delete pid)) (\<lambda>_ v. prepull_step\<^sup>*\<^sup>* (db w) (db v)) (w\<lparr>db_faults := fs\<rparr>)"
      unfolding wp_bind
      by (rule wp_mono [OF wp_frozen [OF frozen_calls(4)]]) (auto simp: wp_ret intro!: del split: sum.split)
    then show "case Inr (lookup pp_ID pid (image_prepulls (db w))) of
        Inl e \<Rightarrow> prepull_step\<^sup>*\<^sup>* (db w) (db (w\<lparr>db_faults := fs\<rparr>))
      | Inr r \<Rightarrow> wp (case r of None \<Rightarrow> throw (Msg ''prepull not found'')
          | Some _ \<Rightarrow> DeletePrepullDaemonSet (pps_client s) (pps_jobs s) pid \<bind> (\<lambda>d. case d of
             Inl e \<Rightarrow> if \<not> contains_str (err_text e) ''not found'' then throw (Wrap ''failed to delete daemonset'' e) else PrepullStore_Delete pid
           | Inr _ \<Rightarrow> PrepullStore_Delete pid)) (\<lambda>_ v. prepull_step\<^sup>*\<^sup>* (db w) (db v)) (w\<lparr>db_faults := fs\<rparr>)"
      by (simp add: wp_ret split: option.split)
  qed simp
qed

lemma wp_Get_prepull:
  assumes "prepull_ok (db w)"
  shows "wp (PrepullService_Get s pid) (\<lambda>_ v. prepull_step\<^sup>*\<^sup>* (db w) (db v)) w"
  unfolding PrepullService_Get_def PrepullStore_Get_def wp_seqE
proof (rule wp_query_db)
  fix fs
  have "wp (refresh s p) (\<lambda>_ v. prepull_step\<^sup>*\<^sup>* (db w) (db v)) (w\<lparr>db_faults := fs\<rparr>)"
    if "lookup pp_ID pid (image_prepulls (db w)) = Some p" for p
    using wp_mono [OF wp_refresh_step [of "w\<lparr>db_faults := fs\<rparr>" p "[]" s]] that lookup_SomeD [OF that] by (auto simp: stored_rows_def)
  then show "case Inr (lookup pp_ID pid (image_prepulls (db w))) of
      Inl e \<Rightarrow> prepull_step\<^sup>*\<^sup>* (db w) (db (w\<lparr>db_faults := fs\<rparr>))
    | Inr r \<Rightarrow> wp (case r of None \<Rightarrow> retE None | Some p \<Rightarrow> refresh s p \<bind> (\<lambda>q. retE (Some q)))
        (\<lambda>_ v. prepull_step\<^sup>*\<^sup>* (db w) (db v)) (w\<lparr>db_faults := fs\<rparr>)"
    by (simp add: wp_ret wp_bind split: option.split)
qed simp

lemma wp_List_prepulls:
  assumes "prepull_ok (db w)"
  shows "wp (PrepullService_List s img st) (\<lambda>_ v. prepull_step\<^sup>*\<^sup>* (db w) (db v)) w"
  unfolding PrepullService_List_def PrepullStore_List_def wp_seqE
proof (rule wp_query_db)
  fix fs
  let ?rows = "order_by_desc pp_StartedAt (filter (\<lambda>p. (img \<noteq> [] \<longrightarrow> pp_Image p = img) \<and> (st \<noteq> [] \<longrightarrow> pp_Status p = st)) (image_prepulls (db w)))"
  have "wp (refresh_all s ?rows) (\<lambda>_ v. prepull_step\<^sup>*\<^sup>* (db w) (db v)) (w\<lparr>db_faults := fs\<rparr>)"
    using wp_refresh_all [of "w\<lparr>db_faults := fs\<rparr>" ?rows s] listed_rows [OF assms] by simp
  then show "case Inr ?rows of
      Inl e \<Rightarrow> prepull_step\<^sup>*\<^sup>* (db w) (db (w\<lparr>db_faults := fs\<rparr>))
    | Inr x \<Rightarrow> wp (refresh_all s x \<bind> (\<lambda>qs. retE (map ToPrepullResponse qs))) (\<lambda>_ v. prepull_step\<^sup>*\<^sup>* (db w) (db v)) (w\<lparr>db_faults := fs\<rparr>)"
    by (simp add: wp_bind wp_ret)
qed simp

lemma wp_update_listed:
  assumes "prepull_ok (db w)" "st = PrepullStatusPending \<or> st = PrepullStatusPulling"
  shows "wp (update_listed s st) (\<lambda>_ v. prepull_step\<^sup>*\<^sup>* (db w) (db v)) w"
  unfolding update_listed_def PrepullStore_List_def wp_bind
proof (rule wp_query_db)
  fix fs
  let ?rows = "order_by_desc pp_StartedAt (filter (\<lambda>p. ([] \<noteq> ([] :: string) \<longrightarrow> pp_Image p = []) \<and> (st \<noteq> [] \<longrightarrow> pp_Status p = st)) (image_prepulls (db w)))"
  have "list_all prepull_active ?rows"
    using assms(2) by (auto simp: list_all_iff prepull_active_def)
  then show "wp (case Inr ?rows of Inl _ \<Rightarrow> ret ()
      | Inr items \<Rightarrow> for_each (\<lambda>p. do { _ \<leftarrow> updateStatusFromK8s s p; ret () }) items) (\<lambda>_ v. prepull_step\<^sup>*\<^sup>* (db w) (db v)) (w\<lparr>db_faults := fs\<rparr>)"
    using wp_update_items [of "w\<lparr>db_faults := fs\<rparr>" ?rows s] listed_rows [OF assms(1)] by simp
qed (simp add: wp_ret)

lemma wp_prepull_op:
  assumes "prepull_ok (db w)"
  shows "wp (prepull_op_step s op) (\<lambda>_ v. prepull_step\<^sup>*\<^sup>* (db w) (db v)) w"
proof (cases op)
  case (CreatePrepullOp img)
  then show ?thesis
    using wp_Create_prepull [of s img "[]" w] by (simp add: CreatePrepull_def wp_if wp_bind wp_ret)
next
  case (PrepullTemplateOp name)
  have "wp (PrepullTemplateImage s name i) (\<lambda>_ v. prepull_step\<^sup>*\<^sup>* (db w) (db v)) v" if "db v = db w" for i and v :: "'a world"
    using wp_Create_prepull [of s i name v] that by (simp add: PrepullTemplateImage_def)
  then show ?thesis
    unfolding PrepullTemplateOp prepull_op_step.simps PrepullTemplate_def TemplateService_Get_def wp_bind
    by (intro wp_Get) (auto simp: wp_ret wp_bind)
next
  case (GetPrepullOp pid)
  then show ?thesis
    using wp_Get_prepull [OF assms] by (simp add: wp_bind wp_ret)
next
  case (ListPrepullsOp img st)
  then show ?thesis
    using wp_List_prepulls [OF assms] by (simp add: ListPrepulls_def wp_bind wp_ret)
next
  case (DeletePrepullOp pid)
  then show ?thesis
    using wp_Delete_prepull by (simp add: DeletePrepull_def wp_bind wp_ret)
next
  case StatusTick
  show ?thesis
    unfolding StatusTick prepull_op_step.simps updateAllActiveStatuses_def wp_bind
  proof (rule wp_mono [OF wp_update_listed [OF assms]])
    fix u :: unit and v :: "'a world"
    assume v: "prepull_step\<^sup>*\<^sup>* (db w) (db v)"
    show "wp (update_listed s PrepullStatusPulling) (\<lambda>_ v. prepull_step\<^sup>*\<^sup>* (db w) (db v)) v"
      by (rule wp_mono [OF wp_update_listed [OF prepull_steps_ok [OF v assms]]]) (auto intro: rtranclp_trans [OF v])
  qed simp
next
  case (CleanupTick d)
  have "state_io_rel (db_rel (=)) (prepull_op_step s (CleanupTick d))"
    unfolding prepull_op_step.simps CleanupCompletedPrepulls_def PrepullStore_List_def Let_def
    by (intro frozen.io_program frozen_calls)
  then show ?thesis
    unfolding CleanupTick by (rule wp_mono [OF wp_frozen]) simp
qed

text \<open>
  C35: whatever prepulls are requested, read, deleted, refreshed and cleaned up, and whatever the database and the cluster
  answer, the rows only take the steps of the phase machine: identifiers stay unique, no image ever has two
  active prepulls, an active row can finish and a finished one never becomes active again, and a row has a completion time
  exactly when it has finished.
\<close>

theorem prepulls_follow_phases:
  assumes "prepull_ok (db w)"
  shows "prepull_step\<^sup>*\<^sup>* (db w) (db (prepull_run s ops w)) \<and> prepull_ok (db (prepull_run s ops w))"
proof -
  have "wp (for_each (prepull_op_step s) ops) (\<lambda>_ v. prepull_step\<^sup>*\<^sup>* (db w) (db v)) w"
    using assms
  proof (induction ops arbitrary: w)
    case (Cons op ops)
    show ?case
      unfolding for_each.simps wp_bind
    proof (rule wp_mono [OF wp_prepull_op [OF Cons.prems]])
      fix u :: unit and v :: "'a world"
      assume v: "prepull_step\<^sup>*\<^sup>* (db w) (db v)"
      show "wp (for_each (prepull_op_step s) ops) (\<lambda>_ v. prepull_step\<^sup>*\<^sup>* (db w) (db v)) v"
        by (rule wp_mono [OF Cons.IH [OF prepull_steps_ok [OF v Cons.prems]]]) (auto intro: rtranclp_trans [OF v])
    qed
  qed (simp add: wp_ret)
  then have "prepull_step\<^sup>*\<^sup>* (db w) (db (prepull_run s ops w))"
    by (simp add: prepull_run_def wp_alt)
  then show ?thesis
    using prepull_steps_ok assms by blast
qed

section \<open>What the status updater leaves\<close>

definition progress_of :: "ImagePrepull \<Rightarrow> string \<times> int \<times> int \<times> string" where
  "progress_of p = (pp_Status p, pp_ReadyNodes p, pp_TotalNodes p, pp_Error p)"

text \<open>The progress an active row should show, for what a read of its job answers.\<close>

definition settled :: "Job res \<Rightarrow> ImagePrepull \<Rightarrow> string \<times> int \<times> int \<times> string" where
  "settled r p =
     (case r of
        Inl e \<Rightarrow> if contains_str (err_text e) ''not found'' then (PrepullStatusFailed, 0, 0, ''DaemonSet not found'') else progress_of p
      | Inr job \<Rightarrow> (if job_complete job then PrepullStatusCompleted else PrepullStatusPulling, job_Succeeded job, job_Parallelism job, []))"

lemma settled_again: "progress_of q = settled r p \<Longrightarrow> settled r q = settled r p"
  by (auto simp: settled_def split: sum.splits)

lemma wp_UpdateStatus_ok:
  "db_faults w = [] \<Longrightarrow> wp (PrepullStore_UpdateStatus pid st rn tn em)
     (\<lambda>_ v. db_faults v = [] \<and> kube v = kube w \<and> (\<exists>ca. db v = set_prepull pid st rn tn em ca (db w))) w"
  by (auto simp: PrepullStore_UpdateStatus_def wp_simps wp_sql_stmt set_prepull_def)

lemma lookup_set_prepull:
  "lookup pp_ID i (image_prepulls (set_prepull pid st rn tn em ca t)) =
     (if i = pid then map_option (UpdateStatus_prepull_row st rn tn em ca) (lookup pp_ID i (image_prepulls t))
      else lookup pp_ID i (image_prepulls t))"
  using prepull_row.lookup_same [of pid st rn tn em ca "image_prepulls t"]
    prepull_row.lookup_other [of i pid st rn tn em ca "image_prepulls t"] by (simp add: set_prepull_def)

definition shows_job :: "(string \<Rightarrow> Job res) \<Rightarrow> 'k world \<Rightarrow> ImagePrepull list \<Rightarrow> 'k world \<Rightarrow> bool" where
  "shows_job view w ps v \<longleftrightarrow> db_faults v = [] \<and> kube v = kube w \<and>
     (\<forall>p \<in> set ps. \<exists>q. lookup pp_ID (pp_ID p) (image_prepulls (db v)) = Some q \<and> progress_of q = settled (view (job_name (pp_ID p))) p) \<and>
     (\<forall>i. i \<notin> pp_ID ` set ps \<longrightarrow> lookup pp_ID i (image_prepulls (db v)) = lookup pp_ID i (image_prepulls (db w)))"

lemma shows_job_step:
  assumes "shows_job view w [p] v" "shows_job view v ps z" "pp_ID p \<notin> pp_ID ` set ps"
  shows "shows_job view w (p # ps) z"
proof -
  obtain q where q: "lookup pp_ID (pp_ID p) (image_prepulls (db v)) = Some q" "progress_of q = settled (view (job_name (pp_ID p))) p"
    and v: "db_faults v = []" "kube v = kube w"
      "\<And>i. i \<noteq> pp_ID p \<Longrightarrow> lookup pp_ID i (image_prepulls (db v)) = lookup pp_ID i (image_prepulls (db w))"
    using assms(1) unfolding shows_job_def by auto
  have z: "db_faults z = []" "kube z = kube v"
    "\<And>r. r \<in> set ps \<Longrightarrow> \<exists>q. lookup pp_ID (pp_ID r) (image_prepulls (db z)) = Some q \<and> progress_of q = settled (view (job_name (pp_ID r))) r"
    "\<And>i. i \<notin> pp_ID ` set ps \<Longrightarrow> lookup pp_ID i (image_prepulls (db z)) = lookup pp_ID i (image_prepulls (db v))"
    using assms(2) unfolding shows_job_def by blast+
  show ?thesis
    unfolding shows_job_def
  proof (intro conjI ballI allI impI)
    fix r
    assume "r \<in> set (p # ps)"
    then show "\<exists>q. lookup pp_ID (pp_ID r) (image_prepulls (db z)) = Some q \<and> progress_of q = settled (view (job_name (pp_ID r))) r"
      using z(3) z(4) [OF assms(3)] q by (metis set_ConsD)
  next
    fix i
    assume "i \<notin> pp_ID ` set (p # ps)"
    then have "i \<noteq> pp_ID p" "i \<notin> pp_ID ` set ps"
      by simp_all
    then show "lookup pp_ID i (image_prepulls (db z)) = lookup pp_ID i (image_prepulls (db w))"
      by (simp only: z(4) v(3) not_False_eq_True)
  qed (use v z in simp_all)
qed

lemma wp_settle:
  assumes "db_faults z = []" "db z = db w" "kube z = kube w" "lookup pp_ID (pp_ID p) (image_prepulls (db w)) = Some p"
    and "settled (view (job_name (pp_ID p))) p = (st, rn, tn, em)"
  shows "wp (PrepullStore_UpdateStatus (pp_ID p) st rn tn em) (\<lambda>_ v. shows_job view w [p] v) z"
  by (rule wp_mono [OF wp_UpdateStatus_ok [OF assms(1)]])
    (use assms in \<open>auto simp: shows_job_def lookup_set_prepull progress_of_def UpdateStatus_prepull_row_def\<close>)

lemma wp_update_one:
  fixes w :: "'a world"
  assumes "db_faults w = []" "jobs_Get (pps_jobs s) (sandboxNS (pps_client s)) (job_name (pp_ID p)) (kube w) = (view (job_name (pp_ID p)), kube w)"
    and "lookup pp_ID (pp_ID p) (image_prepulls (db w)) = Some p"
  shows "wp (updateStatusFromK8s s p) (\<lambda>_ v. shows_job view w [p] v) w"
proof (cases "view (job_name (pp_ID p))")
  case (Inl e)
  show ?thesis
  proof (cases "contains_str (err_text e) ''not found''")
    case True
    then have "settled (view (job_name (pp_ID p))) p = (PrepullStatusFailed, 0, 0, ''DaemonSet not found'')"
      by (simp only: settled_def Inl sum.case if_True)
    then show ?thesis
      using True Inl assms wp_settle [where z = w and w = w and view = view and p = p]
      by (simp add: updateStatusFromK8s_def GetPrepullStatus_def GetPrepullDaemonSet_def wp_bind wp_seqE wp_kube_call wp_ret
          del: contains_str.simps)
  next
    case False
    then have "settled (view (job_name (pp_ID p))) p = progress_of p"
      by (simp only: settled_def Inl sum.case if_False)
    then have "shows_job view w [p] w"
      using assms(1,3) by (simp add: shows_job_def)
    then show ?thesis
      using False Inl assms(1,2)
      by (simp add: updateStatusFromK8s_def GetPrepullStatus_def GetPrepullDaemonSet_def wp_bind wp_seqE wp_kube_call wp_ret
          del: contains_str.simps)
  qed
next
  case (Inr job)
  have "settled (view (job_name (pp_ID p))) p =
      (if job_complete job then PrepullStatusCompleted else PrepullStatusPulling, job_Succeeded job, job_Parallelism job, [])"
    by (simp only: settled_def Inr sum.case)
  then show ?thesis
    using Inr assms(1,2) wp_settle [where w = w and view = view and p = p, OF _ _ _ assms(3)]
    by (simp add: updateStatusFromK8s_def GetPrepullStatus_def GetPrepullDaemonSet_def wp_bind wp_seqE wp_kube_call wp_ret wp_time_now
        job_status_def Let_def)
qed

lemma wp_update_exact:
  fixes w :: "'a world"
  assumes "db_faults w = []" "\<And>n. jobs_Get (pps_jobs s) (sandboxNS (pps_client s)) n (kube w) = (view n, kube w)"
    and "distinct (map pp_ID ps)" "\<forall>p \<in> set ps. lookup pp_ID (pp_ID p) (image_prepulls (db w)) = Some p"
  shows "wp (for_each (\<lambda>p. do { _ \<leftarrow> updateStatusFromK8s s p; ret () }) ps) (\<lambda>_ v. shows_job view w ps v) w"
  using assms
proof (induction ps arbitrary: w)
  case Nil
  then show ?case
    by (simp add: wp_ret shows_job_def)
next
  case (Cons p ps)
  have one: "wp (updateStatusFromK8s s p) (\<lambda>_ v. shows_job view w [p] v) w"
    using Cons.prems by (intro wp_update_one) simp_all
  have new: "pp_ID p \<notin> pp_ID ` set ps" "distinct (map pp_ID ps)"
    using Cons.prems(3) by simp_all
  have rest: "wp (for_each (\<lambda>p. do { _ \<leftarrow> updateStatusFromK8s s p; ret () }) ps) (\<lambda>_ v. shows_job view w (p # ps) v) v"
    if v: "shows_job view w [p] v" for v
  proof (rule wp_mono [OF Cons.IH])
    show "db_faults v = []"
      using v by (simp only: shows_job_def)
    have "kube v = kube w"
      using v by (simp only: shows_job_def)
    then show "jobs_Get (pps_jobs s) (sandboxNS (pps_client s)) n (kube v) = (view n, kube v)" for n
      using Cons.prems(2) by (simp only:)
    show "\<forall>r \<in> set ps. lookup pp_ID (pp_ID r) (image_prepulls (db v)) = Some r"
    proof
      fix r
      assume r: "r \<in> set ps"
      then have "pp_ID r \<notin> pp_ID ` set [p]"
        using new(1) by (metis empty_iff image_eqI image_empty image_insert insertE list.set(1,2))
      then show "lookup pp_ID (pp_ID r) (image_prepulls (db v)) = Some r"
        using v Cons.prems(4) r unfolding shows_job_def by (metis list.set_intros(2))
    qed
  qed (use new v shows_job_step in blast)+
  then show ?case
    unfolding for_each.simps wp_bind wp_ret by (intro wp_mono [OF one] rest)
qed

definition tick_shows :: "(string \<Rightarrow> Job res) \<Rightarrow> string list \<Rightarrow> 'k world \<Rightarrow> 'k world \<Rightarrow> bool" where
  "tick_shows view sts w v \<longleftrightarrow> db_faults v = [] \<and> kube v = kube w \<and>
     (\<forall>p. lookup pp_ID (pp_ID p) (image_prepulls (db w)) = Some p \<longrightarrow>
        (\<exists>q. lookup pp_ID (pp_ID p) (image_prepulls (db v)) = Some q \<and>
          (if pp_Status p \<in> set sts then progress_of q = settled (view (job_name (pp_ID p))) p else q = p)))"

lemma wp_listed_exact:
  assumes "prepull_ok (db w)" "db_faults w = []" "st \<noteq> []"
    and "\<And>n. jobs_Get (pps_jobs s) (sandboxNS (pps_client s)) n (kube w) = (view n, kube w)"
  shows "wp (update_listed s st) (\<lambda>_ v. tick_shows view [st] w v) w"
proof -
  define rows where "rows = order_by_desc pp_StartedAt (filter (\<lambda>p. pp_Status p = st) (image_prepulls (db w)))"
  have dist: "distinct (map pp_ID (image_prepulls (db w)))"
    using assms(1) by (simp add: prepull_ok_def)
  have rows: "set rows = {p \<in> set (image_prepulls (db w)). pp_Status p = st}" "distinct (map pp_ID rows)"
    using dist by (auto simp: rows_def distinct_map_filter)
  have "wp (for_each (\<lambda>p. do { _ \<leftarrow> updateStatusFromK8s s p; ret () }) rows) (\<lambda>_ v. shows_job view w rows v) w"
    using assms(2,4) rows lookup_unique [OF dist] by (intro wp_update_exact) auto
  then have "wp (for_each (\<lambda>p. do { _ \<leftarrow> updateStatusFromK8s s p; ret () }) rows) (\<lambda>_ v. tick_shows view [st] w v) w"
  proof (rule wp_mono)
    fix u :: unit and v :: "'a world"
    assume v: "shows_job view w rows v"
    have "\<exists>q. lookup pp_ID (pp_ID p) (image_prepulls (db v)) = Some q \<and>
        (if pp_Status p \<in> set [st] then progress_of q = settled (view (job_name (pp_ID p))) p else q = p)"
      if p: "lookup pp_ID (pp_ID p) (image_prepulls (db w)) = Some p" for p
    proof (cases "pp_Status p = st")
      case True
      then have "p \<in> set rows"
        using lookup_SomeD [OF p] rows(1) by simp
      then show ?thesis
        using v True by (auto simp: shows_job_def)
    next
      case False
      have "pp_ID p \<notin> pp_ID ` set rows"
      proof
        assume "pp_ID p \<in> pp_ID ` set rows"
        then obtain r where "r \<in> set (image_prepulls (db w))" "pp_Status r = st" "pp_ID r = pp_ID p"
          using rows(1) by auto
        then have "lookup pp_ID (pp_ID p) (image_prepulls (db w)) = Some r"
          using lookup_unique [OF dist, of r] by simp
        then show False
          using p False \<open>pp_Status r = st\<close> by simp
      qed
      then show ?thesis
        using v False p by (simp add: shows_job_def)
    qed
    then show "tick_shows view [st] w v"
      using v by (simp add: tick_shows_def shows_job_def)
  qed
  moreover have same: "w\<lparr>db_faults := []\<rparr> = w"
    using assms(2) by (cases w) simp
  ultimately show ?thesis
    using assms(2,3) by (simp add: update_listed_def PrepullStore_List_def wp_bind wp_sql_stmt rows_def same)
qed

lemma tick_shows_trans:
  assumes "tick_shows view [PrepullStatusPending] w v" "tick_shows view [PrepullStatusPulling] v x"
  shows "tick_shows view [PrepullStatusPending, PrepullStatusPulling] w x"
proof -
  have "\<exists>q. lookup pp_ID (pp_ID p) (image_prepulls (db x)) = Some q \<and>
      (if pp_Status p \<in> set [PrepullStatusPending, PrepullStatusPulling] then progress_of q = settled (view (job_name (pp_ID p))) p else q = p)"
    if p: "lookup pp_ID (pp_ID p) (image_prepulls (db w)) = Some p" for p
  proof -
    obtain q1 where q1: "lookup pp_ID (pp_ID p) (image_prepulls (db v)) = Some q1"
      "if pp_Status p = PrepullStatusPending then progress_of q1 = settled (view (job_name (pp_ID p))) p else q1 = p"
      using assms(1) p by (auto simp: tick_shows_def)
    have "pp_ID q1 = pp_ID p"
      using lookup_SomeD [OF q1(1)] by simp
    then obtain q2 where q2: "lookup pp_ID (pp_ID p) (image_prepulls (db x)) = Some q2"
      "if pp_Status q1 = PrepullStatusPulling then progress_of q2 = settled (view (job_name (pp_ID p))) q1 else q2 = q1"
      using assms(2) q1(1) unfolding tick_shows_def by (metis (no_types, lifting) list.set_intros(1) empty_iff insertE list.set(1,2))
    then show ?thesis
      using q1 settled_again [of q1] by (cases "pp_Status p = PrepullStatusPending") (auto split: if_splits)
  qed
  then show ?thesis
    using assms by (simp add: tick_shows_def)
qed


section \<open>Concrete runs\<close>

text \<open>Two nodes; the job of one prepull is there, and both its pods have failed.\<close>

definition failed_job :: Job where
  "failed_job = (prepull_job sample_client ''pp-1'' ''python:3'' ''abc'' 2)\<lparr>job_Failed := 2\<rparr>"

definition find_job :: "string \<Rightarrow> Job res" where
  "find_job n = (if n = om_Name (job_Meta failed_job) then Inr failed_job else Inl (NotFound (''jobs.batch '' @ n @ '' not found'')))"

definition sample_jobs :: "cluster JobAPI" where
  "sample_jobs =
     \<lparr>nodes_List = (\<lambda>k. (Inr [\<lparr>node_Name = ''n1'', node_Conditions = [\<lparr>cond_Type = ''Ready'', cond_Status = ''True'', cond_Reason = [], cond_Message = []\<rparr>]\<rparr>,
        \<lparr>node_Name = ''n2'', node_Conditions = []\<rparr>], k)),
      jobs_Create = (\<lambda>_ j k. (Inr j, k)), jobs_Get = (\<lambda>_ n k. (find_job n, k)),
      jobs_List = (\<lambda>_ _ k. (Inr [failed_job], k)), jobs_Delete = (\<lambda>_ _ k. (Inr (), k))\<rparr>"

definition sample_prepulls :: "cluster PrepullService" where
  "sample_prepulls = \<lparr>pps_client = sample_client, pps_jobs = sample_jobs, pps_sha256 = (\<lambda>_. ''hash'')\<rparr>"

definition sample_prepull :: "string \<Rightarrow> string \<Rightarrow> string \<Rightarrow> ImagePrepull" where
  "sample_prepull pid img st =
     \<lparr>pp_ID = pid, pp_Image = img, pp_ImageHash = ''abc'', pp_Status = st, pp_ReadyNodes = 0, pp_TotalNodes = 2, pp_Error = [],
      pp_Template = [], pp_StartedAt = 0, pp_CompletedAt = None\<rparr>"

definition prepull_world :: "cluster world" where
  "prepull_world = (sample_world [] [])\<lparr>db := empty_tables\<lparr>image_prepulls :=
     [sample_prepull ''pp-1'' ''python:3'' ''pulling'', sample_prepull ''pp-2'' ''node:20'' ''pulling'']\<rparr>\<rparr>"

lemma prepull_world_ok: "prepull_ok (db prepull_world)"
  by (simp add: prepull_ok_def prepull_world_def sample_prepull_def empty_tables_def prepull_active_def prepull_finished_def prepull_row_ok_def)

text \<open>
  A second request for an image in progress changes nothing; after the first tick a request for the image whose job is gone is
  accepted.
\<close>

lemma prepulls_follow_phases_witness:
  "prepull_step\<^sup>*\<^sup>* (db prepull_world) (db (prepull_run sample_prepulls [CreatePrepullOp ''python:3'', StatusTick, CreatePrepullOp ''node:20''] prepull_world)) \<and>
   map (\<lambda>p. (pp_ID p, pp_Status p))
     (image_prepulls (db (prepull_run sample_prepulls [CreatePrepullOp ''python:3'', StatusTick, CreatePrepullOp ''node:20''] prepull_world))) =
   [(''pp-1'', ''pulling''), (''pp-2'', ''failed''), (''pp-0'', ''pulling'')]"
proof
  show "map (\<lambda>p. (pp_ID p, pp_Status p))
     (image_prepulls (db (prepull_run sample_prepulls [CreatePrepullOp ''python:3'', StatusTick, CreatePrepullOp ''node:20''] prepull_world))) =
   [(''pp-1'', ''pulling''), (''pp-2'', ''failed''), (''pp-0'', ''pulling'')]"
    by code_simp
qed (use prepulls_follow_phases [OF prepull_world_ok] in blast)


end
