(* ===== verification/Pvc_Mapping.thy ===== *)
theory Pvc_Mapping
  imports Sandbox_Service "HOL-Library.List_Lexorder" "HOL-Library.Char_ord"
begin

text \<open>
  The view of volumes, \<open>backend/internal/service/sandbox_pvc.go\<close>: the claims the database knows of and the claims the
  cluster has are joined by name, classified, filtered and shown in pages. Go maps are association lists; the
  names are sorted before they are used, so the order in which Go ranges over a map does not matter.
  \<open>q_string\<close> gives the text of the storage request of a claim, \<open>None\<close> where it is absent or zero.
\<close>

section \<open>Definitions\<close>

abbreviation "PVCMappingStateBound \<equiv> ''bound''"
abbreviation "PVCMappingStateOrphanPVC \<equiv> ''orphan_pvc''"
abbreviation "PVCMappingStateDeleting \<equiv> ''deleting''"
abbreviation "PVCMappingStateDanglingMeta \<equiv> ''dangling_metadata''"

record PVCMappingListOptions =
  pvo_SandboxID :: string
  pvo_StorageClass :: string
  pvo_State :: string
  pvo_Page :: int
  pvo_PageSize :: int

record PVCMapping =
  pvm_PVCName :: string
  pvm_Namespace :: string
  pvm_StorageClassName :: string
  pvm_RequestedSize :: string
  pvm_Phase :: string
  pvm_PVName :: string
  pvm_SandboxID :: string
  pvm_SandboxLifecycleState :: string
  pvm_ReclaimPolicy :: string
  pvm_State :: string
  pvm_Source :: string

record PVCMappingListResponse =
  pvr_Items :: "PVCMapping list"
  pvr_Total :: int
  pvr_Page :: int
  pvr_PageSize :: int

definition shouldSkipPVCMappingRecord :: "SandboxRecord \<Rightarrow> bool" where
  "shouldSkipPVCMappingRecord r \<longleftrightarrow>
     rec_DesiredState r = DesiredStateDeleted \<and> rec_LifecycleStatus r = ''deleted'' \<and>
     rec_DeletionPhase r = DeletionPhaseCompleted \<and> rec_VolumeReclaimPolicy r = ''Delete''"

fun add_db_pvc :: "SandboxRecord \<Rightarrow> (string \<times> SandboxRecord) list \<Rightarrow> (string \<times> SandboxRecord) list" where
  "add_db_pvc r out =
     (if rec_VolumeClaimName r = [] then out
      else if shouldSkipPVCMappingRecord r then out
      else case map_of out (rec_VolumeClaimName r) of
        None \<Rightarrow> AList.update (rec_VolumeClaimName r) r out
      | Some existing \<Rightarrow> if rec_UpdatedAt r > rec_UpdatedAt existing then AList.update (rec_VolumeClaimName r) r out else out)"

definition buildDBPVCMap :: "SandboxRecord list \<Rightarrow> (string \<times> SandboxRecord) list" where
  "buildDBPVCMap records = fold add_db_pvc records []"

definition buildK8sPVCMap :: "PVC list \<Rightarrow> (string \<times> PVC) list" where
  "buildK8sPVCMap pvcs = fold (\<lambda>p out. AList.update (om_Name (pvc_Meta p)) p out) pvcs []"

definition isSupportedPVCMappingState :: "string \<Rightarrow> bool" where
  "isSupportedPVCMappingState v \<longleftrightarrow>
     v \<in> {PVCMappingStateBound, PVCMappingStateOrphanPVC, PVCMappingStateDeleting, PVCMappingStateDanglingMeta}"

definition classifyPVCMappingState :: "SandboxRecord option \<Rightarrow> bool \<Rightarrow> string" where
  "classifyPVCMappingState r hasK8s =
     (if r \<noteq> None \<and> hasK8s then PVCMappingStateBound
      else if hasK8s then PVCMappingStateOrphanPVC
      else case r of
        Some rc \<Rightarrow> if rec_DesiredState rc = DesiredStateDeleted \<and> rec_LifecycleStatus rc = ''terminating''
                  then PVCMappingStateDeleting else PVCMappingStateDanglingMeta
      | None \<Rightarrow> PVCMappingStateDanglingMeta)"

definition classifyPVCMappingSource :: "bool \<Rightarrow> bool \<Rightarrow> string" where
  "classifyPVCMappingSource hasDB hasK8s =
     (if hasDB \<and> hasK8s then ''db+k8s'' else if hasK8s then ''k8s'' else ''db'')"

definition pvc_item :: "(string \<Rightarrow> string option) \<Rightarrow> string \<Rightarrow> string \<Rightarrow> SandboxRecord option \<Rightarrow> PVC option \<Rightarrow> PVCMapping" where
  "pvc_item q_string ns pvcName r p =
     (let item = \<lparr>pvm_PVCName = pvcName, pvm_Namespace = ns, pvm_StorageClassName = [], pvm_RequestedSize = [], pvm_Phase = [],
                   pvm_PVName = [], pvm_SandboxID = [], pvm_SandboxLifecycleState = [], pvm_ReclaimPolicy = [],
                   pvm_State = classifyPVCMappingState r (p \<noteq> None), pvm_Source = classifyPVCMappingSource (r \<noteq> None) (p \<noteq> None)\<rparr>;
          item = (case r of
             None \<Rightarrow> item
           | Some rc \<Rightarrow> item\<lparr>pvm_SandboxID := rec_ID rc, pvm_SandboxLifecycleState := rec_LifecycleStatus rc,
                 pvm_ReclaimPolicy := rec_VolumeReclaimPolicy rc, pvm_StorageClassName := rec_StorageClassName rc,
                 pvm_RequestedSize := rec_PersistenceSize rc,
                 pvm_Namespace := (if rec_ClusterNamespace rc \<noteq> [] then rec_ClusterNamespace rc else ns)\<rparr>)
      in case p of
           None \<Rightarrow> item
         | Some pvc \<Rightarrow> item\<lparr>pvm_Namespace := om_Namespace (pvc_Meta pvc), pvm_Phase := pvc_Phase pvc, pvm_PVName := pvc_VolumeName pvc,
               pvm_StorageClassName := (case pvc_StorageClassName pvc of Some c \<Rightarrow> if c \<noteq> [] then c else pvm_StorageClassName item
                                         | None \<Rightarrow> pvm_StorageClassName item),
               pvm_RequestedSize := (case q_string (pvc_StorageRequest pvc) of Some q \<Rightarrow> q | None \<Rightarrow> pvm_RequestedSize item)\<rparr>)"

definition pvc_selected :: "PVCMappingListOptions \<Rightarrow> PVCMapping \<Rightarrow> bool" where
  "pvc_selected opts item \<longleftrightarrow>
     (pvo_SandboxID opts \<noteq> [] \<longrightarrow> pvm_SandboxID item = pvo_SandboxID opts) \<and>
     (pvo_StorageClass opts \<noteq> [] \<longrightarrow> pvm_StorageClassName item = pvo_StorageClass opts) \<and>
     (pvo_State opts \<noteq> [] \<longrightarrow> pvm_State item = pvo_State opts)"

definition pvc_items :: "(string \<Rightarrow> string option) \<Rightarrow> string \<Rightarrow> SandboxRecord list \<Rightarrow> PVC list \<Rightarrow> PVCMapping list" where
  "pvc_items q_string ns records pvcs =
     (let db = buildDBPVCMap records; k8s = buildK8sPVCMap pvcs;
          names = sort (remdups (map fst db @ map fst k8s))
      in map (\<lambda>n. pvc_item q_string ns n (map_of db n) (map_of k8s n)) names)"

text \<open>The page of the result, at the width of Go's \<open>int\<close>; a slice with a negative bound panics.\<close>

definition page_slice :: "int \<Rightarrow> int \<Rightarrow> 'a list \<Rightarrow> 'a list res" where
  "page_slice page pageSize items =
     (let total = int (length items); start = wrap64 (wrap64 (page - 1) * pageSize) in
      if start \<ge> total then Inr []
      else let e = wrap64 (start + pageSize); e = (if e > total then total else e) in
        if start < 0 \<or> e < start then Inl (GoPanic ''slice bounds out of range'')
        else Inr (take (nat (e - start)) (drop (nat start) items)))"

definition ListPVCMappings ::
  "(string \<Rightarrow> string option) \<Rightarrow> 'k SandboxService \<Rightarrow> PVCMappingListOptions \<Rightarrow> ('k, PVCMappingListResponse res) prog" where
  "ListPVCMappings q_string s opts0 =
     (let page = (if pvo_Page opts0 \<le> 0 then 1 else pvo_Page opts0);
          sz = (if pvo_PageSize opts0 \<le> 0 then 20 else pvo_PageSize opts0);
          sz = (if sz > 100 then 100 else sz);
          opts = opts0\<lparr>pvo_Page := page, pvo_PageSize := sz\<rparr>
      in if pvo_State opts \<noteq> [] \<and> \<not> isSupportedPVCMappingState (pvo_State opts) then
           throw (Msg (''invalid state '' @ quote_str (pvo_State opts) @
             '', expected one of [bound, orphan_pvc, deleting, dangling_metadata]''))
         else
           seqE ListForReconcile (\<lambda>records.
           seqE (ListSandboxPVCs (k8sClient s)) (\<lambda>pvcs.
           let filtered = filter (pvc_selected opts) (pvc_items q_string (sandboxNS (k8sClient s)) records pvcs) in
           case page_slice page sz filtered of
             Inl e \<Rightarrow> throw e
           | Inr items \<Rightarrow> retE \<lparr>pvr_Items = items, pvr_Total = int (length filtered), pvr_Page = page, pvr_PageSize = sz\<rparr>)))"

section \<open>Lemmas\<close>

lemma slice_at:
  assumes "0 \<le> a" "1 \<le> s"
  shows "(if int (length rows) \<le> a then [] else
      take (nat ((if int (length rows) < a + s then int (length rows) else a + s) - a)) (drop (nat a) rows)) =
    take (nat s) (drop (nat a) rows)"
proof -
  obtain m n where "a = int m" "s = int n"
    using assms zero_le_imp_eq_int [of a] zero_le_imp_eq_int [of s] by auto
  then show ?thesis
    by (auto simp: nat_diff_distrib nat_add_distrib)
qed

interpretation slice_pager: pager "\<lambda>p s rows. case page_slice p s rows of Inl _ \<Rightarrow> [] | Inr x \<Rightarrow> x" "\<lambda>p s. p * s < 2 ^ 63 \<and> p < 2 ^ 63"
proof
  fix p s :: int and rows :: "'r list"
  assume a: "p * s < 2 ^ 63 \<and> p < 2 ^ 63" "1 \<le> p" "1 \<le> s"
  define start where "start = (p - 1) * s"
  have start: "0 \<le> start" "start + s < 2 ^ 63"
    using a by (simp_all add: start_def left_diff_distrib)
  have "wrap64 (p - 1) = p - 1"
    using a by (intro wrap64_nonneg) simp_all
  moreover have "wrap64 start = start" "wrap64 (start + s) = start + s"
    using a start by (simp_all add: wrap64_nonneg)
  ultimately have "(case page_slice p s rows of Inl _ \<Rightarrow> [] | Inr x \<Rightarrow> x) =
      (if int (length rows) \<le> start then [] else
        take (nat ((if int (length rows) < start + s then int (length rows) else start + s) - start)) (drop (nat start) rows))"
    using a start by (simp add: page_slice_def start_def [symmetric])
  then show "(case page_slice p s rows of Inl _ \<Rightarrow> [] | Inr x \<Rightarrow> x) = take (nat s) (drop (nat ((p - 1) * s)) rows)"
    using slice_at [OF start(1) a(3), of rows] by (simp add: start_def)
qed

lemma db_map_keys:
  "set (map fst (fold add_db_pvc rs out)) =
     set (map fst out) \<union> rec_VolumeClaimName ` {r \<in> set rs. rec_VolumeClaimName r \<noteq> [] \<and> \<not> shouldSkipPVCMappingRecord r}"
proof (induction rs arbitrary: out)
  case (Cons r rs)
  have "set (map fst (add_db_pvc r out)) =
      set (map fst out) \<union> (if rec_VolumeClaimName r \<noteq> [] \<and> \<not> shouldSkipPVCMappingRecord r then {rec_VolumeClaimName r} else {})"
    by (auto simp: AList.dom_update dest: map_of_SomeD split: option.splits) (force dest: map_of_SomeD)
  then show ?case
    unfolding fold_simps Cons.IH by (auto simp del: add_db_pvc.simps)
qed simp

lemma k8s_map_keys: "set (map fst (buildK8sPVCMap pvcs)) = (\<lambda>p. om_Name (pvc_Meta p)) ` set pvcs"
proof -
  have "set (map fst (fold (\<lambda>p out. AList.update (om_Name (pvc_Meta p)) p out) pvcs out)) =
      set (map fst out) \<union> (\<lambda>p. om_Name (pvc_Meta p)) ` set pvcs" for out
    by (induction pvcs arbitrary: out) (auto simp: AList.dom_update)
  then show ?thesis
    by (simp add: buildK8sPVCMap_def)
qed

section \<open>Properties\<close>

definition claim_names :: "SandboxRecord list \<Rightarrow> PVC list \<Rightarrow> string set" where
  "claim_names records pvcs =
     rec_VolumeClaimName ` {r \<in> set records. rec_VolumeClaimName r \<noteq> [] \<and> \<not> shouldSkipPVCMappingRecord r} \<union>
     (\<lambda>p. om_Name (pvc_Meta p)) ` set pvcs"

text \<open>
  C24: the view shows every claim exactly once and in order of its name: each claim the cluster has, and each that a
  row refers to, except rows of sandboxes that are gone for good with a volume to delete. A claim is bound exactly
  when both know it, an orphan exactly when only the cluster does.
\<close>

theorem pvc_view_complete:
  "sorted (map pvm_PVCName (pvc_items q ns records pvcs)) \<and> distinct (map pvm_PVCName (pvc_items q ns records pvcs)) \<and>
   set (map pvm_PVCName (pvc_items q ns records pvcs)) = claim_names records pvcs \<and>
   (\<forall>i \<in> set (pvc_items q ns records pvcs).
      (pvm_State i = PVCMappingStateOrphanPVC \<longleftrightarrow>
         pvm_PVCName i \<in> (\<lambda>p. om_Name (pvc_Meta p)) ` set pvcs - claim_names records []) \<and>
      (pvm_State i = PVCMappingStateBound \<longleftrightarrow>
         pvm_PVCName i \<in> (\<lambda>p. om_Name (pvc_Meta p)) ` set pvcs \<inter> claim_names records []))"
proof -
  let ?names = "sort (remdups (map fst (buildDBPVCMap records) @ map fst (buildK8sPVCMap pvcs)))"
  have name: "pvm_PVCName (pvc_item q ns n r p) = n" for n r p
    by (simp add: pvc_item_def Let_def split: option.split)
  have state: "pvm_State (pvc_item q ns n r p) = classifyPVCMappingState r (p \<noteq> None)" for n r p
    by (simp add: pvc_item_def Let_def split: option.split)
  have names: "map pvm_PVCName (pvc_items q ns records pvcs) = ?names"
    by (simp add: pvc_items_def Let_def name comp_def)
  have db: "map_of (buildDBPVCMap records) n \<noteq> None \<longleftrightarrow> n \<in> claim_names records []" for n
    using db_map_keys [of records "[]"] by (auto simp: buildDBPVCMap_def claim_names_def map_of_eq_None_iff)
  have k8s: "map_of (buildK8sPVCMap pvcs) n \<noteq> None \<longleftrightarrow> n \<in> (\<lambda>p. om_Name (pvc_Meta p)) ` set pvcs" for n
    using k8s_map_keys [of pvcs] by (auto simp: map_of_eq_None_iff)
  have "set ?names = claim_names records pvcs"
    using db_map_keys [of records "[]"] k8s_map_keys [of pvcs] by (auto simp: buildDBPVCMap_def claim_names_def)
  moreover have "(pvm_State i = PVCMappingStateOrphanPVC \<longleftrightarrow>
         pvm_PVCName i \<in> (\<lambda>p. om_Name (pvc_Meta p)) ` set pvcs - claim_names records []) \<and>
      (pvm_State i = PVCMappingStateBound \<longleftrightarrow>
         pvm_PVCName i \<in> (\<lambda>p. om_Name (pvc_Meta p)) ` set pvcs \<inter> claim_names records [])"
    if "i \<in> set (pvc_items q ns records pvcs)" for i
  proof -
    obtain n where "i = pvc_item q ns n (map_of (buildDBPVCMap records) n) (map_of (buildK8sPVCMap pvcs) n)"
      using \<open>i \<in> _\<close> by (auto simp: pvc_items_def Let_def)
    then show ?thesis
      using db [of n] k8s [of n] by (auto simp: name state classifyPVCMappingState_def split: option.splits)
  qed
  ultimately show ?thesis
    unfolding names by simp
qed

definition orphan_claim :: PVC where
  "orphan_claim = \<lparr>pvc_Meta = meta ''pvc-a'' ''liteboxd-sandbox'' None [], pvc_AccessModes = [''ReadWriteOnce''],
     pvc_StorageRequest = ''1Gi'', pvc_StorageClassName = None, pvc_VolumeName = ''pv-a'', pvc_Phase = ''Bound''\<rparr>"

theorem pvc_view_complete_witness:
  "set (map pvm_PVCName (pvc_items Some ''liteboxd'' [] [orphan_claim])) = {''pvc-a''} \<and>
   pvm_State ` set (pvc_items Some ''liteboxd'' [] [orphan_claim]) = {PVCMappingStateOrphanPVC}"
proof -
  define items where "items = pvc_items Some ''liteboxd'' [] [orphan_claim]"
  have names: "claim_names [] [orphan_claim] = {''pvc-a''}" "claim_names [] [] = {}"
    by (simp_all add: claim_names_def orphan_claim_def meta_def)
  note v = pvc_view_complete [of Some "''liteboxd''" "[]" "[orphan_claim]", folded items_def, unfolded names]
  have n: "set (map pvm_PVCName items) = {''pvc-a''}"
    using v by (elim conjE)
  have "pvm_State i = PVCMappingStateOrphanPVC" if "i \<in> set items" for i
    using bspec [OF conjunct2 [OF conjunct2 [OF conjunct2 [OF v]]] that] that n
    by (auto simp: orphan_claim_def meta_def)
  then show ?thesis
    using n unfolding items_def [symmetric] by (auto simp: image_iff)
qed

text \<open>
  A page number near the largest integer makes the listing panic: the product of the offset wraps to a
  negative slice bound. Nothing rejects such a page.
\<close>

theorem huge_page_panics:
  assumes "db_faults w = []" "pvo_State opts = []" "pvo_Page opts = 2 ^ 63 - 1" "pvo_PageSize opts = 20"
    "pvcs_List (k8sClient s) (sandboxNS (k8sClient s)) [(''app'', LabelApp)] (kube w) = (Inr pvcs, k)"
  shows "\<exists>m w'. run_state (ListPVCMappings q s opts) w = (Inl (GoPanic m), w')"
proof -
  have "page_slice (2 ^ 63 - 1) 20 xs = Inl (GoPanic ''slice bounds out of range'')" for xs :: "PVCMapping list"
    by (simp add: page_slice_def wrap64_def)
  then have "wp (ListPVCMappings q s opts) (\<lambda>y _. \<exists>m. y = Inl (GoPanic m)) w"
    using assms by (simp add: ListPVCMappings_def ListForReconcile_def ListSandboxPVCs_def wp_simps wp_sql_stmt Let_def)
  then show ?thesis
    by (auto simp: wp_def split: prod.splits)
qed

theorem huge_page_panics_witness:
  "\<exists>m w'. run_state (ListPVCMappings Some
       \<lparr>k8sClient = sample_client, streams = \<lparr>st_exec = \<lambda>ns n cmd i k. (Inr ([], [], None), k), st_logs = \<lambda>ns n t k. (Inr [], k),
          tar_write = \<lambda>n c. Inr c, tar_read = \<lambda>x. ([], None)\<rparr>, hasTemplateSvc = True, tokenCipher = sample_cipher, sha256 = \<lambda>x. x,
        gatewayEnv = [], ulower = \<lambda>x. x, marshalEnv = \<lambda>e. Inr ''{}'', unmarshalEnv = \<lambda>j. Inr None\<rparr>
       \<lparr>pvo_SandboxID = [], pvo_StorageClass = [], pvo_State = [], pvo_Page = 2 ^ 63 - 1, pvo_PageSize = 20\<rparr>)
     (sample_world [] []) = (Inl (GoPanic m), w')"
  by (rule huge_page_panics) (simp_all add: sample_client_def)

end
