(* ===== verification/Api.thy ===== *)
theory Api
  imports Backend Prepull Pvc_Mapping
begin

text \<open>
  The HTTP handlers of sandboxes, templates and their import and export: \<open>handler/sandbox.go\<close>,
  \<open>handler/template.go\<close> and \<open>handler/import_export.go\<close>. A handler gets what gin has taken from the request (path
  and query parameters, the decoded body or the error of decoding it) and answers with a status and a body; the
  goroutines it starts are returned as the tasks they will run.
\<close>

section \<open>Parameters\<close>

text \<open>\<open>strconv.ParseUint\<close> in base ten: the digits are read up to the first that is not one or that exceeds 64 bits.\<close>

fun scan_uint :: "nat \<Rightarrow> string \<Rightarrow> nat option" where
  "scan_uint n [] = Some n"
| "scan_uint n (c # cs) =
     (if \<not> is_digit c then None
      else let m = 10 * n + (of_char c - 48) in if m \<ge> 2 ^ 64 then Some (2 ^ 64) else scan_uint m cs)"

text \<open>\<open>strconv.Atoi\<close>: the value, which is the nearest integer where the number is out of range, and whether there was no error.\<close>

definition atoi :: "string \<Rightarrow> int \<times> bool" where
  "atoi s =
     (let neg = has_prefix ''-'' s; ds = (if neg \<or> has_prefix ''+'' s then tl s else s) in
      if ds = [] then (0, False)
      else case scan_uint 0 ds of
        None \<Rightarrow> (0, False)
      | Some n \<Rightarrow>
          if \<not> neg \<and> int n \<ge> 2 ^ 63 then (2 ^ 63 - 1, False)
          else if neg \<and> int n > 2 ^ 63 then (- (2 ^ 63), False)
          else (if neg then - int n else int n, True))"

text \<open>\<open>time.Parse(time.RFC3339, \<dots>)\<close>.\<close>

definition days_of_civil :: "int \<Rightarrow> int \<Rightarrow> int \<Rightarrow> int" where
  "days_of_civil y m d =
     (let y' = (if m \<le> 2 then y - 1 else y); era = y' div 400; yoe = y' - era * 400;
          doy = (153 * (if m > 2 then m - 3 else m + 9) + 2) div 5 + d - 1
      in era * 146097 + yoe * 365 + yoe div 4 - yoe div 100 + doy - 719468)"

definition days_in :: "int \<Rightarrow> int \<Rightarrow> int" where
  "days_in m y =
     (if m = 2 then (if y mod 4 = 0 \<and> (y mod 100 \<noteq> 0 \<or> y mod 400 = 0) then 29 else 28)
      else if m \<in> {4, 6, 9, 11} then 30 else 31)"

definition take_number :: "nat \<Rightarrow> string \<Rightarrow> (int \<times> string) option" where
  "take_number n s =
     (if n \<le> length s \<and> list_all is_digit (take n s) then Some (int (digits_val (take n s)), drop n s) else None)"

definition take_char :: "char \<Rightarrow> string \<Rightarrow> string option" where
  "take_char c s = (case s of [] \<Rightarrow> None | x # r \<Rightarrow> if x = c then Some r else None)"

text \<open>The hour may have one digit, and a fraction of a second may follow the seconds, after a period or a comma.\<close>

definition take_hour :: "string \<Rightarrow> (int \<times> string) option" where
  "take_hour s = (case take_number 2 s of None \<Rightarrow> take_number 1 s | Some x \<Rightarrow> Some x)"

definition take_fraction :: "string \<Rightarrow> int \<times> string" where
  "take_fraction s =
     (case s of
        c # d # r \<Rightarrow>
          if (c = CHR ''.'' \<or> c = CHR '','') \<and> is_digit d then
            (let ds = takeWhile is_digit (d # r); v = take 9 ds
             in (int (digits_val v) * 10 ^ (9 - length v), dropWhile is_digit (d # r)))
          else (0, s)
      | _ \<Rightarrow> (0, s))"

text \<open>The offset of the zone, in seconds, which ends the string.\<close>

definition take_zone :: "string \<Rightarrow> int option" where
  "take_zone s =
     (if s = ''Z'' then Some 0
      else case s of
        [sg, h1, h2, c, m1, m2] \<Rightarrow>
          (case (take_number 2 [h1, h2], take_number 2 [m1, m2]) of
             (Some (h, _), Some (m, _)) \<Rightarrow>
               if c \<noteq> CHR '':'' \<or> h > 24 \<or> m > 60 then None
               else if sg = CHR ''+'' then Some (h * 3600 + m * 60)
               else if sg = CHR ''-'' then Some (- (h * 3600 + m * 60)) else None
           | _ \<Rightarrow> None)
      | _ \<Rightarrow> None)"

definition parse_rfc3339 :: "string \<Rightarrow> time option" where
  "parse_rfc3339 s = do {
     (y, s) \<leftarrow> take_number 4 s; s \<leftarrow> take_char (CHR ''-'') s;
     (mo, s) \<leftarrow> take_number 2 s; s \<leftarrow> take_char (CHR ''-'') s;
     (d, s) \<leftarrow> take_number 2 s; s \<leftarrow> take_char (CHR ''T'') s;
     (h, s) \<leftarrow> take_hour s; s \<leftarrow> take_char (CHR '':'') s;
     (mi, s) \<leftarrow> take_number 2 s; s \<leftarrow> take_char (CHR '':'') s;
     (se, s) \<leftarrow> take_number 2 s;
     (let (ns, s) = take_fraction s in do {
        z \<leftarrow> take_zone s;
        (if 1 \<le> mo \<and> mo \<le> 12 \<and> 1 \<le> d \<and> d \<le> days_in mo y \<and> h < 24 \<and> mi < 60 \<and> se < 60
         then Some ((days_of_civil y mo d * 86400 + h * 3600 + mi * 60 + se - z) * second + ns) else None) }) }"

lemma parse_rfc3339_examples:
  "parse_rfc3339 ''2024-02-29T12:34:56Z'' = Some (1709210096 * second)"
  "parse_rfc3339 ''2024-02-29T14:34:56.5+02:00'' = Some (1709210096 * second + 500000000)"
  "parse_rfc3339 ''2023-02-29T12:34:56Z'' = None"
  by code_simp+

type_synonym query = "(string \<times> string) list"

text \<open>\<open>c.Query\<close> and \<open>c.DefaultQuery\<close>: the first value of a key, the default only where the key is missing.\<close>

definition Query :: "query \<Rightarrow> string \<Rightarrow> string" where
  "Query q k = (case map_of q k of None \<Rightarrow> [] | Some v \<Rightarrow> v)"

definition DefaultQuery :: "query \<Rightarrow> string \<Rightarrow> string \<Rightarrow> string" where
  "DefaultQuery q k d = (case map_of q k of None \<Rightarrow> d | Some v \<Rightarrow> v)"

definition IntQuery :: "query \<Rightarrow> string \<Rightarrow> string \<Rightarrow> int" where
  "IntQuery q k d = fst (atoi (DefaultQuery q k d))"

section \<open>Replies\<close>

datatype api_body =
    Acknowledged string
  | NoBody
  | SandboxBody Sandbox
  | SandboxesBody "Sandbox list"
  | MetadataBody SandboxMetadataListResponse
  | ClaimsBody PVCMappingListResponse
  | HistoryBody "SandboxStatusHistoryRecord list"
  | RunBody "(ReconcileRunRecord \<times> ReconcileItemRecord list) option"
  | RunsBody "ReconcileRunRecord list"
  | ExecBody string string int
  | LogsBody LogsResponse
  | FileBody string
  | TerminalBody "string list" bool int int
  | TemplateBody template_view
  | TemplatesBody TemplateListResponse
  | VersionBody TemplateVersion
  | VersionsBody "TemplateVersion list"
  | RollbackBody RollbackResponse
  | ImportBody ImportTemplatesResponse
  | YamlBody string
  | PrepullBody prepull_reply

text \<open>
  \<open>Fail\<close> has the status, the code (the sandbox handlers use none) and the message; a panic is answered by
  \<open>gin.Recovery\<close>, with a bare 500.
\<close>

datatype api_reply = Fail int string string | Done int api_body

datatype api_task = CreationTask PostCreationTask | PrepullTask string string

fun is_panic :: "go_err \<Rightarrow> bool" where
  "is_panic (GoPanic s) = True"
| "is_panic (Wrap s e) = is_panic e"
| "is_panic _ = False"

definition failed :: "int \<Rightarrow> string \<Rightarrow> go_err \<Rightarrow> api_reply" where
  "failed st code e = (if is_panic e then Fail 500 [] [] else Fail st code (err_text e))"

definition reply_with :: "int \<Rightarrow> (go_err \<Rightarrow> api_reply) \<Rightarrow> ('a \<Rightarrow> api_body) \<Rightarrow> 'a res \<Rightarrow> api_reply" where
  "reply_with st fl body r = (case r of Inl e \<Rightarrow> fl e | Inr x \<Rightarrow> Done st (body x))"

abbreviation "server_error \<equiv> failed 500 []"
abbreviation "internal_error \<equiv> failed 500 ''INTERNAL_ERROR''"
abbreviation "invalid_request \<equiv> failed 400 ''INVALID_REQUEST''"

text \<open>\<open>errors.Is\<close>.\<close>

fun errors_Is :: "go_err \<Rightarrow> go_err \<Rightarrow> bool" where
  "errors_Is (Wrap s e) t = (Wrap s e = t \<or> errors_Is e t)"
| "errors_Is e t = (e = t)"

section \<open>Sandboxes (handler/sandbox.go)\<close>

text \<open>The binding requires a template and, for a command, that the list is there.\<close>

definition SandboxHandler_Create :: "'k SandboxService \<Rightarrow> CreateSandboxRequest res \<Rightarrow> ('k, api_reply \<times> api_task list) prog" where
  "SandboxHandler_Create s body =
     (case body of
        Inl e \<Rightarrow> ret (Fail 400 [] (err_text e), [])
      | Inr req \<Rightarrow>
          if csr_Template req = [] then ret (Fail 400 [] ''Template is required'', [])
          else do {
            r \<leftarrow> SandboxService_Create s req;
            ret (case r of
              Inl e \<Rightarrow> (server_error e, [])
            | Inr (sandbox, task) \<Rightarrow> (Done 201 (SandboxBody sandbox), [CreationTask task])) })"

definition SandboxHandler_List :: "'k SandboxService \<Rightarrow> query \<Rightarrow> ('k, api_reply) prog" where
  "SandboxHandler_List s q = do {
     r \<leftarrow> SandboxService_ListForUser s (DefaultQuery q ''include_terminating'' ''true'' = ''true'');
     ret (reply_with 200 server_error SandboxesBody r) }"

definition SandboxHandler_Get :: "'k SandboxService \<Rightarrow> string \<Rightarrow> ('k, api_reply) prog" where
  "SandboxHandler_Get s sid = do {
     r \<leftarrow> SandboxService_Get s sid;
     ret (reply_with 200 (failed 404 []) SandboxBody r) }"

text \<open>A time parameter that is given has to parse.\<close>

definition time_query :: "query \<Rightarrow> string \<Rightarrow> time option option" where
  "time_query q name =
     (if Query q name = [] then Some None
      else case parse_rfc3339 (Query q name) of None \<Rightarrow> None | Some t \<Rightarrow> Some (Some t))"

definition invalid_time :: "string \<Rightarrow> api_reply" where
  "invalid_time name = Fail 400 [] (''invalid '' @ name @ '', expected RFC3339'')"

definition metadata_options :: "query \<Rightarrow> SandboxMetadataQuery + api_reply" where
  "metadata_options q =
     (case time_query q ''created_from'' of None \<Rightarrow> Inr (invalid_time ''created_from'') | Some createdFrom \<Rightarrow>
      case time_query q ''created_to'' of None \<Rightarrow> Inr (invalid_time ''created_to'') | Some createdTo \<Rightarrow>
      case time_query q ''deleted_from'' of None \<Rightarrow> Inr (invalid_time ''deleted_from'') | Some deletedFrom \<Rightarrow>
      case time_query q ''deleted_to'' of None \<Rightarrow> Inr (invalid_time ''deleted_to'') | Some deletedTo \<Rightarrow>
      Inl \<lparr>q_ID = Query q ''id'', q_Template = Query q ''template'', q_DesiredState = Query q ''desired_state'',
        q_LifecycleStatus = Query q ''lifecycle_status'', q_CreatedFrom = createdFrom, q_CreatedTo = createdTo,
        q_DeletedFrom = deletedFrom, q_DeletedTo = deletedTo, q_DeletionPhase = Query q ''deletion_phase'',
        q_Page = IntQuery q ''page'' ''1'', q_PageSize = IntQuery q ''page_size'' ''20''\<rparr>)"

definition SandboxHandler_ListMetadata :: "'k SandboxService \<Rightarrow> query \<Rightarrow> ('k, api_reply) prog" where
  "SandboxHandler_ListMetadata s q =
     (case metadata_options q of
        Inr bad \<Rightarrow> ret bad
      | Inl opts \<Rightarrow> do {
          r \<leftarrow> SandboxService_ListMetadata s opts;
          ret (reply_with 200 server_error MetadataBody r) })"

definition SandboxHandler_ListPVCMappings ::
  "(string \<Rightarrow> string option) \<Rightarrow> 'k SandboxService \<Rightarrow> query \<Rightarrow> ('k, api_reply) prog" where
  "SandboxHandler_ListPVCMappings q_string s q =
     (let state = Query q ''state'' in
      if state \<noteq> [] \<and> state \<noteq> PVCMappingStateBound \<and> state \<noteq> PVCMappingStateOrphanPVC \<and> state \<noteq> PVCMappingStateDanglingMeta
      then ret (Fail 400 [] ''invalid state, expected one of [bound, orphan_pvc, dangling_metadata]'')
      else do {
        r \<leftarrow> ListPVCMappings q_string s \<lparr>pvo_SandboxID = Query q ''sandbox_id'', pvo_StorageClass = Query q ''storage_class'',
               pvo_State = state, pvo_Page = IntQuery q ''page'' ''1'', pvo_PageSize = IntQuery q ''page_size'' ''20''\<rparr>;
        ret (reply_with 200 server_error ClaimsBody r) })"

definition SandboxHandler_Delete :: "'k SandboxService \<Rightarrow> string \<Rightarrow> ('k, api_reply) prog" where
  "SandboxHandler_Delete s sid = do {
     r \<leftarrow> SandboxService_Delete s sid;
     ret (reply_with 202 server_error SandboxBody r) }"

definition restart_error :: "go_err \<Rightarrow> api_reply" where
  "restart_error e =
     (if errors_Is e ErrSandboxNotFound then Fail 404 [] (err_text e)
      else if errors_Is e ErrSandboxRestartNotSupported then Fail 400 [] (err_text e)
      else if errors_Is e ErrSandboxRestartInvalidState then Fail 409 [] (err_text e)
      else server_error e)"

definition SandboxHandler_Restart :: "'k SandboxService \<Rightarrow> string \<Rightarrow> ('k, api_reply) prog" where
  "SandboxHandler_Restart s sid = do {
     r \<leftarrow> SandboxService_Restart s sid;
     ret (reply_with 200 restart_error (\<lambda>_. Acknowledged ''restart requested'') r) }"

definition stop_error :: "go_err \<Rightarrow> api_reply" where
  "stop_error e =
     (if errors_Is e ErrSandboxNotFound then Fail 404 [] (err_text e)
      else if errors_Is e ErrSandboxStopNotSupported then Fail 400 [] (err_text e)
      else if errors_Is e ErrSandboxStopInvalidState then Fail 409 [] (err_text e)
      else if errors_Is e ErrSandboxAlreadyStopped then Fail 409 [] (err_text e)
      else server_error e)"

definition SandboxHandler_Stop :: "'k SandboxService \<Rightarrow> string \<Rightarrow> ('k, api_reply) prog" where
  "SandboxHandler_Stop s sid = do {
     r \<leftarrow> SandboxService_Stop s sid;
     ret (reply_with 200 stop_error (\<lambda>_. Acknowledged ''stop requested'') r) }"

definition start_error :: "go_err \<Rightarrow> api_reply" where
  "start_error e =
     (if errors_Is e ErrSandboxNotFound then Fail 404 [] (err_text e)
      else if errors_Is e ErrSandboxStartNotSupported then Fail 400 [] (err_text e)
      else if errors_Is e ErrSandboxNotStopped then Fail 409 [] (err_text e)
      else server_error e)"

definition SandboxHandler_Start :: "'k SandboxService \<Rightarrow> string \<Rightarrow> ('k, api_reply) prog" where
  "SandboxHandler_Start s sid = do {
     r \<leftarrow> SandboxService_Start s sid;
     ret (reply_with 200 start_error (\<lambda>_. Acknowledged ''start requested'') r) }"

definition SandboxHandler_GetStatusHistory :: "string \<Rightarrow> query \<Rightarrow> ('k, api_reply) prog" where
  "SandboxHandler_GetStatusHistory sid q = do {
     r \<leftarrow> GetStatusHistory sid (IntQuery q ''limit'' ''50'') (IntQuery q ''before_id'' ''0'');
     ret (reply_with 200 server_error HistoryBody r) }"

definition SandboxHandler_TriggerReconcile :: "'k SandboxReconcileService \<Rightarrow> ('k, api_reply) prog" where
  "SandboxHandler_TriggerReconcile rs = do {
     r \<leftarrow> Run rs ''manual'';
     ret (reply_with 202 server_error RunBody r) }"

definition clamp_limit :: "int \<Rightarrow> int" where
  "clamp_limit limit = (let limit = (if limit \<le> 0 then 20 else limit) in if limit > 100 then 100 else limit)"

definition SandboxHandler_ListReconcileRuns :: "query \<Rightarrow> ('k, api_reply) prog" where
  "SandboxHandler_ListReconcileRuns q = do {
     r \<leftarrow> ListRuns (clamp_limit (IntQuery q ''limit'' ''20''));
     ret (reply_with 200 server_error RunsBody r) }"

definition SandboxHandler_GetReconcileRun :: "string \<Rightarrow> ('k, api_reply) prog" where
  "SandboxHandler_GetReconcileRun runID = do {
     r \<leftarrow> GetRun runID;
     ret (case r of
       Inl e \<Rightarrow> server_error e
     | Inr None \<Rightarrow> Fail 404 [] ''reconcile run not found''
     | Inr (Some run) \<Rightarrow> Done 200 (RunBody (Some run))) }"

definition SandboxHandler_Exec :: "'k SandboxService \<Rightarrow> string \<Rightarrow> string list option res \<Rightarrow> ('k, api_reply) prog" where
  "SandboxHandler_Exec s sid body =
     (case body of
        Inl e \<Rightarrow> ret (Fail 400 [] (err_text e))
      | Inr None \<Rightarrow> ret (Fail 400 [] ''Command is required'')
      | Inr (Some command) \<Rightarrow> do {
          r \<leftarrow> SandboxService_Exec s sid command;
          ret (reply_with 200 server_error (\<lambda>(out, err, code). ExecBody out err code) r) })"

text \<open>The file of the form is missing, cannot be read, or has a content.\<close>

definition SandboxHandler_UploadFile ::
  "'k SandboxService \<Rightarrow> string \<Rightarrow> string \<Rightarrow> string res option \<Rightarrow> ('k, api_reply) prog" where
  "SandboxHandler_UploadFile s sid path file =
     (if path = [] then ret (Fail 400 [] ''path is required'')
      else case file of
        None \<Rightarrow> ret (Fail 400 [] ''file is required'')
      | Some (Inl e) \<Rightarrow> ret (Fail 500 [] ''failed to read file'')
      | Some (Inr content) \<Rightarrow> do {
          r \<leftarrow> SandboxService_UploadFile s sid path content;
          ret (reply_with 200 server_error (\<lambda>_. Acknowledged ''file uploaded successfully'') r) })"

definition SandboxHandler_DownloadFile :: "'k SandboxService \<Rightarrow> string \<Rightarrow> query \<Rightarrow> ('k, api_reply) prog" where
  "SandboxHandler_DownloadFile s sid q =
     (if Query q ''path'' = [] then ret (Fail 400 [] ''path is required'')
      else do {
        r \<leftarrow> SandboxService_DownloadFile s sid (Query q ''path'');
        ret (reply_with 200 server_error FileBody r) })"

definition SandboxHandler_GetLogs :: "'k SandboxService \<Rightarrow> string \<Rightarrow> ('k, api_reply) prog" where
  "SandboxHandler_GetLogs s sid = do {
     r \<leftarrow> SandboxService_GetLogs s sid 100;
     ret (reply_with 200 server_error LogsBody r) }"

text \<open>
  The start of an interactive session, up to the bridge that \<open>ExecInteractive\<close> of the service runs on the upgraded
  connection: the command, whether it has a terminal, and its size.
\<close>

definition SandboxHandler_ExecInteractive :: "bool \<Rightarrow> string list \<Rightarrow> query \<Rightarrow> go_err option \<Rightarrow> api_reply" where
  "SandboxHandler_ExecInteractive drains commands q upgrade =
     (if drains then Fail 503 [] ''service is draining''
      else
        let command = (if commands = [] then [''sh''] else commands);
            tty = (DefaultQuery q ''tty'' ''true'' = ''true'');
            rows = IntQuery q ''rows'' ''24''; cols = IntQuery q ''cols'' ''80'';
            rows = (if rows \<le> 0 then 24 else rows); cols = (if cols \<le> 0 then 80 else cols)
        in case upgrade of
             Some e \<Rightarrow> Fail 500 [] (''failed to upgrade to websocket: '' @ err_text e)
           | None \<Rightarrow> Done 101 (TerminalBody command tty rows cols))"

section \<open>Templates (handler/template.go)\<close>

definition isConflictError :: "go_err \<Rightarrow> bool" where
  "isConflictError e \<longleftrightarrow> contains_str (err_text e) ''already exists'' \<or> contains_str (err_text e) ''UNIQUE constraint''"

definition isNotFoundError :: "go_err \<Rightarrow> bool" where
  "isNotFoundError e \<longleftrightarrow> contains_str (err_text e) ''not found''"

definition template_not_found :: "string \<Rightarrow> api_reply" where
  "template_not_found name = Fail 404 ''TEMPLATE_NOT_FOUND'' (''Template '' @ [CHR 0x27] @ name @ [CHR 0x27] @ '' not found'')"

definition template_reply :: "int \<Rightarrow> (go_err \<Rightarrow> api_reply) \<Rightarrow> string \<Rightarrow> ('a \<Rightarrow> api_body) \<Rightarrow> 'a option res \<Rightarrow> api_reply" where
  "template_reply st fl name body r =
     (case r of Inl e \<Rightarrow> fl e | Inr None \<Rightarrow> template_not_found name | Inr (Some x) \<Rightarrow> Done st (body x))"

text \<open>
  The service starts a prepull of the image in a goroutine when the request asks for one (the server always has a
  prepull service). The binding requires a name.
\<close>

definition TemplateHandler_Create ::
  "(string \<Rightarrow> go_err option) \<Rightarrow> (string \<Rightarrow> string) \<Rightarrow> CreateTemplateRequest res \<Rightarrow> ('k, api_reply \<times> api_task list) prog" where
  "TemplateHandler_Create qerr ulow body =
     (case body of
        Inl e \<Rightarrow> ret (Fail 400 ''INVALID_REQUEST'' (err_text e), [])
      | Inr req \<Rightarrow>
          if ctr_Name req = [] then ret (Fail 400 ''INVALID_REQUEST'' ''Name is required'', [])
          else do {
            r \<leftarrow> TemplateService_Create qerr ulow req;
            ret (case r of
              Inl e \<Rightarrow> (if isConflictError e then failed 409 ''TEMPLATE_EXISTS'' e else invalid_request e, [])
            | Inr template \<Rightarrow> (Done 201 (TemplateBody template),
                if ctr_AutoPrepull req then [PrepullTask (ts_Image (ctr_Spec req)) (ctr_Name req)] else [])) })"

definition TemplateHandler_List :: "query \<Rightarrow> ('k, api_reply) prog" where
  "TemplateHandler_List q = do {
     r \<leftarrow> TemplateService_List \<lparr>tlo_Tag = Query q ''tag'', tlo_Search = Query q ''search'',
            tlo_Page = IntQuery q ''page'' ''1'', tlo_PageSize = IntQuery q ''pageSize'' ''20''\<rparr>;
     ret (reply_with 200 internal_error TemplatesBody r) }"

definition TemplateHandler_Get :: "string \<Rightarrow> ('k, api_reply) prog" where
  "TemplateHandler_Get name = do {
     r \<leftarrow> TemplateService_Get name;
     ret (template_reply 200 internal_error name TemplateBody r) }"

definition TemplateHandler_Update ::
  "(string \<Rightarrow> go_err option) \<Rightarrow> (string \<Rightarrow> string) \<Rightarrow> string \<Rightarrow> UpdateTemplateRequest res \<Rightarrow> ('k, api_reply) prog" where
  "TemplateHandler_Update qerr ulow name body =
     (case body of
        Inl e \<Rightarrow> ret (Fail 400 ''INVALID_REQUEST'' (err_text e))
      | Inr req \<Rightarrow> do {
          r \<leftarrow> TemplateService_Update qerr ulow name req;
          ret (template_reply 200 invalid_request name TemplateBody r) })"

definition TemplateHandler_Delete :: "string \<Rightarrow> ('k, api_reply) prog" where
  "TemplateHandler_Delete name = do {
     r \<leftarrow> TemplateService_Delete name;
     ret (reply_with 204 (\<lambda>e. if isNotFoundError e then template_not_found name else internal_error e) (\<lambda>_. NoBody) r) }"

definition TemplateHandler_ListVersions :: "string \<Rightarrow> ('k, api_reply) prog" where
  "TemplateHandler_ListVersions name = do {
     r \<leftarrow> TemplateService_ListVersions name;
     ret (template_reply 200 internal_error name VersionsBody r) }"

definition TemplateHandler_GetVersion :: "string \<Rightarrow> string \<Rightarrow> ('k, api_reply) prog" where
  "TemplateHandler_GetVersion name versionStr =
     (case atoi versionStr of (version, ok) \<Rightarrow>
        if \<not> ok then ret (Fail 400 ''INVALID_REQUEST'' ''Invalid version number'')
        else do {
          r \<leftarrow> TemplateService_GetVersion name version;
          ret (case r of
            Inl e \<Rightarrow> internal_error e
          | Inr None \<Rightarrow> Fail 404 ''VERSION_NOT_FOUND''
              (''Version '' @ versionStr @ '' not found for template '' @ [CHR 0x27] @ name @ [CHR 0x27])
          | Inr (Some ver) \<Rightarrow> Done 200 (VersionBody ver)) })"

text \<open>The binding requires a target version other than 0.\<close>

definition TemplateHandler_Rollback :: "string \<Rightarrow> (int \<times> string) res \<Rightarrow> ('k, api_reply) prog" where
  "TemplateHandler_Rollback name body =
     (case body of
        Inl e \<Rightarrow> ret (Fail 400 ''INVALID_REQUEST'' (err_text e))
      | Inr (target, changelog) \<Rightarrow>
          if target = 0 then ret (Fail 400 ''INVALID_REQUEST'' ''TargetVersion is required'')
          else do {
            r \<leftarrow> TemplateService_Rollback name target changelog;
            ret (reply_with 200 (\<lambda>e. if isNotFoundError e then failed 404 ''TEMPLATE_NOT_FOUND'' e else invalid_request e)
              RollbackBody r) })"

section \<open>Import and export (handler/import\_export.go)\<close>

record ImportForm =
  if_Strategy :: string
  if_Prepull :: bool

definition start_prepulls :: "ImportTemplatesResponse \<Rightarrow> api_task list" where
  "start_prepulls resp = map (\<lambda>img. PrepullTask img []) (itr_PrepullStarted resp)"

definition import_error :: "go_err \<Rightarrow> api_reply" where
  "import_error e =
     (if contains_str (err_text e) ''invalid YAML'' then failed 400 ''INVALID_YAML'' e else internal_error e)"

text \<open>The upload is missing, cannot be opened or read (with the message for it), or has a content.\<close>

definition ImportExportHandler_Import ::
  "(string \<Rightarrow> go_err option) \<Rightarrow> (string \<Rightarrow> string) \<Rightarrow> YamlCodec \<Rightarrow> ImportForm res \<Rightarrow> (string + string) option \<Rightarrow>
   ('k, api_reply \<times> api_task list) prog" where
  "ImportExportHandler_Import qerr ulow yc form file =
     (case form of
        Inl e \<Rightarrow> ret (Fail 400 ''INVALID_REQUEST'' (err_text e), [])
      | Inr f \<Rightarrow>
          let strategy = (if if_Strategy f = [] then ''create-or-update'' else if_Strategy f) in
          case file of
            None \<Rightarrow> ret (Fail 400 ''INVALID_REQUEST'' ''file is required'', [])
          | Some (Inl msg) \<Rightarrow> ret (Fail 500 ''INTERNAL_ERROR'' msg, [])
          | Some (Inr content) \<Rightarrow> do {
              r \<leftarrow> ImportFromYAML qerr ulow yc True content strategy (if_Prepull f);
              ret (reply_with 200 import_error ImportBody r, case r of Inl _ \<Rightarrow> [] | Inr resp \<Rightarrow> start_prepulls resp) })"

definition ImportExportHandler_ExportAll :: "YamlCodec \<Rightarrow> query \<Rightarrow> ('k, api_reply) prog" where
  "ImportExportHandler_ExportAll yc q = do {
     r \<leftarrow> ExportAllToYAML yc (Query q ''tag'') (if Query q ''names'' = [] then [] else split_char (CHR '','') (Query q ''names''));
     ret (reply_with 200 internal_error YamlBody r) }"

definition export_version :: "query \<Rightarrow> int res" where
  "export_version q = (if Query q ''version'' = [] then Inr 0 else sscanf_d (Query q ''version''))"

definition ImportExportHandler_ExportOne :: "YamlCodec \<Rightarrow> string \<Rightarrow> query \<Rightarrow> ('k, api_reply) prog" where
  "ImportExportHandler_ExportOne yc name q =
     (case export_version q of
        Inl e \<Rightarrow> ret (Fail 400 ''INVALID_REQUEST'' ''invalid version number'')
      | Inr version \<Rightarrow> do {
          r \<leftarrow> ExportToYAML yc name version;
          ret (reply_with 200 (\<lambda>e. if contains_str (err_text e) ''not found'' then failed 404 ''TEMPLATE_NOT_FOUND'' e
            else internal_error e) YamlBody r) })"

section \<open>Restart, stop and start over HTTP\<close>

datatype lifecycle_request = RestartRequest | StopRequest | StartRequest

fun lifecycle_handler :: "'k SandboxService \<Rightarrow> lifecycle_request \<Rightarrow> string \<Rightarrow> ('k, api_reply) prog" where
  "lifecycle_handler s RestartRequest sid = SandboxHandler_Restart s sid"
| "lifecycle_handler s StopRequest sid = SandboxHandler_Stop s sid"
| "lifecycle_handler s StartRequest sid = SandboxHandler_Start s sid"

text \<open>The status a request is refused with, from the row alone, and what the row shows after one that succeeds.\<close>

definition refusal :: "lifecycle_request \<Rightarrow> SandboxRecord option \<Rightarrow> int option" where
  "refusal q found =
     (case found of
        None \<Rightarrow> Some 404
      | Some r \<Rightarrow>
          if rec_DesiredState r = DesiredStateDeleted \<or> rec_LifecycleStatus r = ''deleted'' then Some 404
          else if \<not> rec_PersistenceEnabled r then Some 400
          else if (rec_LifecycleStatus r = ''stopped'') = (q \<noteq> StartRequest) \<or> q \<noteq> StartRequest \<and> rec_LifecycleStatus r = ''terminating''
          then Some 409 else None)"

fun requested_status :: "lifecycle_request \<Rightarrow> string" where
  "requested_status StopRequest = ''stopped''"
| "requested_status q = ''pending''"

definition answers :: "lifecycle_request \<Rightarrow> string \<Rightarrow> 'k world \<Rightarrow> api_reply \<Rightarrow> 'k world \<Rightarrow> bool" where
  "answers q sid w y v \<longleftrightarrow>
     (case refusal q (lookup rec_ID sid (sandboxes (db w))) of
        Some c \<Rightarrow> (\<exists>m. y = Fail c [] m) \<and> db v = db w \<and> kube v = kube w
      | None \<Rightarrow> (case y of
            Done c b \<Rightarrow> c = 200 \<and> (\<exists>r. lookup rec_ID sid (sandboxes (db v)) = Some r \<and> rec_LifecycleStatus r = requested_status q)
          | Fail c code m \<Rightarrow> c \<in> {400, 404, 409, 500} \<and> db v = db w))"

lemma wp_GetByID_ok: "db_faults w = [] \<Longrightarrow> wp (GetByID sid) Q w \<longleftrightarrow> Q (Inr (lookup rec_ID sid (sandboxes (db w)))) w"
  by (cases w) (simp add: GetByID_def wp_sql_stmt)

lemma refused_errors:
  "\<exists>c m. restart_error e = Fail c [] m \<and> c \<in> {400, 404, 409, 500}"
  "\<exists>c m. stop_error e = Fail c [] m \<and> c \<in> {400, 404, 409, 500}"
  "\<exists>c m. start_error e = Fail c [] m \<and> c \<in> {400, 404, 409, 500}"
  by (auto simp: restart_error_def stop_error_def start_error_def failed_def)

text \<open>The call of the cluster, the write of the row and the history, once the row has been accepted.\<close>

lemma wp_accepted:
  fixes w :: "'k world"
  assumes "db_faults w = []" "state_io_rel db_same cl" "lookup rec_ID sid (sandboxes (db w)) = Some r"
    and "refusal q (Some r) = None"
    and "\<And>e. \<exists>c m. fl e = Fail c [] m \<and> c \<in> {400, 404, 409, 500}"
    and "\<And>now (v :: 'k world). db_faults v = [] \<Longrightarrow> db v = db w \<Longrightarrow>
      \<exists>x. run_state (act now) v = (Inr (), x) \<and> (\<exists>r'. lookup rec_ID sid (sandboxes (db x)) = Some r' \<and> rec_LifecycleStatus r' = requested_status q)"
    and "\<And>now (v :: 'k world). wp (hist now) (\<lambda>_ z. sandboxes (db z) = sandboxes (db v)) v"
  shows "wp (seqE (not_found_as cl) (\<lambda>_. do { now \<leftarrow> time_now; seqE (act now) (\<lambda>_. do { hist now; retE () }) }))
    (\<lambda>y v. answers q sid w (reply_with 200 fl (\<lambda>_. Acknowledged a) y) v) w"
  unfolding wp_seqE not_found_as_def wp_mapE
proof (rule wp_client [OF assms(2)])
  fix y and v :: "'k world"
  assume v: "db v = db w" "db_faults v = db_faults w"
  show "case case y of Inl e \<Rightarrow> Inl (if is_not_found e then ErrSandboxNotFound else e) | Inr x \<Rightarrow> Inr x of
      Inl e \<Rightarrow> answers q sid w (reply_with 200 fl (\<lambda>_. Acknowledged a) (Inl e)) v
    | Inr x \<Rightarrow> wp (do { now \<leftarrow> time_now; seqE (act now) (\<lambda>_. do { hist now; retE () }) })
        (\<lambda>y v. answers q sid w (reply_with 200 fl (\<lambda>_. Acknowledged a) y) v) v"
  proof (cases y)
    case (Inl e)
    have "answers q sid w (fl e') v" for e'
      using assms(5) [of e'] v assms(3,4) by (auto simp: answers_def)
    then show ?thesis
      using Inl by (simp add: reply_with_def)
  next
    case (Inr u)
    let ?v = "v\<lparr>ticks := Suc (ticks v)\<rparr>"
    obtain x r' where x: "run_state (act (clock v (ticks v))) ?v = (Inr (), x)"
      "lookup rec_ID sid (sandboxes (db x)) = Some r'" "rec_LifecycleStatus r' = requested_status q"
      using assms(6) [of ?v "clock v (ticks v)"] v assms(1) by auto
    have "wp (hist (clock v (ticks v))) (\<lambda>_ z. answers q sid w (Done 200 (Acknowledged a)) z) x"
      by (rule wp_mono [OF assms(7)]) (use x(2,3) assms(3,4) in \<open>simp add: answers_def\<close>)
    then show ?thesis
      using Inr x(1) by (simp add: wp_simps wp_run reply_with_def)
  qed
qed


lemma row_write_ok:
  assumes "db_faults v = []" "lookup rec_ID sid (sandboxes (db v)) = Some r"
  shows "\<exists>x. run_state (UpdateStatus sid SandboxStatusPending reason now) v = (Inr (), x) \<and>
      (\<exists>r'. lookup rec_ID sid (sandboxes (db x)) = Some r' \<and> rec_LifecycleStatus r' = requested_status RestartRequest)"
    and "\<exists>x. run_state (SetStopped sid now) v = (Inr (), x) \<and>
      (\<exists>r'. lookup rec_ID sid (sandboxes (db x)) = Some r' \<and> rec_LifecycleStatus r' = requested_status StopRequest)"
    and "\<exists>x. run_state (SetStarted sid e now) v = (Inr (), x) \<and>
      (\<exists>r'. lookup rec_ID sid (sandboxes (db x)) = Some r' \<and> rec_LifecycleStatus r' = requested_status StartRequest)"
proof -
  have "wp (UpdateStatus sid SandboxStatusPending reason now) (\<lambda>y x. y = Inr () \<and>
      (\<exists>r'. lookup rec_ID sid (sandboxes (db x)) = Some r' \<and> rec_LifecycleStatus r' = ''pending'')) v"
    using assms update_status.lookup_upd [of sid SandboxStatusPending reason now "db v"]
    by (auto simp: UpdateStatus_def wp_sql_stmt UpdateStatus_row_def)
  then show "\<exists>x. run_state (UpdateStatus sid SandboxStatusPending reason now) v = (Inr (), x) \<and>
      (\<exists>r'. lookup rec_ID sid (sandboxes (db x)) = Some r' \<and> rec_LifecycleStatus r' = requested_status RestartRequest)"
    by (auto simp: wp_def split: prod.splits)
  have "wp (SetStopped sid now) (\<lambda>y x. y = Inr () \<and>
      (\<exists>r'. lookup rec_ID sid (sandboxes (db x)) = Some r' \<and> rec_LifecycleStatus r' = ''stopped'')) v"
    using assms lookup_SetStopped(1) [of sid now "db v"] by (auto simp: SetStopped_def wp_sql_stmt SetStopped_row_def)
  then show "\<exists>x. run_state (SetStopped sid now) v = (Inr (), x) \<and>
      (\<exists>r'. lookup rec_ID sid (sandboxes (db x)) = Some r' \<and> rec_LifecycleStatus r' = requested_status StopRequest)"
    by (auto simp: wp_def split: prod.splits)
  have "wp (SetStarted sid e now) (\<lambda>y x. y = Inr () \<and>
      (\<exists>r'. lookup rec_ID sid (sandboxes (db x)) = Some r' \<and> rec_LifecycleStatus r' = ''pending'')) v"
    using assms lookup_SetStopped(2) [of sid e now "db v"] by (auto simp: SetStarted_def wp_sql_stmt SetStarted_row_def)
  then show "\<exists>x. run_state (SetStarted sid e now) v = (Inr (), x) \<and>
      (\<exists>r'. lookup rec_ID sid (sandboxes (db x)) = Some r' \<and> rec_LifecycleStatus r' = requested_status StartRequest)"
    by (auto simp: wp_def split: prod.splits)
qed

lemma wp_lifecycle:
  fixes w :: "'k world"
  assumes "db_faults w = []"
  shows "wp (SandboxService_Restart s sid) (\<lambda>y. answers RestartRequest sid w (reply_with 200 restart_error (\<lambda>_. Acknowledged a) y)) w"
    and "wp (SandboxService_Stop s sid) (\<lambda>y. answers StopRequest sid w (reply_with 200 stop_error (\<lambda>_. Acknowledged a) y)) w"
    and "wp (SandboxService_Start s sid) (\<lambda>y. answers StartRequest sid w (reply_with 200 start_error (\<lambda>_. Acknowledged a) y)) w"
proof -
  define found where "found = lookup rec_ID sid (sandboxes (db w))"
  note defs = wp_seqE wp_GetByID_ok [OF assms] found_def [symmetric] Let_def
  have refused: "answers q sid w (Fail c [] m) w" if "refusal q found = Some c" for q c m
    using that by (simp add: answers_def found_def)
  note sentinels = restart_error_def stop_error_def start_error_def reply_with_def
  have hist: "wp (ignore_err (AppendStatusHistory sid b1 b2 b3 b4 None now)) (\<lambda>_ z. sandboxes (db z) = sandboxes (db v)) v"
    for b1 b2 b3 b4 now and v :: "'k world"
    by (rule wp_history_same)
  show "wp (SandboxService_Restart s sid) (\<lambda>y. answers RestartRequest sid w (reply_with 200 restart_error (\<lambda>_. Acknowledged a) y)) w"
  proof (cases "refusal RestartRequest found")
    case None
    then obtain r where r: "found = Some r" "present (Some r)" "rec_PersistenceEnabled r" "rec_LifecycleStatus r \<noteq> ''terminating''" "rec_LifecycleStatus r \<noteq> ''stopped''"
      by (auto simp: refusal_def present_def split: option.splits if_splits)
    show ?thesis
      unfolding SandboxService_Restart_def defs
      by (simp only: r sum.case option.sel if_False if_True not_True_eq_False not_False_eq_True simp_thms)
         (rule wp_accepted [where r = r, OF assms ko_lifecycle(3) _ _ refused_errors(1) _ hist],
          use r None in \<open>simp add: found_def\<close>, use r None in simp, rule row_write_ok(1) [where r = r], use r in \<open>simp_all add: found_def\<close>)
  next
    case (Some c)
    then show ?thesis
      unfolding SandboxService_Restart_def defs
      by (auto simp: refusal_def present_def wp_ret sentinels intro!: refused split: option.splits if_splits)
  qed
  show "wp (SandboxService_Stop s sid) (\<lambda>y. answers StopRequest sid w (reply_with 200 stop_error (\<lambda>_. Acknowledged a) y)) w"
  proof (cases "refusal StopRequest found")
    case None
    then obtain r where r: "found = Some r" "present (Some r)" "rec_PersistenceEnabled r" "rec_LifecycleStatus r \<noteq> ''terminating''" "rec_LifecycleStatus r \<noteq> ''stopped''"
      by (auto simp: refusal_def present_def split: option.splits if_splits)
    show ?thesis
      unfolding SandboxService_Stop_def defs
      by (simp only: r sum.case option.sel if_False if_True not_True_eq_False not_False_eq_True simp_thms)
         (rule wp_accepted [where r = r, OF assms ko_lifecycle(1) _ _ refused_errors(2) _ hist],
          use r None in \<open>simp add: found_def\<close>, use r None in simp, rule row_write_ok(2) [where r = r], use r in \<open>simp_all add: found_def\<close>)
  next
    case (Some c)
    then show ?thesis
      unfolding SandboxService_Stop_def defs
      by (auto simp: refusal_def present_def wp_ret sentinels intro!: refused split: option.splits if_splits)
  qed
  show "wp (SandboxService_Start s sid) (\<lambda>y. answers StartRequest sid w (reply_with 200 start_error (\<lambda>_. Acknowledged a) y)) w"
  proof (cases "refusal StartRequest found")
    case None
    then obtain r where r: "found = Some r" "present (Some r)" "rec_PersistenceEnabled r" "rec_LifecycleStatus r = ''stopped''"
      by (auto simp: refusal_def present_def split: option.splits if_splits)
    show ?thesis
      unfolding SandboxService_Start_def defs
      by (simp only: r sum.case option.sel if_False if_True not_True_eq_False not_False_eq_True simp_thms)
         (rule wp_accepted [where r = r, OF assms ko_lifecycle(2) _ _ refused_errors(3) _ hist],
          use r None in \<open>simp add: found_def\<close>, use r None in simp, rule row_write_ok(3) [where r = r], use r in \<open>simp_all add: found_def\<close>)
  next
    case (Some c)
    then show ?thesis
      unfolding SandboxService_Start_def defs
      by (auto simp: refusal_def present_def wp_ret sentinels intro!: refused split: option.splits if_splits)
  qed
qed

text \<open>
  A restart of a sandbox whose deletion was requested is left out below: \<open>api/openapi.yaml\<close> documents 409 for it, the
  code answers 404 (\<open>deleted_restart_not_found\<close>).
\<close>

definition restarts_deleted :: "lifecycle_request \<Rightarrow> SandboxRecord option \<Rightarrow> bool" where
  "restarts_deleted q found \<longleftrightarrow> q = RestartRequest \<and>
     (case found of None \<Rightarrow> False | Some r \<Rightarrow> rec_DesiredState r = DesiredStateDeleted \<or> rec_LifecycleStatus r = ''deleted'')"

lemma lifecycle_answers:
  assumes "db_faults w = []" "run_state (lifecycle_handler s q sid) w = (y, w')"
  shows "answers q sid w y w'"
proof -
  have "wp (lifecycle_handler s q sid) (answers q sid w) w"
    using wp_lifecycle [OF assms(1)]
    by (cases q) (simp_all add: SandboxHandler_Restart_def SandboxHandler_Stop_def SandboxHandler_Start_def wp_bind wp_ret)
  then show ?thesis
    using assms(2) by (simp add: wp_def)
qed

lemma deleted_restart_not_found:
  assumes "db_faults w = []" "restarts_deleted q (lookup rec_ID sid (sandboxes (db w)))" "run_state (lifecycle_handler s q sid) w = (y, w')"
  shows "\<exists>m. y = Fail 404 [] m"
  using lifecycle_answers [OF assms(1,3)] assms(2)
  by (auto simp: answers_def refusal_def restarts_deleted_def split: option.splits if_splits)

text \<open>
  C32: with a working database, and but for a restart of a sandbox whose deletion was requested, the answer to a restart,
  stop or start request is decided by the row: 404 without a row, and for a stop or start once its deletion was requested,
  400 for a sandbox without persistence, 409 in the wrong state (a restart or stop of a stopped or terminating
  sandbox, a start of one that is not stopped), and then nothing is changed. Otherwise the request goes to the
  cluster: if it is answered with 200 the row shows the new status, and if with an error the database is as before.
\<close>

theorem lifecycle_requests_answered:
  assumes "db_faults w = []" "\<not> restarts_deleted q (lookup rec_ID sid (sandboxes (db w)))"
    and "run_state (lifecycle_handler s q sid) w = (y, w')"
  shows "answers q sid w y w'"
  by (rule lifecycle_answers [OF assms(1,3)])

lemma lifecycle_requests_answered_witness:
  "\<exists>y w'. run_state (lifecycle_handler sample_service StopRequest ''abc'') (sample_world [sample_row ''abc''] []) = (y, w') \<and>
     (\<exists>m. y = Fail 400 [] m) \<and> sandboxes (db w') = [sample_row ''abc'']"
proof -
  obtain y w' where run: "run_state (lifecycle_handler sample_service StopRequest ''abc'') (sample_world [sample_row ''abc''] []) = (y, w')"
    by fastforce
  then have "answers StopRequest ''abc'' (sample_world [sample_row ''abc''] []) y w'"
    by (intro lifecycle_requests_answered) (simp_all add: restarts_deleted_def)
  then have "(\<exists>m. y = Fail 400 [] m) \<and> sandboxes (db w') = [sample_row ''abc'']"
    by (simp add: answers_def refusal_def lookup_def sample_row_def)
  then show ?thesis
    using run by blast
qed

text \<open>
  The list of volume claims can be asked for every state of a claim but one: the state \<open>deleting\<close>, which the service
  supports and the items show, is turned down by the handler with 400 before the service is called, whatever the
  rest of the request.
\<close>

theorem deleting_claims_not_listed:
  assumes "Query q ''state'' = [] \<or> isSupportedPVCMappingState (Query q ''state'')"
  shows "(\<exists>m. fst (run_state (SandboxHandler_ListPVCMappings q_string s q) w) = Fail 400 [] m) \<longleftrightarrow> Query q ''state'' = ''deleting''"
proof -
  have "wp (SandboxHandler_ListPVCMappings q_string s q) (\<lambda>y _. (\<exists>m. y = Fail 400 [] m) \<longleftrightarrow> Query q ''state'' = ''deleting'') w"
  proof (cases "Query q ''state'' = ''deleting''")
    case False
    then have ok: "\<not> (Query q ''state'' \<noteq> [] \<and> Query q ''state'' \<noteq> PVCMappingStateBound \<and>
        Query q ''state'' \<noteq> PVCMappingStateOrphanPVC \<and> Query q ''state'' \<noteq> PVCMappingStateDanglingMeta)"
      using assms unfolding isSupportedPVCMappingState_def by blast
    have "\<not> (\<exists>m. reply_with 200 server_error ClaimsBody y = Fail 400 [] m)" for y
      by (simp add: reply_with_def failed_def split: sum.split)
    then show ?thesis
      unfolding SandboxHandler_ListPVCMappings_def Let_def if_not_P [OF ok] wp_bind wp_ret
      by (intro wp_triv) (use False in blast)
  qed (simp add: SandboxHandler_ListPVCMappings_def wp_ret)
  then show ?thesis
    by (simp add: wp_alt)
qed

lemma deleting_claims_not_listed_witness:
  "\<exists>m. fst (run_state (SandboxHandler_ListPVCMappings Some sample_service [(''state'', ''deleting'')]) (sample_world [] [])) = Fail 400 [] m"
  by (subst deleting_claims_not_listed) (simp_all add: Query_def isSupportedPVCMappingState_def)

end
