(* ===== verification/Auth.thy ===== *)
theory Auth
  imports Token_Cipher Sql_Tables Go_Http Sample_Cluster
begin

text \<open>
  Logins and API keys: \<open>store/auth.go\<close>, \<open>auth/admin.go\<close>, \<open>auth/middleware.go\<close> and \<open>handler/auth.go\<close> under
  \<open>backend/internal\<close>. SHA-256 and bcrypt are arguments; a request is what the handlers read of it; a goroutine that
  the middleware starts is returned as the task it will run.
\<close>

section \<open>The store (store/auth.go)\<close>

definition GetAdminByUsername :: "string \<Rightarrow> ('k, AdminUserRecord option res) prog" where
  "GetAdminByUsername username =
     sql_query ''failed to query admin user'' (\<lambda>t. lookup adm_Username username (admin_users t))"

definition GetAdminByID :: "string \<Rightarrow> ('k, AdminUserRecord option res) prog" where
  "GetAdminByID aid = sql_query ''failed to query admin user by id'' (\<lambda>t. lookup adm_ID aid (admin_users t))"

definition insert_admin :: "AdminUserRecord \<Rightarrow> tables \<Rightarrow> (unit \<times> tables) option" where
  "insert_admin a t =
     (if adm_ID a \<in> adm_ID ` set (admin_users t) \<or> adm_Username a \<in> adm_Username ` set (admin_users t) then None
      else Some ((), t\<lparr>admin_users := admin_users t @ [a]\<rparr>))"

definition CreateAdmin :: "AdminUserRecord \<Rightarrow> ('k, unit res) prog" where
  "CreateAdmin a = do {
     now \<leftarrow> time_now;
     sql_stmt ''failed to create admin user'' (insert_admin (a\<lparr>adm_CreatedAt := now, adm_UpdatedAt := now\<rparr>)) }"

definition UpdateAdminPassword_row :: "string \<Rightarrow> time \<Rightarrow> AdminUserRecord \<Rightarrow> AdminUserRecord" where
  "UpdateAdminPassword_row passwordHash now a = a\<lparr>adm_PasswordHash := passwordHash, adm_UpdatedAt := now\<rparr>"

definition UpdateAdminPassword :: "string \<Rightarrow> string \<Rightarrow> ('k, unit res) prog" where
  "UpdateAdminPassword aid passwordHash = do {
     now \<leftarrow> time_now;
     sql_exec ''failed to update admin password'' (\<lambda>t. t\<lparr>admin_users :=
       update_where (\<lambda>a. adm_ID a = aid) (UpdateAdminPassword_row passwordHash now) (admin_users t)\<rparr>) }"

definition AdminCount :: "('k, int res) prog" where
  "AdminCount = sql_query ''failed to count admin users'' (\<lambda>t. int (length (admin_users t)))"

definition insert_session :: "SessionRecord \<Rightarrow> tables \<Rightarrow> (unit \<times> tables) option" where
  "insert_session x t =
     (if ses_ID x \<in> ses_ID ` set (auth_sessions t) \<or> ses_UserID x \<notin> adm_ID ` set (admin_users t) then None
      else Some ((), t\<lparr>auth_sessions := auth_sessions t @ [x]\<rparr>))"

definition CreateSession :: "SessionRecord \<Rightarrow> ('k, unit res) prog" where
  "CreateSession x = do {
     now \<leftarrow> time_now;
     sql_stmt ''failed to create session'' (insert_session (x\<lparr>ses_CreatedAt := now\<rparr>)) }"

definition GetSession :: "string \<Rightarrow> ('k, SessionRecord option res) prog" where
  "GetSession tokenHash = sql_query ''failed to query session'' (\<lambda>t. lookup ses_ID tokenHash (auth_sessions t))"

definition DeleteSession :: "string \<Rightarrow> ('k, unit res) prog" where
  "DeleteSession tokenHash = sql_exec ''failed to delete session'' (\<lambda>t. t\<lparr>auth_sessions :=
     delete_where (\<lambda>x. ses_ID x = tokenHash) (auth_sessions t)\<rparr>)"

definition DeleteExpiredSessions :: "time \<Rightarrow> ('k, int res) prog" where
  "DeleteExpiredSessions now = sql_stmt ''failed to delete expired sessions'' (\<lambda>t.
     Some (int (length (filter (\<lambda>x. ses_ExpiresAt x < now) (auth_sessions t))),
           t\<lparr>auth_sessions := delete_where (\<lambda>x. ses_ExpiresAt x < now) (auth_sessions t)\<rparr>))"

definition insert_key :: "APIKeyRecord \<Rightarrow> tables \<Rightarrow> (unit \<times> tables) option" where
  "insert_key x t =
     (if key_ID x \<in> key_ID ` set (api_keys t) \<or> key_KeyHash x \<in> key_KeyHash ` set (api_keys t) then None
      else Some ((), t\<lparr>api_keys := api_keys t @ [x]\<rparr>))"

text \<open>The record is returned with the creation time that \<open>CreateAPIKey\<close> sets in it.\<close>

definition AuthStore_CreateAPIKey :: "APIKeyRecord \<Rightarrow> ('k, APIKeyRecord res) prog" where
  "AuthStore_CreateAPIKey x = do {
     now \<leftarrow> time_now;
     seqE (sql_stmt ''failed to create api key'' (insert_key (x\<lparr>key_LastUsedAt := None, key_CreatedAt := now\<rparr>))) (\<lambda>_.
     retE (x\<lparr>key_CreatedAt := now\<rparr>)) }"

definition GetAPIKeyByHash :: "string \<Rightarrow> ('k, APIKeyRecord option res) prog" where
  "GetAPIKeyByHash keyHash = sql_query ''failed to query api key by hash'' (\<lambda>t. lookup key_KeyHash keyHash (api_keys t))"

definition AuthStore_ListAPIKeys :: "('k, APIKeyRecord list res) prog" where
  "AuthStore_ListAPIKeys = sql_query ''failed to list api keys'' (\<lambda>t.
     map (\<lambda>x. x\<lparr>key_KeyHash := []\<rparr>) (order_by_desc key_CreatedAt (api_keys t)))"

definition AuthStore_DeleteAPIKey :: "string \<Rightarrow> ('k, unit res) prog" where
  "AuthStore_DeleteAPIKey kid =
     seqE (sql_stmt ''failed to delete api key'' (\<lambda>t.
       Some (int (length (filter (\<lambda>x. key_ID x = kid) (api_keys t))),
             t\<lparr>api_keys := delete_where (\<lambda>x. key_ID x = kid) (api_keys t)\<rparr>))) (\<lambda>n.
     if n = 0 then throw (Msg ''api key not found'') else retE ())"

definition UpdateAPIKeyLastUsed_row :: "time \<Rightarrow> APIKeyRecord \<Rightarrow> APIKeyRecord" where
  "UpdateAPIKeyLastUsed_row now x = x\<lparr>key_LastUsedAt := Some now\<rparr>"

definition UpdateAPIKeyLastUsed :: "string \<Rightarrow> time \<Rightarrow> ('k, unit res) prog" where
  "UpdateAPIKeyLastUsed kid now = sql_exec ''failed to update api key last_used_at'' (\<lambda>t. t\<lparr>api_keys :=
     update_where (\<lambda>x. key_ID x = kid) (UpdateAPIKeyLastUsed_row now) (api_keys t)\<rparr>)"

section \<open>The first administrator (auth/admin.go)\<close>

text \<open>bcrypt with a cost and 16 random bytes of salt, and its comparison.\<close>

record Bcrypt =
  bc_Generate :: "int \<Rightarrow> string \<Rightarrow> string \<Rightarrow> string res"
  bc_Compare :: "string \<Rightarrow> string \<Rightarrow> bool"

definition GenerateFromPassword :: "Bcrypt \<Rightarrow> string \<Rightarrow> int \<Rightarrow> ('k, string res) prog" where
  "GenerateFromPassword bc password cost =
     seqE (read_random 16) (\<lambda>salt. ret (bc_Generate bc cost password salt))"

abbreviation "defaultAdminUser \<equiv> ''admin''"
abbreviation "defaultAdminPass \<equiv> ''liteboxd-admin''"
abbreviation "bcryptCost \<equiv> (12 :: int)"

record AdminEnv =
  env_Username :: string
  env_Password :: string
  env_InitialPassword :: string

definition EnsureAdmin :: "Bcrypt \<Rightarrow> AdminEnv \<Rightarrow> ('k, unit res) prog" where
  "EnsureAdmin bc env =
     (let username = (if env_Username env = [] then defaultAdminUser else env_Username env); password = env_Password env in
      seqE (mapE (Wrap ''failed to check admin users'') AdminCount) (\<lambda>count.
      if count = 0 then
        (let createPassword = (if env_InitialPassword env = [] then password else env_InitialPassword env);
             createPassword = (if createPassword = [] then defaultAdminPass else createPassword)
         in seqE (mapE (Wrap ''failed to hash admin password'') (GenerateFromPassword bc createPassword bcryptCost)) (\<lambda>hash. do {
              u \<leftarrow> new_uuid;
              mapE (Wrap ''failed to create admin user'') (CreateAdmin
                \<lparr>adm_ID = u, adm_Username = username, adm_PasswordHash = hash, adm_CreatedAt = 0, adm_UpdatedAt = 0\<rparr>) }))
      else if password \<noteq> [] \<and> password \<noteq> defaultAdminPass then
        seqE (mapE (Wrap ''failed to query admin user'') (GetAdminByUsername username)) (\<lambda>existing.
        case existing of
          None \<Rightarrow> retE ()
        | Some a \<Rightarrow>
            seqE (mapE (Wrap ''failed to hash admin password'') (GenerateFromPassword bc password bcryptCost)) (\<lambda>hash.
            mapE (Wrap ''failed to update admin password'') (UpdateAdminPassword (adm_ID a) hash)))
      else retE ()))"

section \<open>The middlewares (auth/middleware.go)\<close>

abbreviation "SessionCookieName \<equiv> ''liteboxd_session''"
abbreviation "APIKeyPrefix \<equiv> ''lbxk_''"

text \<open>What a request shows of itself: its \<open>Authorization\<close> header and its session cookie, if it has one.\<close>

record Credentials =
  cr_Authorization :: string
  cr_Cookie :: "string option"

datatype auth_task = TouchKey string | DropSession string

text \<open>\<open>AsSession\<close> sets the user and the method in the context of the request, \<open>AsAPIKey\<close> the method only.\<close>

datatype auth_context = AsSession string | AsAPIKey

definition authenticateAPIKey :: "(string \<Rightarrow> string) \<Rightarrow> string \<Rightarrow> ('k, (auth_context \<times> auth_task) option) prog" where
  "authenticateAPIKey sha token = do {
     r \<leftarrow> GetAPIKeyByHash (HashToken sha token);
     case r of
       Inl _ \<Rightarrow> ret None
     | Inr None \<Rightarrow> ret None
     | Inr (Some k) \<Rightarrow>
         (case key_ExpiresAt k of
            None \<Rightarrow> ret (Some (AsAPIKey, TouchKey (key_ID k)))
          | Some e \<Rightarrow> do {
              now \<leftarrow> time_now;
              ret (if e < now then None else Some (AsAPIKey, TouchKey (key_ID k))) }) }"

definition authenticateSession :: "(string \<Rightarrow> string) \<Rightarrow> string \<Rightarrow> ('k, auth_context option \<times> auth_task list) prog" where
  "authenticateSession sha token = do {
     r \<leftarrow> GetSession (HashToken sha token);
     case r of
       Inl _ \<Rightarrow> ret (None, [])
     | Inr None \<Rightarrow> ret (None, [])
     | Inr (Some x) \<Rightarrow> do {
         now \<leftarrow> time_now;
         ret (if ses_ExpiresAt x < now then (None, [DropSession (HashToken sha token)]) else (Some (AsSession (ses_UserID x)), [])) } }"

datatype auth_verdict = Authenticated auth_context | Unauthorized string

definition bearer_token :: "string \<Rightarrow> string" where
  "bearer_token h = (if has_prefix ''Bearer '' h then trim_prefix ''Bearer '' h else [])"

definition APIAuthMiddleware :: "(string \<Rightarrow> string) \<Rightarrow> Credentials \<Rightarrow> ('k, auth_verdict \<times> auth_task list) prog" where
  "APIAuthMiddleware sha cr =
     (if bearer_token (cr_Authorization cr) \<noteq> [] then do {
        r \<leftarrow> authenticateAPIKey sha (bearer_token (cr_Authorization cr));
        ret (case r of Some (ctx, task) \<Rightarrow> (Authenticated ctx, [task]) | None \<Rightarrow> (Unauthorized ''invalid or expired API key'', [])) }
      else case cr_Cookie cr of
        None \<Rightarrow> ret (Unauthorized ''authentication required'', [])
      | Some cookie \<Rightarrow>
          if cookie = [] then ret (Unauthorized ''authentication required'', [])
          else do {
            r \<leftarrow> authenticateSession sha cookie;
            ret (case r of (Some ctx, tasks) \<Rightarrow> (Authenticated ctx, tasks)
                 | (None, tasks) \<Rightarrow> (Unauthorized ''authentication required'', tasks)) })"

definition run_auth_task :: "auth_task \<Rightarrow> ('k, unit) prog" where
  "run_auth_task task =
     (case task of
        TouchKey kid \<Rightarrow> do { now \<leftarrow> time_now; _ \<leftarrow> UpdateAPIKeyLastUsed kid now; ret () }
      | DropSession h \<Rightarrow> do { _ \<leftarrow> DeleteSession h; ret () })"

definition SessionOnlyMiddleware :: "auth_context \<Rightarrow> bool" where
  "SessionOnlyMiddleware ctx = (case ctx of AsSession _ \<Rightarrow> True | AsAPIKey \<Rightarrow> False)"

section \<open>The handlers (handler/auth.go)\<close>

record AuthHandler =
  ah_sha256 :: "string \<Rightarrow> string"
  ah_bcrypt :: Bcrypt
  ah_sessionMaxAge :: duration
  ah_cookieSecure :: "bool option"

text \<open>
  A response: the status, the error or message, the cookie that is set (its token, its age in seconds and whether it
  is secure), and the key where one was created.
\<close>

record auth_response =
  ar_Status :: int
  ar_Body :: string
  ar_Cookie :: "(string \<times> int \<times> bool) option"
  ar_Key :: "string option"

definition plain_response :: "int \<Rightarrow> string \<Rightarrow> auth_response" where
  "plain_response st msg = \<lparr>ar_Status = st, ar_Body = msg, ar_Cookie = None, ar_Key = None\<rparr>"

text \<open>What \<open>isSecure\<close> reads of the connection: TLS, and the header \<open>X-Forwarded-Proto\<close>.\<close>

definition isSecure :: "AuthHandler \<Rightarrow> bool \<Rightarrow> string \<Rightarrow> bool" where
  "isSecure h tls forwardedProto =
     (case ah_cookieSecure h of Some b \<Rightarrow> b | None \<Rightarrow> tls \<or> forwardedProto = ''https'')"

definition Login :: "AuthHandler \<Rightarrow> bool \<Rightarrow> string \<Rightarrow> string \<Rightarrow> string \<Rightarrow> ('k, auth_response) prog" where
  "Login h tls proto username password =
     (if username = [] \<or> password = [] then ret (plain_response 400 ''username and password are required'')
      else do {
        r \<leftarrow> GetAdminByUsername username;
        case r of
          Inl _ \<Rightarrow> ret (plain_response 500 ''internal error'')
        | Inr None \<Rightarrow> ret (plain_response 401 ''invalid credentials'')
        | Inr (Some admin) \<Rightarrow>
            if \<not> bc_Compare (ah_bcrypt h) (adm_PasswordHash admin) password then ret (plain_response 401 ''invalid credentials'')
            else do {
              tok \<leftarrow> GenerateToken 32;
              case tok of
                Inl _ \<Rightarrow> ret (plain_response 500 ''failed to generate session'')
              | Inr token \<Rightarrow> do {
                  now \<leftarrow> time_now;
                  c \<leftarrow> CreateSession \<lparr>ses_ID = HashToken (ah_sha256 h) token, ses_UserID = adm_ID admin,
                         ses_ExpiresAt = now + ah_sessionMaxAge h, ses_CreatedAt = 0\<rparr>;
                  ret (case c of
                    Inl _ \<Rightarrow> plain_response 500 ''failed to create session''
                  | Inr _ \<Rightarrow> (plain_response 200 ''login successful'')
                      \<lparr>ar_Cookie := Some (token, ah_sessionMaxAge h div second, isSecure h tls proto)\<rparr>) } } })"

definition Logout :: "AuthHandler \<Rightarrow> bool \<Rightarrow> string \<Rightarrow> string option \<Rightarrow> ('k, auth_response) prog" where
  "Logout h tls proto cookie = do {
     _ \<leftarrow> (case cookie of
            Some c \<Rightarrow> if c \<noteq> [] then DeleteSession (HashToken (ah_sha256 h) c) else retE ()
          | None \<Rightarrow> retE ());
     ret ((plain_response 200 ''logout successful'')\<lparr>ar_Cookie := Some ([], - 1, isSecure h tls proto)\<rparr>) }"

text \<open>The validator counts runes; a string of a JSON body is valid UTF-8.\<close>

definition rune_count :: "string \<Rightarrow> nat" where
  "rune_count s = length (filter (\<lambda>c. (of_char c :: nat) < 128 \<or> 192 \<le> (of_char c :: nat)) s)"

abbreviation "DefaultCost \<equiv> (10 :: int)"

definition ChangePassword :: "AuthHandler \<Rightarrow> auth_context \<Rightarrow> string \<Rightarrow> string \<Rightarrow> ('k, auth_response) prog" where
  "ChangePassword h ctx oldPassword newPassword =
     (if oldPassword = [] \<or> newPassword = [] \<or> rune_count newPassword < 8 then ret (plain_response 400 ''invalid request'')
      else case ctx of
        AsAPIKey \<Rightarrow> ret (plain_response 401 ''unauthorized'')
      | AsSession userID \<Rightarrow> do {
          r \<leftarrow> GetAdminByID userID;
          case r of
            Inl _ \<Rightarrow> ret (plain_response 500 ''internal error'')
          | Inr None \<Rightarrow> ret (plain_response 401 ''user not found'')
          | Inr (Some admin) \<Rightarrow>
              if \<not> bc_Compare (ah_bcrypt h) (adm_PasswordHash admin) oldPassword then ret (plain_response 401 ''invalid old password'')
              else do {
                g \<leftarrow> GenerateFromPassword (ah_bcrypt h) newPassword DefaultCost;
                case g of
                  Inl _ \<Rightarrow> ret (plain_response 500 ''failed to hash password'')
                | Inr hash \<Rightarrow> do {
                    u \<leftarrow> UpdateAdminPassword (adm_ID admin) hash;
                    ret (case u of Inl _ \<Rightarrow> plain_response 500 ''failed to update password''
                         | Inr _ \<Rightarrow> plain_response 200 ''password updated successfully'') } } })"

text \<open>The method and, for a session whose user is found, the name.\<close>

definition Me :: "auth_context \<Rightarrow> ('k, string \<times> string option) prog" where
  "Me ctx =
     (case ctx of
        AsAPIKey \<Rightarrow> ret (''api_key'', None)
      | AsSession userID \<Rightarrow> do {
          r \<leftarrow> GetAdminByID userID;
          ret (''session'', case r of Inr (Some admin) \<Rightarrow> Some (adm_Username admin) | _ \<Rightarrow> None) })"

definition key_expiry :: "time \<Rightarrow> int \<Rightarrow> time" where
  "key_expiry now days = now + wrap64 (wrap64 (days * 24) * (3600 * second))"

definition CreateAPIKey :: "AuthHandler \<Rightarrow> string \<Rightarrow> int option \<Rightarrow> ('k, auth_response) prog" where
  "CreateAPIKey h name expiresInDays =
     (if name = [] \<or> 128 < rune_count name then ret (plain_response 400 ''name is required and must be at most 128 characters'')
      else do {
        tok \<leftarrow> GenerateToken 32;
        case tok of
          Inl _ \<Rightarrow> ret (plain_response 500 ''failed to generate key'')
        | Inr rawKey \<Rightarrow> do {
            let fullKey = APIKeyPrefix @ rawKey;
            expiresAt \<leftarrow> (case expiresInDays of
                None \<Rightarrow> ret None
              | Some days \<Rightarrow> if days > 0 then do { now \<leftarrow> time_now; ret (Some (key_expiry now days)) } else ret None);
            u \<leftarrow> new_uuid;
            c \<leftarrow> AuthStore_CreateAPIKey \<lparr>key_ID = u, key_Name = name, key_Prefix = take 8 rawKey,
                   key_KeyHash = HashToken (ah_sha256 h) fullKey, key_ExpiresAt = expiresAt, key_LastUsedAt = None, key_CreatedAt = 0\<rparr>;
            ret (case c of
              Inl _ \<Rightarrow> plain_response 500 ''failed to create API key''
            | Inr _ \<Rightarrow> (plain_response 201 u)\<lparr>ar_Key := Some fullKey\<rparr>) } })"

definition ListAPIKeys :: "('k, APIKeyRecord list res) prog" where
  "ListAPIKeys = mapE (\<lambda>_. Msg ''failed to list API keys'') AuthStore_ListAPIKeys"

definition DeleteAPIKey :: "string \<Rightarrow> ('k, auth_response) prog" where
  "DeleteAPIKey kid =
     (if kid = [] then ret (plain_response 400 ''id is required'')
      else do {
        r \<leftarrow> AuthStore_DeleteAPIKey kid;
        ret (case r of
          Inl e \<Rightarrow> if contains_str (err_text e) ''not found'' then plain_response 404 ''API key not found''
                   else plain_response 500 ''failed to delete API key''
        | Inr _ \<Rightarrow> plain_response 200 ''API key deleted'') })"

end
