(* ===== verification/Auth_Requests.thy ===== *)
theory Auth_Requests
  imports Auth
begin

text \<open>
  The authentication requests as the router serves them (\<open>RegisterRoutes\<close> of \<open>handler/auth.go\<close>), the other writers of
  the same tables, and the properties of logins and keys. The locale \<open>auth_client\<close> is the interface of the writes
  that take rights away or leave them, \<open>auth_creator\<close> adds those that give them.
\<close>

section \<open>Routes\<close>

datatype auth_endpoint =
    EpLogin string string
  | EpMe
  | EpLogout
  | EpChangePassword string string
  | EpCreateAPIKey string "int option"
  | EpListAPIKeys
  | EpDeleteAPIKey string

record auth_request =
  aq_Credentials :: Credentials
  aq_TLS :: bool
  aq_ForwardedProto :: string
  aq_Endpoint :: auth_endpoint

datatype auth_reply =
    Reply auth_response
  | MeReply string "string option"
  | KeysReply "APIKeyRecord list res"

fun session_only :: "auth_endpoint \<Rightarrow> bool" where
  "session_only (EpLogin u p) = False"
| "session_only EpMe = False"
| "session_only _ = True"

definition auth_endpoint_handler :: "AuthHandler \<Rightarrow> auth_request \<Rightarrow> auth_context \<Rightarrow> ('k, auth_reply) prog" where
  "auth_endpoint_handler h q ctx =
     (case aq_Endpoint q of
        EpLogin u p \<Rightarrow> do { r \<leftarrow> Login h (aq_TLS q) (aq_ForwardedProto q) u p; ret (Reply r) }
      | EpMe \<Rightarrow> do { r \<leftarrow> Me ctx; ret (MeReply (fst r) (snd r)) }
      | EpLogout \<Rightarrow> do { r \<leftarrow> Logout h (aq_TLS q) (aq_ForwardedProto q) (cr_Cookie (aq_Credentials q)); ret (Reply r) }
      | EpChangePassword old new \<Rightarrow> do { r \<leftarrow> ChangePassword h ctx old new; ret (Reply r) }
      | EpCreateAPIKey name days \<Rightarrow> do { r \<leftarrow> CreateAPIKey h name days; ret (Reply r) }
      | EpListAPIKeys \<Rightarrow> do { r \<leftarrow> ListAPIKeys; ret (KeysReply r) }
      | EpDeleteAPIKey kid \<Rightarrow> do { r \<leftarrow> DeleteAPIKey kid; ret (Reply r) })"

fun is_login :: "auth_endpoint \<Rightarrow> bool" where
  "is_login (EpLogin u p) = True"
| "is_login _ = False"

definition serve_auth :: "AuthHandler \<Rightarrow> auth_request \<Rightarrow> ('k, auth_reply \<times> auth_task list) prog" where
  "serve_auth h q =
     (if is_login (aq_Endpoint q) then do { r \<leftarrow> auth_endpoint_handler h q AsAPIKey; ret (r, []) }
      else do {
        m \<leftarrow> APIAuthMiddleware (ah_sha256 h) (aq_Credentials q);
        case fst m of
          Unauthorized msg \<Rightarrow> ret (Reply (plain_response 401 msg), snd m)
        | Authenticated ctx \<Rightarrow>
            if session_only (aq_Endpoint q) \<and> \<not> SessionOnlyMiddleware ctx
            then ret (Reply (plain_response 403 ''this operation requires session authentication (web login)''), snd m)
            else do { r \<leftarrow> auth_endpoint_handler h q ctx; ret (r, snd m) } })"

text \<open>The other writers: the goroutines of the middleware, the hourly cleanup of sessions, and the start of the server.\<close>

datatype auth_op =
    ServeAuth auth_request
  | AuthTask auth_task
  | CleanSessions
  | StartServer AdminEnv

fun auth_step :: "AuthHandler \<Rightarrow> auth_op \<Rightarrow> ('k, unit) prog" where
  "auth_step h (ServeAuth q) = do { _ \<leftarrow> serve_auth h q; ret () }"
| "auth_step h (AuthTask task) = run_auth_task task"
| "auth_step h CleanSessions = do { now \<leftarrow> time_now; _ \<leftarrow> DeleteExpiredSessions now; ret () }"
| "auth_step h (StartServer env) = do { _ \<leftarrow> EnsureAdmin (ah_bcrypt h) env; ret () }"

definition auth_run :: "AuthHandler \<Rightarrow> auth_op list \<Rightarrow> 'k world \<Rightarrow> 'k world" where
  "auth_run h ops w = snd (run_state (for_each (auth_step h) ops) w)"

section \<open>What the operations write\<close>

definition set_password :: "string \<Rightarrow> string \<Rightarrow> time \<Rightarrow> tables \<Rightarrow> tables" where
  "set_password aid hash now t =
     t\<lparr>admin_users := update_where (\<lambda>a. adm_ID a = aid) (UpdateAdminPassword_row hash now) (admin_users t)\<rparr>"

definition touch_key :: "string \<Rightarrow> time \<Rightarrow> tables \<Rightarrow> tables" where
  "touch_key kid now t =
     t\<lparr>api_keys := update_where (\<lambda>x. key_ID x = kid) (UpdateAPIKeyLastUsed_row now) (api_keys t)\<rparr>"

text \<open>A hash that bcrypt has made, and the key record of a generated key.\<close>

definition made_hash :: "AuthHandler \<Rightarrow> string \<Rightarrow> bool" where
  "made_hash h x \<longleftrightarrow> (\<exists>c p s. 10 \<le> c \<and> bc_Generate (ah_bcrypt h) c p s = Inr x)"

definition made_key :: "AuthHandler \<Rightarrow> APIKeyRecord \<Rightarrow> bool" where
  "made_key h k \<longleftrightarrow> (\<exists>raw. key_KeyHash k = HashToken (ah_sha256 h) (APIKeyPrefix @ raw) \<and> key_Prefix k = take 8 raw)"

definition made_session :: "AuthHandler \<Rightarrow> SessionRecord \<Rightarrow> bool" where
  "made_session h s \<longleftrightarrow> (\<exists>token. ses_ID s = HashToken (ah_sha256 h) token)"

locale auth_client = table_preorder r for r :: "tables \<Rightarrow> tables \<Rightarrow> bool" +
  fixes h :: AuthHandler
  assumes password: "made_hash h hash \<Longrightarrow> r t (set_password aid hash now t)"
    and touch: "r t (touch_key kid now t)"
    and drop_sessions: "r t (t\<lparr>auth_sessions := delete_where p (auth_sessions t)\<rparr>)"
    and drop_keys: "r t (t\<lparr>api_keys := delete_where q (api_keys t)\<rparr>)"

context auth_client
begin

lemma random_rel: "state_io_rel (db_rel r) (read_random n)"
  unfolding read_random_def by (intro io_program)

lemma hash_rel:
  assumes "\<And>e. state_io_rel (db_rel r) (f (Inl e))" "\<And>x. made_hash h x \<Longrightarrow> state_io_rel (db_rel r) (f (Inr x))" "10 \<le> c"
  shows "state_io_rel (db_rel r) (State_Monad.bind (GenerateFromPassword (ah_bcrypt h) p c) f)"
proof -
  have "state_io_rel (db_rel r) (f (bc_Generate (ah_bcrypt h) c p s))" for s
  proof (cases "bc_Generate (ah_bcrypt h) c p s")
    case (Inr x)
    then have "made_hash h x"
      using assms(3) by (auto simp: made_hash_def)
    then show ?thesis
      using Inr assms(2) by simp
  qed (simp add: assms(1))
  then have "state_io_rel (db_rel r) (State_Monad.bind (read_random 16)
      (\<lambda>r. case r of Inl e \<Rightarrow> f (Inl e) | Inr s \<Rightarrow> f (bc_Generate (ah_bcrypt h) c p s)))"
    using random_rel assms(1) by (intro io_bind io_sum)
  moreover have "State_Monad.bind (GenerateFromPassword (ah_bcrypt h) p c) f =
      State_Monad.bind (read_random 16) (\<lambda>r. case r of Inl e \<Rightarrow> f (Inl e) | Inr s \<Rightarrow> f (bc_Generate (ah_bcrypt h) c p s))"
    by (rule state.expand) (auto simp: GenerateFromPassword_def seqE_def fun_eq_iff split: prod.split sum.split)
  ultimately show ?thesis
    by simp
qed

lemma UpdateAdminPassword_rel: "made_hash h hash \<Longrightarrow> state_io_rel (db_rel r) (UpdateAdminPassword aid hash)"
  unfolding UpdateAdminPassword_def by (intro io_program io_sql_stmt) (auto simp: table_refl password [unfolded set_password_def])

lemma revoke_rel:
  "state_io_rel (db_rel r) (DeleteSession x)"
  "state_io_rel (db_rel r) (DeleteExpiredSessions now)"
  "state_io_rel (db_rel r) (AuthStore_DeleteAPIKey kid)"
  "state_io_rel (db_rel r) (UpdateAPIKeyLastUsed kid now)"
  unfolding DeleteSession_def DeleteExpiredSessions_def AuthStore_DeleteAPIKey_def UpdateAPIKeyLastUsed_def
  by (intro io_program io_sql_stmt; auto simp: table_refl intro: drop_sessions drop_keys touch [unfolded touch_key_def])+

lemma middleware_rel: "state_io_rel (db_rel r) (APIAuthMiddleware sha cr)"
  unfolding APIAuthMiddleware_def authenticateAPIKey_def authenticateSession_def GetAPIKeyByHash_def GetSession_def
  by (intro io_program)

lemma task_rel: "state_io_rel (db_rel r) (run_auth_task task)"
  unfolding run_auth_task_def by (cases task; simp; intro io_program revoke_rel)

lemma ChangePassword_rel: "state_io_rel (db_rel r) (ChangePassword h ctx old new)"
  unfolding ChangePassword_def GetAdminByID_def
  by (cases ctx; simp; intro conjI impI io_program hash_rel UpdateAdminPassword_rel; simp)

lemma other_handlers_rel:
  "state_io_rel (db_rel r) (Me ctx)"
  "state_io_rel (db_rel r) (Logout h tls proto cookie)"
  "state_io_rel (db_rel r) ListAPIKeys"
  "state_io_rel (db_rel r) (DeleteAPIKey kid)"
  unfolding Me_def Logout_def ListAPIKeys_def AuthStore_ListAPIKeys_def DeleteAPIKey_def GetAdminByID_def
  by (cases ctx; simp; intro io_program revoke_rel) (intro io_program revoke_rel)+

end

fun gives_rights :: "auth_op \<Rightarrow> bool" where
  "gives_rights (ServeAuth q) = (case aq_Endpoint q of EpLogin u p \<Rightarrow> True | EpCreateAPIKey n d \<Rightarrow> True | _ \<Rightarrow> False)"
| "gives_rights (StartServer env) = True"
| "gives_rights _ = False"

context auth_client
begin

lemma serve_rel:
  "\<not> gives_rights (ServeAuth q) \<Longrightarrow> state_io_rel (db_rel r) (serve_auth h q)"
  unfolding serve_auth_def auth_endpoint_handler_def
  by (cases "aq_Endpoint q")
     (auto intro!: io_bind io_ret middleware_rel ChangePassword_rel other_handlers_rel split: auth_verdict.split)

lemma step_rel: "\<not> gives_rights op \<Longrightarrow> state_io_rel (db_rel r) (auth_step h op)"
  by (cases op) (auto intro!: io_program serve_rel task_rel revoke_rel)

lemma run_rel:
  assumes "list_all (\<lambda>op. \<not> gives_rights op) ops"
  shows "r (db w) (db (auth_run h ops w))"
proof -
  have "state_io_rel (db_rel r) (for_each (auth_step h) ops)"
    using assms by (intro io_for_each step_rel) (auto simp: list_all_iff)
  from io_relD [OF this, of w] show ?thesis
    by (simp add: auth_run_def db_rel_def)
qed

end

locale auth_creator = auth_client +
  assumes new_admin: "made_hash h (adm_PasswordHash a) \<Longrightarrow> insert_admin a t = Some (u, t') \<Longrightarrow> r t t'"
    and new_session: "made_session h x \<Longrightarrow> insert_session x t = Some (u, t') \<Longrightarrow> r t t'"
    and new_key: "made_key h k \<Longrightarrow> insert_key k t = Some (u, t') \<Longrightarrow> r t t'"
begin

lemma CreateSession_rel: "made_session h x \<Longrightarrow> state_io_rel (db_rel r) (CreateSession x)"
  unfolding CreateSession_def
  by (intro io_program io_sql_stmt table_refl) (erule new_session [rotated], simp add: made_session_def)

lemma CreateAdmin_rel: "made_hash h (adm_PasswordHash a) \<Longrightarrow> state_io_rel (db_rel r) (CreateAdmin a)"
  unfolding CreateAdmin_def by (intro io_program io_sql_stmt table_refl) (erule new_admin [rotated], simp)

lemma CreateKey_rel: "made_key h k \<Longrightarrow> state_io_rel (db_rel r) (AuthStore_CreateAPIKey k)"
  unfolding AuthStore_CreateAPIKey_def
  by (intro io_program io_sql_stmt table_refl) (erule new_key [rotated], simp add: made_key_def)

lemma token_rel: "state_io_rel (db_rel r) (GenerateToken n)"
  unfolding GenerateToken_def Let_def by (intro io_program random_rel)

lemma creating_handlers_rel:
  "state_io_rel (db_rel r) (Login h tls proto u p)"
  "state_io_rel (db_rel r) (CreateAPIKey h name days)"
  unfolding Login_def CreateAPIKey_def GetAdminByUsername_def Let_def
  by (intro io_program token_rel CreateSession_rel CreateKey_rel; auto simp: made_session_def made_key_def)+

lemma seqE_mapE: "seqE (mapE g m) f = State_Monad.bind m (\<lambda>r. case r of Inl e \<Rightarrow> throw (g e) | Inr x \<Rightarrow> f x)"
  by (rule state.expand) (auto simp: seqE_def mapE_def fun_eq_iff split: prod.split sum.split)

lemma EnsureAdmin_rel: "state_io_rel (db_rel r) (EnsureAdmin (ah_bcrypt h) env)"
  unfolding EnsureAdmin_def Let_def AdminCount_def GetAdminByUsername_def seqE_mapE
  by (intro io_program hash_rel CreateAdmin_rel UpdateAdminPassword_rel; simp)

lemma any_step_rel: "state_io_rel (db_rel r) (auth_step h op)"
proof (cases "gives_rights op")
  case True
  then show ?thesis
    by (cases op)
       (auto simp: serve_auth_def auth_endpoint_handler_def split: auth_endpoint.splits auth_verdict.split
         intro!: io_bind io_ret middleware_rel creating_handlers_rel EnsureAdmin_rel)
qed (rule step_rel)

lemma any_run_rel: "r (db w) (db (auth_run h ops w))"
proof -
  have "state_io_rel (db_rel r) (for_each (auth_step h) ops)"
    by (intro io_for_each any_step_rel)
  from io_relD [OF this, of w] show ?thesis
    by (simp add: auth_run_def db_rel_def)
qed

end

section \<open>The invariant of the tables\<close>

definition auth_inv :: "AuthHandler \<Rightarrow> tables \<Rightarrow> bool" where
  "auth_inv h t \<longleftrightarrow>
     distinct (map adm_ID (admin_users t)) \<and> distinct (map adm_Username (admin_users t)) \<and>
     distinct (map ses_ID (auth_sessions t)) \<and> distinct (map key_ID (api_keys t)) \<and> distinct (map key_KeyHash (api_keys t)) \<and>
     ses_UserID ` set (auth_sessions t) \<subseteq> adm_ID ` set (admin_users t) \<and>
     list_all (\<lambda>a. made_hash h (adm_PasswordHash a)) (admin_users t) \<and>
     list_all (made_session h) (auth_sessions t) \<and> list_all (made_key h) (api_keys t)"

lemma made_key_touch: "made_key h (UpdateAPIKeyLastUsed_row now k) \<longleftrightarrow> made_key h k"
  by (simp add: made_key_def UpdateAPIKeyLastUsed_row_def)

interpretation password_row: row_update adm_ID "\<lambda>_. True" "UpdateAdminPassword_row hash now" for hash now
  by unfold_locales (simp add: UpdateAdminPassword_row_def)

interpretation touched_row: row_update key_ID "\<lambda>_. True" "UpdateAPIKeyLastUsed_row now" for now
  by unfold_locales (simp add: UpdateAPIKeyLastUsed_row_def)

lemma map_touch: "map key_KeyHash (update_where P (UpdateAPIKeyLastUsed_row now) xs) = map key_KeyHash xs"
  by (simp add: update_where_def UpdateAPIKeyLastUsed_row_def)

lemma map_password: "map adm_Username (update_where P (UpdateAdminPassword_row hash now) xs) = map adm_Username xs"
  by (simp add: update_where_def UpdateAdminPassword_row_def)

interpretation auth_wf: auth_creator "keeps (auth_inv h)" h for h
proof
  fix hash t aid now
  assume "made_hash h hash"
  then show "keeps (auth_inv h) t (set_password aid hash now t)"
    using password_row.key_set_kept [of aid hash now "admin_users t"] password_row.keys_kept [of aid hash now "admin_users t"]
    by (auto simp: keeps_def auth_inv_def set_password_def map_password list_all_iff set_update_where UpdateAdminPassword_row_def)
next
  fix kid t now
  show "keeps (auth_inv h) t (touch_key kid now t)"
    using touched_row.keys_kept [of kid now "api_keys t"]
    by (auto simp: keeps_def auth_inv_def touch_key_def map_touch list_all_iff set_update_where made_key_touch)
next
  fix p t
  show "keeps (auth_inv h) t (t\<lparr>auth_sessions := delete_where p (auth_sessions t)\<rparr>)"
    by (auto simp: keeps_def auth_inv_def list_all_iff set_delete_where distinct_delete_where)
next
  fix q t
  show "keeps (auth_inv h) t (t\<lparr>api_keys := delete_where q (api_keys t)\<rparr>)"
    by (auto simp: keeps_def auth_inv_def list_all_iff set_delete_where distinct_delete_where)
next
  fix a t u t'
  assume "made_hash h (adm_PasswordHash a)" "insert_admin a t = Some (u, t')"
  then show "keeps (auth_inv h) t t'"
    by (auto simp: keeps_def auth_inv_def insert_admin_def image_subset_iff split: if_splits)
next
  fix x t u t'
  assume "made_session h x" "insert_session x t = Some (u, t')"
  then show "keeps (auth_inv h) t t'"
    by (auto simp: keeps_def auth_inv_def insert_session_def image_subset_iff split: if_splits)
next
  fix k t u t'
  assume "made_key h k" "insert_key k t = Some (u, t')"
  then show "keeps (auth_inv h) t t'"
    by (auto simp: keeps_def auth_inv_def insert_key_def image_subset_iff split: if_splits)
qed (simp_all add: keeps_def)

text \<open>
  C27: over any sequence of requests, goroutines, cleanups and restarts of the server, with any database faults, the
  identifiers, user names and hashes stay unique, every session belongs to a user, every stored password is the
  output of bcrypt with a cost of at least 10, and of tokens and keys only hashes are stored (and the first eight
  characters of a key).
\<close>

theorem auth_requests_keep_invariant:
  assumes "auth_inv h (db w)"
  shows "auth_inv h (db (auth_run h ops w))"
  using auth_wf.any_run_rel [of h w ops] assms by (simp add: keeps_def)

section \<open>Who passes the middleware\<close>

definition grants :: "(string \<Rightarrow> string) \<Rightarrow> Credentials \<Rightarrow> tables \<Rightarrow> time \<Rightarrow> auth_context \<Rightarrow> bool" where
  "grants sha cr t now ctx =
     (if bearer_token (cr_Authorization cr) \<noteq> [] then
        ctx = AsAPIKey \<and>
        (case lookup key_KeyHash (HashToken sha (bearer_token (cr_Authorization cr))) (api_keys t) of
           None \<Rightarrow> False
         | Some k \<Rightarrow> (case key_ExpiresAt k of None \<Rightarrow> True | Some e \<Rightarrow> now \<le> e))
      else case cr_Cookie cr of
        None \<Rightarrow> False
      | Some c \<Rightarrow> c \<noteq> [] \<and>
          (case lookup ses_ID (HashToken sha c) (auth_sessions t) of
             None \<Rightarrow> False
           | Some s \<Rightarrow> now \<le> ses_ExpiresAt s \<and> ctx = AsSession (ses_UserID s)))"

lemma wp_APIAuthMiddleware:
  "wp (APIAuthMiddleware sha cr) (\<lambda>y v. db v = db w \<and> ticks w \<le> ticks v \<and>
     (\<forall>ctx. fst y = Authenticated ctx \<longrightarrow> grants sha cr (db w) (clock w (ticks w)) ctx) \<and>
     (db_faults w = [] \<longrightarrow> db_faults v = [] \<and> (\<forall>ctx. grants sha cr (db w) (clock w (ticks w)) ctx \<longrightarrow> fst y = Authenticated ctx))) w"
proof -
  obtain bad fs where nf: "next_fault (db_faults w) = (bad, fs)"
    by (cases "next_fault (db_faults w)")
  then have ok: "db_faults w = [] \<longrightarrow> \<not> bad \<and> fs = []"
    by auto
  show ?thesis
  proof (cases "bearer_token (cr_Authorization cr) = []")
    case True
    show ?thesis
    proof (cases "cr_Cookie cr")
      case (Some c)
      show ?thesis
        using True Some nf ok
        by (cases "c = []"; cases bad; cases "lookup ses_ID (HashToken sha c) (auth_sessions (db w))")
           (simp_all add: APIAuthMiddleware_def authenticateSession_def GetSession_def grants_def wp_simps wp_sql_stmt)
    qed (use True in \<open>simp add: APIAuthMiddleware_def grants_def wp_simps\<close>)
  next
    case False
    show ?thesis
    proof (cases "lookup key_KeyHash (HashToken sha (bearer_token (cr_Authorization cr))) (api_keys (db w))")
      case None
      then show ?thesis
        using False nf ok by (cases bad)
          (simp_all add: APIAuthMiddleware_def authenticateAPIKey_def GetAPIKeyByHash_def grants_def wp_simps wp_sql_stmt)
    next
      case (Some k)
      then show ?thesis
        using False nf ok by (cases bad; cases "key_ExpiresAt k")
          (simp_all add: APIAuthMiddleware_def authenticateAPIKey_def GetAPIKeyByHash_def grants_def wp_simps wp_sql_stmt)
    qed
  qed
qed

lemma middleware_exact:
  "db_faults w = [] \<Longrightarrow>
   fst (fst (run_state (APIAuthMiddleware sha cr) w)) = Authenticated ctx \<longleftrightarrow> grants sha cr (db w) (clock w (ticks w)) ctx"
  using wp_APIAuthMiddleware [of sha cr w, unfolded wp_alt] by blast

definition refused :: "auth_reply \<Rightarrow> bool" where
  "refused y = (case y of Reply r \<Rightarrow> ar_Status r = 401 \<or> ar_Status r = 403 | _ \<Rightarrow> False)"

text \<open>
  C29: a request reaches a session-only endpoint only with the cookie of a session that is stored and has not
  expired, and without a bearer token: an API key cannot create, list or delete keys, change the password or log
  a session out. Any other request is answered with 401 or 403 and changes no table, whatever the database does.
\<close>

theorem only_sessions_manage:
  assumes "session_only (aq_Endpoint q)" "run_state (serve_auth h q) w = (y, w')"
  shows "refused (fst y) \<and> db w' = db w \<or>
    bearer_token (cr_Authorization (aq_Credentials q)) = [] \<and>
    (\<exists>c s. cr_Cookie (aq_Credentials q) = Some c \<and> c \<noteq> [] \<and> clock w (ticks w) \<le> ses_ExpiresAt s \<and>
       lookup ses_ID (HashToken (ah_sha256 h) c) (auth_sessions (db w)) = Some s)"
proof -
  let ?cr = "aq_Credentials q"
  have nl: "\<not> is_login (aq_Endpoint q)"
    using assms(1) by (cases "aq_Endpoint q") auto
  obtain m v where m: "run_state (APIAuthMiddleware (ah_sha256 h) ?cr) w = (m, v)"
    by fastforce
  have v: "db v = db w" "\<And>ctx. fst m = Authenticated ctx \<Longrightarrow> grants (ah_sha256 h) ?cr (db w) (clock w (ticks w)) ctx"
    using wp_APIAuthMiddleware [of "ah_sha256 h" ?cr w] m by (auto simp: wp_def)
  show ?thesis
  proof (cases "fst m")
    case (Unauthorized msg)
    then have "y = (Reply (plain_response 401 msg), snd m) \<and> w' = v"
      using assms(2) nl m by (simp add: serve_auth_def)
    then show ?thesis
      using v(1) by (simp add: refused_def plain_response_def)
  next
    case (Authenticated ctx)
    show ?thesis
    proof (cases ctx)
      case (AsSession u)
      then show ?thesis
        using v(2) [OF Authenticated] by (simp add: grants_def split: if_splits option.splits)
    next
      case AsAPIKey
      then have "refused (fst y) \<and> w' = v"
        using assms nl m Authenticated by (auto simp add: serve_auth_def SessionOnlyMiddleware_def refused_def plain_response_def)
      then show ?thesis
        using v(1) by simp
    qed
  qed
qed

section \<open>Sessions and keys over their life\<close>

lemma GenerateToken_nonempty: "wp (GenerateToken 32) (\<lambda>y v. db v = db w \<and> db_faults v = db_faults w \<and> ticks v = ticks w \<and>
     clock v = clock w \<and> (\<forall>tok. y = Inr tok \<longrightarrow> tok \<noteq> [])) w"
  by (cases "tokens w (tokens_used w)")
     (auto simp: GenerateToken_def read_random_def hex_encode_def wp_simps concat_eq_Nil_conv split: if_splits)

lemma CreateSession_wp:
  "wp (CreateSession x) (\<lambda>y v. y = Inr () \<longrightarrow> ses_ID x \<notin> ses_ID ` set (auth_sessions (db w)) \<and>
     db v = (db w)\<lparr>auth_sessions := auth_sessions (db w) @ [x\<lparr>ses_CreatedAt := clock w (ticks w)\<rparr>]\<rparr>) w"
  by (cases "next_fault (db_faults w)") (auto simp: CreateSession_def insert_session_def wp_simps wp_sql_stmt)

lemma Login_wp:
  "wp (Login h tls proto u p) (\<lambda>y v. \<forall>tok age sec. ar_Cookie y = Some (tok, age, sec) \<longrightarrow> tok \<noteq> [] \<and>
     (\<exists>a s. lookup adm_Username u (admin_users (db w)) = Some a \<and> bc_Compare (ah_bcrypt h) (adm_PasswordHash a) p \<and>
        lookup ses_ID (HashToken (ah_sha256 h) tok) (auth_sessions (db v)) = Some s \<and> ses_UserID s = adm_ID a \<and>
        ses_ExpiresAt s = clock w (ticks w) + ah_sessionMaxAge h)) w"
proof -
  obtain bad fs where nf: "next_fault (db_faults w) = (bad, fs)"
    by (cases "next_fault (db_faults w)")
  show ?thesis
  proof (cases "u = [] \<or> p = [] \<or> bad \<or> lookup adm_Username u (admin_users (db w)) = None")
    case True
    then show ?thesis
      using nf by (cases bad) (auto simp: Login_def GetAdminByUsername_def wp_simps wp_sql_stmt plain_response_def)
  next
    case False
    then obtain a where a: "lookup adm_Username u (admin_users (db w)) = Some a"
      by auto
    define v where "v = w\<lparr>db_faults := fs\<rparr>"
    have cs: "wp (CreateSession \<lparr>ses_ID = HashToken (ah_sha256 h) tok, ses_UserID = adm_ID a,
          ses_ExpiresAt = clock w (ticks w) + ah_sessionMaxAge h, ses_CreatedAt = 0\<rparr>)
        (\<lambda>y x. y = Inr () \<longrightarrow> (\<exists>s. lookup ses_ID (HashToken (ah_sha256 h) tok) (auth_sessions (db x)) = Some s \<and> ses_UserID s = adm_ID a \<and>
          ses_ExpiresAt s = clock w (ticks w) + ah_sessionMaxAge h)) v'" for tok v'
      by (rule wp_mono [OF CreateSession_wp]) (auto simp: lookup_append_new)
    show ?thesis
    proof (cases "bc_Compare (ah_bcrypt h) (adm_PasswordHash a) p")
      case True
      have tok: "wp (GenerateToken 32) (\<lambda>y x. clock x = clock w \<and> ticks x = ticks w \<and> (\<forall>tok. y = Inr tok \<longrightarrow> tok \<noteq> [])) v"
        by (rule wp_mono [OF GenerateToken_nonempty]) (simp add: v_def)
      show ?thesis
        using False True nf a
        apply (simp add: Login_def GetAdminByUsername_def wp_simps wp_sql_stmt v_def [symmetric])
        apply (rule wp_mono [OF tok])
        subgoal for y x
          apply (cases y)
           apply (simp add: wp_simps plain_response_def)
          apply (simp add: wp_simps)
          apply (rule wp_mono [OF cs])
          apply (auto simp: plain_response_def split: sum.splits)
          done
        done
    qed (use False nf a in \<open>simp add: Login_def GetAdminByUsername_def wp_simps wp_sql_stmt plain_response_def\<close>)
  qed
qed

text \<open>
  C28: a login answers with a cookie only for a stored user and a password that bcrypt accepts; from then on, while
  the tables stay as they are and the database works, a request with that cookie acts as that user until the session
  expires, and not a moment longer.
\<close>

theorem login_session_lifecycle:
  assumes "run_state (Login h tls proto u p) w = (y, w1)" "ar_Cookie y = Some (tok, age, sec)"
    and "db v = db w1" "db_faults v = []" "bearer_token (cr_Authorization cr) = []" "cr_Cookie cr = Some tok"
  shows "\<exists>a. lookup adm_Username u (admin_users (db w)) = Some a \<and> bc_Compare (ah_bcrypt h) (adm_PasswordHash a) p \<and>
    (\<forall>ctx. fst (fst (run_state (APIAuthMiddleware (ah_sha256 h) cr) v)) = Authenticated ctx \<longleftrightarrow>
       ctx = AsSession (adm_ID a) \<and> clock v (ticks v) \<le> clock w (ticks w) + ah_sessionMaxAge h)"
proof -
  obtain a s where "tok \<noteq> []" "lookup adm_Username u (admin_users (db w)) = Some a"
    "bc_Compare (ah_bcrypt h) (adm_PasswordHash a) p" "ses_UserID s = adm_ID a"
    "lookup ses_ID (HashToken (ah_sha256 h) tok) (auth_sessions (db v)) = Some s"
    "ses_ExpiresAt s = clock w (ticks w) + ah_sessionMaxAge h"
    using Login_wp [of h tls proto u p w] assms(1-3) by (auto simp: wp_def)
  then show ?thesis
    using assms(5,6) by (auto simp: middleware_exact [OF assms(4)] grants_def)
qed

definition fewer_rights :: "tables \<Rightarrow> tables \<Rightarrow> bool" where
  "fewer_rights t t' \<longleftrightarrow> ses_ID ` set (auth_sessions t') \<subseteq> ses_ID ` set (auth_sessions t) \<and>
     key_KeyHash ` set (api_keys t') \<subseteq> key_KeyHash ` set (api_keys t)"

interpretation fewer: auth_client fewer_rights h for h
proof
  fix t u v
  assume "fewer_rights t u" "fewer_rights u v"
  then show "fewer_rights t v"
    unfolding fewer_rights_def by blast
qed (auto simp: fewer_rights_def set_password_def touch_key_def set_delete_where set_update_where UpdateAPIKeyLastUsed_row_def)

lemma grants_row:
  "grants sha cr t now ctx \<Longrightarrow>
   if bearer_token (cr_Authorization cr) \<noteq> [] then HashToken sha (bearer_token (cr_Authorization cr)) \<in> key_KeyHash ` set (api_keys t)
   else \<exists>c. cr_Cookie cr = Some c \<and> HashToken sha c \<in> ses_ID ` set (auth_sessions t)"
  by (auto simp: grants_def split: if_splits option.splits dest!: lookup_SomeD) (metis imageI)+

text \<open>Without a row there is no way in, whatever the database answers.\<close>

lemma no_row_no_access:
  assumes "\<not> (if bearer_token (cr_Authorization cr) \<noteq> []
      then HashToken sha (bearer_token (cr_Authorization cr)) \<in> key_KeyHash ` set (api_keys (db v))
      else \<exists>c. cr_Cookie cr = Some c \<and> HashToken sha c \<in> ses_ID ` set (auth_sessions (db v)))"
  shows "fst (fst (run_state (APIAuthMiddleware sha cr) v)) \<noteq> Authenticated ctx"
  using wp_APIAuthMiddleware [of sha cr v, unfolded wp_alt] grants_row [of sha cr "db v"] assms by blast

text \<open>
  Logging out ends the session for good: whatever else the server does that is not a login, the creation of a
  key or a restart, and whatever the database answers later, the cookie opens nothing.
\<close>

theorem logout_is_final:
  assumes "run_state (Logout h tls proto (Some c)) w = (y, w1)" "c \<noteq> []" "db_faults w = []"
    and "list_all (\<lambda>op. \<not> gives_rights op) ops" "db v = db (auth_run h ops w1)"
    and "bearer_token (cr_Authorization cr) = []" "cr_Cookie cr = Some c"
  shows "fst (fst (run_state (APIAuthMiddleware (ah_sha256 h) cr) v)) \<noteq> Authenticated ctx"
proof -
  have "wp (Logout h tls proto (Some c)) (\<lambda>_ x. HashToken (ah_sha256 h) c \<notin> ses_ID ` set (auth_sessions (db x))) w"
    using assms(2,3) by (auto simp: Logout_def DeleteSession_def wp_simps wp_sql_stmt set_delete_where)
  then have "HashToken (ah_sha256 h) c \<notin> ses_ID ` set (auth_sessions (db w1))"
    using assms(1) by (simp add: wp_def)
  then have "HashToken (ah_sha256 h) c \<notin> ses_ID ` set (auth_sessions (db v))"
    using fewer.run_rel [OF assms(4), of w1 h] assms(5) by (auto simp: fewer_rights_def)
  then show ?thesis
    using assms(6,7) by (intro no_row_no_access) auto
qed

lemma CreateKey_wp:
  "wp (AuthStore_CreateAPIKey x) (\<lambda>y v. \<forall>z. y = Inr z \<longrightarrow>
     (\<exists>s. lookup key_KeyHash (key_KeyHash x) (api_keys (db v)) = Some s \<and> key_ExpiresAt s = key_ExpiresAt x)) w"
  by (cases "next_fault (db_faults w)")
     (auto simp: AuthStore_CreateAPIKey_def insert_key_def wp_simps wp_sql_stmt lookup_append_new)

definition key_deadline :: "time \<Rightarrow> int option \<Rightarrow> time option" where
  "key_deadline now days = (case days of None \<Rightarrow> None | Some d \<Rightarrow> if d > 0 then Some (key_expiry now d) else None)"

lemma CreateAPIKey_wp:
  fixes w :: "'a world"
  shows "wp (CreateAPIKey h name days) (\<lambda>y v. \<forall>key. ar_Key y = Some key \<longrightarrow> key \<noteq> [] \<and>
     (\<exists>s. lookup key_KeyHash (HashToken (ah_sha256 h) key) (api_keys (db v)) = Some s \<and>
        key_ExpiresAt s = key_deadline (clock w (ticks w)) days)) w"
proof (cases "name = [] \<or> 128 < rune_count name")
  case False
  have tok: "wp (GenerateToken 32) (\<lambda>y x. clock x = clock w \<and> ticks x = ticks w) w"
    by (rule wp_mono [OF GenerateToken_nonempty]) simp
  show ?thesis
    unfolding CreateAPIKey_def Let_def if_not_P [OF False] wp_bind
  proof (rule wp_mono [OF tok])
    fix t :: "string res" and x :: "'a world"
    assume x: "clock x = clock w \<and> ticks x = ticks w"
    define rest :: "string \<Rightarrow> time option \<Rightarrow> ('a, auth_response) prog" where "rest raw e = (do {
        u \<leftarrow> new_uuid;
        c \<leftarrow> AuthStore_CreateAPIKey \<lparr>key_ID = u, key_Name = name, key_Prefix = take 8 raw,
               key_KeyHash = HashToken (ah_sha256 h) (APIKeyPrefix @ raw), key_ExpiresAt = e, key_LastUsedAt = None, key_CreatedAt = 0\<rparr>;
        ret (case c of Inl _ \<Rightarrow> plain_response 500 ''failed to create API key''
             | Inr _ \<Rightarrow> (plain_response 201 u)\<lparr>ar_Key := Some (APIKeyPrefix @ raw)\<rparr>) })" for raw e
    have rest: "wp (rest raw e) (\<lambda>y v. \<forall>key. ar_Key y = Some key \<longrightarrow> key \<noteq> [] \<and>
        (\<exists>s. lookup key_KeyHash (HashToken (ah_sha256 h) key) (api_keys (db v)) = Some s \<and> key_ExpiresAt s = e)) z" for raw e and z :: "'a world"
      unfolding rest_def wp_bind wp_new_uuid
      by (rule wp_mono [OF CreateKey_wp]) (auto simp: wp_ret plain_response_def split: sum.splits)
    show "wp (case t of Inl _ \<Rightarrow> ret (plain_response 500 ''failed to generate key'')
        | Inr rawKey \<Rightarrow> (case days of None \<Rightarrow> ret None | Some d \<Rightarrow>
            if d > 0 then do { now \<leftarrow> time_now; ret (Some (key_expiry now d)) } else ret None) \<bind> rest rawKey)
        (\<lambda>y v. \<forall>key. ar_Key y = Some key \<longrightarrow> key \<noteq> [] \<and>
        (\<exists>s. lookup key_KeyHash (HashToken (ah_sha256 h) key) (api_keys (db v)) = Some s \<and>
          key_ExpiresAt s = key_deadline (clock w (ticks w)) days)) x"
      using x rest by (auto simp: wp_simps plain_response_def key_deadline_def split: sum.split option.split)
  qed
qed (simp add: CreateAPIKey_def wp_simps plain_response_def)

text \<open>A created key is accepted, as a key, exactly until its deadline, and for ever where none was asked for.\<close>

lemma api_key_accepted:
  assumes "run_state (CreateAPIKey h name days) w = (y, w1)" "ar_Key y = Some key"
    and "db v = db w1" "db_faults v = []" "cr_Authorization cr = ''Bearer '' @ key"
  shows "fst (fst (run_state (APIAuthMiddleware (ah_sha256 h) cr) v)) = Authenticated ctx \<longleftrightarrow>
    ctx = AsAPIKey \<and> (case days of Some d \<Rightarrow> d > 0 \<longrightarrow> clock v (ticks v) \<le> key_expiry (clock w (ticks w)) d | None \<Rightarrow> True)"
proof -
  obtain s where s: "key \<noteq> []" "lookup key_KeyHash (HashToken (ah_sha256 h) key) (api_keys (db v)) = Some s"
    "key_ExpiresAt s = key_deadline (clock w (ticks w)) days"
    using CreateAPIKey_wp [of h name days w] assms(1-3) by (auto simp: wp_def)
  have "bearer_token (cr_Authorization cr) = key"
    by (simp add: assms(5) bearer_token_def has_prefix_def trim_prefix_def)
  then show ?thesis
    using s by (auto simp: middleware_exact [OF assms(4)] grants_def key_deadline_def split: option.splits)
qed

lemma key_expiry_exact:
  assumes "1 \<le> d" "d \<le> 106751"
  shows "key_expiry now d = now + d * 86400 * second"
proof -
  have "wrap64 (d * 24) = d * 24"
    using assms by (intro wrap64_nonneg) simp_all
  moreover have "wrap64 (d * 24 * (3600 * second)) = d * 24 * (3600 * second)"
    using assms by (intro wrap64_nonneg) simp_all
  ultimately show ?thesis
    by (simp add: key_expiry_def)
qed

lemma key_expiry_wraps:
  assumes "106752 \<le> d" "d \<le> 213503"
  shows "key_expiry now d < now"
proof -
  have "wrap64 (d * 24) = d * 24"
    using assms by (intro wrap64_nonneg) simp_all
  moreover have "(d * 24 * (3600 * second) + 2 ^ 63) mod 2 ^ 64 = d * 24 * (3600 * second) + 2 ^ 63 - 2 ^ 64"
    by (rule int_mod_pos_eq [where q = 1]) (use assms in simp_all)
  then have "wrap64 (d * 24 * (3600 * second)) = d * 24 * (3600 * second) - 2 ^ 64"
    by (simp add: wrap64_def)
  ultimately show ?thesis
    using assms by (simp add: key_expiry_def)
qed

text \<open>
  C31: the lifetime of a key in days is exact from 1 to 106751 days; from 106752 to 213503 days the product
  overflows, and the key is created with a deadline in the past: the answer is 201, and no request with the key passes, with
  a working database and a clock that does not go back.
\<close>

theorem key_lifetime_range:
  assumes "run_state (CreateAPIKey h name (Some d)) w = (y, w1)" "ar_Key y = Some key" "1 \<le> d" "d \<le> 213503"
    and "db v = db w1" "db_faults v = []" "cr_Authorization cr = ''Bearer '' @ key" "clock w (ticks w) \<le> clock v (ticks v)"
  shows "fst (fst (run_state (APIAuthMiddleware (ah_sha256 h) cr) v)) = Authenticated AsAPIKey \<longleftrightarrow>
    d \<le> 106751 \<and> clock v (ticks v) \<le> clock w (ticks w) + d * 86400 * second"
proof (cases "d \<le> 106751")
  case True
  then show ?thesis
    using assms(3) api_key_accepted [OF assms(1,2,5-7), of AsAPIKey] key_expiry_exact [of d] by simp
next
  case False
  then show ?thesis
    using assms(3,4,8) api_key_accepted [OF assms(1,2,5-7), of AsAPIKey] key_expiry_wraps [of d "clock w (ticks w)"] by simp
qed

text \<open>
  C30: deleting a key revokes it for good: the key opens nothing, whatever else the server does that is not a login,
  the creation of a key or a restart.
\<close>

theorem deleted_key_is_refused:
  assumes "run_state (DeleteAPIKey kid) w = (y, w1)" "ar_Status y = 200" "auth_inv h (db w)"
    and "lookup key_ID kid (api_keys (db w)) = Some k" "key_KeyHash k = HashToken (ah_sha256 h) (bearer_token (cr_Authorization cr))"
    and "list_all (\<lambda>op. \<not> gives_rights op) ops" "db v = db (auth_run h ops w1)" "bearer_token (cr_Authorization cr) \<noteq> []"
  shows "fst (fst (run_state (APIAuthMiddleware (ah_sha256 h) cr) v)) \<noteq> Authenticated ctx"
proof -
  have "wp (DeleteAPIKey kid) (\<lambda>y x. ar_Status y = 200 \<longrightarrow> api_keys (db x) = delete_where (\<lambda>x. key_ID x = kid) (api_keys (db w))) w"
    by (cases "next_fault (db_faults w)")
       (auto simp: DeleteAPIKey_def AuthStore_DeleteAPIKey_def wp_simps wp_sql_stmt plain_response_def)
  then have *: "api_keys (db w1) = delete_where (\<lambda>x. key_ID x = kid) (api_keys (db w))"
    using assms(1,2) by (simp add: wp_def)
  have other: "key_KeyHash x \<noteq> key_KeyHash k" if "x \<in> set (api_keys (db w))" "key_ID x \<noteq> kid" for x
    using that assms(3) lookup_SomeD [OF assms(4)] by (auto simp: auth_inv_def distinct_map inj_on_def)
  have "key_KeyHash k \<notin> key_KeyHash ` set (api_keys (db w1))"
  proof
    assume "key_KeyHash k \<in> key_KeyHash ` set (api_keys (db w1))"
    then obtain x where "x \<in> set (api_keys (db w))" "key_ID x \<noteq> kid" "key_KeyHash x = key_KeyHash k"
      unfolding * set_delete_where by auto
    with other show False
      by blast
  qed
  then have "HashToken (ah_sha256 h) (bearer_token (cr_Authorization cr)) \<notin> key_KeyHash ` set (api_keys (db w1))"
    by (simp add: assms(5))
  then have "HashToken (ah_sha256 h) (bearer_token (cr_Authorization cr)) \<notin> key_KeyHash ` set (api_keys (db v))"
    using fewer.run_rel [OF assms(6), of w1 h] assms(7) by (auto simp: fewer_rights_def)
  then show ?thesis
    using assms(8) by (intro no_row_no_access) auto
qed

text \<open>
  After a change of the password, the user's login is turned down for wrong credentials exactly where bcrypt
  does not match the password with the hash it made of the new one.
\<close>

theorem password_change_takes_effect:
  assumes "run_state (ChangePassword h (AsSession u) old new) w = (y, w1)" "ar_Status y = 200" "db_faults w = []"
    and "auth_inv h (db w)" "lookup adm_ID u (admin_users (db w)) = Some a"
    and "db v = db w1" "db_faults v = []" "adm_Username a \<noteq> []" "p \<noteq> []"
  shows "\<exists>x s. length s = 16 \<and> bc_Generate (ah_bcrypt h) DefaultCost new s = Inr x \<and>
    (ar_Status (fst (run_state (Login h tls proto (adm_Username a) p) v)) = 401 \<longleftrightarrow> \<not> bc_Compare (ah_bcrypt h) x p)"
proof -
  have "wp (ChangePassword h (AsSession u) old new) (\<lambda>y z. ar_Status y = 200 \<longrightarrow>
      (case tokens w (tokens_used w) of None \<Rightarrow> False | Some aa \<Rightarrow> length (take 16 aa) = 16 \<and>
        (\<exists>x. bc_Generate (ah_bcrypt h) DefaultCost new (take 16 aa) = Inr x \<and> admin_users (db z) =
           update_where (\<lambda>a. adm_ID a = u) (UpdateAdminPassword_row x (clock w (ticks w))) (admin_users (db w))))) w"
    using assms(3,5) lookup_SomeD [OF assms(5)]
    by (cases "tokens w (tokens_used w)")
       (auto simp: ChangePassword_def GetAdminByID_def GenerateFromPassword_def read_random_def UpdateAdminPassword_def
         wp_simps wp_sql_stmt plain_response_def split: sum.split)
  then obtain aa x where aa: "length (take 16 aa) = 16" "bc_Generate (ah_bcrypt h) DefaultCost new (take 16 aa) = Inr x"
    "admin_users (db v) = update_where (\<lambda>a. adm_ID a = u) (UpdateAdminPassword_row x (clock w (ticks w))) (admin_users (db w))"
    using assms(1,2,6) by (auto simp: wp_def split: option.splits)
  define s now where "s = take 16 aa" and "now = clock w (ticks w)"
  note x = aa [folded s_def now_def]
  have "lookup adm_ID u (admin_users (db v)) = Some (UpdateAdminPassword_row x now a)"
    using password_row.lookup_same [of u x now "admin_users (db w)"] x(3) assms(5) by simp
  then have "UpdateAdminPassword_row x now a \<in> set (admin_users (db v))"
    by (auto dest: lookup_SomeD)
  moreover have "distinct (map adm_Username (admin_users (db v)))"
    using assms(4) x(3) by (simp add: map_password auth_inv_def)
  ultimately have "lookup adm_Username (adm_Username (UpdateAdminPassword_row x now a)) (admin_users (db v)) =
      Some (UpdateAdminPassword_row x now a)"
    by (intro lookup_unique)
  then have l: "lookup adm_Username (adm_Username a) (admin_users (db v)) = Some (UpdateAdminPassword_row x now a)"
    by (simp add: UpdateAdminPassword_row_def)
  have "wp (Login h tls proto (adm_Username a) p) (\<lambda>y z. ar_Status y = 401 \<longleftrightarrow> \<not> bc_Compare (ah_bcrypt h) x p) v"
  proof (cases "bc_Compare (ah_bcrypt h) x p")
    case True
    then show ?thesis
      using l assms(7-9)
      by (cases "tokens v (tokens_used v)")
         (auto simp: Login_def GetAdminByUsername_def GenerateToken_def read_random_def CreateSession_def UpdateAdminPassword_row_def
           wp_simps wp_sql_stmt plain_response_def split: sum.split option.split)
  qed (use l assms(7-9) in \<open>simp add: Login_def GetAdminByUsername_def UpdateAdminPassword_row_def wp_simps wp_sql_stmt plain_response_def\<close>)
  then show ?thesis
    using x(1,2) by (auto simp: wp_alt)
qed

section \<open>Witnesses\<close>

definition sample_auth :: AuthHandler where
  "sample_auth =
     \<lparr>ah_sha256 = (\<lambda>x. x), ah_bcrypt = \<lparr>bc_Generate = (\<lambda>c p s. Inr (s @ p)), bc_Compare = (\<lambda>x p. drop 16 x = p)\<rparr>,
      ah_sessionMaxAge = 3600 * second, ah_cookieSecure = None\<rparr>"

definition sample_admin :: AdminUserRecord where
  "sample_admin = \<lparr>adm_ID = ''1'', adm_Username = ''admin'', adm_PasswordHash = ''0123456789abcdefsecret'', adm_CreatedAt = 0, adm_UpdatedAt = 0\<rparr>"

definition auth_tables :: "APIKeyRecord list \<Rightarrow> SessionRecord list \<Rightarrow> unit world" where
  "auth_tables keys sessions = (random_world ''0123456789abcdef0123456789abcdef'')\<lparr>db := empty_tables\<lparr>admin_users := [sample_admin],
     auth_sessions := sessions, api_keys := keys\<rparr>\<rparr>"

definition auth_world :: "unit world" where
  "auth_world = auth_tables [] []"

lemma auth_world_simps [simp]:
  "admin_users (db auth_world) = [sample_admin]" "auth_sessions (db auth_world) = []" "api_keys (db auth_world) = []"
  "db_faults auth_world = []" "clock auth_world n = 0" "ticks auth_world = 0" "uuids auth_world n = []"
  "tokens auth_world n = Some ''0123456789abcdef0123456789abcdef''"
  by (simp_all add: auth_world_def auth_tables_def random_world_def empty_tables_def)

definition credentials :: "string \<Rightarrow> string option \<Rightarrow> Credentials" where
  "credentials bearer cookie = \<lparr>cr_Authorization = (if bearer = [] then [] else ''Bearer '' @ bearer), cr_Cookie = cookie\<rparr>"

lemma auth_inv_sample: "auth_inv sample_auth (db auth_world)"
proof -
  have "made_hash sample_auth (adm_PasswordHash sample_admin)"
    unfolding made_hash_def
    by (rule exI [of _ 10], simp, rule exI [of _ "''secret''"], rule exI [of _ "''0123456789abcdef''"])
       (simp add: sample_auth_def sample_admin_def)
  then show ?thesis
    by (simp add: auth_inv_def)
qed

theorem auth_requests_keep_invariant_witness:
  "auth_inv sample_auth (db (auth_run sample_auth
     [ServeAuth \<lparr>aq_Credentials = credentials [] None, aq_TLS = True, aq_ForwardedProto = [], aq_Endpoint = EpLogin ''admin'' ''secret''\<rparr>,
      CleanSessions, StartServer \<lparr>env_Username = [], env_Password = ''p'', env_InitialPassword = []\<rparr>] auth_world))"
  by (rule auth_requests_keep_invariant [OF auth_inv_sample])

theorem only_sessions_manage_witness:
  "refused (fst (fst (run_state (serve_auth sample_auth
     \<lparr>aq_Credentials = credentials ''lbxk_1'' None, aq_TLS = True, aq_ForwardedProto = [], aq_Endpoint = EpDeleteAPIKey ''k''\<rparr>) auth_world)))"
  using only_sessions_manage [of "\<lparr>aq_Credentials = credentials ''lbxk_1'' None, aq_TLS = True, aq_ForwardedProto = [], aq_Endpoint = EpDeleteAPIKey ''k''\<rparr>"
      sample_auth auth_world "fst (run_state (serve_auth sample_auth
     \<lparr>aq_Credentials = credentials ''lbxk_1'' None, aq_TLS = True, aq_ForwardedProto = [], aq_Endpoint = EpDeleteAPIKey ''k''\<rparr>) auth_world)"
     "snd (run_state (serve_auth sample_auth
     \<lparr>aq_Credentials = credentials ''lbxk_1'' None, aq_TLS = True, aq_ForwardedProto = [], aq_Endpoint = EpDeleteAPIKey ''k''\<rparr>) auth_world)"]
  by (simp add: credentials_def)

lemma sample_login:
  "\<exists>y w1 tok age sec. run_state (Login sample_auth True [] ''admin'' ''secret'') auth_world = (y, w1) \<and> ar_Cookie y = Some (tok, age, sec) \<and>
     db_faults w1 = [] \<and> clock w1 = (\<lambda>_. 0)"
proof -
  have "wp (Login sample_auth True [] ''admin'' ''secret'') (\<lambda>y v. \<exists>tok age sec. ar_Cookie y = Some (tok, age, sec) \<and> db_faults v = [] \<and> clock v = (\<lambda>_. 0)) auth_world"
    by (simp add: Login_def GetAdminByUsername_def GenerateToken_def read_random_def CreateSession_def insert_session_def sample_auth_def
        sample_admin_def lookup_def wp_simps wp_sql_stmt fun_eq_iff)
  then show ?thesis
    by (auto simp: wp_def split: prod.splits)
qed

theorem login_session_lifecycle_witness:
  "\<exists>y w1 tok age sec. run_state (Login sample_auth True [] ''admin'' ''secret'') auth_world = (y, w1) \<and> ar_Cookie y = Some (tok, age, sec) \<and>
     fst (fst (run_state (APIAuthMiddleware (ah_sha256 sample_auth) (credentials [] (Some tok))) w1)) = Authenticated (AsSession ''1'')"
proof -
  obtain y w1 tok age sec where run: "run_state (Login sample_auth True [] ''admin'' ''secret'') auth_world = (y, w1)"
    "ar_Cookie y = Some (tok, age, sec)" "db_faults w1 = []" "clock w1 = (\<lambda>_. 0)"
    using sample_login by auto
  then show ?thesis
    using login_session_lifecycle [OF run(1,2) refl run(3), of "credentials [] (Some tok)"]
    by (auto simp: credentials_def bearer_token_def has_prefix_def lookup_def sample_admin_def sample_auth_def)
qed

definition sample_session :: SessionRecord where
  "sample_session = \<lparr>ses_ID = HashToken (\<lambda>x. x) ''t'', ses_UserID = ''1'', ses_ExpiresAt = 3600 * second, ses_CreatedAt = 0\<rparr>"

definition sample_key :: APIKeyRecord where
  "sample_key = \<lparr>key_ID = ''k'', key_Name = ''ci'', key_Prefix = ''0011aabb'', key_KeyHash = HashToken (\<lambda>x. x) ''lbxk_0011aabb'',
     key_ExpiresAt = None, key_LastUsedAt = None, key_CreatedAt = 0\<rparr>"

theorem logout_is_final_witness:
  "\<exists>y w1. run_state (Logout sample_auth True [] (Some ''t'')) (auth_tables [] [sample_session]) = (y, w1) \<and>
     fst (fst (run_state (APIAuthMiddleware (ah_sha256 sample_auth) (credentials [] (Some ''t''))) (auth_run sample_auth [CleanSessions] w1)))
       \<noteq> Authenticated (AsSession ''1'')"
proof -
  obtain y w1 where run: "run_state (Logout sample_auth True [] (Some ''t'')) (auth_tables [] [sample_session]) = (y, w1)"
    by fastforce
  then show ?thesis
    using logout_is_final [OF run _ _ _ refl, of "[CleanSessions]" "credentials [] (Some ''t'')" "AsSession ''1''"]
    by (auto simp: auth_tables_def random_world_def credentials_def bearer_token_def has_prefix_def)
qed

theorem deleted_key_is_refused_witness:
  "\<exists>y w1. run_state (DeleteAPIKey ''k'') (auth_tables [sample_key] []) = (y, w1) \<and> ar_Status y = 200 \<and>
     fst (fst (run_state (APIAuthMiddleware (ah_sha256 sample_auth) (credentials ''lbxk_0011aabb'' None)) (auth_run sample_auth [CleanSessions] w1)))
       \<noteq> Authenticated AsAPIKey"
proof -
  have "wp (DeleteAPIKey ''k'') (\<lambda>y v. ar_Status y = 200) (auth_tables [sample_key] [])"
    by (simp add: DeleteAPIKey_def AuthStore_DeleteAPIKey_def auth_tables_def random_world_def sample_key_def wp_simps wp_sql_stmt
        plain_response_def empty_tables_def)
  then obtain y w1 where run: "run_state (DeleteAPIKey ''k'') (auth_tables [sample_key] []) = (y, w1)" "ar_Status y = 200"
    by (auto simp: wp_def split: prod.splits)
  have "made_key sample_auth sample_key"
    by (auto simp: made_key_def sample_auth_def sample_key_def intro!: exI [of _ "''0011aabb''"])
  then have "auth_inv sample_auth (db (auth_tables [sample_key] []))"
    using auth_inv_sample by (simp add: auth_inv_def auth_world_def auth_tables_def empty_tables_def)
  then show ?thesis
    using run deleted_key_is_refused [OF run, of sample_auth sample_key "credentials ''lbxk_0011aabb'' None" "[CleanSessions]" _ AsAPIKey]
    by (auto simp: credentials_def bearer_token_def has_prefix_def trim_prefix_def auth_tables_def empty_tables_def lookup_def
        sample_key_def sample_auth_def)
qed

lemma sample_create_key:
  "\<exists>y w1 key. run_state (CreateAPIKey sample_auth ''ci'' (Some 106752)) auth_world = (y, w1) \<and> ar_Key y = Some key \<and>
     db_faults w1 = [] \<and> clock w1 = (\<lambda>_. 0)"
proof -
  have "wp (CreateAPIKey sample_auth ''ci'' (Some 106752)) (\<lambda>y v. \<exists>key. ar_Key y = Some key \<and> db_faults v = [] \<and> clock v = (\<lambda>_. 0)) auth_world"
    by (simp add: CreateAPIKey_def GenerateToken_def read_random_def AuthStore_CreateAPIKey_def insert_key_def sample_auth_def
        rune_count_def wp_simps wp_sql_stmt fun_eq_iff Let_def)
  then show ?thesis
    by (auto simp: wp_def split: prod.splits)
qed

theorem key_lifetime_range_witness:
  "\<exists>y w1 key. run_state (CreateAPIKey sample_auth ''ci'' (Some 106752)) auth_world = (y, w1) \<and> ar_Key y = Some key \<and>
     fst (fst (run_state (APIAuthMiddleware (ah_sha256 sample_auth) \<lparr>cr_Authorization = ''Bearer '' @ key, cr_Cookie = None\<rparr>) w1)) \<noteq> Authenticated AsAPIKey"
proof -
  obtain y w1 key where run: "run_state (CreateAPIKey sample_auth ''ci'' (Some 106752)) auth_world = (y, w1)" "ar_Key y = Some key"
    "db_faults w1 = []" "clock w1 = (\<lambda>_. 0)"
    using sample_create_key by auto
  then show ?thesis
    using key_lifetime_range [OF run(1,2) _ _ refl run(3), of "\<lparr>cr_Authorization = ''Bearer '' @ key, cr_Cookie = None\<rparr>"]
    by simp
qed

theorem password_change_takes_effect_witness:
  "\<exists>y w1. run_state (ChangePassword sample_auth (AsSession ''1'') ''secret'' ''longsecret'') auth_world = (y, w1) \<and> ar_Status y = 200 \<and>
     ar_Status (fst (run_state (Login sample_auth True [] ''admin'' ''secret'') w1)) = 401"
proof -
  have "wp (ChangePassword sample_auth (AsSession ''1'') ''secret'' ''longsecret'') (\<lambda>y v. ar_Status y = 200 \<and> db_faults v = [] \<and>
      v = v) auth_world"
    by (simp add: ChangePassword_def GetAdminByID_def GenerateFromPassword_def read_random_def UpdateAdminPassword_def sample_auth_def
        sample_admin_def lookup_def rune_count_def wp_simps wp_sql_stmt plain_response_def)
  then obtain y w1 where run: "run_state (ChangePassword sample_auth (AsSession ''1'') ''secret'' ''longsecret'') auth_world = (y, w1)"
    "ar_Status y = 200" "db_faults w1 = []"
    by (auto simp: wp_def split: prod.splits)
  show ?thesis
    using run password_change_takes_effect [OF run(1,2) _ auth_inv_sample _ refl run(3), of sample_admin "''secret''" True "[]"]
    by (auto simp: sample_admin_def sample_auth_def lookup_def)
qed

end
