(* ===== verification/Network_Policy.thy ===== *)
theory Network_Policy
  imports Sample_Cluster Template_Store Go_Http
begin

text \<open>
  Network policies: \<open>k8s/network_policy.go\<close>, \<open>EnsureNamespace\<close> of \<open>k8s/client.go\<close> and the reconciler of
  \<open>service/network_policy_reconciler.go\<close>. The policy objects are built as the code builds them; what a cluster admits under them
  is the cluster's own matter and not modelled.
\<close>

section \<open>Objects\<close>

record PolicyPort =
  npp_Protocol :: string
  npp_Port :: int
  npp_EndPort :: "int option"

record IPBlock =
  ipb_CIDR :: string
  ipb_Except :: "string list"

record PolicyPeer =
  peer_PodSelector :: "str_map option"
  peer_NamespaceSelector :: "str_map option"
  peer_IPBlock :: "IPBlock option"

text \<open>A rule of ingress (\<open>From\<close>) or of egress (\<open>To\<close>).\<close>

record PolicyRule =
  rule_Peers :: "PolicyPeer list"
  rule_Ports :: "PolicyPort list"

record NetworkPolicy =
  np_Name :: string
  np_ResourceVersion :: string
  np_PodSelector :: str_map
  np_PolicyTypes :: "string list"
  np_Ingress :: "PolicyRule list"
  np_Egress :: "PolicyRule list"

text \<open>An \<open>unstructured.Unstructured\<close> holds JSON.\<close>

datatype json =
    JStr string
  | JArr "json list"
  | JObj "(string \<times> json) list"

primrec json_field :: "json \<Rightarrow> string \<Rightarrow> json option" where
  "json_field (JStr s) k = None"
| "json_field (JArr xs) k = None"
| "json_field (JObj fs) k = map_of fs k"

fun json_str :: "json option \<Rightarrow> string" where
  "json_str (Some (JStr s)) = s"
| "json_str _ = []"

definition metadata_field :: "json \<Rightarrow> string \<Rightarrow> string" where
  "metadata_field u k = (case json_field u ''metadata'' of None \<Rightarrow> [] | Some m \<Rightarrow> json_str (json_field m k))"

definition GetName :: "json \<Rightarrow> string" where
  "GetName u = metadata_field u ''name''"

definition GetResourceVersion :: "json \<Rightarrow> string" where
  "GetResourceVersion u = metadata_field u ''resourceVersion''"

fun set_field :: "string \<Rightarrow> (json option \<Rightarrow> json) \<Rightarrow> json \<Rightarrow> json" where
  "set_field k f (JObj fs) = JObj (AList.update k (f (map_of fs k)) fs)"
| "set_field k f j = j"

text \<open>\<open>SetResourceVersion\<close> removes the field where the version is empty.\<close>

definition SetResourceVersion :: "string \<Rightarrow> json \<Rightarrow> json" where
  "SetResourceVersion v u =
     set_field ''metadata'' (\<lambda>m.
       case m of
         Some (JObj fs) \<Rightarrow> JObj (if v = [] then AList.delete ''resourceVersion'' fs else AList.update ''resourceVersion'' (JStr v) fs)
       | _ \<Rightarrow> JObj (if v = [] then [] else [(''resourceVersion'', JStr v)])) u"

text \<open>
  The calls of the API these functions make, over the same cluster as those of \<open>Client\<close>. \<open>pa_dynamic\<close> says whether the
  client has a dynamic client.
\<close>

record 'k PolicyAPI =
  pa_dynamic :: bool
  namespaces_Get :: "string \<Rightarrow> 'k \<Rightarrow> unit res \<times> 'k"
  namespaces_Create :: "string \<Rightarrow> 'k \<Rightarrow> unit res \<times> 'k"
  netpols_Get :: "string \<Rightarrow> string \<Rightarrow> 'k \<Rightarrow> NetworkPolicy res \<times> 'k"
  netpols_Create :: "string \<Rightarrow> NetworkPolicy \<Rightarrow> 'k \<Rightarrow> NetworkPolicy res \<times> 'k"
  netpols_Update :: "string \<Rightarrow> NetworkPolicy \<Rightarrow> 'k \<Rightarrow> NetworkPolicy res \<times> 'k"
  cilium_Get :: "string \<Rightarrow> string \<Rightarrow> 'k \<Rightarrow> json res \<times> 'k"
  cilium_Create :: "string \<Rightarrow> json \<Rightarrow> 'k \<Rightarrow> json res \<times> 'k"
  cilium_Update :: "string \<Rightarrow> json \<Rightarrow> 'k \<Rightarrow> json res \<times> 'k"
  cilium_Delete :: "string \<Rightarrow> string \<Rightarrow> 'k \<Rightarrow> unit res \<times> 'k"
  cilium_List :: "string \<Rightarrow> 'k \<Rightarrow> json list res \<times> 'k"
  pods_Update :: "string \<Rightarrow> Pod \<Rightarrow> 'k \<Rightarrow> Pod res \<times> 'k"

definition EnsureNamespace :: "'k Client \<Rightarrow> 'k PolicyAPI \<Rightarrow> ('k, unit res) prog" where
  "EnsureNamespace c a = do {
     r \<leftarrow> kube_call (namespaces_Get a (sandboxNS c));
     case r of
       Inr _ \<Rightarrow> retE ()
     | Inl _ \<Rightarrow> kube_call (namespaces_Create a (sandboxNS c)) }"

section \<open>The default policies\<close>

abbreviation "PolicyTypeIngress \<equiv> ''Ingress''"
abbreviation "PolicyTypeEgress \<equiv> ''Egress''"

definition policy_port :: "string \<Rightarrow> int \<Rightarrow> PolicyPort" where
  "policy_port proto n = \<lparr>npp_Protocol = proto, npp_Port = n, npp_EndPort = None\<rparr>"

definition dns_rule :: PolicyRule where
  "dns_rule =
     \<lparr>rule_Peers = [\<lparr>peer_PodSelector = Some [(''k8s-app'', ''kube-dns'')],
        peer_NamespaceSelector = Some [(''kubernetes.io/metadata.name'', ''kube-system'')], peer_IPBlock = None\<rparr>],
      rule_Ports = [policy_port ''UDP'' 53, policy_port ''TCP'' 53]\<rparr>"

definition defaultDenyAllPolicy :: NetworkPolicy where
  "defaultDenyAllPolicy =
     \<lparr>np_Name = ''default-deny-all'', np_ResourceVersion = [], np_PodSelector = [(''app'', LabelApp)],
      np_PolicyTypes = [PolicyTypeIngress, PolicyTypeEgress], np_Ingress = [], np_Egress = []\<rparr>"

definition allowDNSPolicy :: NetworkPolicy where
  "allowDNSPolicy =
     \<lparr>np_Name = ''allow-dns'', np_ResourceVersion = [], np_PodSelector = [(''app'', LabelApp)],
      np_PolicyTypes = [PolicyTypeEgress], np_Ingress = [], np_Egress = [dns_rule]\<rparr>"

definition denyK8sAPIPolicy :: NetworkPolicy where
  "denyK8sAPIPolicy =
     \<lparr>np_Name = ''deny-k8s-api'', np_ResourceVersion = [], np_PodSelector = [(''app'', LabelApp)],
      np_PolicyTypes = [PolicyTypeEgress], np_Ingress = [], np_Egress = [dns_rule]\<rparr>"

definition allowGatewayIngressPolicy :: "'k Client \<Rightarrow> NetworkPolicy" where
  "allowGatewayIngressPolicy c =
     \<lparr>np_Name = ''allow-gateway-ingress'', np_ResourceVersion = [], np_PodSelector = [(''app'', LabelApp)],
      np_PolicyTypes = [PolicyTypeIngress],
      np_Ingress = [\<lparr>rule_Peers = [\<lparr>peer_PodSelector = Some [(''app'', ''liteboxd-gateway'')],
          peer_NamespaceSelector = Some [(''kubernetes.io/metadata.name'', controlNS c)], peer_IPBlock = None\<rparr>],
        rule_Ports = [\<lparr>npp_Protocol = ''TCP'', npp_Port = 3000, npp_EndPort = Some 65535\<rparr>]\<rparr>],
      np_Egress = []\<rparr>"

definition private_blocks :: "string list" where
  "private_blocks = [''10.0.0.0/8'', ''172.16.0.0/12'', ''192.168.0.0/16'', ''127.0.0.0/8'', ''169.254.0.0/16'']"

definition allowInternetEgressPolicy :: NetworkPolicy where
  "allowInternetEgressPolicy =
     \<lparr>np_Name = ''allow-internet-egress'', np_ResourceVersion = [],
      np_PodSelector = [(''app'', LabelApp), (LabelInternetAccess, ''true'')],
      np_PolicyTypes = [PolicyTypeEgress], np_Ingress = [],
      np_Egress = [\<lparr>rule_Peers = [\<lparr>peer_PodSelector = None, peer_NamespaceSelector = None,
          peer_IPBlock = Some \<lparr>ipb_CIDR = ''0.0.0.0/0'', ipb_Except = private_blocks\<rparr>\<rparr>],
        rule_Ports = [policy_port ''TCP'' 443, policy_port ''TCP'' 80]\<rparr>, dns_rule]\<rparr>"

definition default_policies :: "'k Client \<Rightarrow> (string \<times> NetworkPolicy) list" where
  "default_policies c =
     [(''default-deny-all'', defaultDenyAllPolicy), (''allow-dns'', allowDNSPolicy), (''deny-k8s-api'', denyK8sAPIPolicy),
      (''allow-gateway-ingress'', allowGatewayIngressPolicy c), (''allow-internet-egress'', allowInternetEgressPolicy)]"

definition ensurePolicy :: "'k Client \<Rightarrow> 'k PolicyAPI \<Rightarrow> NetworkPolicy \<Rightarrow> ('k, unit res) prog" where
  "ensurePolicy c a policy = do {
     r \<leftarrow> kube_call (netpols_Get a (sandboxNS c) (np_Name policy));
     case r of
       Inl e \<Rightarrow>
         if is_not_found e then seqE (kube_call (netpols_Create a (sandboxNS c) policy)) (\<lambda>_. retE ())
         else throw e
     | Inr existing \<Rightarrow>
         seqE (kube_call (netpols_Update a (sandboxNS c) (policy\<lparr>np_ResourceVersion := np_ResourceVersion existing\<rparr>))) (\<lambda>_. retE ()) }"

definition EnsureDefaultPolicies :: "'k Client \<Rightarrow> 'k PolicyAPI \<Rightarrow> ('k, unit res) prog" where
  "EnsureDefaultPolicies c a =
     seqE (mapE (Wrap ''failed to ensure namespace'') (EnsureNamespace c a)) (\<lambda>_.
     for_eachE (\<lambda>(name, spec). mapE (Wrap (''failed to ensure policy '' @ name)) (ensurePolicy c a spec)) (default_policies c))"

section \<open>Domain allowlists\<close>

definition allowlist_prefix :: string where
  "allowlist_prefix = ''sandbox-egress-allowlist-''"

definition domainAllowlistPolicyName :: "string \<Rightarrow> string" where
  "domainAllowlistPolicyName sandboxID = allowlist_prefix @ sandboxID"

definition ParseDomainAllowlistPolicyName :: "string \<Rightarrow> string option" where
  "ParseDomainAllowlistPolicyName name =
     (if \<not> has_prefix allowlist_prefix name then None
      else let sandboxID = trim_prefix allowlist_prefix name in if sandboxID = [] then None else Some sandboxID)"

definition fqdn :: "string \<Rightarrow> json" where
  "fqdn domain = JObj [(if has_prefix ''*.'' domain then ''matchPattern'' else ''matchName'', JStr domain)]"

definition json_port :: "string \<Rightarrow> string \<Rightarrow> json" where
  "json_port p proto = JObj [(''port'', JStr p), (''protocol'', JStr proto)]"

definition domainAllowlistPolicy :: "'k Client \<Rightarrow> string \<Rightarrow> string list \<Rightarrow> json" where
  "domainAllowlistPolicy c sandboxID domains = JObj
     [(''apiVersion'', JStr ''cilium.io/v2''),
      (''kind'', JStr ''CiliumNetworkPolicy''),
      (''metadata'', JObj [(''name'', JStr (domainAllowlistPolicyName sandboxID)), (''namespace'', JStr (sandboxNS c))]),
      (''spec'', JObj
         [(''endpointSelector'', JObj [(''matchLabels'', JObj [(''app'', JStr LabelApp), (LabelSandboxID, JStr sandboxID)])]),
          (''egress'', JArr
             [JObj [(''toFQDNs'', JArr (map fqdn domains)),
                    (''toPorts'', JArr [JObj [(''ports'', JArr [json_port ''443'' ''TCP'', json_port ''80'' ''TCP''])]])],
              JObj [(''toEndpoints'', JArr [JObj [(''matchLabels'', JObj
                       [(''k8s-app'', JStr ''kube-dns''), (''io.kubernetes.pod.namespace'', JStr ''kube-system'')])]]),
                    (''toPorts'', JArr [JObj [(''ports'', JArr [json_port ''53'' ''UDP'', json_port ''53'' ''TCP''])]])]])])]"

definition ApplyDomainAllowlistPolicy :: "'k Client \<Rightarrow> 'k PolicyAPI \<Rightarrow> string \<Rightarrow> string list \<Rightarrow> ('k, unit res) prog" where
  "ApplyDomainAllowlistPolicy c a sandboxID domains =
     (if domains = [] then retE ()
      else let policy = domainAllowlistPolicy c sandboxID domains in do {
        r \<leftarrow> kube_call (cilium_Get a (sandboxNS c) (GetName policy));
        case r of
          Inl e \<Rightarrow>
            if is_not_found e then seqE (kube_call (cilium_Create a (sandboxNS c) policy)) (\<lambda>_. retE ())
            else throw e
        | Inr existing \<Rightarrow>
            seqE (kube_call (cilium_Update a (sandboxNS c) (SetResourceVersion (GetResourceVersion existing) policy))) (\<lambda>_. retE ()) })"

definition GetDomainAllowlistPolicy :: "'k Client \<Rightarrow> 'k PolicyAPI \<Rightarrow> string \<Rightarrow> ('k, json res) prog" where
  "GetDomainAllowlistPolicy c a sandboxID = kube_call (cilium_Get a (sandboxNS c) (domainAllowlistPolicyName sandboxID))"

definition ListManagedDomainAllowlistPolicies :: "'k Client \<Rightarrow> 'k PolicyAPI \<Rightarrow> ('k, json list res) prog" where
  "ListManagedDomainAllowlistPolicies c a =
     seqE (kube_call (cilium_List a (sandboxNS c))) (\<lambda>items.
     retE (filter (\<lambda>u. ParseDomainAllowlistPolicyName (GetName u) \<noteq> None) items))"

definition DeleteDomainAllowlistPolicy :: "'k Client \<Rightarrow> 'k PolicyAPI \<Rightarrow> string \<Rightarrow> ('k, unit res) prog" where
  "DeleteDomainAllowlistPolicy c a sandboxID = do {
     r \<leftarrow> kube_call (cilium_Delete a (sandboxNS c) (domainAllowlistPolicyName sandboxID));
     ret (case r of Inl e \<Rightarrow> if is_not_found e then Inr () else Inl e | Inr _ \<Rightarrow> Inr ()) }"

definition set_internet_label :: "string \<Rightarrow> Pod \<Rightarrow> Pod" where
  "set_internet_label v pod =
     (let labels = (case om_Labels (pod_Meta pod) of None \<Rightarrow> [] | Some m \<Rightarrow> m);
          labels' = (if v = ''false'' then AList.delete LabelInternetAccess labels else AList.update LabelInternetAccess v labels)
      in pod\<lparr>pod_Meta := (pod_Meta pod)\<lparr>om_Labels := Some labels'\<rparr>\<rparr>)"

definition setInternetAccessLabel :: "'k Client \<Rightarrow> 'k PolicyAPI \<Rightarrow> string \<Rightarrow> string \<Rightarrow> ('k, unit res) prog" where
  "setInternetAccessLabel c a sandboxID v =
     seqE (mapE (Wrap ''failed to get pod'') (kube_call (pods_Get c (sandboxNS c) (''sandbox-'' @ sandboxID)))) (\<lambda>pod.
     seqE (kube_call (pods_Update a (sandboxNS c) (set_internet_label v pod))) (\<lambda>_. retE ()))"

definition AllowInternetAccess :: "'k Client \<Rightarrow> 'k PolicyAPI \<Rightarrow> string \<Rightarrow> ('k, unit res) prog" where
  "AllowInternetAccess c a sandboxID = setInternetAccessLabel c a sandboxID ''true''"

definition DenyInternetAccess :: "'k Client \<Rightarrow> 'k PolicyAPI \<Rightarrow> string \<Rightarrow> ('k, unit res) prog" where
  "DenyInternetAccess c a sandboxID = setInternetAccessLabel c a sandboxID ''false''"

section \<open>The reconciler (service/network_policy_reconciler.go)\<close>

definition desiredAllowedDomains :: "SandboxRecord \<Rightarrow> ('k, string list option res) prog" where
  "desiredAllowedDomains rec =
     (if rec_DesiredState rec = DesiredStateDeleted then retE None
      else if rec_LifecycleStatus rec \<in> {''deleted'', ''terminating'', ''failed'', ''succeeded''} then retE None
      else seqE (TemplateStore_GetVersionByName (rec_TemplateName rec) (rec_TemplateVersion rec)) (\<lambda>version.
        case version of
          None \<Rightarrow> retE None
        | Some v \<Rightarrow>
            (case ts_Network (tv_Spec v) of
               None \<Rightarrow> retE None
             | Some n \<Rightarrow>
                 if \<not> net_AllowInternetAccess n \<or> net_AllowedDomains n = [] then retE None
                 else retE (Some (net_AllowedDomains n)))))"

record policy_stats =
  st_applied :: int
  st_deleted :: int
  st_failures :: int

text \<open>The first loop. It returns the sandboxes that should have a policy, with the counts.\<close>

definition apply_one :: "'k Client \<Rightarrow> 'k PolicyAPI \<Rightarrow> SandboxRecord \<Rightarrow> string list \<Rightarrow> policy_stats \<Rightarrow> ('k, string list \<times> policy_stats) prog" where
  "apply_one c a rec desired st = do {
     d \<leftarrow> desiredAllowedDomains rec;
     case d of
       Inl _ \<Rightarrow> ret (desired, st\<lparr>st_failures := st_failures st + 1\<rparr>)
     | Inr None \<Rightarrow> ret (desired, st)
     | Inr (Some domains) \<Rightarrow> do {
         r \<leftarrow> ApplyDomainAllowlistPolicy c a (rec_ID rec) domains;
         ret (desired @ [rec_ID rec], case r of Inl _ \<Rightarrow> st\<lparr>st_failures := st_failures st + 1\<rparr>
                                      | Inr _ \<Rightarrow> st\<lparr>st_applied := st_applied st + 1\<rparr>) } }"

fun apply_loop :: "'k Client \<Rightarrow> 'k PolicyAPI \<Rightarrow> SandboxRecord list \<Rightarrow> string list \<Rightarrow> policy_stats \<Rightarrow> ('k, string list \<times> policy_stats) prog" where
  "apply_loop c a [] desired st = ret (desired, st)"
| "apply_loop c a (rec # recs) desired st = do { x \<leftarrow> apply_one c a rec desired st; apply_loop c a recs (fst x) (snd x) }"

text \<open>The second loop. \<open>recordsByID\<close> holds the last record with an identifier.\<close>

definition confirm_and_delete :: "'k Client \<Rightarrow> 'k PolicyAPI \<Rightarrow> SandboxRecord option \<Rightarrow> string \<Rightarrow> policy_stats \<Rightarrow> ('k, policy_stats) prog" where
  "confirm_and_delete c a rec sandboxID st = do {
     d \<leftarrow> (case rec of None \<Rightarrow> retE None | Some r \<Rightarrow> desiredAllowedDomains r);
     case d of
       Inl _ \<Rightarrow> ret (st\<lparr>st_failures := st_failures st + 1\<rparr>)
     | Inr (Some _) \<Rightarrow> ret st
     | Inr None \<Rightarrow> do {
         r \<leftarrow> DeleteDomainAllowlistPolicy c a sandboxID;
         ret (case r of Inl _ \<Rightarrow> st\<lparr>st_failures := st_failures st + 1\<rparr> | Inr _ \<Rightarrow> st\<lparr>st_deleted := st_deleted st + 1\<rparr>) } }"

definition cleanup_one ::
  "'k Client \<Rightarrow> 'k PolicyAPI \<Rightarrow> SandboxRecord list \<Rightarrow> string list \<Rightarrow> json \<Rightarrow> policy_stats \<Rightarrow> ('k, policy_stats) prog" where
  "cleanup_one c a records desired u st =
     (case ParseDomainAllowlistPolicyName (GetName u) of
        None \<Rightarrow> ret st
      | Some sandboxID \<Rightarrow>
          if sandboxID \<in> set desired then ret st
          else confirm_and_delete c a (lookup rec_ID sandboxID (rev records)) sandboxID st)"

fun cleanup_loop ::
  "'k Client \<Rightarrow> 'k PolicyAPI \<Rightarrow> SandboxRecord list \<Rightarrow> string list \<Rightarrow> json list \<Rightarrow> policy_stats \<Rightarrow> ('k, policy_stats) prog" where
  "cleanup_loop c a records desired [] st = ret st"
| "cleanup_loop c a records desired (u # us) st = do { st' \<leftarrow> cleanup_one c a records desired u st; cleanup_loop c a records desired us st' }"

text \<open>The counts are only logged; the model returns them.\<close>

definition RunOnce :: "'k Client \<Rightarrow> 'k PolicyAPI \<Rightarrow> ('k, policy_stats res) prog" where
  "RunOnce c a =
     (let zero = \<lparr>st_applied = 0, st_deleted = 0, st_failures = 0\<rparr> in
      if \<not> pa_dynamic a then retE zero
      else seqE ListForReconcile (\<lambda>records. do {
        x \<leftarrow> apply_loop c a records [] zero;
        seqE (ListManagedDomainAllowlistPolicies c a) (\<lambda>policies. do {
        st \<leftarrow> cleanup_loop c a records (fst x) policies (snd x);
        retE st }) }))"

section \<open>The definitions of the default policies\<close>

lemmas default_policy_defs =
  default_policies_def defaultDenyAllPolicy_def allowDNSPolicy_def denyK8sAPIPolicy_def allowGatewayIngressPolicy_def
  allowInternetEgressPolicy_def dns_rule_def policy_port_def

end
