(* ===== verification/Policy_Reconcile.thy ===== *)
theory Policy_Reconcile
  imports Network_Policy
begin

text \<open>
  What the policy manager and its reconciler leave in the cluster. The API server is arbitrary within its documented
  behaviour: \<open>lawful_store\<close> says that a get tells the truth, and that a write which succeeds stores the content
  of its object under its name and touches no other; a call may fail, with or without its effect.
\<close>

section \<open>Documented behaviour of the API\<close>

definition lawful_store ::
  "('k \<Rightarrow> string \<Rightarrow> 'o option) \<Rightarrow> ('o \<Rightarrow> string) \<Rightarrow> ('o \<Rightarrow> 'c) \<Rightarrow> (string \<Rightarrow> 'k \<Rightarrow> 'o res \<times> 'k) \<Rightarrow>
   ('o \<Rightarrow> 'k \<Rightarrow> 'o res \<times> 'k) \<Rightarrow> bool" where
  "lawful_store view nm content get put \<longleftrightarrow>
     (\<forall>n k. view (snd (get n k)) = view k \<and>
        (case fst (get n k) of Inr x \<Rightarrow> view k n = Some x | Inl e \<Rightarrow> is_not_found e \<longrightarrow> view k n = None)) \<and>
     (\<forall>x k. view (snd (put x k)) = view k \<and> (\<exists>e. fst (put x k) = Inl e) \<or>
        (\<exists>y. view (snd (put x k)) = (view k)(nm x \<mapsto> y) \<and> nm y = nm x \<and> content y = content x))"

definition same_names :: "('k \<Rightarrow> string \<Rightarrow> 'o option) \<Rightarrow> 'k \<Rightarrow> 'k \<Rightarrow> bool" where
  "same_names view k k' \<longleftrightarrow> view k' = view k"

lemma lawful_put:
  assumes "lawful_store view nm content get put" "put x k = (r, k')"
  shows "(\<forall>n. n \<noteq> nm x \<longrightarrow> view k' n = view k n) \<and> (view k' (nm x) = view k (nm x) \<and> (\<exists>e. r = Inl e) \<or>
    (\<exists>y. view k' (nm x) = Some y \<and> nm y = nm x \<and> content y = content x))"
proof -
  have "view k' = view k \<and> (\<exists>e. r = Inl e) \<or> (\<exists>y. view k' = (view k)(nm x \<mapsto> y) \<and> nm y = nm x \<and> content y = content x)"
    using assms unfolding lawful_store_def by (metis fst_conv snd_conv)
  then show ?thesis
    by auto
qed

lemma lawful_get: "lawful_store view nm content get put \<Longrightarrow> get n k = (r, k') \<Longrightarrow> view k' = view k"
  unfolding lawful_store_def by (metis snd_conv)

text \<open>What a create-or-update of one object leaves: the other objects, and where it reports success, this one.\<close>

definition stored :: "('k \<Rightarrow> string \<Rightarrow> 'o option) \<Rightarrow> ('o \<Rightarrow> 'c) \<Rightarrow> string \<Rightarrow> 'c \<Rightarrow> 'k \<Rightarrow> unit res \<Rightarrow> 'k \<Rightarrow> bool" where
  "stored view content n x k r k' \<longleftrightarrow>
     (\<forall>m. m \<noteq> n \<longrightarrow> view k' m = view k m) \<and>
     (r = Inr () \<longrightarrow> map_option content (view k' n) = Some x) \<and>
     (view k' n = view k n \<or> map_option content (view k' n) = Some x)"

lemma lawful_stored:
  assumes "lawful_store view nm content get put" "put x k = (r, k')" "view k0 = view k"
  shows "stored view content (nm x) (content x) k0 (map_sum id (\<lambda>_. ()) r) k'"
  using lawful_put [OF assms(1,2)] assms(3) by (cases r) (auto simp: stored_def)

definition np_content :: "NetworkPolicy \<Rightarrow> NetworkPolicy" where
  "np_content p = p\<lparr>np_ResourceVersion := []\<rparr>"

text \<open>The domains an allowlist policy opens, read from its JSON.\<close>

fun fqdn_domain :: "json \<Rightarrow> string" where
  "fqdn_domain (JObj [(k, JStr d)]) = d"
| "fqdn_domain _ = []"

definition policy_domains :: "json \<Rightarrow> string list" where
  "policy_domains u =
     (case json_field u ''spec'' of
        None \<Rightarrow> []
      | Some spec \<Rightarrow>
          (case json_field spec ''egress'' of
             Some (JArr (rule # _)) \<Rightarrow> (case json_field rule ''toFQDNs'' of Some (JArr ds) \<Rightarrow> map fqdn_domain ds | _ \<Rightarrow> [])
           | _ \<Rightarrow> []))"

lemma allowlist_fields:
  "GetName (domainAllowlistPolicy c sid ds) = domainAllowlistPolicyName sid"
  "GetName (SetResourceVersion v (domainAllowlistPolicy c sid ds)) = domainAllowlistPolicyName sid"
  "policy_domains (domainAllowlistPolicy c sid ds) = ds"
  "policy_domains (SetResourceVersion v (domainAllowlistPolicy c sid ds)) = ds"
  by (simp_all add: GetName_def metadata_field_def domainAllowlistPolicy_def SetResourceVersion_def policy_domains_def fqdn_def
      comp_def)

definition lawful_netpols :: "('k \<Rightarrow> string \<Rightarrow> NetworkPolicy option) \<Rightarrow> 'k Client \<Rightarrow> 'k PolicyAPI \<Rightarrow> bool" where
  "lawful_netpols view c a \<longleftrightarrow>
     lawful_store view np_Name np_content (netpols_Get a (sandboxNS c)) (netpols_Create a (sandboxNS c)) \<and>
     lawful_store view np_Name np_content (netpols_Get a (sandboxNS c)) (netpols_Update a (sandboxNS c)) \<and>
     (\<forall>n k. view (snd (namespaces_Get a n k)) = view k) \<and> (\<forall>n k. view (snd (namespaces_Create a n k)) = view k)"

definition lawful_cilium :: "('k \<Rightarrow> string \<Rightarrow> json option) \<Rightarrow> 'k Client \<Rightarrow> 'k PolicyAPI \<Rightarrow> bool" where
  "lawful_cilium view c a \<longleftrightarrow>
     lawful_store view GetName policy_domains (cilium_Get a (sandboxNS c)) (cilium_Create a (sandboxNS c)) \<and>
     lawful_store view GetName policy_domains (cilium_Get a (sandboxNS c)) (cilium_Update a (sandboxNS c)) \<and>
     (\<forall>n k. let (r, k') = cilium_Delete a (sandboxNS c) n k in
        (view k' = view k \<or> view k' = (view k)(n := None)) \<and>
        (case r of Inr _ \<Rightarrow> view k' n = None | Inl e \<Rightarrow> is_not_found e \<longrightarrow> view k' n = None)) \<and>
     (\<forall>k. let (r, k') = cilium_List a (sandboxNS c) k in
        view k' = view k \<and>
        (case r of Inl _ \<Rightarrow> True | Inr items \<Rightarrow> (\<forall>n u. view k n = Some u \<longrightarrow> u \<in> set items \<and> GetName u = n)))"

section \<open>The default policies\<close>

lemma wp_ensurePolicy:
  assumes "lawful_netpols view c a"
  shows "wp (ensurePolicy c a p) (\<lambda>r v. db v = db w \<and> stored view np_content (np_Name p) (np_content p) (kube w) r (kube v)) w"
proof -
  have laws: "lawful_store view np_Name np_content (netpols_Get a (sandboxNS c)) (netpols_Create a (sandboxNS c))"
    "lawful_store view np_Name np_content (netpols_Get a (sandboxNS c)) (netpols_Update a (sandboxNS c))"
    using assms by (simp_all add: lawful_netpols_def)
  obtain r k where g: "netpols_Get a (sandboxNS c) (np_Name p) (kube w) = (r, k)"
    by fastforce
  have k: "view (kube w) = view k"
    using lawful_get [OF laws(1) g] by simp
  have st: "stored view np_content (np_Name p) (np_content p) (kube w) (Inl e) k" for e
    using k by (simp add: stored_def)
  show ?thesis
  proof (cases r)
    case (Inl e)
    obtain r' k' where c: "netpols_Create a (sandboxNS c) p k = (r', k')"
      by fastforce
    show ?thesis
      using Inl g c st lawful_stored [OF laws(1) c k] by (cases r') (auto simp: ensurePolicy_def wp_simps)
  next
    case (Inr x)
    let ?p = "p\<lparr>np_ResourceVersion := np_ResourceVersion x\<rparr>"
    obtain r' k' where c: "netpols_Update a (sandboxNS c) ?p k = (r', k')"
      by fastforce
    have "stored view np_content (np_Name p) (np_content p) (kube w) (map_sum id (\<lambda>_. ()) r') k'"
      using lawful_stored [OF laws(2) c k] by (simp add: np_content_def)
    then show ?thesis
      using Inr g c by (cases r') (auto simp: ensurePolicy_def wp_simps)
  qed
qed

lemma wp_ensure_all:
  assumes "lawful_netpols view c a" "distinct (map (np_Name \<circ> snd) ps)"
  shows "wp (for_eachE (\<lambda>(name, spec). mapE (Wrap (msg name)) (ensurePolicy c a spec)) ps) (\<lambda>r v. db v = db w \<and>
     (\<forall>m. m \<notin> (np_Name \<circ> snd) ` set ps \<longrightarrow> view (kube v) m = view (kube w) m) \<and>
     (r = Inr () \<longrightarrow> (\<forall>p \<in> set ps. map_option np_content (view (kube v) (np_Name (snd p))) = Some (np_content (snd p))))) w"
  using assms(2)
proof (induction ps arbitrary: w)
  case (Cons p ps)
  obtain name spec where p: "p = (name, spec)"
    by (cases p)
  show ?case
    unfolding for_eachE.simps wp_seqE p prod.case wp_mapE
  proof (rule wp_mono [OF wp_ensurePolicy [OF assms(1), of spec w]])
    fix r and v :: "'a world"
    assume st: "db v = db w \<and> stored view np_content (np_Name spec) (np_content spec) (kube w) r (kube v)"
    show "case (case r of Inl e \<Rightarrow> Inl (Wrap (msg name) e) | Inr x \<Rightarrow> Inr x) of
        Inl e \<Rightarrow> db v = db w \<and> (\<forall>m. m \<notin> (np_Name \<circ> snd) ` set ((name, spec) # ps) \<longrightarrow> view (kube v) m = view (kube w) m) \<and>
          (Inl e = Inr () \<longrightarrow> (\<forall>p \<in> set ((name, spec) # ps). map_option np_content (view (kube v) (np_Name (snd p))) = Some (np_content (snd p))))
      | Inr x \<Rightarrow> wp (for_eachE (\<lambda>(name, spec). mapE (Wrap (msg name)) (ensurePolicy c a spec)) ps) (\<lambda>r v. db v = db w \<and>
          (\<forall>m. m \<notin> (np_Name \<circ> snd) ` set ((name, spec) # ps) \<longrightarrow> view (kube v) m = view (kube w) m) \<and>
          (r = Inr () \<longrightarrow> (\<forall>p \<in> set ((name, spec) # ps). map_option np_content (view (kube v) (np_Name (snd p))) = Some (np_content (snd p))))) v"
    proof (cases r)
      case (Inr u)
      have "distinct (map (np_Name \<circ> snd) ps)" "np_Name spec \<notin> (np_Name \<circ> snd) ` set ps"
        using Cons.prems p by (simp_all add: comp_def)
      then show ?thesis
        using Inr st by (auto simp: stored_def intro!: wp_mono [OF Cons.IH [of v]])
    qed (use st in \<open>auto simp: stored_def\<close>)
  qed
qed (simp add: wp_simps)

text \<open>
  Where \<open>EnsureDefaultPolicies\<close> succeeds, the cluster holds each of the five default policies as the code
  builds it, whatever was stored under their names before, and every other policy as it was; where it
  fails, no other policy has changed either.
\<close>

theorem default_policies_installed:
  fixes w :: "'a world"
  assumes "lawful_netpols view c a" "run_state (EnsureDefaultPolicies c a) w = (r, w')"
  shows "db w' = db w \<and>
    (\<forall>m. m \<notin> np_Name ` snd ` set (default_policies c) \<longrightarrow> view (kube w') m = view (kube w) m) \<and>
    (r = Inr () \<longrightarrow> (\<forall>p \<in> snd ` set (default_policies c). map_option np_content (view (kube w') (np_Name p)) = Some p))"
proof -
  have ns: "view (snd (namespaces_Get a n k)) = view k" "view (snd (namespaces_Create a n k)) = view k" for n k
    using assms(1) by (simp_all add: lawful_netpols_def)
  have "wp (EnsureNamespace c a) (\<lambda>_ v. db v = db w \<and> view (kube v) = view (kube w)) w"
    using ns [of "sandboxNS c"] by (auto simp: EnsureNamespace_def wp_simps case_prod_beta split: sum.split)
  then have ns: "wp (EnsureNamespace c a) (\<lambda>_ v. db v = db w \<and> view (kube v) = view (kube w)) w" .
  define Q where "Q r v \<longleftrightarrow> db v = db w \<and>
     (\<forall>m. m \<notin> (np_Name \<circ> snd) ` set (default_policies c) \<longrightarrow> view (kube v) m = view (kube w) m) \<and>
     (r = Inr () \<longrightarrow> (\<forall>p \<in> set (default_policies c). map_option np_content (view (kube v) (np_Name (snd p))) = Some (np_content (snd p))))"
    for r :: "unit res" and v :: "'a world"
  have dist: "distinct (map (np_Name \<circ> snd) (default_policies c))"
    by (simp add: default_policy_defs)
  have all: "wp (for_eachE (\<lambda>(name, spec). mapE (Wrap (''failed to ensure policy '' @ name)) (ensurePolicy c a spec)) (default_policies c)) Q v"
    if "db v = db w" "view (kube v) = view (kube w)" for v
    by (rule wp_mono [OF wp_ensure_all [OF assms(1) dist]]) (use that in \<open>simp add: Q_def\<close>)
  have "wp (EnsureDefaultPolicies c a) Q w"
    unfolding EnsureDefaultPolicies_def wp_seqE wp_mapE
  proof (rule wp_mono [OF ns])
    fix r and v :: "'a world"
    assume v: "db v = db w \<and> view (kube v) = view (kube w)"
    show "case (case r of Inl e \<Rightarrow> Inl (Wrap ''failed to ensure namespace'' e) | Inr x \<Rightarrow> Inr x) of
        Inl e \<Rightarrow> Q (Inl e) v
      | Inr x \<Rightarrow> wp (for_eachE (\<lambda>(name, spec). mapE (Wrap (''failed to ensure policy '' @ name)) (ensurePolicy c a spec)) (default_policies c)) Q v"
      using v all [of v] by (cases r) (simp_all add: Q_def)
  qed
  moreover have "np_content (snd p) = snd p" if "p \<in> set (default_policies c)" for p
    using that by (auto simp: default_policy_defs np_content_def)
  ultimately show ?thesis
    using assms(2) by (auto simp: wp_def image_comp Q_def)
qed

section \<open>What the rows ask for\<close>

definition desired_domains :: "tables \<Rightarrow> SandboxRecord \<Rightarrow> string list option" where
  "desired_domains t r =
     (if rec_DesiredState r = DesiredStateDeleted \<or> rec_LifecycleStatus r \<in> {''deleted'', ''terminating'', ''failed'', ''succeeded''} then None
      else case lookup tpl_Name (rec_TemplateName r) (templates t) of
        None \<Rightarrow> None
      | Some tpl \<Rightarrow>
          (case find_version (tpl_ID tpl) (rec_TemplateVersion r) t of
             None \<Rightarrow> None
           | Some v \<Rightarrow>
               (case ts_Network (tv_Spec v) of
                  None \<Rightarrow> None
                | Some n \<Rightarrow> if net_AllowInternetAccess n \<and> net_AllowedDomains n \<noteq> [] then Some (net_AllowedDomains n) else None)))"

lemma desired_nonempty: "desired_domains t r = Some ds \<Longrightarrow> ds \<noteq> []"
  by (auto simp: desired_domains_def split: if_splits option.splits)

lemma wp_desired:
  "wp (desiredAllowedDomains r) (\<lambda>y v. db v = db w \<and> kube v = kube w \<and> (\<forall>d. y = Inr d \<longrightarrow> d = desired_domains (db w) r)) w"
proof (cases "rec_DesiredState r = DesiredStateDeleted \<or> rec_LifecycleStatus r \<in> {''deleted'', ''terminating'', ''failed'', ''succeeded''}")
  case True
  then show ?thesis
    by (auto simp: desiredAllowedDomains_def desired_domains_def wp_simps)
next
  case False
  then show ?thesis
    unfolding desiredAllowedDomains_def TemplateStore_GetVersionByName_def TemplateStore_GetVersion_def
    by (simp add: wp_simps)
       (rule wp_Get; auto simp: wp_simps desired_domains_def split: option.split intro!: wp_query_db)
qed

lemma name_inj [simp]: "domainAllowlistPolicyName a = domainAllowlistPolicyName b \<longleftrightarrow> a = b"
  by (simp add: domainAllowlistPolicyName_def)

lemma parse_name: "ParseDomainAllowlistPolicyName n = Some sid \<longleftrightarrow> n = domainAllowlistPolicyName sid \<and> sid \<noteq> []"
  by (auto simp: ParseDomainAllowlistPolicyName_def domainAllowlistPolicyName_def has_prefix_iff Let_def)

lemma wp_Apply:
  assumes "lawful_cilium view c a" "ds \<noteq> []"
  shows "wp (ApplyDomainAllowlistPolicy c a sid ds)
    (\<lambda>r v. db v = db w \<and> stored view policy_domains (domainAllowlistPolicyName sid) ds (kube w) r (kube v)) w"
proof -
  let ?p = "domainAllowlistPolicy c sid ds"
  have laws: "lawful_store view GetName policy_domains (cilium_Get a (sandboxNS c)) (cilium_Create a (sandboxNS c))"
    "lawful_store view GetName policy_domains (cilium_Get a (sandboxNS c)) (cilium_Update a (sandboxNS c))"
    using assms by (simp_all add: lawful_cilium_def)
  obtain r k where g: "cilium_Get a (sandboxNS c) (domainAllowlistPolicyName sid) (kube w) = (r, k)"
    by fastforce
  have k: "view (kube w) = view k"
    using lawful_get [OF laws(1) g] by simp
  have st: "stored view policy_domains (domainAllowlistPolicyName sid) ds (kube w) (Inl e) k" for e
    using k by (simp add: stored_def)
  show ?thesis
  proof (cases r)
    case (Inl e)
    obtain r' k' where p: "cilium_Create a (sandboxNS c) ?p k = (r', k')"
      by fastforce
    show ?thesis
      using Inl g p st assms(2) lawful_stored [OF laws(1) p k]
      by (cases r') (auto simp: ApplyDomainAllowlistPolicy_def Let_def wp_simps allowlist_fields)
  next
    case (Inr x)
    obtain r' k' where p: "cilium_Update a (sandboxNS c) (SetResourceVersion (GetResourceVersion x) ?p) k = (r', k')"
      by fastforce
    show ?thesis
      using Inr g p assms(2) lawful_stored [OF laws(2) p k]
      by (cases r') (auto simp: ApplyDomainAllowlistPolicy_def Let_def wp_simps allowlist_fields)
  qed
qed

lemma wp_Delete_policy:
  assumes "lawful_cilium view c a"
  shows "wp (DeleteDomainAllowlistPolicy c a sid) (\<lambda>r v. db v = db w \<and>
    (view (kube v) = view (kube w) \<or> view (kube v) = (view (kube w))(domainAllowlistPolicyName sid := None)) \<and>
    (r = Inr () \<longrightarrow> view (kube v) (domainAllowlistPolicyName sid) = None)) w"
proof -
  obtain r k where d: "cilium_Delete a (sandboxNS c) (domainAllowlistPolicyName sid) (kube w) = (r, k)"
    by fastforce
  have "(view k = view (kube w) \<or> view k = (view (kube w))(domainAllowlistPolicyName sid := None)) \<and>
      (case r of Inr _ \<Rightarrow> view k (domainAllowlistPolicyName sid) = None | Inl e \<Rightarrow> is_not_found e \<longrightarrow> view k (domainAllowlistPolicyName sid) = None)"
    using assms d unfolding lawful_cilium_def by (elim conjE allE [where x = "domainAllowlistPolicyName sid"] allE [where x = "kube w"]) simp
  then show ?thesis
    using d by (auto simp: DeleteDomainAllowlistPolicy_def wp_simps split: sum.splits if_splits)
qed

section \<open>The two loops\<close>

abbreviation "row_policy r \<equiv> domainAllowlistPolicyName (rec_ID r)"

definition wanted_ids :: "tables \<Rightarrow> SandboxRecord list \<Rightarrow> string set" where
  "wanted_ids t rs = rec_ID ` set (filter (\<lambda>r. desired_domains t r \<noteq> None) rs)"

lemma wanted_ids_Cons: "wanted_ids t (r # rs) = wanted_ids t [r] \<union> wanted_ids t rs"
  by (auto simp: wanted_ids_def)

definition applied ::
  "('k \<Rightarrow> string \<Rightarrow> json option) \<Rightarrow> tables \<Rightarrow> SandboxRecord list \<Rightarrow> string list \<Rightarrow> policy_stats \<Rightarrow> 'k \<Rightarrow> string list \<times> policy_stats \<Rightarrow> 'k \<Rightarrow> bool" where
  "applied view t rs D st k x k' \<longleftrightarrow>
     st_failures st \<le> st_failures (snd x) \<and>
     (\<forall>m. m \<notin> row_policy ` set rs \<longrightarrow> view k' m = view k m) \<and>
     (\<forall>r \<in> set rs. view k' (row_policy r) = view k (row_policy r) \<or>
        (\<exists>ds. desired_domains t r = Some ds \<and> map_option policy_domains (view k' (row_policy r)) = Some ds)) \<and>
     set (fst x) \<subseteq> set D \<union> wanted_ids t rs \<and>
     (st_failures (snd x) = st_failures st \<longrightarrow>
        set (fst x) = set D \<union> wanted_ids t rs \<and>
        (\<forall>r \<in> set rs. \<forall>ds. desired_domains t r = Some ds \<longrightarrow> map_option policy_domains (view k' (row_policy r)) = Some ds))"

lemma wp_apply_one:
  assumes "lawful_cilium view c a"
  shows "wp (apply_one c a r D st) (\<lambda>x v. db v = db w \<and> applied view (db w) [r] D st (kube w) x (kube v)) w"
  unfolding apply_one_def wp_bind
proof (rule wp_mono [OF wp_desired])
  fix d and v :: "'a world"
  assume v: "db v = db w \<and> kube v = kube w \<and> (\<forall>x. d = Inr x \<longrightarrow> x = desired_domains (db w) r)"
  show "wp (case d of
        Inl _ \<Rightarrow> ret (D, st\<lparr>st_failures := st_failures st + 1\<rparr>)
      | Inr None \<Rightarrow> ret (D, st)
      | Inr (Some domains) \<Rightarrow> do {
          y \<leftarrow> ApplyDomainAllowlistPolicy c a (rec_ID r) domains;
          ret (D @ [rec_ID r], case y of Inl _ \<Rightarrow> st\<lparr>st_failures := st_failures st + 1\<rparr>
                               | Inr _ \<Rightarrow> st\<lparr>st_applied := st_applied st + 1\<rparr>) })
      (\<lambda>x v. db v = db w \<and> applied view (db w) [r] D st (kube w) x (kube v)) v"
  proof (cases d)
    case (Inr x)
    then have x: "x = desired_domains (db w) r"
      using v by simp
    show ?thesis
    proof (cases x)
      case (Some ds)
      have "wp (ApplyDomainAllowlistPolicy c a (rec_ID r) ds)
          (\<lambda>y u. db u = db w \<and> stored view policy_domains (row_policy r) ds (kube w) y (kube u)) v"
        by (rule wp_mono [OF wp_Apply [OF assms desired_nonempty]]) (use v Some x in auto)
      then show ?thesis
        unfolding Inr Some sum.case option.case wp_bind
        by (rule wp_mono) (use x [unfolded Some, symmetric] in \<open>auto simp: wp_simps applied_def stored_def wanted_ids_def split: sum.split\<close>)
    next
      case None
      then have "desired_domains (db w) r = None" "d = Inr None"
        using x Inr by simp_all
      then show ?thesis
        using v by (simp add: wp_ret applied_def wanted_ids_def)
    qed
  next
    case (Inl e)
    then show ?thesis
      using v by (simp add: wp_ret applied_def)
  qed
qed

lemma applied_Cons:
  assumes "applied view t [r] D st k x k'" "applied view t rs (fst x) (snd x) k' y k''" "rec_ID r \<notin> rec_ID ` set rs"
  shows "applied view t (r # rs) D st k y k''"
proof -
  have new: "row_policy r \<notin> row_policy ` set rs"
    using assms(3) by auto
  have other: "row_policy q \<noteq> row_policy r" if "q \<in> set rs" for q
    using that assms(3) by (metis imageI name_inj)
  show ?thesis
    unfolding applied_def
  proof (intro conjI)
    show "st_failures st \<le> st_failures (snd y)"
      using assms(1,2) by (simp add: applied_def)
    show "\<forall>m. m \<notin> row_policy ` set (r # rs) \<longrightarrow> view k'' m = view k m"
      using assms(1,2) by (simp add: applied_def)
    have kept: "view k'' (row_policy r) = view k' (row_policy r)" "\<forall>q \<in> set rs. view k' (row_policy q) = view k (row_policy q)"
      using assms(1,2) new other by (simp_all add: applied_def)
    have "view k' (row_policy r) = view k (row_policy r) \<or>
        (\<exists>ds. desired_domains t r = Some ds \<and> map_option policy_domains (view k' (row_policy r)) = Some ds)"
      using assms(1) by (simp add: applied_def)
    moreover have "\<forall>q \<in> set rs. view k'' (row_policy q) = view k' (row_policy q) \<or>
        (\<exists>ds. desired_domains t q = Some ds \<and> map_option policy_domains (view k'' (row_policy q)) = Some ds)"
      using assms(2) by (simp add: applied_def)
    ultimately show "\<forall>q \<in> set (r # rs). view k'' (row_policy q) = view k (row_policy q) \<or>
        (\<exists>ds. desired_domains t q = Some ds \<and> map_option policy_domains (view k'' (row_policy q)) = Some ds)"
      using kept by simp
    have "set (fst x) \<subseteq> set D \<union> wanted_ids t [r]" "set (fst y) \<subseteq> set (fst x) \<union> wanted_ids t rs"
      using assms(1,2) by (simp_all add: applied_def)
    then show "set (fst y) \<subseteq> set D \<union> wanted_ids t (r # rs)"
      unfolding wanted_ids_Cons [of t r rs] by blast
    show "st_failures (snd y) = st_failures st \<longrightarrow> set (fst y) = set D \<union> wanted_ids t (r # rs) \<and>
        (\<forall>q \<in> set (r # rs). \<forall>ds. desired_domains t q = Some ds \<longrightarrow> map_option policy_domains (view k'' (row_policy q)) = Some ds)"
    proof
      assume "st_failures (snd y) = st_failures st"
      moreover have "st_failures st \<le> st_failures (snd x)" "st_failures (snd x) \<le> st_failures (snd y)"
        using assms(1,2) by (simp_all add: applied_def)
      ultimately have "st_failures (snd x) = st_failures st" "st_failures (snd y) = st_failures (snd x)"
        by simp_all
      then have "set (fst x) = set D \<union> wanted_ids t [r]" "set (fst y) = set (fst x) \<union> wanted_ids t rs"
        "\<forall>ds. desired_domains t r = Some ds \<longrightarrow> map_option policy_domains (view k' (row_policy r)) = Some ds"
        "\<forall>q \<in> set rs. \<forall>ds. desired_domains t q = Some ds \<longrightarrow> map_option policy_domains (view k'' (row_policy q)) = Some ds"
        using assms(1,2) by (simp_all add: applied_def)
      then show "set (fst y) = set D \<union> wanted_ids t (r # rs) \<and>
          (\<forall>q \<in> set (r # rs). \<forall>ds. desired_domains t q = Some ds \<longrightarrow> map_option policy_domains (view k'' (row_policy q)) = Some ds)"
        using kept(1) unfolding wanted_ids_Cons [of t r rs] by (simp add: Un_assoc)
    qed
  qed
qed

lemma wp_apply_loop:
  assumes "lawful_cilium view c a" "distinct (map rec_ID rs)"
  shows "wp (apply_loop c a rs D st) (\<lambda>x v. db v = db w \<and> applied view (db w) rs D st (kube w) x (kube v)) w"
  using assms(2)
proof (induction rs arbitrary: D st w)
  case Nil
  then show ?case
    by (simp add: wp_simps applied_def wanted_ids_def)
next
  case (Cons r rs)
  show ?case
    unfolding apply_loop.simps wp_bind
  proof (rule wp_mono [OF wp_apply_one [OF assms(1)]])
    fix x and v :: "'a world"
    assume v: "db v = db w \<and> applied view (db w) [r] D st (kube w) x (kube v)"
    show "wp (apply_loop c a rs (fst x) (snd x)) (\<lambda>x v. db v = db w \<and> applied view (db w) (r # rs) D st (kube w) x (kube v)) v"
      by (rule wp_mono [OF Cons.IH]) (use v Cons.prems in \<open>auto intro: applied_Cons\<close>)
  qed
qed

text \<open>A managed policy that nothing asks for.\<close>

definition unwanted :: "tables \<Rightarrow> SandboxRecord list \<Rightarrow> string list \<Rightarrow> string \<Rightarrow> bool" where
  "unwanted t rs D sid \<longleftrightarrow> sid \<noteq> [] \<and> sid \<notin> set D \<and>
     (case lookup rec_ID sid (rev rs) of None \<Rightarrow> True | Some r \<Rightarrow> desired_domains t r = None)"

definition cleaned ::
  "('k \<Rightarrow> string \<Rightarrow> json option) \<Rightarrow> tables \<Rightarrow> SandboxRecord list \<Rightarrow> string list \<Rightarrow> json list \<Rightarrow> policy_stats \<Rightarrow> 'k \<Rightarrow> policy_stats \<Rightarrow> 'k \<Rightarrow> bool" where
  "cleaned view t rs D us st k st' k' \<longleftrightarrow>
     st_failures st \<le> st_failures st' \<and>
     (\<forall>m. view k' m = view k m \<or> view k' m = None \<and> (\<exists>sid. m = domainAllowlistPolicyName sid \<and> unwanted t rs D sid)) \<and>
     (st_failures st' = st_failures st \<longrightarrow>
        (\<forall>u \<in> set us. \<forall>sid. GetName u = domainAllowlistPolicyName sid \<and> unwanted t rs D sid \<longrightarrow> view k' (GetName u) = None))"

lemma wp_cleanup_one:
  assumes "lawful_cilium view c a"
  shows "wp (cleanup_one c a rs D u st) (\<lambda>st' v. db v = db w \<and> cleaned view (db w) rs D [u] st (kube w) st' (kube v)) w"
proof (cases "ParseDomainAllowlistPolicyName (GetName u)")
  case None
  then have "\<nexists>sid. GetName u = domainAllowlistPolicyName sid \<and> sid \<noteq> []"
    using parse_name [of "GetName u"] by auto
  then show ?thesis
    using None by (auto simp: cleanup_one_def wp_simps cleaned_def unwanted_def)
next
  case (Some sid)
  then have u: "GetName u = domainAllowlistPolicyName sid" "sid \<noteq> []"
    by (simp_all add: parse_name)
  show ?thesis
  proof (cases "sid \<in> set D")
    case True
    then show ?thesis
      using Some u by (auto simp: cleanup_one_def wp_simps cleaned_def unwanted_def)
  next
    case False
    define rec where "rec = lookup rec_ID sid (rev rs)"
    define wanted where "wanted = (case rec of None \<Rightarrow> None | Some r \<Rightarrow> desired_domains (db w) r)"
    have uw: "unwanted (db w) rs D sid \<longleftrightarrow> wanted = None"
      using False u(2) by (simp add: unwanted_def wanted_def rec_def split: option.split)
    have d: "wp (case rec of None \<Rightarrow> retE None | Some r \<Rightarrow> desiredAllowedDomains r)
        (\<lambda>y v. db v = db w \<and> kube v = kube w \<and> (\<forall>x. y = Inr x \<longrightarrow> x = wanted)) w"
      using wp_desired [of _ w] by (cases rec) (simp_all add: wp_simps wanted_def)
    have "wp (confirm_and_delete c a rec sid st) (\<lambda>st' v. db v = db w \<and> cleaned view (db w) rs D [u] st (kube w) st' (kube v)) w"
      unfolding confirm_and_delete_def wp_bind
    proof (rule wp_mono [OF d])
      fix y and v :: "'a world"
      assume v: "db v = db w \<and> kube v = kube w \<and> (\<forall>x. y = Inr x \<longrightarrow> x = wanted)"
      show "wp (case y of
            Inl _ \<Rightarrow> ret (st\<lparr>st_failures := st_failures st + 1\<rparr>)
          | Inr None \<Rightarrow> do {
              r \<leftarrow> DeleteDomainAllowlistPolicy c a sid;
              ret (case r of Inl _ \<Rightarrow> st\<lparr>st_failures := st_failures st + 1\<rparr> | Inr _ \<Rightarrow> st\<lparr>st_deleted := st_deleted st + 1\<rparr>) }
          | Inr (Some _) \<Rightarrow> ret st)
          (\<lambda>st' v. db v = db w \<and> cleaned view (db w) rs D [u] st (kube w) st' (kube v)) v"
      proof (cases y)
        case (Inl e)
        then show ?thesis
          using v by (simp add: wp_simps cleaned_def)
      next
        case (Inr x)
        then have x: "x = wanted"
          using v by simp
        show ?thesis
        proof (cases x)
          case None
          show ?thesis
            unfolding Inr None sum.case option.case wp_bind
          proof (rule wp_mono [OF wp_Delete_policy [OF assms]])
            fix q and z :: "'a world"
            assume z: "db z = db v \<and> (view (kube z) = view (kube v) \<or>
                view (kube z) = (view (kube v))(domainAllowlistPolicyName sid := None)) \<and>
              (q = Inr () \<longrightarrow> view (kube z) (domainAllowlistPolicyName sid) = None)"
            then have "view (kube z) m = view (kube w) m \<or> view (kube z) m = None \<and> m = domainAllowlistPolicyName sid" for m
              using v by (cases "m = domainAllowlistPolicyName sid") auto
            then have kept: "\<forall>m. view (kube z) m = view (kube w) m \<or>
                view (kube z) m = None \<and> (\<exists>sid. m = domainAllowlistPolicyName sid \<and> unwanted (db w) rs D sid)"
              using uw x None by metis
            show "wp (ret (case q of Inl _ \<Rightarrow> st\<lparr>st_failures := st_failures st + 1\<rparr> | Inr _ \<Rightarrow> st\<lparr>st_deleted := st_deleted st + 1\<rparr>))
                (\<lambda>st' v. db v = db w \<and> cleaned view (db w) rs D [u] st (kube w) st' (kube v)) z"
              unfolding wp_ret cleaned_def using kept conjunct1 [OF v] z u(1) by (cases q) simp_all
          qed
        next
          case (Some z)
          then have no: "\<not> unwanted (db w) rs D sid"
            using x uw by auto
          show ?thesis
            unfolding Inr Some sum.case option.case wp_ret cleaned_def
            using no conjunct1 [OF v] conjunct1 [OF conjunct2 [OF v]] u by simp
        qed
      qed
    qed
    then show ?thesis
      using Some False by (simp add: cleanup_one_def rec_def)
  qed
qed

lemma cleaned_Cons:
  assumes "cleaned view t rs D [u] st k st1 k1" "cleaned view t rs D us st1 k1 st2 k2"
  shows "cleaned view t rs D (u # us) st k st2 k2"
proof -
  have "st_failures st \<le> st_failures st1" "st_failures st1 \<le> st_failures st2"
    using assms by (simp_all add: cleaned_def)
  moreover have "view k2 m = view k m \<or> view k2 m = None \<and> (\<exists>sid. m = domainAllowlistPolicyName sid \<and> unwanted t rs D sid)" for m
    using assms unfolding cleaned_def by metis
  moreover have "view k2 m = None" if "view k1 m = None" for m
    using assms(2) that unfolding cleaned_def by metis
  ultimately show ?thesis
    using assms unfolding cleaned_def by auto
qed

lemma wp_cleanup_loop:
  assumes "lawful_cilium view c a"
  shows "wp (cleanup_loop c a rs D us st) (\<lambda>st' v. db v = db w \<and> cleaned view (db w) rs D us st (kube w) st' (kube v)) w"
proof (induction us arbitrary: st w)
  case Nil
  then show ?case
    by (simp add: wp_simps cleaned_def)
next
  case (Cons u us)
  show ?case
    unfolding cleanup_loop.simps wp_bind
  proof (rule wp_mono [OF wp_cleanup_one [OF assms]])
    fix st1 and v :: "'a world"
    assume v: "db v = db w \<and> cleaned view (db w) rs D [u] st (kube w) st1 (kube v)"
    show "wp (cleanup_loop c a rs D us st1) (\<lambda>st' v. db v = db w \<and> cleaned view (db w) rs D (u # us) st (kube w) st' (kube v)) v"
      by (rule wp_mono [OF Cons.IH]) (use v in \<open>auto intro: cleaned_Cons\<close>)
  qed
qed

section \<open>A pass\<close>

definition zero_stats :: policy_stats where
  "zero_stats = \<lparr>st_applied = 0, st_deleted = 0, st_failures = 0\<rparr>"

text \<open>What a pass with a dynamic client does after it has read the rows: \<open>mid\<close> is the cluster between the loops.\<close>

definition pass_outcome ::
  "('k \<Rightarrow> string \<Rightarrow> json option) \<Rightarrow> tables \<Rightarrow> SandboxRecord list \<Rightarrow> 'k \<Rightarrow> policy_stats res \<Rightarrow> 'k \<Rightarrow> bool" where
  "pass_outcome view t rs k r k' \<longleftrightarrow>
     (\<exists>x mid. applied view t rs [] zero_stats k x mid \<and>
        (case r of
           Inl e \<Rightarrow> view k' = view mid
         | Inr st \<Rightarrow> \<exists>us. (\<forall>n u. view mid n = Some u \<and> ParseDomainAllowlistPolicyName n \<noteq> None \<longrightarrow> u \<in> set us \<and> GetName u = n) \<and>
             cleaned view t rs (fst x) us (snd x) mid st k'))"

lemma pass_outcome_okE:
  assumes "pass_outcome view t rs k (Inr st) k'"
  obtains x mid us where "applied view t rs [] zero_stats k x mid"
    "\<forall>n u. view mid n = Some u \<and> ParseDomainAllowlistPolicyName n \<noteq> None \<longrightarrow> u \<in> set us \<and> GetName u = n"
    "cleaned view t rs (fst x) us (snd x) mid st k'"
  using assms unfolding pass_outcome_def sum.case by blast

lemma pass_outcomeE:
  assumes "pass_outcome view t rs k r k'"
  obtains x mid where "applied view t rs [] zero_stats k x mid" "view k' = view mid"
  | x mid us st where "applied view t rs [] zero_stats k x mid" "cleaned view t rs (fst x) us (snd x) mid st k'"
proof (cases r)
  case (Inl e)
  then show ?thesis
    using assms that(1) unfolding pass_outcome_def by (simp only: sum.case) blast
next
  case (Inr st)
  then show ?thesis
    using assms that(2) by (metis pass_outcome_okE)
qed

lemma wp_List_policies:
  assumes "lawful_cilium view c a"
  shows "wp (ListManagedDomainAllowlistPolicies c a) (\<lambda>r v. db v = db w \<and> view (kube v) = view (kube w) \<and>
    (\<forall>us. r = Inr us \<longrightarrow> (\<forall>n u. view (kube w) n = Some u \<and> ParseDomainAllowlistPolicyName n \<noteq> None \<longrightarrow> u \<in> set us \<and> GetName u = n))) w"
proof -
  obtain r k where l: "cilium_List a (sandboxNS c) (kube w) = (r, k)"
    by fastforce
  have law: "\<forall>k. let (r, k') = cilium_List a (sandboxNS c) k in view k' = view k \<and>
      (case r of Inl _ \<Rightarrow> True | Inr items \<Rightarrow> (\<forall>n u. view k n = Some u \<longrightarrow> u \<in> set items \<and> GetName u = n))"
    using assms by (simp add: lawful_cilium_def)
  show ?thesis
    using spec [OF law, of "kube w"] l
    by (cases r) (auto simp: ListManagedDomainAllowlistPolicies_def wp_simps)
qed

lemma wp_RunOnce:
  assumes "lawful_cilium view c a" "pa_dynamic a" "distinct (map rec_ID (sandboxes (db w)))"
  shows "wp (RunOnce c a) (\<lambda>r v. db v = db w \<and> (view (kube v) = view (kube w) \<and> (\<exists>e. r = Inl e) \<or>
    pass_outcome view (db w) (order_by_desc rec_UpdatedAt (sandboxes (db w))) (kube w) r (kube v))) w"
proof -
  let ?rs = "order_by_desc rec_UpdatedAt (sandboxes (db w))"
  define Q where "Q r v \<longleftrightarrow> db v = db w \<and> (view (kube v) = view (kube w) \<and> (\<exists>e. r = Inl e) \<or> pass_outcome view (db w) ?rs (kube w) r (kube v))"
    for r and v :: "'a world"
  have dist: "distinct (map rec_ID ?rs)"
    using assms(3) by simp
  have second: "wp (cleanup_loop c a ?rs (fst x) us (snd x) \<bind> retE) Q z"
    if "applied view (db w) ?rs [] zero_stats (kube w) x mid" "db z = db w" "view (kube z) = view mid"
      "\<forall>n u. view mid n = Some u \<and> ParseDomainAllowlistPolicyName n \<noteq> None \<longrightarrow> u \<in> set us \<and> GetName u = n" for x us mid z
    unfolding wp_bind
  proof (rule wp_mono [OF wp_cleanup_loop [OF assms(1)]])
    fix st and y :: "'a world"
    assume "db y = db z \<and> cleaned view (db z) ?rs (fst x) us (snd x) (kube z) st (kube y)"
    then have "db y = db w" "cleaned view (db w) ?rs (fst x) us (snd x) mid st (kube y)"
      using that(2,3) by (simp_all add: cleaned_def)
    moreover have "pass_outcome view (db w) ?rs (kube w) (Inr st) (kube y)"
      unfolding pass_outcome_def sum.case
      by (rule exI [of _ x], rule exI [of _ mid], intro conjI exI [of _ us]) (use that(1,4) calculation in \<open>simp_all only:\<close>)
    ultimately show "wp (retE st) Q y"
      by (simp add: wp_ret Q_def)
  qed
  have first: "wp (seqE (ListManagedDomainAllowlistPolicies c a) (\<lambda>us. cleanup_loop c a ?rs (fst x) us (snd x) \<bind> retE)) Q v"
    if "db v = db w" "applied view (db w) ?rs [] zero_stats (kube w) x (kube v)" for x v
    unfolding wp_seqE
  proof (rule wp_mono [OF wp_List_policies [OF assms(1)]])
    fix r :: "json list res" and z :: "'a world"
    assume z: "db z = db v \<and> view (kube z) = view (kube v) \<and>
      (\<forall>us. r = Inr us \<longrightarrow> (\<forall>n u. view (kube v) n = Some u \<and> ParseDomainAllowlistPolicyName n \<noteq> None \<longrightarrow> u \<in> set us \<and> GetName u = n))"
    show "case r of Inl e \<Rightarrow> Q (Inl e) z | Inr us \<Rightarrow> wp (cleanup_loop c a ?rs (fst x) us (snd x) \<bind> retE) Q z"
    proof (cases r)
      case (Inl e)
      have "pass_outcome view (db w) ?rs (kube w) (Inl e) (kube z)"
        unfolding pass_outcome_def sum.case using z that by blast
      then show ?thesis
        using z that Inl by (simp add: Q_def)
    next
      case (Inr us)
      then show ?thesis
        using z that by (simp add: second)
    qed
  qed
  have body: "wp (apply_loop c a ?rs [] zero_stats \<bind>
      (\<lambda>x. seqE (ListManagedDomainAllowlistPolicies c a) (\<lambda>us. cleanup_loop c a ?rs (fst x) us (snd x) \<bind> retE))) Q (w\<lparr>db_faults := fs\<rparr>)" for fs
    unfolding wp_bind by (rule wp_mono [OF wp_apply_loop [OF assms(1) dist]]) (simp add: first [unfolded wp_bind])
  have "wp (RunOnce c a) Q w"
    unfolding RunOnce_def Let_def ListForReconcile_def zero_stats_def [symmetric] wp_if wp_seqE
    using assms(2) body by (auto intro!: wp_query_db simp: Q_def)
  then show ?thesis
    unfolding Q_def .
qed

lemma lookup_rows:
  assumes "distinct (map rec_ID rows)"
  shows "lookup rec_ID sid (rev (order_by_desc k rows)) = lookup rec_ID sid rows"
proof (cases "lookup rec_ID sid rows")
  case None
  then have "lookup rec_ID sid (rev (order_by_desc k rows)) = None"
    unfolding lookup_None_iff by simp
  then show ?thesis
    using None by simp
next
  case (Some r)
  then have "r \<in> set (rev (order_by_desc k rows))" "rec_ID r = sid"
    using lookup_SomeD [OF Some] by simp_all
  moreover have "distinct (map rec_ID (rev (order_by_desc k rows)))"
    using assms by (simp add: rev_map [symmetric])
  ultimately show ?thesis
    using Some lookup_unique by fastforce
qed

lemma cleaned_kept:
  "cleaned view t rs (fst x) us (snd x) mid st k \<Longrightarrow> \<not> unwanted t rs (fst x) sid \<Longrightarrow>
   view k (domainAllowlistPolicyName sid) = view mid (domainAllowlistPolicyName sid)"
  unfolding cleaned_def by (metis name_inj)

definition safe_for :: "('k \<Rightarrow> string \<Rightarrow> json option) \<Rightarrow> SandboxRecord \<Rightarrow> string list \<Rightarrow> json \<Rightarrow> 'k \<Rightarrow> 'k \<Rightarrow> bool" where
  "safe_for view r ds u k k' \<longleftrightarrow>
     (\<exists>u'. view k' (row_policy r) = Some u' \<and> (policy_domains u' = policy_domains u \<or> policy_domains u' = ds)) \<and>
     (\<forall>m. \<not> has_prefix allowlist_prefix m \<longrightarrow> view k' m = view k m)"

lemma managed_name: "has_prefix allowlist_prefix (domainAllowlistPolicyName sid)"
  by (simp add: domainAllowlistPolicyName_def)

lemma applied_safe:
  assumes "applied view t rs [] st k x mid" "r \<in> set rs" "desired_domains t r = Some ds" "view k (row_policy r) = Some u"
  shows "safe_for view r ds u k mid"
proof -
  have "view mid (row_policy r) = Some u \<or> map_option policy_domains (view mid (row_policy r)) = Some ds"
    using assms by (auto simp: applied_def)
  moreover have "view mid m = view k m" if "\<not> has_prefix allowlist_prefix m" for m
    using assms(1) that managed_name unfolding applied_def by (metis imageE)
  ultimately show ?thesis
    by (auto simp: safe_for_def)
qed

lemma cleaned_safe:
  assumes "cleaned view t rs (fst x) us (snd x) mid st k'" "safe_for view r ds u k mid" "\<not> unwanted t rs (fst x) (rec_ID r)"
  shows "safe_for view r ds u k k'"
proof -
  have "view k' m = view mid m" if "\<not> has_prefix allowlist_prefix m" for m
    using assms(1) that managed_name unfolding cleaned_def by metis
  then show ?thesis
    using assms(2) cleaned_kept [OF assms(1,3)] by (simp add: safe_for_def)
qed

text \<open>
  C34: a pass never takes away the policy of a sandbox that should have one: whatever statements and API calls fail, the
  policy is still there, with the domains it had or those of the sandbox's template; and no object of another name
  is touched.
\<close>

theorem policy_pass_fails_safe:
  assumes "lawful_cilium view c a" "distinct (map rec_ID (sandboxes (db w)))" "run_state (RunOnce c a) w = (res, w')"
    and "r \<in> set (sandboxes (db w))" "desired_domains (db w) r = Some ds" "view (kube w) (row_policy r) = Some u"
  shows "(\<exists>u'. view (kube w') (row_policy r) = Some u' \<and> (policy_domains u' = policy_domains u \<or> policy_domains u' = ds)) \<and>
    (\<forall>m. \<not> has_prefix allowlist_prefix m \<longrightarrow> view (kube w') m = view (kube w) m)"
proof (cases "pa_dynamic a")
  case False
  then show ?thesis
    using assms(3,6) by (simp add: RunOnce_def Let_def)
next
  case True
  let ?rs = "order_by_desc rec_UpdatedAt (sandboxes (db w))"
  have r: "r \<in> set ?rs" "lookup rec_ID (rec_ID r) (rev ?rs) = Some r"
    using assms(4) lookup_rows [OF assms(2)] lookup_unique [OF assms(2,4)] by simp_all
  then have wanted: "\<not> unwanted (db w) ?rs xs (rec_ID r)" for xs
    using assms(5) by (simp add: unwanted_def)
  consider "view (kube w') = view (kube w)" | x mid where "applied view (db w) ?rs [] zero_stats (kube w) x mid" "view (kube w') = view mid"
    | x mid us st where "applied view (db w) ?rs [] zero_stats (kube w) x mid"
      "cleaned view (db w) ?rs (fst x) us (snd x) mid st (kube w')"
  proof -
    have "view (kube w') = view (kube w) \<or> pass_outcome view (db w) ?rs (kube w) res (kube w')"
      using wp_RunOnce [OF assms(1) True assms(2)] assms(3) by (auto simp: wp_def)
    then show ?thesis
      using that by (elim disjE pass_outcomeE)
  qed
  then have "safe_for view r ds u (kube w) (kube w')"
  proof cases
    case (2 x mid)
    then show ?thesis
      using applied_safe [OF 2(1) r(1) assms(5,6)] by (simp add: safe_for_def)
  next
    case (3 x mid us st)
    then show ?thesis
      using applied_safe [OF 3(1) r(1) assms(5,6)] wanted by (rule_tac cleaned_safe)
  qed (use assms(6) in \<open>simp add: safe_for_def\<close>)
  then show ?thesis
    by (simp add: safe_for_def)
qed

lemma cleaned_gone:
  assumes "cleaned view t rs (fst x) us (snd x) mid st k" "st_failures st = st_failures (snd x)" "unwanted t rs (fst x) sid" "sid \<noteq> []"
    and "\<And>n u. view mid n = Some u \<Longrightarrow> ParseDomainAllowlistPolicyName n \<noteq> None \<Longrightarrow> u \<in> set us \<and> GetName u = n"
  shows "view k (domainAllowlistPolicyName sid) = None"
proof (cases "view mid (domainAllowlistPolicyName sid)")
  case None
  then show ?thesis
    using assms(1) unfolding cleaned_def by metis
next
  case (Some u)
  have "u \<in> set us \<and> GetName u = domainAllowlistPolicyName sid"
    by (rule assms(5) [OF Some]) (use parse_name [of "domainAllowlistPolicyName sid" sid] assms(4) in simp)
  then show ?thesis
    using assms(1-3) unfolding cleaned_def by metis
qed

lemma wanted_row:
  assumes "distinct (map rec_ID (sandboxes t))" "rs = order_by_desc rec_UpdatedAt (sandboxes t)"
    and "ids = wanted_ids t rs" "\<not> unwanted t rs xs sid" "set xs = ids" "sid \<noteq> []"
  obtains r ds where "lookup rec_ID sid (sandboxes t) = Some r" "desired_domains t r = Some ds"
proof (cases "sid \<in> ids")
  case True
  then obtain r where "r \<in> set (sandboxes t)" "rec_ID r = sid" "desired_domains t r \<noteq> None"
    by (auto simp: assms(2,3) wanted_ids_def)
  then show ?thesis
    using that lookup_unique [OF assms(1), of r] by auto
next
  case False
  then show ?thesis
    using that assms(4-6) lookup_rows [OF assms(1)] by (auto simp: unwanted_def assms(2) split: option.splits)
qed

text \<open>
  C33: a pass that reports no failure leaves exactly the policies the rows ask for: for every sandbox identifier, the
  allowlist policy of that name exists just where a live row has a template version with an allowlist, and opens
  exactly its domains.
\<close>

theorem policy_pass_exact:
  assumes "lawful_cilium view c a" "distinct (map rec_ID (sandboxes (db w)))" "run_state (RunOnce c a) w = (Inr st, w')"
    and "pa_dynamic a" "st_failures st = 0" "sid \<noteq> []"
  shows "map_option policy_domains (view (kube w') (domainAllowlistPolicyName sid)) =
    (case lookup rec_ID sid (sandboxes (db w)) of None \<Rightarrow> None | Some r \<Rightarrow> desired_domains (db w) r)"
proof -
  let ?t = "db w" and ?rs = "order_by_desc rec_UpdatedAt (sandboxes (db w))"
  obtain x mid us where ap: "applied view ?t ?rs [] zero_stats (kube w) x mid"
    and all: "\<And>n u. view mid n = Some u \<Longrightarrow> ParseDomainAllowlistPolicyName n \<noteq> None \<Longrightarrow> u \<in> set us \<and> GetName u = n"
    and cl: "cleaned view ?t ?rs (fst x) us (snd x) mid st (kube w')"
  proof -
    have "pass_outcome view ?t ?rs (kube w) (Inr st) (kube w')"
      using wp_RunOnce [OF assms(1,4,2)] assms(3) by (simp add: wp_def)
    then show ?thesis
      using that by (elim pass_outcome_okE) blast
  qed
  have "0 \<le> st_failures (snd x)" "st_failures (snd x) \<le> st_failures st"
    using ap cl by (simp_all add: applied_def cleaned_def zero_stats_def)
  then have no: "st_failures (snd x) = st_failures zero_stats" "st_failures st = st_failures (snd x)"
    using assms(5) by (simp_all add: zero_stats_def)
  show ?thesis
  proof (cases "unwanted ?t ?rs (fst x) sid")
    case True
    then have "(case lookup rec_ID sid (sandboxes ?t) of None \<Rightarrow> None | Some r \<Rightarrow> desired_domains ?t r) = None"
      by (simp add: unwanted_def lookup_rows [OF assms(2)] split: option.splits)
    then show ?thesis
      using cleaned_gone [OF cl no(2) True assms(6) all] by simp
  next
    case False
    have ids: "set (fst x) = wanted_ids ?t ?rs"
      and des: "\<And>r ds. r \<in> set ?rs \<Longrightarrow> desired_domains ?t r = Some ds \<Longrightarrow> map_option policy_domains (view mid (row_policy r)) = Some ds"
      using ap no(1) by (simp_all add: applied_def)
    obtain r ds where r: "lookup rec_ID sid (sandboxes ?t) = Some r" "desired_domains ?t r = Some ds"
      by (rule wanted_row [OF assms(2) refl refl False ids assms(6)])
    then show ?thesis
      using cleaned_kept [OF cl False] des [of r ds] lookup_SomeD [OF r(1)] by auto
  qed
qed

section \<open>Witnesses\<close>

text \<open>A cluster of policies that behaves as documented: lists of objects, where a write replaces the object of its name.\<close>

record policy_cluster =
  k_netpols :: "NetworkPolicy list"
  k_cilium :: "json list"

definition find_obj :: "('o \<Rightarrow> string) \<Rightarrow> string \<Rightarrow> 'o list \<Rightarrow> 'o option" where
  "find_obj nm n xs = find (\<lambda>x. nm x = n) xs"

definition put_obj :: "('o \<Rightarrow> string) \<Rightarrow> 'o \<Rightarrow> 'o list \<Rightarrow> 'o list" where
  "put_obj nm x xs = x # filter (\<lambda>y. nm y \<noteq> nm x) xs"

definition get_obj :: "('o \<Rightarrow> string) \<Rightarrow> string \<Rightarrow> 'o list \<Rightarrow> 'o res" where
  "get_obj nm n xs = (case find_obj nm n xs of None \<Rightarrow> Inl (NotFound n) | Some x \<Rightarrow> Inr x)"

definition no_call :: "'k \<Rightarrow> 'a res \<times> 'k" where
  "no_call k = (Inl (ApiErr ''not served''), k)"

definition policy_client :: "policy_cluster Client" where
  "policy_client =
     \<lparr>sandboxNS = ''liteboxd-sandbox'', controlNS = ''liteboxd-system'', persistentRootFSHelperImage = [], prepScript = [],
      mainWrapperScript = [], helperScript = [], pods_Get = (\<lambda>_ _. no_call), pods_List = (\<lambda>_ _. no_call), pods_Create = (\<lambda>_ _. no_call),
      pods_Delete = (\<lambda>_ _ _. no_call), deployments_Get = (\<lambda>_ _. no_call), deployments_Create = (\<lambda>_ _. no_call),
      deployments_Update = (\<lambda>_ _. no_call), deployments_Delete = (\<lambda>_ _. no_call), pvcs_Get = (\<lambda>_ _. no_call),
      pvcs_List = (\<lambda>_ _. no_call), pvcs_Create = (\<lambda>_ _. no_call), pvcs_Update = (\<lambda>_ _. no_call), pvcs_Delete = (\<lambda>_ _. no_call),
      pvs_Get = (\<lambda>_. no_call), pvs_Update = (\<lambda>_. no_call), pvs_Delete = (\<lambda>_. no_call), attachments_List = no_call,
      attachments_Delete = (\<lambda>_. no_call), events_List = (\<lambda>_. no_call), quantity_err = (\<lambda>_. None), image_config = (\<lambda>_. no_call),
      pod_exec = (\<lambda>_ _ _. no_call)\<rparr>"

definition policy_api :: "policy_cluster PolicyAPI" where
  "policy_api =
     \<lparr>pa_dynamic = True, namespaces_Get = (\<lambda>n k. (Inr (), k)), namespaces_Create = (\<lambda>n k. (Inr (), k)),
      netpols_Get = (\<lambda>ns n k. (get_obj np_Name n (k_netpols k), k)),
      netpols_Create = (\<lambda>ns p k. (Inr p, k\<lparr>k_netpols := put_obj np_Name p (k_netpols k)\<rparr>)),
      netpols_Update = (\<lambda>ns p k. (Inr p, k\<lparr>k_netpols := put_obj np_Name p (k_netpols k)\<rparr>)),
      cilium_Get = (\<lambda>ns n k. (get_obj GetName n (k_cilium k), k)),
      cilium_Create = (\<lambda>ns p k. (Inr p, k\<lparr>k_cilium := put_obj GetName p (k_cilium k)\<rparr>)),
      cilium_Update = (\<lambda>ns p k. (Inr p, k\<lparr>k_cilium := put_obj GetName p (k_cilium k)\<rparr>)),
      cilium_Delete = (\<lambda>ns n k. (Inr (), k\<lparr>k_cilium := filter (\<lambda>u. GetName u \<noteq> n) (k_cilium k)\<rparr>)),
      cilium_List = (\<lambda>ns k. (Inr (k_cilium k), k)), pods_Update = (\<lambda>_ _. no_call)\<rparr>"

definition netpols_view :: "policy_cluster \<Rightarrow> string \<Rightarrow> NetworkPolicy option" where
  "netpols_view k n = find_obj np_Name n (k_netpols k)"

definition cilium_view :: "policy_cluster \<Rightarrow> string \<Rightarrow> json option" where
  "cilium_view k n = find_obj GetName n (k_cilium k)"

lemma find_put: "find_obj nm n (put_obj nm x xs) = (if n = nm x then Some x else find_obj nm n xs)"
  by (induction xs) (auto simp: find_obj_def put_obj_def)

lemma find_removed: "find_obj nm n (filter (\<lambda>u. nm u \<noteq> m) xs) = (if n = m then None else find_obj nm n xs)"
  by (induction xs) (auto simp: find_obj_def)

lemma sample_lawful: "lawful_netpols netpols_view policy_client policy_api" "lawful_cilium cilium_view policy_client policy_api"
proof -
  show "lawful_netpols netpols_view policy_client policy_api"
    by (auto simp: lawful_netpols_def lawful_store_def policy_api_def netpols_view_def fun_eq_iff find_put get_obj_def
        split: sum.split option.splits)
  have "u \<in> set xs \<and> GetName u = n" if "find_obj GetName n xs = Some u" for n u xs
    using that by (auto simp: find_obj_def find_Some_iff)
  then show "lawful_cilium cilium_view policy_client policy_api"
    by (auto simp: lawful_cilium_def lawful_store_def policy_api_def cilium_view_def fun_eq_iff find_put find_removed get_obj_def
        split: sum.split option.splits)
qed

definition allow_spec :: TemplateSpec where
  "allow_spec = \<lparr>ts_Image = ''python:3'', ts_Command = [], ts_Args = [], ts_Resources = \<lparr>rs_CPU = ''1'', rs_Memory = ''1Gi''\<rparr>, ts_TTL = 3600,
     ts_Env = [], ts_StartupScript = [], ts_StartupTimeout = 60, ts_Files = [], ts_ReadinessProbe = None,
     ts_Network = Some \<lparr>net_AllowInternetAccess = True, net_AllowedDomains = [''example.com'', ''*.pypi.org'']\<rparr>, ts_Persistence = None\<rparr>"

definition policy_world :: "policy_cluster world" where
  "policy_world =
     \<lparr>db = empty_tables\<lparr>sandboxes := [sample_row ''abc'', (sample_row ''old'')\<lparr>rec_DesiredState := DesiredStateDeleted\<rparr>],
        templates := [\<lparr>tpl_ID = ''t'', tpl_Name = ''python'', tpl_DisplayName = [], tpl_Description = [], tpl_Tags = [], tpl_Author = [],
          tpl_IsPublic = True, tpl_LatestVersion = 1, tpl_CreatedAt = 0, tpl_UpdatedAt = 0\<rparr>],
        template_versions := [\<lparr>tv_ID = ''v'', tv_TemplateID = ''t'', tv_Version = 1, tv_Spec = allow_spec, tv_Changelog = [],
          tv_CreatedBy = [], tv_CreatedAt = 0\<rparr>]\<rparr>,
      db_faults = [], clock = (\<lambda>_. 0), ticks = 0, uuids = (\<lambda>_. []), uuids_used = 0, tokens = (\<lambda>_. None), tokens_used = 0,
      kube = \<lparr>k_netpols = [], k_cilium = [domainAllowlistPolicy policy_client ''old'' [''example.org'']]\<rparr>\<rparr>"

theorem default_policies_installed_witness:
  "\<exists>w'. run_state (EnsureDefaultPolicies policy_client policy_api) policy_world = (Inr (), w') \<and>
     map_option np_content (netpols_view (kube w') ''default-deny-all'') = Some defaultDenyAllPolicy"
proof -
  have "fst (run_state (EnsureDefaultPolicies policy_client policy_api) policy_world) = Inr ()"
    by code_simp
  then obtain w' where run: "run_state (EnsureDefaultPolicies policy_client policy_api) policy_world = (Inr (), w')"
    by (metis prod.collapse)
  show ?thesis
    using run default_policies_installed [OF sample_lawful(1) run] by (auto simp: default_policies_def defaultDenyAllPolicy_def)
qed

lemma sample_pass:
  "\<exists>st w'. run_state (RunOnce policy_client policy_api) policy_world = (Inr st, w') \<and> st_failures st = 0"
proof -
  have "case fst (run_state (RunOnce policy_client policy_api) policy_world) of Inl e \<Rightarrow> False | Inr st \<Rightarrow> st_failures st = 0"
    by code_simp
  then show ?thesis
    by (cases "run_state (RunOnce policy_client policy_api) policy_world") (auto split: sum.splits)
qed

lemma sample_desired:
  "lookup rec_ID ''abc'' (sandboxes (db policy_world)) = Some (sample_row ''abc'')"
  "distinct (map rec_ID (sandboxes (db policy_world)))"
  "desired_domains (db policy_world) (sample_row ''abc'') = Some [''example.com'', ''*.pypi.org'']"
  "pa_dynamic policy_api"
  by code_simp+

theorem policy_pass_exact_witness:
  "\<exists>st w'. run_state (RunOnce policy_client policy_api) policy_world = (Inr st, w') \<and>
     map_option policy_domains (cilium_view (kube w') (domainAllowlistPolicyName ''abc'')) = Some [''example.com'', ''*.pypi.org'']"
proof -
  obtain st w' where run: "run_state (RunOnce policy_client policy_api) policy_world = (Inr st, w')" "st_failures st = 0"
    using sample_pass by auto
  show ?thesis
    using run policy_pass_exact [OF sample_lawful(2) sample_desired(2) run(1) sample_desired(4) run(2), of "''abc''"] sample_desired(1,3)
    by auto
qed

definition guarded_world :: "policy_cluster world" where
  "guarded_world = policy_world\<lparr>kube := \<lparr>k_netpols = [], k_cilium = [domainAllowlistPolicy policy_client ''abc'' [''example.org'']]\<rparr>,
     db_faults := [False, True, False, True]\<rparr>"

theorem policy_pass_fails_safe_witness:
  "\<exists>res w' u'. run_state (RunOnce policy_client policy_api) guarded_world = (res, w') \<and>
     cilium_view (kube w') (domainAllowlistPolicyName ''abc'') = Some u'"
proof -
  obtain res w' where run: "run_state (RunOnce policy_client policy_api) guarded_world = (res, w')"
    by fastforce
  have db: "db guarded_world = db policy_world"
    by (simp add: guarded_world_def)
  have facts: "distinct (map rec_ID (sandboxes (db guarded_world)))"
    "desired_domains (db guarded_world) (sample_row ''abc'') = Some [''example.com'', ''*.pypi.org'']"
    using sample_desired(2,3) by (simp_all add: db)
  have row: "rec_ID (sample_row ''abc'') = ''abc''" "sample_row ''abc'' \<in> set (sandboxes (db guarded_world))"
    using lookup_SomeD [OF sample_desired(1)] by (simp_all add: db)
  have view: "cilium_view (kube guarded_world) (domainAllowlistPolicyName (rec_ID (sample_row ''abc''))) = Some (domainAllowlistPolicy policy_client ''abc'' [''example.org''])"
    by (simp add: guarded_world_def cilium_view_def find_obj_def allowlist_fields row(1))
  show ?thesis
    using run conjunct1 [OF policy_pass_fails_safe [OF sample_lawful(2) facts(1) run row(2) facts(2) view]] row(1) by auto
qed

end
