(* ===== verification/Server.thy ===== *)
theory Server
  imports Api Auth_Requests Policy_Reconcile
begin

text \<open>
  The API server, \<open>cmd/server/main.go\<close>: the chain of middlewares in front of the handlers, the routes, and the system
  of all components over one database: requests, the goroutines they start, the periodic tasks, the network
  controller and the shutdown. The locale \<open>backend_writer\<close> is the interface of the relations that the writes of the
  backend respect; it gives the same for the handlers.
\<close>

section \<open>Routes\<close>

datatype api_endpoint =
    PostSandbox "CreateSandboxRequest res"
  | GetSandboxes query
  | GetMetadata query
  | GetClaims query
  | PostReconcile
  | GetRuns query
  | GetRunById string
  | GetSandboxById string
  | GetHistory string query
  | DeleteSandboxById string
  | PostLifecycle lifecycle_request string
  | PostExec string "string list option res"
  | GetTerminal "string list" query "go_err option"
  | GetLogsById string
  | PostFile string string "string res option"
  | GetFile string query
  | PostTemplate "CreateTemplateRequest res"
  | GetTemplates query
  | GetTemplate string
  | PutTemplate string "UpdateTemplateRequest res"
  | DeleteTemplate string
  | GetVersions string
  | GetTemplateVersion string string
  | PostRollback string "(int \<times> string) res"
  | PostImport "ImportForm res" "(string + string) option"
  | GetExportAll query
  | GetExportOne string query
  | PostPrepull string
  | GetPrepulls query
  | DeletePrepullById string
  | PostTemplatePrepull string

record 'k api_server =
  sv_backend :: "'k backend"
  sv_prepulls :: "'k PrepullService"
  sv_auth :: AuthHandler
  sv_policies :: "'k PolicyAPI"
  sv_quantityString :: "string \<Rightarrow> string option"

text \<open>A handler without goroutines.\<close>

definition plain :: "('k, api_reply) prog \<Rightarrow> ('k, api_reply \<times> api_task list) prog" where
  "plain m = do { y \<leftarrow> m; ret (y, []) }"

definition prepull_request :: "('k, prepull_reply) prog \<Rightarrow> ('k, api_reply \<times> api_task list) prog" where
  "prepull_request m = do {
     y \<leftarrow> m;
     ret (case y of
       PrepullError st code \<Rightarrow> Fail st code []
     | PrepullAccepted p \<Rightarrow> Done 202 (PrepullBody y)
     | PrepullItems ps \<Rightarrow> Done 200 (PrepullBody y)
     | NoContent \<Rightarrow> Done 204 NoBody, []) }"

text \<open>\<open>RegisterRoutes\<close> of the four handlers.\<close>

definition api_handler :: "'k api_server \<Rightarrow> bool \<Rightarrow> api_endpoint \<Rightarrow> ('k, api_reply \<times> api_task list) prog" where
  "api_handler sv drains ep =
     (let s = b_sandboxes (sv_backend sv); rs = b_reconciler (sv_backend sv); yc = b_yaml (sv_backend sv);
          qerr = b_quantity (sv_backend sv); ulow = ulower s; ps = sv_prepulls sv in
      case ep of
        PostSandbox body \<Rightarrow> SandboxHandler_Create s body
      | GetSandboxes q \<Rightarrow> plain (SandboxHandler_List s q)
      | GetMetadata q \<Rightarrow> plain (SandboxHandler_ListMetadata s q)
      | GetClaims q \<Rightarrow> plain (SandboxHandler_ListPVCMappings (sv_quantityString sv) s q)
      | PostReconcile \<Rightarrow> plain (SandboxHandler_TriggerReconcile rs)
      | GetRuns q \<Rightarrow> plain (SandboxHandler_ListReconcileRuns q)
      | GetRunById i \<Rightarrow> plain (SandboxHandler_GetReconcileRun i)
      | GetSandboxById i \<Rightarrow> plain (SandboxHandler_Get s i)
      | GetHistory i q \<Rightarrow> plain (SandboxHandler_GetStatusHistory i q)
      | DeleteSandboxById i \<Rightarrow> plain (SandboxHandler_Delete s i)
      | PostLifecycle q i \<Rightarrow> plain (lifecycle_handler s q i)
      | PostExec i body \<Rightarrow> plain (SandboxHandler_Exec s i body)
      | GetTerminal cmd q up \<Rightarrow> plain (ret (SandboxHandler_ExecInteractive drains cmd q up))
      | GetLogsById i \<Rightarrow> plain (SandboxHandler_GetLogs s i)
      | PostFile i path file \<Rightarrow> plain (SandboxHandler_UploadFile s i path file)
      | GetFile i q \<Rightarrow> plain (SandboxHandler_DownloadFile s i q)
      | PostTemplate body \<Rightarrow> TemplateHandler_Create qerr ulow body
      | GetTemplates q \<Rightarrow> plain (TemplateHandler_List q)
      | GetTemplate n \<Rightarrow> plain (TemplateHandler_Get n)
      | PutTemplate n body \<Rightarrow> plain (TemplateHandler_Update qerr ulow n body)
      | DeleteTemplate n \<Rightarrow> plain (TemplateHandler_Delete n)
      | GetVersions n \<Rightarrow> plain (TemplateHandler_ListVersions n)
      | GetTemplateVersion n v \<Rightarrow> plain (TemplateHandler_GetVersion n v)
      | PostRollback n body \<Rightarrow> plain (TemplateHandler_Rollback n body)
      | PostImport form file \<Rightarrow> ImportExportHandler_Import qerr ulow yc form file
      | GetExportAll q \<Rightarrow> plain (ImportExportHandler_ExportAll yc q)
      | GetExportOne n q \<Rightarrow> plain (ImportExportHandler_ExportOne yc n q)
      | PostPrepull img \<Rightarrow> prepull_request (CreatePrepull ps img)
      | GetPrepulls q \<Rightarrow> prepull_request (ListPrepulls ps (Query q ''image'') (Query q ''status''))
      | DeletePrepullById i \<Rightarrow> prepull_request (DeletePrepull ps i)
      | PostTemplatePrepull n \<Rightarrow> prepull_request (PrepullTemplate ps n))"

section \<open>The server (cmd/server/main.go)\<close>

datatype server_request =
    HealthRequest
  | ReadyRequest
  | AuthRequest auth_request
  | ApiRequest Credentials api_endpoint

datatype http_reply = HealthReply int string | ApiReply api_reply | AuthReply auth_reply

text \<open>
  The draining middleware comes before authentication and lets only the two health requests pass; the routes of the
  authentication handler apply the middleware themselves, the others are in a group behind it.
\<close>

definition serve_http ::
  "'k api_server \<Rightarrow> DrainManager \<Rightarrow> server_request \<Rightarrow> ('k, http_reply \<times> api_task list \<times> auth_task list) prog" where
  "serve_http sv d q =
     (case q of
        HealthRequest \<Rightarrow> ret (HealthReply 200 ''ok'', [], [])
      | ReadyRequest \<Rightarrow> ret (if IsDraining d then HealthReply 503 ''draining'' else HealthReply 200 ''ok'', [], [])
      | AuthRequest aq \<Rightarrow>
          if IsDraining d then ret (ApiReply (Fail 503 [] ''service is draining''), [], [])
          else do { r \<leftarrow> serve_auth (sv_auth sv) aq; ret (AuthReply (fst r), [], snd r) }
      | ApiRequest cr ep \<Rightarrow>
          if IsDraining d then ret (ApiReply (Fail 503 [] ''service is draining''), [], [])
          else do {
            m \<leftarrow> APIAuthMiddleware (ah_sha256 (sv_auth sv)) cr;
            case fst m of
              Unauthorized msg \<Rightarrow> ret (ApiReply (Fail 401 [] msg), [], snd m)
            | Authenticated ctx \<Rightarrow> do {
                r \<leftarrow> api_handler sv (IsDraining d) ep;
                ret (ApiReply (fst r), snd r, snd m) } })"

text \<open>
  The operations of the system: a request, a goroutine that one has started (\<open>n\<close> is the number of ticks of a wait), the
  tickers and the cleanups, the start of the server and its shutdown, and a pass of the network controller.
\<close>

datatype system_op =
    Request server_request
  | ApiGoroutine api_task nat
  | AuthGoroutine auth_task
  | TtlTick
  | MetadataTick duration
  | ReconcileTick string
  | DeletionTick
  | SessionTick
  | PrepullTick
  | PrepullCleanup duration
  | ServerStart AdminEnv
  | PolicyPass
  | Shutdown

definition system_step :: "'k api_server \<Rightarrow> DrainManager \<Rightarrow> system_op \<Rightarrow> ('k, DrainManager) prog" where
  "system_step sv d op =
     (case op of
        Request q \<Rightarrow> do { _ \<leftarrow> serve_http sv d q; ret d }
      | ApiGoroutine (CreationTask t) n \<Rightarrow> do { backend_step (sv_backend sv) (BackgroundTask t n); ret d }
      | ApiGoroutine (PrepullTask img tpl) n \<Rightarrow> do { _ \<leftarrow> PrepullTemplateImage (sv_prepulls sv) tpl img; ret d }
      | AuthGoroutine t \<Rightarrow> do { auth_step (sv_auth sv) (AuthTask t); ret d }
      | TtlTick \<Rightarrow> do { backend_step (sv_backend sv) ExpireSandboxes; ret d }
      | MetadataTick retention \<Rightarrow> do { backend_step (sv_backend sv) (PurgeHistory retention); ret d }
      | ReconcileTick trigger \<Rightarrow> do { backend_step (sv_backend sv) (ReconcilePass trigger); ret d }
      | DeletionTick \<Rightarrow> do { backend_step (sv_backend sv) DeletionPass; ret d }
      | SessionTick \<Rightarrow> do { auth_step (sv_auth sv) CleanSessions; ret d }
      | PrepullTick \<Rightarrow> do { prepull_op_step (sv_prepulls sv) StatusTick; ret d }
      | PrepullCleanup age \<Rightarrow> do { prepull_op_step (sv_prepulls sv) (CleanupTick age); ret d }
      | ServerStart env \<Rightarrow> do { auth_step (sv_auth sv) (StartServer env); ret NewDrainManager }
      | PolicyPass \<Rightarrow> do { _ \<leftarrow> RunOnce (k8sClient (b_sandboxes (sv_backend sv))) (sv_policies sv); ret d }
      | Shutdown \<Rightarrow> ret (StartDraining d))"

fun system_run :: "'k api_server \<Rightarrow> system_op list \<Rightarrow> DrainManager \<Rightarrow> ('k, DrainManager) prog" where
  "system_run sv [] d = ret d"
| "system_run sv (op # ops) d = do { d' \<leftarrow> system_step sv d op; system_run sv ops d' }"

section \<open>What the handlers write\<close>

lemma io_discard: "state_io_rel R (State_Monad.bind m (\<lambda>_. ret ())) \<longleftrightarrow> state_io_rel R m"
  by (simp add: state_io_rel_def case_prod_beta)

text \<open>Relations that the operations of the backend respect, the purge of old rows apart.\<close>

locale backend_writer = table_preorder r for r +
  fixes b :: "'k backend"
  assumes backend_rel: "\<not> is_purge op \<Longrightarrow> state_io_rel (db_rel r) (backend_step b op)"
begin

lemma write_rel:
  "state_io_rel (db_rel r) (SandboxService_Create (b_sandboxes b) req)"
  "state_io_rel (db_rel r) (SandboxService_Delete (b_sandboxes b) i)"
  "state_io_rel (db_rel r) (SandboxService_Restart (b_sandboxes b) i)"
  "state_io_rel (db_rel r) (SandboxService_Stop (b_sandboxes b) i)"
  "state_io_rel (db_rel r) (SandboxService_Start (b_sandboxes b) i)"
  "state_io_rel (db_rel r) (Run (b_reconciler b) trigger)"
  "state_io_rel (db_rel r) (TemplateService_Create (b_quantity b) (ulower (b_sandboxes b)) creq :: ('k, template_view res) prog)"
  "state_io_rel (db_rel r) (TemplateService_Update (b_quantity b) (ulower (b_sandboxes b)) n ureq :: ('k, template_view option res) prog)"
  "state_io_rel (db_rel r) (TemplateService_Delete n :: ('k, unit res) prog)"
  "state_io_rel (db_rel r) (TemplateService_Rollback n v ch :: ('k, RollbackResponse res) prog)"
  "state_io_rel (db_rel r) (ImportFromYAML (b_quantity b) (ulower (b_sandboxes b)) (b_yaml b) True content strategy ap :: ('k, ImportTemplatesResponse res) prog)"
  using backend_rel [of "CreateSandbox req"] backend_rel [of "DeleteSandbox i"] backend_rel [of "RestartSandbox i"]
    backend_rel [of "StopSandbox i"] backend_rel [of "StartSandbox i"] backend_rel [of "ReconcilePass trigger"]
    backend_rel [of "TemplateRequest (OpCreate creq)"] backend_rel [of "TemplateRequest (OpUpdate n ureq)"]
    backend_rel [of "TemplateRequest (OpDelete n)"] backend_rel [of "TemplateRequest (OpRollback n v ch)"]
    backend_rel [of "TemplateRequest (OpImport content strategy ap)"]
  by (simp_all add: io_discard)

lemma read_rel:
  "state_io_rel (db_rel r) (SandboxService_ListForUser s x)"
  "state_io_rel (db_rel r) (SandboxService_ListMetadata s opts)"
  "state_io_rel (db_rel r) (SandboxService_Get s i)"
  "state_io_rel (db_rel r) (ListPVCMappings qs s popts)"
  "state_io_rel (db_rel r) (GetStatusHistory i l m)"
  "state_io_rel (db_rel r) (ListRuns l)"
  "state_io_rel (db_rel r) (GetRun i)"
  "state_io_rel (db_rel r) (TemplateStore_GetVersion n v)"
  "state_io_rel (db_rel r) (TemplateStore_Get n)"
  "state_io_rel (db_rel r) (TemplateStore_ListVersions n)"
  "state_io_rel (db_rel r) (TemplateStore_GetVersionByName n v)"
  unfolding SandboxService_ListForUser_def SandboxService_ListMetadata_def SandboxService_Get_def ListPVCMappings_def
    ListSandboxPVCs_def GetStatusHistory_def ListRuns_def GetRun_def TemplateStore_Get_def TemplateStore_GetVersion_def
    TemplateStore_ListVersions_def TemplateStore_GetVersionByName_def store_ops Let_def
  by (intro io_program)+

lemma load_rel: "state_io_rel (db_rel r) (load_specs ts)"
  by (induction ts) (auto intro!: io_program read_rel split: sum.split option.split)

lemma export_rel: "state_io_rel (db_rel r) (export_items tag names ts)"
  by (induction ts) (auto simp: TemplateService_GetVersion_def intro!: io_program read_rel)

lemma template_read_rel:
  "state_io_rel (db_rel r) (TemplateStore_List topts)"
  "state_io_rel (db_rel r) (ExportToYAML yc n v)"
  "state_io_rel (db_rel r) (ExportAllToYAML yc tag names)"
  unfolding TemplateStore_List_def ExportToYAML_def ExportAllToYAML_def TemplateService_Get_def TemplateService_GetVersion_def
    TemplateService_List_def Let_def
  by (intro io_program read_rel load_rel export_rel)+

lemma db_same_rel: "state_io_rel db_same m \<Longrightarrow> state_io_rel (db_rel r) m"
  by (auto simp: state_io_rel_def db_same_def db_rel_def table_refl split: prod.split)

lemma pod_rel:
  "state_io_rel (db_rel r) (SandboxService_Exec s i cmd)"
  "state_io_rel (db_rel r) (SandboxService_UploadFile s i p x)"
  "state_io_rel (db_rel r) (SandboxService_DownloadFile s i p)"
  "state_io_rel (db_rel r) (SandboxService_GetLogs s i n)"
  unfolding SandboxService_Exec_def SandboxService_UploadFile_def SandboxService_DownloadFile_def SandboxService_GetLogs_def
    GetByID_def GetSandboxEvents_def
  by (intro io_program db_same_rel ko_Exec ko_UploadFile ko_files ko_getSandboxPod ko_events ko_snapshot)+

end

fun is_prepull_endpoint :: "api_endpoint \<Rightarrow> bool" where
  "is_prepull_endpoint (PostPrepull img) = True"
| "is_prepull_endpoint (GetPrepulls q) = True"
| "is_prepull_endpoint (DeletePrepullById i) = True"
| "is_prepull_endpoint (PostTemplatePrepull n) = True"
| "is_prepull_endpoint ep = False"

lemmas handler_defs =
  SandboxHandler_Create_def SandboxHandler_List_def SandboxHandler_ListMetadata_def SandboxHandler_ListPVCMappings_def
  SandboxHandler_TriggerReconcile_def SandboxHandler_ListReconcileRuns_def SandboxHandler_GetReconcileRun_def
  SandboxHandler_Get_def SandboxHandler_GetStatusHistory_def SandboxHandler_Delete_def SandboxHandler_Exec_def
  SandboxHandler_GetLogs_def SandboxHandler_UploadFile_def SandboxHandler_DownloadFile_def SandboxHandler_Restart_def
  SandboxHandler_Stop_def SandboxHandler_Start_def
  TemplateHandler_Create_def TemplateHandler_List_def TemplateHandler_Get_def TemplateHandler_Update_def TemplateHandler_Delete_def
  TemplateHandler_ListVersions_def TemplateHandler_GetVersion_def TemplateHandler_Rollback_def
  ImportExportHandler_Import_def ImportExportHandler_ExportAll_def ImportExportHandler_ExportOne_def
  TemplateService_Get_def TemplateService_GetVersion_def TemplateService_List_def TemplateService_ListVersions_def

context backend_writer
begin

lemma lifecycle_rel: "state_io_rel (db_rel r) (lifecycle_handler (b_sandboxes b) q i)"
  by (cases q; simp add: handler_defs; intro io_program write_rel)

lemma handler_rel:
  assumes "\<not> is_prepull_endpoint ep" "sv_backend sv = b"
  shows "state_io_rel (db_rel r) (api_handler sv drains ep)"
  using assms unfolding api_handler_def Let_def plain_def
  by (cases ep; simp only: api_endpoint.case is_prepull_endpoint.simps simp_thms handler_defs Let_def;
      intro io_program write_rel read_rel template_read_rel pod_rel lifecycle_rel)

end

section \<open>What the parts leave alone\<close>

definition same_accounts :: "tables \<Rightarrow> tables \<Rightarrow> bool" where
  "same_accounts t t' \<longleftrightarrow> admin_users t' = admin_users t \<and> auth_sessions t' = auth_sessions t \<and> api_keys t' = api_keys t \<and>
     image_prepulls t' = image_prepulls t"

interpretation sa: store_purger same_accounts
  by unfold_locales
     (auto simp: same_accounts_def update_sandbox_def purge_items_def purge_runs_def purge_history_def purge_sandboxes_def Let_def)

lemma same_sandboxes_accounts: "same_sandboxes t t' \<Longrightarrow> same_accounts t t'"
  unfolding same_sandboxes_def same_accounts_def by (cases t; cases t'; simp)

lemma backend_step_accounts: "state_io_rel (db_rel same_accounts) (backend_step b op)"
proof (cases "is_template_op op")
  case True
  then obtain o' where o': "op = TemplateRequest o'"
    by (cases op) auto
  have "state_io_rel (db_rel same_accounts) (template_step (b_quantity b) (ulower (b_sandboxes b)) (b_yaml b) o')"
    by (rule io_both [OF ss_step ss_step]) (auto intro: same_sandboxes_accounts)
  then show ?thesis
    by (simp add: o')
qed (rule sa.any_sandbox_op_rel)

text \<open>The part of the tables that belongs to the backend.\<close>

definition backend_part :: "tables \<Rightarrow> tables" where
  "backend_part t = t\<lparr>admin_users := [], auth_sessions := [], api_keys := [], image_prepulls := []\<rparr>"

definition same_backend :: "tables \<Rightarrow> tables \<Rightarrow> bool" where
  "same_backend t t' \<longleftrightarrow> backend_part t' = backend_part t \<and> image_prepulls t' = image_prepulls t"

interpretation sb: auth_creator same_backend h for h
  by unfold_locales
     (auto simp: same_backend_def backend_part_def set_password_def touch_key_def insert_admin_def insert_session_def insert_key_def
       split: if_splits)

definition same_but_prepulls :: "tables \<Rightarrow> tables \<Rightarrow> bool" where
  "same_but_prepulls t t' \<longleftrightarrow> t'\<lparr>image_prepulls := []\<rparr> = t\<lparr>image_prepulls := []\<rparr>"

lemma prepull_step_same: "prepull_step t t' \<Longrightarrow> same_but_prepulls t t'"
  by (erule prepull_stepE) (auto simp: same_but_prepulls_def insert_prepull_def set_prepull_def split: if_splits)

lemma prepull_steps_same: "prepull_step\<^sup>*\<^sup>* t t' \<Longrightarrow> same_but_prepulls t t'"
  by (induction rule: rtranclp_induct) (auto simp: same_but_prepulls_def dest: prepull_step_same)

lemma backend_part_cong:
  assumes "backend_part t' = backend_part t"
  shows "backend_inv b t' \<longleftrightarrow> backend_inv b t"
proof -
  have "sandboxes t' = sandboxes t" "status_history t' = status_history t" "reconcile_runs t' = reconcile_runs t"
    "reconcile_items t' = reconcile_items t" "next_history_id t' = next_history_id t" "next_item_id t' = next_item_id t"
    "templates t' = templates t" "template_versions t' = template_versions t"
    using assms unfolding backend_part_def by (cases t; cases t'; simp)+
  then show ?thesis
    by (simp add: backend_inv_def tables_ok_def sandbox_tables_ok_def run_tables_ok_def template_inv_def templates_ok_def specs_ok_def
        versions_of_def)
qed

lemma same_but_prepulls_parts:
  assumes "same_but_prepulls t t'"
  shows "backend_part t' = backend_part t" "admin_users t' = admin_users t" "auth_sessions t' = auth_sessions t" "api_keys t' = api_keys t"
  using assms unfolding same_but_prepulls_def backend_part_def by (cases t; cases t'; simp)+

section \<open>The invariant of the system\<close>

definition system_inv :: "'k api_server \<Rightarrow> tables \<Rightarrow> bool" where
  "system_inv sv t \<longleftrightarrow> backend_inv (sv_backend sv) t \<and> auth_inv (sv_auth sv) t \<and> prepull_ok t"

interpretation kept: backend_writer "\<lambda>t t'. keeps (backend_inv b) t t' \<and> same_accounts t t'" b for b
  by unfold_locales (auto simp: keeps_def same_accounts_def intro: io_both [OF backend_step_inv backend_step_accounts])

lemma inv_backend_write:
  assumes "keeps (backend_inv (sv_backend sv)) t t'" "same_accounts t t'" "system_inv sv t"
  shows "system_inv sv t'"
  using assms by (simp add: system_inv_def keeps_def same_accounts_def auth_inv_def prepull_ok_def)

lemma inv_auth_write:
  assumes "keeps (auth_inv (sv_auth sv)) t t'" "same_backend t t'" "system_inv sv t"
  shows "system_inv sv t'"
  using assms by (simp add: system_inv_def keeps_def same_backend_def prepull_ok_def backend_part_cong [of t' t])

lemma inv_prepull_steps:
  assumes "prepull_step\<^sup>*\<^sup>* t t'" "system_inv sv t"
  shows "system_inv sv t'"
  using same_but_prepulls_parts [OF prepull_steps_same [OF assms(1)]] prepull_steps_ok [OF assms(1)] assms(2)
  by (simp add: system_inv_def auth_inv_def backend_part_cong [of t' t])

interpretation system_ok: table_preorder "keeps (system_inv sv)" for sv
  by unfold_locales (auto simp: keeps_def)

lemma system_backend: "state_io_rel (db_rel (keeps (system_inv sv))) (backend_step (sv_backend sv) op)"
  by (rule io_both [OF backend_step_inv backend_step_accounts]) (simp add: keeps_def inv_backend_write)

lemma system_auth: "state_io_rel (db_rel (keeps (system_inv sv))) (auth_step (sv_auth sv) op)"
  by (rule io_both [OF auth_wf.any_step_rel sb.any_step_rel]) (auto simp: keeps_def intro: inv_auth_write)

lemma io_wp:
  assumes "\<And>w. I (db w) \<Longrightarrow> wp m (\<lambda>_ v. I (db v)) w"
  shows "state_io_rel (db_rel (keeps I)) m"
  using assms by (simp add: state_io_rel_def db_rel_def keeps_def wp_alt case_prod_beta)

lemma system_prepulls: "state_io_rel (db_rel (keeps (system_inv sv))) (prepull_op_step s op)"
proof (rule io_wp)
  fix w :: "'a world"
  assume w: "system_inv sv (db w)"
  then have "prepull_ok (db w)"
    by (simp add: system_inv_def)
  from wp_prepull_op [OF this] show "wp (prepull_op_step s op) (\<lambda>_ v. system_inv sv (db v)) w"
    by (rule wp_mono) (use w in \<open>auto intro: inv_prepull_steps\<close>)
qed

lemma system_prepull_task: "state_io_rel (db_rel (keeps (system_inv sv))) (PrepullTemplateImage s tpl img)"
  by (rule io_wp, unfold PrepullTemplateImage_def, rule wp_mono [OF wp_Create_prepull]) (auto intro: inv_prepull_steps)


lemma RunOnce_frozen: "state_io_rel (db_rel (=)) (RunOnce c a)"
proof -
  have desired: "state_io_rel (db_rel (=)) (desiredAllowedDomains r)" for r
    unfolding desiredAllowedDomains_def TemplateStore_GetVersionByName_def TemplateStore_GetVersion_def TemplateStore_Get_def Let_def
    by (intro frozen.io_program)
  have apply_all: "state_io_rel (db_rel (=)) (apply_loop c a rs d st)" for rs d st
    by (induction rs arbitrary: d st)
       (auto simp: apply_one_def ApplyDomainAllowlistPolicy_def Let_def intro!: frozen.io_program desired split: sum.split option.split)
  have cleanup: "state_io_rel (db_rel (=)) (cleanup_loop c a rs d us st)" for rs d us st
    by (induction us arbitrary: st)
       (auto simp: cleanup_one_def confirm_and_delete_def DeleteDomainAllowlistPolicy_def
         intro!: frozen.io_program desired split: sum.split option.split)
  show ?thesis
    unfolding RunOnce_def ListForReconcile_def ListManagedDomainAllowlistPolicies_def Let_def
    by (intro frozen.io_program apply_all cleanup)
qed

section \<open>Relations that every step of the system respects\<close>

text \<open>
  The interface of the writes of all components: what the operations of the backend for which \<open>ok\<close> holds, of the
  authentication and of the prepulls respect is respected by every request and every step of the system.
\<close>

locale system_preorder = table_preorder r for r +
  fixes sv :: "'k api_server" and ok :: "backend_op \<Rightarrow> bool"
  assumes ok_writes: "\<not> is_purge op \<Longrightarrow> ok op"
    and on_backend: "ok op \<Longrightarrow> state_io_rel (db_rel r) (backend_step (sv_backend sv) op)"
    and on_auth: "state_io_rel (db_rel r) (auth_step (sv_auth sv) aop :: ('k, unit) prog)"
    and on_prepulls: "state_io_rel (db_rel r) (prepull_op_step (sv_prepulls sv) pop)"
    and on_task: "state_io_rel (db_rel r) (PrepullTemplateImage (sv_prepulls sv) tpl img)"

sublocale system_preorder \<subseteq> backend_writer r "sv_backend sv"
  by unfold_locales (simp add: ok_writes on_backend)

fun system_ok :: "(backend_op \<Rightarrow> bool) \<Rightarrow> system_op \<Rightarrow> bool" where
  "system_ok ok (MetadataTick retention) = ok (PurgeHistory retention)"
| "system_ok ok op = True"

context system_preorder
begin

lemma api_rel: "state_io_rel (db_rel r) (api_handler sv drains ep)"
proof (cases "is_prepull_endpoint ep")
  case True
  have op: "state_io_rel (db_rel r) (do { _ \<leftarrow> m; ret () }) \<Longrightarrow> state_io_rel (db_rel r) (prepull_request m)" for m :: "('k, prepull_reply) prog"
    unfolding io_discard prepull_request_def by (intro io_program)
  show ?thesis
    using True on_prepulls [of "CreatePrepullOp _"] on_prepulls [of "ListPrepullsOp _ _"] on_prepulls [of "DeletePrepullOp _"]
      on_prepulls [of "PrepullTemplateOp _"]
    by (cases ep) (simp_all add: api_handler_def op)
qed (simp add: handler_rel)

lemma serve_rel: "state_io_rel (db_rel r) (serve_http sv d q)"
proof -
  have auth: "state_io_rel (db_rel r) (serve_auth (sv_auth sv) aq :: ('k, auth_reply \<times> auth_task list) prog)" for aq
    using on_auth [of "ServeAuth aq"] by (simp add: io_discard)
  have mid: "state_io_rel (db_rel r) (APIAuthMiddleware sha cr)" for sha cr
    unfolding APIAuthMiddleware_def authenticateAPIKey_def authenticateSession_def GetAPIKeyByHash_def GetSession_def
    by (intro io_program)
  show ?thesis
    unfolding serve_http_def
    by (cases q) (auto intro!: io_program auth mid api_rel split: auth_verdict.split)
qed

lemma pass_rel: "state_io_rel (db_rel r) (RunOnce c a)"
  by (rule io_both [OF RunOnce_frozen RunOnce_frozen]) (simp add: table_refl)

lemma step_rel: "system_ok ok op \<Longrightarrow> state_io_rel (db_rel r) (system_step sv d op)"
proof (cases op)
  case (ApiGoroutine t n)
  then show ?thesis
    by (cases t; simp only: system_step_def system_op.case api_task.case; intro io_program on_backend ok_writes on_task; simp)
next
  case (MetadataTick retention)
  moreover assume "system_ok ok op"
  ultimately show ?thesis
    by (simp only: system_step_def system_op.case system_ok.simps; intro io_program on_backend)
qed (simp only: system_step_def system_op.case system_ok.simps;
     intro io_program serve_rel on_backend on_auth on_prepulls pass_rel ok_writes; simp)+

lemma system_run_rel: "list_all (system_ok ok) ops \<Longrightarrow> state_io_rel (db_rel r) (system_run sv ops d)"
  by (induction ops arbitrary: d) (simp_all add: io_ret io_bind step_rel)

end

interpretation sysinv: system_preorder "keeps (system_inv sv)" sv "\<lambda>_. True" for sv
  by unfold_locales (simp_all add: system_backend system_auth system_prepulls system_prepull_task keeps_def [symmetric])

text \<open>While the invariant holds, the rows of sandboxes age only, as long as old ones are not purged.\<close>

definition ages_with :: "'k api_server \<Rightarrow> tables \<Rightarrow> tables \<Rightarrow> bool" where
  "ages_with sv t t' \<longleftrightarrow> (system_inv sv t \<longrightarrow> system_inv sv t' \<and> rows_age t t')"

lemma ages_with_both: "keeps (system_inv sv) t t' \<Longrightarrow> rows_age t t' \<Longrightarrow> ages_with sv t t'"
  by (simp add: ages_with_def keeps_def)

lemma prepulls_age: "prepull_step\<^sup>*\<^sup>* t t' \<Longrightarrow> system_inv sv t \<Longrightarrow> system_inv sv t' \<and> rows_age t t'"
proof -
  assume st: "prepull_step\<^sup>*\<^sup>* t t'" "system_inv sv t"
  have "sandboxes t' = sandboxes t"
    using prepull_steps_same [OF st(1)] unfolding same_but_prepulls_def by (cases t; cases t'; simp)
  then show ?thesis
    using inv_prepull_steps [OF st] rows_age_same by blast
qed

lemma io_ages:
  assumes "\<And>w. system_inv sv (db w) \<Longrightarrow> wp m (\<lambda>_ v. prepull_step\<^sup>*\<^sup>* (db w) (db v)) w"
  shows "state_io_rel (db_rel (ages_with sv)) m"
proof -
  have "wp m (\<lambda>_ v. system_inv sv (db v) \<and> rows_age (db w) (db v)) w" if "system_inv sv (db w)" for w
    by (rule wp_mono [OF assms [OF that]]) (use that prepulls_age in blast)
  then show ?thesis
    by (simp add: state_io_rel_def db_rel_def ages_with_def wp_alt case_prod_beta)
qed

interpretation aging: system_preorder "ages_with sv" sv "\<lambda>op. \<not> is_purge op" for sv
proof
  show "state_io_rel (db_rel (ages_with sv)) (backend_step (sv_backend sv) op)" if "\<not> is_purge op" for op
    by (rule io_both [OF system_backend backend_step_ages [OF that] ages_with_both])
  show "state_io_rel (db_rel (ages_with sv)) (auth_step (sv_auth sv) aop)" for aop
  proof (rule io_both [OF system_auth sb.any_step_rel])
    fix t t'
    assume t: "keeps (system_inv sv) t t'" "same_backend t t'"
    have "sandboxes t' = sandboxes t"
      using t(2) unfolding same_backend_def backend_part_def by (cases t; cases t'; simp)
    then show "ages_with sv t t'"
      by (intro ages_with_both [OF t(1)] rows_age_same)
  qed
  show "state_io_rel (db_rel (ages_with sv)) (prepull_op_step (sv_prepulls sv) pop)" for pop
    by (rule io_ages, rule wp_prepull_op) (simp add: system_inv_def)
  show "state_io_rel (db_rel (ages_with sv)) (PrepullTemplateImage (sv_prepulls sv) tpl img)" for tpl img
    by (rule io_ages) (simp add: PrepullTemplateImage_def wp_Create_prepull)
qed (use rows_age_trans in \<open>auto simp: ages_with_def rows_age_same\<close>)

section \<open>Who gets past the middlewares\<close>

text \<open>What only reads the database, and does not call the cluster.\<close>

definition untouched :: "'k world \<Rightarrow> 'k world \<Rightarrow> bool" where
  "untouched w v \<longleftrightarrow> db v = db w \<and> kube v = kube w"

interpretation un: world_preorder untouched
  by unfold_locales (auto simp: untouched_def)

lemma un_query: "state_io_rel untouched (sql_query msg q)"
  by (auto simp: sql_stmt_def io_step_with untouched_def Let_def split: prod.split)

lemma un_time: "state_io_rel untouched time_now"
  by (simp add: time_now_def io_step_with untouched_def)

lemma un_middleware: "state_io_rel untouched (APIAuthMiddleware sha cr)"
  unfolding APIAuthMiddleware_def authenticateAPIKey_def authenticateSession_def GetAPIKeyByHash_def GetSession_def
  by (intro un.io_structure un_query un_time)

text \<open>
  C3: a request to the sandbox, template, import, export or prepull API that carries neither a stored key nor the cookie of
  a stored session, or one of which the time has passed, is answered with 401 or, while the server drains, with 503; it reaches no handler:
  no table and nothing in the cluster is changed and no goroutine of a handler is started, whatever the database answers.
\<close>

theorem unauthenticated_requests_change_nothing:
  assumes "\<forall>ctx. \<not> grants (ah_sha256 (sv_auth sv)) cr (db w) (clock w (ticks w)) ctx"
    and "run_state (serve_http sv d (ApiRequest cr ep)) w = (y, w')"
  shows "db w' = db w \<and> kube w' = kube w \<and> fst (snd y) = [] \<and> (\<exists>c m. fst y = ApiReply (Fail c [] m) \<and> c \<in> {401, 503})"
proof -
  have mid: "wp (APIAuthMiddleware (ah_sha256 (sv_auth sv)) cr)
      (\<lambda>m v. (db v = db w \<and> kube v = kube w) \<and> (\<exists>msg. fst m = Unauthorized msg)) w"
    using wp_conj [OF io_rel_wp [where w = w, OF un_middleware] wp_APIAuthMiddleware]
    by (rule wp_mono) (use assms(1) in \<open>auto simp: untouched_def intro: auth_verdict.exhaust\<close>)
  have "wp (serve_http sv d (ApiRequest cr ep)) (\<lambda>y v. db v = db w \<and> kube v = kube w \<and> fst (snd y) = [] \<and>
      (\<exists>c m. fst y = ApiReply (Fail c [] m) \<and> c \<in> {401, 503})) w"
  proof (cases "IsDraining d")
    case False
    then show ?thesis
      by (simp add: serve_http_def wp_bind) (rule wp_mono [OF mid], auto simp: wp_ret)
  qed (simp add: serve_http_def wp_ret)
  then show ?thesis
    using assms(2) by (simp add: wp_def)
qed

fun is_start :: "system_op \<Rightarrow> bool" where
  "is_start (ServerStart env) = True"
| "is_start op = False"

lemma drains_on: "IsDraining d \<Longrightarrow> \<not> is_start op \<Longrightarrow> wp (system_step sv d op) (\<lambda>d' _. IsDraining d') w"
  by (cases op)
     (auto simp: system_step_def wp_bind wp_ret IsDraining_def StartDraining_def split: api_task.split intro!: wp_triv)

lemma drains_run:
  "IsDraining d \<Longrightarrow> list_all (\<lambda>op. \<not> is_start op) ops \<Longrightarrow> wp (system_run sv ops d) (\<lambda>d' _. IsDraining d') w"
proof (induction ops arbitrary: d w)
  case (Cons op ops)
  show ?case
    unfolding system_run.simps wp_bind
    by (rule wp_mono [OF drains_on]) (use Cons in auto)
qed (simp add: wp_ret)

text \<open>
  Once a shutdown has begun no request but those for the health of the server does anything any more: whatever the server,
  its tickers and its goroutines do meanwhile (short of a new start), every request to the API, also one to log in, is
  answered with 503 and leaves the tables and the cluster alone, and the server reports that it is not ready.
\<close>

theorem draining_server_is_quiet:
  assumes "run_state (system_run sv (Shutdown # ops) d) w = (d', w')" "list_all (\<lambda>op. \<not> is_start op) ops"
    and "q \<noteq> HealthRequest"
  shows "\<exists>y. run_state (serve_http sv d' q) w' = ((y, [], []), w') \<and>
    y = (if q = ReadyRequest then HealthReply 503 ''draining'' else ApiReply (Fail 503 [] ''service is draining''))"
proof -
  have "wp (system_run sv (Shutdown # ops) d) (\<lambda>d' _. IsDraining d') w"
    using assms(2) drains_run [of "StartDraining d" ops] by (simp add: system_step_def wp_bind wp_ret IsDraining_def StartDraining_def)
  then have "IsDraining d'"
    using assms(1) by (simp add: wp_def)
  then show ?thesis
    using assms(3) by (cases q) (simp_all add: serve_http_def)
qed

section \<open>The system over time\<close>

text \<open>
  C1: whatever requests, authenticated or not, goroutines, tickers, passes, starts and shutdowns happen, in any order, and
  whatever the database and the cluster answer, the invariants of all components hold together: those of the sandbox,
  history, run and template tables, of the accounts, sessions and keys, and of the image prepulls.
\<close>

theorem system_keeps_invariants:
  assumes "system_inv sv (db w)"
  shows "system_inv sv (db (snd (run_state (system_run sv ops d) w)))"
proof -
  have "list_all (system_ok (\<lambda>_. True)) ops"
    by (induction ops) (auto, metis system_ok.elims(3))
  from io_relD [OF sysinv.system_run_rel [OF this, of sv d], of w] show ?thesis
    using assms by (simp add: db_rel_def keeps_def)
qed

fun is_metadata_tick :: "system_op \<Rightarrow> bool" where
  "is_metadata_tick (MetadataTick retention) = True"
| "is_metadata_tick op = False"

lemma system_rows_age:
  assumes "system_inv sv (db w)" "list_all (\<lambda>op. \<not> is_metadata_tick op) ops"
  shows "rows_age (db w) (db (snd (run_state (system_run sv ops d) w)))"
proof -
  have "system_ok (\<lambda>op. \<not> is_purge op) op" if "\<not> is_metadata_tick op" for op
    using that by (cases op) simp_all
  then have "list_all (system_ok (\<lambda>op. \<not> is_purge op)) ops"
    using assms(2) by (simp add: list_all_iff)
  from io_relD [OF aging.system_run_rel [OF this, of sv d], of w] show ?thesis
    using assms(1) by (simp add: db_rel_def ages_with_def)
qed

lemma served_handler:
  assumes "run_state (serve_http sv d (ApiRequest cr ep)) w = ((ApiReply (Done c body), t), w1)"
  obtains v t' where "db v = db w" "kube v = kube w" "run_state (api_handler sv (IsDraining d) ep) v = ((Done c body, t'), w1)"
proof -
  obtain m v where m: "run_state (APIAuthMiddleware (ah_sha256 (sv_auth sv)) cr) w = (m, v)"
    by fastforce
  have v: "db v = db w" "kube v = kube w"
    using io_relD [OF un_middleware, of w "ah_sha256 (sv_auth sv)" cr] m by (simp_all add: untouched_def)
  have nd: "\<not> IsDraining d"
    using assms by (auto simp: serve_http_def)
  then obtain ctx where "fst m = Authenticated ctx"
    using assms m by (cases "fst m") (auto simp: serve_http_def)
  then have "\<exists>t'. run_state (api_handler sv (IsDraining d) ep) v = ((Done c body, t'), w1)"
    using assms m nd by (auto simp: serve_http_def split: prod.splits)
  then show ?thesis
    using that v by blast
qed

text \<open>
  C2: once the API has accepted the deletion of a sandbox with 202, the gateway turns down every request to it, whatever the
  whole system does afterwards (short of purging old rows) and whatever the database answers. The one exception is a row that was
  already terminating or deleted while its desired state was still active: \<open>SandboxService.Delete\<close> answers for such a row without
  marking it, so the request is lost.
\<close>

theorem accepted_deletion_closes_gateway:
  assumes "system_inv sv (db w)" "lookup rec_ID sid (sandboxes (db w)) = Some r"
    and "run_state (serve_http sv d (ApiRequest cr (DeleteSandboxById sid))) w = ((ApiReply (Done 202 body), t), w1)"
    and "list_all (\<lambda>op. \<not> is_metadata_tick op) ops" "db v = db (snd (run_state (system_run sv ops d) w1))"
  shows "fst (run_state (AuthMiddleware g sid q) v) \<noteq> None
    \<or> rec_DesiredState r \<noteq> DesiredStateDeleted \<and> rec_LifecycleStatus r \<in> {''terminating'', ''deleted''}"
proof (cases "rec_DesiredState r = DesiredStateDeleted \<or> rec_LifecycleStatus r \<notin> {''terminating'', ''deleted''}")
  case True
  obtain v0 t' where v0: "db v0 = db w" "run_state (api_handler sv (IsDraining d) (DeleteSandboxById sid)) v0 = ((Done 202 body, t'), w1)"
    by (rule served_handler [OF assms(3)])
  then obtain sb where del: "run_state (SandboxService_Delete (b_sandboxes (sv_backend sv)) sid) v0 = (Inr sb, w1)"
    by (auto simp: api_handler_def plain_def SandboxHandler_Delete_def reply_with_def failed_def split: prod.splits sum.splits if_splits)
  then obtain r1 where r1: "lookup rec_ID sid (sandboxes (db w1)) = Some r1" "rec_DesiredState r1 = DesiredStateDeleted"
    using deleted_row [OF _ True del] v0(1) assms(2) by auto
  have "system_inv sv (db w1)"
    using io_relD [where w = w, OF sysinv.serve_rel [where sv = sv and d = d and q = "ApiRequest cr (DeleteSandboxById sid)"]] assms(1,3)
    by (simp add: db_rel_def keeps_def)
  then obtain r2 where "lookup rec_ID sid (sandboxes (db v)) = Some r2" "rec_DesiredState r2 = DesiredStateDeleted"
    using system_rows_age [where w = w1 and sv = sv and d = d, OF _ assms(4)] r1 assms(5) by (auto simp: rows_age_def ages_def)
  then show ?thesis
    using Auth_passes_authorised [of g sid q v] by (auto simp: authorised_def)
qed blast

section \<open>Witnesses\<close>

definition sample_backend :: "cluster backend" where
  "sample_backend =
     \<lparr>b_sandboxes = sample_service, b_reconciler = NewSandboxReconcileService sample_client (\<lambda>x. x) (\<lambda>xs. xs),
      b_quantity = (\<lambda>_. None), b_yaml = yaml_none\<rparr>"

definition sample_policies :: "cluster PolicyAPI" where
  "sample_policies =
     \<lparr>pa_dynamic = False, namespaces_Get = (\<lambda>n k. (Inr (), k)), namespaces_Create = (\<lambda>n k. (Inr (), k)),
      netpols_Get = (\<lambda>_ _. no_call), netpols_Create = (\<lambda>_ _. no_call), netpols_Update = (\<lambda>_ _. no_call),
      cilium_Get = (\<lambda>_ _. no_call), cilium_Create = (\<lambda>_ _. no_call), cilium_Update = (\<lambda>_ _. no_call),
      cilium_Delete = (\<lambda>_ _. no_call), cilium_List = (\<lambda>_. no_call), pods_Update = (\<lambda>_ _. no_call)\<rparr>"

definition sample_server :: "cluster api_server" where
  "sample_server =
     \<lparr>sv_backend = sample_backend, sv_prepulls = sample_prepulls, sv_auth = sample_auth, sv_policies = sample_policies,
      sv_quantityString = Some\<rparr>"

text \<open>One live sandbox, and one API key.\<close>

definition server_world :: "cluster world" where
  "server_world = (sample_world [sample_row ''abc''] [sample_pod ''abc''])\<lparr>db := empty_tables\<lparr>sandboxes := [sample_row ''abc''], api_keys := [sample_key]\<rparr>\<rparr>"

definition delete_request :: server_request where
  "delete_request = ApiRequest (credentials ''lbxk_0011aabb'' None) (DeleteSandboxById ''abc'')"

lemma server_world_inv: "system_inv sample_server (db server_world)"
proof -
  have "made_key sample_auth sample_key"
    unfolding made_key_def by (rule exI [of _ "''0011aabb''"]) (simp add: sample_key_def sample_auth_def)
  then show ?thesis
    by (simp add: system_inv_def sample_server_def sample_backend_def server_world_def backend_inv_def template_inv_def templates_ok_def
        specs_ok_def tables_ok_def sandbox_tables_ok_def run_tables_ok_def auth_inv_def prepull_ok_def empty_tables_def)
qed

lemma delete_request_served:
  "\<exists>body t w1. run_state (serve_http sample_server NewDrainManager delete_request) server_world = ((ApiReply (Done 202 body), t), w1)"
proof -
  have "wp (serve_http sample_server NewDrainManager delete_request) (\<lambda>y _. \<exists>body. fst y = ApiReply (Done 202 body)) server_world"
    by (simp add: serve_http_def delete_request_def NewDrainManager_def IsDraining_def APIAuthMiddleware_def credentials_def bearer_token_def
        has_prefix_def trim_prefix_def authenticateAPIKey_def GetAPIKeyByHash_def wp_simps wp_sql_stmt server_world_def sample_world_def
        empty_tables_def lookup_def sample_key_def sample_server_def sample_auth_def api_handler_def plain_def SandboxHandler_Delete_def
        SandboxService_Delete_def GetByID_def MarkDeletionRequested_def ignore_err_def AppendStatusHistory_def Let_def sample_row_def
        row_defs update_sandbox_def update_where_def reply_with_def)
  then show ?thesis
    unfolding wp_alt by (metis prod.collapse)
qed

lemma system_keeps_invariants_witness:
  "system_inv sample_server (db (snd (run_state (system_run sample_server
     [ServerStart \<lparr>env_Username = [], env_Password = ''p'', env_InitialPassword = []\<rparr>, Request delete_request, TtlTick, DeletionTick,
      PrepullTick, PolicyPass, Shutdown, Request ReadyRequest] NewDrainManager) server_world)))"
  by (rule system_keeps_invariants [OF server_world_inv])

lemma unauthenticated_requests_change_nothing_witness:
  "\<exists>y w'. run_state (serve_http sample_server NewDrainManager (ApiRequest (credentials ''lbxk_0'' None) (DeleteSandboxById ''abc''))) server_world = (y, w') \<and>
     db w' = db server_world"
proof -
  obtain y w' where run: "run_state (serve_http sample_server NewDrainManager
      (ApiRequest (credentials ''lbxk_0'' None) (DeleteSandboxById ''abc''))) server_world = (y, w')"
    by fastforce
  have "\<forall>ctx. \<not> grants (ah_sha256 (sv_auth sample_server)) (credentials ''lbxk_0'' None) (db server_world)
      (clock server_world (ticks server_world)) ctx"
    by (simp add: grants_def credentials_def bearer_token_def has_prefix_def trim_prefix_def server_world_def empty_tables_def lookup_def
        sample_key_def sample_server_def sample_auth_def HashToken_def hex_encode_def)
  from unauthenticated_requests_change_nothing [OF this run] run show ?thesis
    by blast
qed

lemma draining_server_is_quiet_witness:
  "\<exists>d' w'. run_state (system_run sample_server [Shutdown, TtlTick, PolicyPass] NewDrainManager) server_world = (d', w') \<and>
     run_state (serve_http sample_server d' delete_request) w' = ((ApiReply (Fail 503 [] ''service is draining''), [], []), w')"
proof -
  obtain d' w' where run: "run_state (system_run sample_server [Shutdown, TtlTick, PolicyPass] NewDrainManager) server_world = (d', w')"
    by fastforce
  from draining_server_is_quiet [OF run, of delete_request] run show ?thesis
    by (auto simp: delete_request_def)
qed

lemma accepted_deletion_closes_gateway_witness:
  "\<exists>body t w1. run_state (serve_http sample_server NewDrainManager delete_request) server_world = ((ApiReply (Done 202 body), t), w1) \<and>
     fst (run_state (AuthMiddleware sample_gateway ''abc'' (sample_http ''secret''))
       (snd (run_state (system_run sample_server [ReconcileTick ''interval'', DeletionTick, Shutdown] NewDrainManager) w1))) \<noteq> None"
proof -
  obtain body t w1 where run: "run_state (serve_http sample_server NewDrainManager delete_request) server_world = ((ApiReply (Done 202 body), t), w1)"
    using delete_request_served by blast
  have "lookup rec_ID ''abc'' (sandboxes (db server_world)) = Some (sample_row ''abc'')"
    by (simp add: server_world_def empty_tables_def lookup_def sample_row_def)
  from accepted_deletion_closes_gateway [OF server_world_inv this run [unfolded delete_request_def] _ refl, of "[ReconcileTick ''interval'', DeletionTick, Shutdown]"
      sample_gateway "sample_http ''secret''"] run show ?thesis
    by (intro exI conjI) (simp_all add: sample_row_def)
qed

end
