(* ===== verification/Exec_Session.thy ===== *)
theory Exec_Session
  imports Kube_Client "HOL-Library.Sublist"
begin

text \<open>
  Interactive sessions: \<open>backend/internal/k8s/terminal.go\<close>, \<open>ExecInteractive\<close> of \<open>backend/internal/k8s/client.go\<close> and the
  bridge \<open>ExecInteractive\<close> of \<open>backend/internal/service/sandbox.go\<close>. The bridge runs a goroutine that reads the websocket beside
  the exec stream, so a session is a state and a list of events, each of them one atomic step of one side, in any order that
  the guards of the steps allow.
\<close>

section \<open>The queue of terminal sizes (k8s/terminal.go)\<close>

record TerminalSize =
  sz_Width :: "16 word"
  sz_Height :: "16 word"

text \<open>A channel of capacity one.\<close>

record SizeQueue =
  sq_items :: "TerminalSize list"
  sq_closed :: bool

definition NewSizeQueue :: SizeQueue where
  "NewSizeQueue = \<lparr>sq_items = [], sq_closed = False\<rparr>"

text \<open>\<open>None\<close> blocks; \<open>Some (None, q)\<close> is the end of the queue. A closed channel still delivers what it holds.\<close>

definition SizeQueue_Next :: "SizeQueue \<Rightarrow> (TerminalSize option \<times> SizeQueue) option" where
  "SizeQueue_Next q =
     (case sq_items q of
        x # xs \<Rightarrow> Some (Some x, q\<lparr>sq_items := xs\<rparr>)
      | [] \<Rightarrow> if sq_closed q then Some (None, q) else None)"

text \<open>
  \<open>None\<close> is the panic of a send on a closed channel. There is one sender at a time, so the send that follows the dropped event
  does not block.
\<close>

definition SizeQueue_Push :: "16 word \<Rightarrow> 16 word \<Rightarrow> SizeQueue \<Rightarrow> SizeQueue option" where
  "SizeQueue_Push width height q =
     (let sz = \<lparr>sz_Width = width, sz_Height = height\<rparr> in
      if sq_closed q then None
      else if length (sq_items q) < 1 then Some (q\<lparr>sq_items := sq_items q @ [sz]\<rparr>)
      else Some (q\<lparr>sq_items := tl (sq_items q) @ [sz]\<rparr>))"

definition SizeQueue_Close :: "SizeQueue \<Rightarrow> SizeQueue" where
  "SizeQueue_Close q = q\<lparr>sq_closed := True\<rparr>"

section \<open>The request to the cluster (k8s/client.go)\<close>

text \<open>The options of the exec request, and which streams the client then attaches.\<close>

record ExecRequest =
  er_Pod :: string
  er_Container :: string
  er_Command :: "string list"
  er_Stdin :: bool
  er_Stdout :: bool
  er_Stderr :: bool
  er_TTY :: bool
  er_Streams :: "bool \<times> bool \<times> bool"

text \<open>\<open>streams\<close> says which of standard input, output and error the options carry.\<close>

definition exec_request :: "'k Client \<Rightarrow> string \<Rightarrow> string list \<Rightarrow> bool \<Rightarrow> bool \<times> bool \<times> bool \<Rightarrow> ('k, ExecRequest res) prog" where
  "exec_request c sandboxID command tty streams =
     seqE (mapE (Wrap ''failed to resolve sandbox pod'') (getSandboxPod c sandboxID)) (\<lambda>pod.
     retE \<lparr>er_Pod = om_Name (pod_Meta pod), er_Container = ''main'', er_Command = wrapCommandForRootFS pod command,
           er_Stdin = fst streams, er_Stdout = True, er_Stderr = (\<not> tty), er_TTY = tty, er_Streams = streams\<rparr>)"

text \<open>The bridge passes standard input and output, and no standard error.\<close>

definition bridge_request :: "'k Client \<Rightarrow> string \<Rightarrow> string list \<Rightarrow> bool \<Rightarrow> ('k, ExecRequest res) prog" where
  "bridge_request c sandboxID command tty = exec_request c sandboxID command tty (True, True, False)"

section \<open>The bridge (service/sandbox.go)\<close>

record WSMessage =
  msg_Type :: string
  msg_Data :: string
  msg_Cols :: int
  msg_Rows :: int
  msg_ExitCode :: int

definition output_msg :: "string \<Rightarrow> WSMessage" where
  "output_msg p = \<lparr>msg_Type = ''output'', msg_Data = p, msg_Cols = 0, msg_Rows = 0, msg_ExitCode = 0\<rparr>"

definition exit_msg :: "int \<Rightarrow> WSMessage" where
  "exit_msg code = \<lparr>msg_Type = ''exit'', msg_Data = [], msg_Cols = 0, msg_Rows = 0, msg_ExitCode = code\<rparr>"

fun exit_code :: "exec_end \<Rightarrow> int" where
  "exit_code ExecDone = 0"
| "exit_code (ExitStatus code) = code"
| "exit_code (StreamErr e) = 1"

text \<open>
  The goroutine reads the websocket, is blocked in a write to the pipe with the bytes that have not been read yet, or has
  returned. The function streams, has the exit code to send, and then runs its deferred calls: the context is cancelled, the
  pipe is closed and the queue is closed.
\<close>

datatype ws_reader = Reading | Writing string | ReaderStopped

datatype bridge_phase = Streaming | Ended int | ExitSent | CtxCancelled | StdinShut | QueueClosed

record exec_session =
  xs_reader :: ws_reader
  xs_phase :: bridge_phase
  xs_queue :: SizeQueue
  xs_stdin_closed :: bool
  xs_cancelled :: bool
  xs_ws_ok :: bool
  xs_sent :: "WSMessage list"
  xs_read :: string
  xs_sizes :: "TerminalSize list"
  xs_panicked :: bool

definition push_size :: "int \<Rightarrow> int \<Rightarrow> exec_session \<Rightarrow> exec_session" where
  "push_size cols rows s =
     (case SizeQueue_Push (word_of_int cols) (word_of_int rows) (xs_queue s) of
        None \<Rightarrow> s\<lparr>xs_reader := ReaderStopped, xs_panicked := True\<rparr>
      | Some q \<Rightarrow> s\<lparr>xs_queue := q\<rparr>)"

definition exec_start :: "int \<Rightarrow> int \<Rightarrow> exec_session" where
  "exec_start rows cols = push_size cols rows
     \<lparr>xs_reader = Reading, xs_phase = Streaming, xs_queue = NewSizeQueue, xs_stdin_closed = False, xs_cancelled = False,
      xs_ws_ok = True, xs_sent = [], xs_read = [], xs_sizes = [], xs_panicked = False\<rparr>"

text \<open>The goroutine cancels and returns; its deferred call closes the pipe.\<close>

definition stop_reader :: "exec_session \<Rightarrow> exec_session" where
  "stop_reader s = s\<lparr>xs_cancelled := True, xs_stdin_closed := True, xs_reader := ReaderStopped\<rparr>"

definition handle_message :: "WSMessage \<Rightarrow> exec_session \<Rightarrow> exec_session" where
  "handle_message msg s =
     (if msg_Type msg = ''input'' then
        (if xs_stdin_closed s then stop_reader s else s\<lparr>xs_reader := Writing (msg_Data msg)\<rparr>)
      else if msg_Type msg = ''resize'' then push_size (msg_Cols msg) (msg_Rows msg) s
      else s)"

text \<open>\<open>wsOutputWriter.Write\<close>, under its mutex; a connection that failed once fails from then on.\<close>

definition ws_write :: "WSMessage \<Rightarrow> bool \<Rightarrow> exec_session \<Rightarrow> exec_session" where
  "ws_write m ok s =
     (if ok \<and> xs_ws_ok s then s\<lparr>xs_sent := xs_sent s @ [m]\<rparr> else s\<lparr>xs_ws_ok := False\<rparr>)"

text \<open>
  The events: a message of the client (\<open>None\<close> is no JSON), the end of the connection, a write to a pipe that has been closed, the
  stream reading up to \<open>n\<close> bytes of the pipe or a size of the queue, output of the process, the end of the stream, the exit message,
  and the next deferred call.
\<close>

datatype exec_event =
    ClientSends "WSMessage option"
  | ClientGone
  | WriteFails
  | StdinRead nat
  | SizeRead
  | Output string bool
  | StreamEnds exec_end
  | SendExit bool
  | Deferred

fun deferred_call :: "exec_session \<Rightarrow> exec_session option" where
  "deferred_call s =
     (case xs_phase s of
        ExitSent \<Rightarrow> Some (s\<lparr>xs_cancelled := True, xs_phase := CtxCancelled\<rparr>)
      | CtxCancelled \<Rightarrow> Some (s\<lparr>xs_stdin_closed := True, xs_phase := StdinShut\<rparr>)
      | StdinShut \<Rightarrow> Some (s\<lparr>xs_queue := SizeQueue_Close (xs_queue s), xs_phase := QueueClosed\<rparr>)
      | _ \<Rightarrow> None)"

definition read_pipe :: "nat \<Rightarrow> exec_session \<Rightarrow> exec_session option" where
  "read_pipe n s =
     (case xs_reader s of
        Writing d \<Rightarrow>
          if xs_stdin_closed s then None
          else Some (s\<lparr>xs_read := xs_read s @ take n d, xs_reader := (if length d \<le> n then Reading else Writing (drop n d))\<rparr>)
      | _ \<Rightarrow> None)"

definition read_size :: "exec_session \<Rightarrow> exec_session option" where
  "read_size s =
     (case SizeQueue_Next (xs_queue s) of
        Some (Some sz, q) \<Rightarrow> Some (s\<lparr>xs_queue := q, xs_sizes := xs_sizes s @ [sz]\<rparr>)
      | _ \<Rightarrow> None)"

definition enabled_if :: "bool \<Rightarrow> 'a \<Rightarrow> 'a option" where
  "enabled_if b x = (if b then Some x else None)"

fun exec_step :: "exec_event \<Rightarrow> exec_session \<Rightarrow> exec_session option" where
  "exec_step (ClientSends m) s =
     enabled_if (xs_reader s = Reading) (case m of None \<Rightarrow> s | Some msg \<Rightarrow> handle_message msg s)"
| "exec_step ClientGone s = enabled_if (xs_reader s = Reading) (stop_reader s)"
| "exec_step WriteFails s = enabled_if (xs_stdin_closed s \<and> (\<exists>d. xs_reader s = Writing d)) (stop_reader s)"
| "exec_step (StdinRead n) s = read_pipe n s"
| "exec_step SizeRead s = read_size s"
| "exec_step (Output p ok) s = enabled_if (xs_phase s = Streaming) (ws_write (output_msg p) ok s)"
| "exec_step (StreamEnds e) s = enabled_if (xs_phase s = Streaming) (s\<lparr>xs_phase := Ended (exit_code e)\<rparr>)"
| "exec_step (SendExit ok) s =
     (case xs_phase s of Ended code \<Rightarrow> Some (ws_write (exit_msg code) ok (s\<lparr>xs_phase := ExitSent\<rparr>)) | _ \<Rightarrow> None)"
| "exec_step Deferred s = deferred_call s"

fun exec_run :: "exec_event list \<Rightarrow> exec_session \<Rightarrow> exec_session option" where
  "exec_run [] s = Some s"
| "exec_run (e # es) s = (if xs_panicked s then None else case exec_step e s of None \<Rightarrow> None | Some s' \<Rightarrow> exec_run es s')"

section \<open>Lemmas\<close>

text \<open>What the client typed, the sizes it asked for, what the process printed and how it ended.\<close>

fun typed :: "exec_event \<Rightarrow> string" where
  "typed (ClientSends (Some m)) = (if msg_Type m = ''input'' then msg_Data m else [])"
| "typed e = []"

fun resized :: "exec_event \<Rightarrow> TerminalSize list" where
  "resized (ClientSends (Some m)) =
     (if msg_Type m = ''resize'' then [\<lparr>sz_Width = word_of_int (msg_Cols m), sz_Height = word_of_int (msg_Rows m)\<rparr>] else [])"
| "resized e = []"

fun printed :: "exec_event \<Rightarrow> string list" where
  "printed (Output p ok) = [p]"
| "printed e = []"

fun ended :: "exec_event \<Rightarrow> int list" where
  "ended (StreamEnds e) = [exit_code e]"
| "ended e = []"

abbreviation all_of :: "(exec_event \<Rightarrow> 'a list) \<Rightarrow> exec_event list \<Rightarrow> 'a list" where
  "all_of f es \<equiv> concat (map f es)"

definition asked_sizes :: "int \<Rightarrow> int \<Rightarrow> exec_event list \<Rightarrow> TerminalSize list" where
  "asked_sizes rows cols es = \<lparr>sz_Width = word_of_int cols, sz_Height = word_of_int rows\<rparr> # all_of resized es"

lemma exec_run_snoc:
  "exec_run (es @ [e]) s =
     (case exec_run es s of None \<Rightarrow> None | Some s' \<Rightarrow> if xs_panicked s' then None else exec_step e s')"
  by (induction es arbitrary: s) (auto split: option.split)

text \<open>Reasoning about a session goes by the events: an invariant that every step keeps holds after every run.\<close>

lemma exec_run_induct [consumes 1, case_names start step]:
  assumes "exec_run es s0 = Some s" and "P [] s0"
    and "\<And>es e s s'. exec_run es s0 = Some s \<Longrightarrow> \<not> xs_panicked s \<Longrightarrow> exec_step e s = Some s' \<Longrightarrow> P es s \<Longrightarrow> P (es @ [e]) s'"
  shows "P es s"
  using assms(1)
proof (induction es arbitrary: s rule: rev_induct)
  case (snoc e es)
  then show ?case
    using assms(3) by (auto simp: exec_run_snoc split: option.splits if_splits)
qed (use assms(2) in simp)

lemma enabled_if_simps [simp]: "enabled_if True x = Some x" "enabled_if False x = None"
  by (simp_all add: enabled_if_def)

lemma enabled_if_Some [simp]: "enabled_if b x = Some y \<longleftrightarrow> b \<and> x = y"
  by (simp add: enabled_if_def)

lemmas session_defs =
  push_size_def SizeQueue_Push_def handle_message_def stop_reader_def ws_write_def read_pipe_def read_size_def SizeQueue_Next_def
  SizeQueue_Close_def Let_def

lemma exec_start_simps [simp]:
  "exec_start rows cols =
     \<lparr>xs_reader = Reading, xs_phase = Streaming,
      xs_queue = \<lparr>sq_items = [\<lparr>sz_Width = word_of_int cols, sz_Height = word_of_int rows\<rparr>], sq_closed = False\<rparr>,
      xs_stdin_closed = False, xs_cancelled = False, xs_ws_ok = True, xs_sent = [], xs_read = [], xs_sizes = [], xs_panicked = False\<rparr>"
  by (simp add: exec_start_def session_defs NewSizeQueue_def)

text \<open>Standard input: what is typed is read, waits in the pipe, or is lost with the reader.\<close>

definition input_inv :: "exec_event list \<Rightarrow> exec_session \<Rightarrow> bool" where
  "input_inv es s \<longleftrightarrow> (\<exists>rest. all_of typed es = xs_read s @ rest \<and>
     (case xs_reader s of Reading \<Rightarrow> rest = [] | Writing d \<Rightarrow> rest = d | ReaderStopped \<Rightarrow> True))"

definition queue_inv :: "exec_session \<Rightarrow> bool" where
  "queue_inv s \<longleftrightarrow> (sq_closed (xs_queue s) \<longleftrightarrow> xs_phase s = QueueClosed) \<and> length (sq_items (xs_queue s)) \<le> 1 \<and>
     (xs_panicked s \<longrightarrow> xs_phase s = QueueClosed)"

definition size_inv :: "int \<Rightarrow> int \<Rightarrow> exec_event list \<Rightarrow> exec_session \<Rightarrow> bool" where
  "size_inv rows cols es s \<longleftrightarrow>
     (let taken = xs_sizes s @ sq_items (xs_queue s) in
      subseq taken (asked_sizes rows cols es) \<and> (\<not> xs_panicked s \<longrightarrow> taken \<noteq> [] \<and> last taken = last (asked_sizes rows cols es)))"

definition shown :: "WSMessage list \<Rightarrow> string list \<Rightarrow> bool" where
  "shown sent ps \<longleftrightarrow> (\<exists>qs. prefix qs ps \<and> sent = map output_msg qs)"

lemma shown_all: "shown (map output_msg ps) ps"
  by (auto simp: shown_def)

lemma shown_more: "shown sent ps \<Longrightarrow> shown sent (ps @ qs)"
  by (auto simp: shown_def intro: prefix_prefix)

definition output_ok :: "bridge_phase \<Rightarrow> WSMessage list \<Rightarrow> bool \<Rightarrow> string list \<Rightarrow> int list \<Rightarrow> bool" where
  "output_ok ph sent ok ps cs \<longleftrightarrow>
     (case ph of Streaming \<Rightarrow> cs = [] | Ended c \<Rightarrow> cs = [c] | _ \<Rightarrow> True) \<and>
     (if ph = Streaming \<or> (\<exists>c. ph = Ended c) then shown sent ps \<and> (ok \<longrightarrow> sent = map output_msg ps)
      else shown sent ps \<or> (\<exists>c. cs = [c] \<and> sent = map output_msg ps @ [exit_msg c]))"

definition output_inv :: "exec_event list \<Rightarrow> exec_session \<Rightarrow> bool" where
  "output_inv es s \<longleftrightarrow> output_ok (xs_phase s) (xs_sent s) (xs_ws_ok s) (all_of printed es) (all_of ended es)"

lemma step_input:
  assumes "exec_step e s = Some s'" "input_inv es s"
  shows "input_inv (es @ [e]) s'"
proof (cases e)
  case (ClientSends m)
  then show ?thesis
    using assms by (cases m) (auto simp: input_inv_def session_defs split: if_splits)
next
  case (StdinRead n)
  then show ?thesis
    using assms by (auto simp: input_inv_def session_defs split: ws_reader.splits if_splits)
next
  case SizeRead
  then obtain q szs where "s' = s\<lparr>xs_queue := q, xs_sizes := szs\<rparr>"
    using assms(1) by (auto simp: read_size_def split: option.splits)
  then show ?thesis
    using SizeRead assms(2) by (simp add: input_inv_def)
qed (use assms in \<open>auto simp: input_inv_def session_defs split: ws_reader.splits bridge_phase.splits option.splits list.splits if_splits\<close>)

lemma step_queue:
  assumes "exec_step e s = Some s'" "queue_inv s" "\<not> xs_panicked s"
  shows "queue_inv s'"
  using assms
  by (cases e) (auto simp: queue_inv_def session_defs split: option.splits list.splits ws_reader.splits bridge_phase.splits if_splits)

lemma last_subseq_append: "subseq xs ys \<Longrightarrow> subseq (xs @ [z]) (ys @ [z])"
  by (simp add: list_emb_append_mono)

lemma push_size_inv:
  assumes "size_inv rows cols es s" "queue_inv s" "\<not> xs_panicked s"
    and "resized e = [\<lparr>sz_Width = word_of_int c, sz_Height = word_of_int r\<rparr>]"
  shows "size_inv rows cols (es @ [e]) (push_size c r s)"
proof -
  let ?z = "\<lparr>sz_Width = word_of_int c, sz_Height = word_of_int r\<rparr> :: TerminalSize"
  let ?asked = "asked_sizes rows cols es"
  have taken: "subseq (xs_sizes s @ sq_items (xs_queue s)) ?asked"
    using assms(1) by (simp add: size_inv_def Let_def)
  have asked: "asked_sizes rows cols (es @ [e]) = ?asked @ [?z]"
    using assms(4) by (simp add: asked_sizes_def)
  have "subseq (xs_sizes s) ?asked"
    using subseq_order.trans [OF prefix_imp_subseq taken] by simp
  then show ?thesis
    using last_subseq_append [OF taken, of ?z] last_subseq_append [of "xs_sizes s" ?asked ?z] taken assms(2)
    by (cases "sq_items (xs_queue s)")
       (auto simp: size_inv_def push_size_def SizeQueue_Push_def queue_inv_def Let_def asked list_emb_prefix)
qed

lemma step_size:
  assumes "exec_step e s = Some s'" "size_inv rows cols es s" "queue_inv s" "\<not> xs_panicked s"
  shows "size_inv rows cols (es @ [e]) s'"
proof (cases "resized e")
  case Nil
  then have asked: "asked_sizes rows cols (es @ [e]) = asked_sizes rows cols es"
    by (simp add: asked_sizes_def)
  have "xs_sizes s' @ sq_items (xs_queue s') = xs_sizes s @ sq_items (xs_queue s) \<and> xs_panicked s' = xs_panicked s"
    using assms(1) Nil
    by (cases e rule: resized.cases) (auto simp: session_defs split: option.splits list.splits ws_reader.splits bridge_phase.splits if_splits)
  then show ?thesis
    using assms(2) by (simp add: size_inv_def asked)
next
  case (Cons z zs)
  then obtain m where m: "e = ClientSends (Some m)" "msg_Type m = ''resize''"
    by (cases e rule: resized.cases) (auto split: if_splits)
  then have "s' = push_size (msg_Cols m) (msg_Rows m) s"
    using assms(1) by (auto simp: handle_message_def)
  then show ?thesis
    using push_size_inv [OF assms(2-4), of e "msg_Cols m" "msg_Rows m"] m by simp
qed

lemma step_output:
  assumes "exec_step e s = Some s'" "output_inv es s"
  shows "output_inv (es @ [e]) s'"
proof -
  have same: ?thesis if "xs_phase s' = xs_phase s" "xs_sent s' = xs_sent s" "xs_ws_ok s' = xs_ws_ok s" "printed e = []" "ended e = []"
    using that assms(2) by (simp add: output_inv_def)
  show ?thesis
  proof (cases e)
    case (Output p ok)
    then have "xs_phase s = Streaming" "s' = ws_write (output_msg p) ok s"
      using assms(1) by auto
    then show ?thesis
      using assms(2) Output
      using shown_all [of "all_of printed es @ [p]"] by (auto simp: output_inv_def output_ok_def ws_write_def intro: shown_more)
  next
    case (StreamEnds x)
    then show ?thesis
      using assms by (auto simp: output_inv_def output_ok_def)
  next
    case (SendExit ok)
    then obtain c where "xs_phase s = Ended c" "s' = ws_write (exit_msg c) ok (s\<lparr>xs_phase := ExitSent\<rparr>)"
      using assms(1) by (auto split: bridge_phase.splits)
    then show ?thesis
      using assms(2) SendExit shown_all by (auto simp: output_inv_def output_ok_def ws_write_def)
  next
    case Deferred
    then show ?thesis
      using assms by (auto simp: output_inv_def output_ok_def split: bridge_phase.splits)
  qed (use assms(1) same in \<open>auto simp: session_defs split: option.splits list.splits ws_reader.splits if_splits\<close>)
qed


text \<open>
  The only step of a session that panics is a resize that is read after the queue of sizes has been closed: the goroutine
  that reads the websocket outlives the deferred calls of the bridge, and its send on the closed channel is not recovered.
\<close>

theorem late_resize_panics:
  assumes "exec_run es (exec_start rows cols) = Some s" "\<not> xs_panicked s" "exec_step e s = Some s'"
  shows "xs_panicked s' \<longleftrightarrow> xs_phase s = QueueClosed \<and> (\<exists>m. e = ClientSends (Some m) \<and> msg_Type m = ''resize'')"
proof -
  have "queue_inv s"
    using assms(1) by (induction rule: exec_run_induct) (auto simp: queue_inv_def dest: step_queue)
  then have "sq_closed (xs_queue s) \<longleftrightarrow> xs_phase s = QueueClosed"
    by (simp add: queue_inv_def)
  then show ?thesis
    using assms(2,3)
    by (cases e) (auto simp: session_defs split: option.splits list.splits ws_reader.splits bridge_phase.splits if_splits)
qed

section \<open>Witnesses\<close>

definition client_msg :: "string \<Rightarrow> string \<Rightarrow> int \<Rightarrow> int \<Rightarrow> exec_event" where
  "client_msg typ txt cols rows =
     ClientSends (Some \<lparr>msg_Type = typ, msg_Data = txt, msg_Cols = cols, msg_Rows = rows, msg_ExitCode = 0\<rparr>)"

definition sample_events :: "exec_event list" where
  "sample_events =
     [client_msg ''input'' ''ls'' 0 0, StdinRead 1, Output ''a'' True, StdinRead 8, client_msg ''resize'' [] 100 40, Output ''b'' True,
      StreamEnds (ExitStatus 2), SendExit True]"

definition sample_session :: exec_session where
  "sample_session =
     \<lparr>xs_reader = Reading, xs_phase = ExitSent, xs_queue = \<lparr>sq_items = [\<lparr>sz_Width = 100, sz_Height = 40\<rparr>], sq_closed = False\<rparr>,
      xs_stdin_closed = False, xs_cancelled = False, xs_ws_ok = True, xs_sent = [output_msg ''a'', output_msg ''b'', exit_msg 2],
      xs_read = ''ls'', xs_sizes = [], xs_panicked = False\<rparr>"

lemmas sample_run = sample_events_def sample_session_def client_msg_def asked_sizes_def session_defs


theorem late_resize_panics_witness:
  "xs_panicked (the (exec_step (client_msg ''resize'' [] 100 40)
     (the (exec_run [StreamEnds ExecDone, SendExit True, Deferred, Deferred, Deferred] (exec_start 24 80)))))"
  using late_resize_panics [of "[StreamEnds ExecDone, SendExit True, Deferred, Deferred, Deferred]" 24 80
      "the (exec_run [StreamEnds ExecDone, SendExit True, Deferred, Deferred, Deferred] (exec_start 24 80))"
      "client_msg ''resize'' [] 100 40"
      "the (exec_step (client_msg ''resize'' [] 100 40)
        (the (exec_run [StreamEnds ExecDone, SendExit True, Deferred, Deferred, Deferred] (exec_start 24 80))))"]
  by (simp add: sample_run)

end
