(* ===== verification/Installer_Shell.thy ===== *)
theory Installer_Shell
  imports Go_Strings
begin

text \<open>
  The command lines of the installer, \<open>tools/liteboxd-installer/internal/sshx/client.go\<close> and the helpers of
  \<open>internal/installer/cluster/manager.go\<close>: quoting for the shell, the wrapping of a command for \<open>bash\<close> and \<open>sudo\<close>, and the
  redaction of the node token in logs. What a shell makes of a command line is not modelled.
\<close>

section \<open>Quoting\<close>

abbreviation "squote \<equiv> CHR 0x27"
abbreviation "dquote \<equiv> CHR 0x22"
abbreviation "newline \<equiv> CHR 0x0A"

text \<open>\<open>strings.ReplaceAll\<close> of a single quote by a quote that ends, a quoted quote and a quote that begins.\<close>

fun escape_quotes :: "string \<Rightarrow> string" where
  "escape_quotes [] = []"
| "escape_quotes (c # cs) = (if c = squote then [squote, dquote, squote, dquote, squote] else [c]) @ escape_quotes cs"

definition shellQuote :: "string \<Rightarrow> string" where
  "shellQuote v = (if v = [] then [squote, squote] else [squote] @ escape_quotes v @ [squote])"

section \<open>Running a command on a host (sshx/client.go)\<close>

record Target =
  tg_Host :: string
  tg_Port :: int
  tg_User :: string
  tg_Password :: string
  tg_Sudo :: bool
  tg_SudoPassword :: string

definition wrap_command :: "Target \<Rightarrow> string \<Rightarrow> bool \<Rightarrow> string" where
  "wrap_command t command useSudo =
     (if \<not> useSudo \<or> \<not> tg_Sudo t then ''bash -lc '' @ shellQuote command
      else
        let password = (if tg_SudoPassword t = [] then tg_Password t else tg_SudoPassword t) in
        ''printf '' @ [squote, CHR ''%'', CHR ''s'', CHR 0x5C, CHR ''n'', squote] @ '' '' @ shellQuote password @
        '' | sudo -S -p '' @ [squote, squote] @ '' bash -lc '' @ shellQuote command)"

section \<open>Redaction (cluster/manager.go)\<close>

text \<open>The regular expressions \<open>K3S_TOKEN='[^']*'\<close> and \<open>K3S_TOKEN=[^\s]+\<close>.\<close>

definition token_var :: string where
  "token_var = ''K3S_TOKEN=''"

definition is_re_space :: "char \<Rightarrow> bool" where
  "is_re_space c \<longleftrightarrow> c \<in> {CHR 0x09, CHR 0x0A, CHR 0x0C, CHR 0x0D, CHR '' ''}"

text \<open>The length of a match at the start of the text, if there is one.\<close>

definition match_quoted :: "string \<Rightarrow> nat option" where
  "match_quoted s =
     (if has_prefix (token_var @ [squote]) s then
        (let n = length (takeWhile (\<lambda>c. c \<noteq> squote) (drop (length token_var + 1) s)) in
         if length token_var + 1 + n < length s then Some (length token_var + 2 + n) else None)
      else None)"

definition match_spaced :: "string \<Rightarrow> nat option" where
  "match_spaced s =
     (if has_prefix token_var s then
        (let n = length (takeWhile (\<lambda>c. \<not> is_re_space c) (drop (length token_var) s)) in
         if 0 < n then Some (length token_var + n) else None)
      else None)"

text \<open>\<open>ReplaceAllString\<close> takes the leftmost matches; no match is empty, so each of them consumes a character.\<close>

fun replace_matches :: "(string \<Rightarrow> nat option) \<Rightarrow> string \<Rightarrow> string \<Rightarrow> string" where
  "replace_matches m new [] = []"
| "replace_matches m new (c # cs) =
     (case m (c # cs) of
        None \<Rightarrow> c # replace_matches m new cs
      | Some n \<Rightarrow> new @ replace_matches m new (drop (n - 1) cs))"

definition sanitizeCommand :: "string \<Rightarrow> string" where
  "sanitizeCommand command =
     (let s = replace_matches match_quoted (token_var @ [squote] @ ''***'' @ [squote]) command
      in replace_matches match_spaced (token_var @ ''***'') s)"

definition sanitizeOutput :: "string \<Rightarrow> string \<Rightarrow> string" where
  "sanitizeOutput command out =
     (if out = [] then []
      else if contains_str command ''node-token'' \<or> contains_str command ''K3S_TOKEN'' then ''[REDACTED]'' else out)"

section \<open>Quoted words\<close>

lemma escape_quotes_inj [simp]: "escape_quotes a = escape_quotes b \<longleftrightarrow> a = b"
proof (induction a arbitrary: b)
  case Nil
  then show ?case
    by (cases b) simp_all
next
  case (Cons c a)
  then show ?case
    by (cases b) (auto split: if_splits)
qed

text \<open>No two values are quoted alike, and no two commands for the same host are wrapped alike.\<close>

lemma shellQuote_inj [simp]: "shellQuote a = shellQuote b \<longleftrightarrow> a = b"
  by (cases a; cases b; simp add: shellQuote_def; fastforce)

lemma wrap_command_inj [simp]: "wrap_command t c u = wrap_command t c' u \<longleftrightarrow> c = c'"
  by (auto simp: wrap_command_def Let_def)

section \<open>Redacted tokens\<close>

lemma contains_drop: "has_prefix p (drop i s) \<Longrightarrow> contains_str s p"
  by (induction i arbitrary: s; case_tac s) (auto simp: has_prefix_def)

text \<open>No match begins in a text that ends with a blank and does not contain the variable.\<close>

lemma no_match_before:
  assumes "\<not> contains_str (p @ '' '') token_var" "i \<le> length p"
  shows "\<not> has_prefix token_var (drop i (p @ '' '') @ rest)"
proof
  assume pre: "has_prefix token_var (drop i (p @ '' '') @ rest)"
  have "token_var \<noteq> []" "CHR '' '' \<notin> set token_var"
    by (simp_all add: token_var_def)
  show False
  proof (cases "length token_var \<le> length (drop i (p @ '' ''))")
    case True
    then have "has_prefix token_var (drop i (p @ '' ''))"
      using pre by (simp add: has_prefix_def)
    then show False
      using assms(1) contains_drop by blast
  next
    case False
    then have eq: "drop i (p @ '' '') @ take (length token_var - length (drop i (p @ '' ''))) rest = token_var"
      using pre by (simp add: has_prefix_def)
    have "CHR '' '' \<in> set (drop i (p @ '' '') @ take (length token_var - length (drop i (p @ '' ''))) rest)"
      using assms(2) by simp
    then show False
      using \<open>CHR '' '' \<notin> set token_var\<close> unfolding eq by (rule notE [rotated])
  qed
qed

lemma replace_before:
  assumes "\<And>i. i < length p \<Longrightarrow> m (drop i p @ rest) = None"
  shows "replace_matches m new (p @ rest) = p @ replace_matches m new rest"
  using assms
proof (induction p)
  case (Cons c p)
  have "m (drop i p @ rest) = None" if "i < length p" for i
    using Cons.prems [of "Suc i"] that by simp
  then show ?case
    using Cons.IH Cons.prems [of 0] by simp
qed simp

lemma replace_none:
  "(\<And>i. i < length s \<Longrightarrow> m (drop i s) = None) \<Longrightarrow> replace_matches m new s = s"
  using replace_before [of s m "[]" new] by simp

lemma replace_match:
  "m s = Some n \<Longrightarrow> 0 < n \<Longrightarrow> s \<noteq> [] \<Longrightarrow> replace_matches m new s = new @ replace_matches m new (drop n s)"
  by (cases s) (simp_all add: drop_Cons')

lemma no_var_no_match:
  assumes "\<not> has_prefix token_var s"
  shows "match_quoted s = None" "match_spaced s = None"
  using assms by (auto simp: match_quoted_def match_spaced_def has_prefix_iff token_var_def)

text \<open>What follows the token of a command: a blank, and no second variable and no quote.\<close>

definition plain_tail :: "string \<Rightarrow> bool" where
  "plain_tail q \<longleftrightarrow> hd q = CHR '' '' \<and> q \<noteq> [] \<and> CHR ''K'' \<notin> set q \<and> squote \<notin> set q"

lemma no_var_in_tail:
  assumes "plain_tail q"
  shows "\<not> has_prefix token_var (drop i q)"
proof
  assume "has_prefix token_var (drop i q)"
  then have "CHR ''K'' \<in> set (drop i q)"
    by (auto simp: has_prefix_iff token_var_def)
  then show False
    using assms set_drop_subset [of i q] by (auto simp: plain_tail_def)
qed

lemma replace_tail: "plain_tail q \<Longrightarrow> m \<in> {match_quoted, match_spaced} \<Longrightarrow> replace_matches m new q = q"
  by (rule replace_none) (use no_var_in_tail no_var_no_match in auto)

text \<open>A match of the first expression ends at a quote, so it stays within the word it begins in.\<close>

lemma match_quoted_closes:
  assumes "match_quoted s = Some n"
  shows "0 < n \<and> n \<le> length s \<and> s ! (n - 1) = squote"
proof -
  let ?k = "length token_var + 1"
  let ?w = "takeWhile (\<lambda>c. c \<noteq> squote) (drop ?k s)"
  have n: "n = ?k + 1 + length ?w" "?k + length ?w < length s"
    using assms by (auto simp: match_quoted_def Let_def split: if_splits)
  then have "length ?w < length (drop ?k s)"
    by simp
  then have "drop ?k s ! length ?w = squote"
    using nth_length_takeWhile by blast
  then show ?thesis
    using n by simp
qed

lemma match_quoted_within:
  assumes "match_quoted (r @ q) = Some n" "plain_tail q"
  shows "0 < n \<and> n \<le> length r"
proof (rule ccontr)
  note closes = match_quoted_closes [OF assms(1)]
  assume "\<not> (0 < n \<and> n \<le> length r)"
  then have "length r \<le> n - 1" "n - 1 - length r < length q"
    using closes by auto
  then have "squote \<in> set q"
    using closes nth_mem [of "n - 1 - length r" q] by (simp add: nth_append)
  then show False
    using assms(2) by (simp add: plain_tail_def)
qed

text \<open>So the rest of the word stays a word without blanks, and the tail is left alone.\<close>

definition no_space :: "string \<Rightarrow> bool" where
  "no_space s \<longleftrightarrow> (\<forall>c \<in> set s. \<not> is_re_space c)"

lemma redact_quoted_word:
  assumes "plain_tail q" "no_space new" "no_space r"
  shows "\<exists>x. no_space x \<and> replace_matches match_quoted new (r @ q) = x @ q"
  using assms(3)
proof (induction r rule: length_induct)
  case (1 r)
  show ?case
  proof (cases r)
    case Nil
    then show ?thesis
      using replace_tail [OF assms(1)] by (auto simp: no_space_def)
  next
    case (Cons c cs)
    show ?thesis
    proof (cases "match_quoted (r @ q)")
      case None
      obtain x where "no_space x" "replace_matches match_quoted new (cs @ q) = x @ q"
        using 1 Cons by (auto simp: no_space_def)
      then show ?thesis
        using None Cons 1(2) by (intro exI [of _ "c # x"]) (simp add: no_space_def)
    next
      case (Some n)
      then have n: "0 < n" "n \<le> length r"
        using match_quoted_within assms(1) by auto
      have "no_space (drop n r)" "length (drop n r) < length r"
        using 1(2) n set_drop_subset [of n r] by (auto simp: no_space_def)
      then obtain x where "no_space x" "replace_matches match_quoted new (drop n r @ q) = x @ q"
        using 1(1) by blast
      moreover have "r @ q \<noteq> []"
        using Cons by simp
      from replace_match [where m = match_quoted, OF Some n(1) this, of new] n(2)
      have "replace_matches match_quoted new (r @ q) = new @ replace_matches match_quoted new (drop n r @ q)"
        by simp
      ultimately show ?thesis
        using assms(2) by (intro exI [of _ "new @ x"]) (simp add: no_space_def ball_Un)
    qed
  qed
qed

lemma redact_spaced_word:
  assumes "plain_tail q" "no_space x" "x \<noteq> []"
  shows "replace_matches match_spaced new (token_var @ x @ q) = new @ q"
proof -
  have "takeWhile (\<lambda>c. \<not> is_re_space c) (x @ q) = x"
    using assms by (cases q) (auto simp: no_space_def plain_tail_def is_re_space_def takeWhile_append)
  then have "match_spaced (token_var @ x @ q) = Some (length token_var + length x)"
    using assms(3) by (simp add: match_spaced_def)
  then show ?thesis
    using replace_match [of match_spaced "token_var @ x @ q"] replace_tail [OF assms(1)] assms(3) by simp
qed

lemma no_space_escape: "no_space v \<Longrightarrow> no_space (escape_quotes v)"
proof (induction v)
  case (Cons c v)
  have "\<not> is_re_space squote" "\<not> is_re_space dquote"
    by (simp_all add: is_re_space_def)
  then show ?case
    using Cons by (simp add: no_space_def)
qed simp

lemma sanitize_hides:
  assumes "\<not> contains_str (p @ '' '') token_var" "tok \<noteq> []" "no_space tok" "plain_tail q"
  shows "sanitizeCommand (p @ '' '' @ token_var @ shellQuote tok @ q) = p @ '' '' @ token_var @ ''***'' @ q"
proof -
  let ?new = "token_var @ [squote] @ ''***'' @ [squote]"
  have new: "no_space ?new"
    by (simp add: no_space_def token_var_def is_re_space_def)
  have before: "match_quoted (drop i (p @ '' '') @ rest) = None \<and> match_spaced (drop i (p @ '' '') @ rest) = None"
    if "i < length (p @ '' '')" for i rest
    using no_match_before [OF assms(1), of i rest] that no_var_no_match by simp
  have "squote \<in> set (escape_quotes tok @ [squote])"
    by simp
  from split_list_first [OF this] obtain u r where ur: "escape_quotes tok @ [squote] = u @ squote # r" "squote \<notin> set u"
    by blast
  then have quoted: "shellQuote tok = squote # u @ squote # r"
    using assms(2) by (simp add: shellQuote_def)
  have "no_space (escape_quotes tok @ [squote])"
    using no_space_escape [OF assms(3)] by (simp add: no_space_def is_re_space_def)
  then have "no_space r"
    by (simp add: ur(1)) (simp add: no_space_def)
  then obtain x where x: "no_space x" "replace_matches match_quoted ?new (r @ q) = x @ q"
    using redact_quoted_word [OF assms(4) new] by blast
  let ?s = "token_var @ shellQuote tok @ q"
  have "takeWhile (\<lambda>c. c \<noteq> squote) (u @ squote # r @ q) = u"
    using ur(2) by (induction u) auto
  then have "match_quoted ?s = Some (length token_var + 2 + length u)"
    by (simp add: match_quoted_def quoted has_prefix_def Let_def)
  from replace_match [where m = match_quoted, OF this] have "replace_matches match_quoted ?new ?s = ?new @ x @ q"
    using x(2) by (simp add: quoted)
  then have "replace_matches match_quoted ?new (p @ '' '' @ ?s) = p @ '' '' @ token_var @ ([squote] @ ''***'' @ [squote] @ x) @ q"
    using replace_before [of "p @ '' ''" match_quoted ?s] before by simp
  moreover have "no_space ([squote] @ ''***'' @ [squote] @ x)"
    using x(1) by (simp add: no_space_def is_re_space_def)
  ultimately show ?thesis
    using replace_before [of "p @ '' ''" match_spaced] before
      redact_spaced_word [OF assms(4), of "[squote] @ ''***'' @ [squote] @ x" "token_var @ ''***''"]
    by (simp add: sanitizeCommand_def Let_def)
qed

end
