(* ===== verification/Installer_Config.thy ===== *)
theory Installer_Config
  imports Go_Strings "HOL-Library.List_Lexorder" "HOL-Library.Char_ord"
begin

text \<open>
  The configuration of the installer, \<open>tools/liteboxd-installer/internal/config/config.go\<close>: the expansion of environment variables
  in every string, the defaults, and the validation, which accepts or rejects with the first of its errors. The YAML
  decoder, the file and the existence of paths are arguments.
\<close>

section \<open>Data\<close>

record K3sInstallConfig =
  ki_ScriptURL :: string
  ki_Mirror :: string

record K3sConfig =
  k3_Version :: string
  k3_TLSSAN :: "string list"
  k3_InstallArgs :: "string list"

record NodeConfig =
  nd_Host :: string
  nd_NodeIP :: string
  nd_Port :: int
  nd_User :: string
  nd_Password :: string
  nd_Sudo :: bool
  nd_SudoPassword :: string
  nd_K3s :: K3sConfig

text \<open>The mirrors of the registries, a map from names to endpoints.\<close>

record ClusterConfig =
  cl_Name :: string
  cl_K3sInstall :: K3sInstallConfig
  cl_Mirrors :: "(string \<times> string list) list"
  cl_Master :: NodeConfig
  cl_Agents :: "NodeConfig list"

record CiliumConfig =
  ci_Version :: string
  ci_CLIVersion :: string
  ci_CLIDownloadBaseURL :: string
  ci_PodCIDR :: string
  ci_KubeProxyReplacement :: bool
  ci_EnableEgressGateway :: bool

record NetworkConfig =
  nw_CNI :: string
  nw_Cilium :: CiliumConfig

record LonghornConfig =
  lh_Enabled :: bool
  lh_Namespace :: string
  lh_ReleaseName :: string
  lh_ChartRepoURL :: string
  lh_ChartVersion :: string
  lh_DefaultReplicaCount :: int
  lh_SetDefaultStorageClass :: "bool option"
  lh_HelmInstallScriptURL :: string

record SecurityConfig =
  se_TokenEncryptionKey :: string
  se_TokenEncryptionKeyID :: string
  se_AdminUsername :: string
  se_AdminInitialPassword :: string

record ImageConfig =
  im_API :: string
  im_Gateway :: string
  im_Web :: string

record LiteBoxdConfig =
  lb_NamespaceSystem :: string
  lb_NamespaceSandbox :: string
  lb_IngressHost :: string
  lb_GatewayIngressHost :: string
  lb_GatewayURL :: string
  lb_MetadataRetentionDays :: int
  lb_Security :: SecurityConfig
  lb_ConfigDir :: string
  lb_Images :: ImageConfig
  lb_DeploySandboxResources :: "bool option"

record RuntimeConfig =
  rt_Parallelism :: int
  rt_SSHTimeoutSeconds :: int
  rt_CommandTimeoutSeconds :: int
  rt_RemoveAbsentAgents :: bool
  rt_DryRun :: bool

record Config =
  cfg_Cluster :: ClusterConfig
  cfg_Network :: NetworkConfig
  cfg_Storage :: LonghornConfig
  cfg_LiteBoxd :: LiteBoxdConfig
  cfg_Runtime :: RuntimeConfig

section \<open>Environment variables\<close>

text \<open>\<open>os.ExpandEnv\<close>: the name after a dollar sign and how many bytes it takes.\<close>

definition is_special_var :: "char \<Rightarrow> bool" where
  "is_special_var c \<longleftrightarrow> c \<in> set ''*#$@!?-0123456789''"

definition is_alpha_num :: "char \<Rightarrow> bool" where
  "is_alpha_num c \<longleftrightarrow> c \<in> set ''_0123456789abcdefghijklmnopqrstuvwxyzABCDEFGHIJKLMNOPQRSTUVWXYZ''"

definition getShellName :: "string \<Rightarrow> string \<times> nat" where
  "getShellName s =
     (if hd s = CHR ''{'' then
        (if 2 < length s \<and> is_special_var (s ! 1) \<and> s ! 2 = CHR ''}'' then ([s ! 1], 3)
         else let name = takeWhile (\<lambda>c. c \<noteq> CHR ''}'') (tl s) in
           if length name = length (tl s) then ([], 1)
           else if name = [] then ([], 2) else (name, length name + 2))
      else if is_special_var (hd s) then ([hd s], 1)
      else (takeWhile is_alpha_num s, length (takeWhile is_alpha_num s)))"

fun expand_env :: "(string \<Rightarrow> string) \<Rightarrow> string \<Rightarrow> string" where
  "expand_env env [] = []"
| "expand_env env (c # cs) =
     (if c = CHR ''$'' \<and> cs \<noteq> [] then
        (let (name, w) = getShellName cs in
         (if name = [] \<and> 0 < w then [] else if name = [] then [c] else env name) @ expand_env env (drop w cs))
      else c # expand_env env cs)"

text \<open>
  \<open>expandEnvStrings\<close> walks the structure by reflection: it rewrites every string in structs and slices and does not descend into the
  map of mirrors.
\<close>

definition expand_k3s :: "(string \<Rightarrow> string) \<Rightarrow> K3sConfig \<Rightarrow> K3sConfig" where
  "expand_k3s e k = \<lparr>k3_Version = e (k3_Version k), k3_TLSSAN = map e (k3_TLSSAN k), k3_InstallArgs = map e (k3_InstallArgs k)\<rparr>"

definition expand_node :: "(string \<Rightarrow> string) \<Rightarrow> NodeConfig \<Rightarrow> NodeConfig" where
  "expand_node e n =
     n\<lparr>nd_Host := e (nd_Host n), nd_NodeIP := e (nd_NodeIP n), nd_User := e (nd_User n), nd_Password := e (nd_Password n),
       nd_SudoPassword := e (nd_SudoPassword n), nd_K3s := expand_k3s e (nd_K3s n)\<rparr>"

definition expand_cluster :: "(string \<Rightarrow> string) \<Rightarrow> ClusterConfig \<Rightarrow> ClusterConfig" where
  "expand_cluster e c =
     c\<lparr>cl_Name := e (cl_Name c),
       cl_K3sInstall := \<lparr>ki_ScriptURL = e (ki_ScriptURL (cl_K3sInstall c)), ki_Mirror = e (ki_Mirror (cl_K3sInstall c))\<rparr>,
       cl_Master := expand_node e (cl_Master c), cl_Agents := map (expand_node e) (cl_Agents c)\<rparr>"

definition expand_network :: "(string \<Rightarrow> string) \<Rightarrow> NetworkConfig \<Rightarrow> NetworkConfig" where
  "expand_network e n =
     (let ci = nw_Cilium n in
      \<lparr>nw_CNI = e (nw_CNI n),
       nw_Cilium = ci\<lparr>ci_Version := e (ci_Version ci), ci_CLIVersion := e (ci_CLIVersion ci),
         ci_CLIDownloadBaseURL := e (ci_CLIDownloadBaseURL ci), ci_PodCIDR := e (ci_PodCIDR ci)\<rparr>\<rparr>)"

definition expand_longhorn :: "(string \<Rightarrow> string) \<Rightarrow> LonghornConfig \<Rightarrow> LonghornConfig" where
  "expand_longhorn e l =
     l\<lparr>lh_Namespace := e (lh_Namespace l), lh_ReleaseName := e (lh_ReleaseName l), lh_ChartRepoURL := e (lh_ChartRepoURL l),
       lh_ChartVersion := e (lh_ChartVersion l), lh_HelmInstallScriptURL := e (lh_HelmInstallScriptURL l)\<rparr>"

definition expand_liteboxd :: "(string \<Rightarrow> string) \<Rightarrow> LiteBoxdConfig \<Rightarrow> LiteBoxdConfig" where
  "expand_liteboxd e l =
     (let s = lb_Security l; i = lb_Images l in
      l\<lparr>lb_NamespaceSystem := e (lb_NamespaceSystem l), lb_NamespaceSandbox := e (lb_NamespaceSandbox l),
        lb_IngressHost := e (lb_IngressHost l), lb_GatewayIngressHost := e (lb_GatewayIngressHost l),
        lb_GatewayURL := e (lb_GatewayURL l), lb_ConfigDir := e (lb_ConfigDir l),
        lb_Security := \<lparr>se_TokenEncryptionKey = e (se_TokenEncryptionKey s), se_TokenEncryptionKeyID = e (se_TokenEncryptionKeyID s),
          se_AdminUsername = e (se_AdminUsername s), se_AdminInitialPassword = e (se_AdminInitialPassword s)\<rparr>,
        lb_Images := \<lparr>im_API = e (im_API i), im_Gateway = e (im_Gateway i), im_Web = e (im_Web i)\<rparr>\<rparr>)"

definition expandEnvStrings :: "(string \<Rightarrow> string) \<Rightarrow> Config \<Rightarrow> Config" where
  "expandEnvStrings env c =
     (let e = (\<lambda>s. trim_space (expand_env env s)) in
      c\<lparr>cfg_Cluster := expand_cluster e (cfg_Cluster c), cfg_Network := expand_network e (cfg_Network c),
        cfg_Storage := expand_longhorn e (cfg_Storage c), cfg_LiteBoxd := expand_liteboxd e (cfg_LiteBoxd c)\<rparr>)"

section \<open>Paths\<close>

text \<open>\<open>filepath.Clean\<close>, \<open>Dir\<close>, \<open>Join\<close> and \<open>IsAbs\<close> on a system with slashes.\<close>

fun clean_parts :: "bool \<Rightarrow> string list \<Rightarrow> string list \<Rightarrow> string list" where
  "clean_parts rooted [] out = rev out"
| "clean_parts rooted (x # xs) out =
     (if x = [] \<or> x = ''.'' then clean_parts rooted xs out
      else if x = ''..'' then
        (case out of
           [] \<Rightarrow> clean_parts rooted xs (if rooted then [] else [''..''])
         | y # ys \<Rightarrow> clean_parts rooted xs (if y = ''..'' then ''..'' # out else ys))
      else clean_parts rooted xs (x # out))"

definition path_clean :: "string \<Rightarrow> string" where
  "path_clean p =
     (let rooted = has_prefix ''/'' p;
          body = join ''/'' (clean_parts rooted (split_char (CHR ''/'') p) []) in
      if rooted then ''/'' @ body else if body = [] then ''.'' else body)"

definition path_dir :: "string \<Rightarrow> string" where
  "path_dir p = path_clean (rev (dropWhile (\<lambda>c. c \<noteq> CHR ''/'') (rev p)))"

definition path_join :: "string \<Rightarrow> string \<Rightarrow> string" where
  "path_join a b =
     (if a = [] \<and> b = [] then [] else if a = [] then path_clean b else path_clean (a @ ''/'' @ b))"

text \<open>\<open>stat\<close> says which paths exist.\<close>

definition resolveRelativePath :: "(string \<Rightarrow> bool) \<Rightarrow> string \<Rightarrow> string \<Rightarrow> string" where
  "resolveRelativePath stat configPath relPath =
     (let cwdRelative = path_clean relPath in
      if stat cwdRelative then cwdRelative
      else
        let cfgRelative = path_clean (path_join (path_dir configPath) relPath) in
        if stat cfgRelative then cfgRelative else cwdRelative)"

section \<open>Defaults\<close>

definition or_else :: "string \<Rightarrow> string \<Rightarrow> string" where
  "or_else s d = (if s = [] then d else s)"

definition or_positive :: "int \<Rightarrow> int \<Rightarrow> int" where
  "or_positive n d = (if n \<le> 0 then d else n)"

definition or_true :: "bool option \<Rightarrow> bool option" where
  "or_true b = (case b of None \<Rightarrow> Some True | Some x \<Rightarrow> Some x)"

definition default_node :: "NodeConfig \<Rightarrow> NodeConfig" where
  "default_node n =
     n\<lparr>nd_Port := (if nd_Port n = 0 then 22 else nd_Port n), nd_NodeIP := or_else (nd_NodeIP n) (nd_Host n),
       nd_User := or_else (nd_User n) ''root''\<rparr>"

definition default_cluster :: "ClusterConfig \<Rightarrow> ClusterConfig" where
  "default_cluster c =
     (let mirror = or_else (ki_Mirror (cl_K3sInstall c)) ''default'' in
      c\<lparr>cl_Name := or_else (cl_Name c) ''liteboxd'',
        cl_K3sInstall := \<lparr>ki_ScriptURL = or_else (ki_ScriptURL (cl_K3sInstall c))
            (if mirror = ''cn'' then ''https://rancher-mirror.rancher.cn/k3s/k3s-install.sh'' else ''https://get.k3s.io''),
          ki_Mirror = mirror\<rparr>,
        cl_Master := default_node (cl_Master c), cl_Agents := map default_node (cl_Agents c)\<rparr>)"

definition default_network :: "NetworkConfig \<Rightarrow> NetworkConfig" where
  "default_network n =
     (let ci = nw_Cilium n in
      \<lparr>nw_CNI = or_else (nw_CNI n) ''cilium'',
       nw_Cilium = ci\<lparr>ci_Version := or_else (ci_Version ci) ''1.18.6'', ci_CLIVersion := or_else (ci_CLIVersion ci) ''v0.19.1'',
         ci_CLIDownloadBaseURL := or_else (ci_CLIDownloadBaseURL ci) ''https://cnb.cool/DragonOS-Community/cilium-cli/-/releases/download'',
         ci_PodCIDR := or_else (ci_PodCIDR ci) ''10.42.0.0/16''\<rparr>\<rparr>)"

definition default_longhorn :: "LonghornConfig \<Rightarrow> LonghornConfig" where
  "default_longhorn l =
     l\<lparr>lh_Namespace := or_else (lh_Namespace l) ''longhorn-system'', lh_ReleaseName := or_else (lh_ReleaseName l) ''longhorn'',
       lh_ChartRepoURL := or_else (lh_ChartRepoURL l) ''https://charts.longhorn.io'',
       lh_DefaultReplicaCount := or_positive (lh_DefaultReplicaCount l) 1,
       lh_SetDefaultStorageClass := or_true (lh_SetDefaultStorageClass l),
       lh_HelmInstallScriptURL := or_else (lh_HelmInstallScriptURL l) ''https://raw.githubusercontent.com/helm/helm/main/scripts/get-helm-3''\<rparr>"

definition default_liteboxd :: "(string \<Rightarrow> bool) \<Rightarrow> string \<Rightarrow> LiteBoxdConfig \<Rightarrow> LiteBoxdConfig" where
  "default_liteboxd stat configPath l =
     (let host = or_else (lb_IngressHost l) ''liteboxd.local''; s = lb_Security l in
      l\<lparr>lb_NamespaceSystem := or_else (lb_NamespaceSystem l) ''liteboxd-system'',
        lb_NamespaceSandbox := or_else (lb_NamespaceSandbox l) ''liteboxd-sandbox'',
        lb_IngressHost := host, lb_GatewayIngressHost := or_else (lb_GatewayIngressHost l) (''gateway.'' @ host),
        lb_ConfigDir := (if lb_ConfigDir l \<noteq> [] \<and> \<not> has_prefix ''/'' (lb_ConfigDir l)
                         then resolveRelativePath stat configPath (lb_ConfigDir l) else lb_ConfigDir l),
        lb_DeploySandboxResources := or_true (lb_DeploySandboxResources l),
        lb_MetadataRetentionDays := or_positive (lb_MetadataRetentionDays l) 7,
        lb_Security := s\<lparr>se_TokenEncryptionKeyID := or_else (se_TokenEncryptionKeyID s) ''v1'',
          se_AdminUsername := or_else (se_AdminUsername s) ''admin''\<rparr>\<rparr>)"

definition default_runtime :: "RuntimeConfig \<Rightarrow> RuntimeConfig" where
  "default_runtime r =
     r\<lparr>rt_Parallelism := or_positive (rt_Parallelism r) 5, rt_SSHTimeoutSeconds := or_positive (rt_SSHTimeoutSeconds r) 15,
       rt_CommandTimeoutSeconds := or_positive (rt_CommandTimeoutSeconds r) 1200\<rparr>"

definition setDefaults :: "(string \<Rightarrow> bool) \<Rightarrow> string \<Rightarrow> Config \<Rightarrow> Config" where
  "setDefaults stat configPath c =
     c\<lparr>cfg_Cluster := default_cluster (cfg_Cluster c), cfg_Network := default_network (cfg_Network c),
       cfg_Storage := default_longhorn (cfg_Storage c), cfg_LiteBoxd := default_liteboxd stat configPath (cfg_LiteBoxd c),
       cfg_Runtime := default_runtime (cfg_Runtime c)\<rparr>"

section \<open>Versions\<close>

datatype version_error = NotSemver | NoNumber

text \<open>The numbers wrap at 64 bits.\<close>

definition version_part :: "string \<Rightarrow> int option" where
  "version_part p =
     (let digits = takeWhile (\<lambda>c. c \<in> set ''0123456789'') p in
      if digits = [] then None else Some (foldl (\<lambda>n c. wrap64 (wrap64 (n * 10) + (of_char c - 48))) 0 digits))"

definition parseVersion :: "string \<Rightarrow> version_error + (int \<times> int \<times> int)" where
  "parseVersion v =
     (case split_char (CHR ''.'') (trim_space (trim_prefix ''v'' v)) of
        a # b # c # _ \<Rightarrow>
          (case (version_part a, version_part b, version_part c) of
             (Some x, Some y, Some z) \<Rightarrow> Inr (x, y, z)
           | _ \<Rightarrow> Inl NoNumber)
      | _ \<Rightarrow> Inl NotSemver)"

definition versionLTE :: "string \<Rightarrow> string \<Rightarrow> version_error + bool" where
  "versionLTE actual most =
     (case parseVersion actual of
        Inl e \<Rightarrow> Inl e
      | Inr (a0, a1, a2) \<Rightarrow>
          (case parseVersion most of
             Inl e \<Rightarrow> Inl e
           | Inr (m0, m1, m2) \<Rightarrow>
               Inr (if a0 < m0 then True else if a0 > m0 then False
                    else if a1 < m1 then True else if a1 > m1 then False
                    else if a2 < m2 then True else \<not> a2 > m2)))"

section \<open>Validation\<close>

datatype config_error =
    ReadError string
  | ParseError string
  | MasterHostRequired
  | MasterNodeIPRequired
  | MasterPasswordRequired
  | CNINotCilium string
  | BadMirror string
  | ScriptURLRequired
  | K3sVersionRequired
  | BadCiliumVersion string version_error
  | CiliumTooNew string
  | LonghornNamespaceRequired
  | LonghornReleaseRequired
  | LonghornChartRequired
  | LonghornReplicas int
  | LonghornHelmRequired
  | ConfigDirRequired
  | ImagesRequired
  | BadConfigDir string
  | AgentHostRequired
  | AgentNodeIPRequired string
  | AgentPasswordRequired string
  | DuplicateHost string
  | DuplicateNodeIP string

text \<open>The first error of a list of checks.\<close>

fun first_error :: "config_error option list \<Rightarrow> config_error option" where
  "first_error [] = None"
| "first_error (None # xs) = first_error xs"
| "first_error (Some e # xs) = Some e"

definition fails :: "bool \<Rightarrow> config_error \<Rightarrow> config_error option" where
  "fails b e = (if b then Some e else None)"

definition check_cilium_version :: "Config \<Rightarrow> config_error option" where
  "check_cilium_version c =
     (let v = ci_Version (nw_Cilium (cfg_Network c)) in
      if ki_Mirror (cl_K3sInstall (cfg_Cluster c)) = ''cn'' then
        (case versionLTE v ''1.18.6'' of
           Inl e \<Rightarrow> Some (BadCiliumVersion v e)
         | Inr ok \<Rightarrow> fails (\<not> ok) (CiliumTooNew v))
      else None)"

definition check_longhorn :: "LonghornConfig \<Rightarrow> config_error option" where
  "check_longhorn l =
     (if lh_Enabled l then first_error
        [fails (trim_space (lh_Namespace l) = []) LonghornNamespaceRequired,
         fails (trim_space (lh_ReleaseName l) = []) LonghornReleaseRequired,
         fails (trim_space (lh_ChartRepoURL l) = []) LonghornChartRequired,
         fails (lh_DefaultReplicaCount l \<le> 0) (LonghornReplicas (lh_DefaultReplicaCount l)),
         fails (trim_space (lh_HelmInstallScriptURL l) = []) LonghornHelmRequired]
      else None)"

definition check_liteboxd :: "(string \<Rightarrow> bool) \<Rightarrow> bool \<Rightarrow> LiteBoxdConfig \<Rightarrow> config_error option" where
  "check_liteboxd stat requireLiteBoxd l =
     (if requireLiteBoxd then first_error
        [fails (lb_ConfigDir l = []) ConfigDirRequired,
         fails (im_API (lb_Images l) = [] \<or> im_Gateway (lb_Images l) = [] \<or> im_Web (lb_Images l) = []) ImagesRequired,
         fails (\<not> stat (lb_ConfigDir l)) (BadConfigDir (lb_ConfigDir l))]
      else None)"

fun check_agents :: "string list \<Rightarrow> string list \<Rightarrow> NodeConfig list \<Rightarrow> config_error option" where
  "check_agents seenHosts seenNodeIPs [] = None"
| "check_agents seenHosts seenNodeIPs (a # as) =
     (case first_error
        [fails (nd_Host a = []) AgentHostRequired,
         fails (nd_NodeIP a = []) (AgentNodeIPRequired (nd_Host a)),
         fails (nd_Password a = []) (AgentPasswordRequired (nd_Host a)),
         fails (nd_Host a \<in> set seenHosts) (DuplicateHost (nd_Host a)),
         fails (nd_NodeIP a \<in> set seenNodeIPs) (DuplicateNodeIP (nd_NodeIP a))] of
        Some e \<Rightarrow> Some e
      | None \<Rightarrow> check_agents (nd_Host a # seenHosts) (nd_NodeIP a # seenNodeIPs) as)"

definition Validate :: "(string \<Rightarrow> bool) \<Rightarrow> bool \<Rightarrow> Config \<Rightarrow> config_error option" where
  "Validate stat requireLiteBoxd c =
     (let cl = cfg_Cluster c; m = cl_Master cl in first_error
       [fails (nd_Host m = []) MasterHostRequired,
        fails (nd_NodeIP m = []) MasterNodeIPRequired,
        fails (nd_Password m = []) MasterPasswordRequired,
        fails (nw_CNI (cfg_Network c) \<noteq> ''cilium'') (CNINotCilium (nw_CNI (cfg_Network c))),
        fails (ki_Mirror (cl_K3sInstall cl) \<noteq> ''default'' \<and> ki_Mirror (cl_K3sInstall cl) \<noteq> ''cn'') (BadMirror (ki_Mirror (cl_K3sInstall cl))),
        fails (ki_ScriptURL (cl_K3sInstall cl) = []) ScriptURLRequired,
        fails (k3_Version (nd_K3s m) = []) K3sVersionRequired,
        check_cilium_version c,
        check_longhorn (cfg_Storage c),
        check_liteboxd stat requireLiteBoxd (cfg_LiteBoxd c),
        check_agents [nd_Host m] [nd_NodeIP m] (cl_Agents cl)])"

text \<open>
  \<open>LoadWithOptions\<close>, with the content of the file or the error of reading it, and the decoder of YAML.
\<close>

definition LoadWithOptions ::
  "(string \<Rightarrow> string + Config) \<Rightarrow> (string \<Rightarrow> string) \<Rightarrow> (string \<Rightarrow> bool) \<Rightarrow> string \<Rightarrow> string + string \<Rightarrow> bool \<Rightarrow> config_error + Config" where
  "LoadWithOptions unmarshal env stat path file requireLiteBoxd =
     (case file of
        Inl e \<Rightarrow> Inl (ReadError e)
      | Inr content \<Rightarrow>
          (case unmarshal content of
             Inl e \<Rightarrow> Inl (ParseError e)
           | Inr raw \<Rightarrow>
               (let c = setDefaults stat path (expandEnvStrings env raw) in
                case Validate stat requireLiteBoxd c of Some e \<Rightarrow> Inl e | None \<Rightarrow> Inr c)))"

definition DeploySandbox :: "Config \<Rightarrow> bool" where
  "DeploySandbox c \<longleftrightarrow> lb_DeploySandboxResources (cfg_LiteBoxd c) = Some True"

definition DesiredAgentHosts :: "Config \<Rightarrow> string list" where
  "DesiredAgentHosts c = sort (map nd_Host (cl_Agents (cfg_Cluster c)))"

definition DesiredAgentNodeIPs :: "Config \<Rightarrow> string list" where
  "DesiredAgentNodeIPs c = sort (map nd_NodeIP (cl_Agents (cfg_Cluster c)))"

section \<open>What an accepted configuration satisfies\<close>

lemma first_error_None: "first_error xs = None \<longleftrightarrow> (\<forall>x \<in> set xs. x = None)"
  by (induction xs rule: first_error.induct) auto

lemma fails_simps [simp]: "fails True e = Some e" "fails False e = None" "fails b e = None \<longleftrightarrow> \<not> b"
  by (simp_all add: fails_def)

text \<open>The hosts and the addresses of the master and the agents are told apart, and every node can be reached and joined.\<close>

definition node_ok :: "NodeConfig \<Rightarrow> bool" where
  "node_ok n \<longleftrightarrow> nd_Host n \<noteq> [] \<and> nd_NodeIP n \<noteq> [] \<and> nd_Password n \<noteq> []"

definition nodes_apart :: "Config \<Rightarrow> bool" where
  "nodes_apart c \<longleftrightarrow> (let ns = cl_Master (cfg_Cluster c) # cl_Agents (cfg_Cluster c) in
     distinct (map nd_Host ns) \<and> distinct (map nd_NodeIP ns) \<and> list_all node_ok ns)"

lemma check_agents_None:
  "check_agents hs ips as = None \<longleftrightarrow>
     list_all node_ok as \<and> distinct (map nd_Host as) \<and> distinct (map nd_NodeIP as) \<and>
     set (map nd_Host as) \<inter> set hs = {} \<and> set (map nd_NodeIP as) \<inter> set ips = {}"
proof (induction as arbitrary: hs ips)
  case (Cons a as)
  show ?case
    by (auto simp: first_error_None Cons.IH node_ok_def split: option.split)
qed simp

lemma Validate_None:
  assumes "Validate stat b c = None"
  shows "nodes_apart c" "nw_CNI (cfg_Network c) = ''cilium''" "ki_Mirror (cl_K3sInstall (cfg_Cluster c)) \<in> {''default'', ''cn''}"
    and "k3_Version (nd_K3s (cl_Master (cfg_Cluster c))) \<noteq> []" "check_cilium_version c = None"
    and "check_longhorn (cfg_Storage c) = None" "check_liteboxd stat b (cfg_LiteBoxd c) = None"
  using assms
  by (auto simp: Validate_def Let_def first_error_None check_agents_None nodes_apart_def node_ok_def)

text \<open>
  A configuration that loads names every node once: no two nodes share a host or a node address, and each has a host,
  an address, a password, a user and a port. The CNI and the mirror are supported ones, Cilium is at most 1.18.6 with the Chinese mirror, the
  parallelism and the timeouts are positive, and the settings for Longhorn and LiteBoxd are there where they are asked for.
\<close>

theorem accepted_configuration:
  assumes "LoadWithOptions unmarshal env stat path file requireLiteBoxd = Inr c"
  shows "nodes_apart c \<and> list_all (\<lambda>n. nd_Port n \<noteq> 0 \<and> nd_User n \<noteq> []) (cl_Master (cfg_Cluster c) # cl_Agents (cfg_Cluster c)) \<and>
    nw_CNI (cfg_Network c) = ''cilium'' \<and> ki_Mirror (cl_K3sInstall (cfg_Cluster c)) \<in> {''default'', ''cn''} \<and>
    (ki_Mirror (cl_K3sInstall (cfg_Cluster c)) = ''cn'' \<longrightarrow> versionLTE (ci_Version (nw_Cilium (cfg_Network c))) ''1.18.6'' = Inr True) \<and>
    0 < rt_Parallelism (cfg_Runtime c) \<and> 0 < rt_SSHTimeoutSeconds (cfg_Runtime c) \<and> 0 < rt_CommandTimeoutSeconds (cfg_Runtime c) \<and>
    (lh_Enabled (cfg_Storage c) \<longrightarrow> 0 < lh_DefaultReplicaCount (cfg_Storage c) \<and> trim_space (lh_Namespace (cfg_Storage c)) \<noteq> []) \<and>
    (requireLiteBoxd \<longrightarrow> stat (lb_ConfigDir (cfg_LiteBoxd c)) \<and> im_API (lb_Images (cfg_LiteBoxd c)) \<noteq> [])"
proof -
  obtain raw where c: "c = setDefaults stat path (expandEnvStrings env raw)" and ok: "Validate stat requireLiteBoxd c = None"
    using assms by (auto simp: LoadWithOptions_def Let_def split: sum.splits option.splits)
  note checks = Validate_None [OF ok]
  have "list_all (\<lambda>n. nd_Port n \<noteq> 0 \<and> nd_User n \<noteq> []) (cl_Master (cfg_Cluster c) # cl_Agents (cfg_Cluster c))"
    by (auto simp: c setDefaults_def default_cluster_def default_node_def or_else_def Let_def list_all_iff)
  moreover have "0 < rt_Parallelism (cfg_Runtime c)" "0 < rt_SSHTimeoutSeconds (cfg_Runtime c)" "0 < rt_CommandTimeoutSeconds (cfg_Runtime c)"
    by (simp_all add: c setDefaults_def default_runtime_def or_positive_def)
  moreover have "versionLTE (ci_Version (nw_Cilium (cfg_Network c))) ''1.18.6'' = Inr True"
    if "ki_Mirror (cl_K3sInstall (cfg_Cluster c)) = ''cn''"
    using checks(5) that by (auto simp: check_cilium_version_def Let_def split: sum.splits)
  moreover have "lh_Enabled (cfg_Storage c) \<longrightarrow> 0 < lh_DefaultReplicaCount (cfg_Storage c) \<and> trim_space (lh_Namespace (cfg_Storage c)) \<noteq> []"
    using checks(6) by (auto simp: check_longhorn_def first_error_None)
  moreover have "requireLiteBoxd \<longrightarrow> stat (lb_ConfigDir (cfg_LiteBoxd c)) \<and> im_API (lb_Images (cfg_LiteBoxd c)) \<noteq> []"
    using checks(7) by (auto simp: check_liteboxd_def first_error_None)
  ultimately show ?thesis
    using checks(1-3) by blast
qed

section \<open>Witnesses\<close>

definition sample_node :: "string \<Rightarrow> string \<Rightarrow> NodeConfig" where
  "sample_node host ip =
     \<lparr>nd_Host = host, nd_NodeIP = ip, nd_Port = 0, nd_User = [], nd_Password = ''${PW}'', nd_Sudo = False, nd_SudoPassword = [],
      nd_K3s = \<lparr>k3_Version = ''v'', k3_TLSSAN = [], k3_InstallArgs = []\<rparr>\<rparr>"

definition sample_raw :: "NodeConfig list \<Rightarrow> Config" where
  "sample_raw agents =
     \<lparr>cfg_Cluster = \<lparr>cl_Name = [], cl_K3sInstall = \<lparr>ki_ScriptURL = [], ki_Mirror = ''cn''\<rparr>, cl_Mirrors = [],
        cl_Master = sample_node ''m'' [], cl_Agents = agents\<rparr>,
      cfg_Network = \<lparr>nw_CNI = [], nw_Cilium = \<lparr>ci_Version = [], ci_CLIVersion = [], ci_CLIDownloadBaseURL = [], ci_PodCIDR = [],
        ci_KubeProxyReplacement = True, ci_EnableEgressGateway = False\<rparr>\<rparr>,
      cfg_Storage = \<lparr>lh_Enabled = True, lh_Namespace = [], lh_ReleaseName = [], lh_ChartRepoURL = [], lh_ChartVersion = [],
        lh_DefaultReplicaCount = 0, lh_SetDefaultStorageClass = None, lh_HelmInstallScriptURL = []\<rparr>,
      cfg_LiteBoxd = \<lparr>lb_NamespaceSystem = [], lb_NamespaceSandbox = [], lb_IngressHost = [], lb_GatewayIngressHost = [],
        lb_GatewayURL = [], lb_MetadataRetentionDays = 0,
        lb_Security = \<lparr>se_TokenEncryptionKey = [], se_TokenEncryptionKeyID = [], se_AdminUsername = [], se_AdminInitialPassword = []\<rparr>,
        lb_ConfigDir = ''d'', lb_Images = \<lparr>im_API = ''a'', im_Gateway = ''g'', im_Web = ''w''\<rparr>, lb_DeploySandboxResources = None\<rparr>,
      cfg_Runtime = \<lparr>rt_Parallelism = 0, rt_SSHTimeoutSeconds = 0, rt_CommandTimeoutSeconds = 0, rt_RemoveAbsentAgents = True, rt_DryRun = False\<rparr>\<rparr>"

definition sample_env :: "string \<Rightarrow> string" where
  "sample_env name = (if name = ''PW'' then '' s '' else [])"

definition sample_load :: "NodeConfig list \<Rightarrow> config_error + Config" where
  "sample_load agents = LoadWithOptions (\<lambda>_. Inr (sample_raw agents)) sample_env (\<lambda>p. p = ''c/d'') ''c/i'' (Inr []) True"

text \<open>The sample with its variables expanded.\<close>

definition sample_expanded :: Config where
  "sample_expanded =
     (let c = sample_raw [(sample_node ''n'' [])\<lparr>nd_Password := ''s''\<rparr>] in
      c\<lparr>cfg_Cluster := (cfg_Cluster c)\<lparr>cl_Master := (sample_node ''m'' [])\<lparr>nd_Password := ''s''\<rparr>\<rparr>\<rparr>)"

lemma sample_words:
  "trim_space (expand_env sample_env []) = []" "trim_space (expand_env sample_env ''${PW}'') = ''s''"
  "trim_space (expand_env sample_env ''m'') = ''m''" "trim_space (expand_env sample_env ''n'') = ''n''"
  "trim_space (expand_env sample_env ''v'') = ''v''" "trim_space (expand_env sample_env ''cn'') = ''cn''"
  "trim_space (expand_env sample_env ''d'') = ''d''" "trim_space (expand_env sample_env ''a'') = ''a''"
  "trim_space (expand_env sample_env ''g'') = ''g''" "trim_space (expand_env sample_env ''w'') = ''w''"
  by code_simp+

lemma sample_expands: "expandEnvStrings sample_env (sample_raw [sample_node ''n'' []]) = sample_expanded"
  by (simp add: expandEnvStrings_def expand_cluster_def expand_node_def expand_k3s_def expand_network_def expand_longhorn_def
      expand_liteboxd_def sample_expanded_def sample_raw_def sample_node_def sample_words del: expand_env.simps)

definition sample_config :: Config where
  "sample_config = setDefaults (\<lambda>p. p = ''c/d'') ''c/i'' sample_expanded"

lemma sample_valid:
  "Validate (\<lambda>p. p = ''c/d'') True sample_config = None"
  "nd_Password (cl_Master (cfg_Cluster sample_config)) = ''s'' \<and> lb_ConfigDir (cfg_LiteBoxd sample_config) = ''c/d''"
  by code_simp+

lemma sample_loads: "sample_load [sample_node ''n'' []] = Inr sample_config"
  using sample_valid(1) by (simp add: sample_load_def LoadWithOptions_def sample_expands sample_config_def [symmetric])

theorem accepted_configuration_witness:
  "nodes_apart sample_config \<and> versionLTE (ci_Version (nw_Cilium (cfg_Network sample_config))) ''1.18.6'' = Inr True \<and>
   0 < rt_Parallelism (cfg_Runtime sample_config)"
proof -
  have "sample_load [sample_node ''n'' []] = Inr sample_config"
    by (rule sample_loads)
  moreover have "ki_Mirror (cl_K3sInstall (cfg_Cluster sample_config)) = ''cn''"
    by code_simp
  ultimately show ?thesis
    using accepted_configuration [of _ _ _ _ _ _ sample_config] unfolding sample_load_def by blast
qed

end
