(* ===== verification/Installer_Cluster.thy ===== *)
theory Installer_Cluster
  imports Installer_Shell Installer_Config Token_Cipher "HOL-Library.AList"
begin

text \<open>
  The cluster side of the installer, \<open>tools/liteboxd-installer/internal/sshx/client.go\<close> and \<open>internal/installer/cluster/\<close>: connections,
  the commands that are run on the master and the agents, and the removal of nodes. A program acts on the state \<open>'s\<close> of the
  hosts, through an SSH library that is an argument. Log lines are left out.
\<close>

section \<open>Connections and commands (sshx/client.go)\<close>

text \<open>How a session ends: it cannot be opened or started, it finishes with the error of its command, or it times out.\<close>

datatype session_end =
    NoSession go_err
  | NotStarted go_err
  | Finished string string "go_err option"
  | TimedOut string string

text \<open>A connection to a host, directly or through another, the handshake on it, and a command with its input.\<close>

record 's Ssh =
  ssh_Connect :: "Target option \<Rightarrow> Target \<Rightarrow> 's \<Rightarrow> unit res \<times> 's"
  ssh_Handshake :: "Target \<Rightarrow> 's \<Rightarrow> unit res \<times> 's"
  ssh_Session :: "Target \<Rightarrow> string \<Rightarrow> string \<Rightarrow> 's \<Rightarrow> session_end \<times> 's"

definition tg_addr :: "Target \<Rightarrow> string" where
  "tg_addr t = tg_Host t @ '':'' @ show_int (tg_Port t)"

definition sshx_Dial :: "'s Ssh \<Rightarrow> Target \<Rightarrow> ('s, unit res) state" where
  "sshx_Dial h t =
     seqE (mapE (Wrap (''dial '' @ tg_addr t)) (step_with (ssh_Connect h None t))) (\<lambda>_.
       mapE (Wrap (''ssh handshake '' @ tg_addr t)) (step_with (ssh_Handshake h t)))"

definition sshx_DialVia :: "'s Ssh \<Rightarrow> Target \<Rightarrow> Target \<Rightarrow> ('s, unit res) state" where
  "sshx_DialVia h t bastion =
     seqE (mapE (Wrap (''dial bastion '' @ tg_addr bastion)) (sshx_Dial h bastion)) (\<lambda>_.
     seqE (mapE (Wrap (''dial target via bastion '' @ tg_addr t)) (step_with (ssh_Connect h (Some bastion) t))) (\<lambda>_.
       mapE (Wrap (''ssh handshake via bastion '' @ tg_addr t)) (step_with (ssh_Handshake h t))))"

text \<open>The result has the output in any case, and an error beside it.\<close>

definition sshx_run :: "'s Ssh \<Rightarrow> Target \<Rightarrow> string \<Rightarrow> bool \<Rightarrow> string \<Rightarrow> ('s, (string \<times> string) \<times> go_err option) state" where
  "sshx_run h t command useSudo input = do {
     e \<leftarrow> step_with (ssh_Session h t (wrap_command t command useSudo) input);
     ret (case e of
       NoSession x \<Rightarrow> (([], []), Some (Wrap ''create ssh session'' x))
     | NotStarted x \<Rightarrow> (([], []), Some (Wrap ''start command'' x))
     | Finished out err x \<Rightarrow> ((trim_space out, trim_space err), map_option (Wrap ''command failed'') x)
     | TimedOut out err \<Rightarrow> ((trim_space out, trim_space err), Some (Msg ''command timed out''))) }"

section \<open>The manager (cluster/manager.go)\<close>

text \<open>\<open>mg_sched\<close> is the order in which goroutines started for a list of agents finish.\<close>

record 's Manager =
  mg_cfg :: Config
  mg_dry :: bool
  mg_ssh :: "'s Ssh"
  mg_sched :: "NodeConfig list \<Rightarrow> NodeConfig list"

abbreviation "mg_master m \<equiv> cl_Master (cfg_Cluster (mg_cfg m))"
abbreviation "mg_agents m \<equiv> cl_Agents (cfg_Cluster (mg_cfg m))"

definition agentTarget :: "NodeConfig \<Rightarrow> Target" where
  "agentTarget n =
     \<lparr>tg_Host = nd_Host n, tg_Port = nd_Port n, tg_User = nd_User n, tg_Password = nd_Password n, tg_Sudo = nd_Sudo n,
      tg_SudoPassword = nd_SudoPassword n\<rparr>"

definition masterTarget :: "'s Manager \<Rightarrow> Target" where
  "masterTarget m = agentTarget (mg_master m)"

definition runMaster :: "'s Manager \<Rightarrow> string \<Rightarrow> bool \<Rightarrow> ('s, string res) state" where
  "runMaster m command useSudo =
     (if mg_dry m then retE []
      else seqE (mapE (Wrap ''connect master'') (sshx_Dial (mg_ssh m) (masterTarget m))) (\<lambda>_. do {
        r \<leftarrow> sshx_run (mg_ssh m) (masterTarget m) command useSudo [];
        case snd r of
          None \<Rightarrow> retE (fst (fst r))
        | Some e \<Rightarrow> throw (if snd (fst r) \<noteq> [] then Msg (err_text e @ '': '' @ snd (fst r)) else e) }))"

definition dialAgent :: "'s Manager \<Rightarrow> NodeConfig \<Rightarrow> ('s, unit res) state" where
  "dialAgent m agent =
     mapE (Wrap (''connect agent '' @ nd_Host agent @ '' via master '' @ nd_Host (mg_master m)))
       (sshx_DialVia (mg_ssh m) (agentTarget agent) (masterTarget m))"

text \<open>A command on an agent, of which only the error matters.\<close>

definition run_agent :: "'s Manager \<Rightarrow> NodeConfig \<Rightarrow> string \<Rightarrow> bool \<Rightarrow> string \<Rightarrow> ('s, unit res) state" where
  "run_agent m agent command useSudo what = do {
     r \<leftarrow> sshx_run (mg_ssh m) (agentTarget agent) command useSudo [];
     ret (case snd r of None \<Rightarrow> Inr () | Some e \<Rightarrow> Inl (Wrap what e)) }"

definition findAgentByHostOrNodeIP :: "'s Manager \<Rightarrow> string \<Rightarrow> NodeConfig option" where
  "findAgentByHostOrNodeIP m v = find (\<lambda>a. nd_Host a = v \<or> nd_NodeIP a = v) (mg_agents m)"

text \<open>One goroutine for each agent; all of them run, and the first error that comes in is returned.\<close>

fun run_all :: "(NodeConfig \<Rightarrow> ('s, unit res) state) \<Rightarrow> NodeConfig list \<Rightarrow> ('s, unit res) state" where
  "run_all f [] = retE ()"
| "run_all f (a # as) = do { r \<leftarrow> f a; rs \<leftarrow> run_all f as; ret (case r of Inl e \<Rightarrow> Inl e | Inr _ \<Rightarrow> rs) }"

definition unlines :: "string list \<Rightarrow> string" where
  "unlines ls = join [newline] ls"

section \<open>Checks and registries (cluster/precheck.go, cluster/registries.go)\<close>

definition checkMasterSSH :: "'s Manager \<Rightarrow> ('s, unit res) state" where
  "checkMasterSSH m =
     (if mg_dry m then retE ()
      else seqE (mapE (Wrap (''ssh connect '' @ nd_Host (mg_master m))) (sshx_Dial (mg_ssh m) (masterTarget m))) (\<lambda>_.
        run_agent m (mg_master m) ''echo ok'' False (''ssh command check '' @ nd_Host (mg_master m))))"

definition checkAgentSSH :: "'s Manager \<Rightarrow> NodeConfig \<Rightarrow> ('s, unit res) state" where
  "checkAgentSSH m agent =
     (if mg_dry m then retE ()
      else seqE (mapE (Wrap (''ssh connect '' @ nd_Host agent)) (dialAgent m agent)) (\<lambda>_.
        run_agent m agent ''echo ok'' False (''ssh command check '' @ nd_Host agent)))"

definition Precheck :: "'s Manager \<Rightarrow> ('s, unit res) state" where
  "Precheck m = seqE (checkMasterSSH m) (\<lambda>_. run_all (checkAgentSSH m) (mg_sched m (mg_agents m)))"

definition registries_command :: "string \<Rightarrow> string" where
  "registries_command content =
     (let encoded = base64_encode content in unlines
       [''set -euo pipefail'',
        ''mkdir -p /etc/rancher/k3s'',
        ''TMP_FILE=$(mktemp)'',
        ''printf '%s' '' @ shellQuote encoded @ '' | base64 -d > \"$TMP_FILE\"'',
        ''CHANGED=0'',
        ''if [ ! -f /etc/rancher/k3s/registries.yaml ] || ! cmp -s \"$TMP_FILE\" /etc/rancher/k3s/registries.yaml; then'',
        ''  cp \"$TMP_FILE\" /etc/rancher/k3s/registries.yaml'',
        ''  CHANGED=1'',
        ''fi'',
        ''rm -f \"$TMP_FILE\"'',
        ''if [ \"$CHANGED\" = \"1\" ]; then'',
        ''  if systemctl list-unit-files | grep -q '^k3s'' @ [CHR 0x5C] @ ''.service'; then systemctl restart k3s; fi'',
        ''  if systemctl list-unit-files | grep -q '^k3s-agent'' @ [CHR 0x5C] @ ''.service'; then systemctl restart k3s-agent; fi'',
        ''fi'',
        ''echo \"$CHANGED\"''])"

definition configureRegistriesOnMaster :: "'s Manager \<Rightarrow> string \<Rightarrow> ('s, unit res) state" where
  "configureRegistriesOnMaster m content =
     (if mg_dry m then retE ()
      else seqE (mapE (Wrap (''connect host='' @ nd_Host (mg_master m) @ '' for registries''))
                   (sshx_Dial (mg_ssh m) (masterTarget m))) (\<lambda>_.
        run_agent m (mg_master m) (registries_command content) True (''configure registries host='' @ nd_Host (mg_master m))))"

definition configureRegistriesOnAgent :: "'s Manager \<Rightarrow> string \<Rightarrow> NodeConfig \<Rightarrow> ('s, unit res) state" where
  "configureRegistriesOnAgent m content agent =
     (if mg_dry m then retE ()
      else seqE (mapE (Wrap (''connect host='' @ nd_Host agent @ '' for registries via master'')) (dialAgent m agent)) (\<lambda>_.
        run_agent m agent (registries_command content) True (''configure registries host='' @ nd_Host agent)))"

text \<open>\<open>marshal\<close> is the YAML encoder.\<close>

definition ConfigureRegistriesAllNodes :: "'s Manager \<Rightarrow> ((string \<times> string list) list \<Rightarrow> string res) \<Rightarrow> ('s, unit res) state" where
  "ConfigureRegistriesAllNodes m marshal =
     (let mirrors = cl_Mirrors (cfg_Cluster (mg_cfg m)) in
      if mirrors = [] then retE ()
      else case marshal mirrors of
        Inl e \<Rightarrow> throw (Wrap ''marshal registries config'' e)
      | Inr content \<Rightarrow> seqE (configureRegistriesOnMaster m content) (\<lambda>_.
          run_all (configureRegistriesOnAgent m content) (mg_sched m (mg_agents m))))"

section \<open>K3s (cluster/k3s.go)\<close>

definition k3sMirrorEnvPrefix :: "'s Manager \<Rightarrow> string" where
  "k3sMirrorEnvPrefix m = (if ki_Mirror (cl_K3sInstall (cfg_Cluster (mg_cfg m))) = ''cn'' then ''INSTALL_K3S_MIRROR=cn '' else [])"

abbreviation "script_url m \<equiv> ki_ScriptURL (cl_K3sInstall (cfg_Cluster (mg_cfg m)))"
abbreviation "k3s_version m \<equiv> k3_Version (nd_K3s (mg_master m))"

definition install_master_command :: "'s Manager \<Rightarrow> string" where
  "install_master_command m =
     (let k = nd_K3s (mg_master m); installArgs = k3_InstallArgs k @ map (\<lambda>san. ''--tls-san='' @ san) (k3_TLSSAN k) in
      ''curl -sfL '' @ shellQuote (script_url m) @ '' | '' @ k3sMirrorEnvPrefix m @ ''INSTALL_K3S_VERSION='' @
      shellQuote (k3s_version m) @ '' INSTALL_K3S_EXEC='' @ shellQuote (join '' '' installArgs) @ '' sh -'')"

definition fix_kubeconfig_command :: "'s Manager \<Rightarrow> string" where
  "fix_kubeconfig_command m =
     ''if [ -f /etc/rancher/k3s/k3s.yaml ]; then sed -i -E 's#^('' @ [CHR 0x5C] @ ''s*server:'' @ [CHR 0x5C] @ ''s*)https://[^:]+:6443$#'' @ [CHR 0x5C] @ ''1https://'' @ nd_NodeIP (mg_master m) @ '':6443#' /etc/rancher/k3s/k3s.yaml; fi''"

definition profile_command :: string where
  "profile_command = unlines
       [''if ! grep -Eq '^'' @ [CHR 0x5C] @ ''s*(export'' @ [CHR 0x5C] @ ''s+)?KUBECONFIG=' /etc/profile; then'',
        ''  echo 'export KUBECONFIG=/etc/rancher/k3s/k3s.yaml' >> /etc/profile'',
        ''fi'']"

definition ensureRootProfileKubeconfig :: "'s Manager \<Rightarrow> ('s, unit res) state" where
  "ensureRootProfileKubeconfig m =
     seqE (mapE (Wrap ''ensure /etc/profile has KUBECONFIG'') (runMaster m profile_command True)) (\<lambda>_. retE ())"

definition InstallOrCheckMaster :: "'s Manager \<Rightarrow> ('s, unit res) state" where
  "InstallOrCheckMaster m =
     seqE (runMaster m ''if systemctl is-active --quiet k3s; then echo installed; else echo missing; fi'' True) (\<lambda>res.
     seqE (if contains_str res ''installed'' then retE ()
           else seqE (mapE (Wrap ''install k3s server'') (runMaster m (install_master_command m) True)) (\<lambda>_. retE ())) (\<lambda>_.
     seqE (mapE (Wrap ''update kubeconfig endpoint'') (runMaster m (fix_kubeconfig_command m) True)) (\<lambda>_.
     ensureRootProfileKubeconfig m)))"

definition ReadNodeToken :: "'s Manager \<Rightarrow> ('s, string res) state" where
  "ReadNodeToken m =
     (if mg_dry m then retE ''dry-run-token''
      else seqE (runMaster m ''cat /var/lib/rancher/k3s/server/node-token'' True) (\<lambda>out.
        if trim_space out = [] then throw (Msg ''empty k3s node token'') else retE (trim_space out)))"

text \<open>The command that joins an agent, up to the token and from it on.\<close>

definition join_prefix :: "'s Manager \<Rightarrow> string" where
  "join_prefix m =
     ''curl -sfL '' @ shellQuote (script_url m) @ '' | '' @ k3sMirrorEnvPrefix m @ ''INSTALL_K3S_VERSION='' @
     shellQuote (k3s_version m) @ '' K3S_URL='' @ shellQuote (''https://'' @ nd_NodeIP (mg_master m) @ '':6443'')"

definition join_command :: "'s Manager \<Rightarrow> string \<Rightarrow> string" where
  "join_command m token = join_prefix m @ '' '' @ ''K3S_TOKEN='' @ shellQuote token @ '' sh -''"

definition ensureAgentJoined :: "'s Manager \<Rightarrow> string \<Rightarrow> NodeConfig \<Rightarrow> ('s, unit res) state" where
  "ensureAgentJoined m token agent =
     (if mg_dry m then retE ()
      else seqE (dialAgent m agent) (\<lambda>_. do {
        r \<leftarrow> sshx_run (mg_ssh m) (agentTarget agent)
               ''if systemctl is-active --quiet k3s-agent; then echo installed; else echo missing; fi'' True [];
        if snd r = None \<and> contains_str (fst (fst r)) ''installed'' then retE ()
        else run_agent m agent (join_command m token) True (''install k3s agent '' @ nd_Host agent) }))"

definition JoinAgents :: "'s Manager \<Rightarrow> string \<Rightarrow> ('s, unit res) state" where
  "JoinAgents m token = (if mg_agents m = [] then retE () else run_all (ensureAgentJoined m token) (mg_sched m (mg_agents m)))"

definition wait_command :: string where
  "wait_command = unlines
       [''export KUBECONFIG=/etc/rancher/k3s/k3s.yaml'',
        ''for i in $(seq 1 90); do'',
        ''  not_ready=$(kubectl get nodes --no-headers 2>/dev/null | awk '$2 !~ /Ready/ {print $1}')'',
        ''  if [ -z \"$not_ready\" ]; then exit 0; fi'',
        ''  sleep 5'',
        ''done'',
        ''kubectl get nodes -o wide'',
        ''exit 1'']"

definition WaitNodesReady :: "'s Manager \<Rightarrow> ('s, unit res) state" where
  "WaitNodesReady m = seqE (runMaster m wait_command True) (\<lambda>_. retE ())"

section \<open>Cilium and Longhorn (cluster/fingerprint.go, cluster/cilium.go, cluster/longhorn.go)\<close>

definition canonicalizeSettings :: "string list \<Rightarrow> string list" where
  "canonicalizeSettings settings = sort (filter (\<lambda>s. s \<noteq> []) (map trim_space settings))"

text \<open>\<open>sha\<close> is SHA-256 followed by hex encoding.\<close>

definition ciliumFingerprint :: "(string \<Rightarrow> string) \<Rightarrow> string \<Rightarrow> string list \<Rightarrow> string" where
  "ciliumFingerprint sha version settings = sha (trim_space version @ [newline] @ unlines (canonicalizeSettings settings))"

definition show_bool :: "bool \<Rightarrow> string" where
  "show_bool b = (if b then ''true'' else ''false'')"

definition cilium_settings :: "'s Manager \<Rightarrow> string list" where
  "cilium_settings m =
     (let ci = nw_Cilium (cfg_Network (mg_cfg m)) in
      [''--set k8sServiceHost='' @ shellQuote (nd_NodeIP (mg_master m)),
       ''--set k8sServicePort=6443'',
       ''--set ipam.operator.clusterPoolIPv4PodCIDRList='' @ shellQuote (ci_PodCIDR ci),
       ''--set egressGateway.enabled='' @ show_bool (ci_EnableEgressGateway ci),
       ''--set bpf.masquerade=true'',
       ''--set kubeProxyReplacement='' @ show_bool (ci_KubeProxyReplacement ci)])"

definition cilium_cli_command :: "CiliumConfig \<Rightarrow> string" where
  "cilium_cli_command ci = unlines
       [''if ! command -v cilium >/dev/null 2>&1; then'',
        ''  CILIUM_CLI_VERSION='' @ shellQuote (ci_CLIVersion ci),
        ''  CLI_ARCH=amd64'',
        ''  if [ \"$(uname -m)\" = \"aarch64\" ]; then CLI_ARCH=arm64; fi'',
        ''  curl -L --fail --remote-name-all '' @ shellQuote (ci_CLIDownloadBaseURL ci) @ ''/${CILIUM_CLI_VERSION}/cilium-linux-${CLI_ARCH}.tar.gz{,.sha256sum}'',
        ''  sha256sum --check cilium-linux-${CLI_ARCH}.tar.gz.sha256sum'',
        ''  tar xzvfC cilium-linux-${CLI_ARCH}.tar.gz /usr/local/bin'',
        ''  rm cilium-linux-${CLI_ARCH}.tar.gz{,.sha256sum}'',
        ''fi'']"

definition cilium_command :: "(string \<Rightarrow> string) \<Rightarrow> CiliumConfig \<Rightarrow> string list \<Rightarrow> string" where
  "cilium_command sha ci settings = unlines
       [[],
        ''set -euo pipefail'',
        ''export KUBECONFIG=/etc/rancher/k3s/k3s.yaml'',
        ''DESIRED='' @ shellQuote (ciliumFingerprint sha (ci_Version ci) settings),
        ''STATE_NS='' @ shellQuote ''kube-system'',
        ''STATE_CM='' @ shellQuote ''liteboxd-installer-state'',
        ''STATE_KEY='' @ shellQuote ''ciliumFingerprint'',
        ''INSTALLED=0'',
        ''if kubectl -n kube-system get ds cilium >/dev/null 2>&1; then'',
        ''  INSTALLED=1'',
        ''fi'',
        ''CURRENT=\"\"'',
        ''CURRENT=\"$(kubectl -n \"$STATE_NS\" get configmap \"$STATE_CM\" -o jsonpath=\"{.data.$STATE_KEY}\" 2>/dev/null || true)\"'',
        ''if [ \"$INSTALLED\" = \"1\" ] && [ \"$CURRENT\" = \"$DESIRED\" ]; then'',
        ''  echo \"cilium_unchanged_skip\"'',
        ''  exit 0'',
        ''fi'',
        ''if [ \"$INSTALLED\" = \"1\" ]; then'',
        ''  echo \"cilium_fingerprint_changed_upgrade\"'',
        ''  cilium upgrade --version '' @ shellQuote (ci_Version ci) @ '' --reuse-values '' @ join '' '' settings,
        ''else'',
        ''  echo \"cilium_install_required\"'',
        ''  cilium install --version '' @ shellQuote (ci_Version ci) @ '' '' @ join '' '' settings,
        ''fi'',
        ''cilium status --wait'',
        ''kubectl -n \"$STATE_NS\" create configmap \"$STATE_CM\" --from-literal=\"$STATE_KEY=$DESIRED\" --dry-run=client -o yaml | kubectl apply -f -'',
        [CHR 0x09] @ [CHR 0x09]]"

definition InstallOrUpgradeCilium :: "(string \<Rightarrow> string) \<Rightarrow> 's Manager \<Rightarrow> ('s, unit res) state" where
  "InstallOrUpgradeCilium sha m =
     (let ci = nw_Cilium (cfg_Network (mg_cfg m)) in
      seqE (mapE (Wrap ''install cilium cli'') (runMaster m (cilium_cli_command ci) True)) (\<lambda>_.
      seqE (mapE (Wrap ''install/upgrade cilium'') (runMaster m (cilium_command sha ci (cilium_settings m)) True)) (\<lambda>_. retE ())))"

definition longhornFingerprint :: "(string \<Rightarrow> string) \<Rightarrow> LonghornConfig \<Rightarrow> string list \<Rightarrow> string" where
  "longhornFingerprint sha l settings = sha (unlines
     [trim_space (lh_Namespace l), trim_space (lh_ReleaseName l), trim_space (lh_ChartRepoURL l), trim_space (lh_ChartVersion l),
      unlines (canonicalizeSettings settings)])"

definition longhorn_settings :: "LonghornConfig \<Rightarrow> string list" where
  "longhorn_settings l =
     [''--set defaultSettings.defaultReplicaCount='' @ show_int (lh_DefaultReplicaCount l),
      ''--set persistence.defaultClassReplicaCount='' @ show_int (lh_DefaultReplicaCount l),
      ''--set persistence.defaultClass='' @ show_bool (case lh_SetDefaultStorageClass l of None \<Rightarrow> True | Some b \<Rightarrow> b)]"

definition longhornPrerequisitesScript :: string where
  "longhornPrerequisitesScript = unlines
       [''set -euo pipefail'',
        ''if ! command -v iscsiadm >/dev/null 2>&1; then'',
        ''  if command -v apt-get >/dev/null 2>&1; then'',
        ''    export DEBIAN_FRONTEND=noninteractive'',
        ''    apt-get update -y'',
        ''    apt-get install -y open-iscsi'',
        ''  elif command -v dnf >/dev/null 2>&1; then'',
        ''    dnf install -y iscsi-initiator-utils'',
        ''  elif command -v yum >/dev/null 2>&1; then'',
        ''    yum install -y iscsi-initiator-utils'',
        ''  elif command -v zypper >/dev/null 2>&1; then'',
        ''    zypper --non-interactive install open-iscsi'',
        ''  else'',
        ''    echo 'unsupported package manager for open-iscsi installation' >&2'',
        ''    exit 1'',
        ''  fi'',
        ''fi'',
        ''if command -v systemctl >/dev/null 2>&1; then'',
        ''  if systemctl list-unit-files | grep -q '^iscsid'' @ [CHR 0x5C] @ ''.service'; then systemctl enable --now iscsid; fi'',
        ''  if systemctl list-unit-files | grep -q '^open-iscsi'' @ [CHR 0x5C] @ ''.service'; then systemctl enable --now open-iscsi; fi'',
        ''  if systemctl list-unit-files | grep -q '^iscsi'' @ [CHR 0x5C] @ ''.service'; then systemctl enable --now iscsi; fi'',
        ''fi'']"

definition longhorn_command :: "(string \<Rightarrow> string) \<Rightarrow> LonghornConfig \<Rightarrow> string list \<Rightarrow> string" where
  "longhorn_command sha l settings = unlines
       [[],
        ''set -euo pipefail'',
        ''export KUBECONFIG=/etc/rancher/k3s/k3s.yaml'',
        ''DESIRED='' @ shellQuote (longhornFingerprint sha l settings),
        ''RELEASE='' @ shellQuote (lh_ReleaseName l),
        ''NAMESPACE='' @ shellQuote (lh_Namespace l),
        ''CHART_VERSION='' @ shellQuote (lh_ChartVersion l),
        ''STATE_NS='' @ shellQuote ''kube-system'',
        ''STATE_CM='' @ shellQuote ''liteboxd-installer-longhorn-state'',
        ''STATE_KEY='' @ shellQuote ''longhornFingerprint'',
        ''CURRENT=\"$(kubectl -n \"$STATE_NS\" get configmap \"$STATE_CM\" -o jsonpath=\"{.data.$STATE_KEY}\" 2>/dev/null || true)\"'',
        ''INSTALLED=0'',
        ''if helm -n \"$NAMESPACE\" status \"$RELEASE\" >/dev/null 2>&1; then'',
        ''  INSTALLED=1'',
        ''fi'',
        ''if [ \"$INSTALLED\" = \"1\" ] && [ \"$CURRENT\" = \"$DESIRED\" ]; then'',
        ''  echo \"longhorn_unchanged_skip\"'',
        ''  exit 0'',
        ''fi'',
        ''if [ \"$INSTALLED\" = \"1\" ]; then'',
        ''  echo \"longhorn_fingerprint_changed_upgrade\"'',
        ''else'',
        ''  echo \"longhorn_install_required\"'',
        ''fi'',
        ''helm repo add longhorn '' @ shellQuote (lh_ChartRepoURL l) @ '' >/dev/null 2>&1 || true'',
        ''helm repo update longhorn >/dev/null'',
        ''VERSION_ARG=\"\"'',
        ''if [ -n \"$CHART_VERSION\" ]; then'',
        ''  VERSION_ARG=\"--version $CHART_VERSION\"'',
        ''fi'',
        ''helm upgrade --install \"$RELEASE\" longhorn/longhorn '' @ [CHR 0x5C],
        ''  -n \"$NAMESPACE\" '' @ [CHR 0x5C],
        ''  --create-namespace '' @ [CHR 0x5C],
        ''  $VERSION_ARG '' @ [CHR 0x5C],
        ''  '' @ join ('' '' @ [CHR 0x5C, newline] @ ''  '') settings,
        ''for r in deploy/longhorn-driver-deployer deploy/longhorn-ui ds/longhorn-manager ds/longhorn-csi-plugin; do'',
        ''  if kubectl -n \"$NAMESPACE\" get \"$r\" >/dev/null 2>&1; then'',
        ''    kubectl -n \"$NAMESPACE\" rollout status \"$r\" --timeout=15m'',
        ''  fi'',
        ''done'',
        ''kubectl -n \"$STATE_NS\" create configmap \"$STATE_CM\" --from-literal=\"$STATE_KEY=$DESIRED\" --dry-run=client -o yaml | kubectl apply -f -'',
        []]"

definition ensureLonghornPrerequisitesOnAgent :: "'s Manager \<Rightarrow> NodeConfig \<Rightarrow> ('s, unit res) state" where
  "ensureLonghornPrerequisitesOnAgent m agent =
     (if mg_dry m then retE ()
      else seqE (dialAgent m agent) (\<lambda>_.
        run_agent m agent longhornPrerequisitesScript True (''ensure longhorn prerequisites host='' @ nd_Host agent)))"

definition ensureHelmCLI :: "'s Manager \<Rightarrow> ('s, unit res) state" where
  "ensureHelmCLI m =
     seqE (mapE (Wrap ''install helm cli'') (runMaster m (unlines
       [''if ! command -v helm >/dev/null 2>&1; then'',
        ''  curl -fsSL '' @ shellQuote (lh_HelmInstallScriptURL (cfg_Storage (mg_cfg m))) @ '' | bash'',
        ''fi'']) True)) (\<lambda>_. retE ())"

definition InstallOrUpgradeLonghorn :: "(string \<Rightarrow> string) \<Rightarrow> 's Manager \<Rightarrow> ('s, unit res) state" where
  "InstallOrUpgradeLonghorn sha m =
     (let l = cfg_Storage (mg_cfg m) in
      if \<not> lh_Enabled l then retE ()
      else
        seqE (mapE (Wrap ''ensure longhorn prerequisites on master'') (runMaster m longhornPrerequisitesScript True)) (\<lambda>_.
        seqE (if mg_agents m = [] then retE ()
              else run_all (ensureLonghornPrerequisitesOnAgent m) (mg_sched m (mg_agents m))) (\<lambda>_.
        seqE (ensureHelmCLI m) (\<lambda>_.
        seqE (mapE (Wrap ''install/upgrade longhorn'') (runMaster m (longhorn_command sha l (longhorn_settings l)) True)) (\<lambda>_.
        retE ())))))"

section \<open>Nodes (cluster/nodes.go)\<close>

definition get_nodes_command :: string where
  "get_nodes_command =
     ''KUBECONFIG=/etc/rancher/k3s/k3s.yaml kubectl get nodes -o jsonpath='{range .items[*]}{.metadata.name}{\"|\"}{range .status.addresses[?(@.type==\"InternalIP\")]}{.address}{end}{\"'' @ [CHR 0x5C] @ ''n\"}{end}'' @ [squote]"

text \<open>A line that does not have two parts is skipped, and a later line of an address replaces an earlier one.\<close>

definition add_node_line :: "string \<Rightarrow> (string \<times> string) list \<Rightarrow> (string \<times> string) list" where
  "add_node_line line result =
     (if trim_space line = [] then result
      else case split_char (CHR ''|'') line of
        [a, b] \<Rightarrow>
          (let node = trim_space a; host = trim_space b in
           if node \<noteq> [] \<and> host \<noteq> [] then AList.update host node result else result)
      | _ \<Rightarrow> result)"

definition parse_nodes :: "string \<Rightarrow> (string \<times> string) list" where
  "parse_nodes out = fold add_node_line (split_char newline (trim_space out)) []"

definition clusterNodeMap :: "'s Manager \<Rightarrow> ('s, (string \<times> string) list res) state" where
  "clusterNodeMap m = seqE (runMaster m get_nodes_command True) (\<lambda>out. retE (parse_nodes out))"

definition kubectl :: "string \<Rightarrow> string" where
  "kubectl args = ''KUBECONFIG=/etc/rancher/k3s/k3s.yaml kubectl '' @ args"

definition cordon_command :: "string \<Rightarrow> string" where
  "cordon_command node = kubectl (''cordon '' @ shellQuote node)"

definition drain_command :: "string \<Rightarrow> string" where
  "drain_command node = kubectl (''drain '' @ shellQuote node @ '' --ignore-daemonsets --delete-emptydir-data --force'')"

definition delete_command :: "string \<Rightarrow> string" where
  "delete_command node = kubectl (''delete node '' @ shellQuote node)"

definition uninstall_command :: string where
  "uninstall_command = ''if command -v k3s-agent-uninstall.sh >/dev/null 2>&1; then k3s-agent-uninstall.sh; fi''"

definition uninstall_agent :: "'s Manager \<Rightarrow> string \<Rightarrow> ('s, unit res) state" where
  "uninstall_agent m host =
     (case findAgentByHostOrNodeIP m host of
        None \<Rightarrow> retE ()
      | Some agent \<Rightarrow>
          if mg_dry m then retE ()
          else seqE (mapE (Wrap (''connect removed host='' @ host @ '' via master'')) (dialAgent m agent)) (\<lambda>_.
            run_agent m agent uninstall_command True
              (''uninstall k3s-agent host='' @ host)))"

text \<open>The address a host is looked up with: that of the first agent with this host or address.\<close>

definition lookup_ip :: "'s Manager \<Rightarrow> string \<Rightarrow> string" where
  "lookup_ip m host = (case findAgentByHostOrNodeIP m host of None \<Rightarrow> host | Some a \<Rightarrow> nd_NodeIP a)"

definition remove_node :: "'s Manager \<Rightarrow> string \<Rightarrow> string \<Rightarrow> ('s, unit res) state" where
  "remove_node m host node =
     for_eachE (\<lambda>cmd. seqE (mapE (Wrap (''remove node host='' @ host @ '' node='' @ node)) (runMaster m cmd True)) (\<lambda>_. retE ()))
       [cordon_command node, drain_command node, delete_command node]"

definition removeNodeByHost :: "'s Manager \<Rightarrow> string \<Rightarrow> bool \<Rightarrow> ('s, unit res) state" where
  "removeNodeByHost m host uninstallAgent =
     seqE (clusterNodeMap m) (\<lambda>hostToNode.
       let lookupIP = lookup_ip m host in
       case map_of hostToNode lookupIP of
         None \<Rightarrow> throw (Msg (''cannot find kubernetes node for host='' @ host @ '' (lookup nodeIP='' @ lookupIP @ '')''))
       | Some node \<Rightarrow>
           if node = [] then throw (Msg (''resolved empty node name for host='' @ host))
           else if host = nd_Host (mg_master m) \<or> host = nd_NodeIP (mg_master m) \<or> lookupIP = nd_NodeIP (mg_master m)
           then throw (Msg (''refuse to remove master host='' @ host))
           else seqE (remove_node m host node) (\<lambda>_. if \<not> uninstallAgent then retE () else uninstall_agent m host))"

definition RemoveNodes :: "'s Manager \<Rightarrow> string list \<Rightarrow> bool \<Rightarrow> ('s, unit res) state" where
  "RemoveNodes m hosts uninstallAgent =
     (if hosts = [] then throw (Msg ''remove nodes requires at least one host'')
      else for_eachE (\<lambda>host. removeNodeByHost m host uninstallAgent) hosts)"

definition stale_hosts :: "'s Manager \<Rightarrow> (string \<times> string) list \<Rightarrow> string list" where
  "stale_hosts m hostToNode =
     sort (filter (\<lambda>host. host \<noteq> nd_NodeIP (mg_master m) \<and> host \<notin> set (DesiredAgentNodeIPs (mg_cfg m))) (map fst hostToNode))"

definition ReconcileRemoveAbsentAgents :: "'s Manager \<Rightarrow> ('s, unit res) state" where
  "ReconcileRemoveAbsentAgents m =
     seqE (clusterNodeMap m) (\<lambda>hostToNode. for_eachE (\<lambda>host. removeNodeByHost m host False) (stale_hosts m hostToNode))"

end
