(* ===== verification/Installer_Nodes.thy ===== *)
theory Installer_Nodes
  imports Installer_Cluster
begin

text \<open>
  What the removal of nodes does to the cluster, \<open>internal/installer/cluster/nodes.go\<close>, for any behaviour of the hosts under which
  \<open>kubectl\<close> on the master does what it documents, and what is left of the node token in the log.
\<close>

section \<open>What kubectl does\<close>

text \<open>The nodes of the cluster by name, with their internal address, and the output that \<open>get nodes\<close> is asked for.\<close>

type_synonym node_view = "(string \<times> string) list"

definition node_table :: "node_view \<Rightarrow> string" where
  "node_table ns = concat (map (\<lambda>(name, ip). name @ ''|'' @ ip @ [newline]) ns)"

definition without_node :: "string \<Rightarrow> node_view \<Rightarrow> node_view" where
  "without_node n ns = filter (\<lambda>x. fst x \<noteq> n) ns"

text \<open>
  A session that succeeds printed the nodes, and deleted the node it was asked to delete; one that fails may or may not have
  deleted it. Connections, cordoning, draining and the removal of K3s from an agent leave the node objects alone.
\<close>

definition kubectl_works :: "'s Ssh \<Rightarrow> Target \<Rightarrow> ('s \<Rightarrow> node_view) \<Rightarrow> bool" where
  "kubectl_works h t nodes \<longleftrightarrow>
     (\<forall>b t' s. nodes (snd (ssh_Connect h b t' s)) = nodes s) \<and>
     (\<forall>t' s. nodes (snd (ssh_Handshake h t' s)) = nodes s) \<and>
     (\<forall>s. case ssh_Session h t (wrap_command t get_nodes_command True) [] s of (e, s') \<Rightarrow>
        nodes s' = nodes s \<and> (\<forall>out err. e = Finished out err None \<longrightarrow> out = node_table (nodes s))) \<and>
     (\<forall>n s. case ssh_Session h t (wrap_command t (delete_command n) True) [] s of (e, s') \<Rightarrow>
        (nodes s' = nodes s \<or> nodes s' = without_node n (nodes s)) \<and>
        (\<forall>out err. e = Finished out err None \<longrightarrow> nodes s' = without_node n (nodes s))) \<and>
     (\<forall>n s. nodes (snd (ssh_Session h t (wrap_command t (cordon_command n) True) [] s)) = nodes s) \<and>
     (\<forall>n s. nodes (snd (ssh_Session h t (wrap_command t (drain_command n) True) [] s)) = nodes s) \<and>
     (\<forall>t' s. nodes (snd (ssh_Session h t' (wrap_command t' uninstall_command True) [] s)) = nodes s)"

text \<open>Names and addresses are words, no two nodes share a name or an address.\<close>

definition node_word :: "string \<Rightarrow> bool" where
  "node_word s \<longleftrightarrow> s \<noteq> [] \<and> (\<forall>c \<in> set s. plain_byte c \<and> c \<noteq> CHR ''|'')"

definition nodes_ok :: "node_view \<Rightarrow> bool" where
  "nodes_ok ns \<longleftrightarrow> (\<forall>x \<in> set ns. node_word (fst x) \<and> node_word (snd x)) \<and> distinct (map fst ns) \<and> distinct (map snd ns)"

section \<open>Reading the table\<close>

lemma node_word_ends: "node_word s \<Longrightarrow> plain_byte (hd s) \<and> plain_byte (last s)"
  by (simp add: node_word_def)

lemma node_word_trim: "node_word s \<Longrightarrow> trim_space s = s"
  by (simp add: node_word_ends trim_space_plain)

lemma newline_not_plain: "\<not> plain_byte newline"
  by (simp add: plain_byte_def)

lemma node_word_no_sep: "node_word s \<Longrightarrow> newline \<notin> set s \<and> CHR ''|'' \<notin> set s"
  using newline_not_plain by (auto simp: node_word_def)

text \<open>A trailing newline is trimmed off.\<close>

lemma trim_space_newline:
  assumes "s \<noteq> []" "plain_byte (hd s)" "plain_byte (last s)"
  shows "trim_space (s @ [newline]) = s"
proof -
  have l: "trim_with space_runes (s @ [newline]) = s @ [newline]"
    using assms space_rune_ends has_prefix_hd by (intro trim_with_id) (metis hd_append2)
  have f: "find (\<lambda>p. p \<noteq> [] \<and> has_prefix p (newline # rev s)) (map rev space_runes) = Some [newline]"
    by (simp add: space_runes_def has_prefix_def)
  have "trim_with (map rev space_runes) (newline # rev s) = trim_with (map rev space_runes) (rev s)"
    using f by (simp add: trim_with.simps [of _ "newline # rev s"])
  moreover have "trim_space s = s"
    using assms trim_space_plain by simp
  moreover have "trim_with space_runes s = s"
    using assms space_rune_ends has_prefix_hd by (intro trim_with_id) metis
  ultimately show ?thesis
    by (simp add: trim_space_def l)
qed

text \<open>The lines of the table.\<close>

definition node_line :: "string \<times> string \<Rightarrow> string" where
  "node_line x = fst x @ ''|'' @ snd x"

lemma node_table_lines: "ns \<noteq> [] \<Longrightarrow> node_table ns = join [newline] (map node_line ns) @ [newline]"
proof (induction ns)
  case (Cons x ns)
  then show ?case
    by (cases x; cases ns) (auto simp: node_table_def node_line_def)
qed simp

lemma join_ends:
  "xs \<noteq> [] \<Longrightarrow> (\<And>x. x \<in> set xs \<Longrightarrow> x \<noteq> []) \<Longrightarrow>
   join sep xs \<noteq> [] \<and> hd (join sep xs) = hd (hd xs) \<and> last (join sep xs) = last (last xs)"
proof (induction sep xs rule: join.induct)
  case (3 sep x y zs)
  then have "join sep (y # zs) \<noteq> []" "last (join sep (y # zs)) = last (last (y # zs))" "x \<noteq> []"
    by simp_all
  then show ?case
    by simp
qed simp_all

lemma node_line_ends:
  "node_word (fst x) \<Longrightarrow> node_word (snd x) \<Longrightarrow>
   node_line x \<noteq> [] \<and> plain_byte (hd (node_line x)) \<and> plain_byte (last (node_line x)) \<and> newline \<notin> set (node_line x)"
  using node_word_no_sep by (auto simp: node_line_def node_word_def)

lemma table_lines:
  assumes "nodes_ok ns" "ns \<noteq> []"
  shows "split_char newline (trim_space (trim_space (node_table ns))) = map node_line ns"
proof -
  let ?s = "join [newline] (map node_line ns)"
  have ok: "node_line x \<noteq> [] \<and> plain_byte (hd (node_line x)) \<and> plain_byte (last (node_line x)) \<and> newline \<notin> set (node_line x)"
    if "x \<in> set ns" for x
    using assms(1) that node_line_ends by (auto simp: nodes_ok_def)
  have "hd (map node_line ns) \<in> node_line ` set ns" "last (map node_line ns) \<in> node_line ` set ns"
    using assms(2) hd_in_set [of "map node_line ns"] last_in_set [of "map node_line ns"] by auto
  moreover have "?s \<noteq> [] \<and> hd ?s = hd (hd (map node_line ns)) \<and> last ?s = last (last (map node_line ns))"
    using ok assms(2) by (intro join_ends) auto
  ultimately have ends: "?s \<noteq> []" "plain_byte (hd ?s)" "plain_byte (last ?s)"
    using ok by auto
  then have "trim_space (trim_space (node_table ns)) = ?s"
    by (simp add: node_table_lines [OF assms(2)] trim_space_newline trim_space_plain)
  then show ?thesis
    using ok assms(2) by (simp add: split_join)
qed

lemma add_node_line_word:
  assumes "node_word (fst x)" "node_word (snd x)"
  shows "add_node_line (node_line x) result = AList.update (snd x) (fst x) result"
proof -
  have "split_char (CHR ''|'') (node_line x) = [fst x, snd x]"
    using assms by (simp add: node_line_def split_char_append split_char_absent node_word_no_sep)
  moreover have "trim_space (node_line x) = node_line x" "node_line x \<noteq> []"
    using node_line_ends [OF assms] trim_space_plain by simp_all
  ultimately show ?thesis
    using assms by (simp add: add_node_line_def node_word_trim) (simp add: node_word_def)
qed

text \<open>The table is read back as the map from addresses to names.\<close>

lemma fold_update:
  "distinct (map fst r) \<Longrightarrow> distinct (map snd ns) \<Longrightarrow> (\<And>x. x \<in> set ns \<Longrightarrow> snd x \<notin> fst ` set r) \<Longrightarrow>
   fold (\<lambda>x. AList.update (snd x) (fst x)) ns r = r @ map prod.swap ns"
proof (induction ns arbitrary: r)
  case (Cons x ns)
  have "AList.update (snd x) (fst x) r = r @ [prod.swap x]"
    using Cons.prems(3) [of x] by (induction r) (auto simp: prod.swap_def)
  moreover have "fold (\<lambda>x. AList.update (snd x) (fst x)) ns (r @ [prod.swap x]) = (r @ [prod.swap x]) @ map prod.swap ns"
    using Cons.prems by (intro Cons.IH) (auto simp: prod.swap_def image_iff)
  ultimately show ?case
    by simp
qed simp

lemma parse_node_table:
  assumes "nodes_ok ns"
  shows "parse_nodes (trim_space (node_table ns)) = map prod.swap ns"
proof (cases "ns = []")
  case True
  then show ?thesis
    by (simp add: parse_nodes_def node_table_def trim_space_plain add_node_line_def)
next
  case False
  have "fold add_node_line (map node_line xs) r = fold (\<lambda>x. AList.update (snd x) (fst x)) xs r"
    if "set xs \<subseteq> set ns" for xs r
    using that assms by (induction xs arbitrary: r) (auto simp: nodes_ok_def add_node_line_word)
  then show ?thesis
    using table_lines [OF assms False] assms fold_update [of "[]" ns]
    by (simp add: parse_nodes_def nodes_ok_def)
qed

lemma map_of_swap:
  assumes "nodes_ok ns"
  shows "map_of (map prod.swap ns) ip = Some n \<longleftrightarrow> (n, ip) \<in> set ns"
proof -
  have "distinct (map fst (map prod.swap ns))"
    using assms by (simp add: nodes_ok_def comp_def)
  then show ?thesis
    by (auto simp: map_of_eq_Some_iff)
qed

text \<open>Names and addresses are unique, so a node may be taken out by either.\<close>

lemma without_by_address:
  assumes "nodes_ok ns" "(n, ip) \<in> set ns"
  shows "without_node n ns = filter (\<lambda>x. snd x \<noteq> ip) ns"
proof -
  have inj: "inj_on fst (set ns)" "inj_on snd (set ns)"
    using assms(1) by (simp_all add: nodes_ok_def distinct_map)
  have "fst x = n \<longleftrightarrow> snd x = ip" if "x \<in> set ns" for x
    using inj_onD [OF inj(1) _ that assms(2)] inj_onD [OF inj(2) _ that assms(2)] by (cases x) fastforce
  then show ?thesis
    by (auto simp: without_node_def intro!: filter_cong)
qed

lemma nodes_ok_filter: "nodes_ok ns \<Longrightarrow> nodes_ok (filter P ns)"
  by (auto simp: nodes_ok_def distinct_map intro: inj_on_subset)

section \<open>Commands on the master\<close>

abbreviation "master_ip m \<equiv> nd_NodeIP (mg_master m)"

lemma kubectl_worksD:
  assumes "kubectl_works h t nodes"
  shows "nodes (snd (ssh_Connect h b t' s)) = nodes s"
    and "nodes (snd (ssh_Handshake h t' s)) = nodes s"
    and "ssh_Session h t (wrap_command t get_nodes_command True) [] s = (e, s') \<Longrightarrow> nodes s' = nodes s"
    and "ssh_Session h t (wrap_command t get_nodes_command True) [] s = (Finished out err None, s') \<Longrightarrow> out = node_table (nodes s)"
    and "ssh_Session h t (wrap_command t (delete_command n) True) [] s = (e, s') \<Longrightarrow> nodes s' = nodes s \<or> nodes s' = without_node n (nodes s)"
    and "ssh_Session h t (wrap_command t (delete_command n) True) [] s = (Finished out err None, s') \<Longrightarrow> nodes s' = without_node n (nodes s)"
    and "nodes (snd (ssh_Session h t (wrap_command t (cordon_command n) True) [] s)) = nodes s"
    and "nodes (snd (ssh_Session h t (wrap_command t (drain_command n) True) [] s)) = nodes s"
    and "nodes (snd (ssh_Session h t' (wrap_command t' uninstall_command True) [] s)) = nodes s"
  using assms unfolding kubectl_works_def by (fastforce split: prod.splits)+

text \<open>A command on the master fails before its session, or has the outcome of its session.\<close>

lemma wp_dial:
  assumes "kubectl_works h t nodes" "\<And>r s'. nodes s' = nodes s \<Longrightarrow> Q r s'"
  shows "wp (sshx_Dial h t') Q s"
  using assms(2) kubectl_worksD(1,2) [OF assms(1)]
  by (auto simp: sshx_Dial_def wp_simps split: prod.split sum.split) (metis snd_conv)+

lemma wp_dial_via:
  assumes "kubectl_works h t nodes" "\<And>r s'. nodes s' = nodes s \<Longrightarrow> Q r s'"
  shows "wp (sshx_DialVia h t' t'') Q s"
  unfolding sshx_DialVia_def wp_seqE wp_mapE
  by (rule wp_dial [OF assms(1)])
     (auto simp: wp_simps split: prod.split sum.split intro!: assms(2), (metis kubectl_worksD(1,2) [OF assms(1)] snd_conv)+)

lemma wp_runMaster:
  assumes k: "kubectl_works (mg_ssh m) (masterTarget m) nodes" and "\<not> mg_dry m"
    and fails: "\<And>e s'. nodes s' = nodes s \<Longrightarrow> Q (Inl e) s'"
    and runs: "\<And>r e s1 s'. nodes s1 = nodes s \<Longrightarrow>
      ssh_Session (mg_ssh m) (masterTarget m) (wrap_command (masterTarget m) c True) [] s1 = (e, s') \<Longrightarrow>
      (\<exists>x. r = Inl x) \<or> (\<exists>out err. e = Finished out err None \<and> r = Inr (trim_space out)) \<Longrightarrow> Q r s'"
  shows "wp (runMaster m c True) Q s"
  using assms(2) unfolding runMaster_def
  apply (simp add: wp_simps)
  apply (rule wp_dial [OF k])
  subgoal for r s1
    by (cases r) (auto simp: fails wp_simps sshx_run_def intro!: runs [of s1] split: sum.split prod.split session_end.split option.split)
  done

lemma wp_get_nodes:
  assumes "kubectl_works (mg_ssh m) (masterTarget m) nodes" "\<not> mg_dry m" "nodes_ok (nodes s)"
    and "\<And>e s'. nodes s' = nodes s \<Longrightarrow> Q (Inl e) s'"
    and "\<And>s'. nodes s' = nodes s \<Longrightarrow> Q (Inr (map prod.swap (nodes s))) s'"
  shows "wp (clusterNodeMap m) Q s"
  unfolding clusterNodeMap_def wp_seqE
proof (rule wp_runMaster [OF assms(1,2)])
  fix r :: "string res" and e s1 s'
  assume s1: "nodes s1 = nodes s"
    and e: "ssh_Session (mg_ssh m) (masterTarget m) (wrap_command (masterTarget m) get_nodes_command True) [] s1 = (e, s')"
    and r: "(\<exists>x. r = Inl x) \<or> (\<exists>out err. e = Finished out err None \<and> r = Inr (trim_space out))"
  have "nodes s' = nodes s"
    using kubectl_worksD(3) [OF assms(1) e] s1 by simp
  moreover have "out = node_table (nodes s)" if "e = Finished out err None" for out err
    using kubectl_worksD(4) [OF assms(1)] e s1 that by metis
  ultimately show "case r of Inl x \<Rightarrow> Q (Inl x) s' | Inr out \<Rightarrow> wp (retE (parse_nodes out)) Q s'"
    using r assms(4,5) parse_node_table [OF assms(3)] by (auto simp: wp_simps)
qed (simp add: assms(4))

text \<open>The three commands that take a node out.\<close>

lemma wp_remove_node:
  assumes k: "kubectl_works (mg_ssh m) (masterTarget m) nodes" and d: "\<not> mg_dry m"
    and fails: "\<And>e s'. nodes s' = nodes s \<or> nodes s' = without_node n (nodes s) \<Longrightarrow> Q (Inl e) s'"
    and works: "\<And>s'. nodes s' = without_node n (nodes s) \<Longrightarrow> Q (Inr ()) s'"
  shows "wp (remove_node m host n) Q s"
proof -
  have keep: "wp (runMaster m c True) R s1"
    if "c = cordon_command n \<or> c = drain_command n" "nodes s1 = nodes s" "\<And>r s'. nodes s' = nodes s \<Longrightarrow> R r s'" for c R s1
    using that kubectl_worksD(7,8) [OF k] by (intro wp_runMaster [OF k d]) (metis snd_conv)+
  have delete: "wp (runMaster m (delete_command n) True) R s1"
    if "nodes s1 = nodes s" "\<And>e s'. nodes s' = nodes s \<or> nodes s' = without_node n (nodes s) \<Longrightarrow> R (Inl e) s'"
      "\<And>x s'. nodes s' = without_node n (nodes s) \<Longrightarrow> R (Inr x) s'" for R s1
    using that kubectl_worksD(5,6) [OF k] by (intro wp_runMaster [OF k d]) metis+
  show ?thesis
    unfolding remove_node_def for_eachE.simps wp_seqE wp_mapE
    apply (rule keep, simp, simp)
    subgoal for r s1
      apply (cases r; simp add: fails wp_simps)
      apply (rule keep, simp, simp)
      subgoal for _ r' s2
        by (cases r'; simp add: fails wp_simps) (rule delete; simp add: fails works wp_simps)
      done
    done
qed

text \<open>
  Whatever happens, a call takes out no node but the one with the address that the host is looked up with, and never the master;
  when it succeeds that node was there and is gone.
\<close>

definition removal :: "'s Manager \<Rightarrow> node_view \<Rightarrow> string set \<Rightarrow> unit res \<Rightarrow> node_view \<Rightarrow> string set \<Rightarrow> bool" where
  "removal m before hosts r after ips \<longleftrightarrow>
     ips \<subseteq> lookup_ip m ` hosts - {master_ip m} \<and> after = filter (\<lambda>x. snd x \<notin> ips) before \<and>
     (r = Inr () \<longrightarrow> ips = lookup_ip m ` hosts \<and> ips \<subseteq> snd ` set before)"

lemma wp_uninstall:
  assumes k: "kubectl_works (mg_ssh m) (masterTarget m) nodes" and q: "\<And>r s'. nodes s' = nodes s \<Longrightarrow> Q r s'"
  shows "wp (uninstall_agent m host) Q s"
proof -
  have "wp (dialAgent m a) R s" if "\<And>r s'. nodes s' = nodes s \<Longrightarrow> R r s'" for a R
    unfolding dialAgent_def wp_mapE by (rule wp_dial_via [OF k]) (rule that)
  moreover have "wp (run_agent m a uninstall_command True what) R s'"
    if "nodes s' = nodes s" "\<And>r s'. nodes s' = nodes s \<Longrightarrow> R r s'" for a R s' what
    using that kubectl_worksD(9) [OF k, of "agentTarget a" s']
    by (auto simp: run_agent_def sshx_run_def wp_simps split: prod.split)
  ultimately show ?thesis
    unfolding uninstall_agent_def by (auto simp: wp_simps q split: option.split sum.split)
qed

lemma wp_removeNodeByHost:
  assumes k: "kubectl_works (mg_ssh m) (masterTarget m) nodes" and d: "\<not> mg_dry m" and ok: "nodes_ok (nodes s)"
  shows "wp (removeNodeByHost m host u) (\<lambda>r s'. \<exists>ips. removal m (nodes s) {host} r (nodes s') ips) s"
    (is "wp _ ?Q s")
proof -
  let ?ip = "lookup_ip m host"
  have stay: "?Q (Inl e) s'" if "nodes s' = nodes s" for e s'
    using that by (intro exI [of _ "{}"]) (simp add: removal_def)
  have gone: "?Q r s'" if "(n, ?ip) \<in> set (nodes s)" "nodes s' = without_node n (nodes s)" "?ip \<noteq> master_ip m" for n r s'
    using that without_by_address [OF ok that(1)] by (intro exI [of _ "{?ip}"]) (force simp: removal_def)
  define rest where "rest = (if \<not> u then retE () else uninstall_agent m host)"
  have keeps: "wp rest ?Q s1" if "\<And>r s'. nodes s' = nodes s1 \<Longrightarrow> ?Q r s'" for s1
    using that wp_uninstall [OF k] by (auto simp: rest_def wp_ret)
  have removed: "wp (remove_node m host n) (\<lambda>r s'. case r of Inl e \<Rightarrow> ?Q (Inl e) s' | Inr x \<Rightarrow> wp rest ?Q s') s1"
    if n: "(n, ?ip) \<in> set (nodes s)" "?ip \<noteq> master_ip m" and s1: "nodes s1 = nodes s" for n s1
    using s1 stay gone [OF n(1) _ n(2)] by (intro wp_remove_node [OF k d]) (auto intro!: keeps)
  show ?thesis
    unfolding removeNodeByHost_def wp_seqE Let_def rest_def [symmetric]
  proof (rule wp_get_nodes [OF k d ok]; simp only: sum.case)
    fix s1
    assume s1: "nodes s1 = nodes s"
    show "wp (case map_of (map prod.swap (nodes s)) ?ip of
         None \<Rightarrow> throw (Msg (''cannot find kubernetes node for host='' @ host @ '' (lookup nodeIP='' @ ?ip @ '')''))
       | Some node \<Rightarrow>
           if node = [] then throw (Msg (''resolved empty node name for host='' @ host))
           else if host = nd_Host (mg_master m) \<or> host = master_ip m \<or> ?ip = master_ip m
           then throw (Msg (''refuse to remove master host='' @ host))
           else seqE (remove_node m host node) (\<lambda>_. rest)) ?Q s1"
    proof (cases "map_of (map prod.swap (nodes s)) ?ip")
      case None
      then show ?thesis
        using stay [OF s1] by (simp add: wp_ret)
    next
      case (Some n)
      then have n: "(n, ?ip) \<in> set (nodes s)"
        by (simp only: map_of_swap [OF ok])
      show ?thesis
        unfolding Some option.case wp_if wp_seqE wp_ret
        using stay [OF s1] removed [OF n _ s1] by (auto simp: wp_if wp_ret)
    qed
  qed (rule stay [where s' = s, OF refl])
qed

lemma removal_error: "removal m before {h} (Inl e) after ips \<Longrightarrow> removal m before (insert h hs) (Inl e) after ips"
  by (auto simp: removal_def)

lemma removal_trans:
  assumes "removal m before {h} (Inr ()) mid I" "removal m mid hs r after J"
  shows "removal m before (insert h hs) r after (I \<union> J)"
proof -
  have "after = filter (\<lambda>x. snd x \<notin> I \<union> J) before" "snd ` set mid \<subseteq> snd ` set before"
    using assms by (auto simp: removal_def intro: filter_cong)
  then show ?thesis
    using assms by (auto simp: removal_def)
qed

lemma removal_ok: "removal m before hs r after ips \<Longrightarrow> nodes_ok before \<Longrightarrow> nodes_ok after"
  by (simp add: removal_def nodes_ok_filter)

lemma wp_remove_hosts:
  assumes k: "kubectl_works (mg_ssh m) (masterTarget m) nodes" and d: "\<not> mg_dry m" and ok: "nodes_ok (nodes s)"
  shows "wp (for_eachE (\<lambda>host. removeNodeByHost m host u) hosts)
           (\<lambda>r s'. \<exists>ips. removal m (nodes s) (set hosts) r (nodes s') ips) s"
  using ok
proof (induction hosts arbitrary: s)
  case Nil
  then show ?case
    by (auto simp: wp_simps removal_def)
next
  case (Cons h hs)
  show ?case
    unfolding for_eachE.simps wp_seqE
  proof (rule wp_mono [OF wp_removeNodeByHost [OF k d Cons.prems, of h u]], elim exE)
    fix r s1 I
    assume I: "removal m (nodes s) {h} r (nodes s1) I"
    show "case r of Inl e \<Rightarrow> \<exists>ips. removal m (nodes s) (set (h # hs)) (Inl e) (nodes s1) ips
      | Inr x \<Rightarrow> wp (for_eachE (\<lambda>host. removeNodeByHost m host u) hs)
          (\<lambda>r s'. \<exists>ips. removal m (nodes s) (set (h # hs)) r (nodes s') ips) s1"
    proof (cases r)
      case (Inl e)
      then show ?thesis
        using I removal_error by fastforce
    next
      case (Inr x)
      then have I': "removal m (nodes s) {h} (Inr ()) (nodes s1) I"
        using I by simp
      have "wp (for_eachE (\<lambda>host. removeNodeByHost m host u) hs)
          (\<lambda>r s'. \<exists>ips. removal m (nodes s) (set (h # hs)) r (nodes s') ips) s1"
        by (rule wp_mono [OF Cons.IH [OF removal_ok [OF I Cons.prems]]]) (auto dest: removal_trans [OF I'])
      then show ?thesis
        by (simp add: Inr)
    qed
  qed
qed

section \<open>What a removal does\<close>


text \<open>The addresses of nodes that the configuration does not name.\<close>

definition stale_ips :: "'s Manager \<Rightarrow> node_view \<Rightarrow> string set" where
  "stale_ips m ns = snd ` set ns - insert (master_ip m) (nd_NodeIP ` set (mg_agents m))"

lemma stale_hosts_set: "set (stale_hosts m (map prod.swap ns)) = stale_ips m ns"
  by (auto simp: stale_hosts_def stale_ips_def DesiredAgentNodeIPs_def image_iff)

lemma lookup_stale:
  assumes "ip \<in> stale_ips m ns" "nd_Host ` set (mg_agents m) \<inter> stale_ips m ns = {}"
  shows "lookup_ip m ip = ip"
proof -
  have "nd_Host a \<noteq> ip \<and> nd_NodeIP a \<noteq> ip" if "a \<in> set (mg_agents m)" for a
  proof
    show "nd_Host a \<noteq> ip"
      using assms that by blast
    show "nd_NodeIP a \<noteq> ip"
      using assms(1) that by (auto simp: stale_ips_def)
  qed
  then have "findAgentByHostOrNodeIP m ip = None"
    unfolding findAgentByHostOrNodeIP_def find_None_iff by blast
  then show ?thesis
    by (simp add: lookup_ip_def)
qed


section \<open>A cluster to run on\<close>

text \<open>A host that answers the listing and the deletion of nodes, on which every other command succeeds without an effect.\<close>

definition sample_ssh :: "node_view Ssh" where
  "sample_ssh =
     \<lparr>ssh_Connect = (\<lambda>via t s. (Inr (), s)), ssh_Handshake = (\<lambda>t s. (Inr (), s)),
      ssh_Session = (\<lambda>t cmd input s.
        if cmd = wrap_command t get_nodes_command True then (Finished (node_table s) [] None, s)
        else (Finished [] [] None, filter (\<lambda>x. cmd \<noteq> wrap_command t (delete_command (fst x)) True) s))\<rparr>"

lemma delete_command_inj [simp]: "delete_command a = delete_command b \<longleftrightarrow> a = b"
  by (simp add: delete_command_def kubectl_def)

lemma other_commands:
  "get_nodes_command \<noteq> delete_command n" "cordon_command a \<noteq> delete_command n" "drain_command a \<noteq> delete_command n"
  "uninstall_command \<noteq> delete_command n" "cordon_command a \<noteq> get_nodes_command" "drain_command a \<noteq> get_nodes_command"
  "uninstall_command \<noteq> get_nodes_command"
  by (simp_all add: delete_command_def cordon_command_def drain_command_def uninstall_command_def get_nodes_command_def kubectl_def)

lemma sample_kubectl_works: "kubectl_works sample_ssh t id"
proof -
  have "delete_command n \<noteq> get_nodes_command" for n
    using other_commands(1) [of n] by simp
  then show ?thesis
    by (auto simp: kubectl_works_def sample_ssh_def without_node_def other_commands intro!: filter_cong)
qed

definition sample_nodes :: node_view where
  "sample_nodes = [(''m'', ''10.0.0.1''), (''a'', ''10.0.0.2''), (''old'', ''10.0.0.9'')]"

definition manager_of :: "NodeConfig \<Rightarrow> node_view Manager" where
  "manager_of agent =
     (let c = sample_raw [agent] in
      \<lparr>mg_cfg = c\<lparr>cfg_Cluster := (cfg_Cluster c)\<lparr>cl_Master := sample_node ''10.0.0.1'' ''10.0.0.1''\<rparr>\<rparr>, mg_dry = False,
       mg_ssh = sample_ssh, mg_sched = id\<rparr>)"

definition sample_manager :: "node_view Manager" where
  "sample_manager = manager_of (sample_node ''10.0.0.2'' ''10.0.0.2'')"

lemma sample_manager_ok:
  "kubectl_works (mg_ssh sample_manager) (masterTarget sample_manager) id" "\<not> mg_dry sample_manager"
  by (simp_all add: sample_manager_def manager_of_def Let_def sample_kubectl_works)

lemma sample_nodes_ok: "nodes_ok sample_nodes"
  by (auto simp: nodes_ok_def sample_nodes_def node_word_def plain_byte_def)

lemma manager_of [simp]:
  "mg_ssh (manager_of a) = sample_ssh" "\<not> mg_dry (manager_of a)" "mg_agents (manager_of a) = [a]"
  "mg_master (manager_of a) = sample_node ''10.0.0.1'' ''10.0.0.1''" "DesiredAgentNodeIPs (mg_cfg (manager_of a)) = [nd_NodeIP a]"
  by (simp_all add: manager_of_def sample_raw_def DesiredAgentNodeIPs_def)

lemma sample_node_ips [simp]: "nd_Host (sample_node h ip) = h" "nd_NodeIP (sample_node h ip) = ip"
  by (simp_all add: sample_node_def)

lemma sample_runMaster:
  "run_state (runMaster (manager_of a) c True) s =
     (if c = get_nodes_command then (Inr (trim_space (node_table s)), s)
      else (Inr [], filter (\<lambda>x. c \<noteq> delete_command (fst x)) s))"
  by (simp add: runMaster_def run_seqE run_mapE sshx_Dial_def sshx_run_def sample_ssh_def run_step_with trim_space_plain)

lemma sample_clusterNodeMap:
  "nodes_ok s \<Longrightarrow> run_state (clusterNodeMap (manager_of a)) s = (Inr (map prod.swap s), s)"
  by (simp add: clusterNodeMap_def run_seqE sample_runMaster parse_node_table)

lemma sample_remove_node:
  "run_state (remove_node (manager_of a) host n) s = (Inr (), without_node n s)"
  by (simp add: remove_node_def run_seqE run_mapE sample_runMaster other_commands other_commands [symmetric] without_node_def)
     (metis other_commands(1))

lemma sample_removals:
  "run_state (RemoveNodes sample_manager [''10.0.0.2''] False) sample_nodes = (Inr (), [(''m'', ''10.0.0.1''), (''old'', ''10.0.0.9'')])"
  "run_state (ReconcileRemoveAbsentAgents sample_manager) sample_nodes = (Inr (), [(''m'', ''10.0.0.1''), (''a'', ''10.0.0.2'')])"
  using sample_clusterNodeMap [OF sample_nodes_ok] sample_remove_node
  by (simp_all add: sample_manager_def RemoveNodes_def ReconcileRemoveAbsentAgents_def removeNodeByHost_def run_seqE stale_hosts_def
    lookup_ip_def findAgentByHostOrNodeIP_def sample_nodes_def without_node_def Let_def)



text \<open>
  The condition on the hosts is needed: an agent that is reached at the old address of a node loses its own node in place of the old
  one. And a dry run of \<open>node remove\<close> always fails, since its listing of the nodes is empty.
\<close>

definition shadowed_manager :: "node_view Manager" where
  "shadowed_manager = manager_of (sample_node ''10.0.0.9'' ''10.0.0.2'')"

lemma shadowed_address_removes_agent:
  "run_state (ReconcileRemoveAbsentAgents shadowed_manager) sample_nodes = (Inr (), [(''m'', ''10.0.0.1''), (''old'', ''10.0.0.9'')])"
  using sample_clusterNodeMap [OF sample_nodes_ok] sample_remove_node
  by (simp add: shadowed_manager_def ReconcileRemoveAbsentAgents_def removeNodeByHost_def run_seqE stale_hosts_def
    lookup_ip_def findAgentByHostOrNodeIP_def sample_nodes_def without_node_def Let_def)

lemma dry_run_removal_fails:
  assumes "mg_dry m" "hosts \<noteq> []"
  shows "\<exists>e. run_state (RemoveNodes m hosts u) s = (Inl (Msg e), s)"
  using assms
  by (cases hosts)
     (simp_all add: RemoveNodes_def removeNodeByHost_def clusterNodeMap_def runMaster_def run_seqE parse_nodes_def trim_space_plain
       add_node_line_def)

section \<open>The node token\<close>

text \<open>
  The log shows the command that joins an agent with the token replaced by stars, whatever the token is, also when it holds
  quotes, as long as it has no blank; nothing of the token is left.
\<close>

theorem node_token_not_logged:
  assumes "tok \<noteq> []" "no_space tok" "\<not> contains_str (join_prefix m @ '' '') token_var"
  shows "sanitizeCommand (join_command m tok) = join_prefix m @ '' K3S_TOKEN=*** sh -''"
proof -
  have "plain_tail '' sh -''"
    by (simp add: plain_tail_def)
  from sanitize_hides [OF assms(3,1,2) this] show ?thesis
    by (simp add: join_command_def token_var_def)
qed

theorem node_token_not_logged_witness:
  "sanitizeCommand (join_command sample_manager ''K10a'') = join_prefix sample_manager @ '' K3S_TOKEN=*** sh -''"
proof (rule node_token_not_logged)
  show "\<not> contains_str (join_prefix sample_manager @ '' '') token_var"
    by code_simp
qed (simp_all add: no_space_def is_re_space_def)

end
