(* ===== verification/Installer_Deploy.thy ===== *)
theory Installer_Deploy
  imports Installer_Cluster
begin

text \<open>
  The deployment of LiteBoxd, \<open>internal/installer/workspace.go\<close>, \<open>assets.go\<close> and \<open>deploy.go\<close>: the workspace with the manifests and
  overlays on the local machine, its archive, and the commands on the master. The file system of the local machine is part of the
  state \<open>'s\<close> and its operations are arguments, like the SSH library; so are the manifests that are embedded in the binary.
\<close>

section \<open>The local machine\<close>

text \<open>The operations of the package \<open>os\<close> that the installer uses. \<open>os_Stat\<close> says whether the path is a directory.\<close>

record 's Os =
  os_Now :: "'s \<Rightarrow> time \<times> 's"
  os_Stat :: "string \<Rightarrow> 's \<Rightarrow> bool res \<times> 's"
  os_MkdirAll :: "string \<Rightarrow> 's \<Rightarrow> unit res \<times> 's"
  os_MkdirTemp :: "string \<Rightarrow> 's \<Rightarrow> string res \<times> 's"
  os_ReadDir :: "string \<Rightarrow> 's \<Rightarrow> (string \<times> bool) list res \<times> 's"
  os_ReadFile :: "string \<Rightarrow> 's \<Rightarrow> string res \<times> 's"
  os_WriteFile :: "string \<Rightarrow> string \<Rightarrow> 's \<Rightarrow> unit res \<times> 's"
  os_RemoveAll :: "string \<Rightarrow> 's \<Rightarrow> unit res \<times> 's"
  os_WalkDir :: "string \<Rightarrow> 's \<Rightarrow> (string \<times> bool) list res \<times> 's"

text \<open>
  A tree of embedded files. The archive is made of relative paths with the content of the files, none for a directory;
  \<open>in_quote\<close> is \<open>strconv.Quote\<close>.
\<close>

datatype embedded = EmbeddedFile string | EmbeddedDir "(string \<times> embedded) list"

record 's Installer =
  in_cluster :: "'s Manager"
  in_os :: "'s Os"
  in_system :: "(string \<times> embedded) list"
  in_sandbox :: "(string \<times> embedded) list"
  in_archive :: "(string \<times> string option) list \<Rightarrow> string"
  in_quote :: "string \<Rightarrow> string"

abbreviation "in_cfg i \<equiv> mg_cfg (in_cluster i)"
abbreviation "in_dry i \<equiv> mg_dry (in_cluster i)"
abbreviation "in_liteboxd i \<equiv> cfg_LiteBoxd (in_cfg i)"

abbreviation path_join3 :: "string \<Rightarrow> string \<Rightarrow> string \<Rightarrow> string" where
  "path_join3 a b c \<equiv> path_join (path_join a b) c"

definition path_base :: "string \<Rightarrow> string" where
  "path_base p =
     (let q = dropWhile (\<lambda>c. c = CHR ''/'') (rev p) in
      if p = [] then ''.'' else if q = [] then ''/'' else rev (takeWhile (\<lambda>c. c \<noteq> CHR ''/'') q))"

section \<open>The workspace (workspace.go, assets.go)\<close>

fun extract_entry :: "'s Os \<Rightarrow> string \<Rightarrow> embedded \<Rightarrow> ('s, unit res) state"
  and extract_entries :: "'s Os \<Rightarrow> string \<Rightarrow> (string \<times> embedded) list \<Rightarrow> ('s, unit res) state" where
  "extract_entry os dst (EmbeddedFile content) = mapE (Wrap (''write file '' @ dst)) (step_with (os_WriteFile os dst content))"
| "extract_entry os dst (EmbeddedDir entries) =
     seqE (mapE (Wrap (''create dir '' @ dst)) (step_with (os_MkdirAll os dst))) (\<lambda>_. extract_entries os dst entries)"
| "extract_entries os dst [] = retE ()"
| "extract_entries os dst ((name, e) # es) =
     seqE (extract_entry os (path_join dst name) e) (\<lambda>_. extract_entries os dst es)"

definition extractEmbeddedDeploy :: "'s Installer \<Rightarrow> string \<Rightarrow> ('s, unit res) state" where
  "extractEmbeddedDeploy i dst =
     seqE (extract_entry (in_os i) (path_join3 dst ''base'' ''system'') (EmbeddedDir (in_system i))) (\<lambda>_.
       extract_entry (in_os i) (path_join3 dst ''base'' ''sandbox'') (EmbeddedDir (in_sandbox i)))"

definition is_patch :: "string \<times> bool \<Rightarrow> bool" where
  "is_patch e \<longleftrightarrow> \<not> snd e \<and> (has_suffix ''.yaml'' (fst e) \<or> has_suffix ''.yml'' (fst e))"

definition copy_patch :: "'s Os \<Rightarrow> string \<Rightarrow> string \<Rightarrow> string \<Rightarrow> ('s, unit res) state" where
  "copy_patch os src dst n =
     seqE (mapE (Wrap (''read patch file '' @ path_join src n)) (step_with (os_ReadFile os (path_join src n)))) (\<lambda>b.
       mapE (Wrap (''write patch file '' @ path_join dst n)) (step_with (os_WriteFile os (path_join dst n) b)))"

definition copyOptionalDir :: "'s Os \<Rightarrow> string \<Rightarrow> string \<Rightarrow> ('s, unit res) state" where
  "copyOptionalDir os src dst = do {
     st \<leftarrow> step_with (os_Stat os src);
     case st of
       Inl e \<Rightarrow> if is_not_found e then retE () else throw (Wrap (''stat '' @ src) e)
     | Inr isDir \<Rightarrow>
         if \<not> isDir then retE ()
         else
           seqE (mapE (Wrap (''mkdir '' @ dst)) (step_with (os_MkdirAll os dst))) (\<lambda>_.
           seqE (mapE (Wrap (''readdir '' @ src)) (step_with (os_ReadDir os src))) (\<lambda>entries.
             for_eachE (\<lambda>e. copy_patch os src dst (fst e)) (filter is_patch entries))) }"

definition listPatchFiles :: "'s Os \<Rightarrow> string \<Rightarrow> ('s, string list) state" where
  "listPatchFiles os dir = do {
     entries \<leftarrow> step_with (os_ReadDir os dir);
     ret (case entries of Inl _ \<Rightarrow> [] | Inr es \<Rightarrow> sort (map (\<lambda>e. path_join dir (fst e)) (filter is_patch es))) }"

text \<open>An entry of a kustomization that replaces one value, and the target it belongs to.\<close>

definition patch_target :: "string \<Rightarrow> string \<Rightarrow> string" where
  "patch_target kind name = unlines
     [''  - target:'', ''      kind: '' @ kind, ''      name: '' @ name, ''    patch: |-'', []]"

definition patch_value :: "string \<Rightarrow> string \<Rightarrow> string" where
  "patch_value path v = unlines [''      - op: replace'', ''        path: '' @ path, ''        value: '' @ v, []]"

definition kustomization_head :: "string \<Rightarrow> string \<Rightarrow> string" where
  "kustomization_head ns base = unlines
     [''apiVersion: kustomize.config.k8s.io/v1beta1'', ''kind: Kustomization'', ''namespace: '' @ ns, ''resources:'',
      ''  - ../base/'' @ base, ''patches:'', []]"

definition patch_file_line :: "string \<Rightarrow> string \<Rightarrow> string" where
  "patch_file_line part p = ''  - path: ../config/'' @ part @ ''/patches/'' @ path_base p @ [newline]"

definition optional_value :: "string \<Rightarrow> string \<Rightarrow> string" where
  "optional_value path v = (if v = [] then [] else patch_value path v)"

definition auth_patch :: "(string \<Rightarrow> string) \<Rightarrow> string \<Rightarrow> string \<Rightarrow> string" where
  "auth_patch quote username password =
     (if username = [] \<and> password = [] then []
      else patch_target ''Secret'' ''liteboxd-auth'' @
        (if username = [] then [] else patch_value ''/stringData/ADMIN_USERNAME'' (quote username)) @
        (if password = [] then [] else patch_value ''/stringData/ADMIN_INITIAL_PASSWORD'' (quote password)))"

definition image_patch :: "string \<Rightarrow> string \<Rightarrow> string" where
  "image_patch deployment img =
     patch_target ''Deployment'' deployment @ patch_value ''/spec/template/spec/containers/0/image'' img"

definition gateway_url :: "LiteBoxdConfig \<Rightarrow> string" where
  "gateway_url l = (if trim_space (lb_GatewayURL l) \<noteq> [] then trim_space (lb_GatewayURL l) else ''http://'' @ lb_GatewayIngressHost l)"

definition systemOverlayKustomization :: "'s Installer \<Rightarrow> ('s, string) state" where
  "systemOverlayKustomization i =
     (let l = in_liteboxd i; sysNS = lb_NamespaceSystem l; s = lb_Security l in do {
        files \<leftarrow> listPatchFiles (in_os i) (path_join3 (lb_ConfigDir l) ''system'' ''patches'');
        ret (kustomization_head sysNS ''system'' @
          patch_target ''Namespace'' ''liteboxd-system'' @ patch_value ''/metadata/name'' sysNS @
          patch_target ''ClusterRoleBinding'' ''liteboxd-api-cluster'' @ patch_value ''/subjects/0/namespace'' sysNS @
          patch_target ''ConfigMap'' ''liteboxd-config'' @
          patch_value ''/data/SANDBOX_NAMESPACE'' (lb_NamespaceSandbox l) @
          patch_value ''/data/CONTROL_NAMESPACE'' sysNS @
          patch_value ''/data/GATEWAY_URL'' (gateway_url l) @
          patch_value ''/data/SANDBOX_METADATA_RETENTION_DAYS'' ([dquote] @ show_int (lb_MetadataRetentionDays l) @ [dquote]) @
          optional_value ''/data/SANDBOX_TOKEN_ENCRYPTION_KEY'' (trim_space (se_TokenEncryptionKey s)) @
          optional_value ''/data/SANDBOX_TOKEN_ENCRYPTION_KEY_ID'' (trim_space (se_TokenEncryptionKeyID s)) @
          auth_patch (in_quote i) (trim_space (se_AdminUsername s)) (trim_space (se_AdminInitialPassword s)) @
          patch_target ''Ingress'' ''liteboxd'' @
          patch_value ''/spec/rules/0/host'' (lb_GatewayIngressHost l) @
          patch_value ''/spec/rules/1/host'' (lb_IngressHost l) @
          image_patch ''liteboxd-api'' (im_API (lb_Images l)) @
          image_patch ''liteboxd-gateway'' (im_Gateway (lb_Images l)) @
          image_patch ''liteboxd-web'' (im_Web (lb_Images l)) @
          concat (map (patch_file_line ''system'') files)) })"

definition sandboxOverlayKustomization :: "'s Installer \<Rightarrow> ('s, string) state" where
  "sandboxOverlayKustomization i =
     (let l = in_liteboxd i; sysNS = lb_NamespaceSystem l; sandboxNS = lb_NamespaceSandbox l in do {
        files \<leftarrow> listPatchFiles (in_os i) (path_join3 (lb_ConfigDir l) ''sandbox'' ''patches'');
        ret (kustomization_head sandboxNS ''sandbox'' @
          patch_target ''Namespace'' ''liteboxd-sandbox'' @ patch_value ''/metadata/name'' sandboxNS @
          patch_target ''RoleBinding'' ''liteboxd-api'' @ patch_value ''/subjects/0/namespace'' sysNS @
          patch_target ''RoleBinding'' ''liteboxd-gateway'' @ patch_value ''/subjects/0/namespace'' sysNS @
          concat (map (patch_file_line ''sandbox'') files)) })"

text \<open>One overlay: its directory, its text and its file.\<close>

definition write_overlay :: "'s Installer \<Rightarrow> string \<Rightarrow> string \<Rightarrow> ('s, string) state \<Rightarrow> ('s, unit res) state" where
  "write_overlay i workspace part kustomization =
     (let dir = path_join workspace (part @ ''-overlay'') in
      seqE (step_with (os_MkdirAll (in_os i) dir)) (\<lambda>_. do {
        content \<leftarrow> kustomization;
        mapE (Wrap (''write '' @ part @ '' overlay'')) (step_with (os_WriteFile (in_os i) (path_join dir ''kustomization.yaml'') content)) }))"

definition copy_patches :: "'s Installer \<Rightarrow> string \<Rightarrow> string \<Rightarrow> ('s, unit res) state" where
  "copy_patches i workspace part =
     copyOptionalDir (in_os i) (path_join3 (lb_ConfigDir (in_liteboxd i)) part ''patches'')
       (path_join (path_join3 workspace ''config'' part) ''patches'')"

definition fill_workspace :: "'s Installer \<Rightarrow> string \<Rightarrow> ('s, unit res) state" where
  "fill_workspace i workspace =
     seqE (extractEmbeddedDeploy i workspace) (\<lambda>_.
     seqE (copy_patches i workspace ''system'') (\<lambda>_.
     seqE (copy_patches i workspace ''sandbox'') (\<lambda>_.
     seqE (write_overlay i workspace ''system'' (systemOverlayKustomization i)) (\<lambda>_.
       write_overlay i workspace ''sandbox'' (sandboxOverlayKustomization i)))))"

definition cleanup :: "'s Installer \<Rightarrow> string \<Rightarrow> ('s, unit) state" where
  "cleanup i workspace = do { _ \<leftarrow> step_with (os_RemoveAll (in_os i) workspace); ret () }"

definition buildDeployWorkspace :: "'s Installer \<Rightarrow> ('s, string res) state" where
  "buildDeployWorkspace i =
     seqE (mapE (Wrap ''create temp workspace'') (step_with (os_MkdirTemp (in_os i) ''liteboxd-installer-*''))) (\<lambda>workspace. do {
       r \<leftarrow> fill_workspace i workspace;
       case r of
         Inl e \<Rightarrow> do { cleanup i workspace; throw e }
       | Inr _ \<Rightarrow> retE workspace })"

definition archive_entry :: "'s Os \<Rightarrow> string \<Rightarrow> string \<times> bool \<Rightarrow> ('s, (string \<times> string option) res) state" where
  "archive_entry os root e =
     (if snd e then retE (fst e @ ''/'', None)
      else seqE (step_with (os_ReadFile os (path_join root (fst e)))) (\<lambda>content. retE (fst e, Some content)))"

fun archive_entries :: "'s Os \<Rightarrow> string \<Rightarrow> (string \<times> bool) list \<Rightarrow> ('s, (string \<times> string option) list res) state" where
  "archive_entries os root [] = retE []"
| "archive_entries os root (e # es) =
     seqE (archive_entry os root e) (\<lambda>x. seqE (archive_entries os root es) (\<lambda>xs. retE (x # xs)))"

definition buildTarGz :: "'s Installer \<Rightarrow> string \<Rightarrow> ('s, string res) state" where
  "buildTarGz i root =
     mapE (Wrap ''build tar.gz'') (
       seqE (step_with (os_WalkDir (in_os i) root)) (\<lambda>entries.
       seqE (archive_entries (in_os i) root entries) (\<lambda>files. retE (in_archive i files))))"

section \<open>The deployment (deploy.go)\<close>

definition run_on_master :: "'s Installer \<Rightarrow> string \<Rightarrow> string \<Rightarrow> bool \<Rightarrow> string \<Rightarrow> ('s, unit res) state" where
  "run_on_master i what command useSudo input = do {
     r \<leftarrow> sshx_run (mg_ssh (in_cluster i)) (masterTarget (in_cluster i)) command useSudo input;
     ret (case snd r of None \<Rightarrow> Inr () | Some e \<Rightarrow> Inl (Wrap what e)) }"

definition remote_dir :: "time \<Rightarrow> string" where
  "remote_dir now = ''/tmp/liteboxd-installer-'' @ show_int (now div second)"

definition unpack_command :: "string \<Rightarrow> string" where
  "unpack_command dir = ''mkdir -p '' @ shellQuote dir @ '' && tar xzf - -C '' @ shellQuote dir"

definition upload :: "'s Installer \<Rightarrow> string \<Rightarrow> ('s, unit res) state" where
  "upload i workspace =
     seqE (mapE (Wrap ''connect master for deploy'') (sshx_Dial (mg_ssh (in_cluster i)) (masterTarget (in_cluster i)))) (\<lambda>_. do {
       now \<leftarrow> step_with (os_Now (in_os i));
       (let dir = remote_dir now in
        seqE (buildTarGz i workspace) (\<lambda>tarball.
        seqE (run_on_master i ''upload workspace'' (unpack_command dir) False tarball) (\<lambda>_.
        seqE (run_on_master i ''apply system overlay'' (kubectl (''apply -k '' @ shellQuote dir @ ''/system-overlay'')) True []) (\<lambda>_.
        seqE (if DeploySandbox (in_cfg i)
              then run_on_master i ''apply sandbox overlay'' (kubectl (''apply -k '' @ shellQuote dir @ ''/sandbox-overlay'')) True []
              else retE ()) (\<lambda>_. do {
          _ \<leftarrow> run_on_master i [] (''rm -rf '' @ shellQuote dir) False [];
          retE () }))))) })"

definition deployLiteBoxd :: "'s Installer \<Rightarrow> ('s, unit res) state" where
  "deployLiteBoxd i =
     seqE (buildDeployWorkspace i) (\<lambda>workspace. do {
       r \<leftarrow> (if in_dry i then retE () else upload i workspace);
       cleanup i workspace;
       ret r })"

text \<open>The installer's own \<open>runMaster\<close> is that of the cluster manager.\<close>

definition rolloutCheck :: "'s Installer \<Rightarrow> ('s, unit res) state" where
  "rolloutCheck i =
     for_eachE (\<lambda>deploy. seqE (runMaster (in_cluster i)
         (kubectl (''-n '' @ shellQuote (lb_NamespaceSystem (in_liteboxd i)) @ '' rollout status deploy/'' @ deploy @ '' --timeout=600s'')) True)
         (\<lambda>_. retE ()))
       [''liteboxd-api'', ''liteboxd-gateway'', ''liteboxd-web'']"

definition connection_checks :: "string \<Rightarrow> (string \<times> string) list" where
  "connection_checks ns =
     [(''kube_apiserver_reachable'', kubectl ''cluster-info >/dev/null''),
      (''system_namespace_access'',
       kubectl (''auth can-i create deployments -n '' @ shellQuote ns @ '' | grep -q '^yes$'' @ [squote])),
      (''system_namespace_present_or_creatable'',
       kubectl (''get namespace '' @ shellQuote ns @ '' >/dev/null 2>&1 || '') @
       kubectl (''create namespace '' @ shellQuote ns @ '' >/dev/null''))]"

definition precheckClusterConnectionForLiteBoxd :: "'s Installer \<Rightarrow> ('s, unit res) state" where
  "precheckClusterConnectionForLiteBoxd i =
     for_eachE (\<lambda>(name, cmd). seqE (mapE (Wrap (''liteboxd-only precheck '' @ name)) (runMaster (in_cluster i) cmd True)) (\<lambda>_. retE ()))
       (connection_checks (lb_NamespaceSystem (in_liteboxd i)))"

end
