(* ===== verification/Installer_Steps.thy ===== *)
theory Installer_Steps
  imports Installer_Deploy
begin

text \<open>
  The steps of the installer and the file that records them, \<open>internal/state/state.go\<close>, \<open>internal/installer/installer.go\<close> and the
  commands \<open>cmd/apply.go\<close>, \<open>resume.go\<close> and \<open>node.go\<close>. A run holds the data of the store beside the state of the hosts and of the
  local machine; the encoding of the file is an argument.
\<close>

section \<open>The store (state.go)\<close>

datatype StepStatus = StatusDone | StatusFailed | StatusRunning

record StepRecord =
  sr_Status :: StepStatus
  sr_Message :: string
  sr_UpdatedAt :: string

text \<open>A missing map of steps is replaced by an empty one when the file is loaded, so it is not told apart from it.\<close>

record StateFile =
  sf_Version :: int
  sf_Cluster :: string
  sf_ConfigPath :: string
  sf_UpdatedAt :: string
  sf_Steps :: "string \<rightharpoonup> StepRecord"

record 's Store =
  so_Path :: string
  so_os :: "'s Os"
  so_marshal :: "StateFile \<Rightarrow> string res"
  so_unmarshal :: "string \<Rightarrow> StateFile res"

definition write_state :: "'s Store \<Rightarrow> StateFile \<Rightarrow> ('s, unit res) state" where
  "write_state st d =
     (case so_marshal st d of
        Inl e \<Rightarrow> throw (Wrap ''marshal state'' e)
      | Inr b \<Rightarrow> mapE (Wrap ''write state'') (step_with (os_WriteFile (so_os st) (so_Path st) b)))"

definition new_state :: "time \<Rightarrow> string \<Rightarrow> string \<Rightarrow> StateFile" where
  "new_state now clusterName configPath =
     \<lparr>sf_Version = 1, sf_Cluster = clusterName, sf_ConfigPath = configPath, sf_UpdatedAt = format_rfc3339 now, sf_Steps = Map.empty\<rparr>"

definition LoadOrCreate :: "'s Store \<Rightarrow> string \<Rightarrow> string \<Rightarrow> ('s, StateFile res) state" where
  "LoadOrCreate st clusterName configPath =
     seqE (mapE (Wrap ''create state dir'') (step_with (os_MkdirAll (so_os st) (path_dir (so_Path st))))) (\<lambda>_. do {
       info \<leftarrow> step_with (os_Stat (so_os st) (so_Path st));
       case info of
         Inr _ \<Rightarrow>
           seqE (mapE (Wrap ''read state file'') (step_with (os_ReadFile (so_os st) (so_Path st)))) (\<lambda>b.
             case so_unmarshal st b of Inl e \<Rightarrow> throw (Wrap ''parse state file'' e) | Inr d \<Rightarrow> retE d)
       | Inl _ \<Rightarrow> do {
           now \<leftarrow> step_with (os_Now (so_os st));
           let d = new_state now clusterName configPath;
           seqE (write_state st d) (\<lambda>_. retE d) } })"

text \<open>A run: the data of the store, and everything else.\<close>

record 's InstallRun =
  rn_data :: StateFile
  rn_env :: 's

abbreviation steps :: "'s InstallRun \<Rightarrow> (string \<rightharpoonup> StepRecord)" where
  "steps w \<equiv> sf_Steps (rn_data w)"

definition on_env :: "('s, 'a) state \<Rightarrow> ('s InstallRun, 'a) state" where
  "on_env m = step_with (\<lambda>w. case run_state m (rn_env w) of (a, s) \<Rightarrow> (a, w\<lparr>rn_env := s\<rparr>))"

definition on_data :: "(StateFile \<Rightarrow> StateFile) \<Rightarrow> ('s InstallRun, StateFile) state" where
  "on_data f = step_with (\<lambda>w. (f (rn_data w), w\<lparr>rn_data := f (rn_data w)\<rparr>))"

definition mark_step :: "time \<Rightarrow> string \<Rightarrow> StepStatus \<Rightarrow> string \<Rightarrow> StateFile \<Rightarrow> StateFile" where
  "mark_step now step status message d =
     (let at = format_rfc3339 now in
      d\<lparr>sf_UpdatedAt := at, sf_Steps := (sf_Steps d)(step \<mapsto> \<lparr>sr_Status = status, sr_Message = message, sr_UpdatedAt = at\<rparr>)\<rparr>)"

definition Mark :: "'s Store \<Rightarrow> string \<Rightarrow> StepStatus \<Rightarrow> string \<Rightarrow> ('s InstallRun, unit res) state" where
  "Mark st step status message = do {
     now \<leftarrow> on_env (step_with (os_Now (so_os st)));
     d \<leftarrow> on_data (mark_step now step status message);
     on_env (write_state st d) }"

section \<open>The steps (installer.go)\<close>

record 's Runner =
  ru_inst :: "'s Installer"
  ru_store :: "'s Store"
  ru_clusterOnly :: bool
  ru_liteboxdOnly :: bool
  ru_yaml :: "(string \<times> string list) list \<Rightarrow> string res"
  ru_sha :: "string \<Rightarrow> string"

abbreviation "ru_mgr i \<equiv> in_cluster (ru_inst i)"
abbreviation "ru_remove_absent i \<equiv> rt_RemoveAbsentAgents (cfg_Runtime (in_cfg (ru_inst i)))"

definition finish_step :: "'s Runner \<Rightarrow> string \<Rightarrow> 'a res \<Rightarrow> ('s InstallRun, 'a res) state" where
  "finish_step i name r =
     (case r of
        Inl e \<Rightarrow> do {
          _ \<leftarrow> Mark (ru_store i) name StatusFailed (err_text e);
          throw (Wrap (''step '' @ name @ '' failed'') e) }
      | Inr x \<Rightarrow> seqE (Mark (ru_store i) name StatusDone []) (\<lambda>_. retE x))"

definition runStep :: "'s Runner \<Rightarrow> string \<Rightarrow> ('s, 'a res) state \<Rightarrow> ('s InstallRun, 'a res) state" where
  "runStep i name fn =
     seqE (Mark (ru_store i) name StatusRunning []) (\<lambda>_. do { r \<leftarrow> on_env fn; finish_step i name r })"

text \<open>A mark whose error is dropped.\<close>

definition mark_skipped :: "'s Runner \<Rightarrow> string \<Rightarrow> string \<Rightarrow> ('s InstallRun, unit) state" where
  "mark_skipped i reason step = do { _ \<leftarrow> Mark (ru_store i) step StatusDone reason; ret () }"

definition cluster_steps :: "'s Runner \<Rightarrow> string list" where
  "cluster_steps i =
     [''precheck'', ''configure_registries'', ''install_master'', ''install_cilium'', ''read_k3s_token'', ''join_agents'',
      ''wait_nodes_ready'', ''install_longhorn''] @
     (if ru_remove_absent i then [''reconcile_remove_absent_agents''] else [])"

definition markClusterStepsSkipped :: "'s Runner \<Rightarrow> string \<Rightarrow> ('s InstallRun, unit) state" where
  "markClusterStepsSkipped i reason = for_each (mark_skipped i reason) (cluster_steps i)"

definition deploy_steps :: "'s Runner \<Rightarrow> ('s InstallRun, unit res) state" where
  "deploy_steps i =
     seqE (runStep i ''deploy_liteboxd'' (deployLiteBoxd (ru_inst i))) (\<lambda>_.
       runStep i ''rollout_check'' (rolloutCheck (ru_inst i)))"

definition applyLiteBoxdOnly :: "'s Runner \<Rightarrow> ('s InstallRun, unit res) state" where
  "applyLiteBoxdOnly i = do {
     markClusterStepsSkipped i ''skipped: liteboxd-only mode'';
     seqE (runStep i ''precheck_cluster_connection'' (precheckClusterConnectionForLiteBoxd (ru_inst i))) (\<lambda>_. deploy_steps i) }"

definition Apply :: "'s Runner \<Rightarrow> ('s InstallRun, unit res) state" where
  "Apply i =
     (if ru_liteboxdOnly i then applyLiteBoxdOnly i
      else
        let m = ru_mgr i in
        seqE (runStep i ''precheck'' (Precheck m)) (\<lambda>_.
        seqE (runStep i ''configure_registries'' (ConfigureRegistriesAllNodes m (ru_yaml i))) (\<lambda>_.
        seqE (runStep i ''install_master'' (InstallOrCheckMaster m)) (\<lambda>_.
        seqE (runStep i ''install_cilium'' (InstallOrUpgradeCilium (ru_sha i) m)) (\<lambda>_.
        seqE (runStep i ''read_k3s_token'' (ReadNodeToken m)) (\<lambda>token.
        seqE (runStep i ''join_agents'' (JoinAgents m token)) (\<lambda>_.
        seqE (runStep i ''wait_nodes_ready'' (WaitNodesReady m)) (\<lambda>_.
        seqE (if ru_remove_absent i then runStep i ''reconcile_remove_absent_agents'' (ReconcileRemoveAbsentAgents m) else retE ()) (\<lambda>_.
        seqE (runStep i ''install_longhorn'' (InstallOrUpgradeLonghorn (ru_sha i) m)) (\<lambda>_.
          if ru_clusterOnly i then do {
            for_each (mark_skipped i ''skipped: cluster-only mode'') [''deploy_liteboxd'', ''rollout_check''];
            retE () }
          else deploy_steps i))))))))))"

definition Installer_RemoveNodes :: "'s Runner \<Rightarrow> string list \<Rightarrow> bool \<Rightarrow> ('s InstallRun, unit res) state" where
  "Installer_RemoveNodes i hosts uninstallAgent = runStep i ''node_remove'' (RemoveNodes (ru_mgr i) hosts uninstallAgent)"

section \<open>The commands (cmd/apply.go, cmd/node.go)\<close>

datatype cmd_error = MutuallyExclusive | ConfigError config_error | CommandError go_err

text \<open>
  The flags, the results of reading and decoding the configuration file, and what the commands build an installer with. \<open>cf_home\<close> is the home
  directory, if there is one.
\<close>

record 's Command =
  cf_file :: string
  cf_content :: "string + string"
  cf_decode :: "string \<Rightarrow> string + Config"
  cf_getenv :: "string \<Rightarrow> string"
  cf_exists :: "string \<Rightarrow> bool"
  cf_home :: "string option"
  cf_statePath :: string
  cf_dryRun :: bool
  cf_clusterOnly :: bool
  cf_liteboxdOnly :: bool
  cf_ssh :: "'s Ssh"
  cf_sched :: "NodeConfig list \<Rightarrow> NodeConfig list"
  cf_runner :: "'s Runner"

definition DefaultPath :: "string option \<Rightarrow> string \<Rightarrow> string" where
  "DefaultPath home clusterName =
     path_join3 (case home of None \<Rightarrow> ''.'' | Some h \<Rightarrow> h) ''.liteboxd-installer'' (clusterName @ ''-state.json'')"

definition command_store :: "'s Command \<Rightarrow> Config \<Rightarrow> 's Store" where
  "command_store f cfg =
     (ru_store (cf_runner f))\<lparr>so_Path := (if cf_statePath f = [] then DefaultPath (cf_home f) (cl_Name (cfg_Cluster cfg)) else cf_statePath f)\<rparr>"

definition command_runner :: "'s Command \<Rightarrow> Config \<Rightarrow> bool \<Rightarrow> bool \<Rightarrow> 's Runner" where
  "command_runner f cfg clusterOnly liteboxdOnly =
     (cf_runner f)\<lparr>
       ru_inst := (ru_inst (cf_runner f))\<lparr>in_cluster :=
         \<lparr>mg_cfg = cfg, mg_dry = cf_dryRun f \<or> rt_DryRun (cfg_Runtime cfg), mg_ssh = cf_ssh f, mg_sched = cf_sched f\<rparr>\<rparr>,
       ru_store := command_store f cfg, ru_clusterOnly := clusterOnly, ru_liteboxdOnly := liteboxdOnly\<rparr>"

text \<open>Load the store and run on it.\<close>

definition run_with_store :: "'s Command \<Rightarrow> Config \<Rightarrow> ('s InstallRun, unit res) state \<Rightarrow> ('s, cmd_error + unit) state" where
  "run_with_store f cfg run = do {
     r \<leftarrow> LoadOrCreate (command_store f cfg) (cl_Name (cfg_Cluster cfg)) (cf_file f);
     case r of
       Inl e \<Rightarrow> ret (Inl (CommandError e))
     | Inr d \<Rightarrow> step_with (\<lambda>s.
         case run_state run \<lparr>rn_data = d, rn_env = s\<rparr> of
           (Inl e, w) \<Rightarrow> (Inl (CommandError e), rn_env w)
         | (Inr _, w) \<Rightarrow> (Inr (), rn_env w)) }"

definition runApply :: "'s Command \<Rightarrow> ('s, cmd_error + unit) state" where
  "runApply f =
     (if cf_clusterOnly f \<and> cf_liteboxdOnly f then ret (Inl MutuallyExclusive)
      else case LoadWithOptions (cf_decode f) (cf_getenv f) (cf_exists f) (cf_file f) (cf_content f) (\<not> cf_clusterOnly f) of
        Inl e \<Rightarrow> ret (Inl (ConfigError e))
      | Inr cfg \<Rightarrow> run_with_store f cfg (Apply (command_runner f cfg (cf_clusterOnly f) (cf_liteboxdOnly f))))"

definition host_list :: "string list \<Rightarrow> string list" where
  "host_list hosts = filter (\<lambda>p. p \<noteq> []) (map trim_space (concat (map (split_char (CHR '','')) hosts)))"

definition nodeRemove :: "'s Command \<Rightarrow> string list \<Rightarrow> ('s, cmd_error + unit) state" where
  "nodeRemove f removeHosts =
     (case LoadWithOptions (cf_decode f) (cf_getenv f) (cf_exists f) (cf_file f) (cf_content f) False of
        Inl e \<Rightarrow> ret (Inl (ConfigError e))
      | Inr cfg \<Rightarrow> run_with_store f cfg (Installer_RemoveNodes (command_runner f cfg False False) (host_list removeHosts) True))"

section \<open>What the store records\<close>

lemma wp_on_env [wp_simps]: "wp (on_env m) Q w \<longleftrightarrow> wp m (\<lambda>a s. Q a (w\<lparr>rn_env := s\<rparr>)) (rn_env w)"
  by (simp add: on_env_def wp_def step_with_def split: prod.split)

lemma wp_on_data [wp_simps]: "wp (on_data f) Q w \<longleftrightarrow> Q (f (rn_data w)) (w\<lparr>rn_data := f (rn_data w)\<rparr>)"
  by (simp add: on_data_def wp_simps)

text \<open>The error of a mark is that of writing the file; the record in memory is made in any case.\<close>

definition save_error :: "go_err \<Rightarrow> bool" where
  "save_error e \<longleftrightarrow> (\<exists>x. e = Wrap ''marshal state'' x \<or> e = Wrap ''write state'' x)"

definition recorded :: "(string \<rightharpoonup> StepRecord) \<Rightarrow> string \<Rightarrow> StepStatus \<Rightarrow> string \<Rightarrow> bool" where
  "recorded st step status message \<longleftrightarrow> (\<exists>at. st step = Some \<lparr>sr_Status = status, sr_Message = message, sr_UpdatedAt = at\<rparr>)"

lemma wp_write_state:
  "(\<And>r s'. (case r of Inl e \<Rightarrow> save_error e | Inr _ \<Rightarrow> True) \<Longrightarrow> Q r s') \<Longrightarrow> wp (write_state st d) Q s"
  by (auto simp: write_state_def wp_simps save_error_def split: sum.split prod.split)

lemma wp_Mark:
  assumes "\<And>r w' at. steps w' = (steps w)(step \<mapsto> \<lparr>sr_Status = status, sr_Message = message, sr_UpdatedAt = at\<rparr>) \<Longrightarrow>
    (case r of Inl e \<Rightarrow> save_error e | Inr _ \<Rightarrow> True) \<Longrightarrow> Q r w'"
  shows "wp (Mark st step status message) Q w"
  unfolding Mark_def wp_bind wp_on_env wp_on_data wp_step_with
  by (auto split: prod.split intro!: wp_write_state assms simp: mark_step_def Let_def)

text \<open>
  The outcome of a plan of steps with their final messages: all are done, or those before one of them are, the records of those after
  it are as they were, and it is failed with the message of the error, or could not be recorded in the file.
\<close>

definition stopped_at :: "(string \<rightharpoonup> StepRecord) \<Rightarrow> string \<Rightarrow> go_err \<Rightarrow> bool" where
  "stopped_at st step e \<longleftrightarrow>
     (\<exists>x. e = Wrap (''step '' @ step @ '' failed'') x \<and> recorded st step StatusFailed (err_text x)) \<or>
     save_error e \<and> (recorded st step StatusRunning [] \<or> recorded st step StatusDone [])"

fun plan_outcome :: "(string \<times> string) list \<Rightarrow> (string \<rightharpoonup> StepRecord) \<Rightarrow> go_err + 'a \<Rightarrow> (string \<rightharpoonup> StepRecord) \<Rightarrow> bool" where
  "plan_outcome plan st0 (Inr _) st \<longleftrightarrow>
     (\<forall>(step, message) \<in> set plan. recorded st step StatusDone message) \<and> (\<forall>step. step \<notin> fst ` set plan \<longrightarrow> st step = st0 step)"
| "plan_outcome plan st0 (Inl e) st \<longleftrightarrow>
     (\<exists>before step message after. plan = before @ (step, message) # after \<and>
        (\<forall>(s, m) \<in> set before. recorded st s StatusDone m) \<and> stopped_at st step e \<and>
        (\<forall>s. s \<noteq> step \<and> s \<notin> fst ` set before \<longrightarrow> st s = st0 s))"

definition follows :: "(string \<times> string) list \<Rightarrow> ('s InstallRun, 'a res) state \<Rightarrow> bool" where
  "follows plan m \<longleftrightarrow> (\<forall>w. wp m (\<lambda>r w'. plan_outcome plan (steps w) r (steps w')) w)"

lemma followsD: "follows plan m \<Longrightarrow> wp m (\<lambda>r w'. plan_outcome plan (steps w) r (steps w')) w"
  by (simp add: follows_def)

lemma follows_nil: "follows [] (retE x)"
  by (simp add: follows_def wp_simps)

lemma one_step_failed:
  "stopped_at st name e \<Longrightarrow> \<forall>s. s \<noteq> name \<longrightarrow> st s = st0 s \<Longrightarrow> plan_outcome [(name, [])] st0 (Inl e) st"
  by (auto intro: exI [of _ "[]"])

lemma wp_finish_step:
  fixes w w1 :: "'s InstallRun" and r :: "'a res"
  assumes "\<forall>s. s \<noteq> name \<longrightarrow> steps w s = steps w1 s"
  shows "wp (finish_step i name r) (\<lambda>r w'. plan_outcome [(name, [])] (steps w) r (steps w')) w1"
proof (cases r)
  case (Inl e)
  show ?thesis
    unfolding finish_step_def Inl sum.case wp_bind wp_ret
    by (rule wp_Mark, rule one_step_failed) (use assms in \<open>auto simp: stopped_at_def recorded_def\<close>)
next
  case (Inr x)
  show ?thesis
    unfolding finish_step_def Inr sum.case wp_seqE wp_ret
  proof (rule wp_Mark)
    fix r' :: "unit res" and w' at
    assume w': "steps w' = (steps w1)(name \<mapsto> \<lparr>sr_Status = StatusDone, sr_Message = [], sr_UpdatedAt = at\<rparr>)"
      and r': "case r' of Inl e \<Rightarrow> save_error e | Inr _ \<Rightarrow> True"
    have "recorded (steps w') name StatusDone []" "\<forall>s. s \<noteq> name \<longrightarrow> steps w' s = steps w s"
      using w' assms by (auto simp: recorded_def)
    then show "case r' of Inl e \<Rightarrow> plan_outcome [(name, [])] (steps w) (Inl e) (steps w')
        | Inr _ \<Rightarrow> plan_outcome [(name, [])] (steps w) (Inr x) (steps w')"
      using r' by (cases r') (auto simp: stopped_at_def intro!: one_step_failed simp del: plan_outcome.simps(2))
  qed
qed

lemma follows_step:
  fixes i :: "'s Runner" and fn :: "('s, 'a res) state"
  shows "follows [(name, [])] (runStep i name fn)"
  unfolding follows_def runStep_def wp_seqE
proof (intro allI wp_Mark)
  fix w w1 :: "'s InstallRun" and r :: "unit res" and at
  assume w1: "steps w1 = (steps w)(name \<mapsto> \<lparr>sr_Status = StatusRunning, sr_Message = [], sr_UpdatedAt = at\<rparr>)"
    and r: "case r of Inl e \<Rightarrow> save_error e | Inr _ \<Rightarrow> True"
  have "wp (do { r \<leftarrow> on_env fn; finish_step i name r }) (\<lambda>r w'. plan_outcome [(name, [])] (steps w) r (steps w')) w1"
    unfolding wp_bind wp_on_env
    by (rule wp_mono [where Q = "\<lambda>_ _. True"]) (use w1 in \<open>auto simp: wp_alt [of fn] intro!: wp_finish_step\<close>)
  then show "case r of Inl e \<Rightarrow> plan_outcome [(name, [])] (steps w) (Inl e) (steps w1)
     | Inr x \<Rightarrow> wp (do { r \<leftarrow> on_env fn; finish_step i name r }) (\<lambda>r w'. plan_outcome [(name, [])] (steps w) r (steps w')) w1"
    using r w1 by (cases r) (auto simp: stopped_at_def recorded_def intro!: one_step_failed simp del: plan_outcome.simps)
qed

lemma follows_seq:
  fixes m :: "('s InstallRun, 'a res) state" and f :: "'a \<Rightarrow> ('s InstallRun, 'b res) state"
  assumes "follows p m" "\<And>x. follows q (f x)" "fst ` set p \<inter> fst ` set q = {}"
  shows "follows (p @ q) (seqE m f)"
  unfolding follows_def wp_seqE
proof (intro allI wp_mono [OF followsD [OF assms(1)]])
  fix w w1 :: "'s InstallRun" and r :: "'a res"
  assume r: "plan_outcome p (steps w) r (steps w1)"
  show "case r of Inl e \<Rightarrow> plan_outcome (p @ q) (steps w) (Inl e) (steps w1)
     | Inr x \<Rightarrow> wp (f x) (\<lambda>r w'. plan_outcome (p @ q) (steps w) r (steps w')) w1"
  proof (cases r)
    case (Inl e)
    then show ?thesis
      using r by simp (metis append.assoc append_Cons)
  next
    case (Inr x)
    have first: "\<forall>(s, t) \<in> set p. recorded (steps w1) s StatusDone t" "\<forall>s. s \<notin> fst ` set p \<longrightarrow> steps w1 s = steps w s"
      using r Inr by auto
    have "plan_outcome (p @ q) (steps w) r' (steps w2)" if out: "plan_outcome q (steps w1) r' (steps w2)" for r' :: "'b res" and w2 :: "'s InstallRun"
    proof -
      have same: "steps w2 s = steps w1 s" if "s \<in> fst ` set p" for s
      proof -
        have "s \<notin> fst ` set q"
          using that assms(3) by blast
        then show ?thesis
          using out by (cases r') (auto simp: image_Un)
      qed
      have done': "\<forall>(s, t) \<in> set p. recorded (steps w2) s StatusDone t"
      proof clarify
        fix s t
        assume st: "(s, t) \<in> set p"
        then have "steps w2 s = steps w1 s"
          by (intro same) force
        then show "recorded (steps w2) s StatusDone t"
          using first(1) st by (auto simp: recorded_def)
      qed
      show ?thesis
      proof (cases r')
        case (Inl e)
        then obtain before step message after where q: "q = before @ (step, message) # after"
            "\<forall>(s, m) \<in> set before. recorded (steps w2) s StatusDone m" "stopped_at (steps w2) step e"
            "\<forall>s. s \<noteq> step \<and> s \<notin> fst ` set before \<longrightarrow> steps w2 s = steps w1 s"
          using out by auto
        have "p @ q = (p @ before) @ (step, message) # after"
          using q(1) by simp
        moreover have "\<forall>(s, m) \<in> set (p @ before). recorded (steps w2) s StatusDone m"
          using q(2) done' by auto
        moreover have "\<forall>s. s \<noteq> step \<and> s \<notin> fst ` set (p @ before) \<longrightarrow> steps w2 s = steps w s"
          using q(4) first(2) by (auto simp: image_Un)
        ultimately show ?thesis
          unfolding Inl plan_outcome.simps using q(3) by blast
      next
        case Inr
        then show ?thesis
          using out done' first(2) by (auto simp: image_Un)
      qed
    qed
    then show ?thesis
      using wp_mono [OF followsD [OF assms(2)]] Inr by simp
  qed
qed

lemma follows_marks: "distinct xs \<Longrightarrow> follows (map (\<lambda>s. (s, reason)) xs) (do { for_each (mark_skipped i reason) xs; retE () })"
proof (induction xs)
  case Nil
  then show ?case
    by (simp add: follows_nil)
next
  case (Cons x xs)
  have "follows [(x, reason)] (do { mark_skipped i reason x; retE () })"
    unfolding follows_def mark_skipped_def wp_bind wp_ret
    by (intro allI wp_Mark) (auto simp: recorded_def)
  from follows_seq [OF this Cons.IH] Cons.prems
  have "follows ([(x, reason)] @ map (\<lambda>s. (s, reason)) xs)
      (seqE (do { mark_skipped i reason x; retE () }) (\<lambda>_. do { for_each (mark_skipped i reason) xs; retE () }))"
    by (auto simp: image_iff)
  then show ?case
    by (simp add: follows_def wp_simps)
qed

lemma follows_after_marks:
  assumes "distinct xs" "follows q m" "set xs \<inter> fst ` set q = {}"
  shows "follows (map (\<lambda>s. (s, reason)) xs @ q) (do { for_each (mark_skipped i reason) xs; m })"
proof -
  have "follows (map (\<lambda>s. (s, reason)) xs @ q) (seqE (do { for_each (mark_skipped i reason) xs; retE () }) (\<lambda>_. m))"
    using assms by (intro follows_seq follows_marks) (auto simp: image_image)
  then show ?thesis
    by (simp add: follows_def wp_simps)
qed

section \<open>The plan of a run\<close>

definition main_steps :: "'s Runner \<Rightarrow> string list" where
  "main_steps i =
     [''precheck'', ''configure_registries'', ''install_master'', ''install_cilium'', ''read_k3s_token'', ''join_agents'',
      ''wait_nodes_ready''] @ (if ru_remove_absent i then [''reconcile_remove_absent_agents''] else []) @ [''install_longhorn'']"

definition apply_plan :: "'s Runner \<Rightarrow> (string \<times> string) list" where
  "apply_plan i =
     (if ru_liteboxdOnly i then
        map (\<lambda>s. (s, ''skipped: liteboxd-only mode'')) (cluster_steps i) @
        map (\<lambda>s. (s, [])) [''precheck_cluster_connection'', ''deploy_liteboxd'', ''rollout_check'']
      else
        map (\<lambda>s. (s, [])) (main_steps i) @
        map (\<lambda>s. (s, if ru_clusterOnly i then ''skipped: cluster-only mode'' else [])) [''deploy_liteboxd'', ''rollout_check''])"

lemma follows_cons:
  assumes "\<And>x. follows q (f x)" "name \<notin> fst ` set q"
  shows "follows ((name, []) # q) (seqE (runStep i name fn) f)"
  using follows_seq [OF follows_step, of q f name i fn] assms by simp

lemma follows_deploy: "follows [(''deploy_liteboxd'', []), (''rollout_check'', [])] (deploy_steps i)"
  unfolding deploy_steps_def by (intro follows_cons follows_step) simp

lemma follows_last:
  "follows (map (\<lambda>s. (s, if ru_clusterOnly i then ''skipped: cluster-only mode'' else [])) [''deploy_liteboxd'', ''rollout_check''])
     (if ru_clusterOnly i then do {
        for_each (mark_skipped i ''skipped: cluster-only mode'') [''deploy_liteboxd'', ''rollout_check''];
        retE () }
      else deploy_steps i)"
proof (cases "ru_clusterOnly i")
  case True
  then show ?thesis
    using follows_marks [of "[''deploy_liteboxd'', ''rollout_check'']" "''skipped: cluster-only mode''" i] by simp
next
  case False
  then show ?thesis
    using follows_deploy [of i] by simp
qed

lemma follows_optional:
  assumes "\<And>x. follows q (f x)" "name \<notin> fst ` set q"
  shows "follows ((if b then [(name, [])] else []) @ q) (seqE (if b then runStep i name fn else retE x) f)"
proof (cases b)
  case True
  then show ?thesis
    using follows_cons [of q f name i fn] assms by simp
next
  case False
  have "follows ([] @ q) (seqE (retE x) f)"
    using assms(1) by (intro follows_seq follows_nil) simp_all
  with False show ?thesis
    by simp
qed


end
