(* ===== verification/Spec2Isabelle.thy ===== *)
theory Spec2Isabelle
  imports Reconcile_Pass Ws_Relay Server Exec_Session Installer_Nodes Installer_Steps
begin

text \<open>
  A verification development for LiteBoxd, a service that runs sandboxes on a Kubernetes cluster. This is its root theory: it imports all
  others and holds the properties that span the backend. Paths are relative to \<open>backend/internal\<close> where they do not begin with
  \<open>tools\<close> or \<open>cmd\<close>.

  The program. The API server keeps accounts, templates, sandboxes and image prepulls in a SQLite database and turns requests into
  calls of the cluster. A creation writes a row, makes a pod (or, with persistence, a volume claim and a deployment) and leaves the rest to
  goroutines; tickers request the deletion of expired sandboxes, drive deletions to their end, reconcile rows with pods, settle
  prepulls and keep the network policies in line with the rows. The gateway reads the same rows: it checks the access token of a request and
  forwards it, or a websocket, to the pod. The installer is a command line tool that sets up the cluster over SSH and deploys LiteBoxd on it.

  The theories, and what they model.
  \<^item> \<open>Prelude\<close>, \<open>Go_Strings\<close>, \<open>Go_Http\<close>, \<open>Model\<close>, \<open>Sql_Tables\<close>: errors, times and durations at the width of Go's \<open>int64\<close>, the
    functions of \<open>strings\<close>, \<open>fmt\<close> and \<open>net/http\<close> that the code uses; the state monad of the programs over a \<open>world\<close> with the tables,
    the cluster, the clock, random identifiers and a schedule of database faults; the statements of SQL as functions on lists of rows.
    The proofs rest on \<open>wp\<close> (what a program returns and leaves behind, collected in \<open>wp_simps\<close>) and on \<open>state_io_rel\<close> (a
    preorder between the worlds before and after that every step of a program respects, locale \<open>world_preorder\<close>). The locales \<open>row_update\<close>
    and \<open>pager\<close> give the laws of an update of one row and of a page of rows.
  \<^item> \<open>Sandbox_Store\<close> (\<open>store/sandbox.go\<close>): one definition per method; the locale \<open>store_client\<close> names what the writes of the store respect,
    so that every operation above it is treated once for all invariants and frames.
  \<^item> \<open>Kube_Client\<close>, \<open>Pod_Files\<close>, \<open>Sample_Cluster\<close> (\<open>k8s/client.go\<close>, \<open>persistent_runtime.go\<close>, \<open>persistent_observer.go\<close>): the requests the
    client sends to an arbitrary API server, and a small server that executes, for the witnesses.
  \<^item> \<open>Persistent_Status\<close>, \<open>Sandbox_Service\<close>, \<open>Sandbox_Lifecycle\<close> (\<open>service/persistent_status.go\<close>, \<open>service/sandbox.go\<close>): startup
    of persistent sandboxes; creation, deletion, restart, stop, start, the cleaners and the listings, and what they promise: expiry, remaining
    lifetime, the outcomes of a creation, and that no background task brings a deleted sandbox back.
  \<^item> \<open>Deletion\<close> (\<open>service/sandbox_deletion.go\<close>): the controller refines a phase machine for every cluster and fault, completes a row only on a
    clean snapshot, and ends where pods end.
  \<^item> \<open>Reconcile\<close>, \<open>Reconcile_Pass\<close> (\<open>service/sandbox_reconcile.go\<close>): what a pass never does, and what it does exactly for pod-backed sandboxes.
  \<^item> \<open>Pvc_Mapping\<close> (\<open>service/sandbox_pvc.go\<close>): the view of volumes.
  \<^item> \<open>Template_Store\<close>, \<open>Template_Service\<close>, \<open>Template_History\<close> (\<open>store/template.go\<close>, \<open>service/template.go\<close>, \<open>service/import_export.go\<close>): templates,
    their versions, validation, import and export.
  \<^item> \<open>Token_Cipher\<close> (\<open>security/token.go\<close>), \<open>Auth\<close>, \<open>Auth_Requests\<close> (\<open>store/auth.go\<close>, \<open>auth\<close>, \<open>handler/auth.go\<close>): tokens, accounts, sessions and keys.
  \<^item> \<open>Prepull\<close> (\<open>store/prepull.go\<close>, \<open>service/prepull.go\<close>, \<open>handler/prepull.go\<close> and the jobs of \<open>k8s/client.go\<close>): image prepulls as a phase machine.
  \<^item> \<open>Network_Policy\<close>, \<open>Policy_Reconcile\<close> (\<open>k8s/network_policy.go\<close>, \<open>service/network_policy_reconciler.go\<close>): the policy objects and the pass over them.
  \<^item> \<open>Exec_Session\<close> (\<open>ExecInteractive\<close> of \<open>service/sandbox.go\<close> and \<open>k8s/terminal.go\<close>): the bridge between a websocket and a terminal as steps
    of its goroutines.
  \<^item> \<open>Gateway\<close>, \<open>Ws_Relay\<close> (\<open>gateway\<close>), \<open>Drain\<close> (\<open>lifecycle/drain.go\<close>): checks and rewriting of requests, the relay of websockets, and the
    shutdown that waits for them, at the grain of the atomic operations of \<open>sync.WaitGroup\<close>.
  \<^item> \<open>Api\<close>, \<open>Backend\<close>, \<open>Server\<close> (\<open>handler\<close>, \<open>cmd/server/main.go\<close>): the handlers, any sequence of operations of the backend, and the system with
    authentication, goroutines, tickers, start and shutdown as steps over one world.
  \<^item> \<open>Installer_Shell\<close>, \<open>Installer_Config\<close>, \<open>Installer_Cluster\<close>, \<open>Installer_Nodes\<close>, \<open>Installer_Deploy\<close>, \<open>Installer_Steps\<close> (\<open>tools/liteboxd-installer\<close>):
    quoting and connections, loading of the configuration, the commands on the hosts, the removal of nodes, the deployment, and the plan of an
    \<open>apply\<close> run with the file of its steps.

  Bounds. Loops over lists are recursive functions that end with the list. The startup monitor is a recursion over the number of ticks before
  its deadline, and so is the wait for a pod, so that every deadline is covered. The termination of a deletion is stated
  for a cluster that ends each pod within \<open>px_grace\<close> passes after it was asked to, and takes four passes more. Sessions of the drain manager
  are bounded by the counter of the wait group.

  Conventions. A request, a goroutine or a pass runs as a whole; interleavings are sequences of such operations, and where finer steps
  matter (the drain manager, interactive sessions, the relay) they are modelled as steps. Two requests that overlap inside a service
  function are therefore outside of the model. A Go panic is an error value that leaves every function on the way up. Log lines are left out.

  Parameters, since their code is not part of the repository: the Kubernetes API, SSH and the hosts, the file system, bcrypt, AES-GCM and
  SHA-256, the codecs of YAML, tar and JSON, and Unicode case mapping. Where a property needs more of them than that they answer, its text says so
  and its witness runs on a concrete one.

  Not modelled: the SQL schema and its migrations (their uniqueness and foreign keys are in the statements of the stores), the start of the
  processes and their environment, logging, the command line client and the Go SDK, the copy of the model types for clients, and the web
  interface.
\<close>

section \<open>The backend over one database\<close>

text \<open>
  Whatever requests, background tasks, cleaners, reconciliation and deletion passes and template operations
  run, in any order, on any cluster and with any database faults, the tables stay well formed: ids are unique,
  histories and run items belong to existing rows, and the templates satisfy their own invariant.
\<close>

theorem backend_keeps_invariants:
  assumes "backend_inv b (db w)"
  shows "backend_inv b (db (backend_run b ops w))"
proof -
  have "state_io_rel (db_rel (keeps (backend_inv b))) (for_each (backend_step b) ops)"
    by (intro bi.io_for_each backend_step_inv)
  from io_relD [OF this, of w] show ?thesis
    using assms by (simp add: backend_run_def db_rel_def keeps_def)
qed

theorem backend_keeps_invariants_witness:
  "backend_inv sample_backend (db (backend_run sample_backend
     [TemplateRequest (OpCreate sample_request), CreateSandbox sample_create, DeleteSandbox ''0'', DeletionPass, ReconcilePass ''manual'']
     (sample_world [] [])))"
  by (rule backend_keeps_invariants)
     (simp add: backend_inv_def template_inv_def templates_ok_def specs_ok_def tables_ok_sample,
      simp add: sample_world_def empty_tables_def)

text \<open>
  C4: the token a creation returns opens the gateway for the new sandbox, and no other does, then and after
  anything else the backend has done meanwhile (short of purging old rows): a request that passes
  carries a token with the same hash.
\<close>

theorem created_token_opens_gateway:
  assumes "db_faults w = []" "run_state (SandboxService_Create (b_sandboxes b) req) w = (Inr (sb, task), w1)"
    and "gw_sha256 g = sha256 (b_sandboxes b)" "list_all (\<lambda>op. \<not> is_purge op) ops"
  shows "(\<forall>q v. db v = db w1 \<and> db_faults v = [] \<and> sb_ID sb \<noteq> [] \<and> sb_AccessToken sb \<noteq> [] \<and>
       header_Get (rq_Header q) authorizationHeader = sb_AccessToken sb \<longrightarrow>
       fst (run_state (AuthMiddleware g (sb_ID sb) q) v) = None) \<and>
    (\<forall>q v. db v = db (backend_run b ops w1) \<and> fst (run_state (AuthMiddleware g (sb_ID sb) q) v) = None \<longrightarrow>
       HashToken (gw_sha256 g) (header_Get (rq_Header q) authorizationHeader) = HashToken (gw_sha256 g) (sb_AccessToken sb))"
proof -
  have "create_outcome (b_sandboxes b) req (sandboxes (db w)) (Inr (sb, task)) (sandboxes (db w1))"
    using wp_Create_outcome [OF assms(1), of "b_sandboxes b" req] assms(2) by (simp add: wp_def)
  then obtain r where r: "lookup rec_ID (sb_ID sb) (sandboxes (db w1)) = Some r" "rec_DesiredState r = DesiredStateActive"
    "rec_LifecycleStatus r \<notin> {''deleted'', ''lost''}" "rec_AccessTokenSHA256 r = HashToken (sha256 (b_sandboxes b)) (sb_AccessToken sb)"
    by (rule created_row)
  then obtain r' where r': "lookup rec_ID (sb_ID sb) (sandboxes (db (backend_run b ops w1))) = Some r'" "ages r r'"
    using backend_run_ages [OF assms(4), of w1 b] by (auto simp: rows_age_def)
  have "HashToken (gw_sha256 g) (header_Get (rq_Header q) authorizationHeader) = HashToken (gw_sha256 g) (sb_AccessToken sb)"
    if "db v = db (backend_run b ops w1)" "fst (run_state (AuthMiddleware g (sb_ID sb) q) v) = None" for q v
    using Auth_passes_authorised [OF that(2)] that(1) r' r(4) assms(3) by (auto simp: authorised_def ages_def birth_def)
  with r show ?thesis
    using assms(3) by (auto simp: Auth_passes_iff authorised_def)
qed

theorem created_token_opens_gateway_witness:
  "\<exists>sb task w1. run_state (SandboxService_Create sample_service sample_create) template_world = (Inr (sb, task), w1) \<and>
     fst (run_state (AuthMiddleware sample_gateway (sb_ID sb) (sample_http (sb_AccessToken sb))) (w1\<lparr>db_faults := []\<rparr>)) = None"
proof -
  obtain sb task w1 where run: "run_state (SandboxService_Create sample_service sample_create) template_world = (Inr (sb, task), w1)"
    and "sb_ID sb \<noteq> []" "sb_AccessToken sb \<noteq> []"
    using sample_create_runs by (auto simp: wp_def split: prod.splits)
  moreover have "header_Get (rq_Header (sample_http (sb_AccessToken sb))) authorizationHeader = sb_AccessToken sb"
    by (simp add: sample_http_def header_Get_token)
  moreover have "run_state (SandboxService_Create (b_sandboxes sample_backend) sample_create) template_world = (Inr (sb, task), w1)"
    using run by (simp add: sample_backend_def)
  moreover have "db_faults template_world = []" "gw_sha256 sample_gateway = sha256 (b_sandboxes sample_backend)"
    by (simp_all add: template_world_def sample_backend_def sample_gateway_def sample_service_def)
  ultimately show ?thesis
    using created_token_opens_gateway [of template_world sample_backend sample_create sb task w1 sample_gateway "[]"] by auto
qed

text \<open>
  Once a delete request for a live sandbox has succeeded, the gateway turns down every request to it, whatever the
  backend does afterwards (short of purging old rows) and whatever the database answers.
\<close>

theorem deleted_sandbox_is_unreachable:
  assumes "lookup rec_ID sid (sandboxes (db w)) = Some r" "rec_LifecycleStatus r \<notin> {''terminating'', ''deleted''}"
    and "run_state (SandboxService_Delete s sid) w = (Inr sb, w1)" "list_all (\<lambda>op. \<not> is_purge op) ops"
    and "db v = db (backend_run b ops w1)"
  shows "fst (run_state (AuthMiddleware g sid q) v) \<noteq> None"
proof -
  obtain r1 where "lookup rec_ID sid (sandboxes (db w1)) = Some r1" "rec_DesiredState r1 = DesiredStateDeleted"
    using deleted_row [OF assms(1) disjI2 [OF assms(2)] assms(3)] by blast
  then obtain r2 where "lookup rec_ID sid (sandboxes (db v)) = Some r2" "rec_DesiredState r2 = DesiredStateDeleted"
    using backend_run_ages [OF assms(4), of w1 b] assms(5) by (auto simp: rows_age_def ages_def)
  then show ?thesis
    using Auth_passes_authorised [of g sid q v] by (auto simp: authorised_def)
qed

theorem deleted_sandbox_is_unreachable_witness:
  "\<exists>sb w1. run_state (SandboxService_Delete sample_service ''abc'') gateway_world = (Inr sb, w1) \<and>
     fst (run_state (AuthMiddleware sample_gateway ''abc'' (sample_http ''secret''))
       (backend_run sample_backend [ReconcilePass ''manual'', StartSandbox ''abc''] w1)) \<noteq> None"
proof -
  have "wp (SandboxService_Delete sample_service ''abc'') (\<lambda>y v. \<exists>sb. y = Inr sb) gateway_world"
    by (simp add: SandboxService_Delete_def GetByID_def MarkDeletionRequested_def ignore_err_def AppendStatusHistory_def wp_simps
        wp_sql_stmt Let_def gateway_world_def lookup_def sample_row_def row_defs update_sandbox_def update_where_def)
  then obtain sb w1 where run: "run_state (SandboxService_Delete sample_service ''abc'') gateway_world = (Inr sb, w1)"
    by (auto simp: wp_def split: prod.splits)
  have "lookup rec_ID ''abc'' (sandboxes (db gateway_world)) =
      Some ((sample_row ''abc'')\<lparr>rec_AccessTokenSHA256 := HashToken (\<lambda>x. x) ''secret''\<rparr>)"
    by (simp add: gateway_world_def lookup_def sample_row_def)
  from deleted_sandbox_is_unreachable [OF this _ run _ refl, of "[ReconcilePass ''manual'', StartSandbox ''abc'']" sample_gateway
      "sample_http ''secret''" sample_backend] run show ?thesis
    by (intro exI conjI) (simp_all add: sample_row_def)
qed

end
